(* ===== verification/DC_Prelude.thy ===== *)
theory DC_Prelude
  imports Main "HOL-Library.Word" "HOL-Library.Product_Lexorder"
begin

text \<open>
  Prelude of the development: fixed-width integers, the ordered map that stands for
  \<^verbatim>\<open>std::map\<close>, decimal rendering (\<^verbatim>\<open>std::to_string\<close>), and the theorem collections the
  component theories extend.

  \<^verbatim>\<open>std::map\<close> iterates in ascending key order, and several operations of the coordinator
  (scheduling, disconnecting a session, the auditor) walk a map while they work.  The
  model therefore keeps a map as an association list in ascending key order; the
  operations are executable and their lookup laws hold for every list.
\<close>

named_theorems dc_simps \<open>unfolding rules of the model's straight-line operations\<close>
named_theorems dc_frame \<open>fields an operation leaves alone\<close>
named_theorems dc_inv \<open>operations that keep the coordinator invariant\<close>

type_synonym u8 = "8 word"
type_synonym u16 = "16 word"
type_synonym u32 = "32 word"
type_synonym u64 = "64 word"
type_synonym bytes = "u8 list"

section \<open>Ordered maps\<close>

type_synonym ('k, 'v) omap = "('k \<times> 'v) list"

abbreviation om_find :: "('k, 'v) omap \<Rightarrow> 'k \<Rightarrow> 'v option" where
  "om_find m k \<equiv> map_of m k"

text \<open>\<^verbatim>\<open>m[k] = v\<close>: overwrite in place, or insert where the key belongs.\<close>

fun om_put :: "'k::linorder \<Rightarrow> 'v \<Rightarrow> ('k, 'v) omap \<Rightarrow> ('k, 'v) omap" where
  "om_put k v [] = [(k, v)]"
| "om_put k v (e # m) =
     (if fst e = k then (k, v) # m
      else if k < fst e then (k, v) # e # m
      else e # om_put k v m)"

definition om_erase :: "'k \<Rightarrow> ('k, 'v) omap \<Rightarrow> ('k, 'v) omap" where
  "om_erase k m = filter (\<lambda>e. fst e \<noteq> k) m"

definition om_keys :: "('k, 'v) omap \<Rightarrow> 'k list" where
  "om_keys m = map fst m"

definition om_ordered :: "('k::linorder, 'v) omap \<Rightarrow> bool" where
  "om_ordered m \<longleftrightarrow> sorted (om_keys m) \<and> distinct (om_keys m)"

text \<open>\<^verbatim>\<open>for (auto& kv : m) kv.second = f(kv.second)\<close>.\<close>

definition om_map_values :: "('v \<Rightarrow> 'v) \<Rightarrow> ('k, 'v) omap \<Rightarrow> ('k, 'v) omap" where
  "om_map_values f m = map (\<lambda>(k, v). (k, f v)) m"

lemma om_find_put [simp]:
  "om_find (om_put k v m) k' = (if k' = k then Some v else om_find m k')"
  by (induction m) auto

lemma om_find_erase [simp]:
  "om_find (om_erase k m) k' = (if k' = k then None else om_find m k')"
  by (induction m) (auto simp: om_erase_def)

lemma om_find_map_values [simp]:
  "om_find (om_map_values f m) k = map_option f (om_find m k)"
  by (induction m) (auto simp: om_map_values_def)

lemma om_keys_put: "set (om_keys (om_put k v m)) = insert k (set (om_keys m))"
  by (induction m) (auto simp: om_keys_def)

lemma om_ordered_Nil [simp]: "om_ordered []"
  by (simp add: om_ordered_def om_keys_def)

lemma om_ordered_put [simp]: "om_ordered m \<Longrightarrow> om_ordered (om_put k v m)"
proof (induction m)
  case Nil
  then show ?case by (simp add: om_ordered_def om_keys_def)
next
  case (Cons e m)
  then have "om_ordered m" by (simp add: om_ordered_def om_keys_def)
  with Cons.IH have IH: "om_ordered (om_put k v m)" .
  show ?case
  proof (cases "k < fst e \<or> fst e = k")
    case True
    with Cons.prems show ?thesis
      by (auto simp: om_ordered_def om_keys_def dest: order.strict_trans2)
  next
    case False
    then have "fst e < k" by auto
    with Cons.prems IH show ?thesis
      using om_keys_put [of k v m] by (auto simp: om_ordered_def om_keys_def)
  qed
qed

lemma om_ordered_erase [simp]: "om_ordered m \<Longrightarrow> om_ordered (om_erase k m)"
  by (auto simp: om_ordered_def om_keys_def om_erase_def distinct_map_filter
        intro: sorted_filter)

lemma om_keys_map_values [simp]: "om_keys (om_map_values f m) = om_keys m"
  by (auto simp: om_keys_def om_map_values_def)

lemma om_ordered_map_values [simp]: "om_ordered (om_map_values f m) = om_ordered m"
  by (simp add: om_ordered_def)

lemma om_find_keys: "om_find m k \<noteq> None \<longleftrightarrow> k \<in> set (om_keys m)"
  by (induction m) (auto simp: om_keys_def)

lemma om_find_mem: "om_find m k = Some v \<Longrightarrow> (k, v) \<in> set m"
  by (rule map_of_SomeD)

lemma om_mem_find: "om_ordered m \<Longrightarrow> (k, v) \<in> set m \<Longrightarrow> om_find m k = Some v"
  by (auto simp: om_ordered_def om_keys_def)

section \<open>Tables of self-keyed records\<close>

text \<open>
  The coordinator's tables hold records under the identity that the record itself
  carries.  The interface below is what the operations rely on: a lookup after a store,
  and the identity of a record.  It is stated once and interpreted for every table.
\<close>

locale keyed_table =
  fixes key :: "'v \<Rightarrow> 'k::linorder"
begin

definition store_record :: "'v \<Rightarrow> ('k, 'v) omap \<Rightarrow> ('k, 'v) omap" where
  "store_record v m = om_put (key v) v m"

definition keyed :: "('k, 'v) omap \<Rightarrow> bool" where
  "keyed m \<longleftrightarrow> (\<forall>k v. om_find m k = Some v \<longrightarrow> key v = k)"

lemma keyed_Nil: "keyed []"
  by (simp add: keyed_def)

lemma keyed_put: "keyed m \<Longrightarrow> key v = k \<Longrightarrow> keyed (om_put k v m)"
  by (simp add: keyed_def)

lemma keyed_erase: "keyed m \<Longrightarrow> keyed (om_erase k m)"
  by (simp add: keyed_def)

lemma keyed_map_values: "keyed m \<Longrightarrow> (\<And>v. key (f v) = key v) \<Longrightarrow> keyed (om_map_values f m)"
  by (auto simp: keyed_def)

lemma keyed_find: "keyed m \<Longrightarrow> om_find m k = Some v \<Longrightarrow> key v = k"
  by (simp add: keyed_def)

end

section \<open>Decimal rendering\<close>

fun dec_digits :: "nat \<Rightarrow> string" where
  "dec_digits n =
     (if n < 10 then [char_of (48 + n)] else dec_digits (n div 10) @ [char_of (48 + n mod 10)])"

declare dec_digits.simps [simp del]

definition to_dec :: "u64 \<Rightarrow> string" where
  "to_dec w = dec_digits (unat w)"

lemma dec_digits_nonempty: "dec_digits n \<noteq> []"
  by (subst dec_digits.simps) simp

end
