(* ===== verification/DC_Types.thy ===== *)
theory DC_Types
  imports DC_Prelude
begin

text \<open>
  The typed status domain (\<^verbatim>\<open>include/dc/types.hpp\<close>, \<^verbatim>\<open>src/types.cpp\<close>) and the identity and
  generation handles (\<^verbatim>\<open>include/dc/identity.hpp\<close>, \<^verbatim>\<open>src/identity.cpp\<close>).
\<close>

section \<open>Error codes\<close>

datatype (plugins only: code) error_code =
    Err_Ok
  | Err_InvalidArgument | Err_Malformed | Err_LimitExceeded | Err_Overflow
  | Err_Unsupported | Err_Unknown | Err_NotFound | Err_AlreadyExists | Err_Duplicate
  | Err_Internal | Err_IoError | Err_ProtocolViolation | Err_Unauthorized
  | Err_StaleEpoch | Err_StaleWorkerBoot | Err_StaleWorkerGeneration | Err_StaleLease
  | Err_StaleCompilation | Err_StaleAttempt | Err_StaleSource | Err_StaleIR
  | Err_StaleDependencies | Err_StaleToolchain | Err_StaleTarget
  | Err_StaleSpecialization | Err_StalePolicy | Err_StaleCache | Err_StaleRequest
  | Err_StaleSession
  | Err_NotEligible | Err_NoEligibleWorker | Err_NotAssigned
  | Err_ArtifactMismatch | Err_ArtifactAlreadyCommitted | Err_ArtifactMissing
  | Err_IntegrityFailure | Err_ValidationFailure | Err_ProvenanceMissing
  | Err_ReproducibilityViolation | Err_FanInIncomplete | Err_Cancelled | Err_Fenced
  | Err_Ambiguous | Err_IllegalTransition
  | Err_CacheMiss | Err_CacheStale | Err_CacheIncompatible | Err_CacheCorrupt
  | Err_CacheUnknown
  | Err_PersistenceCorrupt | Err_PersistenceTruncated | Err_SchemaMismatch
  | Err_PersistenceClosed
  | Err_TransportFailure | Err_ConnectionClosed | Err_Timeout | Err_FrameTooLarge
  | Err_Shutdown
  | Err_Unnamed u16

text \<open>
  The \<^verbatim>\<open>std::uint16_t\<close> behind each enumerator.  A value between the groups can be cast to
  the type although it has no enumerator; \<^verbatim>\<open>Err_Unnamed\<close> is such a value.
\<close>

primrec error_code_value :: "error_code \<Rightarrow> u16" where
  "error_code_value Err_Ok = 0"
| "error_code_value Err_InvalidArgument = 1"
| "error_code_value Err_Malformed = 2"
| "error_code_value Err_LimitExceeded = 3"
| "error_code_value Err_Overflow = 4"
| "error_code_value Err_Unsupported = 5"
| "error_code_value Err_Unknown = 6"
| "error_code_value Err_NotFound = 7"
| "error_code_value Err_AlreadyExists = 8"
| "error_code_value Err_Duplicate = 9"
| "error_code_value Err_Internal = 10"
| "error_code_value Err_IoError = 11"
| "error_code_value Err_ProtocolViolation = 12"
| "error_code_value Err_Unauthorized = 13"
| "error_code_value Err_StaleEpoch = 20"
| "error_code_value Err_StaleWorkerBoot = 21"
| "error_code_value Err_StaleWorkerGeneration = 22"
| "error_code_value Err_StaleLease = 23"
| "error_code_value Err_StaleCompilation = 24"
| "error_code_value Err_StaleAttempt = 25"
| "error_code_value Err_StaleSource = 26"
| "error_code_value Err_StaleIR = 27"
| "error_code_value Err_StaleDependencies = 28"
| "error_code_value Err_StaleToolchain = 29"
| "error_code_value Err_StaleTarget = 30"
| "error_code_value Err_StaleSpecialization = 31"
| "error_code_value Err_StalePolicy = 32"
| "error_code_value Err_StaleCache = 33"
| "error_code_value Err_StaleRequest = 34"
| "error_code_value Err_StaleSession = 35"
| "error_code_value Err_NotEligible = 40"
| "error_code_value Err_NoEligibleWorker = 41"
| "error_code_value Err_NotAssigned = 42"
| "error_code_value Err_ArtifactMismatch = 50"
| "error_code_value Err_ArtifactAlreadyCommitted = 51"
| "error_code_value Err_ArtifactMissing = 52"
| "error_code_value Err_IntegrityFailure = 53"
| "error_code_value Err_ValidationFailure = 54"
| "error_code_value Err_ProvenanceMissing = 55"
| "error_code_value Err_ReproducibilityViolation = 56"
| "error_code_value Err_FanInIncomplete = 57"
| "error_code_value Err_Cancelled = 58"
| "error_code_value Err_Fenced = 59"
| "error_code_value Err_Ambiguous = 60"
| "error_code_value Err_IllegalTransition = 61"
| "error_code_value Err_CacheMiss = 70"
| "error_code_value Err_CacheStale = 71"
| "error_code_value Err_CacheIncompatible = 72"
| "error_code_value Err_CacheCorrupt = 73"
| "error_code_value Err_CacheUnknown = 74"
| "error_code_value Err_PersistenceCorrupt = 80"
| "error_code_value Err_PersistenceTruncated = 81"
| "error_code_value Err_SchemaMismatch = 82"
| "error_code_value Err_PersistenceClosed = 83"
| "error_code_value Err_TransportFailure = 90"
| "error_code_value Err_ConnectionClosed = 91"
| "error_code_value Err_Timeout = 92"
| "error_code_value Err_FrameTooLarge = 93"
| "error_code_value Err_Shutdown = 94"
| "error_code_value (Err_Unnamed raw) = raw"

definition is_stale :: "error_code \<Rightarrow> bool" where
  "is_stale c = (20 \<le> error_code_value c \<and> error_code_value c \<le> 35)"

primrec error_code_string :: "error_code \<Rightarrow> string" where
  "error_code_string Err_Ok = ''OK''"
| "error_code_string Err_InvalidArgument = ''InvalidArgument''"
| "error_code_string Err_Malformed = ''Malformed''"
| "error_code_string Err_LimitExceeded = ''LimitExceeded''"
| "error_code_string Err_Overflow = ''Overflow''"
| "error_code_string Err_Unsupported = ''Unsupported''"
| "error_code_string Err_Unknown = ''Unknown''"
| "error_code_string Err_NotFound = ''NotFound''"
| "error_code_string Err_AlreadyExists = ''AlreadyExists''"
| "error_code_string Err_Duplicate = ''Duplicate''"
| "error_code_string Err_Internal = ''Internal''"
| "error_code_string Err_IoError = ''IoError''"
| "error_code_string Err_ProtocolViolation = ''ProtocolViolation''"
| "error_code_string Err_Unauthorized = ''Unauthorized''"
| "error_code_string Err_StaleEpoch = ''StaleEpoch''"
| "error_code_string Err_StaleWorkerBoot = ''StaleWorkerBoot''"
| "error_code_string Err_StaleWorkerGeneration = ''StaleWorkerGeneration''"
| "error_code_string Err_StaleLease = ''StaleLease''"
| "error_code_string Err_StaleCompilation = ''StaleCompilation''"
| "error_code_string Err_StaleAttempt = ''StaleAttempt''"
| "error_code_string Err_StaleSource = ''StaleSource''"
| "error_code_string Err_StaleIR = ''StaleIR''"
| "error_code_string Err_StaleDependencies = ''StaleDependencies''"
| "error_code_string Err_StaleToolchain = ''StaleToolchain''"
| "error_code_string Err_StaleTarget = ''StaleTarget''"
| "error_code_string Err_StaleSpecialization = ''StaleSpecialization''"
| "error_code_string Err_StalePolicy = ''StalePolicy''"
| "error_code_string Err_StaleCache = ''StaleCache''"
| "error_code_string Err_StaleRequest = ''StaleRequest''"
| "error_code_string Err_StaleSession = ''StaleSession''"
| "error_code_string Err_NotEligible = ''NotEligible''"
| "error_code_string Err_NoEligibleWorker = ''NoEligibleWorker''"
| "error_code_string Err_NotAssigned = ''NotAssigned''"
| "error_code_string Err_ArtifactMismatch = ''ArtifactMismatch''"
| "error_code_string Err_ArtifactAlreadyCommitted = ''ArtifactAlreadyCommitted''"
| "error_code_string Err_ArtifactMissing = ''ArtifactMissing''"
| "error_code_string Err_IntegrityFailure = ''IntegrityFailure''"
| "error_code_string Err_ValidationFailure = ''ValidationFailure''"
| "error_code_string Err_ProvenanceMissing = ''ProvenanceMissing''"
| "error_code_string Err_ReproducibilityViolation = ''ReproducibilityViolation''"
| "error_code_string Err_FanInIncomplete = ''FanInIncomplete''"
| "error_code_string Err_Cancelled = ''Cancelled''"
| "error_code_string Err_Fenced = ''Fenced''"
| "error_code_string Err_Ambiguous = ''Ambiguous''"
| "error_code_string Err_IllegalTransition = ''IllegalTransition''"
| "error_code_string Err_CacheMiss = ''CacheMiss''"
| "error_code_string Err_CacheStale = ''CacheStale''"
| "error_code_string Err_CacheIncompatible = ''CacheIncompatible''"
| "error_code_string Err_CacheCorrupt = ''CacheCorrupt''"
| "error_code_string Err_CacheUnknown = ''CacheUnknown''"
| "error_code_string Err_PersistenceCorrupt = ''PersistenceCorrupt''"
| "error_code_string Err_PersistenceTruncated = ''PersistenceTruncated''"
| "error_code_string Err_SchemaMismatch = ''SchemaMismatch''"
| "error_code_string Err_PersistenceClosed = ''PersistenceClosed''"
| "error_code_string Err_TransportFailure = ''TransportFailure''"
| "error_code_string Err_ConnectionClosed = ''ConnectionClosed''"
| "error_code_string Err_Timeout = ''Timeout''"
| "error_code_string Err_FrameTooLarge = ''FrameTooLarge''"
| "error_code_string Err_Shutdown = ''Shutdown''"
| "error_code_string (Err_Unnamed raw) = ''Unknown''"

section \<open>Status and results\<close>

text \<open>\<^verbatim>\<open>class Status\<close>: Ok, or a code with a diagnostic detail.\<close>

record status =
  st_code :: error_code
  st_detail :: string

definition success :: status where
  "success = \<lparr>st_code = Err_Ok, st_detail = []\<rparr>"

definition error :: "error_code \<Rightarrow> string \<Rightarrow> status" where
  "error c d = \<lparr>st_code = c, st_detail = d\<rparr>"

definition st_ok :: "status \<Rightarrow> bool" where
  "st_ok s = (st_code s = Err_Ok)"

definition prepend_context :: "string \<Rightarrow> status \<Rightarrow> status" where
  "prepend_context c s =
     s\<lparr>st_detail := c @ (if st_detail s = [] then [] else '': '' @ st_detail s)\<rparr>"

definition describe :: "status \<Rightarrow> string" where
  "describe s =
     error_code_string (st_code s) @ (if st_detail s = [] then [] else '': '' @ st_detail s)"

text \<open>\<^verbatim>\<open>Result<T>\<close>: a failing status, or a value.\<close>

type_synonym 'a res = "status + 'a"

lemma st_ok_success [simp]: "st_ok success"
  by (simp add: st_ok_def success_def)

lemma st_ok_error [simp]: "st_ok (error c d) = (c = Err_Ok)"
  by (simp add: st_ok_def error_def)

lemma st_code_error [simp]: "st_code (error c d) = c"
  by (simp add: error_def)

lemma st_code_success [simp]: "st_code success = Err_Ok"
  by (simp add: success_def)

section \<open>Identity handles and generations\<close>

text \<open>
  \<^verbatim>\<open>Id<Tag>\<close> and \<^verbatim>\<open>Gen<Tag>\<close>: a 64-bit value whose tag makes it a type of its own.  As in
  the code, a handle of one domain cannot be compared with one of another: the phantom
  parameter is the tag.
\<close>

datatype 'tag ident = Ident (id_value: u64)

datatype 'tag gen = Gen (gen_value: u64)

definition id_is_zero :: "'tag ident \<Rightarrow> bool" where
  "id_is_zero i = (id_value i = 0)"

text \<open>\<^verbatim>\<open>Id::decode\<close>: the zero handle is refused.\<close>

definition id_decode :: "u64 \<Rightarrow> 'tag ident option" where
  "id_decode raw = (if raw = 0 then None else Some (Ident raw))"

definition gen_is_zero :: "'tag gen \<Rightarrow> bool" where
  "gen_is_zero g = (gen_value g = 0)"

text \<open>\<^verbatim>\<open>Gen::next\<close> saturates at the largest value instead of wrapping to zero.\<close>

definition gen_next :: "'tag gen \<Rightarrow> 'tag gen" where
  "gen_next g = Gen (if gen_value g = - 1 then gen_value g else gen_value g + 1)"

instantiation ident :: (type) linorder
begin
definition less_eq_ident :: "'a ident \<Rightarrow> 'a ident \<Rightarrow> bool" where
  "less_eq_ident a b = (id_value a \<le> id_value b)"
definition less_ident :: "'a ident \<Rightarrow> 'a ident \<Rightarrow> bool" where
  "less_ident a b = (id_value a < id_value b)"
instance
  by standard (auto simp: less_eq_ident_def less_ident_def ident.expand)
end

instantiation gen :: (type) linorder
begin
definition less_eq_gen :: "'a gen \<Rightarrow> 'a gen \<Rightarrow> bool" where
  "less_eq_gen a b = (gen_value a \<le> gen_value b)"
definition less_gen :: "'a gen \<Rightarrow> 'a gen \<Rightarrow> bool" where
  "less_gen a b = (gen_value a < gen_value b)"
instance
  by standard (auto simp: less_eq_gen_def less_gen_def gen.expand)
end

lemma Ident_less_iff [simp]:
  "Ident a < Ident b \<longleftrightarrow> a < b" "Ident a \<le> Ident b \<longleftrightarrow> a \<le> b"
  by (simp_all add: less_ident_def less_eq_ident_def)

lemma Gen_less_iff [simp]:
  "Gen a < Gen b \<longleftrightarrow> a < b" "Gen a \<le> Gen b \<longleftrightarrow> a \<le> b"
  by (simp_all add: less_gen_def less_eq_gen_def)

lemma word_not_max_less_Suc: "(w :: u64) \<noteq> - 1 \<Longrightarrow> w < w + 1"
  using unatSuc [of w] eq_neg_iff_add_eq_0 [of w 1]
  by (simp add: word_less_nat_alt add.commute)

lemma gen_next_strict: "gen_value g \<noteq> - 1 \<Longrightarrow> g < gen_next g"
  by (cases g) (auto simp: gen_next_def word_not_max_less_Suc)

lemma gen_next_ge: "g \<le> gen_next g"
proof (cases "gen_value g = - 1")
  case True
  then show ?thesis by (cases g) (simp add: gen_next_def)
next
  case False
  then show ?thesis using gen_next_strict [of g] by simp
qed

lemma gen_next_nonzero: "gen_next g \<noteq> Gen 0"
  using eq_neg_iff_add_eq_0 [of "gen_value g" 1] by (auto simp: gen_next_def)

text \<open>The tags and the handle and generation domains (\<^verbatim>\<open>DC_DECLARE_ID\<close>, \<^verbatim>\<open>DC_DECLARE_GEN\<close>).\<close>

typedecl compilation_tag
typedecl unit_tag
typedecl attempt_tag
typedecl epoch_tag
typedecl request_tag
typedecl worker_tag
typedecl boot_tag
typedecl session_tag
typedecl lease_tag
typedecl source_tag
typedecl ir_tag
typedecl dependency_set_tag
typedecl intermediate_tag
typedecl toolchain_tag
typedecl target_tag
typedecl specialization_tag
typedecl policy_tag
typedecl cache_entry_tag
typedecl artifact_tag
typedecl commit_tag
typedecl evidence_tag
typedecl provenance_tag
typedecl validation_tag

type_synonym compilation_id = "compilation_tag ident"
type_synonym compilation_gen = "compilation_tag gen"
type_synonym unit_id = "unit_tag ident"
type_synonym unit_gen = "unit_tag gen"
type_synonym attempt_id = "attempt_tag ident"
type_synonym attempt_gen = "attempt_tag gen"
type_synonym epoch = "epoch_tag gen"
type_synonym request_id = "request_tag ident"
type_synonym request_gen = "request_tag gen"
type_synonym worker_id = "worker_tag ident"
type_synonym worker_gen = "worker_tag gen"
type_synonym boot_id = "boot_tag ident"
type_synonym session_id = "session_tag ident"
type_synonym lease_id = "lease_tag ident"
type_synonym lease_gen = "lease_tag gen"
type_synonym source_id = "source_tag ident"
type_synonym source_gen = "source_tag gen"
type_synonym ir_id = "ir_tag ident"
type_synonym ir_gen = "ir_tag gen"
type_synonym depset_id = "dependency_set_tag ident"
type_synonym dependency_gen = "dependency_set_tag gen"
type_synonym intermediate_id = "intermediate_tag ident"
type_synonym intermediate_gen = "intermediate_tag gen"
type_synonym toolchain_id = "toolchain_tag ident"
type_synonym toolchain_gen = "toolchain_tag gen"
type_synonym target_id = "target_tag ident"
type_synonym target_gen = "target_tag gen"
type_synonym specialization_id = "specialization_tag ident"
type_synonym specialization_gen = "specialization_tag gen"
type_synonym policy_id = "policy_tag ident"
type_synonym policy_gen = "policy_tag gen"
type_synonym cache_entry_id = "cache_entry_tag ident"
type_synonym cache_gen = "cache_entry_tag gen"
type_synonym artifact_id = "artifact_tag ident"
type_synonym artifact_gen = "artifact_tag gen"
type_synonym commit_id = "commit_tag ident"
type_synonym commit_gen = "commit_tag gen"
type_synonym evidence_id = "evidence_tag ident"
type_synonym evidence_gen = "evidence_tag gen"
type_synonym provenance_id = "provenance_tag ident"
type_synonym provenance_gen = "provenance_tag gen"
type_synonym validation_id = "validation_tag ident"

text \<open>\<^verbatim>\<open>UnixMillis\<close>: timestamps are recorded and shown, and no decision reads them.\<close>

type_synonym unix_millis = int

section \<open>Mixing\<close>

unbundle bit_operations_syntax

definition mix64 :: "u64 \<Rightarrow> u64" where
  "mix64 v0 =
     (let v1 = v0 XOR drop_bit 33 v0;
          v2 = v1 * 0xFF51AFD7ED558CCD;
          v3 = v2 XOR drop_bit 33 v2;
          v4 = v3 * 0xC4CEB9FE1A85EC53
      in v4 XOR drop_bit 33 v4)"

definition fnv1a64_seed :: u64 where
  "fnv1a64_seed = 1469598103934665603"

fun fnv1a64 :: "bytes \<Rightarrow> u64 \<Rightarrow> u64" where
  "fnv1a64 [] h = h"
| "fnv1a64 (b # bs) h = fnv1a64 bs ((h XOR ucast b) * 1099511628211)"

end
