(* ===== verification/DC_Digest.thy ===== *)
theory DC_Digest
  imports DC_Types "HOL-Library.Char_ord"
begin

text \<open>
  SHA-256, CRC-32 and hexadecimal rendering (\<^verbatim>\<open>include/dc/digest.hpp\<close>, \<^verbatim>\<open>src/digest.cpp\<close>).

  A \<^verbatim>\<open>Digest256\<close> is an array of 32 bytes compared lexicographically.  It is modelled by the
  256-bit word those bytes spell in big-endian order, so that \<^verbatim>\<open>operator<\<close> on the array is
  \<open><\<close> on the word and the all-zero sentinel is \<open>0\<close>.
\<close>

unbundle bit_operations_syntax

type_synonym digest256 = "256 word"

definition digest_is_zero :: "digest256 \<Rightarrow> bool" where
  "digest_is_zero d = (d = 0)"

text \<open>\<^verbatim>\<open>raw()[i]\<close>, and the array in order.\<close>

definition digest_byte :: "digest256 \<Rightarrow> nat \<Rightarrow> u8" where
  "digest_byte d i = ucast (drop_bit (8 * (31 - i)) d)"

definition digest_bytes :: "digest256 \<Rightarrow> bytes" where
  "digest_bytes d = map (digest_byte d) [0..<32]"

definition digest_of_bytes :: "bytes \<Rightarrow> digest256" where
  "digest_of_bytes bs = foldl (\<lambda>acc b. push_bit 8 acc OR ucast b) 0 bs"

section \<open>SHA-256\<close>

text \<open>The round constants of the code, in decimal.\<close>

definition sha256_k :: "u32 list" where
  "sha256_k =
    [1116352408, 1899447441, 3049323471, 3921009573, 961987163, 1508970993, 2453635748, 2870763221,
     3624381080, 310598401, 607225278, 1426881987, 1925078388, 2162078206, 2614888103, 3248222580,
     3835390401, 4022224774, 264347078, 604807628, 770255983, 1249150122, 1555081692, 1996064986,
     2554220882, 2821834349, 2952996808, 3210313671, 3336571891, 3584528711, 113926993, 338241895,
     666307205, 773529912, 1294757372, 1396182291, 1695183700, 1986661051, 2177026350, 2456956037,
     2730485921, 2820302411, 3259730800, 3345764771, 3516065817, 3600352804, 4094571909, 275423344,
     430227734, 506948616, 659060556, 883997877, 958139571, 1322822218, 1537002063, 1747873779,
     1955562222, 2024104815, 2227730452, 2361852424, 2428436474, 2756734187, 3204031479, 3329325298]"

definition rotr :: "u32 \<Rightarrow> nat \<Rightarrow> u32" where
  "rotr value bits = drop_bit bits value OR push_bit (32 - bits) value"

definition load_be32 :: "u8 \<Rightarrow> u8 \<Rightarrow> u8 \<Rightarrow> u8 \<Rightarrow> u32" where
  "load_be32 p0 p1 p2 p3 =
     push_bit 24 (ucast p0) OR push_bit 16 (ucast p1) OR push_bit 8 (ucast p2) OR ucast p3"

definition store_be32 :: "u32 \<Rightarrow> bytes" where
  "store_be32 v = [ucast (drop_bit 24 v), ucast (drop_bit 16 v), ucast (drop_bit 8 v), ucast v]"

text \<open>The 16 words of a block, and the schedule that extends them to 64.\<close>

fun block_words :: "bytes \<Rightarrow> u32 list" where
  "block_words (a # b # c # d # bs) = load_be32 a b c d # block_words bs"
| "block_words _ = []"

definition schedule_word :: "u32 list \<Rightarrow> nat \<Rightarrow> u32" where
  "schedule_word w i =
     (let w15 = w ! (i - 15); w2 = w ! (i - 2);
          s0 = rotr w15 7 XOR rotr w15 18 XOR drop_bit 3 w15;
          s1 = rotr w2 17 XOR rotr w2 19 XOR drop_bit 10 w2
      in w ! (i - 16) + s0 + w ! (i - 7) + s1)"

definition schedule :: "bytes \<Rightarrow> u32 list" where
  "schedule block = foldl (\<lambda>w i. w @ [schedule_word w i]) (block_words block) [16..<64]"

text \<open>The working variables \<^verbatim>\<open>a\<close> to \<^verbatim>\<open>h\<close>, and one of the 64 rounds.\<close>

record sha_vars =
  sv_a :: u32
  sv_b :: u32
  sv_c :: u32
  sv_d :: u32
  sv_e :: u32
  sv_f :: u32
  sv_g :: u32
  sv_h :: u32

definition sha_round :: "u32 \<times> u32 \<Rightarrow> sha_vars \<Rightarrow> sha_vars" where
  "sha_round kw v =
     (let s1 = rotr (sv_e v) 6 XOR rotr (sv_e v) 11 XOR rotr (sv_e v) 25;
          ch = (sv_e v AND sv_f v) XOR (NOT (sv_e v) AND sv_g v);
          temp1 = sv_h v + s1 + ch + fst kw + snd kw;
          s0 = rotr (sv_a v) 2 XOR rotr (sv_a v) 13 XOR rotr (sv_a v) 22;
          maj = (sv_a v AND sv_b v) XOR (sv_a v AND sv_c v) XOR (sv_b v AND sv_c v);
          temp2 = s0 + maj
      in \<lparr>sv_a = temp1 + temp2, sv_b = sv_a v, sv_c = sv_b v, sv_d = sv_c v,
          sv_e = sv_d v + temp1, sv_f = sv_e v, sv_g = sv_f v, sv_h = sv_g v\<rparr>)"

definition sha_init_vars :: sha_vars where
  "sha_init_vars =
     \<lparr>sv_a = 0x6a09e667, sv_b = 0xbb67ae85, sv_c = 0x3c6ef372, sv_d = 0xa54ff53a,
      sv_e = 0x510e527f, sv_f = 0x9b05688c, sv_g = 0x1f83d9ab, sv_h = 0x5be0cd19\<rparr>"

definition sha_compress :: "bytes \<Rightarrow> sha_vars \<Rightarrow> sha_vars" where
  "sha_compress block st =
     (let v = fold sha_round (zip sha256_k (schedule block)) st
      in \<lparr>sv_a = sv_a st + sv_a v, sv_b = sv_b st + sv_b v, sv_c = sv_c st + sv_c v,
          sv_d = sv_d st + sv_d v, sv_e = sv_e st + sv_e v, sv_f = sv_f st + sv_f v,
          sv_g = sv_g st + sv_g v, sv_h = sv_h st + sv_h v\<rparr>)"

text \<open>
  The streaming hasher.  \<^verbatim>\<open>buffer_\<close> and \<^verbatim>\<open>buffer_len_\<close> are the list of buffered bytes; the
  bytes of the array past \<^verbatim>\<open>buffer_len_\<close> are never read before they are overwritten.
\<close>

record sha256_state =
  sh_state :: sha_vars
  sh_bit_count :: u64
  sh_buffer :: bytes

definition sha_init :: sha256_state where
  "sha_init = \<lparr>sh_state = sha_init_vars, sh_bit_count = 0, sh_buffer = []\<rparr>"

text \<open>
  The copy loop of \<^verbatim>\<open>update\<close>: fill the buffer as far as it goes, compress when it is full.
  Between calls the buffer holds fewer than 64 bytes; the guard on a full buffer only
  makes the recursion total.
\<close>

function sha_absorb :: "bytes \<Rightarrow> sha_vars \<times> bytes \<Rightarrow> sha_vars \<times> bytes" where
  "sha_absorb data (st, buf) =
     (if data = [] \<or> 64 \<le> length buf then (st, buf)
      else
        let n = min (length data) (64 - length buf);
            buf' = buf @ take n data
        in if length buf' = 64 then sha_absorb (drop n data) (sha_compress buf' st, [])
           else sha_absorb (drop n data) (st, buf'))"
  by pat_completeness auto
termination
  by (relation "measure (\<lambda>(data, _). length data)") auto

declare sha_absorb.simps [simp del]

definition sha_update :: "bytes \<Rightarrow> sha256_state \<Rightarrow> sha256_state" where
  "sha_update data h =
     (let (st, buf) = sha_absorb data (sh_state h, sh_buffer h)
      in h\<lparr>sh_bit_count := sh_bit_count h + of_nat (length data) * 8,
           sh_state := st, sh_buffer := buf\<rparr>)"

lemma sha_absorb_Nil [simp]: "sha_absorb [] sb = sb"
  by (cases sb) (simp add: sha_absorb.simps)

lemma sha_absorb_byte:
  "length buf < 64 \<Longrightarrow>
   sha_absorb [b] (st, buf) =
     (if length buf = 63 then (sha_compress (buf @ [b]) st, []) else (st, buf @ [b]))"
  by (simp add: sha_absorb.simps [of "[b]"] Let_def)

lemma sha_update_byte_buffer:
  "length (sh_buffer h) < 64 \<Longrightarrow>
   sh_buffer (sha_update [b] h) =
     (if length (sh_buffer h) = 63 then [] else sh_buffer h @ [b])"
  by (simp add: sha_update_def sha_absorb_byte split: prod.splits)

text \<open>\<^verbatim>\<open>while (buffer_len_ != 56) update(&zero, 1)\<close>.\<close>

function sha_pad_zeros :: "sha256_state \<Rightarrow> sha256_state" where
  "sha_pad_zeros h =
     (if length (sh_buffer h) = 56 \<or> 64 \<le> length (sh_buffer h) then h
      else sha_pad_zeros (sha_update [0] h))"
  by pat_completeness auto
termination
  by (relation "measure (\<lambda>h. if length (sh_buffer h) \<le> 56 then 56 - length (sh_buffer h)
                              else 121 - length (sh_buffer h))")
    (auto simp: sha_update_byte_buffer)

declare sha_pad_zeros.simps [simp del]

definition be64_bytes :: "u64 \<Rightarrow> bytes" where
  "be64_bytes bits = map (\<lambda>i. ucast (drop_bit (8 * (7 - i)) bits)) [0..<8]"

definition sha_digest :: "sha_vars \<Rightarrow> digest256" where
  "sha_digest v = digest_of_bytes
     (concat (map store_be32 [sv_a v, sv_b v, sv_c v, sv_d v, sv_e v, sv_f v, sv_g v, sv_h v]))"

definition sha_finish :: "sha256_state \<Rightarrow> digest256" where
  "sha_finish h =
     (let bits = sh_bit_count h;
          h1 = sha_pad_zeros (sha_update [0x80] h);
          h2 = sha_update (be64_bytes bits) h1
      in sha_digest (sh_state h2))"

definition sha256 :: "bytes \<Rightarrow> digest256" where
  "sha256 data = sha_finish (sha_update data sha_init)"

section \<open>CRC-32\<close>

definition crc_step :: "u32 \<Rightarrow> u32" where
  "crc_step c = (if c AND 1 \<noteq> 0 then 0xEDB88320 XOR drop_bit 1 c else drop_bit 1 c)"

definition crc_table :: "u32 list" where
  "crc_table = map (\<lambda>i. (crc_step ^^ 8) (of_nat i)) [0..<256]"

definition crc_byte :: "u8 \<Rightarrow> u32 \<Rightarrow> u32" where
  "crc_byte b crc = crc_table ! unat ((crc XOR ucast b) AND 0xFF) XOR drop_bit 8 crc"

definition crc32 :: "bytes \<Rightarrow> u32 \<Rightarrow> u32" where
  "crc32 data seed = fold crc_byte data (seed XOR 0xFFFFFFFF) XOR 0xFFFFFFFF"

section \<open>Hexadecimal\<close>

definition hex_digit :: "nat \<Rightarrow> char" where
  "hex_digit n = ''0123456789abcdef'' ! n"

text \<open>\<^verbatim>\<open>hex_value\<close>: \<^verbatim>\<open>None\<close> stands for the \<^verbatim>\<open>-1\<close> of the code.\<close>

definition hex_value :: "char \<Rightarrow> nat option" where
  "hex_value c =
     (if CHR ''0'' \<le> c \<and> c \<le> CHR ''9'' then Some (of_char c - of_char (CHR ''0''))
      else if CHR ''a'' \<le> c \<and> c \<le> CHR ''f'' then Some (of_char c - of_char (CHR ''a'') + 10)
      else if CHR ''A'' \<le> c \<and> c \<le> CHR ''F'' then Some (of_char c - of_char (CHR ''A'') + 10)
      else None)"

fun to_hex :: "bytes \<Rightarrow> string" where
  "to_hex [] = []"
| "to_hex (b # bs) =
     hex_digit (unat (drop_bit 4 b AND 0x0F)) # hex_digit (unat (b AND 0x0F)) # to_hex bs"

fun from_hex :: "string \<Rightarrow> bytes option" where
  "from_hex [] = Some []"
| "from_hex [c] = None"
| "from_hex (c # d # cs) =
     (case (hex_value c, hex_value d, from_hex cs) of
        (Some hi, Some lo, Some bs) \<Rightarrow> Some ((push_bit 4 (of_nat hi) OR of_nat lo) # bs)
      | _ \<Rightarrow> None)"

definition digest_hex :: "digest256 \<Rightarrow> string" where
  "digest_hex d = to_hex (digest_bytes d)"

definition digest_parse_hex :: "string \<Rightarrow> digest256 option" where
  "digest_parse_hex t =
     (if length t \<noteq> 64 then None else map_option digest_of_bytes (from_hex t))"

section \<open>Facts\<close>

definition sha_absorb1 :: "sha_vars \<times> bytes \<Rightarrow> u8 \<Rightarrow> sha_vars \<times> bytes" where
  "sha_absorb1 sb b = sha_absorb [b] sb"

lemma foldl_absorb1:
  "length buf < 64 \<Longrightarrow> length buf + length xs \<le> 64 \<Longrightarrow>
   foldl sha_absorb1 (st, buf) xs =
     (if length buf + length xs = 64 then (sha_compress (buf @ xs) st, []) else (st, buf @ xs))"
proof (induction xs arbitrary: buf)
  case Nil
  then show ?case by simp
next
  case (Cons x xs)
  show ?case
  proof (cases "xs = []")
    case True
    with Cons.prems show ?thesis by (simp add: sha_absorb1_def sha_absorb_byte)
  next
    case False
    with Cons.prems have "length buf \<noteq> 63" by (cases xs) auto
    with Cons.IH [of "buf @ [x]"] Cons.prems show ?thesis
      by (simp add: sha_absorb1_def sha_absorb_byte)
  qed
qed

lemma sha_absorb_bytewise:
  "length (snd sb) < 64 \<Longrightarrow> sha_absorb data sb = foldl sha_absorb1 sb data"
proof (induction "length data" arbitrary: data sb rule: less_induct)
  case less
  obtain st buf where sb: "sb = (st, buf)" by (cases sb)
  show ?case
  proof (cases "data = []")
    case True
    then show ?thesis by simp
  next
    case False
    define n where "n = min (length data) (64 - length buf)"
    have n: "0 < n" "n \<le> length data" "length buf + n \<le> 64"
      using False less.prems by (auto simp: n_def sb)
    have split: "foldl sha_absorb1 sb data
        = foldl sha_absorb1 (foldl sha_absorb1 sb (take n data)) (drop n data)"
      by (metis append_take_drop_id foldl_append)
    have chunk: "foldl sha_absorb1 (st, buf) (take n data) =
        (if length buf + n = 64 then (sha_compress (buf @ take n data) st, [])
         else (st, buf @ take n data))"
      using less.prems n by (subst foldl_absorb1) (auto simp: sb)
    show ?thesis
    proof (cases "length buf + n = 64")
      case True
      have "sha_absorb (drop n data) (sha_compress (buf @ take n data) st, [])
          = foldl sha_absorb1 (sha_compress (buf @ take n data) st, []) (drop n data)"
        using n by (intro less.hyps) auto
      with True chunk split False less.prems n show ?thesis
        unfolding sb by (subst sha_absorb.simps) (simp add: n_def [symmetric] Let_def)
    next
      case ne: False
      have "sha_absorb (drop n data) (st, buf @ take n data)
          = foldl sha_absorb1 (st, buf @ take n data) (drop n data)"
        using n ne by (intro less.hyps) auto
      with ne chunk split False less.prems n show ?thesis
        unfolding sb by (subst sha_absorb.simps) (simp add: n_def [symmetric] Let_def)
    qed
  qed
qed

lemma sha_absorb_buffer:
  "length (snd sb) < 64 \<Longrightarrow> length (snd (sha_absorb data sb)) < 64"
proof (induction data arbitrary: sb)
  case (Cons b data)
  obtain st buf where sb: "sb = (st, buf)" by (cases sb)
  from Cons.prems have one: "length (snd (sha_absorb1 sb b)) < 64"
    by (auto simp: sb sha_absorb1_def sha_absorb_byte)
  from Cons.IH [OF one] Cons.prems one show ?case
    by (simp add: sha_absorb_bytewise)
qed simp

lemma sha_absorb_append:
  assumes "length (snd sb) < 64"
  shows "sha_absorb (xs @ ys) sb = sha_absorb ys (sha_absorb xs sb)"
  using assms sha_absorb_buffer [OF assms, of xs] by (simp add: sha_absorb_bytewise)

theorem sha_update_append:
  assumes "length (sh_buffer h) < 64"
  shows "sha_update (xs @ ys) h = sha_update ys (sha_update xs h)"
  using assms sha_absorb_append [of "(sh_state h, sh_buffer h)" xs ys]
  by (simp add: sha_update_def algebra_simps split: prod.splits)

lemma bit_digest_fold:
  "bit (foldl (\<lambda>acc b. push_bit 8 acc OR ucast b) (0 :: digest256) (bs :: bytes)) n \<longleftrightarrow>
     n < 256 \<and> n div 8 < length bs \<and> bit (bs ! (length bs - 1 - n div 8)) (n mod 8)"
proof (induction bs arbitrary: n rule: rev_induct)
  case Nil
  then show ?case by simp
next
  case (snoc b bs)
  show ?case
  proof (cases "n < 8")
    case True
    then show ?thesis
      by (auto simp: bit_simps nth_append)
  next
    case False
    then obtain m where m: "n = m + 8" by (metis add.commute le_Suc_ex linorder_not_less)
    have d: "(m + 8) div 8 = Suc (m div 8)" "(m + 8) mod 8 = m mod 8" by simp_all
    have high: "\<not> bit (ucast b :: digest256) (m + 8)"
      using bit_imp_le_length [of b "m + 8"] by (auto simp: bit_ucast_iff)
    have "bit (push_bit 8 (foldl (\<lambda>acc b. push_bit 8 acc OR ucast b) (0 :: digest256) bs)
            OR ucast b) (m + 8)
        \<longleftrightarrow> m + 8 < 256 \<and> bit (foldl (\<lambda>acc b. push_bit 8 acc OR ucast b) (0 :: digest256) bs) m"
      using high by (simp add: bit_or_iff bit_push_bit_iff)
    also have "\<dots> \<longleftrightarrow> m + 8 < 256 \<and> m div 8 < length bs
        \<and> bit (bs ! (length bs - 1 - m div 8)) (m mod 8)"
      by (subst snoc.IH) auto
    finally show ?thesis
      by (auto simp: m d nth_append)
  qed
qed

lemma digest_of_bytes_digest_bytes [simp]: "digest_of_bytes (digest_bytes d) = d"
proof (rule bit_word_eqI)
  fix n assume n: "n < LENGTH(256)"
  then have "n div 8 < 32" by simp
  moreover have "8 * (31 - (31 - n div 8)) + n mod 8 = n" using \<open>n div 8 < 32\<close> by simp
  ultimately show "bit (digest_of_bytes (digest_bytes d)) n = bit d n"
    using n by (auto simp: digest_of_bytes_def bit_digest_fold digest_bytes_def digest_byte_def bit_simps)
qed

lemma digest_bytes_digest_of_bytes:
  assumes "length bs = 32"
  shows "digest_bytes (digest_of_bytes bs) = bs"
proof (rule nth_equalityI)
  show "length (digest_bytes (digest_of_bytes bs)) = length bs"
    using assms by (simp add: digest_bytes_def)
next
  fix i assume "i < length (digest_bytes (digest_of_bytes bs))"
  then have i: "i < 32" by (simp add: digest_bytes_def)
  show "digest_bytes (digest_of_bytes bs) ! i = bs ! i"
  proof (rule bit_word_eqI)
    fix n assume n: "n < LENGTH(8)"
    have e: "(8 * (31 - i) + n) div 8 = 31 - i" "(8 * (31 - i) + n) mod 8 = n"
      using n by simp_all
    have "8 * (31 - i) + n < 256" using n i by simp
    then have "bit (digest_of_bytes bs) (8 * (31 - i) + n) = bit (bs ! i) n"
      using i assms by (simp only: digest_of_bytes_def bit_digest_fold e) simp
    then show "bit (digest_bytes (digest_of_bytes bs) ! i) n = bit (bs ! i) n"
      using n i by (simp add: digest_bytes_def digest_byte_def bit_ucast_iff bit_drop_bit_eq)
  qed
qed

lemma hex_value_digits: "list_all (\<lambda>n. hex_value (hex_digit n) = Some n) [0..<16]"
  by code_simp

lemma hex_value_digit: "n < 16 \<Longrightarrow> hex_value (hex_digit n) = Some n"
  using hex_value_digits by (simp add: list_all_iff)

lemma nibbles_join:
  "push_bit 4 (drop_bit 4 b) AND 240 OR b AND 15 = (b :: u8)"
proof -
  have m: "(240 :: u8) = push_bit 4 (mask 4)" "(15 :: u8) = mask 4"
    by (simp_all add: mask_eq_exp_minus_1)
  show ?thesis
    unfolding m by (rule bit_word_eqI) (auto simp: bit_simps)
qed

lemma nibble_bound: "unat ((b :: u8) AND 0x0F) < 16"
proof -
  have "b AND 0x0F \<le> 0x0F" by (rule word_and_le1)
  then show ?thesis by (simp add: word_le_nat_alt)
qed

theorem from_hex_to_hex: "from_hex (to_hex bs) = Some bs"
  by (induction bs) (simp_all add: hex_value_digit nibble_bound nibbles_join)

lemma length_to_hex: "length (to_hex bs) = 2 * length bs"
  by (induction bs) simp_all

text \<open>
  Hexadecimal text is faithful: parsing the text of a digest gives that digest
  back.
\<close>

theorem digest_hex_roundtrip: "digest_parse_hex (digest_hex d) = Some d"
  by (simp add: digest_parse_hex_def digest_hex_def length_to_hex from_hex_to_hex)
    (simp add: digest_bytes_def)

lemma crc_step_alt: "crc_step c = drop_bit 1 c XOR (if odd c then 0xEDB88320 else 0)"
proof -
  have "c AND 1 \<noteq> 0 \<longleftrightarrow> odd c"
    by (simp only: and_one_eq odd_iff_mod_2_eq_one not_mod_2_eq_0_eq_1)
  then show ?thesis by (simp add: crc_step_def xor.commute)
qed

lemma odd_xor_word: "odd (a XOR b :: u32) = (odd a \<noteq> odd b)"
  using bit_xor_iff [of a b 0] by (simp add: bit_0)

lemma crc_step_xor: "crc_step (a XOR b) = crc_step a XOR crc_step b"
  by (simp add: crc_step_alt odd_xor_word drop_bit_xor ac_simps)

lemma crc_steps_xor: "(crc_step ^^ n) (a XOR b) = (crc_step ^^ n) a XOR (crc_step ^^ n) b"
  by (induction n) (simp_all add: crc_step_xor)

lemma crc_steps_shift:
  "(\<And>k. k < n \<Longrightarrow> \<not> bit c k) \<Longrightarrow> (crc_step ^^ n) c = drop_bit n c"
proof (induction n arbitrary: c)
  case 0
  then show ?case by simp
next
  case (Suc n)
  from Suc.prems [of 0] have "even c" by (simp add: bit_0)
  then have one: "crc_step c = drop_bit 1 c" by (simp add: crc_step_alt)
  have "(crc_step ^^ n) (drop_bit 1 c) = drop_bit n (drop_bit 1 c)"
    using Suc.prems by (intro Suc.IH) (simp add: bit_drop_bit_eq)
  with one show ?case by (simp add: funpow_Suc_right del: funpow.simps)
qed

definition crc_byte_bitwise :: "u8 \<Rightarrow> u32 \<Rightarrow> u32" where
  "crc_byte_bitwise b crc = (crc_step ^^ 8) (crc XOR ucast b)"

lemma crc_table_nth: "i < 256 \<Longrightarrow> crc_table ! i = (crc_step ^^ 8) (of_nat i)"
  by (simp add: crc_table_def)

lemma unat_inv: "of_nat (unat (w :: u32)) = w"
  by simp

lemma crc_byte_eq_bitwise: "crc_byte b crc = crc_byte_bitwise b crc"
proof -
  let ?x = "crc XOR ucast b"
  let ?lo = "?x AND 0xFF" and ?hi = "?x AND NOT 0xFF"
  have m: "(0xFF :: u32) = mask 8" by (simp add: mask_eq_exp_minus_1)
  have x: "?x = ?lo XOR ?hi"
    by (rule bit_word_eqI) (auto simp: bit_simps m)
  have "?lo \<le> 0xFF" by (rule word_and_le1)
  then have lo: "unat ?lo < 256" by (simp add: word_le_nat_alt)
  have "(crc_step ^^ 8) ?hi = drop_bit 8 ?hi"
    by (rule crc_steps_shift) (simp add: bit_simps m)
  also have "drop_bit 8 ?hi = drop_bit 8 crc"
    by (rule bit_word_eqI) (auto simp: bit_simps m dest: bit_imp_le_length)
  finally have hi: "(crc_step ^^ 8) ?hi = drop_bit 8 crc" .
  have "(crc_step ^^ 8) ?x = (crc_step ^^ 8) ?lo XOR (crc_step ^^ 8) ?hi"
    by (subst x) (rule crc_steps_xor)
  also have "\<dots> = crc_table ! unat ?lo XOR drop_bit 8 crc"
    using lo unat_inv [of ?lo] by (simp only: crc_table_nth hi)
  finally show ?thesis by (simp only: crc_byte_def crc_byte_bitwise_def)
qed

text \<open>
  The table-driven CRC-32 of the code is the bit-serial CRC: for every input and
  seed it agrees with eight conditional shifts per byte.
\<close>

theorem crc32_bitwise:
  "crc32 data seed = fold crc_byte_bitwise data (seed XOR 0xFFFFFFFF) XOR 0xFFFFFFFF"
proof -
  have "crc_byte = crc_byte_bitwise" by (intro ext) (rule crc_byte_eq_bitwise)
  then show ?thesis by (simp add: crc32_def)
qed
text \<open>FIPS 180-4: pad the message to whole blocks, then compress block after block.\<close>

function sha_blocks :: "bytes \<Rightarrow> bytes list" where
  "sha_blocks bs = (if bs = [] then [] else take 64 bs # sha_blocks (drop 64 bs))"
  by pat_completeness auto
termination by (relation "measure length") auto

declare sha_blocks.simps [simp del]

definition sha_padding :: "nat \<Rightarrow> bytes" where
  "sha_padding n = 0x80 # replicate ((119 - n mod 64) mod 64) 0 @ be64_bytes (of_nat n * 8)"

definition sha256_spec :: "bytes \<Rightarrow> digest256" where
  "sha256_spec data =
     sha_digest (fold sha_compress (sha_blocks (data @ sha_padding (length data))) sha_init_vars)"

lemma sub_mod64: "r \<le> k \<Longrightarrow> k < 64 \<Longrightarrow> (k + 64 - r) mod 64 = k - (r :: nat)"
proof -
  assume "r \<le> k" "k < 64"
  then have e: "k + 64 - r = (k - r) + 64" by simp
  have "(k + 64 - r) mod 64 = (k - r) mod 64" unfolding e by (rule mod_add_self2)
  also have "\<dots> = k - r" using \<open>k < 64\<close> by (intro mod_less) simp
  finally show ?thesis .
qed

lemma pad_mod_step:
  assumes "l < 64" "l \<noteq> 56"
  shows "(120 - l) mod 64 = Suc ((120 - (if l = 63 then 0 else Suc l)) mod 64)"
proof (cases "l < 56")
  case True
  then show ?thesis using sub_mod64 [of l 56] sub_mod64 [of "Suc l" 56] by simp
next
  case False
  with assms show ?thesis by (cases "l = 63") simp_all
qed

lemma pad_mod_first: "r < 64 \<Longrightarrow> (120 - (r + 1) mod 64) mod 64 = (119 - r) mod (64 :: nat)"
  by (cases "r = 63") simp_all

lemma pad_mod_total: "r < 64 \<Longrightarrow> (r + (9 + (119 - r) mod 64)) mod (64 :: nat) = 0"
proof (cases "r \<le> 55")
  case True
  then show ?thesis using sub_mod64 [of r 55] by simp
next
  case False
  assume "r < 64"
  with False have "(119 - r) mod 64 = 119 - r" by simp
  with \<open>r < 64\<close> show ?thesis by simp
qed

lemma sha_update_parts:
  "sh_state (sha_update data h) = fst (sha_absorb data (sh_state h, sh_buffer h))"
  "sh_buffer (sha_update data h) = snd (sha_absorb data (sh_state h, sh_buffer h))"
  "sh_bit_count (sha_update data h) = sh_bit_count h + of_nat (length data) * 8"
  by (simp_all add: sha_update_def split: prod.splits)

lemma sha_absorb_blocks:
  "length bs mod 64 = 0 \<Longrightarrow> sha_absorb bs (st, []) = (fold sha_compress (sha_blocks bs) st, [])"
proof (induction bs arbitrary: st rule: sha_blocks.induct)
  case (1 bs)
  show ?case
  proof (cases "bs = []")
    case True
    then show ?thesis by (simp add: sha_blocks.simps)
  next
    case False
    with "1.prems" have len: "64 \<le> length bs"
      by (metis length_0_conv linorder_not_less mod_less)
    have "sha_absorb bs (st, []) = sha_absorb (drop 64 bs) (sha_compress (take 64 bs) st, [])"
      using False len by (subst sha_absorb.simps) (simp add: Let_def)
    moreover have "length (drop 64 bs) mod 64 = 0"
      using "1.prems" len by (simp add: le_mod_geq)
    ultimately show ?thesis
      using "1.IH" False by (simp add: sha_blocks.simps [of bs])
  qed
qed

lemma sha_absorb_buffer_length:
  "length (snd sb) < 64 \<Longrightarrow>
   length (snd (sha_absorb data sb)) = (length (snd sb) + length data) mod 64"
proof (induction data arbitrary: sb)
  case Nil
  then show ?case by simp
next
  case (Cons b data)
  obtain st buf where sb: "sb = (st, buf)" by (cases sb)
  have one: "length (snd (sha_absorb [b] sb)) = (if length buf = 63 then 0 else Suc (length buf))"
    using Cons.prems by (simp add: sb sha_absorb_byte)
  have "sha_absorb (b # data) sb = sha_absorb data (sha_absorb [b] sb)"
    using sha_absorb_append [OF Cons.prems, of "[b]" data] by simp
  with Cons.IH [of "sha_absorb [b] sb"] one Cons.prems show ?case
    by (simp add: sb)
qed

lemma sha_pad_zeros_eq:
  "length (sh_buffer h) < 64 \<Longrightarrow>
   sha_pad_zeros h = sha_update (replicate ((120 - length (sh_buffer h)) mod 64) 0) h"
proof (induction h rule: sha_pad_zeros.induct)
  case (1 h)
  let ?l = "length (sh_buffer h)"
  show ?case
  proof (cases "?l = 56")
    case True
    then show ?thesis by (simp add: sha_pad_zeros.simps sha_update_def)
  next
    case False
    let ?h = "sha_update [0] h"
    from "1.prems" have buf: "length (sh_buffer ?h) = (if ?l = 63 then 0 else Suc ?l)"
      by (simp add: sha_update_byte_buffer)
    then have lt: "length (sh_buffer ?h) < 64" using "1.prems" by simp
    have n: "(120 - ?l) mod 64 = Suc ((120 - length (sh_buffer ?h)) mod 64)"
      unfolding buf using "1.prems" False by (rule pad_mod_step)
    have "sha_pad_zeros h = sha_pad_zeros ?h"
      using "1.prems" False by (subst sha_pad_zeros.simps) simp
    also have "\<dots> = sha_update (replicate ((120 - length (sh_buffer ?h)) mod 64) 0) ?h"
      using "1.prems" False lt by (intro "1.IH") auto
    also have "\<dots> = sha_update ([0] @ replicate ((120 - length (sh_buffer ?h)) mod 64) 0) h"
      using "1.prems" by (simp only: sha_update_append)
    finally show ?thesis by (simp only: n replicate_Suc append_Cons append_Nil)
  qed
qed

lemma sha_update_buffer_lt:
  "length (sh_buffer h) < 64 \<Longrightarrow> length (sh_buffer (sha_update d h)) < 64"
  using sha_absorb_buffer [of "(sh_state h, sh_buffer h)" d] by (simp add: sha_update_parts)

lemma length_sha_padding: "(n + length (sha_padding n)) mod 64 = 0"
proof -
  have "(n + (9 + (119 - n mod 64) mod 64)) mod 64 = (n mod 64 + (9 + (119 - n mod 64) mod 64)) mod 64"
    by (simp add: mod_simps)
  also have "\<dots> = 0" by (rule pad_mod_total) simp
  finally show ?thesis by (simp add: sha_padding_def be64_bytes_def)
qed

text \<open>
  C39: Streaming does not change the hash.  Absorbing a message byte by byte
  through the 64-byte buffer, padding it one byte at a time and appending the bit counter
  gives the fold of the compression function over the 64-byte blocks of the padded message.
\<close>

theorem sha256_correct: "sha256 data = sha256_spec data"
proof -
  let ?h0 = "sha_update data sha_init"
  have b0: "length (sh_buffer ?h0) = length data mod 64"
    using sha_absorb_buffer_length [of "(sh_state sha_init, sh_buffer sha_init)" data]
    by (simp add: sha_update_parts sha_init_def)
  then have l0: "length (sh_buffer ?h0) < 64" by simp
  let ?h1 = "sha_update [0x80] ?h0"
  have b1: "length (sh_buffer ?h1) = (length data mod 64 + 1) mod 64"
    using sha_absorb_buffer_length [of "(sh_state ?h0, sh_buffer ?h0)" "[0x80]"] l0 b0
    by (simp add: sha_update_parts)
  have n: "(120 - length (sh_buffer ?h1)) mod 64 = (119 - length data mod 64) mod 64"
    unfolding b1 by (rule pad_mod_first) simp
  have l1: "length (sh_buffer ?h1) < 64" unfolding b1 by simp
  let ?z = "replicate ((119 - length data mod 64) mod 64) (0 :: u8)"
  have bits: "sh_bit_count ?h0 = of_nat (length data) * 8"
    by (simp add: sha_update_parts sha_init_def)
  have "sha256 data = sha_digest (sh_state
      (sha_update (be64_bytes (of_nat (length data) * 8)) (sha_update ?z ?h1)))"
    by (simp only: sha256_def sha_finish_def Let_def bits sha_pad_zeros_eq [OF l1] n)
  also have "\<dots> = sha_digest (sh_state (sha_update (data @ sha_padding (length data)) sha_init))"
    using l0 l1 sha_update_buffer_lt [OF l1]
    by (simp add: sha_padding_def sha_init_def flip: sha_update_append)
  also have "\<dots> = sha256_spec data"
    using sha_absorb_blocks [of "data @ sha_padding (length data)" sha_init_vars] length_sha_padding
    by (simp add: sha256_spec_def sha_update_parts sha_init_def)
  finally show ?thesis .
qed
end
