(* ===== verification/DC_Model.thy ===== *)
theory DC_Model
  imports DC_Digest
begin

text \<open>
  The data model of requests, environments and results (\<^verbatim>\<open>include/dc/model.hpp\<close>): one
  datatype per enumeration, one record per struct, fields in the order of the header.
  A field is named after the source's, prefixed by an abbreviation of its struct.
\<close>

section \<open>Evidence and content\<close>

datatype evidence_class = EC_Unknown | EC_Real | EC_Synthetic | EC_Unsupported

record evidence =
  ev_id :: evidence_id
  ev_generation :: evidence_gen
  ev_klass :: evidence_class
  ev_source :: string
  ev_detail :: string

record content_ref =
  rf_digest :: digest256
  rf_size :: u64

definition content_ref_is_set :: "content_ref \<Rightarrow> bool" where
  "content_ref_is_set r = (\<not> digest_is_zero (rf_digest r))"

definition no_content :: content_ref where
  "no_content = \<lparr>rf_digest = 0, rf_size = 0\<rparr>"

record blob =
  bl_digest :: digest256
  bl_bytes :: bytes

section \<open>Sources and dependencies\<close>

datatype input_format =
    IF_Unknown | IF_Source | IF_PreprocessedSource | IF_LlvmIr | IF_Ptx | IF_SpirV
  | IF_VendorIr | IF_Object | IF_Cubin | IF_Assembly | IF_Other

fun input_format_value :: "input_format \<Rightarrow> u8" where
  "input_format_value IF_Unknown = 0"
| "input_format_value IF_Source = 1"
| "input_format_value IF_PreprocessedSource = 2"
| "input_format_value IF_LlvmIr = 3"
| "input_format_value IF_Ptx = 4"
| "input_format_value IF_SpirV = 5"
| "input_format_value IF_VendorIr = 6"
| "input_format_value IF_Object = 7"
| "input_format_value IF_Cubin = 8"
| "input_format_value IF_Assembly = 9"
| "input_format_value IF_Other = 10"

text \<open>Formats are sorted by their enumerator value.\<close>

instantiation input_format :: linorder
begin
definition less_eq_input_format :: "input_format \<Rightarrow> input_format \<Rightarrow> bool" where
  "less_eq_input_format a b = (input_format_value a \<le> input_format_value b)"
definition less_input_format :: "input_format \<Rightarrow> input_format \<Rightarrow> bool" where
  "less_input_format a b = (input_format_value a < input_format_value b)"
instance
proof
  fix a b :: input_format
  assume "a \<le> b" "b \<le> a"
  then have "input_format_value a = input_format_value b"
    by (simp add: less_eq_input_format_def)
  then show "a = b" by (cases a; cases b) simp_all
qed (auto simp: less_eq_input_format_def less_input_format_def)
end

datatype dependency_kind =
    DK_Header | DK_Module | DK_GeneratedCode | DK_Library | DK_DeviceLibrary
  | DK_RuntimeLibrary | DK_CompilerPlugin | DK_Configuration | DK_ModelMetadata
  | DK_ToolchainFile | DK_Other

record dependency_entry =
  de_name :: string
  de_kind :: dependency_kind
  de_content :: content_ref
  de_identity_digest :: digest256

record dependency_set =
  ds_id :: depset_id
  ds_generation :: dependency_gen
  ds_entries :: "dependency_entry list"
  ds_identity_digest :: digest256

section \<open>Targets\<close>

datatype os_kind = Os_Unknown | Os_Windows | Os_Linux | Os_MacOs | Os_Bsd | Os_BareMetal

datatype arch_kind =
  Arch_Unknown | Arch_X86_64 | Arch_Aarch64 | Arch_X86 | Arch_Arm32 | Arch_RiscV64

datatype abi_kind = Abi_Unknown | Abi_Msvc | Abi_Itanium | Abi_Gnu

datatype object_format =
  OF_Unknown | OF_Coff | OF_Elf | OF_MachO | OF_Ptx | OF_Cubin | OF_Fatbin

datatype accelerator_vendor = AV_None | AV_Nvidia | AV_Amd | AV_Intel | AV_Unknown

datatype stdlib_kind = SL_Unknown | SL_MsvcStl | SL_Libstdcxx | SL_Libcxx | SL_None

record accelerator_target =
  at_vendor :: accelerator_vendor
  at_architecture :: string
  at_compute_major :: u32
  at_compute_minor :: u32
  at_isa :: string
  at_device_runtime :: string

record target_identity =
  tg_id :: target_id
  tg_generation :: target_gen
  tg_os :: os_kind
  tg_arch :: arch_kind
  tg_abi :: abi_kind
  tg_triple :: string
  tg_object_format :: object_format
  tg_stdlib :: stdlib_kind
  tg_runtime_abi :: string
  tg_accelerator :: accelerator_target
  tg_evidence :: evidence_class
  tg_identity_digest :: digest256

section \<open>Toolchains\<close>

datatype compiler_family =
    CF_Unknown | CF_Msvc | CF_Clang | CF_Gnu | CF_NvidiaNvcc | CF_SyntheticRocm
  | CF_SyntheticLevelZero | CF_SyntheticGeneric | CF_MsvcLinker

datatype binary_id_state = BI_Unknown | BI_Known | BI_Unavailable

record binary_identity =
  bi_state :: binary_id_state
  bi_digest :: digest256
  bi_size :: u64
  bi_path :: string
  bi_version_string :: string

record plugin_identity =
  pi_id :: string
  pi_version :: string
  pi_digest :: digest256

record sdk_component =
  sc_name :: string
  sc_version :: string
  sc_root :: string

record toolchain_identity =
  tc_id :: toolchain_id
  tc_generation :: toolchain_gen
  tc_family :: compiler_family
  tc_version_string :: string
  tc_version_major :: u32
  tc_version_minor :: u32
  tc_version_patch :: u32
  tc_compiler :: binary_identity
  tc_linker :: binary_identity
  tc_assembler :: binary_identity
  tc_runtime_library :: binary_identity
  tc_sdk :: "sdk_component list"
  tc_plugins :: "plugin_identity list"
  tc_target_libraries :: "string list"
  tc_configuration :: "(string \<times> string) list"
  tc_evidence :: evidence_class
  tc_evidence_id :: evidence_id
  tc_evidence_generation :: evidence_gen
  tc_identity_digest :: digest256

section \<open>Specialization, policy and environment\<close>

datatype spec_value_kind = SV_Signed | SV_Unsigned | SV_Floating | SV_Text | SV_Boolean

text \<open>A \<^verbatim>\<open>double\<close> is its 64-bit pattern: the code only stores, encodes and prints it.\<close>

record spec_field =
  sf_name :: string
  sf_kind :: spec_value_kind
  sf_signed_value :: u64
  sf_unsigned_value :: u64
  sf_floating_value :: u64
  sf_boolean_value :: bool
  sf_text_value :: string

record specialization_spec =
  sp_id :: specialization_id
  sp_generation :: specialization_gen
  sp_fields :: "spec_field list"
  sp_identity_digest :: digest256

datatype reproducibility_requirement = RR_Required | RR_Preferred | RR_NotRequired

datatype cache_policy = CP_ReadWrite | CP_ReadOnly | CP_Bypass

datatype output_kind =
    OK_Executable | OK_Object | OK_StaticLibrary | OK_DynamicLibrary | OK_Cubin | OK_Ptx
  | OK_Assembly | OK_PreprocessedSource

record validation_requirements =
  vr_require_format_check :: bool
  vr_require_digest_check :: bool
  vr_require_target_metadata :: bool
  vr_require_dependency_metadata :: bool
  vr_require_smoke_test :: bool
  vr_smoke_expected_stdout :: string
  vr_smoke_timeout_ms :: u32

record compile_policy =
  po_id :: policy_id
  po_generation :: policy_gen
  po_profile :: string
  po_reproducibility :: reproducibility_requirement
  po_cache :: cache_policy
  po_flag_order_significant :: bool
  po_require_exact_generation :: bool
  po_negative_cache_enabled :: bool
  po_negative_cache_max_entries :: u32
  po_allow_speculative_duplication :: bool
  po_max_attempts_per_unit :: u32
  po_require_trusted_workers :: bool
  po_require_provable_toolchain :: bool
  po_identity_digest :: digest256

record environment_contract =
  en_variables :: "(string \<times> string) list"
  en_deterministic :: bool
  en_inherit_process_environment :: bool

section \<open>Units and requests\<close>

datatype unit_kind = UK_Compile | UK_Link

record unit_source =
  us_logical_name :: string
  us_format :: input_format
  us_language_mode :: string
  us_content :: content_ref
  us_identity_digest :: digest256

record compilation_unit_spec =
  un_index :: u32
  un_logical_name :: string
  un_kind :: unit_kind
  un_sources :: "unit_source list"
  un_dependencies :: "dependency_entry list"
  un_flags :: "string list"
  un_output_kind :: output_kind
  un_child_units :: "u32 list"
  un_mandatory :: bool
  un_identity_digest :: digest256

record compilation_request =
  rq_request_id :: request_id
  rq_request_generation :: request_gen
  rq_toolchain :: toolchain_identity
  rq_target :: target_identity
  rq_specialization :: specialization_spec
  rq_policy :: compile_policy
  rq_dependencies :: dependency_set
  rq_environment :: environment_contract
  rq_flags :: "string list"
  rq_validation :: validation_requirements
  rq_units :: "compilation_unit_spec list"
  rq_authority_generation :: digest256
  rq_request_identity :: digest256

definition find_unit :: "compilation_request \<Rightarrow> u32 \<Rightarrow> compilation_unit_spec option" where
  "find_unit request index = List.find (\<lambda>u. un_index u = index) (rq_units request)"

text \<open>Usable where a policy demands proof: real evidence and a digest of the compiler binary.\<close>

definition toolchain_identity_is_provable :: "toolchain_identity \<Rightarrow> bool" where
  "toolchain_identity_is_provable t =
     (if tc_evidence t \<noteq> EC_Real then False
      else if bi_state (tc_compiler t) \<noteq> BI_Known then False
      else if tc_family t = CF_Unknown then False
      else True)"

record artifact_descriptor =
  ad_id :: artifact_id
  ad_generation :: artifact_gen
  ad_compilation :: compilation_id
  ad_compilation_generation :: compilation_gen
  ad_unit :: unit_id
  ad_kind :: output_kind
  ad_content :: content_ref
  ad_logical_name :: string
  ad_target_identity :: digest256
  ad_toolchain_identity :: digest256
  ad_dependency_identity :: digest256
  ad_specialization_identity :: digest256

section \<open>Validation, provenance and commits\<close>

datatype validation_outcome = VO_Pass | VO_Fail | VO_Unknown

record validation_check =
  vc_check :: string
  vc_outcome :: validation_outcome
  vc_detail :: string

record validation_report =
  vp_id :: validation_id
  vp_checks :: "validation_check list"
  vp_aggregate :: validation_outcome
  vp_summary :: string

record provenance =
  pv_id :: provenance_id
  pv_generation :: provenance_gen
  pv_compilation :: compilation_id
  pv_compilation_generation :: compilation_gen
  pv_unit :: unit_id
  pv_attempt :: attempt_id
  pv_attempt_generation :: attempt_gen
  pv_epoch :: epoch
  pv_worker :: worker_id
  pv_worker_boot :: boot_id
  pv_worker_generation :: worker_gen
  pv_lease :: lease_id
  pv_lease_generation :: lease_gen
  pv_request_id :: request_id
  pv_request_identity :: digest256
  pv_unit_identity :: digest256
  pv_artifact :: content_ref
  pv_source_identity :: digest256
  pv_ir_identity :: digest256
  pv_dependency_identity :: digest256
  pv_toolchain_identity :: digest256
  pv_target_identity :: digest256
  pv_specialization_identity :: digest256
  pv_policy_identity :: digest256
  pv_validation :: validation_id
  pv_evidence :: evidence_class
  pv_compiler_invocation :: string
  pv_compiler_version_string :: string
  pv_compiler_wall_millis :: u64
  pv_produced_at :: unix_millis

record artifact_commit =
  ac_id :: commit_id
  ac_generation :: commit_gen
  ac_compilation :: compilation_id
  ac_compilation_generation :: compilation_gen
  ac_unit :: unit_id
  ac_artifact :: artifact_id
  ac_artifact_generation :: artifact_gen
  ac_artifact_digest :: digest256
  ac_provenance :: provenance_id
  ac_validation :: validation_id
  ac_epoch :: epoch
  ac_worker :: worker_id
  ac_worker_boot :: boot_id
  ac_attempt :: attempt_id
  ac_committed_at :: unix_millis
  ac_deduplicated :: bool
  ac_superseded :: bool

section \<open>Cache and intermediates\<close>

record cache_entry =
  ce_id :: cache_entry_id
  ce_generation :: cache_gen
  ce_unit_identity :: digest256
  ce_compilation :: compilation_id
  ce_compilation_generation :: compilation_gen
  ce_artifact :: content_ref
  ce_artifact_id :: artifact_id
  ce_provenance :: provenance_id
  ce_validation :: validation_id
  ce_source_identity :: digest256
  ce_dependency_identity :: digest256
  ce_toolchain_identity :: digest256
  ce_toolchain_generation :: toolchain_gen
  ce_target_identity :: digest256
  ce_target_generation :: target_gen
  ce_specialization_identity :: digest256
  ce_policy_identity :: digest256
  ce_environment_identity :: digest256
  ce_commit :: commit_id
  ce_created_at :: unix_millis
  ce_invalidated :: bool
  ce_invalidation_reason :: string
  ce_hit_count :: u32

datatype cache_outcome =
  CO_Reusable | CO_Stale | CO_Incompatible | CO_Corrupt | CO_Unknown | CO_Miss

fun cache_outcome_error :: "cache_outcome \<Rightarrow> error_code" where
  "cache_outcome_error CO_Reusable = Err_Ok"
| "cache_outcome_error CO_Stale = Err_CacheStale"
| "cache_outcome_error CO_Incompatible = Err_CacheIncompatible"
| "cache_outcome_error CO_Corrupt = Err_CacheCorrupt"
| "cache_outcome_error CO_Unknown = Err_CacheUnknown"
| "cache_outcome_error CO_Miss = Err_CacheMiss"

record cache_mismatch =
  cm_dimension :: string
  cm_expected :: string
  cm_actual :: string

record cache_decision =
  cd_outcome :: cache_outcome
  cd_reason :: string
  cd_mismatches :: "cache_mismatch list"
  cd_entry :: cache_entry_id
  cd_generation_drift :: bool

definition reusable :: "cache_decision \<Rightarrow> bool" where
  "reusable d = (cd_outcome d = CO_Reusable)"

definition empty_cache_decision :: cache_decision where
  "empty_cache_decision =
     \<lparr>cd_outcome = CO_Miss, cd_reason = [], cd_mismatches = [], cd_entry = Ident 0,
      cd_generation_drift = False\<rparr>"

datatype negative_cache_reason =
    NR_UnsupportedTarget | NR_DeterministicCompilerRejection
  | NR_IncompatibleSourceToolchain | NR_PolicyRefusal

record negative_cache_entry =
  ne_id :: cache_entry_id
  ne_unit_identity :: digest256
  ne_reason :: negative_cache_reason
  ne_failure :: error_code
  ne_diagnostic :: string
  ne_toolchain_identity :: digest256
  ne_toolchain_generation :: toolchain_gen
  ne_target_identity :: digest256
  ne_target_generation :: target_gen
  ne_specialization_identity :: digest256
  ne_policy_identity :: digest256
  ne_created_at :: unix_millis

datatype intermediate_kind =
    IK_PreprocessedSource | IK_GeneratedIr | IK_OptimizedIr | IK_DeviceCode
  | IK_ObjectFile | IK_LinkInput | IK_Metadata

record intermediate_artifact =
  ia_id :: intermediate_id
  ia_generation :: intermediate_gen
  ia_kind :: intermediate_kind
  ia_content :: content_ref
  ia_provenance_identity :: digest256
  ia_toolchain_identity :: digest256
  ia_target_identity :: digest256
  ia_dependency_identity :: digest256
  ia_compilation :: compilation_id
  ia_compilation_generation :: compilation_gen
  ia_authoritative :: bool

end
