(* ===== verification/DC_Enums.thy ===== *)
theory DC_Enums
  imports DC_Model
begin

text \<open>
  The enumerations of the data model: the byte behind each enumerator
  (\<^verbatim>\<open>include/dc/model.hpp\<close>), its rendering and its parser (\<^verbatim>\<open>src/model.cpp\<close>).
\<close>

primrec evidence_class_value :: "evidence_class \<Rightarrow> u8" where
  "evidence_class_value EC_Unknown = 0"
| "evidence_class_value EC_Real = 1"
| "evidence_class_value EC_Synthetic = 2"
| "evidence_class_value EC_Unsupported = 3"

primrec evidence_class_string :: "evidence_class \<Rightarrow> string" where
  "evidence_class_string EC_Unknown = ''UNKNOWN''"
| "evidence_class_string EC_Real = ''REAL''"
| "evidence_class_string EC_Synthetic = ''SYNTHETIC''"
| "evidence_class_string EC_Unsupported = ''UNSUPPORTED''"

definition parse_evidence_class :: "string \<Rightarrow> evidence_class option" where
  "parse_evidence_class text =
     (if text = ''UNKNOWN'' \<or> text = ''unknown'' then Some EC_Unknown
      else if text = ''REAL'' \<or> text = ''real'' then Some EC_Real
      else if text = ''SYNTHETIC'' \<or> text = ''synthetic'' then Some EC_Synthetic
      else if text = ''UNSUPPORTED'' \<or> text = ''unsupported'' then Some EC_Unsupported
      else None)"

primrec input_format_string :: "input_format \<Rightarrow> string" where
  "input_format_string IF_Unknown = ''UNKNOWN''"
| "input_format_string IF_Source = ''SOURCE''"
| "input_format_string IF_PreprocessedSource = ''PREPROCESSED_SOURCE''"
| "input_format_string IF_LlvmIr = ''LLVM_IR''"
| "input_format_string IF_Ptx = ''PTX''"
| "input_format_string IF_SpirV = ''SPIRV''"
| "input_format_string IF_VendorIr = ''VENDOR_IR''"
| "input_format_string IF_Object = ''OBJECT''"
| "input_format_string IF_Cubin = ''CUBIN''"
| "input_format_string IF_Assembly = ''ASSEMBLY''"
| "input_format_string IF_Other = ''OTHER''"

definition input_format_entries :: "(string \<times> input_format) list" where
  "input_format_entries =
    [(''SOURCE'', IF_Source),
     (''PREPROCESSED_SOURCE'', IF_PreprocessedSource),
     (''LLVM_IR'', IF_LlvmIr),
     (''PTX'', IF_Ptx),
     (''SPIRV'', IF_SpirV),
     (''VENDOR_IR'', IF_VendorIr),
     (''OBJECT'', IF_Object),
     (''CUBIN'', IF_Cubin),
     (''ASSEMBLY'', IF_Assembly),
     (''OTHER'', IF_Other),
     (''UNKNOWN'', IF_Unknown)]"

definition parse_input_format :: "string \<Rightarrow> input_format option" where
  "parse_input_format text = map_of input_format_entries text"

primrec dependency_kind_value :: "dependency_kind \<Rightarrow> u8" where
  "dependency_kind_value DK_Header = 0"
| "dependency_kind_value DK_Module = 1"
| "dependency_kind_value DK_GeneratedCode = 2"
| "dependency_kind_value DK_Library = 3"
| "dependency_kind_value DK_DeviceLibrary = 4"
| "dependency_kind_value DK_RuntimeLibrary = 5"
| "dependency_kind_value DK_CompilerPlugin = 6"
| "dependency_kind_value DK_Configuration = 7"
| "dependency_kind_value DK_ModelMetadata = 8"
| "dependency_kind_value DK_ToolchainFile = 9"
| "dependency_kind_value DK_Other = 10"

primrec dependency_kind_string :: "dependency_kind \<Rightarrow> string" where
  "dependency_kind_string DK_Header = ''HEADER''"
| "dependency_kind_string DK_Module = ''MODULE''"
| "dependency_kind_string DK_GeneratedCode = ''GENERATED_CODE''"
| "dependency_kind_string DK_Library = ''LIBRARY''"
| "dependency_kind_string DK_DeviceLibrary = ''DEVICE_LIBRARY''"
| "dependency_kind_string DK_RuntimeLibrary = ''RUNTIME_LIBRARY''"
| "dependency_kind_string DK_CompilerPlugin = ''COMPILER_PLUGIN''"
| "dependency_kind_string DK_Configuration = ''CONFIGURATION''"
| "dependency_kind_string DK_ModelMetadata = ''MODEL_METADATA''"
| "dependency_kind_string DK_ToolchainFile = ''TOOLCHAIN_FILE''"
| "dependency_kind_string DK_Other = ''OTHER''"

definition dependency_kind_entries :: "(string \<times> dependency_kind) list" where
  "dependency_kind_entries =
    [(''HEADER'', DK_Header),
     (''MODULE'', DK_Module),
     (''GENERATED_CODE'', DK_GeneratedCode),
     (''LIBRARY'', DK_Library),
     (''DEVICE_LIBRARY'', DK_DeviceLibrary),
     (''RUNTIME_LIBRARY'', DK_RuntimeLibrary),
     (''COMPILER_PLUGIN'', DK_CompilerPlugin),
     (''CONFIGURATION'', DK_Configuration),
     (''MODEL_METADATA'', DK_ModelMetadata),
     (''TOOLCHAIN_FILE'', DK_ToolchainFile),
     (''OTHER'', DK_Other)]"

definition parse_dependency_kind :: "string \<Rightarrow> dependency_kind option" where
  "parse_dependency_kind text = map_of dependency_kind_entries text"

primrec os_kind_value :: "os_kind \<Rightarrow> u8" where
  "os_kind_value Os_Unknown = 0"
| "os_kind_value Os_Windows = 1"
| "os_kind_value Os_Linux = 2"
| "os_kind_value Os_MacOs = 3"
| "os_kind_value Os_Bsd = 4"
| "os_kind_value Os_BareMetal = 5"

primrec os_kind_string :: "os_kind \<Rightarrow> string" where
  "os_kind_string Os_Unknown = ''UNKNOWN''"
| "os_kind_string Os_Windows = ''WINDOWS''"
| "os_kind_string Os_Linux = ''LINUX''"
| "os_kind_string Os_MacOs = ''MACOS''"
| "os_kind_string Os_Bsd = ''BSD''"
| "os_kind_string Os_BareMetal = ''BAREMETAL''"

definition parse_os_kind :: "string \<Rightarrow> os_kind option" where
  "parse_os_kind text =
     (if text = ''WINDOWS'' then Some Os_Windows
      else if text = ''LINUX'' then Some Os_Linux
      else if text = ''MACOS'' then Some Os_MacOs
      else if text = ''BSD'' then Some Os_Bsd
      else if text = ''BAREMETAL'' then Some Os_BareMetal
      else None)"

primrec arch_kind_value :: "arch_kind \<Rightarrow> u8" where
  "arch_kind_value Arch_Unknown = 0"
| "arch_kind_value Arch_X86_64 = 1"
| "arch_kind_value Arch_Aarch64 = 2"
| "arch_kind_value Arch_X86 = 3"
| "arch_kind_value Arch_Arm32 = 4"
| "arch_kind_value Arch_RiscV64 = 5"

primrec arch_kind_string :: "arch_kind \<Rightarrow> string" where
  "arch_kind_string Arch_Unknown = ''UNKNOWN''"
| "arch_kind_string Arch_X86_64 = ''X86_64''"
| "arch_kind_string Arch_Aarch64 = ''AARCH64''"
| "arch_kind_string Arch_X86 = ''X86''"
| "arch_kind_string Arch_Arm32 = ''ARM32''"
| "arch_kind_string Arch_RiscV64 = ''RISCV64''"

definition parse_arch_kind :: "string \<Rightarrow> arch_kind option" where
  "parse_arch_kind text =
     (if text = ''X86_64'' \<or> text = ''X64'' \<or> text = ''AMD64'' then Some Arch_X86_64
      else if text = ''AARCH64'' \<or> text = ''ARM64'' then Some Arch_Aarch64
      else if text = ''X86'' \<or> text = ''I386'' then Some Arch_X86
      else if text = ''ARM32'' then Some Arch_Arm32
      else if text = ''RISCV64'' then Some Arch_RiscV64
      else None)"

primrec abi_kind_value :: "abi_kind \<Rightarrow> u8" where
  "abi_kind_value Abi_Unknown = 0"
| "abi_kind_value Abi_Msvc = 1"
| "abi_kind_value Abi_Itanium = 2"
| "abi_kind_value Abi_Gnu = 3"

primrec abi_kind_string :: "abi_kind \<Rightarrow> string" where
  "abi_kind_string Abi_Unknown = ''UNKNOWN''"
| "abi_kind_string Abi_Msvc = ''MSVC''"
| "abi_kind_string Abi_Itanium = ''ITANIUM''"
| "abi_kind_string Abi_Gnu = ''GNU''"

primrec object_format_value :: "object_format \<Rightarrow> u8" where
  "object_format_value OF_Unknown = 0"
| "object_format_value OF_Coff = 1"
| "object_format_value OF_Elf = 2"
| "object_format_value OF_MachO = 3"
| "object_format_value OF_Ptx = 4"
| "object_format_value OF_Cubin = 5"
| "object_format_value OF_Fatbin = 6"

primrec object_format_string :: "object_format \<Rightarrow> string" where
  "object_format_string OF_Unknown = ''UNKNOWN''"
| "object_format_string OF_Coff = ''COFF''"
| "object_format_string OF_Elf = ''ELF''"
| "object_format_string OF_MachO = ''MACHO''"
| "object_format_string OF_Ptx = ''PTX''"
| "object_format_string OF_Cubin = ''CUBIN''"
| "object_format_string OF_Fatbin = ''FATBIN''"

definition parse_object_format :: "string \<Rightarrow> object_format option" where
  "parse_object_format text =
     (if text = ''COFF'' then Some OF_Coff
      else if text = ''ELF'' then Some OF_Elf
      else if text = ''MACHO'' then Some OF_MachO
      else if text = ''PTX'' then Some OF_Ptx
      else if text = ''CUBIN'' then Some OF_Cubin
      else if text = ''FATBIN'' then Some OF_Fatbin
      else None)"

primrec accelerator_vendor_value :: "accelerator_vendor \<Rightarrow> u8" where
  "accelerator_vendor_value AV_None = 0"
| "accelerator_vendor_value AV_Nvidia = 1"
| "accelerator_vendor_value AV_Amd = 2"
| "accelerator_vendor_value AV_Intel = 3"
| "accelerator_vendor_value AV_Unknown = 4"

primrec accelerator_vendor_string :: "accelerator_vendor \<Rightarrow> string" where
  "accelerator_vendor_string AV_None = ''NONE''"
| "accelerator_vendor_string AV_Nvidia = ''NVIDIA''"
| "accelerator_vendor_string AV_Amd = ''AMD''"
| "accelerator_vendor_string AV_Intel = ''INTEL''"
| "accelerator_vendor_string AV_Unknown = ''UNKNOWN''"

definition parse_accelerator_vendor :: "string \<Rightarrow> accelerator_vendor option" where
  "parse_accelerator_vendor text =
     (if text = ''NONE'' then Some AV_None
      else if text = ''NVIDIA'' then Some AV_Nvidia
      else if text = ''AMD'' then Some AV_Amd
      else if text = ''INTEL'' then Some AV_Intel
      else None)"

primrec stdlib_kind_value :: "stdlib_kind \<Rightarrow> u8" where
  "stdlib_kind_value SL_Unknown = 0"
| "stdlib_kind_value SL_MsvcStl = 1"
| "stdlib_kind_value SL_Libstdcxx = 2"
| "stdlib_kind_value SL_Libcxx = 3"
| "stdlib_kind_value SL_None = 4"

primrec stdlib_kind_string :: "stdlib_kind \<Rightarrow> string" where
  "stdlib_kind_string SL_Unknown = ''UNKNOWN''"
| "stdlib_kind_string SL_MsvcStl = ''MSVC_STL''"
| "stdlib_kind_string SL_Libstdcxx = ''LIBSTDCXX''"
| "stdlib_kind_string SL_Libcxx = ''LIBCXX''"
| "stdlib_kind_string SL_None = ''NONE''"

definition parse_stdlib_kind :: "string \<Rightarrow> stdlib_kind option" where
  "parse_stdlib_kind text =
     (if text = ''MSVC_STL'' then Some SL_MsvcStl
      else if text = ''LIBSTDCXX'' then Some SL_Libstdcxx
      else if text = ''LIBCXX'' then Some SL_Libcxx
      else if text = ''NONE'' then Some SL_None
      else None)"

primrec compiler_family_value :: "compiler_family \<Rightarrow> u8" where
  "compiler_family_value CF_Unknown = 0"
| "compiler_family_value CF_Msvc = 1"
| "compiler_family_value CF_Clang = 2"
| "compiler_family_value CF_Gnu = 3"
| "compiler_family_value CF_NvidiaNvcc = 4"
| "compiler_family_value CF_SyntheticRocm = 5"
| "compiler_family_value CF_SyntheticLevelZero = 6"
| "compiler_family_value CF_SyntheticGeneric = 7"
| "compiler_family_value CF_MsvcLinker = 8"

primrec compiler_family_string :: "compiler_family \<Rightarrow> string" where
  "compiler_family_string CF_Unknown = ''UNKNOWN''"
| "compiler_family_string CF_Msvc = ''MSVC''"
| "compiler_family_string CF_Clang = ''CLANG''"
| "compiler_family_string CF_Gnu = ''GNU''"
| "compiler_family_string CF_NvidiaNvcc = ''NVIDIA_NVCC''"
| "compiler_family_string CF_SyntheticRocm = ''SYNTHETIC_ROCM''"
| "compiler_family_string CF_SyntheticLevelZero = ''SYNTHETIC_LEVEL_ZERO''"
| "compiler_family_string CF_SyntheticGeneric = ''SYNTHETIC_GENERIC''"
| "compiler_family_string CF_MsvcLinker = ''MSVC_LINKER''"

definition compiler_family_entries :: "(string \<times> compiler_family) list" where
  "compiler_family_entries =
    [(''MSVC'', CF_Msvc),
     (''CLANG'', CF_Clang),
     (''GNU'', CF_Gnu),
     (''NVIDIA_NVCC'', CF_NvidiaNvcc),
     (''SYNTHETIC_ROCM'', CF_SyntheticRocm),
     (''SYNTHETIC_LEVEL_ZERO'', CF_SyntheticLevelZero),
     (''SYNTHETIC_GENERIC'', CF_SyntheticGeneric),
     (''MSVC_LINKER'', CF_MsvcLinker)]"

definition parse_compiler_family :: "string \<Rightarrow> compiler_family option" where
  "parse_compiler_family text = map_of compiler_family_entries text"

primrec binary_id_state_value :: "binary_id_state \<Rightarrow> u8" where
  "binary_id_state_value BI_Unknown = 0"
| "binary_id_state_value BI_Known = 1"
| "binary_id_state_value BI_Unavailable = 2"

primrec binary_id_state_string :: "binary_id_state \<Rightarrow> string" where
  "binary_id_state_string BI_Unknown = ''UNKNOWN''"
| "binary_id_state_string BI_Known = ''KNOWN''"
| "binary_id_state_string BI_Unavailable = ''UNAVAILABLE''"

primrec spec_value_kind_value :: "spec_value_kind \<Rightarrow> u8" where
  "spec_value_kind_value SV_Signed = 0"
| "spec_value_kind_value SV_Unsigned = 1"
| "spec_value_kind_value SV_Floating = 2"
| "spec_value_kind_value SV_Text = 3"
| "spec_value_kind_value SV_Boolean = 4"

primrec spec_value_kind_string :: "spec_value_kind \<Rightarrow> string" where
  "spec_value_kind_string SV_Signed = ''SIGNED''"
| "spec_value_kind_string SV_Unsigned = ''UNSIGNED''"
| "spec_value_kind_string SV_Floating = ''FLOATING''"
| "spec_value_kind_string SV_Text = ''TEXT''"
| "spec_value_kind_string SV_Boolean = ''BOOLEAN''"

primrec reproducibility_requirement_value :: "reproducibility_requirement \<Rightarrow> u8" where
  "reproducibility_requirement_value RR_Required = 0"
| "reproducibility_requirement_value RR_Preferred = 1"
| "reproducibility_requirement_value RR_NotRequired = 2"

primrec reproducibility_requirement_string :: "reproducibility_requirement \<Rightarrow> string" where
  "reproducibility_requirement_string RR_Required = ''REQUIRED''"
| "reproducibility_requirement_string RR_Preferred = ''PREFERRED''"
| "reproducibility_requirement_string RR_NotRequired = ''NOT_REQUIRED''"

definition parse_reproducibility :: "string \<Rightarrow> reproducibility_requirement option" where
  "parse_reproducibility text =
     (if text = ''REQUIRED'' then Some RR_Required
      else if text = ''PREFERRED'' then Some RR_Preferred
      else if text = ''NOT_REQUIRED'' then Some RR_NotRequired
      else None)"

primrec cache_policy_value :: "cache_policy \<Rightarrow> u8" where
  "cache_policy_value CP_ReadWrite = 0"
| "cache_policy_value CP_ReadOnly = 1"
| "cache_policy_value CP_Bypass = 2"

primrec cache_policy_string :: "cache_policy \<Rightarrow> string" where
  "cache_policy_string CP_ReadWrite = ''READ_WRITE''"
| "cache_policy_string CP_ReadOnly = ''READ_ONLY''"
| "cache_policy_string CP_Bypass = ''BYPASS''"

definition parse_cache_policy :: "string \<Rightarrow> cache_policy option" where
  "parse_cache_policy text =
     (if text = ''READ_WRITE'' then Some CP_ReadWrite
      else if text = ''READ_ONLY'' then Some CP_ReadOnly
      else if text = ''BYPASS'' then Some CP_Bypass
      else None)"

primrec output_kind_value :: "output_kind \<Rightarrow> u8" where
  "output_kind_value OK_Executable = 0"
| "output_kind_value OK_Object = 1"
| "output_kind_value OK_StaticLibrary = 2"
| "output_kind_value OK_DynamicLibrary = 3"
| "output_kind_value OK_Cubin = 4"
| "output_kind_value OK_Ptx = 5"
| "output_kind_value OK_Assembly = 6"
| "output_kind_value OK_PreprocessedSource = 7"

primrec output_kind_string :: "output_kind \<Rightarrow> string" where
  "output_kind_string OK_Executable = ''EXECUTABLE''"
| "output_kind_string OK_Object = ''OBJECT''"
| "output_kind_string OK_StaticLibrary = ''STATIC_LIBRARY''"
| "output_kind_string OK_DynamicLibrary = ''DYNAMIC_LIBRARY''"
| "output_kind_string OK_Cubin = ''CUBIN''"
| "output_kind_string OK_Ptx = ''PTX''"
| "output_kind_string OK_Assembly = ''ASSEMBLY''"
| "output_kind_string OK_PreprocessedSource = ''PREPROCESSED_SOURCE''"

definition parse_output_kind :: "string \<Rightarrow> output_kind option" where
  "parse_output_kind text =
     (if text = ''EXECUTABLE'' then Some OK_Executable
      else if text = ''OBJECT'' then Some OK_Object
      else if text = ''STATIC_LIBRARY'' then Some OK_StaticLibrary
      else if text = ''DYNAMIC_LIBRARY'' then Some OK_DynamicLibrary
      else if text = ''CUBIN'' then Some OK_Cubin
      else if text = ''PTX'' then Some OK_Ptx
      else if text = ''ASSEMBLY'' then Some OK_Assembly
      else if text = ''PREPROCESSED_SOURCE'' then Some OK_PreprocessedSource
      else None)"

primrec unit_kind_value :: "unit_kind \<Rightarrow> u8" where
  "unit_kind_value UK_Compile = 0"
| "unit_kind_value UK_Link = 1"

primrec unit_kind_string :: "unit_kind \<Rightarrow> string" where
  "unit_kind_string UK_Compile = ''COMPILE''"
| "unit_kind_string UK_Link = ''LINK''"

primrec validation_outcome_value :: "validation_outcome \<Rightarrow> u8" where
  "validation_outcome_value VO_Pass = 0"
| "validation_outcome_value VO_Fail = 1"
| "validation_outcome_value VO_Unknown = 2"

primrec validation_outcome_string :: "validation_outcome \<Rightarrow> string" where
  "validation_outcome_string VO_Pass = ''PASS''"
| "validation_outcome_string VO_Fail = ''FAIL''"
| "validation_outcome_string VO_Unknown = ''UNKNOWN''"

primrec cache_outcome_value :: "cache_outcome \<Rightarrow> u8" where
  "cache_outcome_value CO_Reusable = 0"
| "cache_outcome_value CO_Stale = 1"
| "cache_outcome_value CO_Incompatible = 2"
| "cache_outcome_value CO_Corrupt = 3"
| "cache_outcome_value CO_Unknown = 4"
| "cache_outcome_value CO_Miss = 5"

primrec cache_outcome_string :: "cache_outcome \<Rightarrow> string" where
  "cache_outcome_string CO_Reusable = ''REUSABLE''"
| "cache_outcome_string CO_Stale = ''STALE''"
| "cache_outcome_string CO_Incompatible = ''INCOMPATIBLE''"
| "cache_outcome_string CO_Corrupt = ''CORRUPT''"
| "cache_outcome_string CO_Unknown = ''UNKNOWN''"
| "cache_outcome_string CO_Miss = ''MISS''"

primrec negative_cache_reason_value :: "negative_cache_reason \<Rightarrow> u8" where
  "negative_cache_reason_value NR_UnsupportedTarget = 0"
| "negative_cache_reason_value NR_DeterministicCompilerRejection = 1"
| "negative_cache_reason_value NR_IncompatibleSourceToolchain = 2"
| "negative_cache_reason_value NR_PolicyRefusal = 3"

primrec negative_cache_reason_string :: "negative_cache_reason \<Rightarrow> string" where
  "negative_cache_reason_string NR_UnsupportedTarget = ''UNSUPPORTED_TARGET''"
| "negative_cache_reason_string NR_DeterministicCompilerRejection = ''DETERMINISTIC_COMPILER_REJECTION''"
| "negative_cache_reason_string NR_IncompatibleSourceToolchain = ''INCOMPATIBLE_SOURCE_TOOLCHAIN''"
| "negative_cache_reason_string NR_PolicyRefusal = ''POLICY_REFUSAL''"

primrec intermediate_kind_value :: "intermediate_kind \<Rightarrow> u8" where
  "intermediate_kind_value IK_PreprocessedSource = 0"
| "intermediate_kind_value IK_GeneratedIr = 1"
| "intermediate_kind_value IK_OptimizedIr = 2"
| "intermediate_kind_value IK_DeviceCode = 3"
| "intermediate_kind_value IK_ObjectFile = 4"
| "intermediate_kind_value IK_LinkInput = 5"
| "intermediate_kind_value IK_Metadata = 6"

primrec intermediate_kind_string :: "intermediate_kind \<Rightarrow> string" where
  "intermediate_kind_string IK_PreprocessedSource = ''PREPROCESSED_SOURCE''"
| "intermediate_kind_string IK_GeneratedIr = ''GENERATED_IR''"
| "intermediate_kind_string IK_OptimizedIr = ''OPTIMIZED_IR''"
| "intermediate_kind_string IK_DeviceCode = ''DEVICE_CODE''"
| "intermediate_kind_string IK_ObjectFile = ''OBJECT_FILE''"
| "intermediate_kind_string IK_LinkInput = ''LINK_INPUT''"
| "intermediate_kind_string IK_Metadata = ''METADATA''"

text \<open>\<^verbatim>\<open>std::tolower\<close> and \<^verbatim>\<open>std::isspace\<close> in the "C" locale.\<close>

definition tolower :: "char \<Rightarrow> char" where
  "tolower c = (let n = of_char c :: nat in if 65 \<le> n \<and> n \<le> 90 then char_of (n + 32) else c)"

definition isspace :: "char \<Rightarrow> bool" where
  "isspace c = (let n = of_char c :: nat in n = 32 \<or> (9 \<le> n \<and> n \<le> 13))"

text \<open>The suffix from the last dot on, if there is one.\<close>

definition last_dot :: "string \<Rightarrow> string option" where
  "last_dot name =
     (if CHR ''.'' \<in> set name
      then Some (CHR ''.'' # rev (takeWhile (\<lambda>c. c \<noteq> CHR ''.'') (rev name))) else None)"

definition input_format_from_extension :: "string \<Rightarrow> input_format" where
  "input_format_from_extension name =
     (case last_dot name of
        None \<Rightarrow> IF_Unknown
      | Some suffix \<Rightarrow>
         (let ext = map tolower suffix in
          if ext = ''.cpp'' \<or> ext = ''.cc'' \<or> ext = ''.cxx'' \<or> ext = ''.c'' then IF_Source
          else if ext = ''.cu'' then IF_Source
          else if ext = ''.i'' \<or> ext = ''.ii'' then IF_PreprocessedSource
          else if ext = ''.ll'' then IF_LlvmIr
          else if ext = ''.bc'' then IF_LlvmIr
          else if ext = ''.ptx'' then IF_Ptx
          else if ext = ''.spv'' then IF_SpirV
          else if ext = ''.o'' \<or> ext = ''.obj'' then IF_Object
          else if ext = ''.cubin'' then IF_Cubin
          else if ext = ''.s'' \<or> ext = ''.asm'' then IF_Assembly
          else IF_Unknown))"

section \<open>Rendering and parsing agree\<close>

lemma parse_evidence_class_string: "parse_evidence_class (evidence_class_string v) = Some v"
  by (cases v) (simp_all add: parse_evidence_class_def)

lemma parse_input_format_string: "parse_input_format (input_format_string v) = Some v"
  by (cases v) (simp_all add: parse_input_format_def input_format_entries_def)

lemma parse_dependency_kind_string: "parse_dependency_kind (dependency_kind_string v) = Some v"
  by (cases v) (simp_all add: parse_dependency_kind_def dependency_kind_entries_def)

lemma parse_os_kind_string: "parse_os_kind (os_kind_string v) = (if v = Os_Unknown then None else Some v)"
  by (cases v) (simp_all add: parse_os_kind_def)

lemma parse_arch_kind_string: "parse_arch_kind (arch_kind_string v) = (if v = Arch_Unknown then None else Some v)"
  by (cases v) (simp_all add: parse_arch_kind_def)

lemma parse_object_format_string: "parse_object_format (object_format_string v) = (if v = OF_Unknown then None else Some v)"
  by (cases v) (simp_all add: parse_object_format_def)

lemma parse_accelerator_vendor_string: "parse_accelerator_vendor (accelerator_vendor_string v) = (if v = AV_Unknown then None else Some v)"
  by (cases v) (simp_all add: parse_accelerator_vendor_def)

lemma parse_stdlib_kind_string: "parse_stdlib_kind (stdlib_kind_string v) = (if v = SL_Unknown then None else Some v)"
  by (cases v) (simp_all add: parse_stdlib_kind_def)

lemma parse_compiler_family_string: "parse_compiler_family (compiler_family_string v) = (if v = CF_Unknown then None else Some v)"
  by (cases v) (simp_all add: parse_compiler_family_def compiler_family_entries_def)

lemma parse_reproducibility_string: "parse_reproducibility (reproducibility_requirement_string v) = Some v"
  by (cases v) (simp_all add: parse_reproducibility_def)

lemma parse_cache_policy_string: "parse_cache_policy (cache_policy_string v) = Some v"
  by (cases v) (simp_all add: parse_cache_policy_def)

lemma parse_output_kind_string: "parse_output_kind (output_kind_string v) = Some v"
  by (cases v) (simp_all add: parse_output_kind_def)

lemma evidence_class_value_inject: "evidence_class_value a = evidence_class_value b \<longleftrightarrow> a = b"
  by (cases a; cases b) simp_all

lemma input_format_value_inject: "input_format_value a = input_format_value b \<longleftrightarrow> a = b"
  by (cases a; cases b) simp_all

lemma dependency_kind_value_inject: "dependency_kind_value a = dependency_kind_value b \<longleftrightarrow> a = b"
  by (cases a; cases b) simp_all

lemma os_kind_value_inject: "os_kind_value a = os_kind_value b \<longleftrightarrow> a = b"
  by (cases a; cases b) simp_all

lemma arch_kind_value_inject: "arch_kind_value a = arch_kind_value b \<longleftrightarrow> a = b"
  by (cases a; cases b) simp_all

lemma abi_kind_value_inject: "abi_kind_value a = abi_kind_value b \<longleftrightarrow> a = b"
  by (cases a; cases b) simp_all

lemma object_format_value_inject: "object_format_value a = object_format_value b \<longleftrightarrow> a = b"
  by (cases a; cases b) simp_all

lemma accelerator_vendor_value_inject: "accelerator_vendor_value a = accelerator_vendor_value b \<longleftrightarrow> a = b"
  by (cases a; cases b) simp_all

lemma stdlib_kind_value_inject: "stdlib_kind_value a = stdlib_kind_value b \<longleftrightarrow> a = b"
  by (cases a; cases b) simp_all

lemma compiler_family_value_inject: "compiler_family_value a = compiler_family_value b \<longleftrightarrow> a = b"
  by (cases a; cases b) simp_all

lemma binary_id_state_value_inject: "binary_id_state_value a = binary_id_state_value b \<longleftrightarrow> a = b"
  by (cases a; cases b) simp_all

lemma spec_value_kind_value_inject: "spec_value_kind_value a = spec_value_kind_value b \<longleftrightarrow> a = b"
  by (cases a; cases b) simp_all

lemma reproducibility_requirement_value_inject: "reproducibility_requirement_value a = reproducibility_requirement_value b \<longleftrightarrow> a = b"
  by (cases a; cases b) simp_all

lemma cache_policy_value_inject: "cache_policy_value a = cache_policy_value b \<longleftrightarrow> a = b"
  by (cases a; cases b) simp_all

lemma output_kind_value_inject: "output_kind_value a = output_kind_value b \<longleftrightarrow> a = b"
  by (cases a; cases b) simp_all

lemma unit_kind_value_inject: "unit_kind_value a = unit_kind_value b \<longleftrightarrow> a = b"
  by (cases a; cases b) simp_all

lemma validation_outcome_value_inject: "validation_outcome_value a = validation_outcome_value b \<longleftrightarrow> a = b"
  by (cases a; cases b) simp_all

lemma cache_outcome_value_inject: "cache_outcome_value a = cache_outcome_value b \<longleftrightarrow> a = b"
  by (cases a; cases b) simp_all

lemma negative_cache_reason_value_inject: "negative_cache_reason_value a = negative_cache_reason_value b \<longleftrightarrow> a = b"
  by (cases a; cases b) simp_all

lemma intermediate_kind_value_inject: "intermediate_kind_value a = intermediate_kind_value b \<longleftrightarrow> a = b"
  by (cases a; cases b) simp_all

lemmas enum_value_inject =
  evidence_class_value_inject
  input_format_value_inject
  dependency_kind_value_inject
  os_kind_value_inject
  arch_kind_value_inject
  abi_kind_value_inject
  object_format_value_inject
  accelerator_vendor_value_inject
  stdlib_kind_value_inject
  compiler_family_value_inject
  binary_id_state_value_inject
  spec_value_kind_value_inject
  reproducibility_requirement_value_inject
  cache_policy_value_inject
  output_kind_value_inject
  unit_kind_value_inject
  validation_outcome_value_inject
  cache_outcome_value_inject
  negative_cache_reason_value_inject
  intermediate_kind_value_inject

text \<open>
  Rendering an enumerator and parsing the text gives the enumerator back, for every
  enumeration that has a parser.  The only texts that a renderer produces and the parser
  refuses are those of the "unknown" enumerators of the target and toolchain enumerations,
  which a request must not name.
\<close>

theorem enum_text_roundtrip:
  "parse_evidence_class (evidence_class_string a) = Some a
   \<and> parse_input_format (input_format_string b) = Some b
   \<and> parse_dependency_kind (dependency_kind_string c) = Some c
   \<and> parse_os_kind (os_kind_string d) = (if d = Os_Unknown then None else Some d)
   \<and> parse_arch_kind (arch_kind_string e) = (if e = Arch_Unknown then None else Some e)
   \<and> parse_object_format (object_format_string f) = (if f = OF_Unknown then None else Some f)
   \<and> parse_accelerator_vendor (accelerator_vendor_string g) = (if g = AV_Unknown then None else Some g)
   \<and> parse_stdlib_kind (stdlib_kind_string h) = (if h = SL_Unknown then None else Some h)
   \<and> parse_compiler_family (compiler_family_string i) = (if i = CF_Unknown then None else Some i)
   \<and> parse_reproducibility (reproducibility_requirement_string j) = Some j
   \<and> parse_cache_policy (cache_policy_string k) = Some k
   \<and> parse_output_kind (output_kind_string l) = Some l"
  by (intro conjI parse_evidence_class_string
      parse_input_format_string
      parse_dependency_kind_string
      parse_os_kind_string
      parse_arch_kind_string
      parse_object_format_string
      parse_accelerator_vendor_string
      parse_stdlib_kind_string
      parse_compiler_family_string
      parse_reproducibility_string
      parse_cache_policy_string
      parse_output_kind_string)

end
