(* ===== verification/DC_Registry.thy ===== *)
theory DC_Registry
  imports DC_Model
begin

text \<open>
  The content-to-generation registry (\<^verbatim>\<open>class GenerationRegistry\<close> of
  \<^verbatim>\<open>include/dc/runtime.hpp\<close>): per logical identity, a bounded history of contents and the
  generation each was given.
\<close>

record 'g slot =
  sl_by_content :: "(digest256, 'g gen) omap"
  sl_current :: "'g gen"
  sl_order :: "digest256 list"

record ('i, 'g) registry =
  gr_history_limit :: nat
  gr_slots :: "('i ident, 'g slot) omap"

definition empty_slot :: "'g slot" where
  "empty_slot = \<lparr>sl_by_content = [], sl_current = Gen 0, sl_order = []\<rparr>"

definition empty_registry :: "('i, 'g) registry" where
  "empty_registry = \<lparr>gr_history_limit = 64, gr_slots = []\<rparr>"

text \<open>\<^verbatim>\<open>slots_[id]\<close>: an absent slot is created empty.\<close>

definition slot_of :: "('i, 'g) registry \<Rightarrow> 'i ident \<Rightarrow> 'g slot" where
  "slot_of reg i = (case om_find (gr_slots reg) i of Some s \<Rightarrow> s | None \<Rightarrow> empty_slot)"

definition put_slot :: "'i ident \<Rightarrow> 'g slot \<Rightarrow> ('i, 'g) registry \<Rightarrow> ('i, 'g) registry" where
  "put_slot i s reg = reg\<lparr>gr_slots := om_put i s (gr_slots reg)\<rparr>"

text \<open>\<^verbatim>\<open>while (slot.order.size() > history_limit_)\<close>: forget the oldest content.\<close>

fun evict_loop ::
  "nat \<Rightarrow> digest256 list \<Rightarrow> (digest256, 'g gen) omap \<Rightarrow> digest256 list \<times> (digest256, 'g gen) omap"
where
  "evict_loop limit [] m = ([], m)"
| "evict_loop limit (d # ds) m =
     (if length (d # ds) > limit then evict_loop limit ds (om_erase d m) else (d # ds, m))"

definition next_generation :: "'g slot \<Rightarrow> 'g gen" where
  "next_generation slot = (if gen_is_zero (sl_current slot) then Gen 1 else gen_next (sl_current slot))"

definition resolve ::
  "('i, 'g) registry \<Rightarrow> 'i ident \<Rightarrow> digest256 \<Rightarrow> 'g gen \<times> bool \<times> ('i, 'g) registry"
where
  "resolve reg i content =
     (let slot = slot_of reg i
      in case om_find (sl_by_content slot) content of
           Some g \<Rightarrow> (g, False, put_slot i (slot\<lparr>sl_current := g\<rparr>) reg)
         | None \<Rightarrow>
             let next = next_generation slot;
                 (order', m') = evict_loop (gr_history_limit reg) (sl_order slot @ [content])
                                  (om_put content next (sl_by_content slot))
             in (next, True,
                 put_slot i \<lparr>sl_by_content = m', sl_current = next, sl_order = order'\<rparr> reg))"

definition lookup_generation ::
  "('i, 'g) registry \<Rightarrow> 'i ident \<Rightarrow> digest256 \<Rightarrow> 'g gen option"
where
  "lookup_generation reg i content =
     (case om_find (gr_slots reg) i of
        None \<Rightarrow> None
      | Some slot \<Rightarrow> om_find (sl_by_content slot) content)"

text \<open>The current generation with the first content, in digest order, that carries it.\<close>

definition current_generation ::
  "('i, 'g) registry \<Rightarrow> 'i ident \<Rightarrow> ('g gen \<times> digest256) option"
where
  "current_generation reg i =
     (case om_find (gr_slots reg) i of
        None \<Rightarrow> None
      | Some slot \<Rightarrow>
          if gen_is_zero (sl_current slot) then None
          else map_option (\<lambda>(c, g). (sl_current slot, c))
                 (List.find (\<lambda>(c, g). g = sl_current slot) (sl_by_content slot)))"

definition is_current :: "('i, 'g) registry \<Rightarrow> 'i ident \<Rightarrow> digest256 \<Rightarrow> bool" where
  "is_current reg i content =
     (case current_generation reg i of None \<Rightarrow> False | Some (g, c) \<Rightarrow> c = content)"

text \<open>Recovery puts pairs back; the current generation becomes the highest restored one.\<close>

definition restore ::
  "'i ident \<Rightarrow> digest256 \<Rightarrow> 'g gen \<Rightarrow> ('i, 'g) registry \<Rightarrow> ('i, 'g) registry"
where
  "restore i content g reg =
     (let slot = slot_of reg i
      in put_slot i
           \<lparr>sl_by_content = om_put content g (sl_by_content slot),
            sl_current = (if sl_current slot < g then g else sl_current slot),
            sl_order = (if om_find (sl_by_content slot) content = None
                        then sl_order slot @ [content] else sl_order slot)\<rparr> reg)"

section \<open>Well-formed slots\<close>

text \<open>
  The insertion order lists each known content once and the history stays within its
  bound.
\<close>

definition slot_wf :: "nat \<Rightarrow> 'g slot \<Rightarrow> bool" where
  "slot_wf limit s \<longleftrightarrow>
     distinct (sl_order s) \<and> (\<forall>c. om_find (sl_by_content s) c \<noteq> None \<longleftrightarrow> c \<in> set (sl_order s))
     \<and> length (sl_order s) \<le> limit"

definition registry_wf :: "('i, 'g) registry \<Rightarrow> bool" where
  "registry_wf reg \<longleftrightarrow> (\<forall>i s. om_find (gr_slots reg) i = Some s \<longrightarrow> slot_wf (gr_history_limit reg) s)"

lemma slot_of_wf: "registry_wf reg \<Longrightarrow> slot_wf (gr_history_limit reg) (slot_of reg i)"
  by (auto simp: slot_of_def registry_wf_def slot_wf_def empty_slot_def split: option.splits)

lemma evict_loop_drop:
  "fst (evict_loop limit ds m) = drop (length ds - limit) ds"
  by (induction limit ds m rule: evict_loop.induct) (auto simp: Suc_diff_le)

lemma evict_loop_find:
  "om_find (snd (evict_loop limit ds m)) c =
     (if c \<in> set (take (length ds - limit) ds) then None else om_find m c)"
  by (induction limit ds m rule: evict_loop.induct) (auto simp: Suc_diff_le)

lemma put_slot_simps [simp]:
  "gr_history_limit (put_slot i s reg) = gr_history_limit reg"
  "om_find (gr_slots (put_slot i s reg)) j = (if j = i then Some s else om_find (gr_slots reg) j)"
  "slot_of (put_slot i s reg) j = (if j = i then s else slot_of reg j)"
  by (simp_all add: put_slot_def slot_of_def)

lemma registry_wf_put:
  "registry_wf reg \<Longrightarrow> slot_wf (gr_history_limit reg) s \<Longrightarrow> registry_wf (put_slot i s reg)"
  by (auto simp: registry_wf_def)

lemma registry_wf_empty: "registry_wf empty_registry"
  by (simp add: registry_wf_def empty_registry_def)

lemma distinct_in_drop:
  "distinct xs \<Longrightarrow> x \<in> set (drop n xs) \<longleftrightarrow> x \<in> set xs \<and> x \<notin> set (take n xs)"
  by (metis Un_iff append_take_drop_id disjoint_iff distinct_append set_append)

lemma evict_slot_wf:
  assumes "slot_wf limit s" "om_find (sl_by_content s) c = None" "0 < limit"
    and ev: "evict_loop limit (sl_order s @ [c]) (om_put c g (sl_by_content s)) = (o', m')"
  shows "slot_wf limit \<lparr>sl_by_content = m', sl_current = h, sl_order = o'\<rparr>"
proof -
  let ?o = "sl_order s @ [c]"
  let ?k = "length ?o - limit"
  have nc: "c \<notin> set (sl_order s)" using assms(1,2) unfolding slot_wf_def by blast
  with assms(1) have d: "distinct ?o" by (auto simp: slot_wf_def)
  have o': "o' = drop ?k ?o" using evict_loop_drop [of limit ?o "om_put c g (sl_by_content s)"]
    by (simp add: ev)
  have keys: "om_find (om_put c g (sl_by_content s)) x \<noteq> None \<longleftrightarrow> x \<in> set ?o" for x
    using assms(1) by (auto simp: slot_wf_def)
  have m': "om_find m' x \<noteq> None \<longleftrightarrow> x \<in> set o'" for x
    using evict_loop_find [of limit ?o "om_put c g (sl_by_content s)" x] keys [of x]
    by (simp only: ev snd_conv o' distinct_in_drop [OF d]) (simp split: if_splits)
  show ?thesis
    using d m' by (simp add: slot_wf_def o' distinct_drop del: drop_append)
qed

lemma resolve_created:
  assumes "om_find (sl_by_content (slot_of reg i)) c = None"
    and "evict_loop (gr_history_limit reg) (sl_order (slot_of reg i) @ [c])
      (om_put c (next_generation (slot_of reg i)) (sl_by_content (slot_of reg i))) = (o', m')"
  shows "resolve reg i c = (next_generation (slot_of reg i), True,
    put_slot i \<lparr>sl_by_content = m', sl_current = next_generation (slot_of reg i),
                 sl_order = o'\<rparr> reg)"
  using assms by (simp add: resolve_def Let_def)

lemma resolve_known:
  "om_find (sl_by_content (slot_of reg i)) c = Some g \<Longrightarrow>
   resolve reg i c = (g, False, put_slot i ((slot_of reg i)\<lparr>sl_current := g\<rparr>) reg)"
  by (simp add: resolve_def Let_def)

lemma resolve_cases:
  assumes "resolve reg i c = (g, created, reg')"
  obtains
    (known) "om_find (sl_by_content (slot_of reg i)) c = Some g" "\<not> created"
      "reg' = put_slot i ((slot_of reg i)\<lparr>sl_current := g\<rparr>) reg"
  | (fresh) o' m' where "om_find (sl_by_content (slot_of reg i)) c = None" "created"
      "g = next_generation (slot_of reg i)"
      "evict_loop (gr_history_limit reg) (sl_order (slot_of reg i) @ [c])
         (om_put c g (sl_by_content (slot_of reg i))) = (o', m')"
      "reg' = put_slot i \<lparr>sl_by_content = m', sl_current = g, sl_order = o'\<rparr> reg"
  using assms by (auto simp: resolve_def Let_def split: option.splits prod.splits)

lemma resolve_wf:
  assumes "registry_wf reg" "0 < gr_history_limit reg" "resolve reg i c = (g, created, reg')"
  shows "registry_wf reg'"
  using assms(3)
proof (cases rule: resolve_cases)
  case known
  with slot_of_wf [OF assms(1), of i] assms(1) show ?thesis
    by (auto simp: slot_wf_def intro: registry_wf_put)
next
  case (fresh o' m')
  have "slot_wf (gr_history_limit reg) \<lparr>sl_by_content = m', sl_current = g, sl_order = o'\<rparr>"
    using fresh(1,4) slot_of_wf [OF assms(1), of i] assms(2) by (blast intro: evict_slot_wf)
  with fresh(5) assms(1) show ?thesis by (simp add: registry_wf_put)
qed

lemma resolve_limit: "resolve reg i c = (g, created, reg') \<Longrightarrow> gr_history_limit reg' = gr_history_limit reg"
  by (auto simp: resolve_def Let_def split: option.splits prod.splits)

lemma resolve_other:
  "resolve reg i c = (g, created, reg') \<Longrightarrow> j \<noteq> i \<Longrightarrow> slot_of reg' j = slot_of reg j"
  by (auto simp: resolve_def Let_def split: option.splits prod.splits)

lemma resolve_current: "resolve reg i c = (g, created, reg') \<Longrightarrow> sl_current (slot_of reg' i) = g"
  by (auto simp: resolve_def Let_def split: option.splits prod.splits)

lemma resolve_remembers:
  assumes "registry_wf reg" "0 < gr_history_limit reg" "resolve reg i c = (g, created, reg')"
  shows "om_find (sl_by_content (slot_of reg' i)) c = Some g"
proof (cases "om_find (sl_by_content (slot_of reg i)) c")
  case None
  let ?s = "slot_of reg i"
  let ?o = "sl_order ?s @ [c]"
  have wf: "slot_wf (gr_history_limit reg) ?s" using assms(1) by (rule slot_of_wf)
  have "c \<notin> set (sl_order ?s)" using wf None unfolding slot_wf_def by blast
  moreover have "length ?o - gr_history_limit reg \<le> length (sl_order ?s)"
    using assms(2) by simp
  ultimately have "c \<notin> set (take (length ?o - gr_history_limit reg) ?o)"
    by (auto dest: in_set_takeD)
  then have "om_find (snd (evict_loop (gr_history_limit reg) ?o
      (om_put c (next_generation ?s) (sl_by_content ?s)))) c = Some (next_generation ?s)"
    by (simp add: evict_loop_find)
  with assms(3) None show ?thesis
    by (auto simp: resolve_def Let_def split: prod.splits)
next
  case (Some h)
  with assms(3) show ?thesis by (auto simp: resolve_def Let_def)
qed

lemma resolve_keeps:
  assumes "resolve reg i c = (g, created, reg')"
    and "om_find (sl_by_content (slot_of reg j)) d = Some h"
    and "om_find (sl_by_content (slot_of reg' j)) d = Some h'"
  shows "h' = h"
  using assms(1)
proof (cases rule: resolve_cases)
  case known
  with assms(2,3) show ?thesis by (simp split: if_splits)
next
  case (fresh o' m')
  have "om_find m' d = (if d \<in> set (take (length (sl_order (slot_of reg i) @ [c])
      - gr_history_limit reg) (sl_order (slot_of reg i) @ [c])) then None
      else if d = c then Some g else om_find (sl_by_content (slot_of reg i)) d)"
    using evict_loop_find [of "gr_history_limit reg" "sl_order (slot_of reg i) @ [c]"
        "om_put c g (sl_by_content (slot_of reg i))" d]
    unfolding fresh(4) by simp
  with fresh assms(2,3) show ?thesis by (auto split: if_splits)
qed

text \<open>
  the generation of a content is a function of its identity and content for as long
  as the history remembers it.  A content that was just resolved is found again with the
  same generation and nothing is created, and no resolution, of any identity and content,
  changes the generation of a content that stays in the history.
\<close>

theorem resolve_stable:
  assumes "registry_wf reg" "0 < gr_history_limit reg" "resolve reg i c = (g, created, reg')"
  shows "registry_wf reg'
    \<and> fst (resolve reg' i c) = g \<and> \<not> fst (snd (resolve reg' i c))
    \<and> (\<forall>j d h h'. lookup_generation reg j d = Some h \<longrightarrow>
         lookup_generation reg' j d = Some h' \<longrightarrow> h' = h)"
proof (intro conjI allI impI)
  show "registry_wf reg'" using assms by (rule resolve_wf)
  show "fst (resolve reg' i c) = g" "\<not> fst (snd (resolve reg' i c))"
    by (simp_all add: resolve_known [OF resolve_remembers [OF assms]])
  fix j d h h'
  assume "lookup_generation reg j d = Some h" "lookup_generation reg' j d = Some h'"
  then have "om_find (sl_by_content (slot_of reg j)) d = Some h"
    "om_find (sl_by_content (slot_of reg' j)) d = Some h'"
    by (auto simp: lookup_generation_def slot_of_def split: option.splits)
  with resolve_keeps [OF assms(3)] show "h' = h" by blast
qed

lemma resolve_stable_witness:
  "\<exists>reg'. resolve (empty_registry :: (toolchain_tag, toolchain_tag) registry) (Ident 7) 5 = (Gen 1, True, reg')
     \<and> registry_wf reg' \<and> fst (resolve reg' (Ident 7) 5) = Gen 1"
proof -
  let ?r = "empty_registry :: (toolchain_tag, toolchain_tag) registry"
  obtain reg' where r: "resolve ?r (Ident 7) 5 = (Gen 1, True, reg')"
    by (simp add: resolve_def empty_registry_def slot_of_def empty_slot_def next_generation_def
        gen_is_zero_def Let_def)
  show ?thesis
    using r resolve_stable [OF registry_wf_empty _ r] by (auto simp: empty_registry_def)
qed

section \<open>Growth of generations\<close>

text \<open>The current generation is the highest the slot remembers.\<close>

definition slot_top :: "'g slot \<Rightarrow> bool" where
  "slot_top s \<longleftrightarrow> (\<forall>c g. om_find (sl_by_content s) c = Some g \<longrightarrow> g \<le> sl_current s)"

lemma next_generation_greater:
  "gen_value (sl_current s) \<noteq> - 1 \<Longrightarrow> sl_current s < next_generation s"
  by (cases "sl_current s") (auto simp: next_generation_def gen_is_zero_def gen_next_strict)

text \<open>
  where the current generation is the highest the slot remembers, a content not in
  the history gets a generation strictly above every remembered one, and the new current
  generation is again the highest.
\<close>

theorem resolve_fresh_greater:
  assumes top: "slot_top (slot_of reg i)" and max: "gen_value (sl_current (slot_of reg i)) \<noteq> - 1"
    and res: "resolve reg i c = (g, True, reg')"
  shows "(\<forall>d h. lookup_generation reg i d = Some h \<longrightarrow> h < g) \<and> slot_top (slot_of reg' i)"
proof -
  let ?s = "slot_of reg i"
  from res obtain o' m' where f: "g = next_generation ?s"
    "evict_loop (gr_history_limit reg) (sl_order ?s @ [c]) (om_put c g (sl_by_content ?s)) = (o', m')"
    "reg' = put_slot i \<lparr>sl_by_content = m', sl_current = g, sl_order = o'\<rparr> reg"
    by (cases rule: resolve_cases) auto
  have up: "sl_current ?s < g" using max f(1) by (simp add: next_generation_greater)
  have "om_find m' d = Some h \<Longrightarrow> h \<le> g" for d h
    using evict_loop_find [of "gr_history_limit reg" "sl_order ?s @ [c]"
        "om_put c g (sl_by_content ?s)" d] top up
    unfolding f(2) by (auto simp: slot_top_def split: if_splits)
      (metis less_imp_le order.strict_trans1)
  then have "slot_top (slot_of reg' i)" by (simp add: f(3) slot_top_def)
  moreover have "\<forall>d h. lookup_generation reg i d = Some h \<longrightarrow> h < g"
    using top up
    by (auto simp: lookup_generation_def slot_top_def slot_of_def split: option.splits
        intro: order.strict_trans1)
  ultimately show ?thesis by blast
qed

lemma resolve_fresh_greater_witness:
  "slot_top (slot_of (empty_registry :: (toolchain_tag, toolchain_tag) registry) (Ident 7)) \<and>
   (\<exists>reg'. resolve (empty_registry :: (toolchain_tag, toolchain_tag) registry) (Ident 7) 5 = (Gen 1, True, reg')
     \<and> slot_top (slot_of reg' (Ident 7)))"
proof -
  let ?r = "empty_registry :: (toolchain_tag, toolchain_tag) registry"
  have t: "slot_top (slot_of ?r (Ident 7))"
    by (simp add: slot_top_def slot_of_def empty_registry_def empty_slot_def)
  have m: "gen_value (sl_current (slot_of ?r (Ident 7))) \<noteq> - 1"
    by (simp add: slot_of_def empty_registry_def empty_slot_def)
  obtain reg' where r: "resolve ?r (Ident 7) 5 = (Gen 1, True, reg')"
    by (simp add: resolve_def empty_registry_def slot_of_def empty_slot_def next_generation_def
        gen_is_zero_def Let_def)
  show ?thesis using t r resolve_fresh_greater [OF t m r] by blast
qed

text \<open>
  returning to an older content breaks the growth of generations.  After contents
  1, 2 and 1 again, the unrelated content 3 receives the generation of content 2, so two
  different contents of one identity carry the same generation.  The registry's header
  promises that changed content always resolves to a strictly greater generation.
\<close>

theorem generation_collision:
  "let r0 = (empty_registry :: (toolchain_tag, toolchain_tag) registry);
       (g1, _, r1) = resolve r0 (Ident 7) 1;
       (g2, _, r2) = resolve r1 (Ident 7) 2;
       (g1', _, r3) = resolve r2 (Ident 7) 1;
       (g3, created, r4) = resolve r3 (Ident 7) 3
   in g1 = Gen 1 \<and> g2 = Gen 2 \<and> g1' = Gen 1 \<and> created \<and> g3 = g2
      \<and> lookup_generation r4 (Ident 7) 2 = lookup_generation r4 (Ident 7) 3"
  by code_simp

end
