(* ===== verification/DC_Lifecycle.thy ===== *)
theory DC_Lifecycle
  imports DC_Model
begin

text \<open>
  Life cycles (\<^verbatim>\<open>src/runtime.cpp\<close>, enumerations of \<^verbatim>\<open>include/dc/runtime.hpp\<close>): the attempt
  state machine with its closed transition relation, the classification of failures, and
  the states of a compilation.
\<close>

section \<open>Attempt states\<close>

datatype attempt_state =
    AS_Created | AS_Eligible | AS_Assigned | AS_Preparing | AS_Running | AS_Produced | AS_Validating
  | AS_CommitReady | AS_Committed | AS_Failed | AS_Cancelled | AS_Fenced | AS_Ambiguous | AS_Retired

fun attempt_state_string :: "attempt_state \<Rightarrow> string" where
  "attempt_state_string AS_Created = ''Created''"
| "attempt_state_string AS_Eligible = ''Eligible''"
| "attempt_state_string AS_Assigned = ''Assigned''"
| "attempt_state_string AS_Preparing = ''Preparing''"
| "attempt_state_string AS_Running = ''Running''"
| "attempt_state_string AS_Produced = ''Produced''"
| "attempt_state_string AS_Validating = ''Validating''"
| "attempt_state_string AS_CommitReady = ''CommitReady''"
| "attempt_state_string AS_Committed = ''Committed''"
| "attempt_state_string AS_Failed = ''Failed''"
| "attempt_state_string AS_Cancelled = ''Cancelled''"
| "attempt_state_string AS_Fenced = ''Fenced''"
| "attempt_state_string AS_Ambiguous = ''Ambiguous''"
| "attempt_state_string AS_Retired = ''Retired''"

definition attempt_state_entries :: "(string \<times> attempt_state) list" where
  "attempt_state_entries =
    [(''Created'', AS_Created),
     (''Eligible'', AS_Eligible),
     (''Assigned'', AS_Assigned),
     (''Preparing'', AS_Preparing),
     (''Running'', AS_Running),
     (''Produced'', AS_Produced),
     (''Validating'', AS_Validating),
     (''CommitReady'', AS_CommitReady),
     (''Committed'', AS_Committed),
     (''Failed'', AS_Failed),
     (''Cancelled'', AS_Cancelled),
     (''Fenced'', AS_Fenced),
     (''Ambiguous'', AS_Ambiguous),
     (''Retired'', AS_Retired)]"

definition parse_attempt_state :: "string \<Rightarrow> attempt_state option" where
  "parse_attempt_state t = map_of attempt_state_entries t"

text \<open>\<^verbatim>\<open>is_legal_transition\<close>: the targets listed for each state.\<close>

fun legal_targets :: "attempt_state \<Rightarrow> attempt_state list" where
  "legal_targets AS_Created = [AS_Eligible, AS_Fenced, AS_Cancelled]"
| "legal_targets AS_Eligible = [AS_Assigned, AS_Failed, AS_Fenced, AS_Cancelled]"
| "legal_targets AS_Assigned = [AS_Preparing, AS_Failed, AS_Fenced, AS_Cancelled, AS_Ambiguous]"
| "legal_targets AS_Preparing = [AS_Running, AS_Produced, AS_Failed, AS_Fenced, AS_Cancelled, AS_Ambiguous]"
| "legal_targets AS_Running = [AS_Produced, AS_Failed, AS_Fenced, AS_Cancelled, AS_Ambiguous]"
| "legal_targets AS_Produced = [AS_Validating, AS_Failed, AS_Fenced, AS_Cancelled]"
| "legal_targets AS_Validating = [AS_CommitReady, AS_Failed, AS_Fenced, AS_Cancelled]"
| "legal_targets AS_CommitReady = [AS_Committed, AS_Failed, AS_Fenced, AS_Cancelled, AS_Ambiguous]"
| "legal_targets AS_Committed = [AS_Retired]"
| "legal_targets AS_Failed = [AS_Retired]"
| "legal_targets AS_Cancelled = [AS_Retired]"
| "legal_targets AS_Fenced = [AS_Retired]"
| "legal_targets AS_Ambiguous = [AS_Retired]"
| "legal_targets AS_Retired = []"

definition is_legal_transition :: "attempt_state \<Rightarrow> attempt_state \<Rightarrow> bool" where
  "is_legal_transition f t = (if f = t then False else t \<in> set (legal_targets f))"

fun is_terminal_state :: "attempt_state \<Rightarrow> bool" where
  "is_terminal_state AS_Committed = True"
| "is_terminal_state AS_Failed = True"
| "is_terminal_state AS_Cancelled = True"
| "is_terminal_state AS_Fenced = True"
| "is_terminal_state AS_Retired = True"
| "is_terminal_state _ = False"

definition holds_commit_authority :: "attempt_state \<Rightarrow> bool" where
  "holds_commit_authority s =
     (s = AS_CommitReady \<or> s = AS_Validating \<or> s = AS_Produced \<or> s = AS_Running
      \<or> s = AS_Preparing \<or> s = AS_Assigned)"

section \<open>Failure classes\<close>

datatype failure_class = FC_Retryable | FC_NonRetryable | FC_Ambiguous

fun failure_class_string :: "failure_class \<Rightarrow> string" where
  "failure_class_string FC_Retryable = ''RETRYABLE''"
| "failure_class_string FC_NonRetryable = ''NON_RETRYABLE''"
| "failure_class_string FC_Ambiguous = ''AMBIGUOUS''"

definition classify_failure :: "error_code \<Rightarrow> failure_class" where
  "classify_failure c =
     (if c \<in> {Err_TransportFailure, Err_ConnectionClosed, Err_Timeout, Err_IoError, Err_Internal}
      then FC_Retryable
      else if c \<in> {Err_Ambiguous, Err_Shutdown} then FC_Ambiguous
      else if c \<in> {Err_StaleEpoch, Err_StaleWorkerBoot, Err_StaleWorkerGeneration, Err_StaleLease,
                   Err_StaleCompilation, Err_StaleAttempt, Err_StaleSource, Err_StaleIR,
                   Err_StaleDependencies, Err_StaleToolchain, Err_StaleTarget,
                   Err_StaleSpecialization, Err_StalePolicy, Err_StaleCache, Err_StaleRequest,
                   Err_StaleSession}
      then FC_Retryable
      else if c = Err_Unknown then FC_Ambiguous
      else FC_NonRetryable)"

section \<open>Compilation states\<close>

datatype compilation_state =
    CS_Pending | CS_CacheHit | CS_Eligible | CS_Assigned | CS_Running | CS_Producing | CS_Validating
  | CS_CommitReady | CS_Committed | CS_Failed | CS_Cancelled | CS_Fenced | CS_Ambiguous | CS_Retired

fun compilation_state_string :: "compilation_state \<Rightarrow> string" where
  "compilation_state_string CS_Pending = ''Pending''"
| "compilation_state_string CS_CacheHit = ''CacheHit''"
| "compilation_state_string CS_Eligible = ''Eligible''"
| "compilation_state_string CS_Assigned = ''Assigned''"
| "compilation_state_string CS_Running = ''Running''"
| "compilation_state_string CS_Producing = ''Producing''"
| "compilation_state_string CS_Validating = ''Validating''"
| "compilation_state_string CS_CommitReady = ''CommitReady''"
| "compilation_state_string CS_Committed = ''Committed''"
| "compilation_state_string CS_Failed = ''Failed''"
| "compilation_state_string CS_Cancelled = ''Cancelled''"
| "compilation_state_string CS_Fenced = ''Fenced''"
| "compilation_state_string CS_Ambiguous = ''Ambiguous''"
| "compilation_state_string CS_Retired = ''Retired''"

section \<open>Facts\<close>

lemma parse_attempt_state_string: "parse_attempt_state (attempt_state_string s) = Some s"
  by (cases s) (simp_all add: parse_attempt_state_def attempt_state_entries_def)

text \<open>How far along its life an attempt is.\<close>

fun attempt_rank :: "attempt_state \<Rightarrow> nat" where
  "attempt_rank AS_Created = 0"
| "attempt_rank AS_Eligible = 1"
| "attempt_rank AS_Assigned = 2"
| "attempt_rank AS_Preparing = 3"
| "attempt_rank AS_Running = 4"
| "attempt_rank AS_Produced = 5"
| "attempt_rank AS_Validating = 6"
| "attempt_rank AS_CommitReady = 7"
| "attempt_rank AS_Retired = 9"
| "attempt_rank _ = 8"

lemma legal_rank: "is_legal_transition a b \<Longrightarrow> attempt_rank a < attempt_rank b"
  by (cases a) (auto simp: is_legal_transition_def split: if_splits)

lemma attempt_rank_le: "attempt_rank s \<le> 9"
  by (cases s) simp_all

lemma legal_to_Committed: "is_legal_transition a AS_Committed \<longleftrightarrow> a = AS_CommitReady"
  by (cases a) (simp_all add: is_legal_transition_def)

lemma legal_to_CommitReady: "is_legal_transition a AS_CommitReady \<longleftrightarrow> a = AS_Validating"
  by (cases a) (simp_all add: is_legal_transition_def)

lemma legal_to_Validating: "is_legal_transition a AS_Validating \<longleftrightarrow> a = AS_Produced"
  by (cases a) (simp_all add: is_legal_transition_def)

lemma legal_to_Produced: "is_legal_transition a AS_Produced \<longleftrightarrow> a = AS_Preparing \<or> a = AS_Running"
  by (cases a) (simp_all add: is_legal_transition_def)

lemma legal_from_terminal:
  "is_terminal_state a \<or> a = AS_Ambiguous \<Longrightarrow> is_legal_transition a b \<Longrightarrow> b = AS_Retired"
  by (cases a) (auto simp: is_legal_transition_def split: if_splits)

lemma terminal_no_authority: "is_terminal_state s \<Longrightarrow> \<not> holds_commit_authority s"
  by (cases s) (simp_all add: holds_commit_authority_def)

text \<open>A run of the state machine: the states an attempt goes through, first to last.\<close>

inductive attempt_run :: "attempt_state \<Rightarrow> attempt_state list \<Rightarrow> attempt_state \<Rightarrow> bool" where
  stop: "attempt_run s [] s"
| move: "is_legal_transition s t \<Longrightarrow> attempt_run t ts u \<Longrightarrow> attempt_run s (t # ts) u"

code_pred attempt_run .

inductive_cases attempt_run_ConsE: "attempt_run s (t # ts) u"

inductive_simps attempt_run_Nil [simp]: "attempt_run s [] u"

lemma attempt_run_rank: "attempt_run s ts u \<Longrightarrow> attempt_rank s + length ts \<le> attempt_rank u"
  by (induction rule: attempt_run.induct) (auto dest: legal_rank)

lemma attempt_run_later: "attempt_run s ts u \<Longrightarrow> t \<in> set ts \<Longrightarrow> attempt_rank s < attempt_rank t"
  by (induction arbitrary: t rule: attempt_run.induct) (auto dest: legal_rank intro: less_trans)

lemma attempt_run_distinct: "attempt_run s ts u \<Longrightarrow> distinct (s # ts)"
proof (induction rule: attempt_run.induct)
  case (move s t ts u)
  then have "attempt_run s (t # ts) u" by (blast intro: attempt_run.move)
  with move.IH show ?case by (auto dest: attempt_run_later)
qed simp

text \<open>What is left of a run that ends in Committed.\<close>

definition commit_tail :: "attempt_state \<Rightarrow> attempt_state list \<Rightarrow> bool" where
  "commit_tail s ts \<longleftrightarrow>
     (case s of
        AS_Committed \<Rightarrow> ts = []
      | AS_CommitReady \<Rightarrow> ts = [AS_Committed]
      | AS_Validating \<Rightarrow> ts = [AS_CommitReady, AS_Committed]
      | AS_Produced \<Rightarrow> ts = [AS_Validating, AS_CommitReady, AS_Committed]
      | _ \<Rightarrow> attempt_rank s < 5 \<and>
            (\<exists>pre. s # ts = pre @ [AS_Produced, AS_Validating, AS_CommitReady, AS_Committed]))"

lemma commit_tail_move:
  "is_legal_transition s t \<Longrightarrow> commit_tail t ts \<Longrightarrow> commit_tail s (t # ts)"
  by (cases s; cases t)
    (auto simp: is_legal_transition_def commit_tail_def intro: exI [of _ "_ # _"])

lemma attempt_run_commit_tail: "attempt_run s ts AS_Committed \<Longrightarrow> commit_tail s ts"
  by (induction s ts "AS_Committed" rule: attempt_run.induct)
    (auto simp: commit_tail_def [of AS_Committed] intro: commit_tail_move)

text \<open>
  C36: an attempt's life is finite and goes one way.  A run of legal transitions visits no
  state twice and takes at most nine transitions, and a run from before Produced that
  commits ends with exactly Produced, Validating, CommitReady, Committed.
\<close>

theorem attempt_life:
  assumes "attempt_run s ts u"
  shows "length ts \<le> 9 \<and> distinct (s # ts)
    \<and> (u = AS_Committed \<and> attempt_rank s < 5 \<longrightarrow>
        (\<exists>pre. s # ts = pre @ [AS_Produced, AS_Validating, AS_CommitReady, AS_Committed]))"
proof (intro conjI impI)
  show "length ts \<le> 9"
    using attempt_run_rank [OF assms] attempt_rank_le [of u] by linarith
  show "distinct (s # ts)" using assms by (rule attempt_run_distinct)
  assume c: "u = AS_Committed \<and> attempt_rank s < 5"
  with assms have "commit_tail s ts" by (simp add: attempt_run_commit_tail)
  with c show "\<exists>pre. s # ts = pre @ [AS_Produced, AS_Validating, AS_CommitReady, AS_Committed]"
    by (cases s) (simp_all add: commit_tail_def)
qed

lemma attempt_life_witness:
  "attempt_run AS_Created
     [AS_Eligible, AS_Assigned, AS_Preparing, AS_Produced, AS_Validating, AS_CommitReady, AS_Committed]
     AS_Committed
   \<and> distinct [AS_Created, AS_Eligible, AS_Assigned, AS_Preparing, AS_Produced, AS_Validating,
               AS_CommitReady, AS_Committed]"
proof -
  have r: "attempt_run AS_Created
     [AS_Eligible, AS_Assigned, AS_Preparing, AS_Produced, AS_Validating, AS_CommitReady, AS_Committed]
     AS_Committed"
    by (intro attempt_run.intros) (simp_all add: is_legal_transition_def)
  show ?thesis using attempt_life [OF r] r by blast
qed

text \<open>
  no way back.  An attempt in a terminal state holds no commit authority and may only
  be retired; the same holds for an Ambiguous attempt, which can never be resurrected, and
  a retired attempt moves nowhere.
\<close>

theorem terminal_is_final:
  "(is_terminal_state s \<or> s = AS_Ambiguous) \<longrightarrow>
     \<not> holds_commit_authority s
     \<and> (\<forall>t. is_legal_transition s t = (t = AS_Retired \<and> s \<noteq> AS_Retired))"
  by (cases s) (auto simp: holds_commit_authority_def is_legal_transition_def)

lemma terminal_is_final_witness:
  "is_legal_transition AS_Ambiguous AS_Retired \<and> \<not> is_legal_transition AS_Ambiguous AS_Produced"
  using terminal_is_final [of AS_Ambiguous] by simp

end
