(* ===== verification/DC_Canonical.thy ===== *)
theory DC_Canonical
  imports DC_Digest "HOL-Library.Sublist"
begin

text \<open>
  The canonical byte encoding (\<^verbatim>\<open>include/dc/canonical.hpp\<close>, \<^verbatim>\<open>src/canonical.cpp\<close>).

  A writer is a function from the buffer so far to the buffer afterwards; it is
  \<^term>\<open>None\<close> where the code throws \<^verbatim>\<open>std::length_error\<close>.  A reader is a function from the
  unread bytes to a value and the bytes still unread; the sticky failure status of
  \<^verbatim>\<open>CanonicalReader\<close> (after the first failure every later read returns false) is the
  left value of the sum.  The relation \<^verbatim>\<open>faithful\<close> says of a writer and a reader that the
  reader gives back the value, consumes exactly what was written whatever follows, and
  refuses every proper prefix; it composes along fields and over collections.
\<close>

type_synonym writer = "bytes \<Rightarrow> bytes option"
type_synonym 'a reader = "bytes \<Rightarrow> status + 'a \<times> bytes"

section \<open>Limits\<close>

definition max_string_bytes :: nat where "max_string_bytes = 1048576"
definition max_blob_bytes :: nat where "max_blob_bytes = 67108864"
definition max_items :: nat where "max_items = 262144"
definition max_total_bytes :: nat where "max_total_bytes = 268435456"
definition max_domain_tag :: nat where "max_domain_tag = 64"

section \<open>Writer\<close>

text \<open>\<^verbatim>\<open>require\<close> followed by appending the bytes.\<close>

definition w_bytes :: "bytes \<Rightarrow> writer" where
  "w_bytes bs buf = (if length buf + length bs > max_total_bytes then None else Some (buf @ bs))"

definition w_then :: "writer \<Rightarrow> writer \<Rightarrow> writer" where
  "w_then f g buf = (case f buf of None \<Rightarrow> None | Some out \<Rightarrow> g out)"

fun w_seq :: "writer list \<Rightarrow> writer" where
  "w_seq [] = Some"
| "w_seq (w # ws) = w_then w (w_seq ws)"

definition char_byte :: "char \<Rightarrow> u8" where
  "char_byte c = of_nat (of_char c)"

definition byte_char :: "u8 \<Rightarrow> char" where
  "byte_char b = char_of (unat b)"

text \<open>\<^verbatim>\<open>n\<close> bytes of an unsigned integer, least significant first.\<close>

definition le_bytes :: "nat \<Rightarrow> 'l::len word \<Rightarrow> bytes" where
  "le_bytes n v = map (\<lambda>i. ucast (drop_bit (8 * i) v AND 0xFF)) [0..<n]"

definition w_domain :: "string \<Rightarrow> writer" where
  "w_domain tag buf =
     (if length tag > max_domain_tag \<or> length tag > 255 then None
      else w_bytes (of_nat (length tag) # map char_byte tag) buf)"

definition w_u8 :: "u8 \<Rightarrow> writer" where
  "w_u8 v = w_bytes [v]"

definition w_bool :: "bool \<Rightarrow> writer" where
  "w_bool b = w_bytes [if b then 1 else 0]"

definition w_u16 :: "u16 \<Rightarrow> writer" where
  "w_u16 v = w_bytes (le_bytes 2 v)"

definition w_u32 :: "u32 \<Rightarrow> writer" where
  "w_u32 v = w_bytes (le_bytes 4 v)"

definition w_u64 :: "u64 \<Rightarrow> writer" where
  "w_u64 v = w_bytes (le_bytes 8 v)"

definition w_i64 :: "u64 \<Rightarrow> writer" where
  "w_i64 v = w_u64 v"

definition w_f64 :: "u64 \<Rightarrow> writer" where
  "w_f64 bits = w_u64 bits"

definition w_str :: "string \<Rightarrow> writer" where
  "w_str s buf =
     (if length s > max_string_bytes then None
      else if length buf + (length s + 4) > max_total_bytes then None
      else w_then (w_u32 (of_nat (length s))) (w_bytes (map char_byte s)) buf)"

definition w_blob :: "bytes \<Rightarrow> writer" where
  "w_blob bs buf =
     (if length bs > max_blob_bytes then None
      else if length buf + (length bs + 4) > max_total_bytes then None
      else w_then (w_u32 (of_nat (length bs))) (w_bytes bs) buf)"

definition w_digest :: "digest256 \<Rightarrow> writer" where
  "w_digest d = w_bytes (digest_bytes d)"

definition w_list :: "u32 \<Rightarrow> writer" where
  "w_list count buf = (if unat count > max_items then None else w_u32 count buf)"

definition w_present :: "bool \<Rightarrow> writer" where
  "w_present b = w_bool b"

definition w_list_of :: "('a \<Rightarrow> writer) \<Rightarrow> 'a list \<Rightarrow> writer" where
  "w_list_of w xs = w_then (w_list (of_nat (length xs))) (w_seq (map w xs))"

definition w_id :: "'tag ident \<Rightarrow> writer" where
  "w_id i = w_u64 (id_value i)"

definition w_gen :: "'tag gen \<Rightarrow> writer" where
  "w_gen g = w_u64 (gen_value g)"

text \<open>\<^verbatim>\<open>CanonicalWriter::hash\<close>.\<close>

definition w_hash :: "writer \<Rightarrow> digest256 option" where
  "w_hash w = map_option sha256 (w [])"

definition write_string_list :: "string list \<Rightarrow> writer" where
  "write_string_list items = w_then (w_list (of_nat (length items))) (w_seq (map w_str items))"

section \<open>Reader\<close>

definition r_return :: "'a \<Rightarrow> 'a reader" where
  "r_return x bs = Inr (x, bs)"

definition r_fail :: "error_code \<Rightarrow> string \<Rightarrow> 'a reader" where
  "r_fail c d bs = Inl (error c d)"

definition r_bind :: "'a reader \<Rightarrow> ('a \<Rightarrow> 'b reader) \<Rightarrow> 'b reader" where
  "r_bind p f bs = (case p bs of Inl e \<Rightarrow> Inl e | Inr (x, rest) \<Rightarrow> f x rest)"

text \<open>\<^verbatim>\<open>need(count)\<close>, then take that many bytes.\<close>

definition r_bytes :: "nat \<Rightarrow> bytes reader" where
  "r_bytes n bs =
     (if n > length bs then Inl (error Err_Malformed ''canonical record truncated'')
      else Inr (take n bs, drop n bs))"

text \<open>\<^verbatim>\<open>value |= byte << (i * 8)\<close> for \<^verbatim>\<open>i\<close> from 0.\<close>

definition le_load :: "bytes \<Rightarrow> 'l::len word" where
  "le_load bs = fold (\<lambda>i v. v OR push_bit (8 * i) (ucast (bs ! i))) [0..<length bs] 0"

definition r_u8 :: "u8 reader" where
  "r_u8 = r_bind (r_bytes 1) (\<lambda>b. r_return (hd b))"

definition r_bool :: "bool reader" where
  "r_bool = r_bind r_u8 (\<lambda>raw. if raw > 1
     then r_fail Err_Malformed ''canonical boolean out of domain'' else r_return (raw = 1))"

definition r_u16 :: "u16 reader" where
  "r_u16 = r_bind (r_bytes 2) (\<lambda>b. r_return (le_load b))"

definition r_u32 :: "u32 reader" where
  "r_u32 = r_bind (r_bytes 4) (\<lambda>b. r_return (le_load b))"

definition r_u64 :: "u64 reader" where
  "r_u64 = r_bind (r_bytes 8) (\<lambda>b. r_return (le_load b))"

definition r_i64 :: "u64 reader" where
  "r_i64 = r_u64"

definition r_f64 :: "u64 reader" where
  "r_f64 = r_u64"

definition r_str :: "string reader" where
  "r_str = r_bind r_u32 (\<lambda>len. if unat len > max_string_bytes
     then r_fail Err_LimitExceeded ''canonical string exceeds configured limit''
     else r_bind (r_bytes (unat len)) (\<lambda>b. r_return (map byte_char b)))"

definition r_blob :: "bytes reader" where
  "r_blob = r_bind r_u32 (\<lambda>len. if unat len > max_blob_bytes
     then r_fail Err_LimitExceeded ''canonical blob exceeds configured limit''
     else r_bytes (unat len))"

definition r_digest :: "digest256 reader" where
  "r_digest = r_bind (r_bytes 32) (\<lambda>b. r_return (digest_of_bytes b))"

definition r_list :: "u32 reader" where
  "r_list = r_bind r_u32 (\<lambda>count. if unat count > max_items
     then r_fail Err_LimitExceeded ''canonical collection exceeds configured limit''
     else r_return count)"

definition r_present :: "bool reader" where
  "r_present = r_bool"

definition r_domain :: "string \<Rightarrow> unit reader" where
  "r_domain expected = r_bind r_u8 (\<lambda>len. if unat len > max_domain_tag
     then r_fail Err_Malformed ''canonical domain tag too long''
     else r_bind (r_bytes (unat len)) (\<lambda>actual. if map byte_char actual \<noteq> expected
       then r_fail Err_Malformed ''canonical domain mismatch'' else r_return ()))"

definition r_skip :: "nat \<Rightarrow> unit reader" where
  "r_skip count = r_bind (r_bytes count) (\<lambda>_. r_return ())"

definition r_id :: "'tag ident reader" where
  "r_id = r_bind r_u64 (\<lambda>raw. case id_decode raw of
     None \<Rightarrow> r_fail Err_Malformed ''canonical identity handle is zero''
   | Some i \<Rightarrow> r_return i)"

definition r_optional_id :: "'tag ident reader" where
  "r_optional_id = r_bind r_u64 (\<lambda>raw. if raw = 0 then r_return (Ident 0)
     else (case id_decode raw of
        None \<Rightarrow> r_fail Err_Malformed ''optional identity handle is out of domain''
      | Some i \<Rightarrow> r_return i))"

definition r_gen :: "'tag gen reader" where
  "r_gen = r_bind r_u64 (\<lambda>raw. r_return (Gen raw))"

fun r_repeat :: "nat \<Rightarrow> 'a reader \<Rightarrow> 'a list reader" where
  "r_repeat 0 p = r_return []"
| "r_repeat (Suc n) p = r_bind p (\<lambda>x. r_bind (r_repeat n p) (\<lambda>xs. r_return (x # xs)))"

definition r_list_of :: "'a reader \<Rightarrow> 'a list reader" where
  "r_list_of p = r_bind r_list (\<lambda>count. r_repeat (unat count) p)"

definition read_string_list :: "string list reader" where
  "read_string_list = r_bind r_list (\<lambda>count. r_repeat (unat count) r_str)"

section \<open>Little-endian integers\<close>

lemma le_bytes_length [simp]: "length (le_bytes n v) = n"
  by (simp add: le_bytes_def)

lemma bit_fold_or:
  "bit (fold (\<lambda>i v. v OR f i) is (w :: 'l::len word)) n \<longleftrightarrow> bit w n \<or> (\<exists>i\<in>set is. bit (f i) n)"
  by (induction "is" arbitrary: w) (auto simp: bit_simps)

lemma bit_le_load:
  "bit (le_load bs :: 'l::len word) n \<longleftrightarrow>
     n < LENGTH('l) \<and> n div 8 < length bs \<and> bit (bs ! (n div 8)) (n mod 8)"
proof -
  have split: "bit (push_bit (8 * i) (ucast (b :: u8)) :: 'l word) n \<longleftrightarrow>
      n < LENGTH('l) \<and> i = n div 8 \<and> bit b (n mod 8)" for i b
  proof (cases "i = n div 8")
    case True
    then have "n - 8 * i = n mod 8" by (simp add: minus_mult_div_eq_mod)
    with True show ?thesis by (auto simp: bit_simps)
  next
    case False
    have "n < 8 * i \<or> 8 \<le> n - 8 * i"
    proof (rule ccontr)
      assume "\<not> ?thesis"
      then have "n div 8 = i" by (intro div_nat_eqI) auto
      with False show False by simp
    qed
    moreover have "\<not> bit b m" if "8 \<le> m" for m
      using that bit_imp_le_length [of b m] by auto
    ultimately show ?thesis using False by (auto simp: bit_simps)
  qed
  show ?thesis unfolding le_load_def bit_fold_or by (auto simp: split)
qed

lemma le_load_bytes:
  assumes "LENGTH('l::len) = 8 * n"
  shows "le_load (le_bytes n v) = (v :: 'l word)"
proof (rule bit_word_eqI)
  fix m assume m: "m < LENGTH('l)"
  with assms have d: "m div 8 < n" by simp
  have "8 * (m div 8) + m mod 8 = m" by simp
  moreover have "bit (0xFF :: 'l word) (m mod 8)"
  proof -
    have e: "(0xFF :: 'l word) = mask 8" by (simp add: mask_eq_exp_minus_1)
    have "m mod 8 < LENGTH('l)" using m mod_less_eq_dividend [of m 8] by linarith
    then show ?thesis unfolding e bit_mask_iff by simp
  qed
  ultimately show "bit (le_load (le_bytes n v) :: 'l word) m \<longleftrightarrow> bit v m"
    using m d assms by (simp add: bit_le_load le_bytes_def bit_simps)
qed

lemma byte_char_byte [simp]: "byte_char (char_byte c) = c"
  by (simp add: byte_char_def char_byte_def unat_of_nat take_bit_eq_mod [symmetric]
      of_char_mod_256 [of c, where 'a = nat, simplified])

lemma map_byte_char [simp]: "map (byte_char \<circ> char_byte) s = s"
  by (simp add: comp_def)

section \<open>Faithful pairs of a writer and a reader\<close>

text \<open>
  \<^verbatim>\<open>faithful w p x\<close>: whatever is in the buffer, if the writer does not throw it appends
  some bytes, and on those bytes the reader returns \<^verbatim>\<open>x\<close> and stops exactly behind them,
  while it fails on each of their proper prefixes.
\<close>

definition reads :: "'a reader \<Rightarrow> bytes \<Rightarrow> 'a \<Rightarrow> bool" where
  "reads p bs x \<longleftrightarrow> (\<forall>rest. p (bs @ rest) = Inr (x, rest))
     \<and> (\<forall>pre. strict_prefix pre bs \<longrightarrow> (\<exists>e. p pre = Inl e))"

definition faithful :: "writer \<Rightarrow> 'a reader \<Rightarrow> 'a \<Rightarrow> bool" where
  "faithful w p x \<longleftrightarrow> (\<forall>buf out. w buf = Some out \<longrightarrow> (\<exists>bs. out = buf @ bs \<and> reads p bs x))"

lemma reads_return [simp]: "reads (r_return x) [] x"
  by (simp add: reads_def r_return_def)

lemma reads_bind:
  assumes "reads p b1 x" and "reads (f x) b2 y"
  shows "reads (r_bind p f) (b1 @ b2) y"
  unfolding reads_def
proof (intro conjI allI impI)
  fix rest
  show "r_bind p f ((b1 @ b2) @ rest) = Inr (y, rest)"
    using assms by (simp add: reads_def r_bind_def)
next
  fix pre assume "strict_prefix pre (b1 @ b2)"
  then consider "strict_prefix pre b1" | p2 where "pre = b1 @ p2" "strict_prefix p2 b2"
    by (cases "pre = b1") (auto simp: strict_prefix_def prefix_append)
  then show "\<exists>e. r_bind p f pre = Inl e"
  proof cases
    case 1
    then show ?thesis using assms(1) by (auto simp: reads_def r_bind_def)
  next
    case 2
    then show ?thesis using assms by (auto simp: reads_def r_bind_def)
  qed
qed

lemma reads_bytes: "length bs = n \<Longrightarrow> reads (r_bytes n) bs bs"
  by (auto simp: reads_def r_bytes_def dest: prefix_length_less)

lemma reads_map:
  "reads p bs x \<Longrightarrow> f x = y \<Longrightarrow> reads (r_bind p (\<lambda>z. r_return (f z))) bs y"
  using reads_bind [of p bs x "\<lambda>z. r_return (f z)" "[]" y] by simp

lemma faithful_bytes:
  "reads p bs x \<Longrightarrow> faithful (w_bytes bs) p x"
  by (auto simp: faithful_def w_bytes_def)

lemma faithful_then:
  assumes "faithful v p x" and "faithful w (f x) y"
  shows "faithful (w_then v w) (r_bind p f) y"
  unfolding faithful_def
proof (intro allI impI)
  fix buf out assume "w_then v w buf = Some out"
  then obtain mid where "v buf = Some mid" "w mid = Some out"
    by (auto simp: w_then_def split: option.splits)
  with assms obtain b1 b2 where "mid = buf @ b1" "out = mid @ b2" "reads p b1 x" "reads (f x) b2 y"
    by (meson faithful_def)
  then show "\<exists>bs. out = buf @ bs \<and> reads (r_bind p f) bs y"
    by (intro exI [of _ "b1 @ b2"]) (simp add: reads_bind)
qed

lemma faithful_start: "faithful w p x \<Longrightarrow> w [] = Some bs \<Longrightarrow> reads p bs x"
  unfolding faithful_def by (metis append_Nil)

lemma faithful_Nil: "faithful Some (r_return x) x"
  by (auto simp: faithful_def)

text \<open>The two rules that walk a record's writer and reader in step.\<close>

lemma faithful_seq_Nil: "x = y \<Longrightarrow> faithful (w_seq []) (r_return x) y"
  by (simp add: faithful_Nil)

lemma faithful_seq_Cons:
  "faithful v p x \<Longrightarrow> faithful (w_seq ws) (f x) y \<Longrightarrow> faithful (w_seq (v # ws)) (r_bind p f) y"
  by (simp add: faithful_then)

lemma reads_u8: "reads r_u8 [v] v"
  unfolding r_u8_def by (rule reads_map [OF reads_bytes]) simp_all

lemma faithful_u8 [intro]: "faithful (w_u8 v) r_u8 v"
  unfolding w_u8_def by (rule faithful_bytes [OF reads_u8])

lemma faithful_bool [intro]: "faithful (w_bool b) r_bool b"
  unfolding w_bool_def r_bool_def
  by (rule faithful_bytes)
     (use reads_bind [OF reads_u8, of _ "if b then 1 else 0" "[]" b] in \<open>auto simp: r_fail_def\<close>)

lemma reads_u32: "reads r_u32 (le_bytes 4 v) v"
  unfolding r_u32_def by (rule reads_map [OF reads_bytes]) (simp_all add: le_load_bytes)

lemma reads_u64: "reads r_u64 (le_bytes 8 v) v"
  unfolding r_u64_def by (rule reads_map [OF reads_bytes]) (simp_all add: le_load_bytes)

lemma faithful_u16 [intro]: "faithful (w_u16 v) r_u16 v"
  unfolding w_u16_def r_u16_def
  by (rule faithful_bytes, rule reads_map [OF reads_bytes]) (simp_all add: le_load_bytes)

lemma faithful_u32 [intro]: "faithful (w_u32 v) r_u32 v"
  unfolding w_u32_def by (rule faithful_bytes [OF reads_u32])

lemma faithful_u64 [intro]: "faithful (w_u64 v) r_u64 v"
  unfolding w_u64_def by (rule faithful_bytes [OF reads_u64])

lemma digest_bytes_length [simp]: "length (digest_bytes d) = 32"
  by (simp add: digest_bytes_def)

lemma faithful_digest [intro]: "faithful (w_digest d) r_digest d"
  unfolding w_digest_def r_digest_def
  by (rule faithful_bytes, rule reads_map [OF reads_bytes])
     simp_all

lemma faithful_gen [intro]: "faithful (w_gen g) r_gen g"
  unfolding w_gen_def r_gen_def w_u64_def
  by (rule faithful_bytes, rule reads_map [OF reads_u64]) simp

lemma faithful_id [intro]: "i \<noteq> Ident 0 \<Longrightarrow> faithful (w_id i) r_id i"
  unfolding w_id_def r_id_def w_u64_def
  by (rule faithful_bytes, cases i)
     (use reads_bind [OF reads_u64, of _ "id_value i" "[]" i] in \<open>auto simp: id_decode_def\<close>)

lemma faithful_optional_id [intro]: "faithful (w_id i) r_optional_id i"
  unfolding w_id_def r_optional_id_def w_u64_def
  by (rule faithful_bytes, cases i)
     (use reads_bind [OF reads_u64, of _ "id_value i" "[]" i] in \<open>auto simp: id_decode_def\<close>)

lemma faithful_domain [intro]: "faithful (w_domain tag) (r_domain tag) ()"
  unfolding faithful_def
proof (intro allI impI)
  fix buf out assume "w_domain tag buf = Some out"
  then have len: "length tag \<le> max_domain_tag" "unat (of_nat (length tag) :: u8) = length tag"
    and out: "out = buf @ (of_nat (length tag) # map char_byte tag)"
    by (auto simp: w_domain_def w_bytes_def unat_of_nat split: if_splits)
  have "reads (r_bind (r_bytes (length tag)) (\<lambda>actual. if map byte_char actual \<noteq> tag
      then r_fail Err_Malformed ''canonical domain mismatch'' else r_return ()))
      (map char_byte tag @ []) ()"
    by (rule reads_bind [OF reads_bytes]) simp_all
  then have "reads (r_domain tag) ([of_nat (length tag)] @ (map char_byte tag @ [])) ()"
    unfolding r_domain_def by (intro reads_bind [OF reads_u8]) (use len in simp)
  with out show "\<exists>bs. out = buf @ bs \<and> reads (r_domain tag) bs ()" by auto
qed

lemma faithful_str [intro]: "faithful (w_str s) r_str s"
  unfolding faithful_def
proof (intro allI impI)
  fix buf out assume "w_str s buf = Some out"
  then have len: "length s \<le> max_string_bytes" "unat (of_nat (length s) :: u32) = length s"
    and out: "out = buf @ (le_bytes 4 (of_nat (length s) :: u32) @ map char_byte s)"
    by (auto simp: w_str_def w_then_def w_u32_def w_bytes_def unat_of_nat max_string_bytes_def
        split: if_splits option.splits)
  have "reads (r_bind (r_bytes (length s)) (\<lambda>b. r_return (map byte_char b))) (map char_byte s) s"
    by (rule reads_map [OF reads_bytes]) simp_all
  then have "reads r_str (le_bytes 4 (of_nat (length s) :: u32) @ map char_byte s) s"
    unfolding r_str_def by (intro reads_bind [OF reads_u32]) (use len in simp)
  with out show "\<exists>bs. out = buf @ bs \<and> reads r_str bs s" by auto
qed

lemma faithful_blob [intro]: "faithful (w_blob b) r_blob b"
  unfolding faithful_def
proof (intro allI impI)
  fix buf out assume "w_blob b buf = Some out"
  then have len: "length b \<le> max_blob_bytes" "unat (of_nat (length b) :: u32) = length b"
    and out: "out = buf @ (le_bytes 4 (of_nat (length b) :: u32) @ b)"
    by (auto simp: w_blob_def w_then_def w_u32_def w_bytes_def unat_of_nat max_blob_bytes_def
        split: if_splits option.splits)
  have "reads r_blob (le_bytes 4 (of_nat (length b) :: u32) @ b) b"
    unfolding r_blob_def
    by (intro reads_bind [OF reads_u32]) (use len in \<open>simp add: reads_bytes\<close>)
  with out show "\<exists>bs. out = buf @ bs \<and> reads r_blob bs b" by auto
qed

section \<open>Collections\<close>

text \<open>
  What a collection asks of its elements: a faithful pair on a domain (up to a view of the
  element, where the encoding leaves fields out), and a writer that
  always adds at least one byte and stays under the record limit (so that an element
  count that does not fit 32 bits can never have been written).
\<close>

definition w_grows :: "writer \<Rightarrow> bool" where
  "w_grows w \<longleftrightarrow> (\<forall>buf out. w buf = Some out \<longrightarrow>
     length buf < length out \<and> length out \<le> max_total_bytes)"

locale element_codec =
  fixes wr :: "'a \<Rightarrow> writer" and rd :: "'b reader" and view :: "'a \<Rightarrow> 'b" and dom_ok :: "'a \<Rightarrow> bool"
  assumes element_faithful: "dom_ok x \<Longrightarrow> faithful (wr x) rd (view x)"
    and element_grows: "w_grows (wr x)"
begin

lemma repeat_faithful:
  "\<forall>x\<in>set xs. dom_ok x \<Longrightarrow> faithful (w_seq (map wr xs)) (r_repeat (length xs) rd) (map view xs)"
proof (induction xs)
  case Nil
  show ?case by (simp add: faithful_Nil)
next
  case (Cons x xs)
  have last: "faithful (w_seq []) (r_return (map view (x # xs))) (map view (x # xs))" by (simp add: faithful_Nil)
  have "faithful (w_then (w_seq (map wr xs)) (w_seq []))
      (r_bind (r_repeat (length xs) rd) (\<lambda>ys. r_return (view x # ys))) (map view (x # xs))"
    by (rule faithful_then) (use Cons last in auto)
  moreover have "w_then w (w_seq []) = w" for w :: writer
    by (rule ext) (simp add: w_then_def split: option.splits)
  ultimately show ?case
    using Cons.prems by (auto intro: faithful_then element_faithful)
qed

lemma seq_length:
  "w_seq (map wr xs) buf = Some out \<Longrightarrow> length buf + length xs \<le> length out"
proof (induction xs arbitrary: buf)
  case (Cons x xs)
  then obtain mid where mid: "wr x buf = Some mid" "w_seq (map wr xs) mid = Some out"
    by (auto simp: w_then_def split: option.splits)
  with element_grows [of x] have "length buf < length mid" by (auto simp: w_grows_def)
  with Cons.IH [OF mid(2)] show ?case by simp
qed auto

lemma seq_total:
  "w_seq (map wr xs) buf = Some out \<Longrightarrow> length buf \<le> max_total_bytes \<Longrightarrow> length out \<le> max_total_bytes"
proof (induction xs arbitrary: buf)
  case (Cons x xs)
  then obtain mid where mid: "wr x buf = Some mid" "w_seq (map wr xs) mid = Some out"
    by (auto simp: w_then_def split: option.splits)
  with element_grows [of x] have "length mid \<le> max_total_bytes" by (auto simp: w_grows_def)
  with Cons.IH [OF mid(2)] show ?case by simp
qed auto

lemma list_written:
  assumes "\<forall>x\<in>set xs. dom_ok x" "w_list_of wr xs buf = Some out"
  obtains n bs where "out = buf @ (le_bytes 4 n @ bs)" "unat n = length xs"
    "reads r_list (le_bytes 4 n) n" "reads (r_repeat (length xs) rd) bs (map view xs)"
proof -
  define n where "n = (of_nat (length xs) :: u32)"
  from assms(2) obtain mid where mid: "w_list n buf = Some mid" "w_seq (map wr xs) mid = Some out"
    by (auto simp: w_list_of_def w_then_def n_def split: option.splits)
  from mid(1) have n: "unat n \<le> max_items" "mid = buf @ le_bytes 4 n" "length mid \<le> max_total_bytes"
    by (auto simp: w_list_def w_u32_def w_bytes_def split: if_splits)
  have "length xs \<le> max_total_bytes" using seq_length [OF mid(2)] seq_total [OF mid(2) n(3)] by simp
  then have len: "unat n = length xs" by (simp add: n_def unat_of_nat max_total_bytes_def)
  obtain bs where bs: "out = mid @ bs" "reads (r_repeat (length xs) rd) bs (map view xs)"
    using repeat_faithful [OF assms(1)] mid(2) by (auto simp: faithful_def)
  have "reads r_list (le_bytes 4 n @ []) n"
    unfolding r_list_def by (rule reads_bind [OF reads_u32]) (use n in simp)
  then show thesis using that [of n bs] bs n len by simp
qed

lemma list_faithful:
  assumes "\<forall>x\<in>set xs. dom_ok x"
  shows "faithful (w_list_of wr xs) (r_list_of rd) (map view xs)"
  unfolding faithful_def
proof (intro allI impI)
  fix buf out assume "w_list_of wr xs buf = Some out"
  then obtain n bs where out: "out = buf @ (le_bytes 4 n @ bs)" "unat n = length xs"
    "reads r_list (le_bytes 4 n) n" "reads (r_repeat (length xs) rd) bs (map view xs)"
    by (rule list_written [OF assms])
  then have "reads (r_list_of rd) (le_bytes 4 n @ bs) (map view xs)"
    unfolding r_list_of_def by (intro reads_bind) auto
  with out(1) show "\<exists>bs. out = buf @ bs \<and> reads (r_list_of rd) bs (map view xs)" by auto
qed

end

lemma w_grows_bytes [simp]: "bs \<noteq> [] \<Longrightarrow> w_grows (w_bytes bs)"
  by (auto simp: w_grows_def w_bytes_def split: if_splits)

lemma w_grows_u32 [simp]: "w_grows (w_u32 v)"
  by (auto simp: w_grows_def w_u32_def w_bytes_def split: if_splits)

lemma w_grows_u64 [simp]: "w_grows (w_u64 v)"
  by (auto simp: w_grows_def w_u64_def w_bytes_def split: if_splits)

lemma w_grows_str [simp]: "w_grows (w_str s)"
  by (auto simp: w_grows_def w_str_def w_then_def w_u32_def w_bytes_def split: if_splits option.splits)

lemma w_grows_id [simp]: "w_grows (w_id i)"
  by (simp add: w_id_def)

lemma w_grows_gen [simp]: "w_grows (w_gen i)"
  by (simp add: w_gen_def)

lemma w_grows_digest [simp]: "w_grows (w_digest d)"
proof -
  have "digest_bytes d \<noteq> []" using digest_bytes_length [of d] by fastforce
  then show ?thesis by (simp add: w_digest_def)
qed

lemma w_grows_domain [simp]: "w_grows (w_domain d)"
  by (auto simp: w_grows_def w_domain_def w_bytes_def split: if_splits)

lemma w_grows_then [simp]: "w_grows v \<Longrightarrow> w_grows w \<Longrightarrow> w_grows (w_then v w)"
  by (fastforce simp: w_grows_def w_then_def split: option.splits)

interpretation str_codec: element_codec w_str r_str id "\<lambda>_. True"
  by unfold_locales auto

interpretation id_codec: element_codec w_id r_id id "\<lambda>i. i \<noteq> Ident 0"
  by unfold_locales auto

interpretation digest_codec: element_codec w_digest r_digest id "\<lambda>_. True"
  by unfold_locales auto

interpretation u32_codec: element_codec w_u32 r_u32 id "\<lambda>_. True"
  by unfold_locales auto

text \<open>
  A string list survives the canonical encoding: whatever list
  \<^verbatim>\<open>write_string_list\<close> manages to write (it refuses more than 262144 items, strings over
  1 MiB and records over 256 MiB) is exactly what \<^verbatim>\<open>read_string_list\<close> reads back, it stops
  right behind the list whatever bytes follow, and every truncation of it is refused.
\<close>

theorem string_list_roundtrip:
  "faithful (write_string_list items) read_string_list items"
  using str_codec.list_faithful [of items]
  by (simp add: write_string_list_def read_string_list_def w_list_of_def r_list_of_def)

text \<open>Faithful encodings are self-delimiting: field boundaries cannot be moved.\<close>

lemma reads_unambiguous:
  "reads p b1 x \<Longrightarrow> reads p b2 y \<Longrightarrow> b1 @ r1 = b2 @ r2 \<Longrightarrow> x = y \<and> r1 = r2"
  unfolding reads_def by (metis Pair_inject sum.inject(2))

lemma faithful_unambiguous:
  assumes "faithful w1 p x" "faithful w2 p y" "w1 buf = Some o1" "w2 buf = Some o2" "o1 @ r1 = o2 @ r2"
  shows "x = y \<and> r1 = r2"
proof -
  obtain b1 where b1: "o1 = buf @ b1" "reads p b1 x"
    using assms(1,3) unfolding faithful_def by blast
  obtain b2 where b2: "o2 = buf @ b2" "reads p b2 y"
    using assms(2,4) unfolding faithful_def by blast
  from assms(5) b1(1) b2(1) have "b1 @ r1 = b2 @ r2" by simp
  with b1(2) b2(2) show ?thesis by (rule reads_unambiguous)
qed

end
