(* ===== verification/DC_Samples.thy ===== *)
theory DC_Samples
  imports DC_Model
begin

text \<open>
  Small concrete data on which the witnesses of the component theories evaluate the
  operations: a toolchain, a target and a one-unit request in canonical form.  The
  digests are arbitrary non-zero numbers.
\<close>

definition sample_binary :: binary_identity where
  "sample_binary = \<lparr>bi_state = BI_Known, bi_digest = 11, bi_size = 4096, bi_path = ''/bin/cc'',
     bi_version_string = ''1''\<rparr>"

definition sample_toolchain :: toolchain_identity where
  "sample_toolchain = \<lparr>tc_id = Ident 1, tc_generation = Gen 0, tc_family = CF_Gnu,
     tc_version_string = ''1'', tc_version_major = 1, tc_version_minor = 0, tc_version_patch = 0,
     tc_compiler = sample_binary, tc_linker = sample_binary, tc_assembler = sample_binary,
     tc_runtime_library = sample_binary, tc_sdk = [], tc_plugins = [], tc_target_libraries = [],
     tc_configuration = [], tc_evidence = EC_Real, tc_evidence_id = Ident 1,
     tc_evidence_generation = Gen 0, tc_identity_digest = 21\<rparr>"

definition sample_target :: target_identity where
  "sample_target = \<lparr>tg_id = Ident 2, tg_generation = Gen 0, tg_os = Os_Linux, tg_arch = Arch_X86_64,
     tg_abi = Abi_Gnu, tg_triple = ''x'', tg_object_format = OF_Elf, tg_stdlib = SL_Libstdcxx,
     tg_runtime_abi = ''r'',
     tg_accelerator = \<lparr>at_vendor = AV_None, at_architecture = [], at_compute_major = 0,
        at_compute_minor = 0, at_isa = [], at_device_runtime = []\<rparr>,
     tg_evidence = EC_Real, tg_identity_digest = 22\<rparr>"

definition sample_source :: unit_source where
  "sample_source = \<lparr>us_logical_name = ''a.c'', us_format = IF_Source, us_language_mode = ''c'',
     us_content = \<lparr>rf_digest = 31, rf_size = 1\<rparr>, us_identity_digest = 32\<rparr>"

definition sample_unit :: compilation_unit_spec where
  "sample_unit = \<lparr>un_index = 0, un_logical_name = ''a'', un_kind = UK_Compile,
     un_sources = [sample_source], un_dependencies = [], un_flags = [], un_output_kind = OK_Object,
     un_child_units = [], un_mandatory = True, un_identity_digest = 41\<rparr>"

definition sample_policy :: compile_policy where
  "sample_policy = \<lparr>po_id = Ident 4, po_generation = Gen 0, po_profile = ''p'',
     po_reproducibility = RR_Required, po_cache = CP_ReadWrite, po_flag_order_significant = True,
     po_require_exact_generation = False, po_negative_cache_enabled = True,
     po_negative_cache_max_entries = 2, po_allow_speculative_duplication = True,
     po_max_attempts_per_unit = 3, po_require_trusted_workers = False,
     po_require_provable_toolchain = True, po_identity_digest = 24\<rparr>"

definition sample_request :: compilation_request where
  "sample_request = \<lparr>rq_request_id = Ident 9, rq_request_generation = Gen 1,
     rq_toolchain = sample_toolchain, rq_target = sample_target,
     rq_specialization = \<lparr>sp_id = Ident 3, sp_generation = Gen 0, sp_fields = [],
        sp_identity_digest = 23\<rparr>,
     rq_policy = sample_policy,
     rq_dependencies = \<lparr>ds_id = Ident 5, ds_generation = Gen 0, ds_entries = [],
        ds_identity_digest = 25\<rparr>,
     rq_environment = \<lparr>en_variables = [], en_deterministic = True,
        en_inherit_process_environment = False\<rparr>,
     rq_flags = [],
     rq_validation = \<lparr>vr_require_format_check = True, vr_require_digest_check = True,
        vr_require_target_metadata = False, vr_require_dependency_metadata = False,
        vr_require_smoke_test = False, vr_smoke_expected_stdout = [], vr_smoke_timeout_ms = 0\<rparr>,
     rq_units = [sample_unit], rq_authority_generation = 0, rq_request_identity = 51\<rparr>"

lemmas sample_defs = sample_binary_def sample_toolchain_def sample_target_def sample_source_def
  sample_unit_def sample_policy_def sample_request_def

end
