(* ===== verification/DC_Identity.thy ===== *)
theory DC_Identity
  imports DC_Enums DC_Canonical DC_Samples "HOL-Library.Char_ord" "HOL-Library.List_Lexorder"
    "HOL-Library.Multiset"
begin

text \<open>
  Canonicalisation and identity derivation (\<^verbatim>\<open>src/model.cpp\<close>).

  A canonical writer may throw \<^verbatim>\<open>std::length_error\<close>, and a canonicalisation may return an
  error status; both stop the computation, so an outcome is a sum of the two ways to stop
  and a result.  \<^verbatim>\<open>std::sort\<close> is taken stable (\<^term>\<open>sort_key\<close>): C++ leaves the order of
  elements that compare equal open.
\<close>

section \<open>Outcomes\<close>

datatype stop = Returned status | Thrown

type_synonym 'a outcome = "stop + 'a"

definition bind_ok :: "'a outcome \<Rightarrow> ('a \<Rightarrow> 'b outcome) \<Rightarrow> 'b outcome" where
  "bind_ok m f = (case m of Inl e \<Rightarrow> Inl e | Inr x \<Rightarrow> f x)"

definition refuse :: "error_code \<Rightarrow> string \<Rightarrow> 'a outcome" where
  "refuse c d = Inl (Returned (error c d))"

fun map_ok :: "('a \<Rightarrow> 'b outcome) \<Rightarrow> 'a list \<Rightarrow> 'b list outcome" where
  "map_ok f [] = Inr []"
| "map_ok f (x # xs) = bind_ok (f x) (\<lambda>y. bind_ok (map_ok f xs) (\<lambda>ys. Inr (y # ys)))"

text \<open>\<^verbatim>\<open>w.hash()\<close>, reached only if no write threw.\<close>

definition hash_of :: "writer \<Rightarrow> digest256 outcome" where
  "hash_of w = (case w_hash w of None \<Rightarrow> Inl Thrown | Some d \<Rightarrow> Inr d)"

section \<open>Text and list helpers\<close>

definition trim :: "string \<Rightarrow> string" where
  "trim text = rev (dropWhile isspace (rev (dropWhile isspace text)))"

definition contains_control :: "string \<Rightarrow> bool" where
  "contains_control text =
     list_ex (\<lambda>c. let value = of_char c :: nat in (value < 32 \<and> value \<noteq> 9) \<or> value = 127) text"

definition quoted :: "string \<Rightarrow> string" where
  "quoted s = [CHR 0x27] @ s @ [CHR 0x27]"

text \<open>\<^verbatim>\<open>std::unique\<close>: drop an element equal to the last one kept.\<close>

fun unique_from :: "('a \<Rightarrow> 'a \<Rightarrow> bool) \<Rightarrow> 'a \<Rightarrow> 'a list \<Rightarrow> 'a list" where
  "unique_from eq x [] = []"
| "unique_from eq x (y # ys) =
     (if eq x y then unique_from eq x ys else y # unique_from eq y ys)"

fun std_unique :: "('a \<Rightarrow> 'a \<Rightarrow> bool) \<Rightarrow> 'a list \<Rightarrow> 'a list" where
  "std_unique eq [] = []"
| "std_unique eq (x # xs) = x # unique_from eq x xs"

text \<open>The first neighbours with equal keys, as the duplicate checks look for them.\<close>

fun adjacent_duplicate :: "('a \<Rightarrow> 'k) \<Rightarrow> 'a list \<Rightarrow> 'a option" where
  "adjacent_duplicate f (x # y # ys) =
     (if f y = f x then Some y else adjacent_duplicate f (y # ys))"
| "adjacent_duplicate f _ = None"

text \<open>The leading eight bytes of a digest, in the byte order of a little-endian host.\<close>

definition handle_from_digest :: "digest256 \<Rightarrow> u64" where
  "handle_from_digest d = le_load (take 8 (digest_bytes d))"

definition handle_of :: "writer \<Rightarrow> 'tag ident outcome" where
  "handle_of w = bind_ok (hash_of w) (\<lambda>d. Inr (Ident (mix64 (handle_from_digest d))))"

section \<open>Field writers\<close>

definition w_count :: "'a list \<Rightarrow> writer" where
  "w_count xs = w_list (of_nat (length xs))"

definition write_content_ref :: "content_ref \<Rightarrow> writer" where
  "write_content_ref r = w_seq [w_digest (rf_digest r), w_u64 (rf_size r)]"

definition read_content_ref :: "content_ref reader" where
  "read_content_ref = r_bind r_digest (\<lambda>d. r_bind r_u64 (\<lambda>n.
     r_return \<lparr>rf_digest = d, rf_size = n\<rparr>))"

definition write_binary_identity :: "binary_identity \<Rightarrow> writer" where
  "write_binary_identity b = w_seq
     [w_u8 (binary_id_state_value (bi_state b)), w_digest (bi_digest b), w_u64 (bi_size b),
      w_str (bi_version_string b),
      (if bi_state b \<noteq> BI_Known then w_seq [w_present True, w_str (bi_path b)]
       else w_present False)]"

definition write_spec_field :: "spec_field \<Rightarrow> writer" where
  "write_spec_field f = w_seq
     [w_str (sf_name f), w_u8 (spec_value_kind_value (sf_kind f)),
      (case sf_kind f of
         SV_Signed \<Rightarrow> w_i64 (sf_signed_value f)
       | SV_Unsigned \<Rightarrow> w_u64 (sf_unsigned_value f)
       | SV_Floating \<Rightarrow> w_f64 (sf_floating_value f)
       | SV_Text \<Rightarrow> w_str (sf_text_value f)
       | SV_Boolean \<Rightarrow> w_bool (sf_boolean_value f))]"

definition write_dependency_entry :: "dependency_entry \<Rightarrow> writer" where
  "write_dependency_entry e = w_seq
     [w_str (de_name e), w_u8 (dependency_kind_value (de_kind e)), write_content_ref (de_content e)]"

definition write_accelerator :: "accelerator_target \<Rightarrow> writer" where
  "write_accelerator a = w_seq
     [w_u8 (accelerator_vendor_value (at_vendor a)), w_str (at_architecture a),
      w_u32 (at_compute_major a), w_u32 (at_compute_minor a), w_str (at_isa a),
      w_str (at_device_runtime a)]"

definition write_pair :: "string \<times> string \<Rightarrow> writer" where
  "write_pair kv = w_seq [w_str (fst kv), w_str (snd kv)]"

section \<open>Identity digests and handles\<close>

definition compute_dependency_entry_identity :: "dependency_entry \<Rightarrow> digest256 outcome" where
  "compute_dependency_entry_identity e = hash_of (w_seq
     [w_domain ''dc.dependency-entry.v1'', w_str (de_name e),
      w_u8 (dependency_kind_value (de_kind e)), write_content_ref (de_content e)])"

definition compute_dependency_set_identity :: "dependency_set \<Rightarrow> digest256 outcome" where
  "compute_dependency_set_identity s = hash_of (w_seq
     [w_domain ''dc.dependency-set.v1'', w_list_of write_dependency_entry (ds_entries s)])"

definition derive_dependency_set_id :: "dependency_set \<Rightarrow> depset_id outcome" where
  "derive_dependency_set_id s = handle_of (w_seq
     [w_domain ''dc.dependency-set-id.v1'',
      w_list_of (\<lambda>e. w_seq [w_str (de_name e), w_u8 (dependency_kind_value (de_kind e))])
        (ds_entries s)])"

definition derive_source_id :: "string \<Rightarrow> source_id outcome" where
  "derive_source_id logical_name =
     handle_of (w_seq [w_domain ''dc.source-id.v1'', w_str logical_name])"

definition derive_ir_id :: "string \<Rightarrow> input_format \<Rightarrow> ir_id outcome" where
  "derive_ir_id logical_name format = handle_of (w_seq
     [w_domain ''dc.ir-id.v1'', w_str logical_name, w_u8 (input_format_value format)])"

definition derive_specialization_id :: "specialization_spec \<Rightarrow> specialization_id outcome" where
  "derive_specialization_id spec = handle_of (w_seq
     [w_domain ''dc.specialization-id.v1'',
      w_list_of (\<lambda>f. w_seq [w_str (sf_name f), w_u8 (spec_value_kind_value (sf_kind f))])
        (sp_fields spec)])"

definition derive_policy_id :: "compile_policy \<Rightarrow> policy_id outcome" where
  "derive_policy_id policy =
     handle_of (w_seq [w_domain ''dc.policy-id.v1'', w_str (po_profile policy)])"

definition derive_toolchain_id :: "toolchain_identity \<Rightarrow> toolchain_id outcome" where
  "derive_toolchain_id t = handle_of (w_seq
     [w_domain ''dc.toolchain-id.v1'', w_u8 (compiler_family_value (tc_family t)),
      w_str (tc_version_string t), w_str (bi_path (tc_compiler t))])"

definition derive_target_id :: "target_identity \<Rightarrow> target_id outcome" where
  "derive_target_id t = handle_of (w_seq
     [w_domain ''dc.target-id.v1'', w_str (tg_triple t),
      w_u8 (object_format_value (tg_object_format t)),
      w_u8 (accelerator_vendor_value (at_vendor (tg_accelerator t))),
      w_str (at_architecture (tg_accelerator t))])"

definition compute_specialization_identity :: "specialization_spec \<Rightarrow> digest256 outcome" where
  "compute_specialization_identity spec = hash_of (w_seq
     [w_domain ''dc.specialization.v1'', w_list_of write_spec_field (sp_fields spec)])"

definition compute_policy_identity :: "compile_policy \<Rightarrow> digest256 outcome" where
  "compute_policy_identity p = hash_of (w_seq
     [w_domain ''dc.policy.v1'', w_str (po_profile p),
      w_u8 (reproducibility_requirement_value (po_reproducibility p)),
      w_u8 (cache_policy_value (po_cache p)), w_bool (po_flag_order_significant p),
      w_bool (po_require_exact_generation p), w_bool (po_negative_cache_enabled p),
      w_u32 (po_negative_cache_max_entries p), w_bool (po_allow_speculative_duplication p),
      w_u32 (po_max_attempts_per_unit p), w_bool (po_require_trusted_workers p),
      w_bool (po_require_provable_toolchain p)])"

definition w_environment :: "environment_contract \<Rightarrow> writer" where
  "w_environment env = w_seq
     [w_domain ''dc.environment.v1'', w_bool (en_deterministic env),
      w_bool (en_inherit_process_environment env), w_list_of write_pair (en_variables env)]"

definition compute_environment_identity :: "environment_contract \<Rightarrow> digest256 outcome" where
  "compute_environment_identity env = hash_of (w_environment env)"

definition write_unit_source :: "unit_source \<Rightarrow> writer" where
  "write_unit_source s = w_seq
     [w_str (us_logical_name s), w_u8 (input_format_value (us_format s)),
      w_str (us_language_mode s), write_content_ref (us_content s)]"

definition compute_unit_source_identity :: "unit_source \<Rightarrow> digest256 outcome" where
  "compute_unit_source_identity s =
     hash_of (w_seq [w_domain ''dc.unit-source.v1'', write_unit_source s])"

definition compute_target_identity :: "target_identity \<Rightarrow> digest256 outcome" where
  "compute_target_identity t = hash_of (w_seq
     [w_domain ''dc.target.v1'', w_u8 (os_kind_value (tg_os t)), w_u8 (arch_kind_value (tg_arch t)),
      w_u8 (abi_kind_value (tg_abi t)), w_str (tg_triple t),
      w_u8 (object_format_value (tg_object_format t)), w_u8 (stdlib_kind_value (tg_stdlib t)),
      w_str (tg_runtime_abi t), write_accelerator (tg_accelerator t)])"

definition compute_toolchain_identity :: "toolchain_identity \<Rightarrow> digest256 outcome" where
  "compute_toolchain_identity t = hash_of (w_seq
     [w_domain ''dc.toolchain.v1'', w_u8 (compiler_family_value (tc_family t)),
      w_str (tc_version_string t), w_u32 (tc_version_major t), w_u32 (tc_version_minor t),
      w_u32 (tc_version_patch t), write_binary_identity (tc_compiler t),
      write_binary_identity (tc_linker t), write_binary_identity (tc_assembler t),
      write_binary_identity (tc_runtime_library t),
      w_list_of (\<lambda>c. w_seq [w_str (sc_name c), w_str (sc_version c)]) (tc_sdk t),
      w_list_of (\<lambda>p. w_seq [w_str (pi_id p), w_str (pi_version p), w_digest (pi_digest p)])
        (tc_plugins t),
      write_string_list (tc_target_libraries t), w_list_of write_pair (tc_configuration t),
      w_u8 (evidence_class_value (tc_evidence t))])"

definition derive_compilation_id :: "digest256 \<Rightarrow> compilation_id outcome" where
  "derive_compilation_id unit_identity =
     handle_of (w_seq [w_domain ''dc.compilation-id.v1'', w_digest unit_identity])"

definition derive_unit_handle :: "digest256 \<Rightarrow> unit_id outcome" where
  "derive_unit_handle unit_identity =
     handle_of (w_seq [w_domain ''dc.unit-handle.v1'', w_digest unit_identity])"

section \<open>Canonicalisation\<close>

fun check_spec_names :: "spec_field list \<Rightarrow> spec_field list outcome" where
  "check_spec_names [] = Inr []"
| "check_spec_names (f # fs) =
     (let name = trim (sf_name f) in
      if name = [] then refuse Err_InvalidArgument ''empty specialization field name''
      else if contains_control name then
        refuse Err_InvalidArgument ''control character in specialization field name''
      else bind_ok (check_spec_names fs) (\<lambda>gs. Inr (f\<lparr>sf_name := name\<rparr> # gs)))"

definition canonicalize_specialization :: "specialization_spec \<Rightarrow> specialization_spec outcome" where
  "canonicalize_specialization spec =
     (let sorted = sort_key sf_name (sp_fields spec) in
      case adjacent_duplicate sf_name sorted of
        Some f \<Rightarrow> refuse Err_Duplicate (''duplicate specialization field: '' @ sf_name f)
      | None \<Rightarrow>
          bind_ok (check_spec_names sorted) (\<lambda>fields.
          let spec1 = spec\<lparr>sp_fields := fields\<rparr> in
          bind_ok (derive_specialization_id spec1) (\<lambda>i.
          bind_ok (compute_specialization_identity spec1) (\<lambda>d.
          Inr (spec1\<lparr>sp_id := i, sp_identity_digest := d\<rparr>)))))"

definition dependency_key :: "dependency_entry \<Rightarrow> u8 \<times> string \<times> digest256 \<times> u64" where
  "dependency_key e = (dependency_kind_value (de_kind e), de_name e,
     rf_digest (de_content e), rf_size (de_content e))"

definition same_dependency :: "dependency_entry \<Rightarrow> dependency_entry \<Rightarrow> bool" where
  "same_dependency a b = (de_name a = de_name b \<and> de_kind a = de_kind b
     \<and> rf_digest (de_content a) = rf_digest (de_content b)
     \<and> rf_size (de_content a) = rf_size (de_content b))"

definition identify_dependency :: "dependency_entry \<Rightarrow> dependency_entry outcome" where
  "identify_dependency e = bind_ok (compute_dependency_entry_identity e)
     (\<lambda>d. Inr (e\<lparr>de_identity_digest := d\<rparr>))"

definition canonicalize_dependency_set :: "dependency_set \<Rightarrow> dependency_set outcome" where
  "canonicalize_dependency_set s =
     bind_ok (map_ok identify_dependency
       (std_unique same_dependency (sort_key dependency_key (ds_entries s)))) (\<lambda>entries.
     let s1 = s\<lparr>ds_entries := entries\<rparr> in
     bind_ok (derive_dependency_set_id s1) (\<lambda>i.
     let s2 = s1\<lparr>ds_id := i\<rparr> in
     bind_ok (compute_dependency_set_identity s2) (\<lambda>d.
     Inr (s2\<lparr>ds_identity_digest := d\<rparr>))))"

definition canonicalize_environment :: "environment_contract \<Rightarrow> environment_contract" where
  "canonicalize_environment env =
     env\<lparr>en_variables := std_unique (\<lambda>a b. fst a = fst b)
       (map (\<lambda>(name, value). (trim name, value)) (sort_key fst (en_variables env)))\<rparr>"

text \<open>
  An absent evidence handle is replaced by one derived from the toolchain handle: the code
  copies the handle's object representation into a digest and reads the leading eight
  bytes back, which are the handle itself.
\<close>

definition canonicalize_toolchain :: "toolchain_identity \<Rightarrow> toolchain_identity outcome" where
  "canonicalize_toolchain t =
     (let t1 = t\<lparr>tc_sdk := sort_key sc_name (tc_sdk t),
                 tc_plugins := sort_key pi_id (tc_plugins t),
                 tc_target_libraries := std_unique (=) (sort (tc_target_libraries t)),
                 tc_configuration := std_unique (\<lambda>a b. fst a = fst b)
                   (sort_key fst (tc_configuration t))\<rparr> in
      bind_ok (derive_toolchain_id t1) (\<lambda>i.
      let t2 = t1\<lparr>tc_id := i\<rparr>;
          t3 = (if id_is_zero (tc_evidence_id t2)
                then t2\<lparr>tc_evidence_id := Ident (mix64 (if id_value i = 0 then 0 else id_value i))\<rparr>
                else t2) in
      bind_ok (compute_toolchain_identity t3) (\<lambda>d.
      Inr (t3\<lparr>tc_identity_digest := d\<rparr>))))"

section \<open>Units and requests\<close>

definition child_identity :: "compilation_request \<Rightarrow> u32 \<Rightarrow> digest256" where
  "child_identity request child =
     (case find_unit request child of None \<Rightarrow> 0 | Some u \<Rightarrow> un_identity_digest u)"

definition w_unit_identity :: "compilation_request \<Rightarrow> digest256 \<Rightarrow> compilation_unit_spec \<Rightarrow> writer" where
  "w_unit_identity request environment u = w_seq
     [w_domain ''dc.unit.v1'',
      w_digest (tc_identity_digest (rq_toolchain request)),
      w_digest (tg_identity_digest (rq_target request)),
      w_digest (sp_identity_digest (rq_specialization request)),
      w_digest (po_identity_digest (rq_policy request)),
      w_digest (ds_identity_digest (rq_dependencies request)),
      w_digest environment,
      w_u8 (unit_kind_value (un_kind u)), w_str (un_logical_name u),
      w_u8 (output_kind_value (un_output_kind u)),
      w_list_of write_unit_source (un_sources u),
      w_list_of write_dependency_entry (un_dependencies u),
      write_string_list (un_flags u), write_string_list (rq_flags request),
      w_list_of (\<lambda>child. w_seq [w_u32 child, w_digest (child_identity request child)])
        (un_child_units u),
      w_bool (un_mandatory u)]"

definition derive_unit_identity ::
    "compilation_request \<Rightarrow> compilation_unit_spec \<Rightarrow> digest256 outcome" where
  "derive_unit_identity request u =
     bind_ok (compute_environment_identity (rq_environment request)) (\<lambda>e.
     hash_of (w_unit_identity request e u))"

definition w_request_identity :: "compilation_request \<Rightarrow> digest256 \<Rightarrow> writer" where
  "w_request_identity request environment = w_seq
     [w_domain ''dc.request.v1'',
      w_digest (tc_identity_digest (rq_toolchain request)),
      w_digest (tg_identity_digest (rq_target request)),
      w_digest (sp_identity_digest (rq_specialization request)),
      w_digest (po_identity_digest (rq_policy request)),
      w_digest (ds_identity_digest (rq_dependencies request)),
      w_digest environment,
      write_string_list (rq_flags request),
      w_digest (rq_authority_generation request),
      w_bool (vr_require_format_check (rq_validation request)),
      w_bool (vr_require_digest_check (rq_validation request)),
      w_bool (vr_require_target_metadata (rq_validation request)),
      w_bool (vr_require_dependency_metadata (rq_validation request)),
      w_bool (vr_require_smoke_test (rq_validation request)),
      w_str (vr_smoke_expected_stdout (rq_validation request)),
      w_u32 (vr_smoke_timeout_ms (rq_validation request)),
      w_list_of (\<lambda>u. w_digest (un_identity_digest u)) (rq_units request)]"

definition derive_request_identity :: "compilation_request \<Rightarrow> digest256 outcome" where
  "derive_request_identity request =
     bind_ok (compute_environment_identity (rq_environment request)) (\<lambda>e.
     hash_of (w_request_identity request e))"

definition canonicalize_source :: "unit_source \<Rightarrow> unit_source outcome" where
  "canonicalize_source s =
     (let name = trim (us_logical_name s);
          s1 = s\<lparr>us_logical_name := name\<rparr> in
      if name = [] then refuse Err_InvalidArgument ''unit source with empty logical name''
      else if digest_is_zero (rf_digest (us_content s)) then
        refuse Err_InvalidArgument (''unit source '' @ quoted name @ '' has no content digest'')
      else
        (let format = (if us_format s = IF_Unknown then input_format_from_extension name
                       else us_format s) in
         if format = IF_Unknown then
           refuse Err_InvalidArgument (''unit source '' @ quoted name @ '' has unknown input format'')
         else
           (let s2 = s1\<lparr>us_format := format,
                        us_language_mode := (if us_language_mode s = [] then ''c++20''
                                             else us_language_mode s)\<rparr> in
            bind_ok (compute_unit_source_identity s2) (\<lambda>d.
            Inr (s2\<lparr>us_identity_digest := d\<rparr>)))))"

definition canonicalize_dependency :: "dependency_entry \<Rightarrow> dependency_entry outcome" where
  "canonicalize_dependency e =
     (let name = trim (de_name e); e1 = e\<lparr>de_name := name\<rparr> in
      if name = [] then refuse Err_InvalidArgument ''unit dependency with empty name''
      else if digest_is_zero (rf_digest (de_content e)) then
        refuse Err_InvalidArgument (''unit dependency '' @ quoted name @ '' has no content digest'')
      else identify_dependency e1)"

definition clean_flag :: "string \<Rightarrow> string \<Rightarrow> string \<Rightarrow> string outcome" where
  "clean_flag empty_detail control_detail flag =
     (let cleaned = trim flag in
      if cleaned = [] then refuse Err_InvalidArgument empty_detail
      else if contains_control cleaned then refuse Err_InvalidArgument control_detail
      else Inr cleaned)"

definition canonicalize_unit ::
    "compilation_request \<Rightarrow> compilation_unit_spec \<Rightarrow> compilation_unit_spec outcome" where
  "canonicalize_unit request u =
     bind_ok (map_ok canonicalize_source (un_sources u)) (\<lambda>srcs.
     let sources = sort_key us_logical_name srcs in
     case adjacent_duplicate us_logical_name sources of
       Some s \<Rightarrow> refuse Err_Duplicate (''duplicate unit source name: '' @ us_logical_name s)
     | None \<Rightarrow>
     if sources = [] \<and> un_kind u \<noteq> UK_Link then
       refuse Err_InvalidArgument (''unit '' @ quoted (un_logical_name u) @ '' has no sources'')
     else
     bind_ok (map_ok canonicalize_dependency (un_dependencies u)) (\<lambda>deps.
     bind_ok (map_ok (clean_flag (''empty compiler flag in unit '' @ quoted (un_logical_name u) )
       ''control character in compiler flag'') (un_flags u)) (\<lambda>flags.
     let name = trim (un_logical_name u);
         children = std_unique (=) (sort (un_child_units u)) in
     if name = [] then refuse Err_InvalidArgument ''unit with empty logical name''
     else if un_kind u = UK_Link \<and> children = [] then
       refuse Err_InvalidArgument (''link unit '' @ quoted name @ '' has no inputs'')
     else Inr (u\<lparr>un_sources := sources,
                 un_dependencies := sort_key dependency_key deps,
                 un_flags := (if po_flag_order_significant (rq_policy request) then flags
                              else sort flags),
                 un_child_units := children,
                 un_logical_name := name\<rparr>))))"

text \<open>The loop over the units: dense indices, then each unit made canonical.\<close>

fun canonicalize_units ::
    "compilation_request \<Rightarrow> nat \<Rightarrow> compilation_unit_spec list
      \<Rightarrow> compilation_unit_spec list outcome" where
  "canonicalize_units request i [] = Inr []"
| "canonicalize_units request i (u # us) =
     (if unat (un_index u) \<noteq> i then
        refuse Err_InvalidArgument ''unit indices must be dense and zero-based''
      else bind_ok (canonicalize_unit request u) (\<lambda>u'.
           bind_ok (canonicalize_units request (Suc i) us) (\<lambda>us'. Inr (u' # us'))))"

fun check_children :: "nat \<Rightarrow> compilation_unit_spec \<Rightarrow> u32 list \<Rightarrow> unit outcome" where
  "check_children n u [] = Inr ()"
| "check_children n u (child # cs) =
     (if unat child \<ge> n then refuse Err_InvalidArgument ''unit child index out of range''
      else if child = un_index u then refuse Err_InvalidArgument ''unit cannot depend on itself''
      else check_children n u cs)"

text \<open>\<^verbatim>\<open>unit.identity_digest = derive_unit_identity(request, unit)\<close>, unit after unit.\<close>

definition set_unit_identity :: "compilation_request \<Rightarrow> nat \<Rightarrow> compilation_request outcome" where
  "set_unit_identity request i =
     bind_ok (derive_unit_identity request (rq_units request ! i)) (\<lambda>d.
     Inr (request\<lparr>rq_units := (rq_units request)[i :=
       (rq_units request ! i)\<lparr>un_identity_digest := d\<rparr>]\<rparr>))"

fun set_unit_identities :: "nat list \<Rightarrow> compilation_request \<Rightarrow> compilation_request outcome" where
  "set_unit_identities [] request = Inr request"
| "set_unit_identities (i # is) request =
     bind_ok (set_unit_identity request i) (set_unit_identities is)"

definition canonicalize :: "compilation_request \<Rightarrow> compilation_request outcome" where
  "canonicalize r0 =
     bind_ok (canonicalize_toolchain (rq_toolchain r0)) (\<lambda>toolchain.
     if tc_family toolchain = CF_Unknown then
       refuse Err_InvalidArgument ''compilation request requires an identified toolchain''
     else if digest_is_zero (tc_identity_digest toolchain) then
       refuse Err_InvalidArgument ''compilation request requires a toolchain identity''
     else
     bind_ok (compute_target_identity (rq_target r0)) (\<lambda>td.
     if digest_is_zero td \<or> tg_arch (rq_target r0) = Arch_Unknown then
       refuse Err_InvalidArgument ''compilation request requires a concrete target''
     else
     bind_ok (derive_target_id (rq_target r0)) (\<lambda>ti.
     bind_ok (canonicalize_specialization (rq_specialization r0)) (\<lambda>spec.
     bind_ok (canonicalize_dependency_set (rq_dependencies r0)) (\<lambda>deps.
     let environment = canonicalize_environment (rq_environment r0) in
     bind_ok (map_ok (clean_flag ''empty job-level compiler flag''
       ''control character in job-level compiler flag'') (rq_flags r0)) (\<lambda>flags.
     let r1 = r0\<lparr>rq_toolchain := toolchain,
                 rq_target := (rq_target r0)\<lparr>tg_identity_digest := td, tg_id := ti\<rparr>,
                 rq_specialization := spec, rq_dependencies := deps,
                 rq_environment := environment,
                 rq_flags := (if po_flag_order_significant (rq_policy r0) then flags
                              else sort flags)\<rparr> in
     if rq_units r1 = [] then refuse Err_InvalidArgument ''compilation request has no units''
     else
     bind_ok (canonicalize_units r1 0 (sort_key un_index (rq_units r1))) (\<lambda>units.
     bind_ok (map_ok (\<lambda>u. check_children (length units) u (un_child_units u)) units) (\<lambda>_.
     bind_ok (derive_policy_id (rq_policy r1)) (\<lambda>pid.
     bind_ok (compute_policy_identity ((rq_policy r1)\<lparr>po_id := pid\<rparr>)) (\<lambda>pd.
     let r2 = r1\<lparr>rq_units := units,
                 rq_policy := (rq_policy r1)\<lparr>po_id := pid, po_identity_digest := pd\<rparr>\<rparr> in
     bind_ok (set_unit_identities [0..<length units] r2) (\<lambda>r3.
     bind_ok (derive_request_identity r3) (\<lambda>rd.
     Inr (r3\<lparr>rq_request_identity := rd\<rparr>)))))))))))))"

section \<open>What a unit identity binds\<close>

text \<open>
  The content of a unit as its identity sees it.  The reader below decodes exactly what
  \<^verbatim>\<open>write_unit_identity_body\<close> writes; it exists only to state that nothing of the content
  can be changed without changing the encoded bytes.
\<close>

definition source_content :: "unit_source \<Rightarrow> string \<times> u8 \<times> string \<times> content_ref" where
  "source_content s =
     (us_logical_name s, input_format_value (us_format s), us_language_mode s, us_content s)"

definition dependency_content :: "dependency_entry \<Rightarrow> string \<times> u8 \<times> content_ref" where
  "dependency_content e = (de_name e, dependency_kind_value (de_kind e), de_content e)"

type_synonym unit_view =
  "digest256 list \<times> u8 \<times> string \<times> u8 \<times> (string \<times> u8 \<times> string \<times> content_ref) list
   \<times> (string \<times> u8 \<times> content_ref) list \<times> string list \<times> string list \<times> (u32 \<times> digest256) list \<times> bool"

definition unit_content ::
    "compilation_request \<Rightarrow> digest256 \<Rightarrow> compilation_unit_spec \<Rightarrow> unit_view" where
  "unit_content request environment u =
     ([tc_identity_digest (rq_toolchain request), tg_identity_digest (rq_target request),
       sp_identity_digest (rq_specialization request), po_identity_digest (rq_policy request),
       ds_identity_digest (rq_dependencies request), environment],
      unit_kind_value (un_kind u), un_logical_name u, output_kind_value (un_output_kind u),
      map source_content (un_sources u), map dependency_content (un_dependencies u),
      un_flags u, rq_flags request,
      map (\<lambda>c. (c, child_identity request c)) (un_child_units u), un_mandatory u)"

definition r_source_content :: "(string \<times> u8 \<times> string \<times> content_ref) reader" where
  "r_source_content = r_bind r_str (\<lambda>n. r_bind r_u8 (\<lambda>f. r_bind r_str (\<lambda>m.
     r_bind read_content_ref (\<lambda>c. r_return (n, f, m, c)))))"

definition r_dependency_content :: "(string \<times> u8 \<times> content_ref) reader" where
  "r_dependency_content = r_bind r_str (\<lambda>n. r_bind r_u8 (\<lambda>k.
     r_bind read_content_ref (\<lambda>c. r_return (n, k, c))))"

definition r_child :: "(u32 \<times> digest256) reader" where
  "r_child = r_bind r_u32 (\<lambda>c. r_bind r_digest (\<lambda>d. r_return (c, d)))"

definition r_unit_content :: "unit_view reader" where
  "r_unit_content = r_bind (r_domain ''dc.unit.v1'') (\<lambda>_.
     r_bind r_digest (\<lambda>a. r_bind r_digest (\<lambda>b. r_bind r_digest (\<lambda>c.
     r_bind r_digest (\<lambda>d. r_bind r_digest (\<lambda>e. r_bind r_digest (\<lambda>f.
     r_bind r_u8 (\<lambda>kind. r_bind r_str (\<lambda>name. r_bind r_u8 (\<lambda>out.
     r_bind (r_list_of r_source_content) (\<lambda>srcs.
     r_bind (r_list_of r_dependency_content) (\<lambda>deps.
     r_bind read_string_list (\<lambda>uf. r_bind read_string_list (\<lambda>rf.
     r_bind (r_list_of r_child) (\<lambda>children. r_bind r_bool (\<lambda>mandatory.
     r_return ([a, b, c, d, e, f], kind, name, out, srcs, deps, uf, rf, children, mandatory)
     ))))))))))))))))"

lemma faithful_content_ref [intro]: "faithful (write_content_ref r) read_content_ref r"
  unfolding write_content_ref_def read_content_ref_def
  by (intro faithful_seq_Cons faithful_seq_Nil) auto

lemma w_grows_content_ref [simp]: "w_grows (write_content_ref r)"
proof -
  have "w_then v Some = v" for v :: writer
    by (rule ext) (simp add: w_then_def split: option.splits)
  then show ?thesis by (simp add: write_content_ref_def)
qed

lemma w_then_Some [simp]: "w_then v Some = v"
  by (rule ext) (simp add: w_then_def split: option.splits)

lemma w_grows_u8 [simp]: "w_grows (w_u8 v)"
  by (simp add: w_u8_def)

lemma faithful_string_list [intro]: "faithful (write_string_list items) read_string_list items"
  using str_codec.list_faithful [of items]
  by (simp add: write_string_list_def read_string_list_def w_list_of_def r_list_of_def)

interpretation source_codec: element_codec write_unit_source r_source_content source_content "\<lambda>_. True"
proof
  fix x
  show "faithful (write_unit_source x) r_source_content (source_content x)"
    unfolding write_unit_source_def r_source_content_def source_content_def
    by (intro faithful_seq_Cons faithful_seq_Nil) auto
qed (simp add: write_unit_source_def)

interpretation dependency_codec:
  element_codec write_dependency_entry r_dependency_content dependency_content "\<lambda>_. True"
proof
  fix x
  show "faithful (write_dependency_entry x) r_dependency_content (dependency_content x)"
    unfolding write_dependency_entry_def r_dependency_content_def dependency_content_def
    by (intro faithful_seq_Cons faithful_seq_Nil) auto
qed (simp add: write_dependency_entry_def)

lemma child_codec:
  "element_codec (\<lambda>c. w_seq [w_u32 c, w_digest (f c)]) r_child (\<lambda>c. (c, f c)) (\<lambda>_. True)"
proof
  fix x
  show "faithful (w_seq [w_u32 x, w_digest (f x)]) r_child (x, f x)"
    unfolding r_child_def by (intro faithful_seq_Cons faithful_seq_Nil) auto
qed simp

lemma faithful_unit_identity:
  "faithful (w_unit_identity request e u) r_unit_content (unit_content request e u)"
  unfolding w_unit_identity_def r_unit_content_def unit_content_def
  by (intro faithful_seq_Cons faithful_seq_Nil)
     (rule faithful_domain faithful_digest faithful_u8 faithful_str faithful_bool
        faithful_string_list source_codec.list_faithful dependency_codec.list_faithful
        element_codec.list_faithful [OF child_codec] ballI TrueI refl)+

text \<open>
  C37: A unit identity binds the whole content of the unit.  Two units (of any two
  requests) with the same identity agree in every input that the identity is meant to
  cover: toolchain, target, specialization, policy, dependency-set and environment
  identities, kind, name and output kind, every source with its format, language mode and
  content, every dependency, the unit and job flags, the identities of the child units and
  the mandatory mark, unless the two byte strings that were hashed for these two units
  differ and are a SHA-256 collision.
\<close>

theorem unit_identity_binds_content:
  assumes "compute_environment_identity (rq_environment r1) = Inr e1"
    and "compute_environment_identity (rq_environment r2) = Inr e2"
    and "derive_unit_identity r1 u1 = Inr d" and "derive_unit_identity r2 u2 = Inr d"
  shows "unit_content r1 e1 u1 = unit_content r2 e2 u2
    \<or> (\<exists>b1 b2. w_unit_identity r1 e1 u1 [] = Some b1 \<and> w_unit_identity r2 e2 u2 [] = Some b2
         \<and> b1 \<noteq> b2 \<and> sha256 b1 = sha256 b2)"
proof -
  from assms obtain b1 b2 where
    b: "w_unit_identity r1 e1 u1 [] = Some b1" "w_unit_identity r2 e2 u2 [] = Some b2"
    and d: "sha256 b1 = sha256 b2"
    by (auto simp: derive_unit_identity_def bind_ok_def hash_of_def w_hash_def split: option.splits)
  show ?thesis
  proof (cases "b1 = b2")
    case True
    then show ?thesis
      using faithful_unambiguous [OF faithful_unit_identity faithful_unit_identity b, of "[]" "[]"]
      by simp
  qed (use b d in blast)
qed

lemmas write_defs = w_then_def w_domain_def w_u8_def w_bool_def w_u32_def w_u64_def w_str_def
  w_digest_def w_list_def w_list_of_def write_string_list_def w_bytes_def max_total_bytes_def
  max_domain_tag_def max_string_bytes_def max_items_def

lemma sample_environment:
  "\<exists>e. compute_environment_identity (rq_environment sample_request) = Inr e"
  by (simp add: compute_environment_identity_def hash_of_def w_hash_def w_environment_def
      sample_defs write_defs)

lemma sample_unit_hash: "\<exists>bs. w_unit_identity sample_request e sample_unit [] = Some bs"
  by (simp add: w_unit_identity_def sample_defs write_defs write_unit_source_def
      write_content_ref_def)

lemma unit_identity_binds_content_witness:
  "\<exists>e d. compute_environment_identity (rq_environment sample_request) = Inr e
    \<and> derive_unit_identity sample_request sample_unit = Inr d
    \<and> (unit_content sample_request e sample_unit = unit_content sample_request e sample_unit
       \<or> (\<exists>b1 b2. w_unit_identity sample_request e sample_unit [] = Some b1
            \<and> w_unit_identity sample_request e sample_unit [] = Some b2
            \<and> b1 \<noteq> b2 \<and> sha256 b1 = sha256 b2))"
proof -
  obtain e where e: "compute_environment_identity (rq_environment sample_request) = Inr e"
    using sample_environment by blast
  obtain bs where "w_unit_identity sample_request e sample_unit [] = Some bs"
    using sample_unit_hash by blast
  with e have d: "derive_unit_identity sample_request sample_unit = Inr (sha256 bs)"
    by (simp add: derive_unit_identity_def bind_ok_def hash_of_def w_hash_def)
  show ?thesis using e d unit_identity_binds_content [OF e e d d] by blast
qed

section \<open>Unit identities inside a request\<close>

lemma find_update:
  "un_index (us ! k) \<noteq> c \<Longrightarrow>
     List.find (\<lambda>u. un_index u = c) (us[k := (us ! k)\<lparr>un_identity_digest := d\<rparr>])
       = List.find (\<lambda>u. un_index u = c) us"
proof (induction us arbitrary: k)
  case (Cons u us)
  then show ?case by (cases k) auto
qed simp

lemma set_unit_identities_append:
  "set_unit_identities (xs @ ys) r = bind_ok (set_unit_identities xs r) (set_unit_identities ys)"
  by (induction xs arbitrary: r) (auto simp: bind_ok_def split: sum.splits)

text \<open>Recording an identity changes no other unit's inputs unless it is a child's.\<close>

lemma derive_unit_identity_update:
  assumes "\<forall>c\<in>set (un_child_units u). un_index (rq_units r ! k) \<noteq> c"
  shows "derive_unit_identity (r\<lparr>rq_units := (rq_units r)[k :=
           (rq_units r ! k)\<lparr>un_identity_digest := d\<rparr>]\<rparr>) (u\<lparr>un_identity_digest := d'\<rparr>)
         = derive_unit_identity r u"
    and "derive_unit_identity (r\<lparr>rq_units := (rq_units r)[k :=
           (rq_units r ! k)\<lparr>un_identity_digest := d\<rparr>]\<rparr>) u = derive_unit_identity r u"
proof -
  let ?r = "r\<lparr>rq_units := (rq_units r)[k := (rq_units r ! k)\<lparr>un_identity_digest := d\<rparr>]\<rparr>"
  have "child_identity ?r c = child_identity r c" if "c \<in> set (un_child_units u)" for c
    using that assms find_update [of "rq_units r" k c d] by (simp add: child_identity_def find_unit_def)
  then have "w_list_of (\<lambda>c. w_seq [w_u32 c, w_digest (child_identity ?r c)]) (un_child_units u)
      = w_list_of (\<lambda>c. w_seq [w_u32 c, w_digest (child_identity r c)]) (un_child_units u)"
    unfolding w_list_of_def by (simp cong: map_cong)
  then show "derive_unit_identity ?r u = derive_unit_identity r u"
    and "derive_unit_identity ?r (u\<lparr>un_identity_digest := d'\<rparr>) = derive_unit_identity r u"
    by (simp_all add: derive_unit_identity_def w_unit_identity_def)
qed

definition dense :: "compilation_request \<Rightarrow> bool" where
  "dense r \<longleftrightarrow> (\<forall>i<length (rq_units r). unat (un_index (rq_units r ! i)) = i)"

definition children_first :: "compilation_request \<Rightarrow> bool" where
  "children_first r \<longleftrightarrow> (\<forall>i<length (rq_units r). \<forall>c\<in>set (un_child_units (rq_units r ! i)). unat c < i)"

lemma set_unit_identities_children_first:
  assumes "dense r" "children_first r" "k \<le> length (rq_units r)"
    and "set_unit_identities [0..<k] r = Inr s"
  shows "dense s \<and> children_first s \<and> length (rq_units s) = length (rq_units r) \<and>
    (\<forall>i<k. derive_unit_identity s (rq_units s ! i) = Inr (un_identity_digest (rq_units s ! i)))"
  using assms(3,4)
proof (induction k arbitrary: s)
  case 0
  then show ?case using assms(1,2) by simp
next
  case (Suc k)
  then obtain t d where t: "set_unit_identities [0..<k] r = Inr t"
    and d: "derive_unit_identity t (rq_units t ! k) = Inr d"
    and s: "s = t\<lparr>rq_units := (rq_units t)[k := (rq_units t ! k)\<lparr>un_identity_digest := d\<rparr>]\<rparr>"
    by (auto simp: set_unit_identities_append bind_ok_def set_unit_identity_def split: sum.splits)
  from Suc.IH [OF _ t] Suc.prems have IH: "dense t" "children_first t"
    "length (rq_units t) = length (rq_units r)"
    "\<And>i. i < k \<Longrightarrow> derive_unit_identity t (rq_units t ! i) = Inr (un_identity_digest (rq_units t ! i))"
    by auto
  have k: "k < length (rq_units t)" using Suc.prems IH(3) by simp
  have other: "\<forall>c\<in>set (un_child_units (rq_units t ! i)). un_index (rq_units t ! k) \<noteq> c" if "i \<le> k" for i
  proof (intro ballI notI)
    fix c assume "c \<in> set (un_child_units (rq_units t ! i))" "un_index (rq_units t ! k) = c"
    moreover from this(1) have "unat c < i" using IH(2) that k by (simp add: children_first_def)
    ultimately show False using IH(1) k that by (auto simp: dense_def)
  qed
  have "derive_unit_identity s (rq_units s ! i) = Inr (un_identity_digest (rq_units s ! i))"
    if "i < Suc k" for i
  proof (cases "i = k")
    case True
    then show ?thesis
      using derive_unit_identity_update(1) [OF other [of k], of d d] d k by (simp add: s)
  next
    case False
    then show ?thesis
      using that derive_unit_identity_update(2) [OF other [of i], of d] IH(4) [of i] k by (simp add: s)
  qed
  moreover have "dense s" "children_first s"
    using IH(1,2) k by (auto simp: s dense_def children_first_def nth_list_update)
  ultimately show ?case using IH(3) s by simp
qed

text \<open>
  C38: When every fan-in unit comes after its children, the identities recorded in the
  request are consistent: each unit's recorded identity is the one derived from its inputs
  and from the identities recorded for its children.
\<close>

theorem unit_identities_consistent:
  assumes "dense r" and "children_first r"
    and "set_unit_identities [0..<length (rq_units r)] r = Inr s" and "i < length (rq_units s)"
  shows "derive_unit_identity s (rq_units s ! i) = Inr (un_identity_digest (rq_units s ! i))"
  using set_unit_identities_children_first [OF assms(1,2) order_refl assms(3)] assms(4) by simp

lemma unit_identities_consistent_witness:
  "\<exists>s. dense sample_request \<and> children_first sample_request
     \<and> set_unit_identities [0..<length (rq_units sample_request)] sample_request = Inr s
     \<and> derive_unit_identity s (rq_units s ! 0) = Inr (un_identity_digest (rq_units s ! 0))"
proof -
  have pre: "dense sample_request" "children_first sample_request"
    "length (rq_units sample_request) = 1" "rq_units sample_request ! 0 = sample_unit"
    by (simp_all add: dense_def children_first_def sample_defs)
  obtain e where e: "compute_environment_identity (rq_environment sample_request) = Inr e"
    using sample_environment by blast
  obtain bs where "w_unit_identity sample_request e sample_unit [] = Some bs"
    using sample_unit_hash by blast
  with e obtain s where s: "set_unit_identities [0..<length (rq_units sample_request)] sample_request = Inr s"
    by (simp add: pre(3,4) set_unit_identity_def derive_unit_identity_def bind_ok_def hash_of_def w_hash_def)
  have "length (rq_units s) = 1"
    using set_unit_identities_children_first [OF pre(1,2) order_refl s] pre(3) by simp
  then show ?thesis using pre s unit_identities_consistent [OF pre(1,2) s, of 0] by auto
qed

lemma find_as_map_of:
  "map_option f (List.find (\<lambda>u. g u = c) us) = map_of (map (\<lambda>u. (g u, f u)) us) c"
  by (induction us) auto

text \<open>
  Nothing makes a fan-in unit come after its children, and when it does not, its
  identity does not bind their content.  If the first unit of two requests is the same and
  the later units differ only in content that is not part of their submitted identity
  digest, the identity recorded for the first unit is the same in both.
\<close>

theorem early_fan_in_ignores_child_content:
  assumes "set_unit_identities [0..<length (rq_units r)] r = Inr s"
    and "set_unit_identities [0..<length (rq_units r)] (r\<lparr>rq_units := us\<rparr>) = Inr s'"
    and "rq_units r \<noteq> []" and "length us = length (rq_units r)" and "us ! 0 = rq_units r ! 0"
    and "map (\<lambda>u. (un_index u, un_identity_digest u)) us
           = map (\<lambda>u. (un_index u, un_identity_digest u)) (rq_units r)"
  shows "un_identity_digest (rq_units s' ! 0) = un_identity_digest (rq_units s ! 0)"
proof -
  have later: "length (rq_units t') = length (rq_units t)
      \<and> un_identity_digest (rq_units t' ! 0) = un_identity_digest (rq_units t ! 0)"
    if "set_unit_identities ks t = Inr t'" "0 \<notin> set ks" for ks t t'
    using that
    by (induction ks arbitrary: t)
       (fastforce simp: bind_ok_def set_unit_identity_def nth_list_update split: sum.splits)+
  have first: "un_identity_digest (rq_units t' ! 0) = d"
    if run: "set_unit_identities [0..<length (rq_units t)] t = Inr t'" and ne: "rq_units t \<noteq> []"
      and d: "derive_unit_identity t (rq_units t ! 0) = Inr d" for t t' d
  proof -
    have "[0..<length (rq_units t)] = 0 # [Suc 0..<length (rq_units t)]"
      using ne by (simp add: upt_conv_Cons)
    with run d have "set_unit_identities [Suc 0..<length (rq_units t)]
        (t\<lparr>rq_units := (rq_units t)[0 := (rq_units t ! 0)\<lparr>un_identity_digest := d\<rparr>]\<rparr>) = Inr t'"
      by (simp add: bind_ok_def set_unit_identity_def)
    moreover have "0 \<notin> set [Suc 0..<length (rq_units t)]" by (simp only: set_upt) simp
    ultimately show ?thesis using later ne by (cases "rq_units t") fastforce+
  qed
  have ids: "child_identity (r\<lparr>rq_units := us\<rparr>) c = child_identity r c" for c
  proof -
    have "map_option un_identity_digest (List.find (\<lambda>u. un_index u = c) us)
        = map_option un_identity_digest (List.find (\<lambda>u. un_index u = c) (rq_units r))"
      unfolding find_as_map_of assms(6) ..
    then show ?thesis
      by (auto simp: child_identity_def find_unit_def split: option.splits)
  qed
  have same: "derive_unit_identity (r\<lparr>rq_units := us\<rparr>) (us ! 0) = derive_unit_identity r (rq_units r ! 0)"
    by (simp add: derive_unit_identity_def w_unit_identity_def ids assms(5))
  obtain d where d: "derive_unit_identity r (rq_units r ! 0) = Inr d"
    using assms(1,3) by (cases "derive_unit_identity r (rq_units r ! 0)")
      (auto simp: upt_conv_Cons bind_ok_def set_unit_identity_def)
  have "un_identity_digest (rq_units s ! 0) = d" using first [OF assms(1,3) d] .
  moreover have "un_identity_digest (rq_units s' ! 0) = d"
    by (rule first [of "r\<lparr>rq_units := us\<rparr>"]) (use assms d same in auto)
  ultimately show ?thesis by simp
qed

definition sample_fan_in :: "digest256 \<Rightarrow> compilation_request" where
  "sample_fan_in content = sample_request\<lparr>rq_units :=
     [sample_unit\<lparr>un_kind := UK_Link, un_sources := [], un_child_units := [1]\<rparr>,
      sample_unit\<lparr>un_index := 1,
        un_sources := [sample_source\<lparr>us_content := \<lparr>rf_digest = content, rf_size = 1\<rparr>\<rparr>]\<rparr>]\<rparr>"

lemma sample_fan_in_units: "length (rq_units (sample_fan_in c)) = 2"
  by (simp add: sample_fan_in_def)

lemma sample_fan_in_runs: "\<exists>s. set_unit_identities [0, 1] (sample_fan_in c) = Inr s"
  by (simp add: sample_fan_in_def set_unit_identity_def derive_unit_identity_def bind_ok_def
      compute_environment_identity_def w_environment_def hash_of_def w_hash_def w_unit_identity_def
      write_unit_source_def write_content_ref_def child_identity_def find_unit_def
      sample_defs write_defs)

lemma early_fan_in_ignores_child_content_witness:
  "\<exists>s s'. set_unit_identities [0..<length (rq_units (sample_fan_in 31))] (sample_fan_in 31) = Inr s
     \<and> set_unit_identities [0..<length (rq_units (sample_fan_in 31))]
         (sample_fan_in 31\<lparr>rq_units := rq_units (sample_fan_in 77)\<rparr>) = Inr s'
     \<and> rq_units (sample_fan_in 77) \<noteq> rq_units (sample_fan_in 31)
     \<and> un_identity_digest (rq_units s' ! 0) = un_identity_digest (rq_units s ! 0)"
proof -
  have upt: "[0..<length (rq_units (sample_fan_in 31))] = [0, 1]"
    by (simp add: sample_fan_in_units upt_conv_Cons)
  have eq: "sample_fan_in 31\<lparr>rq_units := rq_units (sample_fan_in 77)\<rparr> = sample_fan_in 77"
    by (simp add: sample_fan_in_def)
  obtain s s' where s: "set_unit_identities [0, 1] (sample_fan_in 31) = Inr s"
    "set_unit_identities [0, 1] (sample_fan_in 77) = Inr s'"
    using sample_fan_in_runs by blast
  have "un_identity_digest (rq_units s' ! 0) = un_identity_digest (rq_units s ! 0)"
    by (rule early_fan_in_ignores_child_content
          [of "sample_fan_in 31" s "rq_units (sample_fan_in 77)"], unfold upt eq)
       (use s in \<open>simp_all add: sample_fan_in_def\<close>)
  moreover have "rq_units (sample_fan_in 77) \<noteq> rq_units (sample_fan_in 31)"
    by (simp add: sample_fan_in_def sample_unit_def sample_source_def)
  ultimately show ?thesis unfolding upt eq using s by blast
qed

section \<open>Dependency sets\<close>

text \<open>The fields of a dependency that its identity is computed from determine the sort key.\<close>

lemma dependency_key_content:
  "dependency_key a = dependency_key b \<longleftrightarrow> dependency_content a = dependency_content b"
  by (cases "de_content a"; cases "de_content b")
     (auto simp: dependency_key_def dependency_content_def)

lemma same_dependency_key: "same_dependency a b \<longleftrightarrow> dependency_key a = dependency_key b"
  by (auto simp: same_dependency_def dependency_key_def enum_value_inject)

lemma identify_same:
  assumes "dependency_key a = dependency_key b"
  shows "identify_dependency a = identify_dependency b"
proof -
  have eq: "a\<lparr>de_identity_digest := d\<rparr> = b\<lparr>de_identity_digest := d\<rparr>" for d
    using assms by (cases a; cases b; cases "de_content a"; cases "de_content b")
      (simp add: dependency_key_def enum_value_inject)
  have "compute_dependency_entry_identity a = compute_dependency_entry_identity b"
    using assms by (cases a; cases b; cases "de_content a"; cases "de_content b")
      (simp add: dependency_key_def compute_dependency_entry_identity_def enum_value_inject)
  then show ?thesis by (simp add: identify_dependency_def eq)
qed

lemma std_unique_map:
  assumes "\<And>a b. eq a b \<longleftrightarrow> f a = f b"
  shows "map f (std_unique eq xs) = std_unique (=) (map f xs)"
proof -
  have "map f (unique_from eq x xs) = unique_from (=) (f x) (map f xs)" for x xs
    by (induction xs arbitrary: x) (simp_all add: assms)
  then show ?thesis by (cases xs) simp_all
qed

lemma unique_from_sorted:
  fixes xs :: "'a::linorder list"
  assumes "sorted (x # xs)"
  shows "sorted (x # unique_from (=) x xs) \<and> distinct (x # unique_from (=) x xs)
    \<and> set (x # unique_from (=) x xs) = set (x # xs)"
  using assms
proof (induction xs arbitrary: x)
  case (Cons y ys)
  show ?case
  proof (cases "x = y")
    case True
    then show ?thesis using Cons by auto
  next
    case False
    have "sorted (y # ys)" using Cons.prems by simp
    from Cons.IH [OF this] have IH: "sorted (y # unique_from (=) y ys)"
      "distinct (y # unique_from (=) y ys)" "set (y # unique_from (=) y ys) = set (y # ys)" by auto
    have "x < z" if "z \<in> set (y # ys)" for z
      using that False Cons.prems by fastforce
    with IH show ?thesis using False by fastforce
  qed
qed simp

lemma std_unique_sorted:
  fixes xs :: "'a::linorder list"
  shows "std_unique (=) (sort xs) = sorted_list_of_set (set xs)"
proof (rule sorted_distinct_set_unique)
  have "sorted (std_unique (=) ys) \<and> distinct (std_unique (=) ys) \<and> set (std_unique (=) ys) = set ys"
    if "sorted ys" for ys :: "'a list"
    using that unique_from_sorted by (cases ys) auto
  from this [of "sort xs"] show "sorted (std_unique (=) (sort xs))" "distinct (std_unique (=) (sort xs))"
    "set (std_unique (=) (sort xs)) = set (sorted_list_of_set (set xs))" by auto
qed auto

lemma map_sort_key: "map f (sort_key f xs) = sort (map f xs)"
  by (rule properties_for_sort [symmetric]) simp_all

lemma map_ok_keys:
  assumes same: "\<And>a b. k a = k b \<Longrightarrow> f a = f b"
  shows "map k xs = map k ys \<Longrightarrow> map_ok f xs = map_ok f ys"
proof (induction xs arbitrary: ys)
  case (Cons x xs)
  then obtain y ys' where ys: "ys = y # ys'" "k x = k y" "map k xs = map k ys'" by (cases ys) auto
  with Cons.IH same [OF ys(2)] show ?case by simp
qed simp

text \<open>
  The identity of a dependency set depends on nothing but the set of its members: two
  lists with the same (name, kind, content) members, in any order and with any
  repetitions, canonicalise to the same record, handle and digest included.
\<close>

theorem dependency_order_irrelevant:
  assumes "dependency_content ` set xs = dependency_content ` set ys"
  shows "canonicalize_dependency_set (s\<lparr>ds_entries := xs\<rparr>) = canonicalize_dependency_set (s\<lparr>ds_entries := ys\<rparr>)"
proof -
  have "dependency_key ` set xs \<subseteq> dependency_key ` set ys"
    if "dependency_content ` set xs \<subseteq> dependency_content ` set ys" for xs ys
  proof
    fix k assume "k \<in> dependency_key ` set xs"
    then obtain x where x: "x \<in> set xs" "k = dependency_key x" by auto
    with that obtain y where "y \<in> set ys" "dependency_content x = dependency_content y"
      by (auto simp: image_subset_iff image_iff)
    with x show "k \<in> dependency_key ` set ys" using dependency_key_content by auto
  qed
  with assms have keys: "set (map dependency_key xs) = set (map dependency_key ys)"
    unfolding set_map by (metis order_refl subset_antisym)
  have uniq: "map dependency_key (std_unique same_dependency (sort_key dependency_key zs))
      = sorted_list_of_set (set (map dependency_key zs))" for zs
    unfolding std_unique_map [of same_dependency dependency_key, OF same_dependency_key]
      map_sort_key std_unique_sorted ..
  have "map_ok identify_dependency (std_unique same_dependency (sort_key dependency_key xs))
      = map_ok identify_dependency (std_unique same_dependency (sort_key dependency_key ys))"
    by (rule map_ok_keys [of dependency_key, OF identify_same]) (simp_all only: uniq keys)
  then show ?thesis by (simp add: canonicalize_dependency_set_def)
qed

lemma dependency_order_irrelevant_witness:
  "let a = \<lparr>de_name = ''a'', de_kind = DK_Header, de_content = \<lparr>rf_digest = 1, rf_size = 2\<rparr>,
            de_identity_digest = 0\<rparr>;
       b = \<lparr>de_name = ''b'', de_kind = DK_Header, de_content = \<lparr>rf_digest = 1, rf_size = 2\<rparr>,
            de_identity_digest = 5\<rparr>;
       s = rq_dependencies sample_request
   in dependency_content ` set [a, b] = dependency_content ` set [b, a, b]
      \<and> canonicalize_dependency_set (s\<lparr>ds_entries := [a, b]\<rparr>)
          = canonicalize_dependency_set (s\<lparr>ds_entries := [b, a, b]\<rparr>)"
  unfolding Let_def by (rule conjI, force, rule dependency_order_irrelevant) force

end
