(* ===== verification/DC_Authority.thy ===== *)
theory DC_Authority
  imports DC_Canonical
begin

text \<open>
  Compile authority (\<^verbatim>\<open>include/dc/runtime.hpp\<close>, \<^verbatim>\<open>src/runtime.cpp\<close>): the claim a worker
  presents with every message about its attempt, what the coordinator expects of it, the
  comparison of the two, and the claim's canonical encoding.
\<close>

record authority_claim =
  au_epoch :: epoch
  au_compilation :: compilation_id
  au_compilation_generation :: compilation_gen
  au_unit :: unit_id
  au_unit_generation :: unit_gen
  au_attempt :: attempt_id
  au_attempt_generation :: attempt_gen
  au_worker :: worker_id
  au_worker_boot :: boot_id
  au_worker_generation :: worker_gen
  au_lease :: lease_id
  au_lease_generation :: lease_gen
  au_source_generation :: source_gen
  au_ir_generation :: ir_gen
  au_dependency_generation :: dependency_gen
  au_toolchain_generation :: toolchain_gen
  au_target_generation :: target_gen
  au_specialization_generation :: specialization_gen
  au_policy_generation :: policy_gen
  au_cache_generation :: cache_gen
  au_request_identity :: digest256
  au_unit_identity :: digest256

record authority_expectation =
  ax_epoch :: epoch
  ax_compilation :: compilation_id
  ax_compilation_generation :: compilation_gen
  ax_unit :: unit_id
  ax_unit_generation :: unit_gen
  ax_attempt :: attempt_id
  ax_attempt_generation :: attempt_gen
  ax_worker :: worker_id
  ax_worker_boot :: boot_id
  ax_worker_generation :: worker_gen
  ax_lease :: lease_id
  ax_lease_generation :: lease_gen
  ax_source_generation :: source_gen
  ax_ir_generation :: ir_gen
  ax_dependency_generation :: dependency_gen
  ax_toolchain_generation :: toolchain_gen
  ax_target_generation :: target_gen
  ax_specialization_generation :: specialization_gen
  ax_policy_generation :: policy_gen
  ax_cache_generation :: cache_gen
  ax_request_identity :: digest256
  ax_unit_identity :: digest256

definition moved :: "string \<Rightarrow> 'tag gen \<Rightarrow> 'tag gen \<Rightarrow> string" where
  "moved what from to = what @ to_dec (gen_value from) @ '' to '' @ to_dec (gen_value to)"

definition validate_authority :: "authority_claim \<Rightarrow> authority_expectation \<Rightarrow> status" where
  "validate_authority claim expected =
     (if au_epoch claim \<noteq> ax_epoch expected then
       error Err_StaleEpoch (moved ''coordinator epoch moved from '' (au_epoch claim) (ax_epoch expected))
     else if au_compilation claim \<noteq> ax_compilation expected then
       error Err_StaleCompilation ''compilation identity mismatch''
     else if au_compilation_generation claim \<noteq> ax_compilation_generation expected then
       error Err_StaleCompilation (moved ''compilation generation moved from '' (au_compilation_generation claim) (ax_compilation_generation expected))
     else if au_unit claim \<noteq> ax_unit expected then
       error Err_StaleCompilation ''compilation unit mismatch''
     else if au_unit_generation claim \<noteq> ax_unit_generation expected then
       error Err_StaleCompilation ''compilation unit generation mismatch''
     else if au_attempt claim \<noteq> ax_attempt expected then
       error Err_StaleAttempt ''attempt identity mismatch''
     else if au_attempt_generation claim \<noteq> ax_attempt_generation expected then
       error Err_StaleAttempt (moved ''attempt generation moved from '' (au_attempt_generation claim) (ax_attempt_generation expected))
     else if au_worker claim \<noteq> ax_worker expected then
       error Err_StaleWorkerGeneration ''worker identity mismatch''
     else if au_worker_boot claim \<noteq> ax_worker_boot expected then
       error Err_StaleWorkerBoot ''worker boot identity moved''
     else if au_worker_generation claim \<noteq> ax_worker_generation expected then
       error Err_StaleWorkerGeneration (moved ''worker generation moved from '' (au_worker_generation claim) (ax_worker_generation expected))
     else if au_lease claim \<noteq> ax_lease expected then
       error Err_StaleLease ''lease identity mismatch''
     else if au_lease_generation claim \<noteq> ax_lease_generation expected then
       error Err_StaleLease (moved ''lease generation moved from '' (au_lease_generation claim) (ax_lease_generation expected))
     else if au_source_generation claim \<noteq> ax_source_generation expected then
       error Err_StaleSource (moved ''source generation moved from '' (au_source_generation claim) (ax_source_generation expected))
     else if au_ir_generation claim \<noteq> ax_ir_generation expected then
       error Err_StaleIR ''IR generation moved''
     else if au_dependency_generation claim \<noteq> ax_dependency_generation expected then
       error Err_StaleDependencies (moved ''dependency generation moved from '' (au_dependency_generation claim) (ax_dependency_generation expected))
     else if au_toolchain_generation claim \<noteq> ax_toolchain_generation expected then
       error Err_StaleToolchain (moved ''toolchain generation moved from '' (au_toolchain_generation claim) (ax_toolchain_generation expected))
     else if au_target_generation claim \<noteq> ax_target_generation expected then
       error Err_StaleTarget ''target generation moved''
     else if au_specialization_generation claim \<noteq> ax_specialization_generation expected then
       error Err_StaleSpecialization ''specialization generation moved''
     else if au_policy_generation claim \<noteq> ax_policy_generation expected then
       error Err_StalePolicy ''policy generation moved''
     else if au_cache_generation claim \<noteq> ax_cache_generation expected then
       error Err_StaleCache ''cache generation moved''
     else if au_request_identity claim \<noteq> ax_request_identity expected then
       error Err_StaleRequest ''request identity mismatch''
     else if au_unit_identity claim \<noteq> ax_unit_identity expected then
       error Err_StaleCompilation ''unit identity mismatch''
     else success)"

definition write_authority_claim :: "authority_claim \<Rightarrow> writer" where
  "write_authority_claim claim = w_seq [w_domain ''dc.authority-claim.v1'',
     w_gen (au_epoch claim),
     w_id (au_compilation claim),
     w_gen (au_compilation_generation claim),
     w_id (au_unit claim),
     w_gen (au_unit_generation claim),
     w_id (au_attempt claim),
     w_gen (au_attempt_generation claim),
     w_id (au_worker claim),
     w_id (au_worker_boot claim),
     w_gen (au_worker_generation claim),
     w_id (au_lease claim),
     w_gen (au_lease_generation claim),
     w_gen (au_source_generation claim),
     w_gen (au_ir_generation claim),
     w_gen (au_dependency_generation claim),
     w_gen (au_toolchain_generation claim),
     w_gen (au_target_generation claim),
     w_gen (au_specialization_generation claim),
     w_gen (au_policy_generation claim),
     w_gen (au_cache_generation claim),
     w_digest (au_request_identity claim),
     w_digest (au_unit_identity claim)]"

definition read_authority_claim :: "authority_claim reader" where
  "read_authority_claim =
     r_bind (r_domain ''dc.authority-claim.v1'') (\<lambda>_.
     r_bind r_gen (\<lambda>epoch.
     r_bind r_id (\<lambda>compilation.
     r_bind r_gen (\<lambda>compilation_generation.
     r_bind r_id (\<lambda>unit.
     r_bind r_gen (\<lambda>unit_generation.
     r_bind r_id (\<lambda>attempt.
     r_bind r_gen (\<lambda>attempt_generation.
     r_bind r_id (\<lambda>worker.
     r_bind r_id (\<lambda>worker_boot.
     r_bind r_gen (\<lambda>worker_generation.
     r_bind r_id (\<lambda>lease.
     r_bind r_gen (\<lambda>lease_generation.
     r_bind r_gen (\<lambda>source_generation.
     r_bind r_gen (\<lambda>ir_generation.
     r_bind r_gen (\<lambda>dependency_generation.
     r_bind r_gen (\<lambda>toolchain_generation.
     r_bind r_gen (\<lambda>target_generation.
     r_bind r_gen (\<lambda>specialization_generation.
     r_bind r_gen (\<lambda>policy_generation.
     r_bind r_gen (\<lambda>cache_generation.
     r_bind r_digest (\<lambda>request_identity.
     r_bind r_digest (\<lambda>unit_identity.
     r_return \<lparr>au_epoch = epoch,
       au_compilation = compilation,
       au_compilation_generation = compilation_generation,
       au_unit = unit,
       au_unit_generation = unit_generation,
       au_attempt = attempt,
       au_attempt_generation = attempt_generation,
       au_worker = worker,
       au_worker_boot = worker_boot,
       au_worker_generation = worker_generation,
       au_lease = lease,
       au_lease_generation = lease_generation,
       au_source_generation = source_generation,
       au_ir_generation = ir_generation,
       au_dependency_generation = dependency_generation,
       au_toolchain_generation = toolchain_generation,
       au_target_generation = target_generation,
       au_specialization_generation = specialization_generation,
       au_policy_generation = policy_generation,
       au_cache_generation = cache_generation,
       au_request_identity = request_identity,
       au_unit_identity = unit_identity\<rparr>)))))))))))))))))))))))"

text \<open>The expectation that a claim meets, field by field.\<close>

definition claim_expectation :: "authority_claim \<Rightarrow> authority_expectation" where
  "claim_expectation c = \<lparr>ax_epoch = au_epoch c,
     ax_compilation = au_compilation c,
     ax_compilation_generation = au_compilation_generation c,
     ax_unit = au_unit c,
     ax_unit_generation = au_unit_generation c,
     ax_attempt = au_attempt c,
     ax_attempt_generation = au_attempt_generation c,
     ax_worker = au_worker c,
     ax_worker_boot = au_worker_boot c,
     ax_worker_generation = au_worker_generation c,
     ax_lease = au_lease c,
     ax_lease_generation = au_lease_generation c,
     ax_source_generation = au_source_generation c,
     ax_ir_generation = au_ir_generation c,
     ax_dependency_generation = au_dependency_generation c,
     ax_toolchain_generation = au_toolchain_generation c,
     ax_target_generation = au_target_generation c,
     ax_specialization_generation = au_specialization_generation c,
     ax_policy_generation = au_policy_generation c,
     ax_cache_generation = au_cache_generation c,
     ax_request_identity = au_request_identity c,
     ax_unit_identity = au_unit_identity c\<rparr>"

text \<open>The handles that the reader requires to be present.\<close>

definition claim_handles_present :: "authority_claim \<Rightarrow> bool" where
  "claim_handles_present c \<longleftrightarrow> au_compilation c \<noteq> Ident 0 \<and> au_unit c \<noteq> Ident 0 \<and> au_attempt c \<noteq> Ident 0 \<and> au_worker c \<noteq> Ident 0 \<and> au_worker_boot c \<noteq> Ident 0 \<and> au_lease c \<noteq> Ident 0"

text \<open>
  Authority is exact.  A claim is accepted if and only if it agrees with the
  coordinator's expectation in all twenty-two fields, and a refusal always carries one of
  the typed stale codes, so a stale worker is never told that its message was malformed or
  that it may retry.
\<close>

theorem authority_exact:
  "(st_ok (validate_authority c e) \<longleftrightarrow> claim_expectation c = e)
   \<and> (st_ok (validate_authority c e) \<or> is_stale (st_code (validate_authority c e)))"
proof -
  have ok: "st_ok (validate_authority c e) \<longleftrightarrow> claim_expectation c = e"
    by (cases e) (simp add: validate_authority_def claim_expectation_def)
  have "is_stale (st_code (validate_authority c e))" if "validate_authority c e \<noteq> success"
    using that unfolding validate_authority_def
    by (simp add: is_stale_def split del: if_split split: if_split_asm)
  then show ?thesis using ok by (metis st_ok_success)
qed

lemma claim_faithful:
  "claim_handles_present c \<Longrightarrow> faithful (write_authority_claim c) read_authority_claim c"
  unfolding write_authority_claim_def read_authority_claim_def claim_handles_present_def
  by (intro faithful_seq_Cons faithful_seq_Nil) auto

text \<open>
  A claim whose handles are set survives the wire: it is always encoded, in 246
  bytes, the encoding is read back as the same claim whatever bytes follow, and no
  truncation of it decodes.
\<close>

theorem authority_claim_roundtrip:
  assumes "claim_handles_present c"
  shows "\<exists>bs. write_authority_claim c [] = Some bs \<and> length bs = 246
    \<and> (\<forall>rest. read_authority_claim (bs @ rest) = Inr (c, rest))
    \<and> (\<forall>pre. strict_prefix pre bs \<longrightarrow> (\<exists>e. read_authority_claim pre = Inl e))"
proof -
  have "faithful (write_authority_claim c) read_authority_claim c"
    using assms by (rule claim_faithful)
  moreover have "\<exists>bs. write_authority_claim c [] = Some bs \<and> length bs = 246"
    by (simp add: write_authority_claim_def w_then_def w_domain_def w_id_def w_gen_def w_u64_def
        w_digest_def w_bytes_def max_total_bytes_def max_domain_tag_def)
  ultimately show ?thesis by (metis faithful_start reads_def)
qed

lemma authority_claim_roundtrip_witness:
  "let c = \<lparr>au_epoch = Gen 4, au_compilation = Ident 3, au_compilation_generation = Gen 4, au_unit = Ident 3,
     au_unit_generation = Gen 4, au_attempt = Ident 3, au_attempt_generation = Gen 4, au_worker = Ident 3,
     au_worker_boot = Ident 3, au_worker_generation = Gen 4, au_lease = Ident 3, au_lease_generation = Gen 4,
     au_source_generation = Gen 4, au_ir_generation = Gen 4, au_dependency_generation = Gen 4, au_toolchain_generation = Gen 4,
     au_target_generation = Gen 4, au_specialization_generation = Gen 4, au_policy_generation = Gen 4,
     au_cache_generation = Gen 4, au_request_identity = 5, au_unit_identity = 5\<rparr>
   in claim_handles_present c \<and> (\<exists>bs. write_authority_claim c [] = Some bs \<and> length bs = 246
    \<and> (\<forall>rest. read_authority_claim (bs @ rest) = Inr (c, rest))
    \<and> (\<forall>pre. strict_prefix pre bs \<longrightarrow> (\<exists>e. read_authority_claim pre = Inl e)))"
  unfolding Let_def
  by (rule conjI, simp add: claim_handles_present_def, rule authority_claim_roundtrip)
     (simp add: claim_handles_present_def)

end
