(* ===== verification/DC_Worker.thy ===== *)
theory DC_Worker
  imports DC_Identity DC_Lifecycle
begin

text \<open>
  Workers (\<^verbatim>\<open>include/dc/runtime.hpp\<close>, \<^verbatim>\<open>src/runtime.cpp\<close>): advertised capabilities and
  their identity, the worker record, the eligibility test against a unit's hard
  requirements, and the ranking of the eligible workers.
\<close>

section \<open>Capabilities\<close>

record worker_capabilities =
  wc_toolchains :: "toolchain_identity list"
  wc_targets :: "target_identity list"
  wc_input_formats :: "input_format list"
  wc_plugins :: "plugin_identity list"
  wc_sdks :: "sdk_component list"
  wc_logical_cores :: u32
  wc_memory_bytes :: u64
  wc_scratch_bytes :: u64
  wc_max_artifact_bytes :: u64
  wc_filesystem_isolation :: bool
  wc_sandbox :: bool
  wc_deterministic_build :: bool
  wc_remote_cache_access :: bool
  wc_artifact_store_access :: bool
  wc_trusted :: bool
  wc_evidence :: evidence_class
  wc_host :: string
  wc_digest :: digest256

definition compute_capability_identity :: "worker_capabilities \<Rightarrow> digest256 outcome" where
  "compute_capability_identity c = hash_of (w_seq
     [w_domain ''dc.capabilities.v1'',
      w_list_of (\<lambda>t. w_digest (tc_identity_digest t)) (wc_toolchains c),
      w_list_of (\<lambda>t. w_digest (tg_identity_digest t)) (wc_targets c),
      w_list_of (\<lambda>f. w_u8 (input_format_value f)) (wc_input_formats c),
      w_list_of (\<lambda>p. w_seq [w_str (pi_id p), w_str (pi_version p), w_digest (pi_digest p)])
        (wc_plugins c),
      w_list_of (\<lambda>s. w_seq [w_str (sc_name s), w_str (sc_version s)]) (wc_sdks c),
      w_u32 (wc_logical_cores c), w_u64 (wc_memory_bytes c), w_u64 (wc_scratch_bytes c),
      w_u64 (wc_max_artifact_bytes c), w_bool (wc_filesystem_isolation c), w_bool (wc_sandbox c),
      w_bool (wc_deterministic_build c), w_bool (wc_remote_cache_access c),
      w_bool (wc_artifact_store_access c), w_bool (wc_trusted c),
      w_u8 (evidence_class_value (wc_evidence c))])"

definition identify_target :: "target_identity \<Rightarrow> target_identity outcome" where
  "identify_target t = bind_ok (compute_target_identity t) (\<lambda>d. Inr (t\<lparr>tg_identity_digest := d\<rparr>))"

definition canonicalize_capabilities :: "worker_capabilities \<Rightarrow> worker_capabilities outcome" where
  "canonicalize_capabilities c =
     bind_ok (map_ok canonicalize_toolchain (wc_toolchains c)) (\<lambda>toolchains.
     bind_ok (map_ok identify_target (wc_targets c)) (\<lambda>targets.
     let c1 = c\<lparr>wc_toolchains := sort_key tc_identity_digest toolchains,
                wc_targets := sort_key tg_identity_digest targets,
                wc_input_formats := std_unique (=) (sort (wc_input_formats c)),
                wc_plugins := sort_key pi_id (wc_plugins c),
                wc_sdks := sort_key sc_name (wc_sdks c)\<rparr> in
     bind_ok (compute_capability_identity c1) (\<lambda>d. Inr (c1\<lparr>wc_digest := d\<rparr>))))"

definition find_toolchain :: "worker_capabilities \<Rightarrow> digest256 \<Rightarrow> toolchain_identity option" where
  "find_toolchain c identity = List.find (\<lambda>t. tc_identity_digest t = identity) (wc_toolchains c)"

definition find_target :: "worker_capabilities \<Rightarrow> digest256 \<Rightarrow> target_identity option" where
  "find_target c identity = List.find (\<lambda>t. tg_identity_digest t = identity) (wc_targets c)"

definition supports_format :: "worker_capabilities \<Rightarrow> input_format \<Rightarrow> bool" where
  "supports_format c format = list_ex (\<lambda>s. s = format) (wc_input_formats c)"

section \<open>Worker records\<close>

datatype worker_health = WH_Unknown | WH_Healthy | WH_Suspect | WH_Dead | WH_Fenced | WH_Draining

fun worker_health_string :: "worker_health \<Rightarrow> string" where
  "worker_health_string WH_Unknown = ''UNKNOWN''"
| "worker_health_string WH_Healthy = ''HEALTHY''"
| "worker_health_string WH_Suspect = ''SUSPECT''"
| "worker_health_string WH_Dead = ''DEAD''"
| "worker_health_string WH_Fenced = ''FENCED''"
| "worker_health_string WH_Draining = ''DRAINING''"

record worker_record =
  wk_id :: worker_id
  wk_boot :: boot_id
  wk_generation :: worker_gen
  wk_session :: session_id
  wk_endpoint :: string
  wk_host :: string
  wk_capabilities :: worker_capabilities
  wk_health :: worker_health
  wk_ready :: bool
  wk_fenced :: bool
  wk_trusted_evidence_fresh :: bool
  wk_queue_depth :: u32
  wk_in_flight :: u32
  wk_completed_units :: u64
  wk_failed_units :: u64
  wk_total_compile_millis :: u64
  wk_cache_affinity_hits :: u64
  wk_registered_at :: unix_millis
  wk_last_seen :: unix_millis
  wk_active_leases :: "lease_id list"

section \<open>Eligibility\<close>

record hard_requirements =
  hq_toolchain_identity :: "digest256 option"
  hq_target_identity :: "digest256 option"
  hq_required_formats :: "input_format list"
  hq_required_plugins :: "string list"
  hq_required_sdks :: "sdk_component list"
  hq_min_logical_cores :: u32
  hq_min_memory_bytes :: u64
  hq_min_scratch_bytes :: u64
  hq_min_max_artifact_bytes :: u64
  hq_require_sandbox :: bool
  hq_require_filesystem_isolation :: bool
  hq_require_deterministic_build :: bool
  hq_require_trusted :: bool
  hq_require_remote_cache :: bool
  hq_require_artifact_store :: bool
  hq_require_provable_toolchain :: bool
  hq_locality_host :: string
  hq_require_locality :: bool

datatype (plugins only: code) ineligibility_reason =
    IR_None | IR_WorkerUnknown | IR_WorkerNotReady | IR_WorkerFenced | IR_WorkerUnhealthy
  | IR_CapabilityUnknown | IR_ToolchainMissing | IR_ToolchainUnproven | IR_TargetMissing
  | IR_FormatUnsupported | IR_PluginMissing | IR_SdkMissing | IR_InsufficientCores
  | IR_InsufficientMemory | IR_InsufficientScratch | IR_ArtifactSizeLimit | IR_SandboxRequired
  | IR_IsolationRequired | IR_DeterminismRequired | IR_TrustRequired | IR_RemoteCacheRequired
  | IR_ArtifactStoreRequired | IR_LocalityRequired

primrec ineligibility_string :: "ineligibility_reason \<Rightarrow> string" where
  "ineligibility_string IR_None = ''NONE''"
| "ineligibility_string IR_WorkerUnknown = ''WORKER_UNKNOWN''"
| "ineligibility_string IR_WorkerNotReady = ''WORKER_NOT_READY''"
| "ineligibility_string IR_WorkerFenced = ''WORKER_FENCED''"
| "ineligibility_string IR_WorkerUnhealthy = ''WORKER_UNHEALTHY''"
| "ineligibility_string IR_CapabilityUnknown = ''CAPABILITY_UNKNOWN''"
| "ineligibility_string IR_ToolchainMissing = ''TOOLCHAIN_MISSING''"
| "ineligibility_string IR_ToolchainUnproven = ''TOOLCHAIN_UNPROVEN''"
| "ineligibility_string IR_TargetMissing = ''TARGET_MISSING''"
| "ineligibility_string IR_FormatUnsupported = ''FORMAT_UNSUPPORTED''"
| "ineligibility_string IR_PluginMissing = ''PLUGIN_MISSING''"
| "ineligibility_string IR_SdkMissing = ''SDK_MISSING''"
| "ineligibility_string IR_InsufficientCores = ''INSUFFICIENT_CORES''"
| "ineligibility_string IR_InsufficientMemory = ''INSUFFICIENT_MEMORY''"
| "ineligibility_string IR_InsufficientScratch = ''INSUFFICIENT_SCRATCH''"
| "ineligibility_string IR_ArtifactSizeLimit = ''ARTIFACT_SIZE_LIMIT''"
| "ineligibility_string IR_SandboxRequired = ''SANDBOX_REQUIRED''"
| "ineligibility_string IR_IsolationRequired = ''ISOLATION_REQUIRED''"
| "ineligibility_string IR_DeterminismRequired = ''DETERMINISM_REQUIRED''"
| "ineligibility_string IR_TrustRequired = ''TRUST_REQUIRED''"
| "ineligibility_string IR_RemoteCacheRequired = ''REMOTE_CACHE_REQUIRED''"
| "ineligibility_string IR_ArtifactStoreRequired = ''ARTIFACT_STORE_REQUIRED''"
| "ineligibility_string IR_LocalityRequired = ''LOCALITY_REQUIRED''"

record eligibility_decision =
  ed_eligible :: bool
  ed_reason :: ineligibility_reason
  ed_detail :: string

definition reject :: "ineligibility_reason \<Rightarrow> string \<Rightarrow> eligibility_decision" where
  "reject reason detail = \<lparr>ed_eligible = False, ed_reason = reason, ed_detail = detail\<rparr>"

definition plugin_available :: "worker_capabilities \<Rightarrow> string \<Rightarrow> bool" where
  "plugin_available c requirement = list_ex (\<lambda>p.
     (if pi_version p = [] then pi_id p else pi_id p @ ''@'' @ pi_version p) = requirement
     \<or> pi_id p = requirement) (wc_plugins c)"

definition sdk_available :: "worker_capabilities \<Rightarrow> sdk_component \<Rightarrow> bool" where
  "sdk_available c requirement = list_ex (\<lambda>s. sc_name s = sc_name requirement
     \<and> (sc_version requirement = [] \<or> sc_version s = sc_version requirement)) (wc_sdks c)"

definition sdk_detail :: "sdk_component \<Rightarrow> string" where
  "sdk_detail r = ''SDK component not available: '' @ sc_name r @
     (if sc_version r = [] then [] else ''@'' @ sc_version r)"

definition evaluate_eligibility ::
    "worker_record \<Rightarrow> hard_requirements \<Rightarrow> eligibility_decision" where
  "evaluate_eligibility w req =
    (let c = wk_capabilities w in
     if wk_fenced w \<or> wk_health w = WH_Fenced then reject IR_WorkerFenced ''worker is fenced''
     else if wk_health w = WH_Dead then reject IR_WorkerUnhealthy ''worker is dead''
     else if wk_health w = WH_Unknown then reject IR_WorkerUnknown ''worker health is unknown''
     else if wk_health w = WH_Suspect then reject IR_WorkerUnhealthy ''worker health is suspect''
     else if wk_health w = WH_Draining then reject IR_WorkerUnhealthy ''worker is draining''
     else if \<not> wk_ready w then reject IR_WorkerNotReady ''worker has not reported ready''
     else if wc_evidence c = EC_Unknown then
       reject IR_CapabilityUnknown ''worker capability evidence is UNKNOWN''
     else if wc_evidence c = EC_Unsupported then
       reject IR_CapabilityUnknown ''worker declared capability evidence UNSUPPORTED''
     else if (case hq_toolchain_identity req of None \<Rightarrow> False
              | Some d \<Rightarrow> find_toolchain c d = None) then
       reject IR_ToolchainMissing ''required toolchain identity not advertised''
     else if (case hq_toolchain_identity req of None \<Rightarrow> False
              | Some d \<Rightarrow> hq_require_provable_toolchain req
                  \<and> \<not> toolchain_identity_is_provable (the (find_toolchain c d))) then
       reject IR_ToolchainUnproven (''toolchain identity is not provable (evidence='' @
         evidence_class_string (tc_evidence (the (find_toolchain c
           (the (hq_toolchain_identity req))))) @ '')'')
     else if (case hq_target_identity req of None \<Rightarrow> False
              | Some d \<Rightarrow> find_target c d = None) then
       reject IR_TargetMissing ''required target identity not advertised''
     else
     case List.find (\<lambda>f. \<not> supports_format c f) (hq_required_formats req) of
       Some f \<Rightarrow> reject IR_FormatUnsupported (''input format not supported: '' @ input_format_string f)
     | None \<Rightarrow>
     case List.find (\<lambda>p. \<not> plugin_available c p) (hq_required_plugins req) of
       Some p \<Rightarrow> reject IR_PluginMissing (''compiler plugin not available: '' @ p)
     | None \<Rightarrow>
     case List.find (\<lambda>s. \<not> sdk_available c s) (hq_required_sdks req) of
       Some s \<Rightarrow> reject IR_SdkMissing (sdk_detail s)
     | None \<Rightarrow>
     if hq_min_logical_cores req > 0 \<and> wc_logical_cores c < hq_min_logical_cores req then
       reject IR_InsufficientCores ''logical cores below requirement''
     else if hq_min_memory_bytes req > 0 \<and> wc_memory_bytes c < hq_min_memory_bytes req then
       reject IR_InsufficientMemory ''memory below requirement''
     else if hq_min_scratch_bytes req > 0 \<and> wc_scratch_bytes c < hq_min_scratch_bytes req then
       reject IR_InsufficientScratch ''scratch space below requirement''
     else if hq_min_max_artifact_bytes req > 0
          \<and> wc_max_artifact_bytes c < hq_min_max_artifact_bytes req then
       reject IR_ArtifactSizeLimit ''artifact size limit below requirement''
     else if hq_require_sandbox req \<and> \<not> wc_sandbox c then
       reject IR_SandboxRequired ''worker does not provide sandboxing''
     else if hq_require_filesystem_isolation req \<and> \<not> wc_filesystem_isolation c then
       reject IR_IsolationRequired ''worker does not provide filesystem isolation''
     else if hq_require_deterministic_build req \<and> \<not> wc_deterministic_build c then
       reject IR_DeterminismRequired ''worker does not provide deterministic builds''
     else if hq_require_trusted req \<and> \<not> wc_trusted c then
       reject IR_TrustRequired ''worker is not trusted''
     else if hq_require_remote_cache req \<and> \<not> wc_remote_cache_access c then
       reject IR_RemoteCacheRequired ''worker has no remote cache access''
     else if hq_require_artifact_store req \<and> \<not> wc_artifact_store_access c then
       reject IR_ArtifactStoreRequired ''worker has no artifact store access''
     else if hq_require_locality req \<and> hq_locality_host req \<noteq> [] \<and> wk_host w \<noteq> hq_locality_host req then
       reject IR_LocalityRequired ''worker is not on the required host''
     else \<lparr>ed_eligible = True, ed_reason = IR_None, ed_detail = []\<rparr>)"

section \<open>Ranking\<close>

record rank_factor =
  fa_name :: string
  fa_value :: int

record ranked_worker =
  rk_id :: worker_id
  rk_boot :: boot_id
  rk_generation :: worker_gen
  rk_score :: int
  rk_factors :: "rank_factor list"

text \<open>
  The factors are 64-bit signed in the code; they are integers here, and the bound below
  shows that no factor and no partial sum of them leaves the 64-bit range.
\<close>

definition rank_factors :: "hard_requirements \<Rightarrow> u64 \<Rightarrow> worker_record \<Rightarrow> rank_factor list" where
  "rank_factors req estimated_cost_millis w =
     (let c = wk_capabilities w;
          locality = (if hq_locality_host req \<noteq> [] \<and> wk_host w = hq_locality_host req
                      then 10000 else 0);
          cache_affinity = uint (min (wk_cache_affinity_hits w) 500) * 4;
          evidence_freshness = (if wk_trusted_evidence_fresh w then 250 else 0);
          trust = (if wc_trusted c then 100 else 0);
          completed = (if wk_completed_units w = 0 then 1 else wk_completed_units w);
          historical_cost = - uint (min (wk_total_compile_millis w div completed) 600000 div 100);
          expected_cost = - uint (min estimated_cost_millis 600000 div 100);
          queue_penalty = - uint (wk_queue_depth w) * 300;
          inflight_penalty = - uint (wk_in_flight w) * 600;
          cores_bonus = uint (min (wc_logical_cores c) 256) * 5;
          memory_bonus = uint (min (drop_bit 30 (wc_memory_bytes c)) 1024)
      in [\<lparr>fa_name = ''locality'', fa_value = locality\<rparr>,
          \<lparr>fa_name = ''cache_affinity'', fa_value = cache_affinity\<rparr>,
          \<lparr>fa_name = ''evidence_freshness'', fa_value = evidence_freshness\<rparr>,
          \<lparr>fa_name = ''trust'', fa_value = trust\<rparr>,
          \<lparr>fa_name = ''historical_cost'', fa_value = historical_cost\<rparr>,
          \<lparr>fa_name = ''expected_cost'', fa_value = expected_cost\<rparr>,
          \<lparr>fa_name = ''queue_depth'', fa_value = queue_penalty\<rparr>,
          \<lparr>fa_name = ''in_flight'', fa_value = inflight_penalty\<rparr>,
          \<lparr>fa_name = ''logical_cores'', fa_value = cores_bonus\<rparr>,
          \<lparr>fa_name = ''memory_gib'', fa_value = memory_bonus\<rparr>])"

definition rank_worker :: "hard_requirements \<Rightarrow> u64 \<Rightarrow> worker_record \<Rightarrow> ranked_worker" where
  "rank_worker req cost w =
     \<lparr>rk_id = wk_id w, rk_boot = wk_boot w, rk_generation = wk_generation w,
      rk_score = sum_list (map fa_value (rank_factors req cost w)),
      rk_factors = rank_factors req cost w\<rparr>"

definition rank_key :: "ranked_worker \<Rightarrow> int \<times> worker_id \<times> boot_id \<times> worker_gen" where
  "rank_key r = (- rk_score r, rk_id r, rk_boot r, rk_generation r)"

definition rank_workers ::
    "worker_record list \<Rightarrow> hard_requirements \<Rightarrow> u64 \<Rightarrow> ranked_worker list" where
  "rank_workers eligible req cost = sort_key rank_key (map (rank_worker req cost) eligible)"

section \<open>What eligibility promises\<close>

text \<open>The hard requirements, as a condition on the worker rather than a cascade of tests.\<close>

definition toolchain_acceptable :: "worker_capabilities \<Rightarrow> hard_requirements \<Rightarrow> bool" where
  "toolchain_acceptable c req \<longleftrightarrow>
     (\<forall>d. hq_toolchain_identity req = Some d \<longrightarrow>
        (\<exists>t. find_toolchain c d = Some t
           \<and> (hq_require_provable_toolchain req \<longrightarrow> toolchain_identity_is_provable t)))"

definition resources_sufficient :: "worker_capabilities \<Rightarrow> hard_requirements \<Rightarrow> bool" where
  "resources_sufficient c req \<longleftrightarrow>
     hq_min_logical_cores req \<le> wc_logical_cores c \<and> hq_min_memory_bytes req \<le> wc_memory_bytes c
     \<and> hq_min_scratch_bytes req \<le> wc_scratch_bytes c
     \<and> hq_min_max_artifact_bytes req \<le> wc_max_artifact_bytes c"

definition guarantees_given :: "worker_capabilities \<Rightarrow> hard_requirements \<Rightarrow> bool" where
  "guarantees_given c req \<longleftrightarrow>
     (hq_require_sandbox req \<longrightarrow> wc_sandbox c)
     \<and> (hq_require_filesystem_isolation req \<longrightarrow> wc_filesystem_isolation c)
     \<and> (hq_require_deterministic_build req \<longrightarrow> wc_deterministic_build c)
     \<and> (hq_require_trusted req \<longrightarrow> wc_trusted c)
     \<and> (hq_require_remote_cache req \<longrightarrow> wc_remote_cache_access c)
     \<and> (hq_require_artifact_store req \<longrightarrow> wc_artifact_store_access c)"

definition meets_requirements :: "worker_record \<Rightarrow> hard_requirements \<Rightarrow> bool" where
  "meets_requirements w req \<longleftrightarrow>
     \<not> wk_fenced w \<and> wk_health w = WH_Healthy \<and> wk_ready w
     \<and> wc_evidence (wk_capabilities w) \<in> {EC_Real, EC_Synthetic}
     \<and> toolchain_acceptable (wk_capabilities w) req
     \<and> (\<forall>d. hq_target_identity req = Some d \<longrightarrow> find_target (wk_capabilities w) d \<noteq> None)
     \<and> (\<forall>f\<in>set (hq_required_formats req). f \<in> set (wc_input_formats (wk_capabilities w)))
     \<and> (\<forall>p\<in>set (hq_required_plugins req). plugin_available (wk_capabilities w) p)
     \<and> (\<forall>s\<in>set (hq_required_sdks req). sdk_available (wk_capabilities w) s)
     \<and> resources_sufficient (wk_capabilities w) req
     \<and> guarantees_given (wk_capabilities w) req
     \<and> (hq_require_locality req \<longrightarrow> hq_locality_host req = [] \<or> wk_host w = hq_locality_host req)"

lemma reject_simps [simp]:
  "\<not> ed_eligible (reject r d)" "ed_reason (reject r d) = r"
  by (simp_all add: reject_def)

lemma find_None_ball: "List.find P xs = None \<longleftrightarrow> (\<forall>x\<in>set xs. \<not> P x)"
  by (auto simp: find_None_iff)

lemma supports_format_iff: "supports_format c f \<longleftrightarrow> f \<in> set (wc_input_formats c)"
  by (auto simp: supports_format_def list_ex_iff)

lemma word_requirement: "a = 0 \<or> a \<le> b \<longleftrightarrow> a \<le> (b :: 'l::len word)"
  by auto

lemma toolchain_test:
  "(\<not> (case hq_toolchain_identity req of None \<Rightarrow> False | Some d \<Rightarrow> find_toolchain c d = None)
    \<and> \<not> (case hq_toolchain_identity req of None \<Rightarrow> False
        | Some d \<Rightarrow> hq_require_provable_toolchain req
            \<and> \<not> toolchain_identity_is_provable (the (find_toolchain c d))))
   \<longleftrightarrow> toolchain_acceptable c req"
  by (auto simp: toolchain_acceptable_def split: option.splits)

lemma target_test:
  "\<not> (case hq_target_identity req of None \<Rightarrow> False | Some d \<Rightarrow> find_target c d = None)
   \<longleftrightarrow> (\<forall>d. hq_target_identity req = Some d \<longrightarrow> find_target c d \<noteq> None)"
  by (auto split: option.splits)

text \<open>The cascade of tests is the conjunction of their negations.\<close>

lemma eligible_cases:
  fixes a :: eligibility_decision
  shows "ed_eligible (if p then reject r d else a) \<longleftrightarrow> \<not> p \<and> ed_eligible a"
    and "ed_eligible (case x of Some y \<Rightarrow> reject r (f y) | None \<Rightarrow> a) \<longleftrightarrow> x = None \<and> ed_eligible a"
    and "r \<noteq> IR_None \<Longrightarrow>
      ed_reason (if p then reject r d else a) = IR_None \<longleftrightarrow> \<not> p \<and> ed_reason a = IR_None"
    and "r \<noteq> IR_None \<Longrightarrow>
      ed_reason (case x of Some y \<Rightarrow> reject r (f y) | None \<Rightarrow> a) = IR_None
        \<longleftrightarrow> x = None \<and> ed_reason a = IR_None"
  by (auto split: option.splits)

text \<open>
  Eligibility is exactly the hard requirements.  A worker is declared eligible if and
  only if it is healthy, ready, not fenced, has positive evidence for its capabilities and
  meets every requirement of the unit; a worker that is refused is always given a reason,
  and an eligible one none.
\<close>

theorem eligibility_exact:
  "(ed_eligible (evaluate_eligibility w req) \<longleftrightarrow> meets_requirements w req)
   \<and> (ed_reason (evaluate_eligibility w req) = IR_None \<longleftrightarrow> ed_eligible (evaluate_eligibility w req))"
proof
  show "ed_eligible (evaluate_eligibility w req) \<longleftrightarrow> meets_requirements w req"
    unfolding evaluate_eligibility_def Let_def eligible_cases meets_requirements_def
      resources_sufficient_def guarantees_given_def find_None_ball supports_format_iff
      toolchain_test [symmetric] target_test [symmetric]
    by (cases "wk_health w"; cases "wc_evidence (wk_capabilities w)") (simp_all add: not_less word_requirement)
  show "ed_reason (evaluate_eligibility w req) = IR_None \<longleftrightarrow> ed_eligible (evaluate_eligibility w req)"
    unfolding evaluate_eligibility_def Let_def eligible_cases by (simp add: eligible_cases)
qed

section \<open>What ranking promises\<close>

lemma uint_min: "uint (min a b) = min (uint a) (uint (b :: 'l::len word))"
  by (simp add: min_def word_le_def)

lemma uint_u32_bound: "0 \<le> uint (v :: u32) \<and> uint v \<le> 4294967295"
  using uint_lt2p [of v] by simp

lemma div_100_bound: "(x :: int) \<le> 600000 \<Longrightarrow> 0 \<le> x \<Longrightarrow> 0 \<le> x div 100 \<and> x div 100 \<le> 6000"
  using zdiv_mono1 [of x 600000 100] by simp

lemma cost_bound: "- 6000 \<le> - uint (min (v :: u64) 600000 div 100) \<and> - uint (min v 600000 div 100) \<le> 0"
  using div_100_bound [of "min (uint v) 600000"] by (simp add: uint_div_distrib uint_min)

text \<open>The range of each factor, lowest to highest.\<close>

lemma factor_ranges:
  "list_all2 (\<lambda>f (lo, hi). lo \<le> fa_value f \<and> fa_value f \<le> hi) (rank_factors req cost w)
     [(0, 10000), (0, 2000), (0, 250), (0, 100), (- 6000, 0), (- 6000, 0),
      (- 1288490188500, 0), (- 2576980377000, 0), (0, 1280), (0, 1024)]"
  using cost_bound [of "wk_total_compile_millis w div
      (if wk_completed_units w = 0 then 1 else wk_completed_units w)"] cost_bound [of cost]
    uint_u32_bound [of "wk_queue_depth w"] uint_u32_bound [of "wk_in_flight w"]
  by (simp add: rank_factors_def Let_def uint_min)

text \<open>
  The score arithmetic stays inside a 64-bit signed integer: every partial sum of a
  worker's ranking factors, in the order in which the loop adds them up, is between
  -3865470577500 and 14654, whatever the worker advertises or has accumulated.
\<close>

theorem rank_score_bounds:
  "- 3865470577500 \<le> sum_list (map fa_value (take n (rank_factors req cost w)))
   \<and> sum_list (map fa_value (take n (rank_factors req cost w))) \<le> 14654"
proof -
  have step: "lo \<le> (a :: int) \<and> a \<le> hi \<Longrightarrow> L \<le> S \<and> S \<le> H \<Longrightarrow> lo \<le> 0 \<Longrightarrow> 0 \<le> hi \<Longrightarrow>
      min 0 (lo + L) \<le> a + S \<and> a + S \<le> hi + H" for lo hi a L S H by linarith
  have sums: "sum_list (map (min 0 \<circ> fst) rs) \<le> sum_list (map fa_value (take n fs))
      \<and> sum_list (map fa_value (take n fs)) \<le> sum_list (map (max 0 \<circ> snd) rs)"
    if "list_all2 (\<lambda>f (lo, hi). lo \<le> fa_value f \<and> fa_value f \<le> hi) fs rs" for fs rs
    using that
  proof (induction fs rs arbitrary: n rule: list_all2_induct)
    case Nil
    show ?case by simp
  next
    case (Cons f fs r rs)
    have "sum_list (map (min 0 \<circ> fst) rs) \<le> 0" "0 \<le> sum_list (map (max 0 \<circ> snd) rs)"
      by (induction rs) auto
    then show ?case
      using Cons.hyps(1) Cons.IH [of "n - 1"] by (cases n) auto
  qed
  show ?thesis using sums [OF factor_ranges] by simp
qed

lemma rank_workers_keys: "sorted (map rank_key (rank_workers ws req cost))"
  by (simp add: rank_workers_def)

text \<open>
  Ranking is deterministic.  However the eligible workers are listed (their order of
  registration, or any other), as long as their handles are distinct the ranking is the
  same list: best score first, ties broken by worker, boot and generation.
\<close>

theorem rank_order_independent:
  assumes "mset ws = mset ws'" and "distinct (map wk_id ws)"
  shows "rank_workers ws req cost = rank_workers ws' req cost
    \<and> sorted (map rank_key (rank_workers ws req cost))"
proof
  show "sorted (map rank_key (rank_workers ws req cost))" by (simp add: rank_workers_def)
  let ?r = "map (rank_worker req cost)"
  have "inj_on wk_id (set ws)" using assms(2) by (simp add: distinct_map)
  then have "inj_on rank_key (set (?r ws))"
    by (auto simp: inj_on_def rank_worker_def rank_key_def)
  moreover have "mset (?r ws') = mset (?r ws)" using assms(1) by simp
  ultimately show "rank_workers ws req cost = rank_workers ws' req cost"
    unfolding rank_workers_def by (metis sort_key_inj_key_eq mset_eq_setD mset_sort sorted_sort_key)
qed

definition sample_capabilities :: worker_capabilities where
  "sample_capabilities = \<lparr>wc_toolchains = [sample_toolchain], wc_targets = [sample_target],
     wc_input_formats = [IF_Source], wc_plugins = [], wc_sdks = [], wc_logical_cores = 8,
     wc_memory_bytes = 8589934592, wc_scratch_bytes = 1073741824, wc_max_artifact_bytes = 1073741824,
     wc_filesystem_isolation = True, wc_sandbox = True, wc_deterministic_build = True,
     wc_remote_cache_access = True, wc_artifact_store_access = True, wc_trusted = True,
     wc_evidence = EC_Real, wc_host = ''h'', wc_digest = 61\<rparr>"

definition sample_worker :: "u64 \<Rightarrow> worker_record" where
  "sample_worker n = \<lparr>wk_id = Ident n, wk_boot = Ident 1, wk_generation = Gen 1, wk_session = Ident n,
     wk_endpoint = ''e'', wk_host = ''h'', wk_capabilities = sample_capabilities,
     wk_health = WH_Healthy, wk_ready = True, wk_fenced = False, wk_trusted_evidence_fresh = True,
     wk_queue_depth = 0, wk_in_flight = 0, wk_completed_units = 0, wk_failed_units = 0,
     wk_total_compile_millis = 0, wk_cache_affinity_hits = 0, wk_registered_at = 0, wk_last_seen = 0,
     wk_active_leases = []\<rparr>"

lemma rank_order_independent_witness:
  "\<forall>req cost. let ws = [sample_worker 1, sample_worker 2]; ws' = [sample_worker 2, sample_worker 1] in
   mset ws = mset ws' \<and> distinct (map wk_id ws) \<and> rank_workers ws req cost = rank_workers ws' req cost
    \<and> sorted (map rank_key (rank_workers ws req cost))"
proof -
  have m: "mset [sample_worker 1, sample_worker 2] = mset [sample_worker 2, sample_worker 1]"
    by (simp add: add_mset_commute)
  have d: "distinct (map wk_id [sample_worker 1, sample_worker 2])"
    by (simp add: sample_worker_def)
  show ?thesis unfolding Let_def using m d rank_order_independent [OF m d] by blast
qed

end
