(* ===== verification/DC_State.thy ===== *)
theory DC_State
  imports DC_Worker DC_Authority DC_Registry
begin

text \<open>
  The coordinator's state: leases, attempts, compilations and jobs
  (\<^verbatim>\<open>include/dc/runtime.hpp\<close>), configuration and control messages
  (\<^verbatim>\<open>include/dc/coordinator.hpp\<close>), the tables (\<^verbatim>\<open>src/coordinator_state.hpp\<close>) and the
  implementation object around them (\<^verbatim>\<open>src/coordinator_impl.hpp\<close>).

  A \<^verbatim>\<open>std::map\<close> is an ordered association list.  C++ references into the maps become
  copies that are written back after each mutation.  Counters keep their 64 bits.
\<close>

section \<open>Leases, attempts, compilations, jobs\<close>

record compile_lease =
  cl_id :: lease_id
  cl_generation :: lease_gen
  cl_compilation :: compilation_id
  cl_compilation_generation :: compilation_gen
  cl_unit :: unit_id
  cl_attempt :: attempt_id
  cl_worker :: worker_id
  cl_worker_boot :: boot_id
  cl_worker_generation :: worker_gen
  cl_epoch :: epoch
  cl_issued_at :: unix_millis
  cl_revoked :: bool
  cl_revocation_reason :: string

record compilation_attempt =
  ca_id :: attempt_id
  ca_generation :: attempt_gen
  ca_compilation :: compilation_id
  ca_compilation_generation :: compilation_gen
  ca_unit :: unit_id
  ca_worker :: worker_id
  ca_worker_boot :: boot_id
  ca_worker_generation :: worker_gen
  ca_lease :: lease_id
  ca_lease_generation :: lease_gen
  ca_epoch :: epoch
  ca_state :: attempt_state
  ca_ordinal :: u32
  ca_speculative :: bool
  ca_created_at :: unix_millis
  ca_started_at :: unix_millis
  ca_finished_at :: unix_millis
  ca_failure :: error_code
  ca_failure_detail :: string
  ca_validation :: validation_report
  ca_candidate :: content_ref
  ca_candidate_digest :: digest256
  ca_artifact :: artifact_id
  ca_compiler_wall_millis :: u64
  ca_compiler_invocation :: string
  ca_compiler_version_string :: string

record compilation_record =
  cr_id :: compilation_id
  cr_generation :: compilation_gen
  cr_unit :: unit_id
  cr_unit_generation :: unit_gen
  cr_unit_identity :: digest256
  cr_request_id :: request_id
  cr_request_generation :: request_gen
  cr_request_identity :: digest256
  cr_source_identity :: digest256
  cr_dependency_identity :: digest256
  cr_toolchain_identity :: digest256
  cr_target_identity :: digest256
  cr_specialization_identity :: digest256
  cr_policy_identity :: digest256
  cr_environment_identity :: digest256
  cr_source_generation :: source_gen
  cr_ir_generation :: ir_gen
  cr_dependency_generation :: dependency_gen
  cr_toolchain_generation :: toolchain_gen
  cr_target_generation :: target_gen
  cr_specialization_generation :: specialization_gen
  cr_policy_generation :: policy_gen
  cr_output_kind :: output_kind
  cr_reproducibility :: reproducibility_requirement
  cr_state :: compilation_state
  cr_attempts :: "attempt_id list"
  cr_current_attempt :: attempt_id
  cr_attempt_ordinal_counter :: u32
  cr_commit :: "artifact_commit option"
  cr_divergent_candidates :: "content_ref list"
  cr_reproducibility_violation :: bool
  cr_failure_detail :: string
  cr_failure :: error_code
  cr_cache_hit :: bool
  cr_created_at :: unix_millis
  cr_updated_at :: unix_millis
  cr_unit_index :: u32
  cr_parent_unit_index :: u32
  cr_is_root :: bool

record job_record =
  jr_request_id :: request_id
  jr_request_generation :: request_gen
  jr_request_identity :: digest256
  jr_units :: "compilation_id list"
  jr_root_index :: u32
  jr_mandatory_units :: "u32 list"
  jr_committed :: bool
  jr_committed_unit :: compilation_id
  jr_failure :: error_code
  jr_failure_detail :: string
  jr_created_at :: unix_millis

section \<open>Configuration and messages\<close>

text \<open>The clock and the state directory are fields of the implementation and the store.\<close>

record coordinator_config =
  cg_enable_persistence :: bool
  cg_max_bundle_bytes :: u64
  cg_max_blob_bytes :: u64
  cg_max_artifact_bytes :: u64
  cg_max_units :: u32
  cg_max_workers :: u32
  cg_max_inflight_per_worker :: u32
  cg_max_attempts_hard_cap :: u32
  cg_snapshot_every_records :: u64
  cg_max_compile_millis :: u64

datatype control_kind = CK_CancelAttempt | CK_CommitNotification | CK_Shutdown

fun control_kind_string :: "control_kind \<Rightarrow> string" where
  "control_kind_string CK_CancelAttempt = ''CANCEL_ATTEMPT''"
| "control_kind_string CK_CommitNotification = ''COMMIT_NOTIFICATION''"
| "control_kind_string CK_Shutdown = ''SHUTDOWN''"

record control_message =
  cx_session :: session_id
  cx_kind :: control_kind
  cx_compilation :: compilation_id
  cx_compilation_generation :: compilation_gen
  cx_attempt :: attempt_id
  cx_attempt_generation :: attempt_gen
  cx_lease :: lease_id
  cx_lease_generation :: lease_gen
  cx_commit :: commit_id
  cx_artifact_digest :: digest256
  cx_reason :: string

record authority_violation =
  av_at :: unix_millis
  av_operation :: string
  av_code :: error_code
  av_session :: session_id
  av_worker :: worker_id
  av_detail :: string

section \<open>Sessions and tables\<close>

record session_record =
  ss_id :: session_id
  ss_is_worker :: bool
  ss_worker :: worker_id
  ss_boot :: boot_id
  ss_epoch :: epoch
  ss_peer :: string
  ss_host :: string
  ss_connected_at :: unix_millis
  ss_last_seen :: unix_millis
  ss_open :: bool
  ss_max_inflight :: u32

record state_header =
  hd_epoch :: epoch
  hd_seq :: u64
  hd_next_compilation_id :: u64
  hd_next_unit_id :: u64
  hd_next_attempt_id :: u64
  hd_next_lease_id :: u64
  hd_next_artifact_id :: u64
  hd_next_commit_id :: u64
  hd_next_provenance_id :: u64
  hd_next_validation_id :: u64
  hd_next_cache_entry_id :: u64
  hd_next_worker_id :: u64
  hd_next_boot_id :: u64
  hd_next_session_id :: u64
  hd_next_intermediate_id :: u64
  hd_cache_generation :: cache_gen
  hd_opened_at :: unix_millis
  hd_records_since_snapshot :: u64
  hd_restarts :: u64

definition initial_header :: state_header where
  "initial_header = \<lparr>hd_epoch = Gen 0, hd_seq = 0, hd_next_compilation_id = 1, hd_next_unit_id = 1,
     hd_next_attempt_id = 1, hd_next_lease_id = 1, hd_next_artifact_id = 1, hd_next_commit_id = 1,
     hd_next_provenance_id = 1, hd_next_validation_id = 1, hd_next_cache_entry_id = 1,
     hd_next_worker_id = 1, hd_next_boot_id = 1, hd_next_session_id = 1, hd_next_intermediate_id = 1,
     hd_cache_generation = Gen 0, hd_opened_at = 0, hd_records_since_snapshot = 0, hd_restarts = 0\<rparr>"

record state =
  cs_header :: state_header
  cs_sources :: "(source_tag, source_tag) registry"
  cs_irs :: "(ir_tag, ir_tag) registry"
  cs_dependencies :: "(dependency_set_tag, dependency_set_tag) registry"
  cs_toolchains :: "(toolchain_tag, toolchain_tag) registry"
  cs_targets :: "(target_tag, target_tag) registry"
  cs_specializations :: "(specialization_tag, specialization_tag) registry"
  cs_policies :: "(policy_tag, policy_tag) registry"
  cs_workers :: "(worker_id, worker_record) omap"
  cs_sessions :: "(session_id, session_record) omap"
  cs_compilations :: "(compilation_id, compilation_record) omap"
  cs_attempts :: "(attempt_id, compilation_attempt) omap"
  cs_commits :: "(commit_id, artifact_commit) omap"
  cs_authoritative :: "(compilation_id, commit_id) omap"
  cs_provenances :: "(provenance_id, provenance) omap"
  cs_validations :: "(validation_id, validation_report) omap"
  cs_cache_entries :: "(cache_entry_id, cache_entry) omap"
  cs_cache_index :: "(digest256, cache_entry_id) omap"
  cs_intermediates :: "(intermediate_id, intermediate_artifact) omap"
  cs_leases :: "(lease_id, compile_lease) omap"
  cs_jobs :: "(digest256, job_record) omap"
  cs_requests :: "(digest256, compilation_request) omap"
  cs_negative_cache :: "negative_cache_entry list"
  cs_violations :: "authority_violation list"
  cs_controls :: "control_message list"

definition initial_state :: state where
  "initial_state = \<lparr>cs_header = initial_header, cs_sources = empty_registry, cs_irs = empty_registry,
     cs_dependencies = empty_registry, cs_toolchains = empty_registry, cs_targets = empty_registry,
     cs_specializations = empty_registry, cs_policies = empty_registry, cs_workers = [],
     cs_sessions = [], cs_compilations = [], cs_attempts = [], cs_commits = [],
     cs_authoritative = [], cs_provenances = [], cs_validations = [], cs_cache_entries = [],
     cs_cache_index = [], cs_intermediates = [], cs_leases = [], cs_jobs = [], cs_requests = [],
     cs_negative_cache = [], cs_violations = [], cs_controls = []\<rparr>"

section \<open>The store and the implementation object\<close>

text \<open>
  At this level a journal record is the entity it encodes.  The store keeps the records it
  accepted with their sequence numbers, the last snapshot, and the blob files.  What the
  operating system answers to the next writes is an explicit list (\<^term>\<open>None\<close>, or the end
  of the list, is success; otherwise the text of an I/O error), so that every error path of
  the coordinator can be taken.
\<close>

datatype journal_payload =
    JP_Header epoch u64 unix_millis
  | JP_Worker worker_record
  | JP_Compilation compilation_record
  | JP_Attempt compilation_attempt
  | JP_Commit artifact_commit
  | JP_Provenance provenance
  | JP_Validation validation_report
  | JP_CacheEntry cache_entry
  | JP_NegativeCache negative_cache_entry
  | JP_Job job_record
  | JP_Lease compile_lease
  | JP_Intermediate intermediate_artifact
  | JP_Request compilation_request

record store =
  ps_open :: bool
  ps_seq :: u64
  ps_journal :: "(u64 \<times> journal_payload) list"
  ps_snapshot :: "(u64 \<times> state) option"
  ps_blobs :: "(digest256, bytes) omap"
  ps_faults :: "string option list"

record impl =
  im_config :: coordinator_config
  im_now :: unix_millis
  im_state :: state
  im_store :: store
  im_opened :: bool
  im_persisted_records :: u64
  im_blob_cache :: "(digest256, bytes) omap"
  im_blob_cache_order :: "digest256 list"
  im_blob_cache_bytes :: u64
  im_blob_cache_limit :: u64
  im_retained_order :: "digest256 list"

section \<open>Access to the tables\<close>

definition upd_state :: "(state \<Rightarrow> state) \<Rightarrow> impl \<Rightarrow> impl" where
  "upd_state f im = im\<lparr>im_state := f (im_state im)\<rparr>"

definition upd_header :: "(state_header \<Rightarrow> state_header) \<Rightarrow> impl \<Rightarrow> impl" where
  "upd_header f im = upd_state (\<lambda>s. s\<lparr>cs_header := f (cs_header s)\<rparr>) im"

abbreviation header :: "impl \<Rightarrow> state_header" where
  "header im \<equiv> cs_header (im_state im)"

definition put_worker :: "worker_id \<Rightarrow> worker_record \<Rightarrow> impl \<Rightarrow> impl" where
  "put_worker k v = upd_state (\<lambda>s. s\<lparr>cs_workers := om_put k v (cs_workers s)\<rparr>)"

definition put_session :: "session_id \<Rightarrow> session_record \<Rightarrow> impl \<Rightarrow> impl" where
  "put_session k v = upd_state (\<lambda>s. s\<lparr>cs_sessions := om_put k v (cs_sessions s)\<rparr>)"

definition put_compilation :: "compilation_id \<Rightarrow> compilation_record \<Rightarrow> impl \<Rightarrow> impl" where
  "put_compilation k v = upd_state (\<lambda>s. s\<lparr>cs_compilations := om_put k v (cs_compilations s)\<rparr>)"

definition put_attempt :: "attempt_id \<Rightarrow> compilation_attempt \<Rightarrow> impl \<Rightarrow> impl" where
  "put_attempt k v = upd_state (\<lambda>s. s\<lparr>cs_attempts := om_put k v (cs_attempts s)\<rparr>)"

definition put_commit :: "commit_id \<Rightarrow> artifact_commit \<Rightarrow> impl \<Rightarrow> impl" where
  "put_commit k v = upd_state (\<lambda>s. s\<lparr>cs_commits := om_put k v (cs_commits s)\<rparr>)"

definition put_lease :: "lease_id \<Rightarrow> compile_lease \<Rightarrow> impl \<Rightarrow> impl" where
  "put_lease k v = upd_state (\<lambda>s. s\<lparr>cs_leases := om_put k v (cs_leases s)\<rparr>)"

definition put_job :: "digest256 \<Rightarrow> job_record \<Rightarrow> impl \<Rightarrow> impl" where
  "put_job k v = upd_state (\<lambda>s. s\<lparr>cs_jobs := om_put k v (cs_jobs s)\<rparr>)"

definition put_cache_entry :: "cache_entry_id \<Rightarrow> cache_entry \<Rightarrow> impl \<Rightarrow> impl" where
  "put_cache_entry k v = upd_state (\<lambda>s. s\<lparr>cs_cache_entries := om_put k v (cs_cache_entries s)\<rparr>)"

definition push_control :: "control_message \<Rightarrow> impl \<Rightarrow> impl" where
  "push_control c = upd_state (\<lambda>s. s\<lparr>cs_controls := cs_controls s @ [c]\<rparr>)"

lemmas table_defs = upd_state_def upd_header_def put_worker_def put_session_def put_compilation_def
  put_attempt_def put_commit_def put_lease_def put_job_def put_cache_entry_def push_control_def

section \<open>Every table is keyed by its records\<close>

interpretation workers: keyed_table wk_id .
interpretation sessions: keyed_table ss_id .
interpretation compilations: keyed_table cr_id .
interpretation attempts: keyed_table ca_id .
interpretation leases: keyed_table cl_id .
interpretation commits: keyed_table ac_id .
interpretation cache_entries: keyed_table ce_id .

end
