(* ===== verification/DC_Impl.thy ===== *)
theory DC_Impl
  imports DC_State
begin

text \<open>
  The helpers of the coordinator implementation (\<^verbatim>\<open>src/coordinator.cpp\<close>, lines 13 to 570)
  and the store operations they call (\<^verbatim>\<open>src/persistence.cpp\<close>).
\<close>

section \<open>Store\<close>

text \<open>The answer of the operating system to the next write.\<close>

definition take_fault :: "store \<Rightarrow> string option \<times> store" where
  "take_fault ps = (case ps_faults ps of [] \<Rightarrow> (None, ps) | f # fs \<Rightarrow> (f, ps\<lparr>ps_faults := fs\<rparr>))"

definition store_append :: "journal_payload \<Rightarrow> store \<Rightarrow> status \<times> store" where
  "store_append p ps =
     (if \<not> ps_open ps then (error Err_PersistenceClosed ''persistent store is not open'', ps)
      else case take_fault ps of
        (Some detail, ps1) \<Rightarrow> (error Err_IoError detail, ps1)
      | (None, ps1) \<Rightarrow>
          (success, ps1\<lparr>ps_journal := ps_journal ps1 @ [(ps_seq ps1 + 1, p)],
                        ps_seq := ps_seq ps1 + 1\<rparr>))"

text \<open>
  \<^verbatim>\<open>write_snapshot\<close>: the snapshot file is replaced atomically, then the journal is closed
  and reopened empty; if it cannot be reopened the store stays closed.
\<close>

definition store_write_snapshot :: "state \<Rightarrow> store \<Rightarrow> status \<times> store" where
  "store_write_snapshot st ps =
     (if \<not> ps_open ps then (error Err_PersistenceClosed ''persistent store is not open'', ps)
      else case take_fault ps of
        (Some detail, ps1) \<Rightarrow> (error Err_IoError detail, ps1)
      | (None, ps1) \<Rightarrow>
         (let ps2 = ps1\<lparr>ps_snapshot := Some (ps_seq ps1, st)\<rparr> in
          case take_fault ps2 of
            (Some _, ps3) \<Rightarrow> (error Err_IoError ''cannot reopen journal'', ps3\<lparr>ps_open := False\<rparr>)
          | (None, ps3) \<Rightarrow> (success, ps3\<lparr>ps_journal := []\<rparr>)))"

definition store_has_blob :: "digest256 \<Rightarrow> store \<Rightarrow> bool" where
  "store_has_blob d ps = (om_find (ps_blobs ps) d \<noteq> None)"

definition store_put_blob :: "bytes \<Rightarrow> store \<Rightarrow> status \<times> store" where
  "store_put_blob bs ps =
     (let d = sha256 bs in
      if (case om_find (ps_blobs ps) d of None \<Rightarrow> False | Some old \<Rightarrow> sha256 old = d)
      then (success, ps)
      else case take_fault ps of
        (Some detail, ps1) \<Rightarrow> (error Err_IoError detail, ps1)
      | (None, ps1) \<Rightarrow> (success, ps1\<lparr>ps_blobs := om_put d bs (ps_blobs ps1)\<rparr>))"

definition store_get_blob :: "digest256 \<Rightarrow> store \<Rightarrow> bytes res" where
  "store_get_blob d ps =
     (case om_find (ps_blobs ps) d of
        None \<Rightarrow> Inl (error Err_NotFound ''cannot stat file: No such file or directory'')
      | Some bs \<Rightarrow> if sha256 bs \<noteq> d
          then Inl (error Err_IntegrityFailure ''stored blob does not match its digest'')
          else Inr bs)"

section \<open>Persisting records\<close>

definition ensure_open :: "impl \<Rightarrow> status" where
  "ensure_open im = (if im_opened im then success
     else error Err_PersistenceClosed ''coordinator is not open'')"

definition persist :: "journal_payload \<Rightarrow> impl \<Rightarrow> status \<times> impl" where
  "persist p im =
     (if \<not> cg_enable_persistence (im_config im) then (success, im)
      else
        (let (st, ps) = store_append p (im_store im); im1 = im\<lparr>im_store := ps\<rparr> in
         if \<not> st_ok st then (st, im1)
         else (success, upd_header (\<lambda>h. h\<lparr>hd_records_since_snapshot := hd_records_since_snapshot h + 1\<rparr>)
                 (im1\<lparr>im_persisted_records := im_persisted_records im1 + 1\<rparr>))))"

text \<open>\<^verbatim>\<open>(void)persist(...)\<close>.\<close>

definition persist_void :: "journal_payload \<Rightarrow> impl \<Rightarrow> impl" where
  "persist_void p im = snd (persist p im)"

definition maybe_snapshot :: "impl \<Rightarrow> impl" where
  "maybe_snapshot im =
     (if \<not> cg_enable_persistence (im_config im) then im
      else if cg_snapshot_every_records (im_config im) = 0 then im
      else if hd_records_since_snapshot (header im) < cg_snapshot_every_records (im_config im) then im
      else
        (let (st, ps) = store_write_snapshot (im_state im) (im_store im); im1 = im\<lparr>im_store := ps\<rparr> in
         if \<not> st_ok st then im1
         else upd_header (\<lambda>h. h\<lparr>hd_records_since_snapshot := 0\<rparr>) im1))"

definition coordinator_close :: "impl \<Rightarrow> impl" where
  "coordinator_close im =
     (if \<not> im_opened im then im
      else if cg_enable_persistence (im_config im) then
        im\<lparr>im_store := (snd (store_write_snapshot (im_state im) (im_store im)))\<lparr>ps_open := False\<rparr>,
           im_opened := False\<rparr>
      else im\<lparr>im_opened := False\<rparr>)"

definition coordinator_snapshot :: "impl \<Rightarrow> status \<times> impl" where
  "coordinator_snapshot im =
     (if \<not> st_ok (ensure_open im) then (ensure_open im, im)
      else if \<not> cg_enable_persistence (im_config im) then
        (error Err_Unsupported ''persistence is disabled'', im)
      else
        let (st, ps) = store_write_snapshot (im_state im) (im_store im); im1 = im\<lparr>im_store := ps\<rparr> in
        if \<not> st_ok st then (st, im1)
        else (success, upd_header (\<lambda>h. h\<lparr>hd_records_since_snapshot := 0\<rparr>) im1))"

definition persist_entity :: "journal_payload \<Rightarrow> impl \<Rightarrow> status \<times> impl" where
  "persist_entity p im =
     (let (st, im1) = persist p im in
      if \<not> st_ok st then (st, im1) else (success, maybe_snapshot im1))"

section \<open>Blobs\<close>

text \<open>Drop blobs from the front of the order until the cache fits its limit.\<close>

fun evict_blobs ::
    "u64 \<Rightarrow> digest256 list \<Rightarrow> (digest256, bytes) omap \<Rightarrow> u64
      \<Rightarrow> digest256 list \<times> (digest256, bytes) omap \<times> u64" where
  "evict_blobs limit [] cache used = ([], cache, used)"
| "evict_blobs limit (victim # order) cache used =
     (if used > limit then
        (case om_find cache victim of
           None \<Rightarrow> evict_blobs limit order cache used
         | Some bs \<Rightarrow> evict_blobs limit order (om_erase victim cache) (used - of_nat (length bs)))
      else (victim # order, cache, used))"

definition cache_blob :: "digest256 \<Rightarrow> bytes \<Rightarrow> impl \<Rightarrow> impl" where
  "cache_blob d bs im =
     (if length bs \<le> unat (im_blob_cache_limit im) then
        (let (order, cache, used) =
           evict_blobs (im_blob_cache_limit im) (im_blob_cache_order im @ [d])
             (om_put d bs (im_blob_cache im)) (im_blob_cache_bytes im + of_nat (length bs)) in
         im\<lparr>im_blob_cache_order := order, im_blob_cache := cache, im_blob_cache_bytes := used\<rparr>)
      else im)"

definition store_blob :: "bytes \<Rightarrow> impl \<Rightarrow> status \<times> impl" where
  "store_blob bs im =
     (let d = sha256 bs in
      if length bs > unat (cg_max_blob_bytes (im_config im)) then
        (error Err_LimitExceeded ''blob exceeds the configured bound'', im)
      else
        (let (st, im1) =
           (if cg_enable_persistence (im_config im) \<and> \<not> store_has_blob d (im_store im)
            then (let (st, ps) = store_put_blob bs (im_store im) in (st, im\<lparr>im_store := ps\<rparr>))
            else (success, im)) in
         if \<not> st_ok st then (st, im1)
         else if om_find (im_blob_cache im1) d = None then (success, cache_blob d bs im1)
         else (success, im1)))"

definition load_blob :: "digest256 \<Rightarrow> impl \<Rightarrow> bytes res \<times> impl" where
  "load_blob d im =
     (case om_find (im_blob_cache im) d of
        Some bs \<Rightarrow> (Inr bs, im)
      | None \<Rightarrow>
        if \<not> cg_enable_persistence (im_config im) then
          (Inl (error Err_ArtifactMissing ''artifact is not present in memory''), im)
        else case store_get_blob d (im_store im) of
          Inl st \<Rightarrow> (Inl st, im)
        | Inr bs \<Rightarrow>
           if length bs > unat (cg_max_blob_bytes (im_config im)) then
             (Inl (error Err_LimitExceeded ''stored blob exceeds the configured bound''), im)
           else (Inr bs, cache_blob d bs im))"

definition has_blob :: "digest256 \<Rightarrow> impl \<Rightarrow> bool" where
  "has_blob d im =
     (if om_find (im_blob_cache im) d \<noteq> None then True
      else if \<not> cg_enable_persistence (im_config im) then False
      else store_has_blob d (im_store im))"

section \<open>Lookups and bookkeeping\<close>

definition find_request :: "digest256 \<Rightarrow> impl \<Rightarrow> compilation_request option" where
  "find_request identity im = om_find (cs_requests (im_state im)) identity"

definition find_session :: "session_id \<Rightarrow> impl \<Rightarrow> session_record option" where
  "find_session i im = om_find (cs_sessions (im_state im)) i"

definition find_worker :: "worker_id \<Rightarrow> impl \<Rightarrow> worker_record option" where
  "find_worker i im = om_find (cs_workers (im_state im)) i"

definition find_attempt :: "attempt_id \<Rightarrow> impl \<Rightarrow> compilation_attempt option" where
  "find_attempt i im = om_find (cs_attempts (im_state im)) i"

definition find_compilation :: "compilation_id \<Rightarrow> impl \<Rightarrow> compilation_record option" where
  "find_compilation i im = om_find (cs_compilations (im_state im)) i"

definition record_violation ::
    "string \<Rightarrow> error_code \<Rightarrow> session_id \<Rightarrow> worker_id \<Rightarrow> string \<Rightarrow> impl \<Rightarrow> impl" where
  "record_violation operation code session worker detail im =
     (if length (cs_violations (im_state im)) > 4096 then im
      else upd_state (\<lambda>s. s\<lparr>cs_violations := cs_violations s @
             [\<lparr>av_at = im_now im, av_operation = operation, av_code = code,
               av_session = session, av_worker = worker, av_detail = detail\<rparr>]\<rparr>) im)"

definition expectation_for ::
    "impl \<Rightarrow> compilation_record \<Rightarrow> compilation_attempt \<Rightarrow> authority_expectation" where
  "expectation_for im c a =
     \<lparr>ax_epoch = hd_epoch (header im),
      ax_compilation = cr_id c, ax_compilation_generation = cr_generation c,
      ax_unit = cr_unit c, ax_unit_generation = cr_unit_generation c,
      ax_attempt = ca_id a, ax_attempt_generation = ca_generation a,
      ax_worker = ca_worker a, ax_worker_boot = ca_worker_boot a,
      ax_worker_generation = ca_worker_generation a,
      ax_lease = ca_lease a, ax_lease_generation = ca_lease_generation a,
      ax_source_generation = cr_source_generation c, ax_ir_generation = cr_ir_generation c,
      ax_dependency_generation = cr_dependency_generation c,
      ax_toolchain_generation = cr_toolchain_generation c,
      ax_target_generation = cr_target_generation c,
      ax_specialization_generation = cr_specialization_generation c,
      ax_policy_generation = cr_policy_generation c,
      ax_cache_generation = hd_cache_generation (header im),
      ax_request_identity = cr_request_identity c, ax_unit_identity = cr_unit_identity c\<rparr>"

section \<open>Requirements and eligible workers\<close>

definition default_requirements :: hard_requirements where
  "default_requirements =
     \<lparr>hq_toolchain_identity = None, hq_target_identity = None, hq_required_formats = [],
      hq_required_plugins = [], hq_required_sdks = [], hq_min_logical_cores = 0,
      hq_min_memory_bytes = 0, hq_min_scratch_bytes = 0, hq_min_max_artifact_bytes = 0,
      hq_require_sandbox = False, hq_require_filesystem_isolation = False,
      hq_require_deterministic_build = False, hq_require_trusted = False,
      hq_require_remote_cache = False, hq_require_artifact_store = False,
      hq_require_provable_toolchain = True, hq_locality_host = [], hq_require_locality = False\<rparr>"

definition derive_requirements ::
    "compilation_request \<Rightarrow> compilation_unit_spec \<Rightarrow> hard_requirements" where
  "derive_requirements request u = default_requirements
     \<lparr>hq_toolchain_identity := Some (tc_identity_digest (rq_toolchain request)),
      hq_target_identity := Some (tg_identity_digest (rq_target request)),
      hq_require_provable_toolchain := po_require_provable_toolchain (rq_policy request),
      hq_require_trusted := po_require_trusted_workers (rq_policy request),
      hq_require_deterministic_build := (po_reproducibility (rq_policy request) = RR_Required),
      hq_required_formats := std_unique (=) (sort
        (map us_format (un_sources u) @
         map (\<lambda>_. IF_Object) (filter (\<lambda>d. de_kind d = DK_RuntimeLibrary \<or> de_kind d = DK_DeviceLibrary)
           (un_dependencies u)))),
      hq_required_plugins := map de_name (filter (\<lambda>d. de_kind d = DK_CompilerPlugin)
        (un_dependencies u)),
      hq_min_max_artifact_bytes := 0\<rparr>"

definition requirements_for :: "impl \<Rightarrow> compilation_record \<Rightarrow> hard_requirements" where
  "requirements_for im c =
     (let req = default_requirements\<lparr>hq_toolchain_identity := Some (cr_toolchain_identity c),
                  hq_target_identity := Some (cr_target_identity c)\<rparr> in
      case find_request (cr_request_identity c) im of
        None \<Rightarrow> req\<lparr>hq_require_provable_toolchain := True\<rparr>
      | Some request \<Rightarrow>
         (case find_unit request (cr_unit_index c) of
            None \<Rightarrow> req
          | Some u \<Rightarrow> (derive_requirements request u)
              \<lparr>hq_toolchain_identity := Some (cr_toolchain_identity c),
               hq_target_identity := Some (cr_target_identity c)\<rparr>))"

definition busy_conflict :: "impl \<Rightarrow> worker_record \<Rightarrow> compilation_id list \<Rightarrow> bool" where
  "busy_conflict im w busy = list_ex (\<lambda>c. list_ex (\<lambda>(_, a).
     ca_compilation a = c \<and> ca_worker a = wk_id w \<and> holds_commit_authority (ca_state a))
     (cs_attempts (im_state im))) busy"

definition worker_candidate ::
    "impl \<Rightarrow> hard_requirements \<Rightarrow> compilation_id list \<Rightarrow> worker_record \<Rightarrow> bool" where
  "worker_candidate im req busy w =
     (if id_is_zero (wk_session w) then False
      else case find_session (wk_session w) im of
        None \<Rightarrow> False
      | Some session \<Rightarrow>
          if \<not> ss_open session then False
          else if busy \<noteq> [] \<and> busy_conflict im w busy then False
          else if wk_in_flight w \<ge> ss_max_inflight session then False
          else ed_eligible (evaluate_eligibility w req))"

definition eligible_workers :: "impl \<Rightarrow> hard_requirements \<Rightarrow> compilation_id list \<Rightarrow> worker_record list" where
  "eligible_workers im req busy =
     filter (worker_candidate im req busy) (map snd (cs_workers (im_state im)))"

section \<open>Cache decisions\<close>

definition cache_refusal ::
    "cache_entry \<Rightarrow> cache_outcome \<Rightarrow> string \<Rightarrow> string \<Rightarrow> string \<Rightarrow> string \<Rightarrow> cache_decision" where
  "cache_refusal e outcome reason dimension expected actual =
     \<lparr>cd_outcome = outcome, cd_reason = reason,
      cd_mismatches = [\<lparr>cm_dimension = dimension, cm_expected = expected, cm_actual = actual\<rparr>],
      cd_entry = ce_id e, cd_generation_drift = False\<rparr>"

definition evaluate_cache_metadata :: "compilation_record \<Rightarrow> cache_entry \<Rightarrow> cache_decision" where
  "evaluate_cache_metadata c e =
    (if ce_invalidated e then
       cache_refusal e CO_Stale
         (''cache entry was explicitly invalidated: '' @ ce_invalidation_reason e)
         ''invalidated'' ''false'' ''true''
     else if ce_unit_identity e \<noteq> cr_unit_identity c then
       cache_refusal e CO_Incompatible ''cache entry belongs to a different unit identity''
         ''unit_identity'' (digest_hex (cr_unit_identity c)) (digest_hex (ce_unit_identity e))
     else if ce_source_identity e \<noteq> cr_source_identity c then
       cache_refusal e CO_Stale ''source generation content changed since this cache entry was produced''
         ''source_identity'' (digest_hex (cr_source_identity c)) (digest_hex (ce_source_identity e))
     else if ce_dependency_identity e \<noteq> cr_dependency_identity c then
       cache_refusal e CO_Stale ''dependency content changed since this cache entry was produced''
         ''dependency_identity'' (digest_hex (cr_dependency_identity c)) (digest_hex (ce_dependency_identity e))
     else if ce_toolchain_identity e \<noteq> cr_toolchain_identity c then
       cache_refusal e CO_Stale ''toolchain identity changed since this cache entry was produced''
         ''toolchain_identity'' (digest_hex (cr_toolchain_identity c)) (digest_hex (ce_toolchain_identity e))
     else if ce_target_identity e \<noteq> cr_target_identity c then
       cache_refusal e CO_Stale ''target identity changed since this cache entry was produced''
         ''target_identity'' (digest_hex (cr_target_identity c)) (digest_hex (ce_target_identity e))
     else if ce_specialization_identity e \<noteq> cr_specialization_identity c then
       cache_refusal e CO_Stale ''specialization changed since this cache entry was produced''
         ''specialization_identity'' (digest_hex (cr_specialization_identity c)) (digest_hex (ce_specialization_identity e))
     else if ce_policy_identity e \<noteq> cr_policy_identity c then
       cache_refusal e CO_Stale ''compile policy changed since this cache entry was produced''
         ''policy_identity'' (digest_hex (cr_policy_identity c)) (digest_hex (ce_policy_identity e))
     else if ce_environment_identity e \<noteq> cr_environment_identity c then
       cache_refusal e CO_Incompatible ''compile environment contract changed''
         ''environment_identity'' (digest_hex (cr_environment_identity c)) (digest_hex (ce_environment_identity e))
     else \<lparr>cd_outcome = CO_Reusable,
           cd_reason = ''cache entry matches every identity dimension'',
           cd_mismatches = [], cd_entry = ce_id e,
           cd_generation_drift = (ce_toolchain_generation e \<noteq> cr_toolchain_generation c
             \<or> ce_target_generation e \<noteq> cr_target_generation c)\<rparr>)"

definition evaluate_cache_blob ::
    "compilation_record \<Rightarrow> cache_entry \<Rightarrow> bool \<Rightarrow> cache_decision" where
  "evaluate_cache_blob c e blob_ok =
     (let decision = evaluate_cache_metadata c e in
      if \<not> reusable decision then decision
      else if \<not> blob_ok then
        decision\<lparr>cd_outcome := CO_Corrupt,
          cd_reason := ''cached artifact is missing or does not match its digest'',
          cd_mismatches := cd_mismatches decision @
            [\<lparr>cm_dimension = ''artifact'', cm_expected = digest_hex (rf_digest (ce_artifact e)),
              cm_actual = ''missing''\<rparr>]\<rparr>
      else decision)"

definition touch_cache_entry :: "cache_entry_id \<Rightarrow> cache_entry \<Rightarrow> impl \<Rightarrow> impl" where
  "touch_cache_entry key e im =
     (let e1 = (if ce_hit_count e < 0xFFFFFFFF then e\<lparr>ce_hit_count := ce_hit_count e + 1\<rparr> else e) in
      persist_void (JP_CacheEntry e1) (put_cache_entry key e1 im))"

text \<open>The prior entry of the unit, if it is still there, is invalidated and persisted.\<close>

definition supersede_cache_entry :: "digest256 \<Rightarrow> impl \<Rightarrow> impl" where
  "supersede_cache_entry unit_identity im =
     (case om_find (cs_cache_index (im_state im)) unit_identity of
        None \<Rightarrow> im
      | Some key \<Rightarrow>
         (case om_find (cs_cache_entries (im_state im)) key of
            None \<Rightarrow> im
          | Some prior \<Rightarrow>
             (let prior1 = prior\<lparr>ce_invalidated := True,
                    ce_invalidation_reason := ''superseded by a newer cache generation''\<rparr> in
              persist_void (JP_CacheEntry prior1) (put_cache_entry key prior1 im))))"

definition record_cache_entry ::
    "compilation_record \<Rightarrow> artifact_commit \<Rightarrow> provenance \<Rightarrow> impl \<Rightarrow> impl" where
  "record_cache_entry c commit prov im =
     (let n = hd_next_cache_entry_id (header im);
          im1 = upd_header (\<lambda>h. h\<lparr>hd_next_cache_entry_id := n + 1\<rparr>) im;
          entry = \<lparr>ce_id = Ident n, ce_generation = hd_cache_generation (header im1),
            ce_unit_identity = cr_unit_identity c, ce_compilation = cr_id c,
            ce_compilation_generation = cr_generation c, ce_artifact = pv_artifact prov,
            ce_artifact_id = ac_artifact commit, ce_provenance = pv_id prov,
            ce_validation = ac_validation commit, ce_source_identity = cr_source_identity c,
            ce_dependency_identity = cr_dependency_identity c,
            ce_toolchain_identity = cr_toolchain_identity c,
            ce_toolchain_generation = cr_toolchain_generation c,
            ce_target_identity = cr_target_identity c, ce_target_generation = cr_target_generation c,
            ce_specialization_identity = cr_specialization_identity c,
            ce_policy_identity = cr_policy_identity c,
            ce_environment_identity = cr_environment_identity c, ce_commit = ac_id commit,
            ce_created_at = im_now im1, ce_invalidated = False, ce_invalidation_reason = [],
            ce_hit_count = 0\<rparr>;
          im2 = supersede_cache_entry (ce_unit_identity entry) im1;
          im3 = upd_state (\<lambda>s. s\<lparr>cs_cache_index := om_put (ce_unit_identity entry) (ce_id entry)
                  (cs_cache_index s)\<rparr>) im2
      in persist_void (JP_CacheEntry entry) (put_cache_entry (ce_id entry) entry im3))"

definition add_negative_cache_entry ::
    "compilation_record \<Rightarrow> negative_cache_reason \<Rightarrow> error_code \<Rightarrow> string \<Rightarrow> impl \<Rightarrow> impl" where
  "add_negative_cache_entry c reason failure diagnostic im =
     (let n = hd_next_cache_entry_id (header im);
          im1 = upd_header (\<lambda>h. h\<lparr>hd_next_cache_entry_id := n + 1\<rparr>) im;
          entry = \<lparr>ne_id = Ident n, ne_unit_identity = cr_unit_identity c, ne_reason = reason,
            ne_failure = failure, ne_diagnostic = diagnostic,
            ne_toolchain_identity = cr_toolchain_identity c,
            ne_toolchain_generation = cr_toolchain_generation c,
            ne_target_identity = cr_target_identity c, ne_target_generation = cr_target_generation c,
            ne_specialization_identity = cr_specialization_identity c,
            ne_policy_identity = cr_policy_identity c, ne_created_at = im_now im1\<rparr>;
          negative = cs_negative_cache (im_state im1);
          kept = (case find_request (cr_request_identity c) im of
             None \<Rightarrow> negative
           | Some request \<Rightarrow>
              (let bound = unat (po_negative_cache_max_entries (rq_policy request)) in
               if bound > 0 then drop (length negative - (bound - 1)) negative else negative))
      in persist_void (JP_NegativeCache entry)
           (upd_state (\<lambda>s. s\<lparr>cs_negative_cache := kept @ [entry]\<rparr>) im1))"

section \<open>Attempts and workers\<close>

definition transition_attempt ::
    "compilation_attempt \<Rightarrow> attempt_state \<Rightarrow> status \<times> compilation_attempt" where
  "transition_attempt a next =
     (if ca_state a = next then (success, a)
      else if \<not> is_legal_transition (ca_state a) next then
        (error Err_IllegalTransition (''attempt '' @ to_dec (id_value (ca_id a)) @ '' cannot move from '' @
           attempt_state_string (ca_state a) @ '' to '' @ attempt_state_string next), a)
      else (success, a\<lparr>ca_state := next\<rparr>))"

text \<open>What the end of an attempt does to its worker.\<close>

definition settle_worker :: "unix_millis \<Rightarrow> compilation_attempt \<Rightarrow> worker_record \<Rightarrow> worker_record" where
  "settle_worker now a w =
     (let w1 = (if wk_in_flight w > 0 then w\<lparr>wk_in_flight := wk_in_flight w - 1\<rparr> else w);
          w2 = (if ca_state a = AS_Committed
                then w1\<lparr>wk_completed_units := wk_completed_units w1 + 1,
                        wk_total_compile_millis := wk_total_compile_millis w1 + ca_compiler_wall_millis a\<rparr>
                else w1\<lparr>wk_failed_units := wk_failed_units w1 + 1\<rparr>)
      in w2\<lparr>wk_active_leases := filter (\<lambda>l. l \<noteq> ca_lease a) (wk_active_leases w2),
            wk_last_seen := now\<rparr>)"

definition settle_lease :: "compilation_attempt \<Rightarrow> compile_lease \<Rightarrow> compile_lease" where
  "settle_lease a l = l\<lparr>cl_revoked := True,
     cl_revocation_reason := (if cl_revocation_reason l = []
       then ''attempt reached '' @ attempt_state_string (ca_state a) else cl_revocation_reason l)\<rparr>"

definition finish_attempt_bookkeeping ::
    "compilation_attempt \<Rightarrow> impl \<Rightarrow> compilation_attempt \<times> impl" where
  "finish_attempt_bookkeeping a im =
     (let a1 = a\<lparr>ca_finished_at := im_now im\<rparr>;
          im1 = (case find_worker (ca_worker a1) im of
             None \<Rightarrow> im
           | Some w \<Rightarrow> put_worker (ca_worker a1) (settle_worker (im_now im) a1 w) im);
          im2 = (case om_find (cs_leases (im_state im1)) (ca_lease a1) of
             None \<Rightarrow> im1
           | Some l \<Rightarrow> put_lease (ca_lease a1) (settle_lease a1 l) im1)
      in (a1, im2))"

definition cancel_control :: "impl \<Rightarrow> compilation_record \<Rightarrow> compilation_attempt \<Rightarrow> string \<Rightarrow> control_message" where
  "cancel_control im c a reason =
     \<lparr>cx_session = (case find_worker (ca_worker a) im of None \<Rightarrow> Ident 0 | Some w \<Rightarrow> wk_session w),
      cx_kind = CK_CancelAttempt, cx_compilation = cr_id c,
      cx_compilation_generation = cr_generation c, cx_attempt = ca_id a,
      cx_attempt_generation = ca_generation a, cx_lease = ca_lease a,
      cx_lease_generation = ca_lease_generation a, cx_commit = Ident 0, cx_artifact_digest = 0,
      cx_reason = reason\<rparr>"

fun enqueue_cancel_losers_from ::
    "compilation_record \<Rightarrow> attempt_id \<Rightarrow> attempt_id list \<Rightarrow> impl \<Rightarrow> impl" where
  "enqueue_cancel_losers_from c winner [] im = im"
| "enqueue_cancel_losers_from c winner (i # ids) im =
     (if i = winner then enqueue_cancel_losers_from c winner ids im
      else case find_attempt i im of
        None \<Rightarrow> enqueue_cancel_losers_from c winner ids im
      | Some other \<Rightarrow>
          if \<not> holds_commit_authority (ca_state other)
          then enqueue_cancel_losers_from c winner ids im
          else enqueue_cancel_losers_from c winner ids
            (push_control (cancel_control im c other
               (''logical compilation already committed by attempt '' @ to_dec (id_value winner))) im))"

definition enqueue_cancel_losers :: "compilation_record \<Rightarrow> attempt_id \<Rightarrow> impl \<Rightarrow> impl" where
  "enqueue_cancel_losers c winner im = enqueue_cancel_losers_from c winner (cr_attempts c) im"

definition revoke_leases_for :: "worker_id \<Rightarrow> string \<Rightarrow> impl \<Rightarrow> impl" where
  "revoke_leases_for w reason = upd_state (\<lambda>s. s\<lparr>cs_leases := om_map_values
     (\<lambda>l. if cl_worker l \<noteq> w \<or> cl_revoked l then l
          else l\<lparr>cl_revoked := True, cl_revocation_reason := reason\<rparr>) (cs_leases s)\<rparr>)"

text \<open>
  \<^verbatim>\<open>mark_capabilities_unknown\<close> canonicalises the capability set again.  A capability set in
  the state has been canonicalised before, with the same sizes, so the writer does not
  throw here; should it, the exception would leave the digest as it was.
\<close>

definition mark_capabilities_unknown :: "worker_record \<Rightarrow> worker_record" where
  "mark_capabilities_unknown w =
     (let c = (wk_capabilities w)\<lparr>wc_evidence := EC_Unknown\<rparr> in
      case canonicalize_capabilities c of
        Inl _ \<Rightarrow> w\<lparr>wk_capabilities := c\<rparr>
      | Inr c1 \<Rightarrow> w\<lparr>wk_capabilities := c1\<rparr>)"

definition fenced_record :: "worker_record \<Rightarrow> worker_record" where
  "fenced_record w = mark_capabilities_unknown
     (w\<lparr>wk_fenced := True, wk_ready := False, wk_health := WH_Fenced,
        wk_generation := gen_next (wk_generation w), wk_in_flight := 0, wk_session := Ident 0,
        wk_active_leases := [], wk_trusted_evidence_fresh := False\<rparr>)"

definition fence_worker :: "worker_id \<Rightarrow> worker_record \<Rightarrow> string \<Rightarrow> impl \<Rightarrow> worker_record \<times> impl" where
  "fence_worker key w reason im =
     (let w1 = fenced_record w in
      (w1, revoke_leases_for (wk_id w1) reason (put_worker key w1 im)))"

section \<open>What the helpers leave alone\<close>

text \<open>
  The parts of the state that the proofs speak of: the ledger (commits, authority,
  provenance and validation records and the counters that name them), the environment of
  an operation (what it may read but only the lifecycle operations change), the cache, and
  the other tables one by one.  Each helper has one lemma that lists the parts it keeps.
\<close>

record ledger =
  lg_commits :: "(commit_id, artifact_commit) omap"
  lg_authoritative :: "(compilation_id, commit_id) omap"
  lg_provenances :: "(provenance_id, provenance) omap"
  lg_validations :: "(validation_id, validation_report) omap"
  lg_next_commit :: u64
  lg_next_provenance :: u64
  lg_next_validation :: u64

definition ledger_of :: "impl \<Rightarrow> ledger" where
  "ledger_of im = \<lparr>lg_commits = cs_commits (im_state im),
     lg_authoritative = cs_authoritative (im_state im),
     lg_provenances = cs_provenances (im_state im), lg_validations = cs_validations (im_state im),
     lg_next_commit = hd_next_commit_id (header im),
     lg_next_provenance = hd_next_provenance_id (header im),
     lg_next_validation = hd_next_validation_id (header im)\<rparr>"

record environment =
  nv_config :: coordinator_config
  nv_now :: unix_millis
  nv_opened :: bool
  nv_epoch :: epoch
  nv_cache_generation :: cache_gen
  nv_requests :: "(digest256, compilation_request) omap"
  nv_next_attempt :: u64
  nv_next_lease :: u64

definition env_of :: "impl \<Rightarrow> environment" where
  "env_of im = \<lparr>nv_config = im_config im, nv_now = im_now im, nv_opened = im_opened im,
     nv_epoch = hd_epoch (header im), nv_cache_generation = hd_cache_generation (header im),
     nv_requests = cs_requests (im_state im), nv_next_attempt = hd_next_attempt_id (header im),
     nv_next_lease = hd_next_lease_id (header im)\<rparr>"

definition cache_of :: "impl \<Rightarrow> (cache_entry_id, cache_entry) omap \<times> (digest256, cache_entry_id) omap" where
  "cache_of im = (cs_cache_entries (im_state im), cs_cache_index (im_state im))"

lemmas view_defs = ledger_of_def env_of_def cache_of_def

lemma env_of_eqD:
  assumes "env_of a = env_of b"
  shows "im_config a = im_config b" "im_now a = im_now b" "im_opened a = im_opened b"
    "hd_epoch (header a) = hd_epoch (header b)"
    "hd_cache_generation (header a) = hd_cache_generation (header b)"
    "cs_requests (im_state a) = cs_requests (im_state b)" "find_request i a = find_request i b"
  using assms by (simp_all add: env_of_def find_request_def)

lemma put_worker_frame [simp]:
  "ledger_of (put_worker k v im) = ledger_of im"
  "env_of (put_worker k v im) = env_of im"
  "cs_compilations (im_state (put_worker k v im)) = cs_compilations (im_state im)"
  "cs_attempts (im_state (put_worker k v im)) = cs_attempts (im_state im)"
  "cs_sessions (im_state (put_worker k v im)) = cs_sessions (im_state im)"
  "cs_leases (im_state (put_worker k v im)) = cs_leases (im_state im)"
  "cs_jobs (im_state (put_worker k v im)) = cs_jobs (im_state im)"
  "cache_of (put_worker k v im) = cache_of im"
  "cs_controls (im_state (put_worker k v im)) = cs_controls (im_state im)"
  by (simp_all add: table_defs view_defs)

lemma put_worker_self [simp]: "cs_workers (im_state (put_worker k v im)) = om_put k v (cs_workers (im_state im))"
  by (simp add: table_defs)

lemma put_session_frame [simp]:
  "ledger_of (put_session k v im) = ledger_of im"
  "env_of (put_session k v im) = env_of im"
  "cs_compilations (im_state (put_session k v im)) = cs_compilations (im_state im)"
  "cs_attempts (im_state (put_session k v im)) = cs_attempts (im_state im)"
  "cs_workers (im_state (put_session k v im)) = cs_workers (im_state im)"
  "cs_leases (im_state (put_session k v im)) = cs_leases (im_state im)"
  "cs_jobs (im_state (put_session k v im)) = cs_jobs (im_state im)"
  "cache_of (put_session k v im) = cache_of im"
  "cs_controls (im_state (put_session k v im)) = cs_controls (im_state im)"
  by (simp_all add: table_defs view_defs)

lemma put_session_self [simp]: "cs_sessions (im_state (put_session k v im)) = om_put k v (cs_sessions (im_state im))"
  by (simp add: table_defs)

lemma put_compilation_frame [simp]:
  "ledger_of (put_compilation k v im) = ledger_of im"
  "env_of (put_compilation k v im) = env_of im"
  "cs_attempts (im_state (put_compilation k v im)) = cs_attempts (im_state im)"
  "cs_workers (im_state (put_compilation k v im)) = cs_workers (im_state im)"
  "cs_sessions (im_state (put_compilation k v im)) = cs_sessions (im_state im)"
  "cs_leases (im_state (put_compilation k v im)) = cs_leases (im_state im)"
  "cs_jobs (im_state (put_compilation k v im)) = cs_jobs (im_state im)"
  "cache_of (put_compilation k v im) = cache_of im"
  "cs_controls (im_state (put_compilation k v im)) = cs_controls (im_state im)"
  by (simp_all add: table_defs view_defs)

lemma put_compilation_self [simp]: "cs_compilations (im_state (put_compilation k v im)) = om_put k v (cs_compilations (im_state im))"
  by (simp add: table_defs)

lemma put_attempt_frame [simp]:
  "ledger_of (put_attempt k v im) = ledger_of im"
  "env_of (put_attempt k v im) = env_of im"
  "cs_compilations (im_state (put_attempt k v im)) = cs_compilations (im_state im)"
  "cs_workers (im_state (put_attempt k v im)) = cs_workers (im_state im)"
  "cs_sessions (im_state (put_attempt k v im)) = cs_sessions (im_state im)"
  "cs_leases (im_state (put_attempt k v im)) = cs_leases (im_state im)"
  "cs_jobs (im_state (put_attempt k v im)) = cs_jobs (im_state im)"
  "cache_of (put_attempt k v im) = cache_of im"
  "cs_controls (im_state (put_attempt k v im)) = cs_controls (im_state im)"
  by (simp_all add: table_defs view_defs)

lemma put_attempt_self [simp]: "cs_attempts (im_state (put_attempt k v im)) = om_put k v (cs_attempts (im_state im))"
  by (simp add: table_defs)

lemma put_lease_frame [simp]:
  "ledger_of (put_lease k v im) = ledger_of im"
  "env_of (put_lease k v im) = env_of im"
  "cs_compilations (im_state (put_lease k v im)) = cs_compilations (im_state im)"
  "cs_attempts (im_state (put_lease k v im)) = cs_attempts (im_state im)"
  "cs_workers (im_state (put_lease k v im)) = cs_workers (im_state im)"
  "cs_sessions (im_state (put_lease k v im)) = cs_sessions (im_state im)"
  "cs_jobs (im_state (put_lease k v im)) = cs_jobs (im_state im)"
  "cache_of (put_lease k v im) = cache_of im"
  "cs_controls (im_state (put_lease k v im)) = cs_controls (im_state im)"
  by (simp_all add: table_defs view_defs)

lemma put_lease_self [simp]: "cs_leases (im_state (put_lease k v im)) = om_put k v (cs_leases (im_state im))"
  by (simp add: table_defs)

lemma put_job_frame [simp]:
  "ledger_of (put_job k v im) = ledger_of im"
  "env_of (put_job k v im) = env_of im"
  "cs_compilations (im_state (put_job k v im)) = cs_compilations (im_state im)"
  "cs_attempts (im_state (put_job k v im)) = cs_attempts (im_state im)"
  "cs_workers (im_state (put_job k v im)) = cs_workers (im_state im)"
  "cs_sessions (im_state (put_job k v im)) = cs_sessions (im_state im)"
  "cs_leases (im_state (put_job k v im)) = cs_leases (im_state im)"
  "cache_of (put_job k v im) = cache_of im"
  "cs_controls (im_state (put_job k v im)) = cs_controls (im_state im)"
  by (simp_all add: table_defs view_defs)

lemma put_job_self [simp]: "cs_jobs (im_state (put_job k v im)) = om_put k v (cs_jobs (im_state im))"
  by (simp add: table_defs)

lemma put_cache_entry_frame [simp]:
  "ledger_of (put_cache_entry k v im) = ledger_of im"
  "env_of (put_cache_entry k v im) = env_of im"
  "cs_compilations (im_state (put_cache_entry k v im)) = cs_compilations (im_state im)"
  "cs_attempts (im_state (put_cache_entry k v im)) = cs_attempts (im_state im)"
  "cs_workers (im_state (put_cache_entry k v im)) = cs_workers (im_state im)"
  "cs_sessions (im_state (put_cache_entry k v im)) = cs_sessions (im_state im)"
  "cs_leases (im_state (put_cache_entry k v im)) = cs_leases (im_state im)"
  "cs_jobs (im_state (put_cache_entry k v im)) = cs_jobs (im_state im)"
  "cs_controls (im_state (put_cache_entry k v im)) = cs_controls (im_state im)"
  by (simp_all add: table_defs view_defs)

lemma put_cache_entry_self [simp]:
  "cs_cache_entries (im_state (put_cache_entry k v im)) = om_put k v (cs_cache_entries (im_state im))"
  "cs_cache_index (im_state (put_cache_entry k v im)) = cs_cache_index (im_state im)"
  by (simp_all add: table_defs)

lemma push_control_frame [simp]:
  "ledger_of (push_control c im) = ledger_of im"
  "env_of (push_control c im) = env_of im"
  "cs_compilations (im_state (push_control c im)) = cs_compilations (im_state im)"
  "cs_attempts (im_state (push_control c im)) = cs_attempts (im_state im)"
  "cs_workers (im_state (push_control c im)) = cs_workers (im_state im)"
  "cs_sessions (im_state (push_control c im)) = cs_sessions (im_state im)"
  "cs_leases (im_state (push_control c im)) = cs_leases (im_state im)"
  "cs_jobs (im_state (push_control c im)) = cs_jobs (im_state im)"
  "cache_of (push_control c im) = cache_of im"
  by (simp_all add: table_defs view_defs)

lemma persist_frame [simp]:
  "ledger_of (snd (persist p im)) = ledger_of im"
  "env_of (snd (persist p im)) = env_of im"
  "cs_compilations (im_state (snd (persist p im))) = cs_compilations (im_state im)"
  "cs_attempts (im_state (snd (persist p im))) = cs_attempts (im_state im)"
  "cs_workers (im_state (snd (persist p im))) = cs_workers (im_state im)"
  "cs_sessions (im_state (snd (persist p im))) = cs_sessions (im_state im)"
  "cs_leases (im_state (snd (persist p im))) = cs_leases (im_state im)"
  "cs_jobs (im_state (snd (persist p im))) = cs_jobs (im_state im)"
  "cache_of (snd (persist p im)) = cache_of im"
  "cs_controls (im_state (snd (persist p im))) = cs_controls (im_state im)"
  by (simp_all add: persist_def Let_def table_defs view_defs split: prod.split)

lemma persist_void_frame [simp]:
  "ledger_of (persist_void p im) = ledger_of im"
  "env_of (persist_void p im) = env_of im"
  "cs_compilations (im_state (persist_void p im)) = cs_compilations (im_state im)"
  "cs_attempts (im_state (persist_void p im)) = cs_attempts (im_state im)"
  "cs_workers (im_state (persist_void p im)) = cs_workers (im_state im)"
  "cs_sessions (im_state (persist_void p im)) = cs_sessions (im_state im)"
  "cs_leases (im_state (persist_void p im)) = cs_leases (im_state im)"
  "cs_jobs (im_state (persist_void p im)) = cs_jobs (im_state im)"
  "cache_of (persist_void p im) = cache_of im"
  "cs_controls (im_state (persist_void p im)) = cs_controls (im_state im)"
  by (simp_all add: persist_void_def)

lemma maybe_snapshot_frame [simp]:
  "ledger_of (maybe_snapshot im) = ledger_of im"
  "env_of (maybe_snapshot im) = env_of im"
  "cs_compilations (im_state (maybe_snapshot im)) = cs_compilations (im_state im)"
  "cs_attempts (im_state (maybe_snapshot im)) = cs_attempts (im_state im)"
  "cs_workers (im_state (maybe_snapshot im)) = cs_workers (im_state im)"
  "cs_sessions (im_state (maybe_snapshot im)) = cs_sessions (im_state im)"
  "cs_leases (im_state (maybe_snapshot im)) = cs_leases (im_state im)"
  "cs_jobs (im_state (maybe_snapshot im)) = cs_jobs (im_state im)"
  "cache_of (maybe_snapshot im) = cache_of im"
  "cs_controls (im_state (maybe_snapshot im)) = cs_controls (im_state im)"
  by (simp_all add: maybe_snapshot_def table_defs view_defs Let_def split: prod.split)

lemma coordinator_snapshot_frame [simp]:
  "ledger_of (snd (coordinator_snapshot im)) = ledger_of im"
  "ledger_of (coordinator_close im) = ledger_of im"
  "env_of (snd (coordinator_snapshot im)) = env_of im"
  "nv_next_attempt (env_of (coordinator_close im)) = nv_next_attempt (env_of im)"
  "cs_attempts (im_state (snd (coordinator_snapshot im))) = cs_attempts (im_state im)"
  "cs_attempts (im_state (coordinator_close im)) = cs_attempts (im_state im)"
  "cs_controls (im_state (snd (coordinator_snapshot im))) = cs_controls (im_state im)"
  by (simp_all add: coordinator_snapshot_def coordinator_close_def table_defs view_defs Let_def split: prod.split)

lemma persist_entity_state: "snd (persist_entity p im) = (if st_ok (fst (persist p im))
    then maybe_snapshot (snd (persist p im)) else snd (persist p im))"
  by (simp add: persist_entity_def split: prod.split)

lemma persist_entity_frame [simp]:
  "ledger_of (snd (persist_entity p im)) = ledger_of im"
  "env_of (snd (persist_entity p im)) = env_of im"
  "cs_compilations (im_state (snd (persist_entity p im))) = cs_compilations (im_state im)"
  "cs_attempts (im_state (snd (persist_entity p im))) = cs_attempts (im_state im)"
  "cs_workers (im_state (snd (persist_entity p im))) = cs_workers (im_state im)"
  "cs_sessions (im_state (snd (persist_entity p im))) = cs_sessions (im_state im)"
  "cs_leases (im_state (snd (persist_entity p im))) = cs_leases (im_state im)"
  "cs_jobs (im_state (snd (persist_entity p im))) = cs_jobs (im_state im)"
  "cache_of (snd (persist_entity p im)) = cache_of im"
  "cs_controls (im_state (snd (persist_entity p im))) = cs_controls (im_state im)"
  by (simp_all add: persist_entity_state)

lemma record_violation_frame [simp]:
  "ledger_of (record_violation op code s w d im) = ledger_of im"
  "env_of (record_violation op code s w d im) = env_of im"
  "cs_compilations (im_state (record_violation op code s w d im)) = cs_compilations (im_state im)"
  "cs_attempts (im_state (record_violation op code s w d im)) = cs_attempts (im_state im)"
  "cs_workers (im_state (record_violation op code s w d im)) = cs_workers (im_state im)"
  "cs_sessions (im_state (record_violation op code s w d im)) = cs_sessions (im_state im)"
  "cs_leases (im_state (record_violation op code s w d im)) = cs_leases (im_state im)"
  "cs_jobs (im_state (record_violation op code s w d im)) = cs_jobs (im_state im)"
  "cache_of (record_violation op code s w d im) = cache_of im"
  "cs_controls (im_state (record_violation op code s w d im)) = cs_controls (im_state im)"
  by (simp_all add: record_violation_def table_defs view_defs)

lemma cache_blob_frame [simp]:
  "ledger_of (cache_blob d bs im) = ledger_of im"
  "env_of (cache_blob d bs im) = env_of im"
  "cs_compilations (im_state (cache_blob d bs im)) = cs_compilations (im_state im)"
  "cs_attempts (im_state (cache_blob d bs im)) = cs_attempts (im_state im)"
  "cs_workers (im_state (cache_blob d bs im)) = cs_workers (im_state im)"
  "cs_sessions (im_state (cache_blob d bs im)) = cs_sessions (im_state im)"
  "cs_leases (im_state (cache_blob d bs im)) = cs_leases (im_state im)"
  "cs_jobs (im_state (cache_blob d bs im)) = cs_jobs (im_state im)"
  "cache_of (cache_blob d bs im) = cache_of im"
  "cs_controls (im_state (cache_blob d bs im)) = cs_controls (im_state im)"
  by (simp_all add: cache_blob_def Let_def view_defs split: prod.split)

lemma set_store_frame [simp]:
  "ledger_of (im\<lparr>im_store := ps\<rparr>) = ledger_of im"
  "env_of (im\<lparr>im_store := ps\<rparr>) = env_of im"
  "cs_compilations (im_state (im\<lparr>im_store := ps\<rparr>)) = cs_compilations (im_state im)"
  "cs_attempts (im_state (im\<lparr>im_store := ps\<rparr>)) = cs_attempts (im_state im)"
  "cs_workers (im_state (im\<lparr>im_store := ps\<rparr>)) = cs_workers (im_state im)"
  "cs_sessions (im_state (im\<lparr>im_store := ps\<rparr>)) = cs_sessions (im_state im)"
  "cs_leases (im_state (im\<lparr>im_store := ps\<rparr>)) = cs_leases (im_state im)"
  "cs_jobs (im_state (im\<lparr>im_store := ps\<rparr>)) = cs_jobs (im_state im)"
  "cache_of (im\<lparr>im_store := ps\<rparr>) = cache_of im"
  "cs_controls (im_state (im\<lparr>im_store := ps\<rparr>)) = cs_controls (im_state im)"
  by (simp_all add: view_defs)

lemma store_blob_frame [simp]:
  "ledger_of (snd (store_blob bs im)) = ledger_of im"
  "env_of (snd (store_blob bs im)) = env_of im"
  "cs_compilations (im_state (snd (store_blob bs im))) = cs_compilations (im_state im)"
  "cs_attempts (im_state (snd (store_blob bs im))) = cs_attempts (im_state im)"
  "cs_workers (im_state (snd (store_blob bs im))) = cs_workers (im_state im)"
  "cs_sessions (im_state (snd (store_blob bs im))) = cs_sessions (im_state im)"
  "cs_leases (im_state (snd (store_blob bs im))) = cs_leases (im_state im)"
  "cs_jobs (im_state (snd (store_blob bs im))) = cs_jobs (im_state im)"
  "cache_of (snd (store_blob bs im)) = cache_of im"
  "cs_controls (im_state (snd (store_blob bs im))) = cs_controls (im_state im)"
  by (auto simp: store_blob_def Let_def split: prod.splits if_splits)

lemma load_blob_frame [simp]:
  "ledger_of (snd (load_blob d im)) = ledger_of im"
  "env_of (snd (load_blob d im)) = env_of im"
  "cs_compilations (im_state (snd (load_blob d im))) = cs_compilations (im_state im)"
  "cs_attempts (im_state (snd (load_blob d im))) = cs_attempts (im_state im)"
  "cs_workers (im_state (snd (load_blob d im))) = cs_workers (im_state im)"
  "cs_sessions (im_state (snd (load_blob d im))) = cs_sessions (im_state im)"
  "cs_leases (im_state (snd (load_blob d im))) = cs_leases (im_state im)"
  "cs_jobs (im_state (snd (load_blob d im))) = cs_jobs (im_state im)"
  "cache_of (snd (load_blob d im)) = cache_of im"
  "cs_controls (im_state (snd (load_blob d im))) = cs_controls (im_state im)"
  by (simp_all add: load_blob_def split: option.split sum.split)

lemma touch_cache_entry_frame [simp]:
  "ledger_of (touch_cache_entry k e im) = ledger_of im"
  "env_of (touch_cache_entry k e im) = env_of im"
  "cs_compilations (im_state (touch_cache_entry k e im)) = cs_compilations (im_state im)"
  "cs_attempts (im_state (touch_cache_entry k e im)) = cs_attempts (im_state im)"
  "cs_workers (im_state (touch_cache_entry k e im)) = cs_workers (im_state im)"
  "cs_sessions (im_state (touch_cache_entry k e im)) = cs_sessions (im_state im)"
  "cs_leases (im_state (touch_cache_entry k e im)) = cs_leases (im_state im)"
  "cs_jobs (im_state (touch_cache_entry k e im)) = cs_jobs (im_state im)"
  "cs_controls (im_state (touch_cache_entry k e im)) = cs_controls (im_state im)"
  by (simp_all add: touch_cache_entry_def Let_def)

lemma supersede_cache_entry_frame [simp]:
  "ledger_of (supersede_cache_entry u im) = ledger_of im"
  "env_of (supersede_cache_entry u im) = env_of im"
  "cs_compilations (im_state (supersede_cache_entry u im)) = cs_compilations (im_state im)"
  "cs_attempts (im_state (supersede_cache_entry u im)) = cs_attempts (im_state im)"
  "cs_workers (im_state (supersede_cache_entry u im)) = cs_workers (im_state im)"
  "cs_sessions (im_state (supersede_cache_entry u im)) = cs_sessions (im_state im)"
  "cs_leases (im_state (supersede_cache_entry u im)) = cs_leases (im_state im)"
  "cs_jobs (im_state (supersede_cache_entry u im)) = cs_jobs (im_state im)"
  "cs_controls (im_state (supersede_cache_entry u im)) = cs_controls (im_state im)"
  by (simp_all add: supersede_cache_entry_def Let_def split: option.split)

text \<open>The two header or state updates inside the cache operations.\<close>

lemma take_cache_id_frame [simp]:
  "ledger_of (upd_header (\<lambda>h. h\<lparr>hd_next_cache_entry_id := n\<rparr>) im) = ledger_of im"
  "env_of (upd_header (\<lambda>h. h\<lparr>hd_next_cache_entry_id := n\<rparr>) im) = env_of im"
  "cs_compilations (im_state (upd_header (\<lambda>h. h\<lparr>hd_next_cache_entry_id := n\<rparr>) im)) = cs_compilations (im_state im)"
  "cs_attempts (im_state (upd_header (\<lambda>h. h\<lparr>hd_next_cache_entry_id := n\<rparr>) im)) = cs_attempts (im_state im)"
  "cs_workers (im_state (upd_header (\<lambda>h. h\<lparr>hd_next_cache_entry_id := n\<rparr>) im)) = cs_workers (im_state im)"
  "cs_sessions (im_state (upd_header (\<lambda>h. h\<lparr>hd_next_cache_entry_id := n\<rparr>) im)) = cs_sessions (im_state im)"
  "cs_leases (im_state (upd_header (\<lambda>h. h\<lparr>hd_next_cache_entry_id := n\<rparr>) im)) = cs_leases (im_state im)"
  "cs_jobs (im_state (upd_header (\<lambda>h. h\<lparr>hd_next_cache_entry_id := n\<rparr>) im)) = cs_jobs (im_state im)"
  "cache_of (upd_header (\<lambda>h. h\<lparr>hd_next_cache_entry_id := n\<rparr>) im) = cache_of im"
  "cs_controls (im_state (upd_header (\<lambda>h. h\<lparr>hd_next_cache_entry_id := n\<rparr>) im)) = cs_controls (im_state im)"
  by (simp_all add: table_defs view_defs)

lemma set_cache_index_frame [simp]:
  "ledger_of (upd_state (\<lambda>s. s\<lparr>cs_cache_index := i s\<rparr>) im) = ledger_of im"
  "env_of (upd_state (\<lambda>s. s\<lparr>cs_cache_index := i s\<rparr>) im) = env_of im"
  "cs_compilations (im_state (upd_state (\<lambda>s. s\<lparr>cs_cache_index := i s\<rparr>) im)) = cs_compilations (im_state im)"
  "cs_attempts (im_state (upd_state (\<lambda>s. s\<lparr>cs_cache_index := i s\<rparr>) im)) = cs_attempts (im_state im)"
  "cs_workers (im_state (upd_state (\<lambda>s. s\<lparr>cs_cache_index := i s\<rparr>) im)) = cs_workers (im_state im)"
  "cs_sessions (im_state (upd_state (\<lambda>s. s\<lparr>cs_cache_index := i s\<rparr>) im)) = cs_sessions (im_state im)"
  "cs_leases (im_state (upd_state (\<lambda>s. s\<lparr>cs_cache_index := i s\<rparr>) im)) = cs_leases (im_state im)"
  "cs_jobs (im_state (upd_state (\<lambda>s. s\<lparr>cs_cache_index := i s\<rparr>) im)) = cs_jobs (im_state im)"
  "cs_controls (im_state (upd_state (\<lambda>s. s\<lparr>cs_cache_index := i s\<rparr>) im)) = cs_controls (im_state im)"
  by (simp_all add: table_defs view_defs)

lemma set_negative_frame [simp]:
  "ledger_of (upd_state (\<lambda>s. s\<lparr>cs_negative_cache := i s\<rparr>) im) = ledger_of im"
  "env_of (upd_state (\<lambda>s. s\<lparr>cs_negative_cache := i s\<rparr>) im) = env_of im"
  "cs_compilations (im_state (upd_state (\<lambda>s. s\<lparr>cs_negative_cache := i s\<rparr>) im)) = cs_compilations (im_state im)"
  "cs_attempts (im_state (upd_state (\<lambda>s. s\<lparr>cs_negative_cache := i s\<rparr>) im)) = cs_attempts (im_state im)"
  "cs_workers (im_state (upd_state (\<lambda>s. s\<lparr>cs_negative_cache := i s\<rparr>) im)) = cs_workers (im_state im)"
  "cs_sessions (im_state (upd_state (\<lambda>s. s\<lparr>cs_negative_cache := i s\<rparr>) im)) = cs_sessions (im_state im)"
  "cs_leases (im_state (upd_state (\<lambda>s. s\<lparr>cs_negative_cache := i s\<rparr>) im)) = cs_leases (im_state im)"
  "cs_jobs (im_state (upd_state (\<lambda>s. s\<lparr>cs_negative_cache := i s\<rparr>) im)) = cs_jobs (im_state im)"
  "cache_of (upd_state (\<lambda>s. s\<lparr>cs_negative_cache := i s\<rparr>) im) = cache_of im"
  "cs_controls (im_state (upd_state (\<lambda>s. s\<lparr>cs_negative_cache := i s\<rparr>) im)) = cs_controls (im_state im)"
  by (simp_all add: table_defs view_defs)

lemma record_cache_entry_frame [simp]:
  "ledger_of (record_cache_entry c k p im) = ledger_of im"
  "env_of (record_cache_entry c k p im) = env_of im"
  "cs_compilations (im_state (record_cache_entry c k p im)) = cs_compilations (im_state im)"
  "cs_attempts (im_state (record_cache_entry c k p im)) = cs_attempts (im_state im)"
  "cs_workers (im_state (record_cache_entry c k p im)) = cs_workers (im_state im)"
  "cs_sessions (im_state (record_cache_entry c k p im)) = cs_sessions (im_state im)"
  "cs_leases (im_state (record_cache_entry c k p im)) = cs_leases (im_state im)"
  "cs_jobs (im_state (record_cache_entry c k p im)) = cs_jobs (im_state im)"
  "cs_controls (im_state (record_cache_entry c k p im)) = cs_controls (im_state im)"
  by (simp_all add: record_cache_entry_def Let_def)

lemma add_negative_cache_entry_frame [simp]:
  "ledger_of (add_negative_cache_entry c r f d im) = ledger_of im"
  "env_of (add_negative_cache_entry c r f d im) = env_of im"
  "cs_compilations (im_state (add_negative_cache_entry c r f d im)) = cs_compilations (im_state im)"
  "cs_attempts (im_state (add_negative_cache_entry c r f d im)) = cs_attempts (im_state im)"
  "cs_workers (im_state (add_negative_cache_entry c r f d im)) = cs_workers (im_state im)"
  "cs_sessions (im_state (add_negative_cache_entry c r f d im)) = cs_sessions (im_state im)"
  "cs_leases (im_state (add_negative_cache_entry c r f d im)) = cs_leases (im_state im)"
  "cs_jobs (im_state (add_negative_cache_entry c r f d im)) = cs_jobs (im_state im)"
  "cache_of (add_negative_cache_entry c r f d im) = cache_of im"
  "cs_controls (im_state (add_negative_cache_entry c r f d im)) = cs_controls (im_state im)"
  by (simp_all add: add_negative_cache_entry_def Let_def)

lemma finish_attempt_bookkeeping_frame [simp]:
  "ledger_of (snd (finish_attempt_bookkeeping a im)) = ledger_of im"
  "env_of (snd (finish_attempt_bookkeeping a im)) = env_of im"
  "cs_compilations (im_state (snd (finish_attempt_bookkeeping a im))) = cs_compilations (im_state im)"
  "cs_attempts (im_state (snd (finish_attempt_bookkeeping a im))) = cs_attempts (im_state im)"
  "cs_sessions (im_state (snd (finish_attempt_bookkeeping a im))) = cs_sessions (im_state im)"
  "cs_jobs (im_state (snd (finish_attempt_bookkeeping a im))) = cs_jobs (im_state im)"
  "cache_of (snd (finish_attempt_bookkeeping a im)) = cache_of im"
  "cs_controls (im_state (snd (finish_attempt_bookkeeping a im))) = cs_controls (im_state im)"
  by (simp_all add: finish_attempt_bookkeeping_def Let_def split: option.split)

lemma enqueue_cancel_losers_from_frame [simp]:
  "ledger_of (enqueue_cancel_losers_from c w ids im) = ledger_of im"
  "env_of (enqueue_cancel_losers_from c w ids im) = env_of im"
  "cs_compilations (im_state (enqueue_cancel_losers_from c w ids im)) = cs_compilations (im_state im)"
  "cs_attempts (im_state (enqueue_cancel_losers_from c w ids im)) = cs_attempts (im_state im)"
  "cs_workers (im_state (enqueue_cancel_losers_from c w ids im)) = cs_workers (im_state im)"
  "cs_sessions (im_state (enqueue_cancel_losers_from c w ids im)) = cs_sessions (im_state im)"
  "cs_leases (im_state (enqueue_cancel_losers_from c w ids im)) = cs_leases (im_state im)"
  "cs_jobs (im_state (enqueue_cancel_losers_from c w ids im)) = cs_jobs (im_state im)"
  "cache_of (enqueue_cancel_losers_from c w ids im) = cache_of im"
  by (induction ids arbitrary: im) (simp_all split: option.split)

lemma enqueue_cancel_losers_frame [simp]:
  "ledger_of (enqueue_cancel_losers c w im) = ledger_of im"
  "env_of (enqueue_cancel_losers c w im) = env_of im"
  "cs_compilations (im_state (enqueue_cancel_losers c w im)) = cs_compilations (im_state im)"
  "cs_attempts (im_state (enqueue_cancel_losers c w im)) = cs_attempts (im_state im)"
  "cs_workers (im_state (enqueue_cancel_losers c w im)) = cs_workers (im_state im)"
  "cs_sessions (im_state (enqueue_cancel_losers c w im)) = cs_sessions (im_state im)"
  "cs_leases (im_state (enqueue_cancel_losers c w im)) = cs_leases (im_state im)"
  "cs_jobs (im_state (enqueue_cancel_losers c w im)) = cs_jobs (im_state im)"
  "cache_of (enqueue_cancel_losers c w im) = cache_of im"
  by (simp_all add: enqueue_cancel_losers_def)

lemma revoke_leases_for_frame [simp]:
  "ledger_of (revoke_leases_for w r im) = ledger_of im"
  "env_of (revoke_leases_for w r im) = env_of im"
  "cs_compilations (im_state (revoke_leases_for w r im)) = cs_compilations (im_state im)"
  "cs_attempts (im_state (revoke_leases_for w r im)) = cs_attempts (im_state im)"
  "cs_workers (im_state (revoke_leases_for w r im)) = cs_workers (im_state im)"
  "cs_sessions (im_state (revoke_leases_for w r im)) = cs_sessions (im_state im)"
  "cs_jobs (im_state (revoke_leases_for w r im)) = cs_jobs (im_state im)"
  "cache_of (revoke_leases_for w r im) = cache_of im"
  "cs_controls (im_state (revoke_leases_for w r im)) = cs_controls (im_state im)"
  by (simp_all add: revoke_leases_for_def table_defs view_defs)

lemma fence_worker_frame [simp]:
  "ledger_of (snd (fence_worker k w r im)) = ledger_of im"
  "env_of (snd (fence_worker k w r im)) = env_of im"
  "cs_compilations (im_state (snd (fence_worker k w r im))) = cs_compilations (im_state im)"
  "cs_attempts (im_state (snd (fence_worker k w r im))) = cs_attempts (im_state im)"
  "cs_sessions (im_state (snd (fence_worker k w r im))) = cs_sessions (im_state im)"
  "cs_jobs (im_state (snd (fence_worker k w r im))) = cs_jobs (im_state im)"
  "cache_of (snd (fence_worker k w r im)) = cache_of im"
  "cs_controls (im_state (snd (fence_worker k w r im))) = cs_controls (im_state im)"
  by (simp_all add: fence_worker_def Let_def)


text \<open>Without persistence every record is accepted and nothing changes.\<close>

lemma persist_off: "\<not> cg_enable_persistence (nv_config (env_of im)) \<Longrightarrow> persist p im = (success, im)"
  by (simp add: persist_def env_of_def)

section \<open>What the helpers promise\<close>


lemma transition_attempt_cases:
  assumes "transition_attempt a next = (st, a')"
  shows "st_ok st \<and> a' = a\<lparr>ca_state := next\<rparr> \<and> (ca_state a = next \<or> is_legal_transition (ca_state a) next)
    \<or> \<not> st_ok st \<and> st_code st = Err_IllegalTransition \<and> a' = a"
  using assms by (auto simp: transition_attempt_def split: if_splits)

subsection \<open>Fencing\<close>

lemma fenced_record_simps [simp]:
  "wk_fenced (fenced_record w)" "\<not> wk_ready (fenced_record w)" "wk_id (fenced_record w) = wk_id w"
  "wk_boot (fenced_record w) = wk_boot w" "wk_in_flight (fenced_record w) = 0"
  "wk_session (fenced_record w) = Ident 0" "wk_active_leases (fenced_record w) = []"
  "wk_generation (fenced_record w) = gen_next (wk_generation w)"
  by (simp_all add: fenced_record_def mark_capabilities_unknown_def Let_def split: sum.split)

lemma revoke_leases_for_find:
  "om_find (cs_leases (im_state (revoke_leases_for w r im))) k = map_option
     (\<lambda>l. if cl_worker l \<noteq> w \<or> cl_revoked l then l else l\<lparr>cl_revoked := True, cl_revocation_reason := r\<rparr>)
     (om_find (cs_leases (im_state im)) k)"
  by (simp add: revoke_leases_for_def table_defs)

lemma revoke_leases_revokes:
  assumes "om_find (cs_leases (im_state (revoke_leases_for w r im))) k = Some l" and "cl_worker l = w"
  shows "cl_revoked l"
proof -
  from assms(1) obtain l0 where
    "l = (if cl_worker l0 \<noteq> w \<or> cl_revoked l0 then l0
          else l0\<lparr>cl_revoked := True, cl_revocation_reason := r\<rparr>)"
    by (auto simp: revoke_leases_for_find)
  with assms(2) show ?thesis by (cases l0; cases l) (auto split: if_splits)
qed

text \<open>
  Fencing a worker takes everything away from it at once: its record is fenced, not
  ready and without session, it has a new generation, no requirement whatever makes it
  eligible again, and every lease it holds is revoked, while other workers' records are
  as they were.
\<close>

theorem fence_worker_complete:
  "let (w', im') = fence_worker k w reason im in
   om_find (cs_workers (im_state im')) k = Some w' \<and> wk_fenced w' \<and> \<not> wk_ready w'
   \<and> wk_session w' = Ident 0 \<and> wk_generation w' = gen_next (wk_generation w)
   \<and> (\<forall>req. ed_reason (evaluate_eligibility w' req) = IR_WorkerFenced)
   \<and> (\<forall>i l. om_find (cs_leases (im_state im')) i = Some l \<longrightarrow> cl_worker l = wk_id w \<longrightarrow> cl_revoked l)
   \<and> (\<forall>i. i \<noteq> k \<longrightarrow> om_find (cs_workers (im_state im')) i = om_find (cs_workers (im_state im)) i)"
proof -
  have workers: "cs_workers (im_state (snd (fence_worker k w reason im)))
      = om_put k (fenced_record w) (cs_workers (im_state im))"
    by (simp add: fence_worker_def Let_def)
  have leases: "cl_revoked l" if "om_find (cs_leases (im_state (snd (fence_worker k w reason im)))) i = Some l"
    "cl_worker l = wk_id w" for i l
    using that revoke_leases_revokes by (fastforce simp: fence_worker_def Let_def)
  have "ed_reason (evaluate_eligibility (fenced_record w) req) = IR_WorkerFenced" for req
    by (simp add: evaluate_eligibility_def Let_def)
  then show ?thesis
    using workers leases by (auto simp: fence_worker_def Let_def)
qed

subsection \<open>The blob cache\<close>

text \<open>
  The cache in front of the blob store: every blob is under its own digest, the order lists
  each cached digest once, and the byte count is the sum of the sizes, within the limit.
\<close>

definition blob_total :: "(digest256, bytes) omap \<Rightarrow> nat" where
  "blob_total cache = sum_list (map (length \<circ> snd) cache)"

definition cache_consistent ::
    "digest256 list \<Rightarrow> (digest256, bytes) omap \<Rightarrow> u64 \<Rightarrow> bool" where
  "cache_consistent order cache used \<longleftrightarrow>
     distinct order \<and> distinct (map fst cache) \<and> set order = fst ` set cache
     \<and> blob_total cache < 2 ^ 64 \<and> used = of_nat (blob_total cache)
     \<and> (\<forall>(d, bs) \<in> set cache. sha256 bs = d)"

definition blob_cache_ok :: "impl \<Rightarrow> bool" where
  "blob_cache_ok im \<longleftrightarrow>
     cache_consistent (im_blob_cache_order im) (im_blob_cache im) (im_blob_cache_bytes im)
     \<and> im_blob_cache_bytes im \<le> im_blob_cache_limit im \<and> im_blob_cache_limit im < 2 ^ 62"

lemma blob_total_erase:
  "distinct (map fst m) \<Longrightarrow> om_find m d = Some bs \<Longrightarrow> blob_total m = blob_total (om_erase d m) + length bs"
proof (induction m)
  case (Cons e m)
  show ?case
  proof (cases "fst e = d")
    case True
    with Cons.prems have "d \<notin> fst ` set m" "snd e = bs" by auto
    then have "om_erase d m = m" by (auto simp: om_erase_def filter_id_conv)
    with True \<open>snd e = bs\<close> show ?thesis by (simp add: om_erase_def blob_total_def)
  next
    case False
    with Cons show ?thesis by (auto simp: om_erase_def blob_total_def split: if_splits)
  qed
qed simp

lemma om_put_fresh:
  "k \<notin> fst ` set m \<Longrightarrow> distinct (map fst m) \<Longrightarrow> distinct (map fst (om_put k v m))
     \<and> set (om_put k v m) = insert (k, v) (set m)
     \<and> mset (om_put k v m) = add_mset (k, v) (mset m)"
  by (induction m) auto

lemma blob_total_put:
  "d \<notin> fst ` set m \<Longrightarrow> distinct (map fst m) \<Longrightarrow> blob_total (om_put d bs m) = blob_total m + length bs"
proof -
  assume a: "d \<notin> fst ` set m" "distinct (map fst m)"
  have "blob_total x = sum_mset (image_mset (length \<circ> snd) (mset x))" for x
    by (metis blob_total_def mset_map sum_mset_sum_list)
  then show ?thesis using om_put_fresh [OF a, of bs] by simp
qed

lemma evict_consistent:
  assumes "cache_consistent order cache used" "evict_blobs limit order cache used = (order', cache', used')"
  shows "cache_consistent order' cache' used' \<and> used' \<le> limit"
  using assms
proof (induction limit order cache used rule: evict_blobs.induct)
  case (1 limit cache used)
  then have "cache = []" by (simp add: cache_consistent_def)
  with 1 show ?case by (simp add: cache_consistent_def blob_total_def)
next
  case (2 limit victim order cache used)
  show ?case
  proof (cases "used > limit")
    case True
    from 2(3) have c: "distinct (victim # order)" "distinct (map fst cache)"
      "set (victim # order) = fst ` set cache" "blob_total cache < 2 ^ 64"
      "used = of_nat (blob_total cache)" "\<forall>(d, bs) \<in> set cache. sha256 bs = d"
      by (auto simp: cache_consistent_def)
    then have "om_find cache victim \<noteq> None" by (auto simp: map_of_eq_None_iff)
    then obtain bs where bs: "om_find cache victim = Some bs" by blast
    have total: "blob_total cache = blob_total (om_erase victim cache) + length bs"
      by (rule blob_total_erase [OF c(2) bs])
    have erase: "set (om_erase victim cache) = {e \<in> set cache. fst e \<noteq> victim}"
      "distinct (map fst (om_erase victim cache))"
      using c(2) by (auto simp: om_erase_def distinct_map_filter)
    have "set order = fst ` set (om_erase victim cache)"
      using c(1,3) by (auto simp: erase)
    with c total erase have "cache_consistent order (om_erase victim cache) (used - of_nat (length bs))"
      by (auto simp: cache_consistent_def)
    with 2(2) [OF True bs] 2(4) True bs show ?thesis by simp
  next
    case False
    with 2 show ?thesis by auto
  qed
qed

lemma cache_blob_ok:
  assumes ok: "blob_cache_ok im" and "om_find (im_blob_cache im) d = None" and "sha256 bs = d"
  shows "blob_cache_ok (cache_blob d bs im)"
proof (cases "length bs \<le> unat (im_blob_cache_limit im)")
  case True
  obtain order cache used where e:
    "evict_blobs (im_blob_cache_limit im) (im_blob_cache_order im @ [d])
       (om_put d bs (im_blob_cache im)) (im_blob_cache_bytes im + of_nat (length bs)) = (order, cache, used)"
    by (metis prod_cases3)
  let ?m = "im_blob_cache im"
  have d: "d \<notin> fst ` set ?m" using assms(2) by (simp add: map_of_eq_None_iff)
  from ok have c: "distinct (im_blob_cache_order im)" "distinct (map fst ?m)"
    "set (im_blob_cache_order im) = fst ` set ?m" "blob_total ?m < 2 ^ 64"
    "im_blob_cache_bytes im = of_nat (blob_total ?m)" "\<forall>(d, bs) \<in> set ?m. sha256 bs = d"
    "im_blob_cache_bytes im \<le> im_blob_cache_limit im" "im_blob_cache_limit im < 2 ^ 62"
    by (auto simp: blob_cache_ok_def cache_consistent_def)
  have "unat (im_blob_cache_bytes im) = blob_total ?m" using c(4,5) by (simp add: unat_of_nat)
  then have "blob_total ?m \<le> unat (im_blob_cache_limit im)" using c(7) by (simp add: word_le_nat_alt)
  moreover have "unat (im_blob_cache_limit im) < 2 ^ 62" using c(8) by (simp add: word_less_nat_alt)
  ultimately have "blob_total (om_put d bs ?m) < 2 ^ 64"
    using True by (simp add: blob_total_put [OF d c(2)])
  then have "cache_consistent (im_blob_cache_order im @ [d]) (om_put d bs ?m)
      (im_blob_cache_bytes im + of_nat (length bs))"
    using c d om_put_fresh [OF d c(2), of bs] assms(3)
    by (auto simp: cache_consistent_def blob_total_put)
  from evict_consistent [OF this e] c(8) True show ?thesis
    by (simp add: cache_blob_def e blob_cache_ok_def)
qed (use ok in \<open>simp add: cache_blob_def\<close>)

lemma blob_cache_ok_store [simp]: "blob_cache_ok (im\<lparr>im_store := ps\<rparr>) = blob_cache_ok im"
  by (simp add: blob_cache_ok_def)

lemma store_blob_cache_ok: "blob_cache_ok im \<Longrightarrow> blob_cache_ok (snd (store_blob bs im))"
  by (auto simp: store_blob_def Let_def cache_blob_ok split: prod.splits if_splits)

lemma blob_cache_find: "blob_cache_ok im \<Longrightarrow> om_find (im_blob_cache im) d = Some bs \<Longrightarrow> sha256 bs = d"
  by (auto simp: blob_cache_ok_def cache_consistent_def dest: map_of_SomeD)

text \<open>
  What the coordinator reads back under a digest has that digest, even if the file on
  disk was tampered with, and neither reading nor storing lets the in-memory cache
  outgrow its limit or lose count of its bytes.
\<close>

theorem blob_integrity:
  assumes "blob_cache_ok im"
  shows "blob_cache_ok (snd (store_blob bs im)) \<and> blob_cache_ok (snd (load_blob d im))
    \<and> (\<forall>out. fst (load_blob d im) = Inr out \<longrightarrow> sha256 out = d)"
proof (intro conjI allI impI)
  show "blob_cache_ok (snd (store_blob bs im))" using assms by (rule store_blob_cache_ok)
  have disk: "store_get_blob d (im_store im) = Inr out \<Longrightarrow> sha256 out = d" for out
    by (auto simp: store_get_blob_def split: option.splits if_splits)
  then show "blob_cache_ok (snd (load_blob d im))"
    using assms by (auto simp: load_blob_def cache_blob_ok split: option.splits sum.splits if_splits)
  show "sha256 out = d" if "fst (load_blob d im) = Inr out" for out
    using that disk blob_cache_find [OF assms, of d]
    by (auto simp: load_blob_def split: option.splits sum.splits if_splits)
qed

text \<open>A freshly opened coordinator without persistence, for the witnesses.\<close>

definition sample_config :: coordinator_config where
  "sample_config = \<lparr>cg_enable_persistence = False, cg_max_bundle_bytes = 268435456,
     cg_max_blob_bytes = 134217728, cg_max_artifact_bytes = 134217728, cg_max_units = 4096,
     cg_max_workers = 4096, cg_max_inflight_per_worker = 8, cg_max_attempts_hard_cap = 16,
     cg_snapshot_every_records = 16384, cg_max_compile_millis = 600000\<rparr>"

definition sample_impl :: impl where
  "sample_impl = \<lparr>im_config = sample_config, im_now = 1700000000000,
     im_state = initial_state\<lparr>cs_header := initial_header\<lparr>hd_epoch := Gen 1, hd_restarts := 1\<rparr>\<rparr>,
     im_store = \<lparr>ps_open = False, ps_seq = 0, ps_journal = [], ps_snapshot = None, ps_blobs = [],
       ps_faults = []\<rparr>,
     im_opened = True, im_persisted_records = 0, im_blob_cache = [], im_blob_cache_order = [],
     im_blob_cache_bytes = 0, im_blob_cache_limit = 67108864, im_retained_order = []\<rparr>"

lemma blob_integrity_witness:
  "let im = snd (store_blob [1] sample_impl) in blob_cache_ok im
     \<and> (\<exists>out. fst (load_blob (sha256 [1]) im) = Inr out \<and> sha256 out = sha256 [1])"
proof -
  let ?im = "snd (store_blob [1] sample_impl)"
  have ok: "blob_cache_ok sample_impl"
    by (simp add: blob_cache_ok_def cache_consistent_def sample_impl_def blob_total_def)
  then have ok': "blob_cache_ok ?im" using blob_integrity by blast
  have "om_find (im_blob_cache ?im) (sha256 [1]) = Some [1]"
    by (simp add: store_blob_def cache_blob_def sample_impl_def sample_config_def Let_def)
  then have "fst (load_blob (sha256 [1]) ?im) = Inr [1]" by (simp add: load_blob_def)
  with blob_integrity [OF ok', of "[]" "sha256 [1]"] ok' show ?thesis by (auto simp: Let_def)
qed

end
