(* ===== verification/DC_Ledger.thy ===== *)
theory DC_Ledger
  imports DC_Impl
begin

text \<open>
  The abstract specification of the coordinator's authority: a ledger of commits with the
  validation and provenance records that justify them, and the relation "this commit is the
  authoritative one of that compilation".  The only moves are to seal a new commit for a
  compilation without live authority, to mark an authoritative commit as superseded, and
  to withdraw a superseded one.  The theory proves once what every ledger reachable by
  these moves satisfies; the component theories show that the coordinator's operations are
  such moves.
\<close>

section \<open>Moves\<close>

text \<open>The commit a compilation is bound to, as \<^verbatim>\<open>commit_locked\<close> looks for it.\<close>

definition ledger_prior :: "ledger \<Rightarrow> compilation_id \<Rightarrow> artifact_commit option" where
  "ledger_prior l c =
     (case om_find (lg_authoritative l) c of
        None \<Rightarrow> None
      | Some m \<Rightarrow>
         (case om_find (lg_commits l) m of
            None \<Rightarrow> None
          | Some k \<Rightarrow> if ac_superseded k then None else Some k))"

text \<open>What a commit rests on.\<close>

definition backed_by :: "artifact_commit \<Rightarrow> validation_report \<Rightarrow> provenance \<Rightarrow> bool" where
  "backed_by k v p \<longleftrightarrow> vp_aggregate v = VO_Pass \<and> ac_validation k = vp_id v \<and> ac_provenance k = pv_id p
     \<and> pv_validation p = vp_id v \<and> pv_compilation p = ac_compilation k
     \<and> pv_attempt p = ac_attempt k \<and> pv_worker p = ac_worker k \<and> pv_worker_boot p = ac_worker_boot k
     \<and> pv_epoch p = ac_epoch k
     \<and> rf_digest (pv_artifact p) = ac_artifact_digest k \<and> \<not> digest_is_zero (ac_artifact_digest k)"

definition fresh_commit :: "ledger \<Rightarrow> validation_report \<Rightarrow> provenance \<Rightarrow> artifact_commit \<Rightarrow> bool" where
  "fresh_commit l v p k \<longleftrightarrow> backed_by k v p \<and> \<not> ac_superseded k
     \<and> vp_id v = Ident (lg_next_validation l) \<and> pv_id p = Ident (lg_next_provenance l)
     \<and> ac_id k = Ident (lg_next_commit l)"

definition seal :: "validation_report \<Rightarrow> provenance \<Rightarrow> artifact_commit \<Rightarrow> ledger \<Rightarrow> ledger" where
  "seal v p k l = l\<lparr>
     lg_commits := om_put (ac_id k) k (lg_commits l),
     lg_authoritative := om_put (ac_compilation k) (ac_id k) (lg_authoritative l),
     lg_provenances := om_put (pv_id p) p (lg_provenances l),
     lg_validations := om_put (vp_id v) v (lg_validations l),
     lg_next_commit := lg_next_commit l + 1, lg_next_provenance := lg_next_provenance l + 1,
     lg_next_validation := lg_next_validation l + 1\<rparr>"

definition supersede :: "commit_id \<Rightarrow> artifact_commit \<Rightarrow> ledger \<Rightarrow> ledger" where
  "supersede m k l = l\<lparr>lg_commits := om_put m (k\<lparr>ac_superseded := True\<rparr>) (lg_commits l)\<rparr>"

definition withdraw :: "compilation_id \<Rightarrow> ledger \<Rightarrow> ledger" where
  "withdraw c l = l\<lparr>lg_authoritative := om_erase c (lg_authoritative l)\<rparr>"

text \<open>\<^verbatim>\<open>ledger_run n\<close> is a sequence of moves with \<^verbatim>\<open>n\<close> new commits.\<close>

inductive ledger_run :: "nat \<Rightarrow> ledger \<Rightarrow> ledger \<Rightarrow> bool" where
  stay: "ledger_run 0 l l"
| commit: "ledger_run n l0 l \<Longrightarrow> ledger_prior l (ac_compilation k) = None \<Longrightarrow> fresh_commit l v p k
    \<Longrightarrow> ledger_run (Suc n) l0 (seal v p k l)"
| mark: "ledger_run n l0 l \<Longrightarrow> om_find (lg_authoritative l) c = Some m
    \<Longrightarrow> om_find (lg_commits l) m = Some k \<Longrightarrow> ledger_run n l0 (supersede m k l)"
| erase: "ledger_run n l0 l \<Longrightarrow> om_find (lg_authoritative l) c = Some m
    \<Longrightarrow> (\<And>k. om_find (lg_commits l) m = Some k \<Longrightarrow> ac_superseded k)
    \<Longrightarrow> ledger_run n l0 (withdraw c l)"

inductive_cases ledger_run_SucE: "ledger_run (Suc n) l0 l"

lemma ledger_run_trans: "ledger_run n b c \<Longrightarrow> ledger_run m a b \<Longrightarrow> ledger_run (m + n) a c"
proof (induction rule: ledger_run.induct)
  case (erase n l0 l c m')
  then show ?case by (meson ledger_run.erase)
qed (auto intro: ledger_run.intros)

lemma ledger_run_same: "l' = l \<Longrightarrow> ledger_run 0 l l'"
  by (simp add: ledger_run.stay)

section \<open>The invariant\<close>

definition sealed :: "ledger \<Rightarrow> commit_id \<Rightarrow> artifact_commit \<Rightarrow> bool" where
  "sealed l m k \<longleftrightarrow> ac_id k = m
     \<and> (\<exists>v p. om_find (lg_validations l) (ac_validation k) = Some v
            \<and> om_find (lg_provenances l) (ac_provenance k) = Some p \<and> backed_by k v p)"

definition ids_below :: "('t ident, 'v) omap \<Rightarrow> u64 \<Rightarrow> bool" where
  "ids_below m n \<longleftrightarrow> (\<forall>i v. om_find m i = Some v \<longrightarrow> id_value i < n)"

definition ledger_ok :: "ledger \<Rightarrow> bool" where
  "ledger_ok l \<longleftrightarrow>
     (\<forall>m k. om_find (lg_commits l) m = Some k \<longrightarrow> sealed l m k
        \<and> (\<not> ac_superseded k \<longrightarrow> om_find (lg_authoritative l) (ac_compilation k) = Some m))
     \<and> (\<forall>c m. om_find (lg_authoritative l) c = Some m \<longrightarrow>
          (\<exists>k. om_find (lg_commits l) m = Some k \<and> ac_compilation k = c))
     \<and> ids_below (lg_commits l) (lg_next_commit l)
     \<and> ids_below (lg_provenances l) (lg_next_provenance l)
     \<and> ids_below (lg_validations l) (lg_next_validation l)"

lemma ledger_ok_sealed: "ledger_ok l \<Longrightarrow> om_find (lg_commits l) m = Some k \<Longrightarrow> sealed l m k"
  by (simp add: ledger_ok_def)

lemma ledger_ok_live:
  "ledger_ok l \<Longrightarrow> om_find (lg_commits l) m = Some k \<Longrightarrow> \<not> ac_superseded k
     \<Longrightarrow> om_find (lg_authoritative l) (ac_compilation k) = Some m"
  by (simp add: ledger_ok_def)

lemma ledger_ok_bound:
  "ledger_ok l \<Longrightarrow> om_find (lg_authoritative l) c = Some m
     \<Longrightarrow> \<exists>k. om_find (lg_commits l) m = Some k \<and> ac_compilation k = c"
  by (simp add: ledger_ok_def)

lemma ledger_ok_ids:
  "ledger_ok l \<Longrightarrow> ids_below (lg_commits l) (lg_next_commit l)
     \<and> ids_below (lg_provenances l) (lg_next_provenance l)
     \<and> ids_below (lg_validations l) (lg_next_validation l)"
  by (simp add: ledger_ok_def)

text \<open>Counters that have moved at most \<^verbatim>\<open>n\<close> times have not wrapped.\<close>

definition counters_within :: "nat \<Rightarrow> ledger \<Rightarrow> bool" where
  "counters_within n l \<longleftrightarrow> unat (lg_next_commit l) \<le> Suc n \<and> unat (lg_next_provenance l) \<le> Suc n
     \<and> unat (lg_next_validation l) \<le> Suc n"

lemma ids_below_put:
  "ids_below m n \<Longrightarrow> unat n < 2 ^ 64 - 1 \<Longrightarrow> ids_below (om_put (Ident n) v m) (n + 1)"
proof -
  assume below: "ids_below m n" and room: "unat n < 2 ^ 64 - 1"
  then have "n < n + 1" by (simp add: word_less_nat_alt unat_word_ariths)
  with below show ?thesis by (auto simp: ids_below_def dest: order.strict_trans)
qed

lemma ids_below_fresh: "ids_below m n \<Longrightarrow> om_find m (Ident n) = None"
  by (metis ids_below_def ident.sel not_Some_eq order_less_irrefl)

lemma counter_step: "unat (w :: u64) \<le> Suc n \<Longrightarrow> Suc n < 2 ^ 64 - 1 \<Longrightarrow> unat (w + 1) \<le> Suc (Suc n)"
  by (simp add: unat_word_ariths)

lemma seal_ok:
  assumes ok: "ledger_ok l" and none: "ledger_prior l (ac_compilation k) = None"
    and fresh: "fresh_commit l v p k" and within: "counters_within n l" "Suc n < 2 ^ 64 - 1"
  shows "ledger_ok (seal v p k l)"
proof -
  let ?l = "seal v p k l"
  have ids: "ac_id k = Ident (lg_next_commit l)" "pv_id p = Ident (lg_next_provenance l)"
    "vp_id v = Ident (lg_next_validation l)" and bk: "backed_by k v p"
    using fresh by (auto simp: fresh_commit_def)
  have below: "ids_below (lg_commits l) (lg_next_commit l)"
    "ids_below (lg_provenances l) (lg_next_provenance l)"
    "ids_below (lg_validations l) (lg_next_validation l)"
    using ok by (auto simp: ledger_ok_def)
  note free = below [THEN ids_below_fresh]
  have old: "sealed ?l m k'" if "om_find (lg_commits l) m = Some k'" for m k'
  proof -
    from ok that have "sealed l m k'" by (auto simp: ledger_ok_def)
    then show ?thesis using free ids by (auto simp: sealed_def seal_def)
  qed
  have new: "sealed ?l (ac_id k) k"
    using bk by (auto simp: sealed_def seal_def backed_by_def)
  have live: "ac_superseded k'"
    if "om_find (lg_commits l) m = Some k'" "ac_compilation k' = ac_compilation k" for m k'
  proof (rule ccontr)
    assume "\<not> ac_superseded k'"
    with ok that have "om_find (lg_authoritative l) (ac_compilation k) = Some m"
      by (metis ledger_ok_live)
    with that \<open>\<not> ac_superseded k'\<close> none show False by (simp add: ledger_prior_def)
  qed
  have auth: "om_find (lg_authoritative l) (ac_compilation k') = Some m"
    if "om_find (lg_commits l) m = Some k'" "\<not> ac_superseded k'" for m k'
    using ok that by (auto simp: ledger_ok_def)
  have bound: "\<exists>k'. om_find (lg_commits l) m = Some k' \<and> ac_compilation k' = c"
    if "om_find (lg_authoritative l) c = Some m" for c m
    using ok that by (auto simp: ledger_ok_def)
  have counters: "ids_below (lg_commits ?l) (lg_next_commit ?l)"
    "ids_below (lg_provenances ?l) (lg_next_provenance ?l)"
    "ids_below (lg_validations ?l) (lg_next_validation ?l)"
    using below within ids by (auto simp: seal_def counters_within_def intro!: ids_below_put)
  show ?thesis
    unfolding ledger_ok_def
  proof (intro conjI allI impI counters)
    fix m k' assume "om_find (lg_commits ?l) m = Some k'"
    then have split: "m = ac_id k \<and> k' = k \<or> m \<noteq> ac_id k \<and> om_find (lg_commits l) m = Some k'"
      by (auto simp: seal_def split: if_splits)
    then show "sealed ?l m k'" using old new by auto
    assume "\<not> ac_superseded k'"
    with split auth live show "om_find (lg_authoritative ?l) (ac_compilation k') = Some m"
      by (auto simp: seal_def)
  next
    fix c m assume "om_find (lg_authoritative ?l) c = Some m"
    then have split: "c = ac_compilation k \<and> m = ac_id k \<or> c \<noteq> ac_compilation k
        \<and> om_find (lg_authoritative l) c = Some m"
      by (auto simp: seal_def split: if_splits)
    then show "\<exists>k'. om_find (lg_commits ?l) m = Some k' \<and> ac_compilation k' = c"
      using bound [of c m] free(1) ids(1) by (auto simp: seal_def)
  qed
qed

lemma backed_by_superseded [simp]: "backed_by (k\<lparr>ac_superseded := b\<rparr>) v p = backed_by k v p"
  by (simp add: backed_by_def)

lemma sealed_cong:
  "lg_validations l' = lg_validations l \<Longrightarrow> lg_provenances l' = lg_provenances l
     \<Longrightarrow> sealed l' m k = sealed l m k"
  by (simp add: sealed_def)

lemma supersede_ok:
  assumes ok: "ledger_ok l" and k: "om_find (lg_commits l) m = Some k"
  shows "ledger_ok (supersede m k l)"
proof -
  have seal: "sealed (supersede m k l) m' k' = sealed l m' k'" for m' k'
    by (rule sealed_cong) (simp_all add: supersede_def)
  have "sealed l m (k\<lparr>ac_superseded := True\<rparr>)"
    using ok k by (auto simp: ledger_ok_def sealed_def)
  moreover have "ids_below (om_put m k' (lg_commits l)) (lg_next_commit l)" for k'
    using ok k by (auto simp: ledger_ok_def ids_below_def)
  moreover have "\<exists>k'. om_find (lg_commits (supersede m k l)) m' = Some k' \<and> ac_compilation k' = c"
    if "om_find (lg_authoritative l) c = Some m'" for c m'
  proof -
    from ledger_ok_bound [OF ok that] obtain k0
      where "om_find (lg_commits l) m' = Some k0" "ac_compilation k0 = c" by blast
    with k show ?thesis by (cases "m' = m") (auto simp: supersede_def)
  qed
  ultimately show ?thesis
    using ok unfolding ledger_ok_def seal by (simp add: supersede_def)
qed

lemma withdraw_ok:
  assumes ok: "ledger_ok l" and c: "om_find (lg_authoritative l) c = Some m"
    and k: "\<And>k. om_find (lg_commits l) m = Some k \<Longrightarrow> ac_superseded k"
  shows "ledger_ok (withdraw c l)"
proof -
  have seal: "sealed (withdraw c l) m' k' = sealed l m' k'" for m' k'
    by (rule sealed_cong) (simp_all add: withdraw_def)
  have other: "ac_compilation k' \<noteq> c" if "om_find (lg_commits l) m' = Some k'" "\<not> ac_superseded k'" for m' k'
    using ok c k that by (auto simp: ledger_ok_def)
  show ?thesis
    using ok other unfolding ledger_ok_def seal by (auto simp: withdraw_def)
qed

lemma ledger_run_ok:
  assumes "ledger_run n l0 l" "ledger_ok l0" "counters_within j l0" "j + n < 2 ^ 64 - 1"
  shows "ledger_ok l \<and> counters_within (j + n) l"
  using assms
proof (induction rule: ledger_run.induct)
  case (commit n l0 l k v p)
  then have IH: "ledger_ok l" "counters_within (j + n) l" by auto
  with commit have "counters_within (j + Suc n) (seal v p k l)"
    by (auto simp: counters_within_def seal_def intro!: counter_step)
  moreover have "Suc (j + n) < 2 ^ 64 - 1" using commit.prems by simp
  ultimately show ?case using seal_ok [OF IH(1) commit.hyps(2,3) IH(2)] by simp
next
  case (mark n l0 l c m k)
  then show ?case using supersede_ok by (auto simp: counters_within_def supersede_def)
next
  case (erase n l0 l c m)
  then show ?case using withdraw_ok [of l c m] by (auto simp: counters_within_def withdraw_def)
qed auto

text \<open>No move takes a commit away, and no move changes one beyond marking it superseded.\<close>

lemma ledger_run_keeps_commits:
  assumes "ledger_run n l0 l" "ledger_ok l0" "counters_within j l0" "j + n < 2 ^ 64 - 1"
    "om_find (lg_commits l0) m = Some k"
  shows "\<exists>b. om_find (lg_commits l) m = Some (k\<lparr>ac_superseded := b\<rparr>) \<and> (ac_superseded k \<longrightarrow> b)"
  using assms
proof (induction rule: ledger_run.induct)
  case (stay l)
  then show ?case by (intro exI [of _ "ac_superseded k"]) simp
next
  case (commit n l0 l k' v p)
  then obtain b where b: "om_find (lg_commits l) m = Some (k\<lparr>ac_superseded := b\<rparr>)"
    "ac_superseded k \<longrightarrow> b" by auto
  have "ledger_ok l" using ledger_run_ok [OF commit.hyps(1)] commit.prems by simp
  then have "om_find (lg_commits l) (ac_id k') = None"
    using commit.hyps(3) ids_below_fresh by (auto simp: ledger_ok_def fresh_commit_def)
  with b have "m \<noteq> ac_id k'" by auto
  with b show ?case by (auto simp: seal_def)
next
  case (mark n l0 l c m' k')
  then obtain b where b: "om_find (lg_commits l) m = Some (k\<lparr>ac_superseded := b\<rparr>)"
    "ac_superseded k \<longrightarrow> b" by auto
  show ?case
  proof (cases "m = m'")
    case True
    with b mark.hyps(3) show ?thesis by (intro exI [of _ True]) (auto simp: supersede_def)
  next
    case False
    with b show ?thesis by (auto simp: supersede_def)
  qed
next
  case (erase n l0 l c m')
  then show ?case by (auto simp: withdraw_def)
qed

text \<open>Two live commits never stand for one compilation.\<close>

lemma ledger_ok_unique:
  "ledger_ok l \<Longrightarrow> om_find (lg_commits l) m = Some k \<Longrightarrow> om_find (lg_commits l) m' = Some k'
     \<Longrightarrow> ac_compilation k = ac_compilation k' \<Longrightarrow> \<not> ac_superseded k \<Longrightarrow> \<not> ac_superseded k' \<Longrightarrow> m = m'"
  unfolding ledger_ok_def by (metis option.inject)

lemma initial_ledger: "ledger_ok (ledger_of im) \<and> counters_within 0 (ledger_of im)"
  if "im_state im = initial_state\<lparr>cs_header := h\<rparr>" "hd_next_commit_id h = 1" "hd_next_provenance_id h = 1"
    "hd_next_validation_id h = 1"
  using that by (simp add: ledger_of_def ledger_ok_def ids_below_def counters_within_def initial_state_def)

end
