(* ===== verification/DC_Schedule.thy ===== *)
theory DC_Schedule
  imports DC_Impl
begin

text \<open>
  Scheduling (\<^verbatim>\<open>src/coordinator_tx.cpp\<close>, lines 444 to 714): the readiness of a unit, the
  construction of an assignment with its attempt, lease and authority claim, the pump that
  walks the compilations, and the delivery of control messages.
\<close>

section \<open>Assignments\<close>

record assignment_source =
  sr_logical_name :: string
  sr_format :: input_format
  sr_language_mode :: string
  sr_bytes :: bytes

record assignment_dependency =
  dp_name :: string
  dp_kind :: dependency_kind
  dp_bytes :: bytes

record assignment_child =
  ch_logical_name :: string
  ch_kind :: output_kind
  ch_bytes :: bytes

record assignment =
  as_session :: session_id
  as_worker :: worker_id
  as_worker_boot :: boot_id
  as_worker_generation :: worker_gen
  as_lease :: compile_lease
  as_claim :: authority_claim
  as_compilation :: compilation_id
  as_compilation_generation :: compilation_gen
  as_unit :: unit_id
  as_unit_generation :: unit_gen
  as_attempt :: attempt_id
  as_attempt_generation :: attempt_gen
  as_unit_index :: u32
  as_kind :: unit_kind
  as_output_kind :: output_kind
  as_logical_name :: string
  as_sources :: "assignment_source list"
  as_dependencies :: "assignment_dependency list"
  as_flags :: "string list"
  as_children :: "assignment_child list"
  as_toolchain :: toolchain_identity
  as_target :: target_identity
  as_specialization :: specialization_spec
  as_policy :: compile_policy
  as_environment :: environment_contract
  as_validation :: validation_requirements
  as_max_compile_millis :: u64
  as_speculative :: bool

section \<open>Readiness\<close>

definition child_done :: "impl \<Rightarrow> job_record \<Rightarrow> u32 \<Rightarrow> bool" where
  "child_done im job child =
     (if unat child \<ge> length (jr_units job) then False
      else case find_compilation (jr_units job ! unat child) im of
        None \<Rightarrow> False
      | Some r \<Rightarrow> cr_state r = CS_Committed \<or> cr_state r = CS_CacheHit)"

definition unit_ready :: "impl \<Rightarrow> compilation_record \<Rightarrow> bool" where
  "unit_ready im c =
     (case find_request (cr_request_identity c) im of None \<Rightarrow> False | Some request \<Rightarrow>
      case find_unit request (cr_unit_index c) of None \<Rightarrow> False | Some u \<Rightarrow>
      if un_kind u \<noteq> UK_Link then True else
      case om_find (cs_jobs (im_state im)) (cr_request_identity c) of None \<Rightarrow> False | Some job \<Rightarrow>
      list_all (child_done im job) (un_child_units u))"

section \<open>Content of an assignment\<close>

text \<open>Every loop stops at the first blob that cannot be loaded (\<^verbatim>\<open>return std::nullopt\<close>).\<close>

fun load_sources :: "unit_source list \<Rightarrow> impl \<Rightarrow> assignment_source list option \<times> impl" where
  "load_sources [] im = (Some [], im)"
| "load_sources (s # ss) im =
     (case load_blob (rf_digest (us_content s)) im of
        (Inl _, im1) \<Rightarrow> (None, im1)
      | (Inr bs, im1) \<Rightarrow>
         (case load_sources ss im1 of
            (None, im2) \<Rightarrow> (None, im2)
          | (Some rest, im2) \<Rightarrow>
             (Some (\<lparr>sr_logical_name = us_logical_name s, sr_format = us_format s,
                     sr_language_mode = us_language_mode s, sr_bytes = bs\<rparr> # rest), im2)))"

fun load_dependencies :: "dependency_entry list \<Rightarrow> impl \<Rightarrow> assignment_dependency list option \<times> impl" where
  "load_dependencies [] im = (Some [], im)"
| "load_dependencies (d # ds) im =
     (case load_blob (rf_digest (de_content d)) im of
        (Inl _, im1) \<Rightarrow> (None, im1)
      | (Inr bs, im1) \<Rightarrow>
         (case load_dependencies ds im1 of
            (None, im2) \<Rightarrow> (None, im2)
          | (Some rest, im2) \<Rightarrow>
             (Some (\<lparr>dp_name = de_name d, dp_kind = de_kind d, dp_bytes = bs\<rparr> # rest), im2)))"

text \<open>The name under which a child's artifact is handed to the linker.\<close>

definition child_name :: "impl \<Rightarrow> compilation_record \<Rightarrow> string" where
  "child_name im r =
     (case find_request (cr_request_identity r) im of
        None \<Rightarrow> take 16 (digest_hex (cr_unit_identity r))
      | Some request \<Rightarrow>
         (case find_unit request (cr_unit_index r) of
            None \<Rightarrow> take 16 (digest_hex (cr_unit_identity r))
          | Some u \<Rightarrow> un_logical_name u))"

definition load_child :: "job_record \<Rightarrow> u32 \<Rightarrow> impl \<Rightarrow> assignment_child option \<times> impl" where
  "load_child job child im =
     (if unat child \<ge> length (jr_units job) then (None, im) else
      case find_compilation (jr_units job ! unat child) im of None \<Rightarrow> (None, im) | Some r \<Rightarrow>
      case om_find (cs_authoritative (im_state im)) (cr_id r) of None \<Rightarrow> (None, im) | Some m \<Rightarrow>
      case om_find (cs_commits (im_state im)) m of None \<Rightarrow> (None, im) | Some k \<Rightarrow>
      case load_blob (ac_artifact_digest k) im of
        (Inl _, im1) \<Rightarrow> (None, im1)
      | (Inr bs, im1) \<Rightarrow>
          (Some \<lparr>ch_logical_name = child_name im r,
                 ch_kind = (if gen_is_zero (ac_artifact_generation k) then OK_Object
                            else cr_output_kind r),
                 ch_bytes = bs\<rparr>, im1))"

fun load_children :: "job_record \<Rightarrow> u32 list \<Rightarrow> impl \<Rightarrow> assignment_child list option \<times> impl" where
  "load_children job [] im = (Some [], im)"
| "load_children job (c # cs) im =
     (case load_child job c im of
        (None, im1) \<Rightarrow> (None, im1)
      | (Some ch, im1) \<Rightarrow>
         (case load_children job cs im1 of
            (None, im2) \<Rightarrow> (None, im2)
          | (Some rest, im2) \<Rightarrow> (Some (ch # rest), im2)))"

definition load_link_inputs ::
    "compilation_record \<Rightarrow> compilation_unit_spec \<Rightarrow> impl \<Rightarrow> assignment_child list option \<times> impl" where
  "load_link_inputs c u im =
     (if un_kind u \<noteq> UK_Link then (Some [], im)
      else case om_find (cs_jobs (im_state im)) (cr_request_identity c) of
        None \<Rightarrow> (None, im)
      | Some job \<Rightarrow> load_children job (un_child_units u) im)"

section \<open>Building an assignment\<close>

definition new_attempt ::
    "impl \<Rightarrow> worker_record \<Rightarrow> compilation_record \<Rightarrow> attempt_id \<Rightarrow> lease_id \<Rightarrow> u32 \<Rightarrow> bool \<Rightarrow> compilation_attempt" where
  "new_attempt im w c attempt lease ordinal speculative =
     \<lparr>ca_id = attempt, ca_generation = Gen (ucast ordinal), ca_compilation = cr_id c,
      ca_compilation_generation = cr_generation c, ca_unit = cr_unit c, ca_worker = wk_id w,
      ca_worker_boot = wk_boot w, ca_worker_generation = wk_generation w, ca_lease = lease,
      ca_lease_generation = Gen (ucast ordinal), ca_epoch = hd_epoch (header im),
      ca_state = AS_Created, ca_ordinal = ordinal, ca_speculative = speculative,
      ca_created_at = im_now im, ca_started_at = 0, ca_finished_at = 0, ca_failure = Err_Ok,
      ca_failure_detail = [],
      ca_validation = \<lparr>vp_id = Ident 0, vp_checks = [], vp_aggregate = VO_Unknown, vp_summary = []\<rparr>,
      ca_candidate = no_content, ca_candidate_digest = 0, ca_artifact = Ident 0,
      ca_compiler_wall_millis = 0, ca_compiler_invocation = [], ca_compiler_version_string = []\<rparr>"

definition new_lease ::
    "impl \<Rightarrow> worker_record \<Rightarrow> compilation_record \<Rightarrow> attempt_id \<Rightarrow> lease_id \<Rightarrow> u32 \<Rightarrow> compile_lease" where
  "new_lease im w c attempt lease ordinal =
     \<lparr>cl_id = lease, cl_generation = Gen (ucast ordinal), cl_compilation = cr_id c,
      cl_compilation_generation = cr_generation c, cl_unit = cr_unit c, cl_attempt = attempt,
      cl_worker = wk_id w, cl_worker_boot = wk_boot w, cl_worker_generation = wk_generation w,
      cl_epoch = hd_epoch (header im), cl_issued_at = im_now im, cl_revoked = False,
      cl_revocation_reason = []\<rparr>"

definition new_claim ::
    "impl \<Rightarrow> worker_record \<Rightarrow> compilation_record \<Rightarrow> attempt_id \<Rightarrow> lease_id \<Rightarrow> u32 \<Rightarrow> authority_claim" where
  "new_claim im w c attempt lease ordinal =
     \<lparr>au_epoch = hd_epoch (header im), au_compilation = cr_id c,
      au_compilation_generation = cr_generation c, au_unit = cr_unit c,
      au_unit_generation = cr_unit_generation c, au_attempt = attempt,
      au_attempt_generation = Gen (ucast ordinal), au_worker = wk_id w, au_worker_boot = wk_boot w,
      au_worker_generation = wk_generation w, au_lease = lease,
      au_lease_generation = Gen (ucast ordinal), au_source_generation = cr_source_generation c,
      au_ir_generation = cr_ir_generation c, au_dependency_generation = cr_dependency_generation c,
      au_toolchain_generation = cr_toolchain_generation c,
      au_target_generation = cr_target_generation c,
      au_specialization_generation = cr_specialization_generation c,
      au_policy_generation = cr_policy_generation c,
      au_cache_generation = hd_cache_generation (header im),
      au_request_identity = cr_request_identity c, au_unit_identity = cr_unit_identity c\<rparr>"

text \<open>The live worker record gets the attempt; a missing one is left out.\<close>

definition charge_worker :: "worker_id \<Rightarrow> lease_id \<Rightarrow> impl \<Rightarrow> impl" where
  "charge_worker k lease im =
     (case find_worker k im of
        None \<Rightarrow> im
      | Some w \<Rightarrow> put_worker k (w\<lparr>wk_in_flight := wk_in_flight w + 1,
           wk_active_leases := wk_active_leases w @ [lease]\<rparr>) im)"

definition persist_worker :: "worker_id \<Rightarrow> impl \<Rightarrow> impl" where
  "persist_worker k im =
     (case find_worker k im of None \<Rightarrow> im | Some w \<Rightarrow> persist_void (JP_Worker w) im)"

text \<open>
  Everything after the content has been loaded: handles, attempt, lease, claim, the
  compilation moved to Assigned, the worker charged, and the four records persisted.
\<close>

definition issue_attempt ::
    "worker_record \<Rightarrow> compilation_id \<Rightarrow> compilation_record \<Rightarrow> bool \<Rightarrow> impl
      \<Rightarrow> (compile_lease \<times> authority_claim \<times> attempt_id \<times> attempt_gen) \<times> impl" where
  "issue_attempt w key c speculative im =
     (let ordinal = cr_attempt_ordinal_counter c + 1;
          attempt = Ident (hd_next_attempt_id (header im));
          lease = Ident (hd_next_lease_id (header im));
          im1 = upd_header (\<lambda>h. h\<lparr>hd_next_attempt_id := hd_next_attempt_id h + 1,
                                  hd_next_lease_id := hd_next_lease_id h + 1\<rparr>) im;
          a0 = new_attempt im1 w c attempt lease ordinal speculative;
          a = snd (transition_attempt (snd (transition_attempt a0 AS_Eligible)) AS_Assigned);
          l = new_lease im1 w c attempt lease ordinal;
          claim = new_claim im1 w c attempt lease ordinal;
          c1 = c\<lparr>cr_attempt_ordinal_counter := ordinal, cr_attempts := cr_attempts c @ [attempt],
                 cr_current_attempt := attempt, cr_state := CS_Assigned, cr_updated_at := im_now im1\<rparr>;
          im2 = put_compilation key c1 (put_attempt attempt a (put_lease lease l im1));
          im3 = charge_worker (wk_id w) lease im2;
          im4 = persist_void (JP_Compilation c1) (persist_void (JP_Attempt a) (persist_void (JP_Lease l) im3))
      in ((l, claim, attempt, ca_generation a), persist_worker (wk_id w) im4))"

definition build_assignment ::
    "worker_record \<Rightarrow> compilation_id \<Rightarrow> compilation_record \<Rightarrow> bool \<Rightarrow> impl \<Rightarrow> assignment option \<times> impl" where
  "build_assignment w key c speculative im =
    (case find_request (cr_request_identity c) im of None \<Rightarrow> (None, im) | Some request \<Rightarrow>
     case find_unit request (cr_unit_index c) of None \<Rightarrow> (None, im) | Some u \<Rightarrow>
     case load_sources (un_sources u) im of (None, im1) \<Rightarrow> (None, im1) | (Some srcs, im1) \<Rightarrow>
     case load_dependencies (un_dependencies u) im1 of (None, im2) \<Rightarrow> (None, im2) | (Some deps, im2) \<Rightarrow>
     case load_link_inputs c u im2 of (None, im3) \<Rightarrow> (None, im3) | (Some children, im3) \<Rightarrow>
     let ((lease, claim, attempt, generation), im4) = issue_attempt w key c speculative im3 in
     (Some \<lparr>as_session = wk_session w, as_worker = wk_id w, as_worker_boot = wk_boot w,
        as_worker_generation = wk_generation w, as_lease = lease, as_claim = claim,
        as_compilation = cr_id c, as_compilation_generation = cr_generation c,
        as_unit = cr_unit c, as_unit_generation = cr_unit_generation c, as_attempt = attempt,
        as_attempt_generation = generation, as_unit_index = un_index u, as_kind = un_kind u,
        as_output_kind = un_output_kind u, as_logical_name = un_logical_name u,
        as_sources = srcs, as_dependencies = deps, as_flags = un_flags u, as_children = children,
        as_toolchain = rq_toolchain request, as_target = rq_target request,
        as_specialization = rq_specialization request, as_policy = rq_policy request,
        as_environment = rq_environment request, as_validation = rq_validation request,
        as_max_compile_millis = cg_max_compile_millis (im_config im), as_speculative = speculative\<rparr>,
      im4))"

section \<open>The pump\<close>

definition attempt_in_flight :: "impl \<Rightarrow> compilation_record \<Rightarrow> bool" where
  "attempt_in_flight im c = list_ex (\<lambda>i. case find_attempt i im of
     None \<Rightarrow> False | Some a \<Rightarrow> holds_commit_authority (ca_state a)) (cr_attempts c)"

definition pick_ranked :: "worker_record list \<Rightarrow> ranked_worker \<Rightarrow> worker_record option" where
  "pick_ranked eligible r = List.find (\<lambda>w. wk_id w = rk_id r \<and> wk_boot w = rk_boot r) eligible"

definition speculate ::
    "compilation_id \<Rightarrow> worker_record list \<Rightarrow> ranked_worker list \<Rightarrow> impl \<Rightarrow> assignment list \<times> impl" where
  "speculate key eligible ranked im =
    (case find_compilation key im of None \<Rightarrow> ([], im) | Some c \<Rightarrow>
     case find_request (cr_request_identity c) im of None \<Rightarrow> ([], im) | Some request \<Rightarrow>
     if po_allow_speculative_duplication (rq_policy request) \<and> length ranked \<ge> 2 then
       (case pick_ranked eligible (ranked ! 1) of None \<Rightarrow> ([], im) | Some w \<Rightarrow>
        case build_assignment w key c True im of
          (None, im1) \<Rightarrow> ([], im1)
        | (Some a, im1) \<Rightarrow> ([a], im1))
     else ([], im))"

definition pump_one :: "compilation_id \<Rightarrow> impl \<Rightarrow> assignment list \<times> impl" where
  "pump_one key im =
    (case find_compilation key im of None \<Rightarrow> ([], im) | Some c \<Rightarrow>
     if cr_state c \<noteq> CS_Pending \<and> cr_state c \<noteq> CS_Eligible then ([], im)
     else if om_find (cs_authoritative (im_state im)) (cr_id c) \<noteq> None then ([], im)
     else if attempt_in_flight im c then ([], im)
     else if \<not> unit_ready im c then ([], put_compilation key (c\<lparr>cr_state := CS_Eligible\<rparr>) im)
     else
     let req = requirements_for im c; eligible = eligible_workers im req [] in
     if eligible = [] then
       ([], put_compilation key (c\<lparr>cr_state := CS_Eligible, cr_failure_detail := ''no eligible worker'',
              cr_failure := Err_NoEligibleWorker\<rparr>) im)
     else
     let ranked = rank_workers eligible req 0 in
     if ranked = [] then ([], put_compilation key (c\<lparr>cr_state := CS_Eligible\<rparr>) im)
     else case pick_ranked eligible (hd ranked) of None \<Rightarrow> ([], im) | Some w \<Rightarrow>
     case build_assignment w key c False im of
       (None, im1) \<Rightarrow> ([], im1)
     | (Some a, im1) \<Rightarrow>
        (let (more, im2) = speculate key eligible ranked im1 in (a # more, im2)))"

fun pump_keys :: "compilation_id list \<Rightarrow> impl \<Rightarrow> assignment list \<times> impl" where
  "pump_keys [] im = ([], im)"
| "pump_keys (k # ks) im =
     (let (out, im1) = pump_one k im; (rest, im2) = pump_keys ks im1 in (out @ rest, im2))"

definition pump :: "impl \<Rightarrow> assignment list \<times> impl" where
  "pump im = (if \<not> im_opened im then ([], im)
     else pump_keys (om_keys (cs_compilations (im_state im))) im)"

definition drain_controls :: "impl \<Rightarrow> control_message list \<times> impl" where
  "drain_controls im = (cs_controls (im_state im), upd_state (\<lambda>s. s\<lparr>cs_controls := []\<rparr>) im)"

section \<open>What scheduling leaves alone\<close>

lemma load_sources_frame [simp]:
  "ledger_of (snd (load_sources ss im)) = ledger_of im"
  "cs_compilations (im_state (snd (load_sources ss im))) = cs_compilations (im_state im)"
  "cs_attempts (im_state (snd (load_sources ss im))) = cs_attempts (im_state im)"
  "cs_workers (im_state (snd (load_sources ss im))) = cs_workers (im_state im)"
  "cs_sessions (im_state (snd (load_sources ss im))) = cs_sessions (im_state im)"
  "cs_leases (im_state (snd (load_sources ss im))) = cs_leases (im_state im)"
  "cs_jobs (im_state (snd (load_sources ss im))) = cs_jobs (im_state im)"
  "cache_of (snd (load_sources ss im)) = cache_of im"
  "env_of (snd (load_sources ss im)) = env_of im"
  "cs_controls (im_state (snd (load_sources ss im))) = cs_controls (im_state im)"
  by (induction ss arbitrary: im) (auto simp: case_prod_beta split: sum.split option.split)

lemma load_dependencies_frame [simp]:
  "ledger_of (snd (load_dependencies ds im)) = ledger_of im"
  "cs_compilations (im_state (snd (load_dependencies ds im))) = cs_compilations (im_state im)"
  "cs_attempts (im_state (snd (load_dependencies ds im))) = cs_attempts (im_state im)"
  "cs_workers (im_state (snd (load_dependencies ds im))) = cs_workers (im_state im)"
  "cs_sessions (im_state (snd (load_dependencies ds im))) = cs_sessions (im_state im)"
  "cs_leases (im_state (snd (load_dependencies ds im))) = cs_leases (im_state im)"
  "cs_jobs (im_state (snd (load_dependencies ds im))) = cs_jobs (im_state im)"
  "cache_of (snd (load_dependencies ds im)) = cache_of im"
  "env_of (snd (load_dependencies ds im)) = env_of im"
  "cs_controls (im_state (snd (load_dependencies ds im))) = cs_controls (im_state im)"
  by (induction ds arbitrary: im) (auto simp: case_prod_beta split: sum.split option.split)

lemma load_child_frame [simp]:
  "ledger_of (snd (load_child job c im)) = ledger_of im"
  "cs_compilations (im_state (snd (load_child job c im))) = cs_compilations (im_state im)"
  "cs_attempts (im_state (snd (load_child job c im))) = cs_attempts (im_state im)"
  "cs_workers (im_state (snd (load_child job c im))) = cs_workers (im_state im)"
  "cs_sessions (im_state (snd (load_child job c im))) = cs_sessions (im_state im)"
  "cs_leases (im_state (snd (load_child job c im))) = cs_leases (im_state im)"
  "cs_jobs (im_state (snd (load_child job c im))) = cs_jobs (im_state im)"
  "cache_of (snd (load_child job c im)) = cache_of im"
  "env_of (snd (load_child job c im)) = env_of im"
  "cs_controls (im_state (snd (load_child job c im))) = cs_controls (im_state im)"
  by (auto simp: load_child_def case_prod_beta split: sum.split option.split)

lemma load_children_frame [simp]:
  "ledger_of (snd (load_children job cs im)) = ledger_of im"
  "cs_compilations (im_state (snd (load_children job cs im))) = cs_compilations (im_state im)"
  "cs_attempts (im_state (snd (load_children job cs im))) = cs_attempts (im_state im)"
  "cs_workers (im_state (snd (load_children job cs im))) = cs_workers (im_state im)"
  "cs_sessions (im_state (snd (load_children job cs im))) = cs_sessions (im_state im)"
  "cs_leases (im_state (snd (load_children job cs im))) = cs_leases (im_state im)"
  "cs_jobs (im_state (snd (load_children job cs im))) = cs_jobs (im_state im)"
  "cache_of (snd (load_children job cs im)) = cache_of im"
  "env_of (snd (load_children job cs im)) = env_of im"
  "cs_controls (im_state (snd (load_children job cs im))) = cs_controls (im_state im)"
  by (induction cs arbitrary: im) (auto simp: case_prod_beta split: sum.split option.split)

lemma load_link_inputs_frame [simp]:
  "ledger_of (snd (load_link_inputs c u im)) = ledger_of im"
  "cs_compilations (im_state (snd (load_link_inputs c u im))) = cs_compilations (im_state im)"
  "cs_attempts (im_state (snd (load_link_inputs c u im))) = cs_attempts (im_state im)"
  "cs_workers (im_state (snd (load_link_inputs c u im))) = cs_workers (im_state im)"
  "cs_sessions (im_state (snd (load_link_inputs c u im))) = cs_sessions (im_state im)"
  "cs_leases (im_state (snd (load_link_inputs c u im))) = cs_leases (im_state im)"
  "cs_jobs (im_state (snd (load_link_inputs c u im))) = cs_jobs (im_state im)"
  "cache_of (snd (load_link_inputs c u im)) = cache_of im"
  "env_of (snd (load_link_inputs c u im)) = env_of im"
  "cs_controls (im_state (snd (load_link_inputs c u im))) = cs_controls (im_state im)"
  by (simp_all add: load_link_inputs_def split: option.split)

lemma charge_worker_frame [simp]:
  "ledger_of (charge_worker k l im) = ledger_of im"
  "cs_compilations (im_state (charge_worker k l im)) = cs_compilations (im_state im)"
  "cs_attempts (im_state (charge_worker k l im)) = cs_attempts (im_state im)"
  "cs_sessions (im_state (charge_worker k l im)) = cs_sessions (im_state im)"
  "cs_leases (im_state (charge_worker k l im)) = cs_leases (im_state im)"
  "cs_jobs (im_state (charge_worker k l im)) = cs_jobs (im_state im)"
  "cache_of (charge_worker k l im) = cache_of im"
  "env_of (charge_worker k l im) = env_of im"
  "cs_controls (im_state (charge_worker k l im)) = cs_controls (im_state im)"
  by (simp_all add: charge_worker_def split: option.split)

lemma persist_worker_frame [simp]:
  "ledger_of (persist_worker k im) = ledger_of im"
  "cs_compilations (im_state (persist_worker k im)) = cs_compilations (im_state im)"
  "cs_attempts (im_state (persist_worker k im)) = cs_attempts (im_state im)"
  "cs_workers (im_state (persist_worker k im)) = cs_workers (im_state im)"
  "cs_sessions (im_state (persist_worker k im)) = cs_sessions (im_state im)"
  "cs_leases (im_state (persist_worker k im)) = cs_leases (im_state im)"
  "cs_jobs (im_state (persist_worker k im)) = cs_jobs (im_state im)"
  "cache_of (persist_worker k im) = cache_of im"
  "env_of (persist_worker k im) = env_of im"
  "cs_controls (im_state (persist_worker k im)) = cs_controls (im_state im)"
  by (simp_all add: persist_worker_def split: option.split)

lemma take_attempt_ids_ledger [simp]:
  "ledger_of (upd_header (\<lambda>h. h\<lparr>hd_next_attempt_id := f h, hd_next_lease_id := g h\<rparr>) im) = ledger_of im"
  "cache_of (upd_header (\<lambda>h. h\<lparr>hd_next_attempt_id := f h, hd_next_lease_id := g h\<rparr>) im) = cache_of im"
  "cs_controls (im_state (upd_header (\<lambda>h. h\<lparr>hd_next_attempt_id := f h, hd_next_lease_id := g h\<rparr>) im)) = cs_controls (im_state im)"
  by (simp_all add: table_defs view_defs)

lemma issue_attempt_frame [simp]:
  "ledger_of (snd (issue_attempt w key c sp im)) = ledger_of im"
  "cache_of (snd (issue_attempt w key c sp im)) = cache_of im"
  "cs_controls (im_state (snd (issue_attempt w key c sp im))) = cs_controls (im_state im)"
  by (simp_all add: issue_attempt_def Let_def)

lemma build_assignment_frame [simp]:
  "ledger_of (snd (build_assignment w key c sp im)) = ledger_of im"
  "cache_of (snd (build_assignment w key c sp im)) = cache_of im"
  "cs_controls (im_state (snd (build_assignment w key c sp im))) = cs_controls (im_state im)"
  by (auto simp: build_assignment_def case_prod_beta split: option.split)

lemma speculate_frame [simp]:
  "ledger_of (snd (speculate key el ra im)) = ledger_of im"
  "cache_of (snd (speculate key el ra im)) = cache_of im"
  "cs_controls (im_state (snd (speculate key el ra im))) = cs_controls (im_state im)"
  by (auto simp: speculate_def case_prod_beta split: option.split)

lemma pump_one_frame [simp]:
  "ledger_of (snd (pump_one key im)) = ledger_of im"
  "cache_of (snd (pump_one key im)) = cache_of im"
  "cs_controls (im_state (snd (pump_one key im))) = cs_controls (im_state im)"
  by (auto simp: pump_one_def Let_def case_prod_beta split: option.split)

lemma pump_keys_frame [simp]:
  "ledger_of (snd (pump_keys ks im)) = ledger_of im"
  "cache_of (snd (pump_keys ks im)) = cache_of im"
  "cs_controls (im_state (snd (pump_keys ks im))) = cs_controls (im_state im)"
  by (induction ks arbitrary: im) (simp_all add: Let_def case_prod_beta)

lemma pump_frame [simp]:
  "ledger_of (snd (pump im)) = ledger_of im"
  "cache_of (snd (pump im)) = cache_of im"
  "cs_controls (im_state (snd (pump im))) = cs_controls (im_state im)"
  by (simp_all add: pump_def)

lemma drain_controls_frame [simp]:
  "ledger_of (snd (drain_controls im)) = ledger_of im"
  "cache_of (snd (drain_controls im)) = cache_of im"
  by (simp_all add: drain_controls_def table_defs view_defs)

section \<open>A running attempt, for the witnesses\<close>

text \<open>
  Worker 1 on session 1 holds lease 1 for attempt 1 of compilation 7.  The digests are
  arbitrary numbers: no witness needs to hash anything.
\<close>

definition sample_compilation :: compilation_record where
  "sample_compilation =
     \<lparr>cr_id = Ident 7, cr_generation = Gen 1, cr_unit = Ident 8, cr_unit_generation = Gen 1,
      cr_unit_identity = 41, cr_request_id = Ident 9, cr_request_generation = Gen 1,
      cr_request_identity = 42, cr_source_identity = 43, cr_dependency_identity = 44,
      cr_toolchain_identity = 21, cr_target_identity = 22, cr_specialization_identity = 45,
      cr_policy_identity = 46, cr_environment_identity = 47, cr_source_generation = Gen 1,
      cr_ir_generation = Gen 1, cr_dependency_generation = Gen 1, cr_toolchain_generation = Gen 1,
      cr_target_generation = Gen 1, cr_specialization_generation = Gen 1,
      cr_policy_generation = Gen 1, cr_output_kind = OK_Object, cr_reproducibility = RR_Required,
      cr_state = CS_Running, cr_attempts = [Ident 1], cr_current_attempt = Ident 1,
      cr_attempt_ordinal_counter = 1, cr_commit = None, cr_divergent_candidates = [],
      cr_reproducibility_violation = False, cr_failure_detail = [], cr_failure = Err_Ok,
      cr_cache_hit = False, cr_created_at = 0, cr_updated_at = 0, cr_unit_index = 0,
      cr_parent_unit_index = 0, cr_is_root = True\<rparr>"

definition sample_attempt :: compilation_attempt where
  "sample_attempt = (new_attempt sample_impl (sample_worker 1) sample_compilation (Ident 1) (Ident 1) 1 False)
     \<lparr>ca_state := AS_Running\<rparr>"

definition sample_lease :: compile_lease where
  "sample_lease = new_lease sample_impl (sample_worker 1) sample_compilation (Ident 1) (Ident 1) 1"

definition sample_claim :: authority_claim where
  "sample_claim = new_claim sample_impl (sample_worker 1) sample_compilation (Ident 1) (Ident 1) 1"

definition sample_session :: session_record where
  "sample_session = \<lparr>ss_id = Ident 1, ss_is_worker = True, ss_worker = Ident 1, ss_boot = Ident 1,
     ss_epoch = Gen 1, ss_peer = ''p'', ss_host = ''h'', ss_connected_at = 0, ss_last_seen = 0,
     ss_open = True, ss_max_inflight = 4\<rparr>"

text \<open>The scenario with the worker, the lease and the attempt in a given condition.\<close>

definition sample_with :: "worker_record \<Rightarrow> compile_lease \<Rightarrow> compilation_attempt \<Rightarrow> impl" where
  "sample_with w l a = put_worker (Ident 1) w (put_lease (Ident 1) l (put_attempt (Ident 1) a
     (put_compilation (Ident 7) sample_compilation (put_session (Ident 1) sample_session sample_impl))))"

definition sample_running :: impl where
  "sample_running = sample_with (sample_worker 1) sample_lease sample_attempt"

definition sample_produced_attempt :: compilation_attempt where
  "sample_produced_attempt = sample_attempt\<lparr>ca_state := AS_Produced,
     ca_candidate := \<lparr>rf_digest = 5, rf_size = 1\<rparr>, ca_candidate_digest := 5\<rparr>"

definition sample_produced :: impl where
  "sample_produced = sample_with (sample_worker 1) sample_lease sample_produced_attempt"

lemma sample_with_simps [simp]:
  "find_attempt (Ident 1) (sample_with w l a) = Some a"
  "find_compilation (Ident 7) (sample_with w l a) = Some sample_compilation"
  "find_session (Ident 1) (sample_with w l a) = Some sample_session"
  "find_worker (Ident 1) (sample_with w l a) = Some w"
  "om_find (cs_leases (im_state (sample_with w l a))) (Ident 1) = Some l"
  "ledger_of (sample_with w l a) = ledger_of sample_impl"
  "env_of (sample_with w l a) = env_of sample_impl"
  by (simp_all add: sample_with_def find_attempt_def find_compilation_def find_session_def
      find_worker_def)

lemma sample_with_empty [simp]:
  "cs_authoritative (im_state (sample_with w l a)) = []"
  "cs_commits (im_state (sample_with w l a)) = []"
  by (simp_all add: sample_with_def table_defs sample_impl_def initial_state_def)

lemma sample_impl_simps [simp]:
  "\<not> cg_enable_persistence (nv_config (env_of sample_impl))" "nv_opened (env_of sample_impl)"
  "nv_epoch (env_of sample_impl) = Gen 1" "nv_cache_generation (env_of sample_impl) = Gen 0"
  by (simp_all add: sample_impl_def env_of_def sample_config_def initial_header_def)

lemma sample_claim_simps [simp]:
  "au_attempt sample_claim = Ident 1" "au_compilation sample_claim = Ident 7"
  by (simp_all add: sample_claim_def new_claim_def sample_compilation_def)

theorem fence_worker_complete_witness:
  "let (w', im') = fence_worker (Ident 1) (sample_worker 1) ''lost'' sample_running in
   om_find (cs_workers (im_state im')) (Ident 1) = Some w' \<and> wk_fenced w'
   \<and> map_option cl_revoked (om_find (cs_leases (im_state im')) (Ident 1)) = Some True"
proof -
  obtain w' im' where run: "fence_worker (Ident 1) (sample_worker 1) ''lost'' sample_running = (w', im')"
    by (cases "fence_worker (Ident 1) (sample_worker 1) ''lost'' sample_running")
  have lease: "cl_worker sample_lease = wk_id (sample_worker 1)"
    by (simp add: sample_lease_def new_lease_def)
  have "\<exists>l. om_find (cs_leases (im_state im')) (Ident 1) = Some l \<and> cl_worker l = cl_worker sample_lease"
    using arg_cong [OF run, of snd]
    by (auto simp: fence_worker_def Let_def revoke_leases_for_find sample_running_def)
  with fence_worker_complete [of "Ident 1" "sample_worker 1" "''lost''" sample_running] lease run
  show ?thesis by auto
qed

end
