(* ===== verification/DC_Failure.thy ===== *)
theory DC_Failure
  imports DC_Schedule
begin

text \<open>
  Failure handling (\<^verbatim>\<open>src/coordinator_tx.cpp\<close>, lines 719 to 946): the failure of one attempt,
  the decision between retry and failure of its compilation, the propagation of a failed
  child to the fan-in unit that needs it, and the three operations built on them: a
  failure report, the loss of a worker session, and a cancellation.
\<close>

section \<open>Failing an attempt\<close>

definition failure_target :: "error_code \<Rightarrow> attempt_state" where
  "failure_target code =
     (if code = Err_Fenced \<or> code = Err_StaleWorkerBoot \<or> code = Err_StaleWorkerGeneration
      then AS_Fenced
      else if code = Err_Cancelled then AS_Cancelled
      else if code = Err_Ambiguous then AS_Ambiguous
      else AS_Failed)"

text \<open>The attempt is the one stored under \<^verbatim>\<open>key\<close>; it is written back where the code mutates it.\<close>

definition fail_attempt_locked ::
    "attempt_id \<Rightarrow> compilation_attempt \<Rightarrow> error_code \<Rightarrow> string \<Rightarrow> impl \<Rightarrow> status \<times> impl" where
  "fail_attempt_locked key a code detail im =
     (let next = failure_target code;
          (moved, a1) = (if ca_state a \<noteq> next then transition_attempt a next else (success, a)) in
      if \<not> st_ok moved \<and> \<not> is_terminal_state (ca_state a1) then (moved, im)
      else
        (let a2 = a1\<lparr>ca_failure := code, ca_failure_detail := detail\<rparr>;
             (a3, im1) = finish_attempt_bookkeeping a2 im in
         persist (JP_Attempt a3) (put_attempt key a3 im1)))"

section \<open>Fan-in\<close>

definition unit_depends :: "job_record \<Rightarrow> compilation_unit_spec \<Rightarrow> compilation_id \<Rightarrow> bool" where
  "unit_depends job u failed = list_ex (\<lambda>child. unat child < length (jr_units job)
     \<and> jr_units job ! unat child = failed) (un_child_units u)"

text \<open>One pass of the inner loop: the unit \<^verbatim>\<open>unit_id\<close> of the job under \<^verbatim>\<open>job_key\<close>.\<close>

definition fail_parent :: "digest256 \<Rightarrow> compilation_id \<Rightarrow> compilation_id \<Rightarrow> impl \<Rightarrow> impl" where
  "fail_parent job_key failed unit_id im =
    (case om_find (cs_jobs (im_state im)) job_key of None \<Rightarrow> im | Some job \<Rightarrow>
     case find_request (jr_request_identity job) im of None \<Rightarrow> im | Some request \<Rightarrow>
     if id_is_zero unit_id \<or> unit_id = failed then im else
     case find_compilation unit_id im of None \<Rightarrow> im | Some parent \<Rightarrow>
     if cr_state parent = CS_Committed \<or> cr_state parent = CS_CacheHit \<or> cr_state parent = CS_Failed
        \<or> cr_state parent = CS_Cancelled then im else
     case find_unit request (cr_unit_index parent) of None \<Rightarrow> im | Some u \<Rightarrow>
     if un_kind u \<noteq> UK_Link then im
     else if \<not> unit_depends job u failed \<or> \<not> un_mandatory u then im else
     case find_compilation failed im of None \<Rightarrow> im | Some child \<Rightarrow>
     if cr_state child \<noteq> CS_Failed \<and> cr_state child \<noteq> CS_Cancelled \<and> cr_state child \<noteq> CS_Ambiguous
        \<and> cr_state child \<noteq> CS_Fenced then im else
     let detail = ''mandatory child compilation '' @ to_dec (id_value failed) @
           '' cannot become authoritative (state '' @ compilation_state_string (cr_state child) @ '')'';
         parent1 = parent\<lparr>cr_state := CS_Failed, cr_failure := Err_FanInIncomplete,
           cr_failure_detail := detail, cr_updated_at := im_now im\<rparr>;
         im1 = persist_void (JP_Compilation parent1) (put_compilation unit_id parent1 im);
         job1 = job\<lparr>jr_failure := Err_FanInIncomplete, jr_failure_detail := detail\<rparr>
     in persist_void (JP_Job job1) (put_job job_key job1 im1))"

definition propagate_fan_in_failure :: "compilation_id \<Rightarrow> impl \<Rightarrow> impl" where
  "propagate_fan_in_failure failed im =
     fold (\<lambda>(job_key, job). fold (fail_parent job_key failed) (jr_units job)) (cs_jobs (im_state im)) im"

section \<open>Retry or fail\<close>

definition max_attempts_for :: "impl \<Rightarrow> compilation_record \<Rightarrow> u32" where
  "max_attempts_for im c =
     (case find_request (cr_request_identity c) im of
        None \<Rightarrow> 1
      | Some request \<Rightarrow> max 1 (min (po_max_attempts_per_unit (rq_policy request))
          (cg_max_attempts_hard_cap (im_config im))))"

definition retry_or_fail :: "impl \<Rightarrow> error_code \<Rightarrow> string \<Rightarrow> compilation_record \<Rightarrow> compilation_record" where
  "retry_or_fail im code detail c =
     (let klass = classify_failure code;
          may_retry = (klass \<noteq> FC_NonRetryable \<and> cr_attempt_ordinal_counter c < max_attempts_for im c)
      in c\<lparr>cr_state := (if may_retry then CS_Eligible
                       else if klass = FC_Ambiguous then CS_Ambiguous else CS_Failed),
           cr_failure := code, cr_failure_detail := detail, cr_updated_at := im_now im\<rparr>)"

definition schedule_retry_or_fail ::
    "compilation_id \<Rightarrow> compilation_record \<Rightarrow> error_code \<Rightarrow> string \<Rightarrow> impl \<Rightarrow> impl" where
  "schedule_retry_or_fail key c code detail im =
     (let c1 = retry_or_fail im code detail c in
      propagate_fan_in_failure (cr_id c1) (put_compilation key c1 im))"

text \<open>\<^verbatim>\<open>persist(RecordType::Compilation, encode(it->second))\<close> of the record as it is now.\<close>

definition persist_compilation :: "compilation_id \<Rightarrow> impl \<Rightarrow> status \<times> impl" where
  "persist_compilation key im =
     (case find_compilation key im of
        None \<Rightarrow> (success, im)
      | Some c \<Rightarrow> persist (JP_Compilation c) im)"

section \<open>A failure report\<close>

record attempt_failure =
  af_claim :: authority_claim
  af_code :: error_code
  af_detail :: string
  af_produced_candidate :: bool

definition session_owns :: "session_record option \<Rightarrow> compilation_attempt \<Rightarrow> bool" where
  "session_owns session a =
     (case session of
        None \<Rightarrow> False
      | Some s \<Rightarrow> ss_is_worker s \<and> ss_worker s = ca_worker a \<and> ss_boot s = ca_worker_boot a)"

definition fail_attempt :: "session_id \<Rightarrow> attempt_failure \<Rightarrow> impl \<Rightarrow> status \<times> impl" where
  "fail_attempt session_id f im =
    (let claim = af_claim f; session = find_session session_id im in
     if \<not> st_ok (ensure_open im) then (ensure_open im, im) else
     case find_attempt (au_attempt claim) im of
       None \<Rightarrow> (error Err_StaleAttempt ''unknown attempt'',
         record_violation ''fail_attempt'' Err_StaleAttempt session_id (Ident 0)
           ''failure report for an unknown attempt'' im)
     | Some a \<Rightarrow>
     case find_compilation (au_compilation claim) im of
       None \<Rightarrow> (error Err_StaleCompilation ''unknown compilation'', im)
     | Some c \<Rightarrow>
     if \<not> session_owns session a then
       (error Err_StaleWorkerBoot ''session does not own this attempt'',
        record_violation ''fail_attempt'' Err_StaleWorkerBoot session_id
          (case session of None \<Rightarrow> Ident 0 | Some s \<Rightarrow> ss_worker s)
          ''failure report from a session that does not own the attempt'' im)
     else
     let authority = validate_authority claim (expectation_for im c a) in
     if \<not> st_ok authority then
       (authority, record_violation ''fail_attempt'' (st_code authority) session_id
          (case session of None \<Rightarrow> Ident 0 | Some s \<Rightarrow> ss_worker s) (st_detail authority) im)
     else if is_terminal_state (ca_state a) then (success, im)
     else
     let (moved, im1) = fail_attempt_locked (au_attempt claim) a (af_code f) (af_detail f) im in
     if \<not> st_ok moved then (moved, im1)
     else persist_compilation (au_compilation claim)
       (schedule_retry_or_fail (au_compilation claim) c (af_code f) (af_detail f) im1))"

section \<open>Losing a session\<close>

definition lost_detail :: "string \<Rightarrow> string" where
  "lost_detail reason = ''worker session lost: '' @ reason"

text \<open>\<^verbatim>\<open>was_running ? ErrorCode::Ambiguous : ErrorCode::Fenced\<close>\<close>

definition lost_code :: "attempt_state \<Rightarrow> error_code" where
  "lost_code s = (if s = AS_Running \<or> s = AS_Preparing \<or> s = AS_Produced \<or> s = AS_Validating
     then Err_Ambiguous else Err_Fenced)"

text \<open>One pass of the loop over the attempts.\<close>

definition disconnect_attempt :: "session_record \<Rightarrow> string \<Rightarrow> attempt_id \<Rightarrow> impl \<Rightarrow> impl" where
  "disconnect_attempt session reason key im =
     (case find_attempt key im of
        None \<Rightarrow> im
      | Some a \<Rightarrow>
         if ca_worker a \<noteq> ss_worker session \<or> ca_worker_boot a \<noteq> ss_boot session then im
         else if is_terminal_state (ca_state a) then im
         else
           (let code = lost_code (ca_state a);
                im1 = snd (fail_attempt_locked key a code (lost_detail reason) im) in
            case find_compilation (ca_compilation a) im1 of
              None \<Rightarrow> im1
            | Some c \<Rightarrow> snd (persist_compilation (ca_compilation a)
                (schedule_retry_or_fail (ca_compilation a) c code (lost_detail reason) im1))))"

definition disconnect_session :: "session_id \<Rightarrow> string \<Rightarrow> impl \<Rightarrow> status \<times> impl" where
  "disconnect_session session_id reason im =
    (if \<not> im_opened im then (success, im) else
     case find_session session_id im of
       None \<Rightarrow> (success, im)
     | Some s \<Rightarrow>
     let session = s\<lparr>ss_open := False\<rparr>; im1 = put_session session_id session im in
     if \<not> ss_is_worker session then (success, im1) else
     case find_worker (ss_worker session) im1 of
       None \<Rightarrow> (success, im1)
     | Some w \<Rightarrow>
     if wk_boot w \<noteq> ss_boot session then (success, im1)
     else
       (let im2 = fold (disconnect_attempt session reason) (om_keys (cs_attempts (im_state im1))) im1 in
        case find_worker (ss_worker session) im2 of
          None \<Rightarrow> (success, im2)
        | Some w1 \<Rightarrow>
           (let (w2, im3) = fence_worker (ss_worker session) w1 (lost_detail reason) im2 in
            (success, persist_void (JP_Worker w2) im3))))"

section \<open>Cancellation\<close>

definition cancel_attempt :: "compilation_record \<Rightarrow> string \<Rightarrow> attempt_id \<Rightarrow> impl \<Rightarrow> impl" where
  "cancel_attempt c reason key im =
     (case find_attempt key im of
        None \<Rightarrow> im
      | Some a \<Rightarrow>
         if is_terminal_state (ca_state a) then im
         else snd (fail_attempt_locked key a Err_Cancelled reason
                (push_control (cancel_control im c a reason) im)))"

definition cancel_lease :: "compilation_record \<Rightarrow> string \<Rightarrow> lease_id \<Rightarrow> impl \<Rightarrow> impl" where
  "cancel_lease c reason key im =
     (case om_find (cs_leases (im_state im)) key of
        None \<Rightarrow> im
      | Some l \<Rightarrow>
         if cl_compilation l \<noteq> cr_id c \<or> cl_revoked l then im
         else
           (let l1 = l\<lparr>cl_revoked := True,
                  cl_revocation_reason := ''compilation cancelled: '' @ reason\<rparr> in
            persist_void (JP_Lease l1) (put_lease key l1 im)))"

definition cancel :: "compilation_id \<Rightarrow> string \<Rightarrow> impl \<Rightarrow> status \<times> impl" where
  "cancel i reason im =
    (if \<not> st_ok (ensure_open im) then (ensure_open im, im) else
     case find_compilation i im of
       None \<Rightarrow> (error Err_NotFound ''unknown compilation'', im)
     | Some c \<Rightarrow>
     if cr_state c = CS_Committed then
       (error Err_ArtifactAlreadyCommitted ''compilation already has an authoritative artifact'', im)
     else
       (let im1 = fold (cancel_attempt c reason) (cr_attempts c) im;
            im2 = fold (cancel_lease c reason) (om_keys (cs_leases (im_state im1))) im1;
            c1 = c\<lparr>cr_state := CS_Cancelled, cr_failure := Err_Cancelled,
                   cr_failure_detail := reason, cr_updated_at := im_now im2\<rparr>
        in persist (JP_Compilation c1) (put_compilation i c1 im2)))"

section \<open>What failure handling leaves alone\<close>

lemma fold_keeps: "(\<And>x s. f (g x s) = f s) \<Longrightarrow> f (fold g xs s) = f s"
  by (induction xs arbitrary: s) auto

lemma fail_attempt_locked_frame [simp]:
  "ledger_of (snd (fail_attempt_locked k a c d im)) = ledger_of im"
  "env_of (snd (fail_attempt_locked k a c d im)) = env_of im"
  "cs_compilations (im_state (snd (fail_attempt_locked k a c d im))) = cs_compilations (im_state im)"
  "cs_sessions (im_state (snd (fail_attempt_locked k a c d im))) = cs_sessions (im_state im)"
  "cs_jobs (im_state (snd (fail_attempt_locked k a c d im))) = cs_jobs (im_state im)"
  "cache_of (snd (fail_attempt_locked k a c d im)) = cache_of im"
  "cs_controls (im_state (snd (fail_attempt_locked k a c d im))) = cs_controls (im_state im)"
  by (simp_all add: fail_attempt_locked_def Let_def case_prod_beta)

lemma fail_parent_frame [simp]:
  "ledger_of (fail_parent j f u im) = ledger_of im"
  "env_of (fail_parent j f u im) = env_of im"
  "cs_attempts (im_state (fail_parent j f u im)) = cs_attempts (im_state im)"
  "cs_workers (im_state (fail_parent j f u im)) = cs_workers (im_state im)"
  "cs_sessions (im_state (fail_parent j f u im)) = cs_sessions (im_state im)"
  "cs_leases (im_state (fail_parent j f u im)) = cs_leases (im_state im)"
  "cache_of (fail_parent j f u im) = cache_of im"
  "cs_controls (im_state (fail_parent j f u im)) = cs_controls (im_state im)"
  by (simp_all add: fail_parent_def Let_def split: option.split)

lemma propagate_fan_in_failure_frame [simp]:
  "ledger_of (propagate_fan_in_failure f im) = ledger_of im"
  "env_of (propagate_fan_in_failure f im) = env_of im"
  "cs_attempts (im_state (propagate_fan_in_failure f im)) = cs_attempts (im_state im)"
  "cs_workers (im_state (propagate_fan_in_failure f im)) = cs_workers (im_state im)"
  "cs_sessions (im_state (propagate_fan_in_failure f im)) = cs_sessions (im_state im)"
  "cs_leases (im_state (propagate_fan_in_failure f im)) = cs_leases (im_state im)"
  "cache_of (propagate_fan_in_failure f im) = cache_of im"
  "cs_controls (im_state (propagate_fan_in_failure f im)) = cs_controls (im_state im)"
  unfolding propagate_fan_in_failure_def
  by (rule fold_keeps, clarsimp, rule fold_keeps, simp)+

lemma schedule_retry_or_fail_frame [simp]:
  "ledger_of (schedule_retry_or_fail k c code d im) = ledger_of im"
  "env_of (schedule_retry_or_fail k c code d im) = env_of im"
  "cs_attempts (im_state (schedule_retry_or_fail k c code d im)) = cs_attempts (im_state im)"
  "cs_workers (im_state (schedule_retry_or_fail k c code d im)) = cs_workers (im_state im)"
  "cs_sessions (im_state (schedule_retry_or_fail k c code d im)) = cs_sessions (im_state im)"
  "cs_leases (im_state (schedule_retry_or_fail k c code d im)) = cs_leases (im_state im)"
  "cache_of (schedule_retry_or_fail k c code d im) = cache_of im"
  "cs_controls (im_state (schedule_retry_or_fail k c code d im)) = cs_controls (im_state im)"
  by (simp_all add: schedule_retry_or_fail_def Let_def)

lemma persist_compilation_frame [simp]:
  "ledger_of (snd (persist_compilation k im)) = ledger_of im"
  "env_of (snd (persist_compilation k im)) = env_of im"
  "cs_compilations (im_state (snd (persist_compilation k im))) = cs_compilations (im_state im)"
  "cs_attempts (im_state (snd (persist_compilation k im))) = cs_attempts (im_state im)"
  "cs_workers (im_state (snd (persist_compilation k im))) = cs_workers (im_state im)"
  "cs_sessions (im_state (snd (persist_compilation k im))) = cs_sessions (im_state im)"
  "cs_leases (im_state (snd (persist_compilation k im))) = cs_leases (im_state im)"
  "cache_of (snd (persist_compilation k im)) = cache_of im"
  "cs_controls (im_state (snd (persist_compilation k im))) = cs_controls (im_state im)"
  by (simp_all add: persist_compilation_def split: option.split)

lemma fail_attempt_frame [simp]:
  "ledger_of (snd (fail_attempt s f im)) = ledger_of im"
  "cs_sessions (im_state (snd (fail_attempt s f im))) = cs_sessions (im_state im)"
  "cache_of (snd (fail_attempt s f im)) = cache_of im"
  "cs_controls (im_state (snd (fail_attempt s f im))) = cs_controls (im_state im)"
  by (simp_all add: fail_attempt_def Let_def case_prod_beta split: option.split)

lemma disconnect_attempt_frame [simp]:
  "ledger_of (disconnect_attempt s r k im) = ledger_of im"
  "cs_sessions (im_state (disconnect_attempt s r k im)) = cs_sessions (im_state im)"
  "cache_of (disconnect_attempt s r k im) = cache_of im"
  "cs_controls (im_state (disconnect_attempt s r k im)) = cs_controls (im_state im)"
  by (simp_all add: disconnect_attempt_def Let_def split: option.split)

lemma disconnect_session_frame [simp]:
  "ledger_of (snd (disconnect_session i r im)) = ledger_of im"
  "cache_of (snd (disconnect_session i r im)) = cache_of im"
  "cs_controls (im_state (snd (disconnect_session i r im))) = cs_controls (im_state im)"
  by (simp_all add: disconnect_session_def Let_def fence_worker_def fold_keeps [of ledger_of]
      fold_keeps [of cache_of] fold_keeps [of "\<lambda>im. cs_controls (im_state im)"] split: option.split)

lemma cancel_attempt_frame [simp]:
  "ledger_of (cancel_attempt c r k im) = ledger_of im"
  "env_of (cancel_attempt c r k im) = env_of im"
  "cs_compilations (im_state (cancel_attempt c r k im)) = cs_compilations (im_state im)"
  "cs_sessions (im_state (cancel_attempt c r k im)) = cs_sessions (im_state im)"
  "cache_of (cancel_attempt c r k im) = cache_of im"
  by (simp_all add: cancel_attempt_def split: option.split)

lemma cancel_lease_frame [simp]:
  "ledger_of (cancel_lease c r k im) = ledger_of im"
  "env_of (cancel_lease c r k im) = env_of im"
  "cs_compilations (im_state (cancel_lease c r k im)) = cs_compilations (im_state im)"
  "cs_attempts (im_state (cancel_lease c r k im)) = cs_attempts (im_state im)"
  "cs_workers (im_state (cancel_lease c r k im)) = cs_workers (im_state im)"
  "cs_sessions (im_state (cancel_lease c r k im)) = cs_sessions (im_state im)"
  "cache_of (cancel_lease c r k im) = cache_of im"
  "cs_controls (im_state (cancel_lease c r k im)) = cs_controls (im_state im)"
  by (simp_all add: cancel_lease_def Let_def split: option.split)

lemma cancel_frame [simp]:
  "ledger_of (snd (cancel i r im)) = ledger_of im"
  "cs_sessions (im_state (snd (cancel i r im))) = cs_sessions (im_state im)"
  "cache_of (snd (cancel i r im)) = cache_of im"
  by (simp_all add: cancel_def Let_def fold_keeps [of ledger_of] fold_keeps [of cache_of]
      fold_keeps [of "\<lambda>im. cs_sessions (im_state im)"] split: option.split)

section \<open>What failure handling promises\<close>

text \<open>The attempt after it has been failed, as a function of the attempt alone.\<close>

definition failed_attempt ::
    "unix_millis \<Rightarrow> error_code \<Rightarrow> string \<Rightarrow> compilation_attempt \<Rightarrow> compilation_attempt" where
  "failed_attempt now code detail a =
     (let next = failure_target code; can = (ca_state a = next \<or> is_legal_transition (ca_state a) next) in
      if \<not> can \<and> \<not> is_terminal_state (ca_state a) then a
      else a\<lparr>ca_state := (if can then next else ca_state a), ca_failure := code,
             ca_failure_detail := detail, ca_finished_at := now\<rparr>)"

lemma finish_attempt_fst [simp]: "fst (finish_attempt_bookkeeping a im) = a\<lparr>ca_finished_at := im_now im\<rparr>"
  by (simp add: finish_attempt_bookkeeping_def Let_def)

lemma find_after_fail:
  assumes "find_attempt k im = Some a"
  shows "find_attempt k' (snd (fail_attempt_locked k a code detail im)) =
    (if k' = k then Some (failed_attempt (im_now im) code detail a) else find_attempt k' im)"
proof -
  have move: "(if ca_state a \<noteq> next then transition_attempt a next else (success, a)) =
      (if ca_state a = next \<or> is_legal_transition (ca_state a) next
       then (success, a\<lparr>ca_state := next\<rparr>) else (fst (transition_attempt a next), a))" for "next"
    by (cases a) (simp add: transition_attempt_def)
  have bad: "\<not> st_ok (fst (transition_attempt a next))"
    if "\<not> (ca_state a = next \<or> is_legal_transition (ca_state a) next)" for "next"
    using that by (simp add: transition_attempt_def)
  have put: "find_attempt k' (put_attempt k b im') = (if k' = k then Some b else find_attempt k' im')" for b im'
    by (simp add: find_attempt_def)
  have keep: "find_attempt k' (snd (persist p im')) = find_attempt k' im'"
    "find_attempt k' (snd (finish_attempt_bookkeeping b im')) = find_attempt k' im'" for p b im'
    by (simp_all add: find_attempt_def)
  have same: "a\<lparr>ca_state := ca_state a, ca_failure := x, ca_failure_detail := y, ca_finished_at := z\<rparr> =
      a\<lparr>ca_failure := x, ca_failure_detail := y, ca_finished_at := z\<rparr>" for x y z
    by (cases a) simp
  show ?thesis
    unfolding fail_attempt_locked_def failed_attempt_def Let_def move
    using assms bad [of "failure_target code"]
    by (cases "ca_state a = failure_target code \<or> is_legal_transition (ca_state a) (failure_target code)";
        cases "is_terminal_state (ca_state a)") (simp_all add: case_prod_beta put keep same)
qed

lemma failed_attempt_owner [simp]:
  "ca_worker (failed_attempt now code d a) = ca_worker a"
  "ca_worker_boot (failed_attempt now code d a) = ca_worker_boot a"
  "ca_compilation (failed_attempt now code d a) = ca_compilation a"
  by (simp_all add: failed_attempt_def Let_def)

subsection \<open>Losing a session\<close>

text \<open>An attempt that the lost session no longer runs.\<close>

definition let_go :: "session_record \<Rightarrow> compilation_attempt \<Rightarrow> bool" where
  "let_go s a \<longleftrightarrow> ca_worker a \<noteq> ss_worker s \<or> ca_worker_boot a \<noteq> ss_boot s
     \<or> is_terminal_state (ca_state a) \<or> ca_state a = AS_Ambiguous
     \<or> ca_state a = AS_Produced \<or> ca_state a = AS_Validating"

definition lost_attempt :: "session_record \<Rightarrow> unix_millis \<Rightarrow> string \<Rightarrow> compilation_attempt \<Rightarrow> compilation_attempt" where
  "lost_attempt s now r a =
     (if ca_worker a \<noteq> ss_worker s \<or> ca_worker_boot a \<noteq> ss_boot s \<or> is_terminal_state (ca_state a) then a
      else failed_attempt now (lost_code (ca_state a)) (lost_detail r) a)"

lemma find_after_disconnect:
  "find_attempt k' (disconnect_attempt s r k im) =
     (if k' = k then map_option (lost_attempt s (im_now im) r) (find_attempt k im) else find_attempt k' im)"
proof (cases "find_attempt k im")
  case None
  then show ?thesis by (simp add: disconnect_attempt_def)
next
  case (Some a)
  have keep: "find_attempt k' (schedule_retry_or_fail j c code d im1) = find_attempt k' im1"
    "find_attempt k' (snd (persist_compilation j im1)) = find_attempt k' im1" for j c code d im1
    by (simp_all add: find_attempt_def)
  show ?thesis
  proof (cases "ca_worker a \<noteq> ss_worker s \<or> ca_worker_boot a \<noteq> ss_boot s \<or> is_terminal_state (ca_state a)")
    case True
    then show ?thesis by (auto simp: disconnect_attempt_def Some lost_attempt_def)
  next
    case False
    then have "find_attempt k' (disconnect_attempt s r k im) = find_attempt k'
        (snd (fail_attempt_locked k a (lost_code (ca_state a)) (lost_detail r) im))"
      by (simp add: disconnect_attempt_def Some Let_def keep split: option.split)
    with False show ?thesis by (simp add: find_after_fail [OF Some] Some lost_attempt_def)
  qed
qed

lemma lost_attempt_lets_go: "let_go s (lost_attempt s now r a)"
  by (cases "ca_state a") (auto simp: lost_attempt_def let_go_def failed_attempt_def lost_code_def
      failure_target_def is_legal_transition_def)

lemma disconnect_attempt_lets_go:
  assumes "k' = k \<or> (\<forall>a. find_attempt k' im = Some a \<longrightarrow> let_go s a)"
    "find_attempt k' (disconnect_attempt s r k im) = Some a"
  shows "let_go s a"
  using assms lost_attempt_lets_go by (auto simp: find_after_disconnect split: if_splits)

lemma disconnect_loop_lets_go:
  assumes "k \<in> set ks \<or> (\<forall>a. find_attempt k im = Some a \<longrightarrow> let_go s a)"
    "find_attempt k (fold (disconnect_attempt s r) ks im) = Some a"
  shows "let_go s a"
  using assms
proof (induction ks arbitrary: im)
  case (Cons j ks)
  have "k \<in> set ks \<or> (\<forall>a. find_attempt k (disconnect_attempt s r j im) = Some a \<longrightarrow> let_go s a)"
  proof (cases "k \<in> set ks")
    case False
    with Cons.prems(1) have "k = j \<or> (\<forall>a. find_attempt k im = Some a \<longrightarrow> let_go s a)" by simp
    then show ?thesis by (blast intro: disconnect_attempt_lets_go)
  qed simp
  from Cons.IH [OF this] Cons.prems(2) show ?case by simp
qed simp

lemma disconnect_no_new:
  "find_attempt k im = None \<Longrightarrow> find_attempt k (fold (disconnect_attempt s r) ks im) = None"
proof (induction ks arbitrary: im)
  case (Cons j ks)
  then have "find_attempt k (disconnect_attempt s r j im) = None" by (auto simp: find_after_disconnect)
  then show ?case using Cons.IH by simp
qed simp

lemma worker_stays:
  "find_worker k im \<noteq> None \<Longrightarrow> find_worker k (fold (disconnect_attempt s r) ks im) \<noteq> None"
proof (induction ks arbitrary: im)
  case (Cons j ks)
  have finish: "find_worker k (snd (finish_attempt_bookkeeping a im)) \<noteq> None"
    if "find_worker k im \<noteq> None" for a im
    using that by (auto simp: finish_attempt_bookkeeping_def Let_def find_worker_def split: option.split)
  have keep: "find_worker k (schedule_retry_or_fail j c code d im1) = find_worker k im1"
    "find_worker k (snd (persist_compilation j im1)) = find_worker k im1"
    "find_worker k (snd (persist p im1)) = find_worker k im1"
    "find_worker k (put_attempt n a im1) = find_worker k im1" for j n c code d im1 p a
    by (simp_all add: find_worker_def)
  have "find_worker k (snd (fail_attempt_locked j a code d im)) \<noteq> None" for a code d
    using finish Cons.prems by (simp add: fail_attempt_locked_def Let_def case_prod_beta keep)
  then have "find_worker k (disconnect_attempt s r j im) \<noteq> None"
    using Cons.prems by (simp add: disconnect_attempt_def Let_def keep split: option.split)
  then show ?case using Cons.IH by simp
qed simp


lemma sample_opened [simp]: "im_opened (sample_with w l a)"
proof -
  have "im_opened sample_impl" by (simp add: sample_impl_def)
  then show ?thesis using env_of_eqD(3) [of "sample_with w l a" sample_impl] by simp
qed


subsection \<open>Cancellation\<close>

lemma find_after_cancel:
  "find_attempt k' (cancel_attempt c r k im) =
     (if k' = k then map_option (\<lambda>a. if is_terminal_state (ca_state a) then a
        else failed_attempt (im_now im) Err_Cancelled r a) (find_attempt k im)
      else find_attempt k' im)"
proof (cases "find_attempt k im")
  case (Some a)
  have push: "find_attempt j (push_control x im) = find_attempt j im" for j x
    by (simp add: find_attempt_def)
  have now: "im_now (push_control x im) = im_now im" for x
    by (rule env_of_eqD) simp
  show ?thesis
    using Some by (auto simp: cancel_attempt_def find_after_fail push now)
qed (simp add: cancel_attempt_def)

lemma cancelled_no_authority:
  "\<not> is_terminal_state (ca_state a) \<Longrightarrow>
     \<not> holds_commit_authority (ca_state (failed_attempt now Err_Cancelled r a))"
  by (cases "ca_state a") (simp_all add: holds_commit_authority_def failed_attempt_def
      failure_target_def is_legal_transition_def)

definition no_authority :: "attempt_id \<Rightarrow> impl \<Rightarrow> bool" where
  "no_authority k im \<longleftrightarrow> (\<forall>a. find_attempt k im = Some a \<longrightarrow> \<not> holds_commit_authority (ca_state a))"

lemma cancel_attempt_no_authority:
  "k = j \<or> no_authority k im \<Longrightarrow> no_authority k (cancel_attempt c r j im)"
  using cancelled_no_authority terminal_no_authority
  by (auto simp: no_authority_def find_after_cancel) metis

lemma cancel_loop_no_authority:
  "k \<in> set ks \<or> no_authority k im \<Longrightarrow> no_authority k (fold (cancel_attempt c r) ks im)"
proof (induction ks arbitrary: im)
  case (Cons j ks)
  have "k \<in> set ks \<or> no_authority k (cancel_attempt c r j im)"
    using Cons.prems cancel_attempt_no_authority [of k j im c r] by auto
  then show ?case using Cons.IH by simp
qed simp

definition lease_gone :: "compilation_record \<Rightarrow> lease_id \<Rightarrow> impl \<Rightarrow> bool" where
  "lease_gone c k im \<longleftrightarrow> (\<forall>l. om_find (cs_leases (im_state im)) k = Some l \<longrightarrow>
     cl_compilation l = cr_id c \<longrightarrow> cl_revoked l)"

lemma cancel_lease_gone:
  "k = j \<or> lease_gone c k im \<Longrightarrow> lease_gone c k (cancel_lease c r j im)"
  by (auto simp: lease_gone_def cancel_lease_def Let_def split: option.split)

lemma cancel_lease_keys:
  "om_find (cs_leases (im_state (cancel_lease c r j im))) k = None \<longleftrightarrow> om_find (cs_leases (im_state im)) k = None"
  by (auto simp: cancel_lease_def Let_def split: option.split)

lemma cancel_loop_leases:
  "k \<in> set ks \<or> lease_gone c k im \<Longrightarrow> lease_gone c k (fold (cancel_lease c r) ks im)"
proof (induction ks arbitrary: im)
  case (Cons j ks)
  have "k \<in> set ks \<or> lease_gone c k (cancel_lease c r j im)"
    using Cons.prems cancel_lease_gone [of k j c im r] by auto
  then show ?case using Cons.IH by simp
qed simp

lemma lease_gone_all:
  "lease_gone c k (fold (cancel_lease c r) (om_keys (cs_leases (im_state im))) im)"
proof (rule cancel_loop_leases)
  show "k \<in> set (om_keys (cs_leases (im_state im))) \<or> lease_gone c k im"
    using om_find_keys [of "cs_leases (im_state im)" k] by (auto simp: lease_gone_def)
qed

text \<open>
  C26: A cancellation leaves nobody with authority.  After an uncommitted compilation has
  been cancelled its record says so, no attempt it lists holds commit authority, every
  lease of the compilation is revoked, and commits and authority are as they were.  A
  committed compilation cannot be cancelled: the call is refused and changes nothing.
\<close>

theorem cancel_leaves_no_authority:
  assumes "im_opened im" "find_compilation i im = Some c"
  shows "let im' = snd (cancel i reason im) in
    if cr_state c = CS_Committed
    then st_code (fst (cancel i reason im)) = Err_ArtifactAlreadyCommitted \<and> im' = im
    else map_option cr_state (find_compilation i im') = Some CS_Cancelled
      \<and> (\<forall>k\<in>set (cr_attempts c). no_authority k im')
      \<and> (\<forall>k. lease_gone c k im')
      \<and> ledger_of im' = ledger_of im"
proof -
  let ?im1 = "fold (cancel_attempt c reason) (cr_attempts c) im"
  define im2 where "im2 = fold (cancel_lease c reason) (om_keys (cs_leases (im_state ?im1))) ?im1"
  have attempts: "cs_attempts (im_state im2) = cs_attempts (im_state ?im1)"
    unfolding im2_def by (rule fold_keeps) simp
  have none: "no_authority k im2" if "k \<in> set (cr_attempts c)" for k
    using cancel_loop_no_authority [of k "cr_attempts c" im c reason] that
    by (simp add: no_authority_def find_attempt_def attempts)
  have gone: "lease_gone c k im2" for k unfolding im2_def by (rule lease_gone_all)
  show ?thesis
  proof (cases "cr_state c = CS_Committed")
    case True
    with assms show ?thesis by (simp add: cancel_def Let_def ensure_open_def error_def)
  next
    case False
    let ?c = "c\<lparr>cr_state := CS_Cancelled, cr_failure := Err_Cancelled,
                 cr_failure_detail := reason, cr_updated_at := im_now im2\<rparr>"
    from False assms have eq: "cancel i reason im = persist (JP_Compilation ?c) (put_compilation i ?c im2)"
      by (simp add: cancel_def Let_def ensure_open_def im2_def)
    have "ledger_of (snd (persist (JP_Compilation ?c) (put_compilation i ?c im2))) = ledger_of im"
      using cancel_frame(1) [of i reason im] unfolding eq .
    with False none gone show ?thesis
      by (simp add: Let_def eq no_authority_def lease_gone_def find_attempt_def find_compilation_def)
  qed
qed

lemma cancel_leaves_no_authority_witness:
  "let im' = snd (cancel (Ident 7) ''stop'' sample_running) in
   map_option cr_state (find_compilation (Ident 7) im') = Some CS_Cancelled
   \<and> no_authority (Ident 1) im' \<and> lease_gone sample_compilation (Ident 1) im'"
proof -
  have "im_opened sample_running" "find_compilation (Ident 7) sample_running = Some sample_compilation"
    by (simp_all add: sample_running_def)
  from cancel_leaves_no_authority [OF this, of "''stop''"] show ?thesis
    by (simp add: Let_def sample_compilation_def)
qed

end
