(* ===== verification/DC_Validate.thy ===== *)
theory DC_Validate
  imports DC_Identity
begin

text \<open>
  Validation of candidate artifacts (\<^verbatim>\<open>src/validate.cpp\<close>): format probes over the produced
  bytes, the target check, and the report.  A compiler's exit code plays no part.
\<close>

section \<open>Byte access\<close>

definition has_prefix :: "bytes \<Rightarrow> bytes \<Rightarrow> bool" where
  "has_prefix bs text = (length bs \<ge> length text \<and> take (length text) bs = text)"

definition read_le16 :: "bytes \<Rightarrow> nat \<Rightarrow> u16" where
  "read_le16 bs offset = ucast (bs ! offset) OR push_bit 8 (ucast (bs ! (offset + 1)))"

definition read_le32 :: "bytes \<Rightarrow> nat \<Rightarrow> u32" where
  "read_le32 bs offset = le_load (take 4 (drop offset bs))"

definition kCoffMachineAmd64 :: u16 where "kCoffMachineAmd64 = 0x8664"
definition kCoffMachineArm64 :: u16 where "kCoffMachineArm64 = 0xAA64"
definition kElfMachineX8664 :: u16 where "kElfMachineX8664 = 0x3E"
definition kElfMachineAarch64 :: u16 where "kElfMachineAarch64 = 0xB7"
definition kElfMachineCuda :: u16 where "kElfMachineCuda = 0xBE"

fun expected_machine_name :: "arch_kind \<Rightarrow> string" where
  "expected_machine_name Arch_X86_64 = ''x86_64''"
| "expected_machine_name Arch_Aarch64 = ''aarch64''"
| "expected_machine_name _ = ''unknown''"

fun expected_coff_machine :: "arch_kind \<Rightarrow> u16" where
  "expected_coff_machine Arch_X86_64 = kCoffMachineAmd64"
| "expected_coff_machine Arch_Aarch64 = kCoffMachineArm64"
| "expected_coff_machine _ = 0"

fun expected_elf_machine :: "arch_kind \<Rightarrow> u16" where
  "expected_elf_machine Arch_X86_64 = kElfMachineX8664"
| "expected_elf_machine Arch_Aarch64 = kElfMachineAarch64"
| "expected_elf_machine _ = 0"

definition printable :: "u8 \<Rightarrow> bool" where
  "printable v = (v = 10 \<or> v = 13 \<or> v = 9 \<or> (v \<ge> 0x20 \<and> v < 0x7F))"

definition looks_like_text :: "bytes \<Rightarrow> bool" where
  "looks_like_text bs =
     (let sample = min (length bs) 4096; n = length (filter printable (take sample bs)) in
      sample > 0 \<and> n * 100 \<ge> sample * 95)"

section \<open>Format probes\<close>

record format_probe =
  fp_recognized :: bool
  fp_description :: string
  fp_machine :: u16
  fp_machine_is_coff :: bool
  fp_machine_is_elf :: bool
  fp_is_pe :: bool
  fp_is_elf :: bool
  fp_is_cubin :: bool

definition no_probe :: format_probe where
  "no_probe = \<lparr>fp_recognized = False, fp_description = [], fp_machine = 0,
     fp_machine_is_coff = False, fp_machine_is_elf = False, fp_is_pe = False, fp_is_elf = False,
     fp_is_cubin = False\<rparr>"

definition machine_hex :: "u16 \<Rightarrow> string" where
  "machine_hex m = map (\<lambda>i. ''0123456789abcdef'' ! unat (drop_bit (i * 4) m AND 0xF)) [3, 2, 1, 0]"

definition probe_pe :: "bytes \<Rightarrow> format_probe" where
  "probe_pe bs =
     (if \<not> has_prefix bs [0x4D, 0x5A] \<or> length bs < 0x40 then no_probe
      else
        (let pe_offset = unat (read_le32 bs 0x3C) in
         if pe_offset > length bs \<or> length bs - pe_offset < 24 then no_probe
         else if take 4 (drop pe_offset bs) \<noteq> [0x50, 0x45, 0, 0] then no_probe
         else
           (let machine = read_le16 bs (pe_offset + 4) in
            no_probe\<lparr>fp_recognized := True, fp_is_pe := True, fp_machine := machine,
              fp_machine_is_coff := True,
              fp_description := ''PE image, machine=0x'' @ machine_hex machine\<rparr>)))"

definition probe_elf :: "bytes \<Rightarrow> format_probe" where
  "probe_elf bs =
     (if \<not> has_prefix bs [0x7F, 0x45, 0x4C, 0x46] \<or> length bs < 20 then no_probe
      else
        (let type = read_le16 bs 16; machine = read_le16 bs 18;
             p = no_probe\<lparr>fp_recognized := True, fp_is_elf := True, fp_machine := machine,
                          fp_machine_is_elf := True\<rparr> in
         if machine = kElfMachineCuda then
           p\<lparr>fp_is_cubin := True, fp_description := ''ELF CUDA device image (cubin)''\<rparr>
         else if type = 1 then p\<lparr>fp_description := ''ELF relocatable object''\<rparr>
         else if type = 2 then p\<lparr>fp_description := ''ELF executable''\<rparr>
         else if type = 3 then p\<lparr>fp_description := ''ELF shared object''\<rparr>
         else p\<lparr>fp_description := ''ELF image type '' @ to_dec (ucast type)\<rparr>))"

definition probe_coff_object :: "bytes \<Rightarrow> format_probe" where
  "probe_coff_object bs =
     (if length bs < 20 then no_probe
      else
        (let machine = read_le16 bs 0; sections = read_le16 bs 2; optional_size = read_le16 bs 16;
             known_machine = (machine = kCoffMachineAmd64 \<or> machine = kCoffMachineArm64
               \<or> machine = 0x14C \<or> machine = 0x1C0 \<or> machine = 0x1C4 \<or> machine = 0xAA64) in
         if \<not> known_machine then no_probe
         else if sections = 0 \<or> sections > 4096 then no_probe
         else if optional_size \<noteq> 0 then no_probe
         else no_probe\<lparr>fp_recognized := True, fp_machine := machine, fp_machine_is_coff := True,
                fp_description := ''COFF object, sections='' @ to_dec (ucast sections)\<rparr>))"

text \<open>\<^verbatim>\<open>text.find(needle) != npos\<close>.\<close>

fun contains_bytes :: "bytes \<Rightarrow> bytes \<Rightarrow> bool" where
  "contains_bytes needle [] = (needle = [])"
| "contains_bytes needle (b # bs) = (has_prefix (b # bs) needle \<or> contains_bytes needle bs)"

definition probe_ptx :: "bytes \<Rightarrow> format_probe" where
  "probe_ptx bs =
     (if \<not> looks_like_text bs then no_probe
      else
        (let text = take 512 bs in
         if contains_bytes (map char_byte ''.version'') text
            \<or> contains_bytes (map char_byte ''.target'') text
            \<or> has_prefix text (map char_byte ''//'')
         then no_probe\<lparr>fp_recognized := True, fp_description := ''PTX text module''\<rparr>
         else no_probe))"

definition probe_format :: "bytes \<Rightarrow> format_probe" where
  "probe_format bs =
     (if bs = [] then no_probe
      else if fp_recognized (probe_pe bs) then probe_pe bs
      else if fp_recognized (probe_elf bs) then probe_elf bs
      else if fp_recognized (probe_coff_object bs) then probe_coff_object bs
      else probe_ptx bs)"

section \<open>The target check\<close>

text \<open>The match and the detail that explains a mismatch.\<close>

definition machine_matches_target :: "format_probe \<Rightarrow> target_identity \<Rightarrow> bool \<times> string" where
  "machine_matches_target p target =
     (let expected_coff = expected_coff_machine (tg_arch target);
          expected_elf = expected_elf_machine (tg_arch target) in
      if fp_machine_is_coff p \<and> fp_is_pe p then
        (if expected_coff = 0 then (False, ''no expected COFF machine for target architecture'')
         else if fp_machine p \<noteq> expected_coff then
           (False, ''PE machine 0x'' @ to_dec (ucast (fp_machine p)) @ '' does not match target '' @
              expected_machine_name (tg_arch target))
         else (True, []))
      else if fp_machine_is_coff p then
        (if fp_machine p = 0x14C then (True, [])
         else if expected_coff = 0 then (False, ''no expected COFF machine for target architecture'')
         else if fp_machine p \<noteq> expected_coff then
           (False, ''COFF machine does not match target '' @ expected_machine_name (tg_arch target))
         else (True, []))
      else if fp_machine_is_elf p then
        (if fp_is_cubin p then (True, [])
         else if expected_elf = 0 then (False, ''no expected ELF machine for target architecture'')
         else if fp_machine p \<noteq> expected_elf then
           (False, ''ELF machine does not match target '' @ expected_machine_name (tg_arch target))
         else (True, []))
      else (True, []))"

section \<open>The report\<close>

definition check :: "string \<Rightarrow> bool \<Rightarrow> string \<Rightarrow> validation_check" where
  "check name passed detail = \<lparr>vc_check = name, vc_outcome = (if passed then VO_Pass else VO_Fail),
     vc_detail = detail\<rparr>"

definition format_check :: "bytes \<Rightarrow> format_probe \<Rightarrow> output_kind \<Rightarrow> target_identity \<Rightarrow> bool \<times> string" where
  "format_check bs p kind target =
     (if kind = OK_Executable \<or> kind = OK_DynamicLibrary then
        (if tg_os target = Os_Windows then
           (fp_is_pe p, if fp_is_pe p then fp_description p
                        else ''expected a PE image for a Windows target'')
         else
           (let ok = (fp_is_elf p \<and> \<not> fp_is_cubin p) in
            (ok, if ok then fp_description p else ''expected an ELF image for the target OS'')))
      else if kind = OK_Object then
        (if tg_object_format target = OF_Coff then
           (let ok = (fp_machine_is_coff p \<and> \<not> fp_is_pe p) in
            (ok, if ok then fp_description p else ''expected a COFF object''))
         else if tg_object_format target = OF_Elf then
           (let ok = (fp_is_elf p \<and> \<not> fp_is_cubin p) in
            (ok, if ok then fp_description p else ''expected an ELF object''))
         else
           (let ok = (fp_machine_is_coff p \<or> fp_is_elf p) in
            (ok, if ok then fp_description p else ''expected an object file'')))
      else if kind = OK_StaticLibrary then
        (let ok = has_prefix bs [0x21, 0x3C, 0x61, 0x72, 0x63, 0x68, 0x3E, 0x0A] in
         (ok, if ok then ''COFF/ELF archive''
              else ''expected an archive ('' @ quoted ''!<arch>'' @ '')''))
      else if kind = OK_Cubin then
        (fp_is_cubin p, if fp_is_cubin p then fp_description p
                        else ''expected an ELF CUDA device image'')
      else if kind = OK_Ptx then
        (let ok = (fp_recognized p \<and> looks_like_text bs) in
         (ok, if ok then fp_description p else ''expected PTX text''))
      else
        (let ok = looks_like_text bs in
         (ok, if ok then ''text output'' else ''expected text output'')))"

definition target_check :: "format_probe \<Rightarrow> output_kind \<Rightarrow> target_identity \<Rightarrow> validation_check" where
  "target_check p kind target =
     (if kind = OK_Assembly \<or> kind = OK_PreprocessedSource then
        check ''target_metadata'' True
          ''not applicable: text output carries no embedded target metadata''
      else if fp_recognized p then
        (let (matches, detail) = machine_matches_target p target in
         check ''target_metadata'' matches (if matches then fp_description p else detail))
      else \<lparr>vc_check = ''target_metadata'', vc_outcome = VO_Unknown,
             vc_detail = ''artifact format was not recognised, so target metadata could not be checked''\<rparr>)"

definition digest_check :: "bytes \<Rightarrow> digest256 \<Rightarrow> validation_check" where
  "digest_check bs expected =
     (if digest_is_zero expected then check ''digest'' False ''expected digest is absent''
      else if sha256 bs \<noteq> expected then
        check ''digest'' False ''artifact digest does not match the declared digest''
      else check ''digest'' True (digest_hex (sha256 bs)))"

definition validation_checks ::
    "bytes \<Rightarrow> output_kind \<Rightarrow> target_identity \<Rightarrow> validation_requirements \<Rightarrow> digest256 \<Rightarrow> validation_check list" where
  "validation_checks bs kind target req expected =
     (let p = probe_format bs in
      [check ''existence'' (bs \<noteq> []) (if bs = [] then ''artifact is empty'' else ''artifact present'')]
      @ (if vr_require_digest_check req then [digest_check bs expected] else [])
      @ (if vr_require_format_check req
         then [check ''format'' (fst (format_check bs p kind target)) (snd (format_check bs p kind target))]
         else [])
      @ (if vr_require_target_metadata req then [target_check p kind target] else [])
      @ (if vr_require_dependency_metadata req
         then [check ''dependency_metadata'' (bs \<noteq> [])
                (if bs = [] then ''no artifact to inspect'' else ''dependency binding recorded in provenance'')]
         else []))"

text \<open>The loop over the checks: fail dominates, unknown replaces pass.\<close>

fun aggregate_step :: "validation_outcome \<Rightarrow> validation_check \<Rightarrow> validation_outcome" where
  "aggregate_step agg c =
     (if vc_outcome c = VO_Fail then VO_Fail
      else if vc_outcome c = VO_Unknown then (if agg = VO_Pass then VO_Unknown else agg)
      else agg)"

definition aggregate_checks :: "validation_check list \<Rightarrow> validation_outcome" where
  "aggregate_checks cs = foldl aggregate_step VO_Pass cs"

definition validate_artifact_bytes ::
    "bytes \<Rightarrow> output_kind \<Rightarrow> target_identity \<Rightarrow> validation_requirements \<Rightarrow> digest256 \<Rightarrow> validation_report" where
  "validate_artifact_bytes bs kind target req expected =
     (let cs = validation_checks bs kind target req expected in
      \<lparr>vp_id = Ident 0, vp_checks = cs, vp_aggregate = aggregate_checks cs,
       vp_summary = ''checks='' @ to_dec (of_nat (length cs)) @
         '' failures='' @ to_dec (of_nat (length (filter (\<lambda>c. vc_outcome c = VO_Fail) cs))) @
         '' unknown='' @ to_dec (of_nat (length (filter (\<lambda>c. vc_outcome c = VO_Unknown) cs)))\<rparr>)"

section \<open>What a passing report means\<close>

lemma aggregate_foldl:
  "foldl aggregate_step a cs =
     (if a = VO_Fail \<or> (\<exists>c\<in>set cs. vc_outcome c = VO_Fail) then VO_Fail
      else if a = VO_Unknown \<or> (\<exists>c\<in>set cs. vc_outcome c = VO_Unknown) then VO_Unknown
      else VO_Pass)"
proof (induction cs arbitrary: a)
  case Nil
  show ?case by (cases a) simp_all
next
  case (Cons c cs)
  show ?case
    unfolding foldl_Cons Cons.IH by (cases a; cases "vc_outcome c") simp_all
qed

lemma aggregate_pass: "aggregate_checks cs = VO_Pass \<longleftrightarrow> (\<forall>c\<in>set cs. vc_outcome c = VO_Pass)"
proof -
  have "vc_outcome c = VO_Pass \<longleftrightarrow> vc_outcome c \<noteq> VO_Fail \<and> vc_outcome c \<noteq> VO_Unknown" for c
    by (cases "vc_outcome c") simp_all
  then show ?thesis by (auto simp: aggregate_checks_def aggregate_foldl)
qed

lemma check_pass [simp]: "vc_outcome (check n p d) = VO_Pass \<longleftrightarrow> p"
  by (simp add: check_def)

text \<open>
  A report passes only on evidence.  If the aggregate is PASS then the artifact is not
  empty; where the request asks for the digest check, the bytes hash to the expected,
  non-zero digest; where it asks for the format check, the bytes have the format of the
  output kind on that target; and where it asks for the target check on a binary output,
  the format was recognised and its machine field accepted.  Unknown never counts as pass.
\<close>

theorem validation_pass_means:
  "vp_aggregate (validate_artifact_bytes bs kind target req expected) = VO_Pass \<longleftrightarrow>
     bs \<noteq> []
     \<and> (vr_require_digest_check req \<longrightarrow> \<not> digest_is_zero expected \<and> sha256 bs = expected)
     \<and> (vr_require_format_check req \<longrightarrow> fst (format_check bs (probe_format bs) kind target))
     \<and> (vr_require_target_metadata req \<longrightarrow>
          kind = OK_Assembly \<or> kind = OK_PreprocessedSource
          \<or> fp_recognized (probe_format bs)
            \<and> fst (machine_matches_target (probe_format bs) target))"
proof -
  have digest: "vc_outcome (digest_check bs expected) = VO_Pass \<longleftrightarrow>
      \<not> digest_is_zero expected \<and> sha256 bs = expected"
    by (simp add: digest_check_def check_def)
  have target: "vc_outcome (target_check p kind target) = VO_Pass \<longleftrightarrow>
      kind = OK_Assembly \<or> kind = OK_PreprocessedSource
      \<or> fp_recognized p \<and> fst (machine_matches_target p target)" for p
    by (simp add: target_check_def split: prod.split)
  have opt: "(\<forall>c\<in>set (if b then [x] else []). vc_outcome c = VO_Pass) \<longleftrightarrow> (b \<longrightarrow> vc_outcome x = VO_Pass)"
    for b x by simp
  have dep: "vr_require_dependency_metadata req \<longrightarrow> bs \<noteq> [] \<longleftrightarrow> True" if "bs \<noteq> []" using that by simp
  show ?thesis
    unfolding validate_artifact_bytes_def Let_def validation_report.simps aggregate_pass
      validation_checks_def set_append ball_Un opt digest target check_pass
    by (cases "bs = []") simp_all
qed

theorem validation_pass_means_witness:
  "vp_aggregate (validate_artifact_bytes [0x61] OK_Assembly sample_target
     \<lparr>vr_require_format_check = True, vr_require_digest_check = False,
      vr_require_target_metadata = True, vr_require_dependency_metadata = False,
      vr_require_smoke_test = False, vr_smoke_expected_stdout = [], vr_smoke_timeout_ms = 0\<rparr> 0) = VO_Pass"
  unfolding validation_pass_means
  by (simp add: format_check_def looks_like_text_def printable_def)

text \<open>
  The comment next to the COFF test says that x86 objects are accepted only for x86
  targets.  The code accepts them for every target: a 32-bit x86 COFF object passes format
  and target validation of an x86_64 request.
\<close>

theorem x86_object_accepted_for_x86_64:
  "vp_aggregate (validate_artifact_bytes
     ([0x4C, 0x01, 0x01, 0x00] @ replicate 16 0) OK_Object
     (sample_target\<lparr>tg_arch := Arch_X86_64, tg_object_format := OF_Coff\<rparr>)
     \<lparr>vr_require_format_check = True, vr_require_digest_check = False,
      vr_require_target_metadata = True, vr_require_dependency_metadata = True,
      vr_require_smoke_test = False, vr_smoke_expected_stdout = [], vr_smoke_timeout_ms = 0\<rparr> 0)
   = VO_Pass"
  by code_simp

end
