(* ===== verification/DC_Commit.thy ===== *)
theory DC_Commit
  imports DC_Failure DC_Schedule DC_Validate DC_Ledger
begin

text \<open>
  The commit transaction (\<^verbatim>\<open>src/coordinator_tx.cpp\<close>, lines 1206 to 1634): a worker's
  report is reserved under the lock, validated and stored outside it, and committed under
  the lock after its authority has been checked a second time.
\<close>

section \<open>Reports and decisions\<close>

record report =
  ro_claim :: authority_claim
  ro_kind :: output_kind
  ro_logical_name :: string
  ro_bytes :: bytes
  ro_declared_digest :: digest256
  ro_worker_validation :: validation_report
  ro_compiler_invocation :: string
  ro_compiler_version_string :: string
  ro_compiler_wall_millis :: u64
  ro_exit_code :: int

datatype commit_outcome = CO_Committed | CO_Deduplicated | CO_Refused | CO_ReproducibilityViolation

fun commit_outcome_string :: "commit_outcome \<Rightarrow> string" where
  "commit_outcome_string CO_Committed = ''COMMITTED''"
| "commit_outcome_string CO_Deduplicated = ''DEDUPLICATED''"
| "commit_outcome_string CO_Refused = ''REFUSED''"
| "commit_outcome_string CO_ReproducibilityViolation = ''REPRODUCIBILITY_VIOLATION''"

record commit_decision =
  dn_outcome :: commit_outcome
  dn_error :: error_code
  dn_detail :: string
  dn_commit :: artifact_commit
  dn_validation :: validation_report
  dn_artifact_authoritative :: bool

text \<open>Default-constructed values.\<close>

definition no_commit :: artifact_commit where
  "no_commit = \<lparr>ac_id = Ident 0, ac_generation = Gen 0, ac_compilation = Ident 0,
     ac_compilation_generation = Gen 0, ac_unit = Ident 0, ac_artifact = Ident 0,
     ac_artifact_generation = Gen 0, ac_artifact_digest = 0, ac_provenance = Ident 0,
     ac_validation = Ident 0, ac_epoch = Gen 0, ac_worker = Ident 0, ac_worker_boot = Ident 0,
     ac_attempt = Ident 0, ac_committed_at = 0, ac_deduplicated = False, ac_superseded = False\<rparr>"

definition no_report :: validation_report where
  "no_report = \<lparr>vp_id = Ident 0, vp_checks = [], vp_aggregate = VO_Unknown, vp_summary = []\<rparr>"

definition no_decision :: commit_decision where
  "no_decision = \<lparr>dn_outcome = CO_Refused, dn_error = Err_Ok, dn_detail = [], dn_commit = no_commit,
     dn_validation = no_report, dn_artifact_authoritative = False\<rparr>"

definition no_target :: target_identity where
  "no_target = \<lparr>tg_id = Ident 0, tg_generation = Gen 0, tg_os = Os_Unknown, tg_arch = Arch_Unknown,
     tg_abi = Abi_Unknown, tg_triple = [], tg_object_format = OF_Unknown, tg_stdlib = SL_Unknown,
     tg_runtime_abi = [], tg_accelerator = \<lparr>at_vendor = AV_None, at_architecture = [],
       at_compute_major = 0, at_compute_minor = 0, at_isa = [], at_device_runtime = []\<rparr>,
     tg_evidence = EC_Unknown, tg_identity_digest = 0\<rparr>"

definition default_validation :: validation_requirements where
  "default_validation = \<lparr>vr_require_format_check = True, vr_require_digest_check = True,
     vr_require_target_metadata = True, vr_require_dependency_metadata = False,
     vr_require_smoke_test = False, vr_smoke_expected_stdout = [], vr_smoke_timeout_ms = 30000\<rparr>"

section \<open>Job progress\<close>

text \<open>The loop over the units: every unit that has an identity must be done.\<close>

definition job_done :: "impl \<Rightarrow> job_record \<Rightarrow> bool" where
  "job_done im job = list_all (\<lambda>u. id_is_zero u \<or>
     (case find_compilation u im of
        None \<Rightarrow> False
      | Some r \<Rightarrow> cr_state r = CS_Committed \<or> cr_state r = CS_CacheHit)) (jr_units job)"

text \<open>
  \<^verbatim>\<open>units[root_index]\<close> is unchecked in the code.  \<^verbatim>\<open>submit\<close> is the only operation that
  stores a root index, always 0, so it is in range whenever the list is not empty.
\<close>

definition mark_job_progress :: "compilation_record \<Rightarrow> impl \<Rightarrow> impl" where
  "mark_job_progress c im =
     (case om_find (cs_jobs (im_state im)) (cr_request_identity c) of
        None \<Rightarrow> im
      | Some job \<Rightarrow>
         (let all = job_done im job;
              job1 = job\<lparr>jr_committed := all\<rparr>;
              job2 = (if all then job1\<lparr>jr_committed_unit := (if jr_units job = [] then Ident 0
                        else jr_units job ! unat (jr_root_index job))\<rparr> else job1)
          in persist_void (JP_Job job2) (put_job (cr_request_identity c) job2 im)))"

section \<open>The commit\<close>

text \<open>Each branch of \<^verbatim>\<open>commit_locked\<close> is one definition; the keys are those of the claim.\<close>

definition refuse_invalid ::
    "authority_claim \<Rightarrow> compilation_attempt \<Rightarrow> compilation_record \<Rightarrow> validation_report \<Rightarrow> impl
      \<Rightarrow> commit_decision res \<times> impl" where
  "refuse_invalid claim a c validation im =
     (let detail = ''candidate artifact failed validation: '' @ vp_summary validation;
          im1 = snd (fail_attempt_locked (au_attempt claim) a Err_ValidationFailure detail im);
          c1 = c\<lparr>cr_state := CS_Failed, cr_failure := Err_ValidationFailure,
                 cr_failure_detail := detail, cr_updated_at := im_now im\<rparr>
      in (Inr (no_decision\<lparr>dn_outcome := CO_Refused, dn_error := Err_ValidationFailure,
                dn_detail := detail, dn_validation := validation\<rparr>),
          persist_void (JP_Compilation c1) (put_compilation (au_compilation claim) c1 im1)))"

text \<open>The attempt walks Produced, Validating, CommitReady, Committed.\<close>

definition walk_to_committed :: "compilation_attempt \<Rightarrow> status \<times> compilation_attempt" where
  "walk_to_committed a =
     (let (m1, a1) = (if ca_state a = AS_Produced then transition_attempt a AS_Validating
                      else (success, a));
          (m2, a2) = (if st_ok m1 \<and> ca_state a1 = AS_Validating
                      then transition_attempt a1 AS_CommitReady else (m1, a1))
      in if st_ok m2 then transition_attempt a2 AS_Committed else (m2, a2))"

definition commit_duplicate ::
    "authority_claim \<Rightarrow> compilation_attempt \<Rightarrow> compilation_record \<Rightarrow> artifact_commit
      \<Rightarrow> validation_report \<Rightarrow> impl \<Rightarrow> commit_decision res \<times> impl" where
  "commit_duplicate claim a c prior validation im =
     (let (moved, a1) = walk_to_committed a in
      if \<not> st_ok moved then
        (Inl moved, snd (fail_attempt_locked (au_attempt claim) a1 Err_IllegalTransition
                           (st_detail moved) (put_attempt (au_attempt claim) a1 im)))
      else
        (let a2 = a1\<lparr>ca_failure := Err_Ok, ca_failure_detail :=
                    ''deduplicated into authoritative commit '' @ to_dec (id_value (ac_id prior))\<rparr>;
             (a3, im1) = finish_attempt_bookkeeping a2 im;
             im2 = persist_void (JP_Attempt a3) (put_attempt (au_attempt claim) a3 im1);
             c1 = c\<lparr>cr_state := CS_Committed, cr_updated_at := im_now im\<rparr>;
             im3 = (if cr_state c \<noteq> CS_Committed
                    then persist_void (JP_Compilation c1) (put_compilation (au_compilation claim) c1 im2)
                    else im2)
         in (Inr (no_decision\<lparr>dn_outcome := CO_Deduplicated, dn_commit := prior,
                   dn_validation := validation, dn_artifact_authoritative := True,
                   dn_detail := ''equivalent candidate deduplicated onto the existing authoritative commit''\<rparr>),
             im3)))"

definition commit_divergent ::
    "authority_claim \<Rightarrow> compilation_attempt \<Rightarrow> compilation_record \<Rightarrow> impl
      \<Rightarrow> commit_decision res \<times> impl" where
  "commit_divergent claim a c im =
     (let c1 = c\<lparr>cr_divergent_candidates := cr_divergent_candidates c @
                 [\<lparr>rf_digest = rf_digest (ca_candidate a), rf_size = rf_size (ca_candidate a)\<rparr>]\<rparr> in
      if cr_reproducibility c = RR_Required then
        (let c2 = c1\<lparr>cr_reproducibility_violation := True\<rparr>;
             detail = ''reproducibility is REQUIRED but two workers produced different digests for one '' @
                      ''logical compilation'';
             im1 = snd (fail_attempt_locked (au_attempt claim) a Err_ReproducibilityViolation detail
                      (put_compilation (au_compilation claim) c2 im))
         in (Inr (no_decision\<lparr>dn_outcome := CO_ReproducibilityViolation,
                   dn_error := Err_ReproducibilityViolation, dn_detail := detail\<rparr>),
             persist_void (JP_Compilation c2) im1))
      else
        (let detail = ''candidate digest differs from the authoritative artifact; refusing to select a winner '' @
                      ''silently'';
             im1 = snd (fail_attempt_locked (au_attempt claim) a Err_ArtifactMismatch detail
                      (put_compilation (au_compilation claim) c1 im))
         in (Inr (no_decision\<lparr>dn_outcome := CO_Refused, dn_error := Err_ArtifactMismatch,
                   dn_detail := detail\<rparr>),
             persist_void (JP_Compilation c1) im1)))"

subsection \<open>The first commit\<close>

definition provenance_for ::
    "impl \<Rightarrow> compilation_record \<Rightarrow> compilation_attempt \<Rightarrow> validation_id \<Rightarrow> provenance_id \<Rightarrow> provenance" where
  "provenance_for im c a validation i =
     \<lparr>pv_id = i, pv_generation = Gen 1, pv_compilation = cr_id c,
      pv_compilation_generation = cr_generation c, pv_unit = cr_unit c, pv_attempt = ca_id a,
      pv_attempt_generation = ca_generation a, pv_epoch = hd_epoch (header im),
      pv_worker = ca_worker a, pv_worker_boot = ca_worker_boot a,
      pv_worker_generation = ca_worker_generation a, pv_lease = ca_lease a,
      pv_lease_generation = ca_lease_generation a, pv_request_id = cr_request_id c,
      pv_request_identity = cr_request_identity c, pv_unit_identity = cr_unit_identity c,
      pv_artifact = \<lparr>rf_digest = rf_digest (ca_candidate a), rf_size = rf_size (ca_candidate a)\<rparr>,
      pv_source_identity = cr_source_identity c, pv_ir_identity = 0,
      pv_dependency_identity = cr_dependency_identity c,
      pv_toolchain_identity = cr_toolchain_identity c, pv_target_identity = cr_target_identity c,
      pv_specialization_identity = cr_specialization_identity c,
      pv_policy_identity = cr_policy_identity c, pv_validation = validation, pv_evidence = EC_Real,
      pv_compiler_invocation = ca_compiler_invocation a,
      pv_compiler_version_string = ca_compiler_version_string a,
      pv_compiler_wall_millis = ca_compiler_wall_millis a, pv_produced_at = im_now im\<rparr>"

definition commit_for ::
    "impl \<Rightarrow> compilation_record \<Rightarrow> compilation_attempt \<Rightarrow> validation_id \<Rightarrow> provenance_id
      \<Rightarrow> artifact_id \<Rightarrow> commit_id \<Rightarrow> artifact_commit" where
  "commit_for im c a validation prov artifact i =
     \<lparr>ac_id = i, ac_generation = Gen 1, ac_compilation = cr_id c,
      ac_compilation_generation = cr_generation c, ac_unit = cr_unit c, ac_artifact = artifact,
      ac_artifact_generation = Gen 1, ac_artifact_digest = rf_digest (ca_candidate a),
      ac_provenance = prov, ac_validation = validation, ac_epoch = hd_epoch (header im),
      ac_worker = ca_worker a, ac_worker_boot = ca_worker_boot a, ac_attempt = ca_id a,
      ac_committed_at = im_now im, ac_deduplicated = False, ac_superseded = False\<rparr>"

text \<open>An object file is also kept as an intermediate, bound to its unit identity.\<close>

definition record_intermediate ::
    "compilation_record \<Rightarrow> compilation_attempt \<Rightarrow> provenance \<Rightarrow> impl \<Rightarrow> impl" where
  "record_intermediate c a prov im =
     (if cr_output_kind c \<noteq> OK_Object then im
      else
        (let i = Ident (hd_next_intermediate_id (header im));
             im1 = upd_header (\<lambda>h. h\<lparr>hd_next_intermediate_id := hd_next_intermediate_id h + 1\<rparr>) im;
             x = \<lparr>ia_id = i, ia_generation = Gen 1, ia_kind = IK_ObjectFile,
                  ia_content = \<lparr>rf_digest = rf_digest (ca_candidate a), rf_size = rf_size (ca_candidate a)\<rparr>,
                  ia_provenance_identity = pv_unit_identity prov,
                  ia_toolchain_identity = cr_toolchain_identity c,
                  ia_target_identity = cr_target_identity c,
                  ia_dependency_identity = cr_dependency_identity c, ia_compilation = cr_id c,
                  ia_compilation_generation = cr_generation c, ia_authoritative = True\<rparr>;
             im2 = upd_state (\<lambda>s. s\<lparr>cs_intermediates := om_put i x (cs_intermediates s)\<rparr>) im1
         in persist_void (JP_Intermediate x) im2))"

definition commit_control ::
    "session_id \<Rightarrow> compilation_record \<Rightarrow> compilation_attempt \<Rightarrow> artifact_commit \<Rightarrow> control_message" where
  "commit_control session c a commit =
     \<lparr>cx_session = session, cx_kind = CK_CommitNotification, cx_compilation = cr_id c,
      cx_compilation_generation = cr_generation c, cx_attempt = ca_id a,
      cx_attempt_generation = ca_generation a, cx_lease = Ident 0, cx_lease_generation = Gen 0,
      cx_commit = ac_id commit, cx_artifact_digest = ac_artifact_digest commit, cx_reason = []\<rparr>"

text \<open>Authority: the four tables written together.\<close>

definition install_commit ::
    "validation_report \<Rightarrow> provenance \<Rightarrow> artifact_commit \<Rightarrow> compilation_id \<Rightarrow> impl \<Rightarrow> impl" where
  "install_commit validation prov commit i = upd_state (\<lambda>s. s\<lparr>
     cs_validations := om_put (vp_id validation) validation (cs_validations s),
     cs_provenances := om_put (pv_id prov) prov (cs_provenances s),
     cs_commits := om_put (ac_id commit) commit (cs_commits s),
     cs_authoritative := om_put i (ac_id commit) (cs_authoritative s)\<rparr>)"

text \<open>What follows once authority is installed.\<close>

definition publish_commit ::
    "session_id \<Rightarrow> worker_id \<Rightarrow> compilation_attempt \<Rightarrow> compilation_record \<Rightarrow> validation_report
      \<Rightarrow> provenance \<Rightarrow> artifact_commit \<Rightarrow> impl \<Rightarrow> commit_decision res \<times> impl" where
  "publish_commit session worker a c validation prov commit im =
     (let im1 = record_intermediate c a prov im;
          im2 = record_cache_entry c commit prov im1;
          im3 = mark_job_progress c im2;
          im4 = enqueue_cancel_losers c (ca_id a) im3;
          im5 = persist_void (JP_Provenance prov) (persist_void (JP_Validation validation) im4);
          (commit_persisted, im6) = persist (JP_Commit commit) im5 in
      if \<not> st_ok commit_persisted then (Inl commit_persisted, im6)
      else
        (let im7 = persist_void (JP_Compilation c) (persist_void (JP_Attempt a) im6);
             im8 = push_control (commit_control session c a commit) (persist_worker worker im7)
         in (Inr (no_decision\<lparr>dn_outcome := CO_Committed, dn_commit := commit,
                   dn_validation := validation, dn_artifact_authoritative := True,
                   dn_detail := ''authoritative artifact committed''\<rparr>), im8)))"

text \<open>The three handles and the artifact identity are taken from the counters.\<close>

definition take_commit_ids :: "impl \<Rightarrow> impl" where
  "take_commit_ids = upd_header (\<lambda>h. h\<lparr>hd_next_provenance_id := hd_next_provenance_id h + 1,
     hd_next_artifact_id := hd_next_artifact_id h + 1, hd_next_commit_id := hd_next_commit_id h + 1\<rparr>)"

definition commit_first ::
    "session_id \<Rightarrow> worker_id \<Rightarrow> authority_claim \<Rightarrow> compilation_attempt \<Rightarrow> compilation_record
      \<Rightarrow> validation_report \<Rightarrow> impl \<Rightarrow> commit_decision res \<times> impl" where
  "commit_first session worker claim a c validation im =
    (let (moved, a1) = transition_attempt a AS_Validating in
     if \<not> st_ok moved then (Inl moved, im) else
     let h = header im;
         vid = Ident (hd_next_validation_id h); pid = Ident (hd_next_provenance_id h);
         aid = Ident (hd_next_artifact_id h); mid = Ident (hd_next_commit_id h);
         stored = validation\<lparr>vp_id := vid\<rparr>;
         prov = provenance_for im c a1 vid pid;
         commit = commit_for im c a1 vid pid aid mid;
         im1 = take_commit_ids (upd_state (\<lambda>s. s\<lparr>cs_validations := om_put vid stored (cs_validations s)\<rparr>)
                 (upd_header (\<lambda>h. h\<lparr>hd_next_validation_id := hd_next_validation_id h + 1\<rparr>) im));
         c1 = c\<lparr>cr_state := CS_Validating, cr_updated_at := im_now im\<rparr>;
         (moved2, a2) = transition_attempt (a1\<lparr>ca_artifact := aid\<rparr>) AS_CommitReady in
     if \<not> st_ok moved2 then
       (Inl moved2, put_compilation (au_compilation claim) c1 (put_attempt (au_attempt claim) a2 im1)) else
     let (moved3, a3) = transition_attempt a2 AS_Committed in
     if \<not> st_ok moved3 then
       (Inl moved3, put_compilation (au_compilation claim) (c1\<lparr>cr_state := CS_CommitReady\<rparr>)
                      (put_attempt (au_attempt claim) a3 im1)) else
     let c2 = c1\<lparr>cr_state := CS_Committed, cr_commit := Some commit, cr_failure := Err_Ok,
                 cr_failure_detail := [], cr_updated_at := im_now im\<rparr>;
         (a4, im2) = finish_attempt_bookkeeping a3 im1;
         im3 = install_commit stored prov commit (cr_id c)
                 (put_compilation (au_compilation claim) c2 (put_attempt (au_attempt claim) a4 im2))
     in publish_commit session worker a4 c2 stored prov commit im3)"

definition commit_locked ::
    "session_id \<Rightarrow> report \<Rightarrow> validation_report \<Rightarrow> impl \<Rightarrow> commit_decision res \<times> impl" where
  "commit_locked session output validation im =
    (let claim = ro_claim output in
     case (find_attempt (au_attempt claim) im, find_compilation (au_compilation claim) im) of
       (Some a, Some c) \<Rightarrow>
         (let worker = (case find_session session im of None \<Rightarrow> ca_worker a | Some s \<Rightarrow> ss_worker s);
              prior = (case om_find (cs_authoritative (im_state im)) (cr_id c) of
                         None \<Rightarrow> None
                       | Some m \<Rightarrow>
                          (case om_find (cs_commits (im_state im)) m of
                             None \<Rightarrow> None
                           | Some k \<Rightarrow> if ac_superseded k then None else Some k)) in
          if digest_is_zero (rf_digest (ca_candidate a)) then
            (Inl (error Err_IntegrityFailure ''candidate digest is absent''), im)
          else if vp_aggregate validation \<noteq> VO_Pass then refuse_invalid claim a c validation im
          else case prior of
            Some k \<Rightarrow>
              if ac_artifact_digest k = rf_digest (ca_candidate a)
              then commit_duplicate claim a c k validation im
              else commit_divergent claim a c im
          | None \<Rightarrow> commit_first session worker claim a c validation im)
     | _ \<Rightarrow> (Inl (error Err_StaleAttempt ''attempt or compilation vanished''), im))"

section \<open>The report\<close>

record reservation =
  rv_candidate_digest :: digest256
  rv_target :: target_identity
  rv_requirements :: validation_requirements
  rv_output_kind :: output_kind

definition reservation_for :: "impl \<Rightarrow> report \<Rightarrow> compilation_record \<Rightarrow> digest256 \<Rightarrow> reservation" where
  "reservation_for im output c candidate =
     (case find_request (cr_request_identity c) im of
        None \<Rightarrow> \<lparr>rv_candidate_digest = candidate, rv_target = no_target,
                 rv_requirements = default_validation, rv_output_kind = OK_Object\<rparr>
      | Some request \<Rightarrow>
          \<lparr>rv_candidate_digest = candidate, rv_target = rq_target request,
           rv_requirements = rq_validation request,
           rv_output_kind = (case find_unit request (cr_unit_index c) of
              None \<Rightarrow> ro_kind output | Some u \<Rightarrow> un_output_kind u)\<rparr>)"

text \<open>
  Phase 1, under the lock.  The gate holds the refusals, which change nothing beyond a
  recorded violation; the reservation is what an accepted report changes.
\<close>

definition report_gate ::
    "session_id \<Rightarrow> report \<Rightarrow> impl \<Rightarrow> status \<times> impl + compilation_attempt \<times> compilation_record" where
  "report_gate session_id output im =
    (let claim = ro_claim output in
     if \<not> st_ok (ensure_open im) then Inl (ensure_open im, im) else
     case find_attempt (au_attempt claim) im of
       None \<Rightarrow> Inl (error Err_StaleAttempt ''unknown attempt'',
         record_violation ''report_output'' Err_StaleAttempt session_id (Ident 0)
           ''report for an unknown attempt'' im)
     | Some a \<Rightarrow>
     case find_compilation (au_compilation claim) im of
       None \<Rightarrow> Inl (error Err_StaleCompilation ''unknown compilation'', im)
     | Some c \<Rightarrow>
     case find_session session_id im of
       None \<Rightarrow> Inl (error Err_Unauthorized ''session is not a worker session'', im)
     | Some s \<Rightarrow>
     if \<not> ss_is_worker s then Inl (error Err_Unauthorized ''session is not a worker session'', im)
     else if ss_worker s \<noteq> ca_worker a \<or> ss_boot s \<noteq> ca_worker_boot a then
       Inl (error Err_StaleWorkerBoot ''session does not own this attempt'',
         record_violation ''report_output'' Err_StaleWorkerBoot session_id (ss_worker s)
           ''report from a session that does not own the attempt'' im)
     else let authority = validate_authority claim (expectation_for im c a) in
     if \<not> st_ok authority then
       Inl (authority, record_violation ''report_output'' (st_code authority) session_id
         (ss_worker s) (st_detail authority) im)
     else if ca_state a \<noteq> AS_Running \<and> ca_state a \<noteq> AS_Preparing then
       Inl (error Err_StaleAttempt (''attempt is in state '' @ attempt_state_string (ca_state a)), im)
     else if length (ro_bytes output) > unat (cg_max_artifact_bytes (im_config im)) then
       Inl (error Err_LimitExceeded ''reported artifact exceeds the configured bound'', im)
     else if \<not> digest_is_zero (ro_declared_digest output) \<and> sha256 (ro_bytes output) \<noteq> ro_declared_digest output
     then Inl (error Err_IntegrityFailure ''reported artifact does not match its declared digest'', im)
     else Inr (a, c))"

definition with_candidate :: "report \<Rightarrow> compilation_attempt \<Rightarrow> compilation_attempt" where
  "with_candidate output a =
     a\<lparr>ca_candidate := \<lparr>rf_digest = sha256 (ro_bytes output), rf_size = of_nat (length (ro_bytes output))\<rparr>,
       ca_candidate_digest := sha256 (ro_bytes output),
       ca_compiler_invocation := ro_compiler_invocation output,
       ca_compiler_version_string := ro_compiler_version_string output,
       ca_compiler_wall_millis := ro_compiler_wall_millis output\<rparr>"

text \<open>A compilation that holds an authoritative commit is not dragged back to Producing.\<close>

definition producing :: "impl \<Rightarrow> compilation_record \<Rightarrow> compilation_record" where
  "producing im c =
     (if cr_state c \<noteq> CS_Committed \<and> om_find (cs_authoritative (im_state im)) (cr_id c) = None
      then c\<lparr>cr_state := CS_Producing, cr_updated_at := im_now im\<rparr> else c\<lparr>cr_updated_at := im_now im\<rparr>)"

definition reserve_attempt ::
    "report \<Rightarrow> compilation_attempt \<Rightarrow> compilation_record \<Rightarrow> impl \<Rightarrow> reservation res \<times> impl" where
  "reserve_attempt output a c im =
    (let claim = ro_claim output;
         (moved, a1) = transition_attempt (with_candidate output a) AS_Produced;
         im1 = put_attempt (au_attempt claim) a1 im in
     if \<not> st_ok moved then (Inl moved, im1)
     else
     let c1 = producing im c;
         (persisted, im2) = persist (JP_Attempt a1) (put_compilation (au_compilation claim) c1 im1) in
     if \<not> st_ok persisted then (Inl persisted, im2)
     else (Inr (reservation_for im output c1 (sha256 (ro_bytes output))),
           persist_void (JP_Compilation c1) im2))"

definition report_reserve :: "session_id \<Rightarrow> report \<Rightarrow> impl \<Rightarrow> reservation res \<times> impl" where
  "report_reserve session_id output im =
     (case report_gate session_id output im of
        Inl (st, im1) \<Rightarrow> (Inl st, im1)
      | Inr (a, c) \<Rightarrow> reserve_attempt output a c im)"

text \<open>
  Phase 2: validation of the bytes, without the lock.  The smoke test runs the artifact in
  a scratch directory; what the operating system answers is an argument: there is no
  workspace, the file could not be written or resolved (the code then goes on without the
  check), or the check ran and gave a result.
\<close>

datatype smoke_answer = Smoke_NoWorkspace | Smoke_NotRun | Smoke_Ran validation_check

definition smoke_aggregate :: "validation_check list \<Rightarrow> validation_outcome" where
  "smoke_aggregate cs = foldl (\<lambda>agg c. if vc_outcome c = VO_Fail then VO_Fail else agg) VO_Pass cs"

definition apply_smoke :: "smoke_answer \<Rightarrow> validation_report \<Rightarrow> validation_report" where
  "apply_smoke answer v =
     (case answer of
        Smoke_NoWorkspace \<Rightarrow> v\<lparr>vp_checks := vp_checks v @ [\<lparr>vc_check = ''smoke_test'',
            vc_outcome = VO_Fail,
            vc_detail = ''could not create a scratch workspace for the smoke test''\<rparr>],
          vp_aggregate := VO_Fail\<rparr>
      | Smoke_NotRun \<Rightarrow> v
      | Smoke_Ran x \<Rightarrow> v\<lparr>vp_checks := vp_checks v @ [x],
          vp_aggregate := smoke_aggregate (vp_checks v @ [x])\<rparr>)"

definition report_validate :: "report \<Rightarrow> reservation \<Rightarrow> smoke_answer \<Rightarrow> validation_report res" where
  "report_validate output r answer =
     (if sha256 (ro_bytes output) \<noteq> rv_candidate_digest r then
        Inl (error Err_IntegrityFailure ''candidate bytes changed while being validated'')
      else
        (let v = validate_artifact_bytes (ro_bytes output) (rv_output_kind r) (rv_target r)
                   (rv_requirements r) (rv_candidate_digest r) in
         Inr (if vr_require_smoke_test (rv_requirements r) \<and> rv_output_kind r = OK_Executable
                 \<and> vp_aggregate v = VO_Pass
              then apply_smoke answer v else v)))"

text \<open>Phase 3: authority checked again, then the commit, under one lock.\<close>

definition report_commit ::
    "session_id \<Rightarrow> report \<Rightarrow> validation_report \<Rightarrow> impl \<Rightarrow> commit_decision res \<times> impl" where
  "report_commit session_id output validation im =
    (let claim = ro_claim output in
     case find_attempt (au_attempt claim) im of
       None \<Rightarrow> (Inl (error Err_StaleAttempt ''attempt disappeared''), im)
     | Some a \<Rightarrow>
     case find_compilation (au_compilation claim) im of
       None \<Rightarrow> (Inl (error Err_StaleCompilation ''compilation disappeared''), im)
     | Some c \<Rightarrow>
     let authority = validate_authority claim (expectation_for im c a) in
     if \<not> st_ok authority then
       (let im1 = record_violation ''commit_revalidate'' (st_code authority) session_id (ca_worker a)
                    (st_detail authority) im;
            (moved, a1) = transition_attempt a AS_Fenced;
            im2 = (if st_ok moved
                   then (let (a2, im2) = finish_attempt_bookkeeping a1 im1 in
                         persist_void (JP_Attempt a2) (put_attempt (au_attempt claim) a2 im2))
                   else im1)
        in (Inr (no_decision\<lparr>dn_outcome := CO_Refused, dn_error := st_code authority,
                  dn_detail := ''authority moved while the candidate was being validated: '' @
                    st_detail authority\<rparr>), im2))
     else commit_locked session_id output validation im)"

text \<open>The three phases in sequence, as when nothing else runs between them.\<close>

definition report_output ::
    "session_id \<Rightarrow> report \<Rightarrow> smoke_answer \<Rightarrow> impl \<Rightarrow> commit_decision res \<times> impl" where
  "report_output session_id output answer im =
     (case report_reserve session_id output im of
        (Inl st, im1) \<Rightarrow> (Inl st, im1)
      | (Inr r, im1) \<Rightarrow>
         (case report_validate output r answer of
            Inl st \<Rightarrow> (Inl st, im1)
          | Inr v \<Rightarrow>
             (let (stored, im2) = store_blob (ro_bytes output) im1 in
              if \<not> st_ok stored then (Inl stored, im2)
              else report_commit session_id output v im2)))"

section \<open>What the branches leave alone\<close>

lemma mark_job_progress_frame [simp]:
  "ledger_of (mark_job_progress c im) = ledger_of im"
  "env_of (mark_job_progress c im) = env_of im"
  "cs_compilations (im_state (mark_job_progress c im)) = cs_compilations (im_state im)"
  "cs_attempts (im_state (mark_job_progress c im)) = cs_attempts (im_state im)"
  "cs_workers (im_state (mark_job_progress c im)) = cs_workers (im_state im)"
  "cs_sessions (im_state (mark_job_progress c im)) = cs_sessions (im_state im)"
  "cs_leases (im_state (mark_job_progress c im)) = cs_leases (im_state im)"
  "cache_of (mark_job_progress c im) = cache_of im"
  "cs_controls (im_state (mark_job_progress c im)) = cs_controls (im_state im)"
  by (simp_all add: mark_job_progress_def Let_def split: option.split)

lemma refuse_invalid_frame [simp]:
  "ledger_of (snd (refuse_invalid claim a c v im)) = ledger_of im"
  "env_of (snd (refuse_invalid claim a c v im)) = env_of im"
  "cs_sessions (im_state (snd (refuse_invalid claim a c v im))) = cs_sessions (im_state im)"
  "cs_jobs (im_state (snd (refuse_invalid claim a c v im))) = cs_jobs (im_state im)"
  "cache_of (snd (refuse_invalid claim a c v im)) = cache_of im"
  "cs_controls (im_state (snd (refuse_invalid claim a c v im))) = cs_controls (im_state im)"
  by (simp_all add: refuse_invalid_def Let_def)

lemma commit_duplicate_frame [simp]:
  "ledger_of (snd (commit_duplicate claim a c k v im)) = ledger_of im"
  "env_of (snd (commit_duplicate claim a c k v im)) = env_of im"
  "cs_sessions (im_state (snd (commit_duplicate claim a c k v im))) = cs_sessions (im_state im)"
  "cs_jobs (im_state (snd (commit_duplicate claim a c k v im))) = cs_jobs (im_state im)"
  "cache_of (snd (commit_duplicate claim a c k v im)) = cache_of im"
  "cs_controls (im_state (snd (commit_duplicate claim a c k v im))) = cs_controls (im_state im)"
  by (simp_all add: commit_duplicate_def Let_def case_prod_beta)

lemma commit_divergent_frame [simp]:
  "ledger_of (snd (commit_divergent claim a c im)) = ledger_of im"
  "env_of (snd (commit_divergent claim a c im)) = env_of im"
  "cs_sessions (im_state (snd (commit_divergent claim a c im))) = cs_sessions (im_state im)"
  "cs_jobs (im_state (snd (commit_divergent claim a c im))) = cs_jobs (im_state im)"
  "cache_of (snd (commit_divergent claim a c im)) = cache_of im"
  "cs_controls (im_state (snd (commit_divergent claim a c im))) = cs_controls (im_state im)"
  by (simp_all add: commit_divergent_def Let_def)

lemma take_intermediate_frame [simp]:
  "ledger_of (upd_header (\<lambda>h. h\<lparr>hd_next_intermediate_id := f h\<rparr>) im) = ledger_of im"
  "env_of (upd_header (\<lambda>h. h\<lparr>hd_next_intermediate_id := f h\<rparr>) im) = env_of im"
  "cs_compilations (im_state (upd_header (\<lambda>h. h\<lparr>hd_next_intermediate_id := f h\<rparr>) im)) = cs_compilations (im_state im)"
  "cs_attempts (im_state (upd_header (\<lambda>h. h\<lparr>hd_next_intermediate_id := f h\<rparr>) im)) = cs_attempts (im_state im)"
  "cs_sessions (im_state (upd_header (\<lambda>h. h\<lparr>hd_next_intermediate_id := f h\<rparr>) im)) = cs_sessions (im_state im)"
  "cs_workers (im_state (upd_header (\<lambda>h. h\<lparr>hd_next_intermediate_id := f h\<rparr>) im)) = cs_workers (im_state im)"
  "ledger_of (upd_state (\<lambda>s. s\<lparr>cs_intermediates := g s\<rparr>) im) = ledger_of im"
  "env_of (upd_state (\<lambda>s. s\<lparr>cs_intermediates := g s\<rparr>) im) = env_of im"
  "cs_compilations (im_state (upd_state (\<lambda>s. s\<lparr>cs_intermediates := g s\<rparr>) im)) = cs_compilations (im_state im)"
  "cs_attempts (im_state (upd_state (\<lambda>s. s\<lparr>cs_intermediates := g s\<rparr>) im)) = cs_attempts (im_state im)"
  "cs_sessions (im_state (upd_state (\<lambda>s. s\<lparr>cs_intermediates := g s\<rparr>) im)) = cs_sessions (im_state im)"
  "cs_workers (im_state (upd_state (\<lambda>s. s\<lparr>cs_intermediates := g s\<rparr>) im)) = cs_workers (im_state im)"
  "cs_controls (im_state (upd_header (\<lambda>h. h\<lparr>hd_next_intermediate_id := f h\<rparr>) im)) = cs_controls (im_state im)"
  "cs_controls (im_state (upd_state (\<lambda>s. s\<lparr>cs_intermediates := g s\<rparr>) im)) = cs_controls (im_state im)"
  by (simp_all add: table_defs view_defs)

lemma record_intermediate_frame [simp]:
  "ledger_of (record_intermediate c a p im) = ledger_of im"
  "env_of (record_intermediate c a p im) = env_of im"
  "cs_compilations (im_state (record_intermediate c a p im)) = cs_compilations (im_state im)"
  "cs_attempts (im_state (record_intermediate c a p im)) = cs_attempts (im_state im)"
  "cs_sessions (im_state (record_intermediate c a p im)) = cs_sessions (im_state im)"
  "cs_workers (im_state (record_intermediate c a p im)) = cs_workers (im_state im)"
  "cs_controls (im_state (record_intermediate c a p im)) = cs_controls (im_state im)"
  by (simp_all add: record_intermediate_def Let_def)

lemma publish_commit_frame [simp]:
  "ledger_of (snd (publish_commit s w a c v p k im)) = ledger_of im"
  "env_of (snd (publish_commit s w a c v p k im)) = env_of im"
  "cs_compilations (im_state (snd (publish_commit s w a c v p k im))) = cs_compilations (im_state im)"
  "cs_attempts (im_state (snd (publish_commit s w a c v p k im))) = cs_attempts (im_state im)"
  "cs_sessions (im_state (snd (publish_commit s w a c v p k im))) = cs_sessions (im_state im)"
  "cs_workers (im_state (snd (publish_commit s w a c v p k im))) = cs_workers (im_state im)"
  by (simp_all add: publish_commit_def Let_def case_prod_beta)

section \<open>The commit is a move of the ledger\<close>

lemma om_put_again [simp]: "om_put k v (om_put k v m) = om_put k v m"
  by (induction m) auto

lemma install_commit_ledger:
  "ledger_of (install_commit v p k i im) = (ledger_of im)
     \<lparr>lg_validations := om_put (vp_id v) v (lg_validations (ledger_of im)),
      lg_provenances := om_put (pv_id p) p (lg_provenances (ledger_of im)),
      lg_commits := om_put (ac_id k) k (lg_commits (ledger_of im)),
      lg_authoritative := om_put i (ac_id k) (lg_authoritative (ledger_of im))\<rparr>"
  by (simp add: install_commit_def table_defs view_defs)

lemma install_commit_frame [simp]:
  "env_of (install_commit v p k i im) = env_of im"
  "cs_compilations (im_state (install_commit v p k i im)) = cs_compilations (im_state im)"
  "cs_attempts (im_state (install_commit v p k i im)) = cs_attempts (im_state im)"
  "cs_sessions (im_state (install_commit v p k i im)) = cs_sessions (im_state im)"
  "cs_workers (im_state (install_commit v p k i im)) = cs_workers (im_state im)"
  "cs_controls (im_state (install_commit v p k i im)) = cs_controls (im_state im)"
  by (simp_all add: install_commit_def table_defs view_defs)

text \<open>The state after the handles have been taken and the validation stored.\<close>

definition commit_reserved :: "validation_report \<Rightarrow> impl \<Rightarrow> impl" where
  "commit_reserved stored im =
     take_commit_ids (upd_state (\<lambda>s. s\<lparr>cs_validations := om_put (vp_id stored) stored (cs_validations s)\<rparr>)
       (upd_header (\<lambda>h. h\<lparr>hd_next_validation_id := hd_next_validation_id h + 1\<rparr>) im))"

lemma commit_reserved_ledger:
  "ledger_of (commit_reserved v im) = (ledger_of im)
     \<lparr>lg_validations := om_put (vp_id v) v (lg_validations (ledger_of im)),
      lg_next_validation := lg_next_validation (ledger_of im) + 1,
      lg_next_provenance := lg_next_provenance (ledger_of im) + 1,
      lg_next_commit := lg_next_commit (ledger_of im) + 1\<rparr>"
  by (simp add: commit_reserved_def take_commit_ids_def table_defs view_defs)

lemma commit_reserved_frame [simp]:
  "env_of (commit_reserved v im) = env_of im"
  "cs_compilations (im_state (commit_reserved v im)) = cs_compilations (im_state im)"
  "cs_attempts (im_state (commit_reserved v im)) = cs_attempts (im_state im)"
  "cs_sessions (im_state (commit_reserved v im)) = cs_sessions (im_state im)"
  "cs_workers (im_state (commit_reserved v im)) = cs_workers (im_state im)"
  "cs_controls (im_state (commit_reserved v im)) = cs_controls (im_state im)"
  by (simp_all add: commit_reserved_def take_commit_ids_def table_defs view_defs)

text \<open>
  Once the attempt has moved to Validating the other two moves cannot fail, so the early
  returns after them are never taken.
\<close>

definition sealed_validation :: "impl \<Rightarrow> validation_report \<Rightarrow> validation_report" where
  "sealed_validation im v = v\<lparr>vp_id := Ident (hd_next_validation_id (header im))\<rparr>"

definition sealed_provenance ::
    "impl \<Rightarrow> compilation_record \<Rightarrow> compilation_attempt \<Rightarrow> provenance" where
  "sealed_provenance im c a = provenance_for im c a (Ident (hd_next_validation_id (header im)))
     (Ident (hd_next_provenance_id (header im)))"

definition sealed_commit :: "impl \<Rightarrow> compilation_record \<Rightarrow> compilation_attempt \<Rightarrow> artifact_commit" where
  "sealed_commit im c a = commit_for im c a (Ident (hd_next_validation_id (header im)))
     (Ident (hd_next_provenance_id (header im))) (Ident (hd_next_artifact_id (header im)))
     (Ident (hd_next_commit_id (header im)))"

definition committed_attempt :: "impl \<Rightarrow> compilation_attempt \<Rightarrow> compilation_attempt" where
  "committed_attempt im a = a\<lparr>ca_artifact := Ident (hd_next_artifact_id (header im)),
     ca_state := AS_Committed, ca_finished_at := im_now im\<rparr>"

definition committed_record ::
    "impl \<Rightarrow> compilation_attempt \<Rightarrow> compilation_record \<Rightarrow> compilation_record" where
  "committed_record im a c = c\<lparr>cr_state := CS_Committed, cr_commit := Some (sealed_commit im c a),
     cr_failure := Err_Ok, cr_failure_detail := [], cr_updated_at := im_now im\<rparr>"

definition before_install ::
    "authority_claim \<Rightarrow> compilation_attempt \<Rightarrow> compilation_record \<Rightarrow> validation_report \<Rightarrow> impl \<Rightarrow> impl" where
  "before_install claim a c v im =
     put_compilation (au_compilation claim) (committed_record im a c)
       (put_attempt (au_attempt claim) (committed_attempt im a)
         (snd (finish_attempt_bookkeeping
            (a\<lparr>ca_artifact := Ident (hd_next_artifact_id (header im)), ca_state := AS_Committed\<rparr>)
            (commit_reserved (sealed_validation im v) im))))"

lemma commit_for_state [simp]:
  "commit_for im c (a\<lparr>ca_state := x\<rparr>) = commit_for im c a"
  "provenance_for im c (a\<lparr>ca_state := x\<rparr>) = provenance_for im c a"
  by (simp_all add: commit_for_def provenance_for_def fun_eq_iff)

lemma commit_first_eq:
  assumes "ca_state a = AS_Produced \<or> ca_state a = AS_Validating"
  shows "commit_first session worker claim a c v im =
    publish_commit session worker (committed_attempt im a) (committed_record im a c)
      (sealed_validation im v) (sealed_provenance im c a) (sealed_commit im c a)
      (install_commit (sealed_validation im v) (sealed_provenance im c a) (sealed_commit im c a) (cr_id c)
         (before_install claim a c v im))"
proof -
  let ?done = "a\<lparr>ca_artifact := Ident (hd_next_artifact_id (header im)), ca_state := AS_Committed\<rparr>"
  have move: "transition_attempt a AS_Validating = (success, a\<lparr>ca_state := AS_Validating\<rparr>)"
    using assms by (auto simp: transition_attempt_def legal_to_Validating)
  have now: "im_now (commit_reserved w im) = im_now im" for w
    by (rule env_of_eqD) simp
  have "fst (finish_attempt_bookkeeping ?done (commit_reserved w im)) = committed_attempt im a" for w
    by (simp add: finish_attempt_fst now committed_attempt_def)
  then obtain im2 where finish: "finish_attempt_bookkeeping ?done
      (commit_reserved (sealed_validation im v) im) = (committed_attempt im a, im2)"
    by (metis prod.collapse)
  have reserved: "commit_reserved (sealed_validation im v) im =
      take_commit_ids (upd_state (\<lambda>s. s\<lparr>cs_validations := om_put (Ident (hd_next_validation_id (header im)))
        (v\<lparr>vp_id := Ident (hd_next_validation_id (header im))\<rparr>) (cs_validations s)\<rparr>)
        (upd_header (\<lambda>h. h\<lparr>hd_next_validation_id := hd_next_validation_id h + 1\<rparr>) im))"
    by (simp add: commit_reserved_def sealed_validation_def)
  show ?thesis
    unfolding commit_first_def move before_install_def finish snd_conv
    using finish unfolding reserved
    by (simp add: Let_def transition_attempt_def is_legal_transition_def success_def st_ok_def
        sealed_validation_def sealed_provenance_def sealed_commit_def committed_record_def)
qed

lemma commit_first_refused:
  assumes "\<not> (ca_state a = AS_Produced \<or> ca_state a = AS_Validating)"
  shows "commit_first session worker claim a c v im = (Inl (fst (transition_attempt a AS_Validating)), im)"
    "\<not> st_ok (fst (transition_attempt a AS_Validating))"
  using assms by (auto simp: commit_first_def transition_attempt_def legal_to_Validating
      error_def st_ok_def Let_def)

lemma before_install_frame [simp]:
  "env_of (before_install claim a c v im) = env_of im"
  "cs_sessions (im_state (before_install claim a c v im)) = cs_sessions (im_state im)"
  "cs_compilations (im_state (before_install claim a c v im)) =
     om_put (au_compilation claim) (committed_record im a c) (cs_compilations (im_state im))"
  "cs_attempts (im_state (before_install claim a c v im)) =
     om_put (au_attempt claim) (committed_attempt im a) (cs_attempts (im_state im))"
  by (simp_all add: before_install_def)

lemma before_install_ledger:
  "ledger_of (before_install claim a c v im) = ledger_of (commit_reserved (sealed_validation im v) im)"
  by (simp add: before_install_def)

lemma ledger_of_sel [simp]:
  "lg_commits (ledger_of im) = cs_commits (im_state im)"
  "lg_authoritative (ledger_of im) = cs_authoritative (im_state im)"
  "lg_provenances (ledger_of im) = cs_provenances (im_state im)"
  "lg_validations (ledger_of im) = cs_validations (im_state im)"
  "lg_next_commit (ledger_of im) = hd_next_commit_id (header im)"
  "lg_next_provenance (ledger_of im) = hd_next_provenance_id (header im)"
  "lg_next_validation (ledger_of im) = hd_next_validation_id (header im)"
  by (simp_all add: ledger_of_def)

lemma sealed_simps [simp]:
  "vp_id (sealed_validation im v) = Ident (hd_next_validation_id (header im))"
  "vp_aggregate (sealed_validation im v) = vp_aggregate v"
  "pv_id (sealed_provenance im c a) = Ident (hd_next_provenance_id (header im))"
  "ac_id (sealed_commit im c a) = Ident (hd_next_commit_id (header im))"
  "ac_compilation (sealed_commit im c a) = cr_id c"
  "ac_artifact_digest (sealed_commit im c a) = rf_digest (ca_candidate a)"
  "ac_attempt (sealed_commit im c a) = ca_id a"
  "ac_worker (sealed_commit im c a) = ca_worker a"
  "ac_epoch (sealed_commit im c a) = hd_epoch (header im)"
  "\<not> ac_superseded (sealed_commit im c a)"
  by (simp_all add: sealed_validation_def sealed_provenance_def sealed_commit_def commit_for_def
      provenance_for_def)

lemma install_commit_seals:
  "ledger_of (install_commit (sealed_validation im v) (sealed_provenance im c a) (sealed_commit im c a)
      (cr_id c) (before_install claim a c v im)) =
   seal (sealed_validation im v) (sealed_provenance im c a) (sealed_commit im c a) (ledger_of im)"
  unfolding install_commit_ledger before_install_ledger commit_reserved_ledger seal_def
  by simp

lemma commit_first_ledger:
  "ledger_of (snd (commit_first session worker claim a c v im)) =
    (if ca_state a = AS_Produced \<or> ca_state a = AS_Validating
     then seal (sealed_validation im v) (sealed_provenance im c a) (sealed_commit im c a) (ledger_of im)
     else ledger_of im)"
  by (simp add: commit_first_eq commit_first_refused install_commit_seals)

lemma sealed_commit_fresh:
  "vp_aggregate v = VO_Pass \<Longrightarrow> \<not> digest_is_zero (rf_digest (ca_candidate a)) \<Longrightarrow>
     fresh_commit (ledger_of im) (sealed_validation im v) (sealed_provenance im c a) (sealed_commit im c a)"
  by (simp add: fresh_commit_def backed_by_def)
    (simp add: sealed_provenance_def sealed_commit_def sealed_validation_def commit_for_def
      provenance_for_def)

text \<open>The three ways a transaction ends once attempt and compilation are found.\<close>

lemma commit_locked_cases [consumes 1, case_names error invalid duplicate divergent first]:
  assumes "commit_locked session out v im = (r, im')"
  obtains st where "r = Inl st" "im' = im"
  | a c where "find_attempt (au_attempt (ro_claim out)) im = Some a"
      "find_compilation (au_compilation (ro_claim out)) im = Some c"
      "vp_aggregate v \<noteq> VO_Pass" "(r, im') = refuse_invalid (ro_claim out) a c v im"
  | a c k where "find_attempt (au_attempt (ro_claim out)) im = Some a"
      "find_compilation (au_compilation (ro_claim out)) im = Some c" "vp_aggregate v = VO_Pass"
      "ledger_prior (ledger_of im) (cr_id c) = Some k"
      "ac_artifact_digest k = rf_digest (ca_candidate a)"
      "(r, im') = commit_duplicate (ro_claim out) a c k v im"
  | a c k where "find_attempt (au_attempt (ro_claim out)) im = Some a"
      "find_compilation (au_compilation (ro_claim out)) im = Some c" "vp_aggregate v = VO_Pass"
      "ledger_prior (ledger_of im) (cr_id c) = Some k"
      "ac_artifact_digest k \<noteq> rf_digest (ca_candidate a)"
      "(r, im') = commit_divergent (ro_claim out) a c im"
  | a c worker where "find_attempt (au_attempt (ro_claim out)) im = Some a"
      "find_compilation (au_compilation (ro_claim out)) im = Some c" "vp_aggregate v = VO_Pass"
      "\<not> digest_is_zero (rf_digest (ca_candidate a))"
      "ledger_prior (ledger_of im) (cr_id c) = None"
      "(r, im') = commit_first session worker (ro_claim out) a c v im"
proof -
  have prior: "(case om_find (cs_authoritative (im_state im)) (cr_id c) of None \<Rightarrow> None
      | Some m \<Rightarrow> case om_find (cs_commits (im_state im)) m of None \<Rightarrow> None
        | Some k \<Rightarrow> if ac_superseded k then None else Some k) = ledger_prior (ledger_of im) (cr_id c)" for c
    by (simp add: ledger_prior_def split: option.split)
  show thesis
  proof (cases "find_attempt (au_attempt (ro_claim out)) im")
    case None
    with assms show thesis by (auto simp: commit_locked_def intro: that(1))
  next
    case a: (Some a)
    show thesis
    proof (cases "find_compilation (au_compilation (ro_claim out)) im")
      case None
      with assms a show thesis by (auto simp: commit_locked_def intro: that(1))
    next
      case c: (Some c)
      note eq = assms [unfolded commit_locked_def a c prior Let_def option.case prod.case, symmetric]
      show thesis
      proof (cases "digest_is_zero (rf_digest (ca_candidate a))")
        case True
        with eq show thesis by (auto intro: that(1))
      next
        case digest: False
        show thesis
        proof (cases "vp_aggregate v = VO_Pass")
          case False
          with eq digest a c show thesis by (auto intro: that(2))
        next
          case pass: True
          show thesis
          proof (cases "ledger_prior (ledger_of im) (cr_id c)")
            case None
            with eq digest pass a c show thesis by (auto intro: that(5))
          next
            case (Some k)
            with eq digest pass a c show thesis by (auto intro: that(3,4) split: if_splits)
          qed
        qed
      qed
    qed
  qed
qed

lemma commit_locked_run:
  "\<exists>n\<le>1. ledger_run n (ledger_of im) (ledger_of (snd (commit_locked session out v im)))"
proof -
  obtain r im' where eq: "commit_locked session out v im = (r, im')" by fastforce
  then have "\<exists>n\<le>1. ledger_run n (ledger_of im) (ledger_of im')"
  proof (cases rule: commit_locked_cases)
    case (first a c worker)
    then have im': "im' = snd (commit_first session worker (ro_claim out) a c v im)" by (metis snd_conv)
    have "ledger_prior (ledger_of im) (ac_compilation (sealed_commit im c a)) = None"
      using first by simp
    from ledger_run.commit [OF ledger_run.stay this sealed_commit_fresh] first
    have "ledger_run 1 (ledger_of im)
        (seal (sealed_validation im v) (sealed_provenance im c a) (sealed_commit im c a) (ledger_of im))"
      by simp
    then show ?thesis
      unfolding im' commit_first_ledger by (auto intro: ledger_run.stay)
  next
    case (invalid a c)
    then have "ledger_of im' = ledger_of im" by (metis refuse_invalid_frame(1) snd_conv)
    then show ?thesis by (auto intro: ledger_run.stay)
  next
    case (duplicate a c k)
    then have "ledger_of im' = ledger_of im" by (metis commit_duplicate_frame(1) snd_conv)
    then show ?thesis by (auto intro: ledger_run.stay)
  next
    case (divergent a c k)
    then have "ledger_of im' = ledger_of im" by (metis commit_divergent_frame(1) snd_conv)
    then show ?thesis by (auto intro: ledger_run.stay)
  qed (auto intro: ledger_run.stay)
  then show ?thesis using eq by simp
qed

section \<open>What the transaction promises\<close>

lemma branch_outcomes:
  "fst (refuse_invalid claim a c v im) = Inr d \<Longrightarrow> dn_outcome d = CO_Refused \<and> dn_error d = Err_ValidationFailure"
  "fst (commit_duplicate claim a c k v im) = Inr d \<Longrightarrow> dn_outcome d = CO_Deduplicated \<and> dn_commit d = k"
  "fst (commit_divergent claim a c im) = Inr d \<Longrightarrow>
     dn_outcome d = (if cr_reproducibility c = RR_Required then CO_ReproducibilityViolation else CO_Refused)
     \<and> dn_error d = (if cr_reproducibility c = RR_Required then Err_ReproducibilityViolation
                     else Err_ArtifactMismatch)"
  "fst (publish_commit s w a c v p k im) = Inr d \<Longrightarrow> dn_outcome d = CO_Committed \<and> dn_commit d = k
     \<and> dn_validation d = v"
  by (auto simp: refuse_invalid_def commit_duplicate_def commit_divergent_def publish_commit_def
      Let_def case_prod_beta split: if_splits)

text \<open>
  C6: Nothing becomes authoritative by accident.  When the transaction answers Committed,
  the validation passed, the candidate digest is not zero, the attempt was waiting in
  Produced or Validating and the compilation had no live authority; and afterwards the
  compilation's authority is exactly the new commit, which carries the candidate's digest,
  a stored passing validation and a stored provenance record of this attempt, the attempt
  and the compilation are Committed, and no other compilation's authority has changed.
\<close>

theorem commit_gate:
  assumes "fst (commit_locked session out v im) = Inr d" "dn_outcome d = CO_Committed"
  shows "\<exists>a c. find_attempt (au_attempt (ro_claim out)) im = Some a
    \<and> find_compilation (au_compilation (ro_claim out)) im = Some c
    \<and> vp_aggregate v = VO_Pass \<and> \<not> digest_is_zero (rf_digest (ca_candidate a))
    \<and> (ca_state a = AS_Produced \<or> ca_state a = AS_Validating)
    \<and> ledger_prior (ledger_of im) (cr_id c) = None
    \<and> (let im' = snd (commit_locked session out v im); k = dn_commit d in
       om_find (cs_authoritative (im_state im')) (cr_id c) = Some (ac_id k)
       \<and> om_find (cs_commits (im_state im')) (ac_id k) = Some k
       \<and> ac_artifact_digest k = rf_digest (ca_candidate a) \<and> ac_attempt k = ca_id a
       \<and> sealed (ledger_of im') (ac_id k) k
       \<and> map_option ca_state (find_attempt (au_attempt (ro_claim out)) im') = Some AS_Committed
       \<and> map_option cr_state (find_compilation (au_compilation (ro_claim out)) im') = Some CS_Committed
       \<and> (\<forall>c'. c' \<noteq> cr_id c \<longrightarrow> om_find (cs_authoritative (im_state im')) c' =
             om_find (cs_authoritative (im_state im)) c'))"
proof -
  obtain im' where eq: "commit_locked session out v im = (Inr d, im')" using assms(1) by (metis prod.collapse)
  then show ?thesis
  proof (cases rule: commit_locked_cases)
    case (first a c worker)
    let ?v = "sealed_validation im v" and ?p = "sealed_provenance im c a" and ?k = "sealed_commit im c a"
    have im': "im' = snd (commit_first session worker (ro_claim out) a c v im)"
      and res: "Inr d = fst (commit_first session worker (ro_claim out) a c v im)"
      using first(6) by (metis fst_conv snd_conv)+
    from res have ready: "ca_state a = AS_Produced \<or> ca_state a = AS_Validating"
      using commit_first_refused by fastforce
    from res have k: "dn_commit d = ?k"
      unfolding commit_first_eq [OF ready] using branch_outcomes(4) by metis
    have ledger: "ledger_of im' = seal ?v ?p ?k (ledger_of im)"
      unfolding im' commit_first_ledger using ready by simp
    then have "cs_authoritative (im_state im') = lg_authoritative (seal ?v ?p ?k (ledger_of im))"
      and "cs_commits (im_state im') = lg_commits (seal ?v ?p ?k (ledger_of im))"
      by (metis ledger_of_sel(1,2))+
    then have tables: "cs_authoritative (im_state im') = om_put (cr_id c) (ac_id ?k) (cs_authoritative (im_state im))"
      "cs_commits (im_state im') = om_put (ac_id ?k) ?k (cs_commits (im_state im))"
      by (simp_all add: seal_def)
    have "backed_by ?k ?v ?p" using sealed_commit_fresh [OF first(3,4)] by (simp add: fresh_commit_def)
    then have "sealed (ledger_of im') (ac_id ?k) ?k"
      unfolding ledger by (auto simp: sealed_def seal_def backed_by_def)
    moreover have "map_option ca_state (find_attempt (au_attempt (ro_claim out)) im') = Some AS_Committed"
      "map_option cr_state (find_compilation (au_compilation (ro_claim out)) im') = Some CS_Committed"
      unfolding im' commit_first_eq [OF ready]
      by (simp_all add: find_attempt_def find_compilation_def committed_attempt_def committed_record_def)
    ultimately show ?thesis
      unfolding eq snd_conv Let_def k using first(1-5) ready tables
      by (intro exI [of _ a] exI [of _ c]) auto
  next
    case (invalid a c)
    then show ?thesis using assms(2) branch_outcomes(1) by (metis commit_outcome.distinct(3) fst_conv)
  next
    case (duplicate a c k)
    then show ?thesis using assms(2) branch_outcomes(2) by (metis commit_outcome.distinct(1) fst_conv)
  next
    case (divergent a c k)
    then show ?thesis using assms(2) branch_outcomes(3)
      by (metis commit_outcome.distinct(3,5) fst_conv)
  qed simp
qed

text \<open>The sample report, and the transaction on the sample scenario.\<close>

definition sample_report :: report where
  "sample_report = \<lparr>ro_claim = sample_claim, ro_kind = OK_Object, ro_logical_name = ''a'',
     ro_bytes = [1], ro_declared_digest = 0, ro_worker_validation = no_report,
     ro_compiler_invocation = [], ro_compiler_version_string = [], ro_compiler_wall_millis = 0,
     ro_exit_code = 0\<rparr>"

definition passing :: validation_report where
  "passing = no_report\<lparr>vp_aggregate := VO_Pass\<rparr>"

lemma publish_commit_off:
  "\<not> cg_enable_persistence (nv_config (env_of im)) \<Longrightarrow>
   fst (publish_commit s w a c v p k im) = Inr (no_decision\<lparr>dn_outcome := CO_Committed,
     dn_commit := k, dn_validation := v, dn_artifact_authoritative := True,
     dn_detail := ''authoritative artifact committed''\<rparr>)"
  by (simp add: publish_commit_def Let_def case_prod_beta persist_off)

lemma sample_commits:
  "fst (commit_locked (Ident 1) sample_report passing (sample_with w l sample_produced_attempt)) =
     Inr (no_decision\<lparr>dn_outcome := CO_Committed,
       dn_commit := sealed_commit (sample_with w l sample_produced_attempt) sample_compilation sample_produced_attempt,
       dn_validation := sealed_validation (sample_with w l sample_produced_attempt) passing,
       dn_artifact_authoritative := True, dn_detail := ''authoritative artifact committed''\<rparr>)"
  by (simp add: commit_locked_def sample_report_def sample_produced_attempt_def digest_is_zero_def
      commit_first_eq publish_commit_off passing_def)

lemma commit_gate_witness:
  "\<exists>d. fst (commit_locked (Ident 1) sample_report passing sample_produced) = Inr d
    \<and> dn_outcome d = CO_Committed
    \<and> om_find (cs_authoritative (im_state (snd (commit_locked (Ident 1) sample_report passing
        sample_produced)))) (Ident 7) = Some (ac_id (dn_commit d))"
proof -
  obtain d where d: "fst (commit_locked (Ident 1) sample_report passing sample_produced) = Inr d"
    "dn_outcome d = CO_Committed"
    using sample_commits [of "sample_worker 1" sample_lease] by (simp add: sample_produced_def)
  from commit_gate [OF d] d show ?thesis
    by (auto simp: Let_def sample_produced_def sample_report_def)
      (auto simp: sample_compilation_def)
qed

lemma commit_first_outcome:
  assumes "(Inr d, im') = commit_first session worker claim a c v im"
  shows "dn_outcome d = CO_Committed"
proof -
  have res: "Inr d = fst (commit_first session worker claim a c v im)" using assms by (metis fst_conv)
  then have "ca_state a = AS_Produced \<or> ca_state a = AS_Validating"
    using commit_first_refused by fastforce
  with res show ?thesis using branch_outcomes(4) by (metis commit_first_eq)
qed

lemmas branch_result_outcomes =
  branch_outcomes(1) [OF arg_cong [where f = fst, THEN trans [OF _ fst_conv]], OF sym]
  branch_outcomes(2) [OF arg_cong [where f = fst, THEN trans [OF _ fst_conv]], OF sym]
  branch_outcomes(3) [OF arg_cong [where f = fst, THEN trans [OF _ fst_conv]], OF sym]

lemma branch_result_ledgers:
  "(r, im') = refuse_invalid claim a c v im \<Longrightarrow> ledger_of im' = ledger_of im"
  "(r, im') = commit_duplicate claim a c k v im \<Longrightarrow> ledger_of im' = ledger_of im"
  "(r, im') = commit_divergent claim a c im \<Longrightarrow> ledger_of im' = ledger_of im"
  by (metis snd_conv refuse_invalid_frame(1) commit_duplicate_frame(1) commit_divergent_frame(1))+

lemma not_committed_ledger:
  assumes "commit_locked session out v im = (Inr d, im')" "dn_outcome d \<noteq> CO_Committed"
  shows "ledger_of im' = ledger_of im"
  using assms(1)
  by (cases rule: commit_locked_cases)
    (use assms(2) in \<open>auto dest: branch_result_ledgers commit_first_outcome\<close>)

text \<open>A successful walk ends in Committed.\<close>

lemma walk_to_committed_state:
  "st_ok (fst (walk_to_committed a)) \<Longrightarrow> ca_state (snd (walk_to_committed a)) = AS_Committed"
  by (auto simp: walk_to_committed_def Let_def case_prod_beta transition_attempt_def split: if_splits)

lemma commit_duplicate_attempt:
  assumes "(Inr d, im') = commit_duplicate claim a c k v im"
  shows "map_option ca_state (find_attempt (au_attempt claim) im') = Some AS_Committed"
proof -
  have im': "im' = snd (commit_duplicate claim a c k v im)"
    and res: "Inr d = fst (commit_duplicate claim a c k v im)"
    using assms by (metis snd_conv, metis fst_conv)
  from res have "st_ok (fst (walk_to_committed a))"
    by (auto simp: commit_duplicate_def Let_def case_prod_beta split: if_splits)
  then show ?thesis
    unfolding im' commit_duplicate_def
    by (simp add: Let_def case_prod_beta finish_attempt_fst find_attempt_def walk_to_committed_state)
qed

lemma commit_divergent_record:
  assumes "(Inr d, im') = commit_divergent claim a c im" "dn_outcome d = CO_ReproducibilityViolation"
  shows "map_option cr_reproducibility_violation (find_compilation (au_compilation claim) im') = Some True"
proof -
  have "im' = snd (commit_divergent claim a c im)" and "cr_reproducibility c = RR_Required"
    using assms branch_result_outcomes(3) [of d im' claim a c im] by (metis snd_conv, auto split: if_splits)
  then show ?thesis by (simp add: commit_divergent_def Let_def find_compilation_def)
qed


text \<open>The sample scenario in which another attempt has committed a given digest before.\<close>

definition sample_decided :: "digest256 \<Rightarrow> compilation_attempt \<Rightarrow> impl" where
  "sample_decided d a = upd_state (\<lambda>s. s\<lparr>cs_authoritative := [(Ident 7, Ident 1)],
     cs_commits := [(Ident 1, no_commit\<lparr>ac_id := Ident 1, ac_compilation := Ident 7,
                       ac_artifact_digest := d\<rparr>)]\<rparr>) (sample_with (sample_worker 1) sample_lease a)"

lemma sample_decided_simps [simp]:
  "find_attempt (Ident 1) (sample_decided d a) = Some a"
  "find_compilation (Ident 7) (sample_decided d a) = Some sample_compilation"
  "cs_authoritative (im_state (sample_decided d a)) = [(Ident 7, Ident 1)]"
  "cs_commits (im_state (sample_decided d a)) =
     [(Ident 1, no_commit\<lparr>ac_id := Ident 1, ac_compilation := Ident 7, ac_artifact_digest := d\<rparr>)]"
  by (simp_all add: sample_decided_def table_defs find_attempt_def find_compilation_def
      sample_with_def)


text \<open>
  A candidate that fails validation never touches authority, but it fails the whole
  compilation: the record goes to Failed even if another attempt has already made it
  Committed and its artifact is authoritative.
\<close>

theorem invalid_candidate_fails_compilation:
  assumes "find_attempt (au_attempt (ro_claim out)) im = Some a"
    "find_compilation (au_compilation (ro_claim out)) im = Some c"
    "\<not> digest_is_zero (rf_digest (ca_candidate a))" "vp_aggregate v \<noteq> VO_Pass"
  shows "let im' = snd (commit_locked session out v im) in
    ledger_of im' = ledger_of im
    \<and> map_option cr_state (find_compilation (au_compilation (ro_claim out)) im') = Some CS_Failed"
  using assms
  by (simp add: commit_locked_def Let_def split: option.split)
    (simp add: refuse_invalid_def Let_def find_compilation_def)

lemma sample_report_simps [simp]: "ro_claim sample_report = sample_claim" "ro_bytes sample_report = [1]"
  by (simp_all add: sample_report_def)

lemma invalid_candidate_fails_compilation_witness:
  "let im = sample_decided 5 sample_produced_attempt; im' = snd (commit_locked (Ident 1) sample_report no_report im) in
   ledger_prior (ledger_of im) (Ident 7) \<noteq> None \<and> ledger_of im' = ledger_of im
   \<and> map_option cr_state (find_compilation (Ident 7) im') = Some CS_Failed"
proof -
  let ?im = "sample_decided 5 sample_produced_attempt"
  have prior: "ledger_prior (ledger_of ?im) (Ident 7) \<noteq> None"
    by (simp add: ledger_prior_def no_commit_def)
  have a: "find_attempt (au_attempt (ro_claim sample_report)) ?im = Some sample_produced_attempt" by simp
  have c: "find_compilation (au_compilation (ro_claim sample_report)) ?im = Some sample_compilation" by simp
  have d: "\<not> digest_is_zero (rf_digest (ca_candidate sample_produced_attempt))"
    by (simp add: sample_produced_attempt_def digest_is_zero_def)
  have v: "vp_aggregate no_report \<noteq> VO_Pass" by (simp add: no_report_def)
  from invalid_candidate_fails_compilation [OF a c d v, of "Ident 1"] prior
  show ?thesis unfolding Let_def sample_report_simps sample_claim_simps by blast
qed

section \<open>What the report promises\<close>

lemma reserve_attempt_frame [simp]:
  "ledger_of (snd (reserve_attempt out a c im)) = ledger_of im"
  "env_of (snd (reserve_attempt out a c im)) = env_of im"
  "cs_sessions (im_state (snd (reserve_attempt out a c im))) = cs_sessions (im_state im)"
  "cs_workers (im_state (snd (reserve_attempt out a c im))) = cs_workers (im_state im)"
  "cs_controls (im_state (snd (reserve_attempt out a c im))) = cs_controls (im_state im)"
  by (simp_all add: reserve_attempt_def Let_def case_prod_beta)

text \<open>The gate lets through exactly this.\<close>

definition gate_open :: "session_id \<Rightarrow> report \<Rightarrow> impl \<Rightarrow> compilation_attempt \<Rightarrow> compilation_record \<Rightarrow> bool" where
  "gate_open s out im a c \<longleftrightarrow> im_opened im
     \<and> find_attempt (au_attempt (ro_claim out)) im = Some a
     \<and> find_compilation (au_compilation (ro_claim out)) im = Some c
     \<and> (\<exists>ss. find_session s im = Some ss \<and> ss_is_worker ss \<and> ss_worker ss = ca_worker a
          \<and> ss_boot ss = ca_worker_boot a)
     \<and> st_ok (validate_authority (ro_claim out) (expectation_for im c a))
     \<and> (ca_state a = AS_Running \<or> ca_state a = AS_Preparing)
     \<and> length (ro_bytes out) \<le> unat (cg_max_artifact_bytes (im_config im))
     \<and> (digest_is_zero (ro_declared_digest out) \<or> sha256 (ro_bytes out) = ro_declared_digest out)"

text \<open>Nothing but the list of violations differs.\<close>

definition only_violations :: "impl \<Rightarrow> impl \<Rightarrow> bool" where
  "only_violations im im' \<longleftrightarrow>
     im' = upd_state (\<lambda>s. s\<lparr>cs_violations := cs_violations (im_state im')\<rparr>) im"

lemma only_violations_refl [simp]: "only_violations im im"
  by (simp add: only_violations_def upd_state_def)

lemma only_violations_record [simp]: "only_violations im (record_violation op code s w d im)"
  by (simp add: only_violations_def record_violation_def upd_state_def)

lemma report_gate_cases:
  "case report_gate s out im of
     Inl (st, im') \<Rightarrow> \<not> st_ok st \<and> only_violations im im' \<and> (\<forall>a c. \<not> gate_open s out im a c)
   | Inr (a, c) \<Rightarrow> gate_open s out im a c"
  unfolding report_gate_def Let_def gate_open_def ensure_open_def
  by (auto split: option.split)

lemma only_violations_frame:
  assumes "only_violations im im'"
  shows "ledger_of im' = ledger_of im" "env_of im' = env_of im"
    "cs_attempts (im_state im') = cs_attempts (im_state im)"
    "cs_compilations (im_state im') = cs_compilations (im_state im)"
  by (subst assms [unfolded only_violations_def], simp add: upd_state_def view_defs)+

lemma report_reserve_ledger [simp]: "ledger_of (snd (report_reserve s out im)) = ledger_of im"
  using report_gate_cases [where s = s and out = out and im = im]
  by (auto simp: report_reserve_def split: sum.splits dest: only_violations_frame(1))

lemma report_commit_run:
  "\<exists>n\<le>1. ledger_run n (ledger_of im) (ledger_of (snd (report_commit s out v im)))"
  using commit_locked_run [of im s out v]
  by (auto simp: report_commit_def Let_def case_prod_beta intro: ledger_run.stay split: option.split)

lemma reserve_attempt_success:
  assumes "fst (reserve_attempt out a c im) = Inr r"
  shows "rv_candidate_digest r = sha256 (ro_bytes out)
    \<and> (\<exists>a'. find_attempt (au_attempt (ro_claim out)) (snd (reserve_attempt out a c im)) = Some a'
        \<and> ca_state a' = AS_Produced \<and> rf_digest (ca_candidate a') = sha256 (ro_bytes out))"
proof -
  have reservation: "rv_candidate_digest (reservation_for im out c d) = d" for c d im
    by (simp add: reservation_for_def split: option.split)
  have candidate: "rf_digest (ca_candidate (with_candidate out a)) = sha256 (ro_bytes out)"
    by (simp add: with_candidate_def)
  obtain st a1 where move: "transition_attempt (with_candidate out a) AS_Produced = (st, a1)"
    by fastforce
  show ?thesis
    using assms unfolding reserve_attempt_def Let_def move prod.case
    using transition_attempt_cases [OF move] candidate
    by (auto simp: case_prod_beta reservation find_attempt_def split: if_splits)
qed

text \<open>
  A report is accepted only from its owner.  If the reservation succeeds then the gate
  was open: the coordinator is open, the session is a worker session with the worker and
  boot of the attempt, the claim agrees with the live records, the attempt was running, the
  artifact is within bounds and has its declared digest.  The attempt then holds the digest
  of the reported bytes as its candidate, in Produced, and authority is untouched.  If the
  gate is closed the report is refused and only the list of violations may differ.
\<close>

theorem report_reservation_exact:
  "(\<forall>r. fst (report_reserve s out im) = Inr r \<longrightarrow>
      (\<exists>a c. gate_open s out im a c) \<and> rv_candidate_digest r = sha256 (ro_bytes out)
      \<and> ledger_of (snd (report_reserve s out im)) = ledger_of im
      \<and> (\<exists>a'. find_attempt (au_attempt (ro_claim out)) (snd (report_reserve s out im)) = Some a'
          \<and> ca_state a' = AS_Produced \<and> rf_digest (ca_candidate a') = sha256 (ro_bytes out)))
   \<and> ((\<nexists>a c. gate_open s out im a c) \<longrightarrow>
        (\<exists>st. fst (report_reserve s out im) = Inl st \<and> \<not> st_ok st)
        \<and> only_violations im (snd (report_reserve s out im)))"
proof (cases "report_gate s out im")
  case (Inl refusal)
  then show ?thesis
    using report_gate_cases [where s = s and out = out and im = im] by (auto simp: report_reserve_def)
next
  case (Inr pair)
  obtain a c where ac: "pair = (a, c)" by (cases pair)
  with Inr have gate: "gate_open s out im a c"
    using report_gate_cases [where s = s and out = out and im = im] by simp
  have eq: "report_reserve s out im = reserve_attempt out a c im"
    by (simp add: report_reserve_def Inr ac)
  have "fst (reserve_attempt out a c im) = Inr r \<longrightarrow> rv_candidate_digest r = sha256 (ro_bytes out)
      \<and> (\<exists>a'. find_attempt (au_attempt (ro_claim out)) (snd (reserve_attempt out a c im)) = Some a'
          \<and> ca_state a' = AS_Produced \<and> rf_digest (ca_candidate a') = sha256 (ro_bytes out))" for r
    using reserve_attempt_success by blast
  with gate show ?thesis unfolding eq by auto
qed

text \<open>The sample report passes the gate of the running scenario.\<close>

lemma sample_gate: "gate_open (Ident 1) sample_report sample_running sample_attempt sample_compilation"
proof -
  have "validate_authority sample_claim (expectation_for sample_running sample_compilation sample_attempt) = success"
    by (simp add: validate_authority_def expectation_for_def sample_claim_def sample_attempt_def
        sample_running_def new_claim_def new_attempt_def sample_with_def table_defs)
  then show ?thesis
    by (simp add: gate_open_def sample_running_def sample_session_def sample_attempt_def new_attempt_def
        sample_worker_def sample_report_def digest_is_zero_def)
      (simp add: sample_with_def table_defs sample_impl_def sample_config_def)
qed

lemma gate_open_moves:
  "gate_open s out im a c \<Longrightarrow> st_ok (fst (transition_attempt (with_candidate out a) AS_Produced))"
  by (auto simp: gate_open_def with_candidate_def transition_attempt_def legal_to_Produced)

lemma sample_running_env [simp]: "env_of sample_running = env_of sample_impl"
  by (simp add: sample_running_def)

lemma report_reservation_exact_witness:
  "(\<exists>r. fst (report_reserve (Ident 1) sample_report sample_running) = Inr r
      \<and> rv_candidate_digest r = sha256 [1])
   \<and> (\<exists>st. fst (report_reserve (Ident 2) sample_report sample_running) = Inl st \<and> \<not> st_ok st)"
proof -
  have "\<exists>r. fst (report_reserve (Ident 1) sample_report sample_running) = Inr r"
    using sample_gate report_gate_cases [where s = "Ident 1" and out = sample_report and im = sample_running]
    by (auto simp: report_reserve_def reserve_attempt_def Let_def case_prod_beta persist_off
        dest: gate_open_moves split: sum.splits)
  moreover have "\<nexists>a c. gate_open (Ident 2) sample_report sample_running a c"
    by (simp add: gate_open_def sample_running_def sample_with_def find_session_def table_defs
        sample_impl_def initial_state_def)
  ultimately show ?thesis
    using report_reservation_exact [of "Ident 1" sample_report sample_running]
      report_reservation_exact [of "Ident 2" sample_report sample_running] by auto
qed

text \<open>
  The commit does not look at the live worker or lease.  Once an attempt has reported,
  the second authority check compares the claim with the attempt's own copy of worker,
  boot and lease, so the candidate is committed whatever the worker table and the lease
  table say by then: a worker that has been fenced, or replaced by a newer boot, with its
  lease revoked, still makes its artifact authoritative.
\<close>

theorem commit_ignores_live_worker:
  "\<forall>w l. \<exists>d. fst (report_commit (Ident 1) sample_report passing (sample_with w l sample_produced_attempt)) = Inr d
     \<and> dn_outcome d = CO_Committed \<and> dn_artifact_authoritative d"
proof (intro allI)
  fix w l
  let ?im = "sample_with w l sample_produced_attempt"
  have "header ?im = header sample_impl"
    by (simp add: sample_with_def table_defs)
  then have "validate_authority sample_claim (expectation_for ?im sample_compilation sample_produced_attempt) = success"
    by (simp add: validate_authority_def expectation_for_def sample_claim_def sample_attempt_def
        sample_produced_attempt_def new_claim_def new_attempt_def)
  then have "report_commit (Ident 1) sample_report passing ?im = commit_locked (Ident 1) sample_report passing ?im"
    by (simp add: report_commit_def)
  then show "\<exists>d. fst (report_commit (Ident 1) sample_report passing ?im) = Inr d
     \<and> dn_outcome d = CO_Committed \<and> dn_artifact_authoritative d"
    using sample_commits [of w l] by simp
qed

text \<open>
  A candidate whose authority moved between the two checks is refused: the answer names
  the stale dimension, authority and cache are untouched, the compilation keeps its record,
  and the attempt no longer waits for a commit if Fenced was reachable from its state.
\<close>

theorem revalidation_refuses_stale:
  assumes "find_attempt (au_attempt (ro_claim out)) im = Some a"
    "find_compilation (au_compilation (ro_claim out)) im = Some c"
    "\<not> st_ok (validate_authority (ro_claim out) (expectation_for im c a))"
  shows "\<exists>d. fst (report_commit s out v im) = Inr d \<and> dn_outcome d = CO_Refused
      \<and> dn_error d = st_code (validate_authority (ro_claim out) (expectation_for im c a))
      \<and> \<not> dn_artifact_authoritative d
      \<and> (let im' = snd (report_commit s out v im) in
         ledger_of im' = ledger_of im \<and> cache_of im' = cache_of im
         \<and> cs_compilations (im_state im') = cs_compilations (im_state im)
         \<and> (is_legal_transition (ca_state a) AS_Fenced \<longrightarrow>
              map_option ca_state (find_attempt (au_attempt (ro_claim out)) im') = Some AS_Fenced))"
  using assms
  by (simp add: report_commit_def Let_def case_prod_beta no_decision_def)
    (simp add: transition_attempt_def finish_attempt_fst find_attempt_def)

lemma revalidation_refuses_stale_witness:
  "let im = upd_header (\<lambda>h. h\<lparr>hd_epoch := Gen 2\<rparr>) sample_produced in
   \<exists>d. fst (report_commit (Ident 1) sample_report passing im) = Inr d
     \<and> dn_outcome d = CO_Refused \<and> dn_error d = Err_StaleEpoch"
proof -
  let ?im = "upd_header (\<lambda>h. h\<lparr>hd_epoch := Gen 2\<rparr>) sample_produced"
  have a: "find_attempt (au_attempt (ro_claim sample_report)) ?im = Some sample_produced_attempt"
    and c: "find_compilation (au_compilation (ro_claim sample_report)) ?im = Some sample_compilation"
    by (simp_all add: sample_produced_def sample_with_def table_defs find_attempt_def find_compilation_def)
  have st: "st_code (validate_authority (ro_claim sample_report)
      (expectation_for ?im sample_compilation sample_produced_attempt)) = Err_StaleEpoch"
    by (simp add: validate_authority_def expectation_for_def sample_claim_def new_claim_def
        sample_impl_def table_defs error_def)
  then have "\<not> st_ok (validate_authority (ro_claim sample_report)
      (expectation_for ?im sample_compilation sample_produced_attempt))"
    by (simp add: st_ok_def)
  from revalidation_refuses_stale [OF a c this, of "Ident 1" passing] st show ?thesis
    by (simp add: Let_def) blast
qed

end
