(* ===== verification/DC_WorkerOps.thy ===== *)
theory DC_WorkerOps
  imports DC_Commit
begin

text \<open>
  The operations a worker calls besides reporting (\<^verbatim>\<open>src/coordinator_tx.cpp\<close>, lines 951
  to 1201): registration, capability advertisement, readiness, heartbeats, the start of an
  attempt, the answer to an evidence revalidation, and the shutdown notice.
\<close>

section \<open>Registration\<close>

record worker_registration =
  wr_endpoint :: string
  wr_host :: string
  wr_worker_id :: worker_id
  wr_boot_id :: boot_id
  wr_capabilities :: worker_capabilities
  wr_max_inflight :: u32

record registered_worker =
  rw_session :: session_id
  rw_worker :: worker_id
  rw_boot :: boot_id
  rw_generation :: worker_gen
  rw_epoch :: epoch
  rw_detail :: string

definition capabilities_bounded :: "worker_capabilities \<Rightarrow> bool" where
  "capabilities_bounded c \<longleftrightarrow> length (wc_toolchains c) \<le> 64 \<and> length (wc_targets c) \<le> 64
     \<and> length (wc_input_formats c) \<le> 64 \<and> length (wc_plugins c) \<le> 256 \<and> length (wc_sdks c) \<le> 64"

definition health_of :: "worker_capabilities \<Rightarrow> worker_health" where
  "health_of c = (if wc_evidence c = EC_Unknown then WH_Unknown else WH_Healthy)"

text \<open>The generation of a registration: 1 for a new worker, else the next one.\<close>

definition registration_generation :: "worker_record option \<Rightarrow> worker_gen" where
  "registration_generation existing =
     (case existing of
        None \<Rightarrow> Gen 1
      | Some w \<Rightarrow> if gen_is_zero (wk_generation w) then Gen 1 else gen_next (wk_generation w))"

definition registered_record ::
    "worker_registration \<Rightarrow> worker_capabilities \<Rightarrow> session_id \<Rightarrow> unix_millis
      \<Rightarrow> worker_record option \<Rightarrow> worker_record" where
  "registered_record r caps session now existing =
     (let host = (if wr_host r = [] then wc_host caps else wr_host r);
          kept = (\<lambda>f. case existing of None \<Rightarrow> 0 | Some w \<Rightarrow> f w) in
      \<lparr>wk_id = (case existing of None \<Rightarrow> wr_worker_id r | Some w \<Rightarrow> wk_id w),
       wk_boot = wr_boot_id r, wk_generation = registration_generation existing,
       wk_session = session, wk_endpoint = wr_endpoint r, wk_host = host,
       wk_capabilities = caps\<lparr>wc_host := host\<rparr>, wk_health = health_of caps, wk_ready = False,
       wk_fenced = False, wk_trusted_evidence_fresh = (wc_evidence caps = EC_Real),
       wk_queue_depth = 0, wk_in_flight = 0,
       wk_completed_units = kept wk_completed_units, wk_failed_units = kept wk_failed_units,
       wk_total_compile_millis = kept wk_total_compile_millis,
       wk_cache_affinity_hits = kept wk_cache_affinity_hits,
       wk_registered_at = now, wk_last_seen = now, wk_active_leases = []\<rparr>)"

definition session_for :: "worker_registration \<Rightarrow> epoch \<Rightarrow> worker_record \<Rightarrow> session_record" where
  "session_for r e w =
     \<lparr>ss_id = wk_session w, ss_is_worker = True, ss_worker = wk_id w, ss_boot = wk_boot w,
      ss_epoch = e, ss_peer = wr_endpoint r, ss_host = wk_host w,
      ss_connected_at = wk_registered_at w, ss_last_seen = wk_registered_at w, ss_open = True,
      ss_max_inflight = max 1 (min (wr_max_inflight r) 64)\<rparr>"

definition take_session_id :: "impl \<Rightarrow> impl" where
  "take_session_id = upd_header (\<lambda>h. h\<lparr>hd_next_session_id := hd_next_session_id h + 1\<rparr>)"

definition register_worker :: "worker_registration \<Rightarrow> impl \<Rightarrow> registered_worker outcome \<times> impl" where
  "register_worker r im =
    (if \<not> st_ok (ensure_open im) then (Inl (Returned (ensure_open im)), im)
     else if id_is_zero (wr_worker_id r) \<or> id_is_zero (wr_boot_id r) then
       (refuse Err_InvalidArgument ''worker id and boot id are required'', im)
     else if \<not> capabilities_bounded (wr_capabilities r) then
       (refuse Err_LimitExceeded ''worker capability advertisement exceeds bounds'', im)
     else case canonicalize_capabilities (wr_capabilities r) of
       Inl stop \<Rightarrow> (Inl stop, im)
     | Inr c \<Rightarrow>
     let caps = (if wc_host c = [] then c\<lparr>wc_host := wr_host r\<rparr> else c);
         existing = find_worker (wr_worker_id r) im in
     if length (cs_workers (im_state im)) \<ge> unat (cg_max_workers (im_config im)) \<and> existing = None then
       (refuse Err_LimitExceeded ''worker table is full'', im)
     else
     let session = Ident (hd_next_session_id (header im));
         w = registered_record r caps session (im_now im) existing;
         s = session_for r (hd_epoch (header im)) w;
         im1 = put_worker (wk_id w) w (put_session session s (take_session_id im));
         (persisted, im2) = persist_entity (JP_Worker w) im1 in
     if \<not> st_ok persisted then (Inl (Returned persisted), im2)
     else (Inr \<lparr>rw_session = wk_session w, rw_worker = wk_id w, rw_boot = wk_boot w,
                rw_generation = wk_generation w, rw_epoch = hd_epoch (header im),
                rw_detail = (if existing \<noteq> None then ''reconnect with a fresh boot identity''
                             else ''admitted'')\<rparr>, im2))"

section \<open>The worker behind a session\<close>

text \<open>
  The prologue that four operations share: the session, its worker record, and the boot
  comparison, whose refusal is the caller's.
\<close>

definition session_worker :: "session_id \<Rightarrow> impl \<Rightarrow> status + session_record \<times> worker_record" where
  "session_worker session_id im =
     (case find_session session_id im of
        None \<Rightarrow> Inl (error Err_Unauthorized ''session is not a worker session'')
      | Some s \<Rightarrow>
         if \<not> ss_is_worker s then Inl (error Err_Unauthorized ''session is not a worker session'')
         else (case find_worker (ss_worker s) im of
            None \<Rightarrow> Inl (error Err_NotFound ''unknown worker'')
          | Some w \<Rightarrow> Inr (s, w)))"

definition advertise_capabilities ::
    "session_id \<Rightarrow> worker_capabilities \<Rightarrow> impl \<Rightarrow> unit outcome \<times> impl" where
  "advertise_capabilities session_id capabilities im =
    (let returned = (\<lambda>st. if st_ok st then Inr () else Inl (Returned st)) in
     if \<not> st_ok (ensure_open im) then (returned (ensure_open im), im) else
     case session_worker session_id im of
       Inl st \<Rightarrow> (returned st, im)
     | Inr (s, w) \<Rightarrow>
     if wk_boot w \<noteq> ss_boot s then
       (refuse Err_StaleWorkerBoot ''worker boot identity has been superseded'',
        record_violation ''advertise_capabilities'' Err_StaleWorkerBoot session_id (ss_worker s)
          ''capability advertisement from a superseded boot'' im)
     else case canonicalize_capabilities capabilities of
       Inl stop \<Rightarrow> (Inl stop, im)
     | Inr c \<Rightarrow>
     let w1 = w\<lparr>wk_capabilities := c\<lparr>wc_host := wk_host w\<rparr>, wk_health := health_of c,
               wk_trusted_evidence_fresh := (wc_evidence c = EC_Real), wk_last_seen := im_now im\<rparr>;
         (persisted, im1) = persist_entity (JP_Worker w1) (put_worker (ss_worker s) w1 im)
     in (returned persisted, im1))"

definition mark_ready :: "session_id \<Rightarrow> impl \<Rightarrow> status \<times> impl" where
  "mark_ready session_id im =
    (if \<not> st_ok (ensure_open im) then (ensure_open im, im) else
     case session_worker session_id im of
       Inl st \<Rightarrow> (st, im)
     | Inr (s, w) \<Rightarrow>
     if wk_boot w \<noteq> ss_boot s then
       (error Err_StaleWorkerBoot ''worker boot identity has been superseded'', im)
     else if wc_evidence (wk_capabilities w) = EC_Unknown then
       (error Err_Unknown ''worker cannot become ready without evidence-backed capabilities'', im)
     else
       (let w1 = w\<lparr>wk_ready := True, wk_health := WH_Healthy, wk_last_seen := im_now im\<rparr> in
        persist (JP_Worker w1) (put_worker (ss_worker s) w1 im)))"

text \<open>A heartbeat touches the session before it looks at the worker.\<close>

definition heartbeat :: "session_id \<Rightarrow> impl \<Rightarrow> status \<times> impl" where
  "heartbeat session_id im =
    (if \<not> st_ok (ensure_open im) then (ensure_open im, im) else
     case find_session session_id im of
       None \<Rightarrow> (error Err_StaleSession ''session is not open at this epoch'', im)
     | Some s \<Rightarrow>
     if \<not> ss_open s then (error Err_StaleSession ''session is not open at this epoch'', im) else
     let im1 = put_session session_id (s\<lparr>ss_last_seen := im_now im\<rparr>) im in
     if \<not> ss_is_worker s then (success, im1) else
     case find_worker (ss_worker s) im1 of
       None \<Rightarrow> (error Err_NotFound ''unknown worker'', im1)
     | Some w \<Rightarrow>
     if wk_boot w \<noteq> ss_boot s then
       (error Err_StaleWorkerBoot ''worker boot identity has been superseded'', im1)
     else (success, put_worker (ss_worker s)
       (w\<lparr>wk_last_seen := im_now im,
          wk_health := (if wk_health w = WH_Suspect then WH_Healthy else wk_health w)\<rparr>) im1))"

definition handle_validate_response ::
    "session_id \<Rightarrow> u32 \<Rightarrow> evidence_class \<Rightarrow> digest256 \<Rightarrow> string \<Rightarrow> impl \<Rightarrow> status \<times> impl" where
  "handle_validate_response session_id mode evidence digest detail im =
    (if \<not> st_ok (ensure_open im) then (ensure_open im, im) else
     case session_worker session_id im of
       Inl st \<Rightarrow> (st, im)
     | Inr (s, w) \<Rightarrow>
     if wk_boot w \<noteq> ss_boot s then
       (error Err_StaleWorkerBoot ''validate response from a superseded boot'', im)
     else if mode \<noteq> 0 then (success, im)
     else if digest \<noteq> wc_digest (wk_capabilities w) then
       (let w1 = w\<lparr>wk_trusted_evidence_fresh := False, wk_ready := False, wk_health := WH_Suspect\<rparr> in
        persist (JP_Worker w1) (record_violation ''validate_output'' Err_StaleToolchain session_id (wk_id w1)
          (''evidence revalidation produced a different capability digest: '' @ detail)
          (put_worker (ss_worker s) w1 im)))
     else
       (let w1 = w\<lparr>wk_trusted_evidence_fresh := (evidence = EC_Real), wk_last_seen := im_now im\<rparr> in
        persist (JP_Worker w1) (put_worker (ss_worker s) w1 im)))"

section \<open>Starting an attempt\<close>

text \<open>What a start changes: only an Assigned attempt moves.\<close>

definition started ::
    "impl \<Rightarrow> compilation_attempt \<Rightarrow> compilation_record
      \<Rightarrow> status \<times> compilation_attempt \<times> compilation_record" where
  "started im a c =
     (if ca_state a \<noteq> AS_Assigned then (success, a, c)
      else
        (let (moved, a1) = transition_attempt a AS_Preparing in
         if \<not> st_ok moved then (moved, a1, c)
         else (success, a1\<lparr>ca_started_at := im_now im\<rparr>,
           (if cr_state c \<noteq> CS_Committed then c\<lparr>cr_state := CS_Running\<rparr> else c)
             \<lparr>cr_updated_at := im_now im\<rparr>)))"

definition begin_compile :: "authority_claim \<Rightarrow> impl \<Rightarrow> status \<times> impl" where
  "begin_compile claim im =
    (if \<not> st_ok (ensure_open im) then (ensure_open im, im) else
     case find_attempt (au_attempt claim) im of
       None \<Rightarrow> (error Err_StaleAttempt ''unknown attempt'',
         record_violation ''begin_compile'' Err_StaleAttempt (Ident 0) (Ident 0)
           ''begin for an unknown attempt'' im)
     | Some a \<Rightarrow>
     case find_compilation (au_compilation claim) im of
       None \<Rightarrow> (error Err_StaleCompilation ''unknown compilation'', im)
     | Some c \<Rightarrow>
     let authority = validate_authority claim (expectation_for im c a) in
     if \<not> st_ok authority then
       (authority, record_violation ''begin_compile'' (st_code authority) (Ident 0) (ca_worker a)
          (st_detail authority) im)
     else if ca_state a \<noteq> AS_Assigned \<and> ca_state a \<noteq> AS_Preparing \<and> ca_state a \<noteq> AS_Running then
       (error Err_StaleAttempt (''attempt is in state '' @ attempt_state_string (ca_state a)), im)
     else
     let (moved, a1, c1) = started im a c;
         im1 = put_compilation (au_compilation claim) c1 (put_attempt (au_attempt claim) a1 im) in
     if \<not> st_ok moved then (moved, im1) else
     let (persisted, im2) = persist (JP_Attempt a1) im1 in
     if \<not> st_ok persisted then (persisted, im2) else persist (JP_Compilation c1) im2)"

section \<open>Shutdown\<close>

definition shutdown_control :: "session_id \<Rightarrow> control_message" where
  "shutdown_control i =
     \<lparr>cx_session = i, cx_kind = CK_Shutdown, cx_compilation = Ident 0,
      cx_compilation_generation = Gen 0, cx_attempt = Ident 0, cx_attempt_generation = Gen 0,
      cx_lease = Ident 0, cx_lease_generation = Gen 0, cx_commit = Ident 0,
      cx_artifact_digest = 0, cx_reason = ''coordinator shutdown''\<rparr>"

definition shutdown_sessions :: "impl \<Rightarrow> status \<times> impl" where
  "shutdown_sessions im =
     (if \<not> im_opened im then (success, im)
      else (success, upd_state (\<lambda>s. s\<lparr>cs_controls := cs_controls s @
             map (shutdown_control \<circ> fst) (filter (\<lambda>(i, x). ss_open x \<and> ss_is_worker x) (cs_sessions s))\<rparr>) im))"

section \<open>What these operations leave alone\<close>

lemma take_session_id_frame [simp]:
  "ledger_of (take_session_id im) = ledger_of im"
  "cs_attempts (im_state (take_session_id im)) = cs_attempts (im_state im)"
  "cs_compilations (im_state (take_session_id im)) = cs_compilations (im_state im)"
  "cs_leases (im_state (take_session_id im)) = cs_leases (im_state im)"
  "cs_workers (im_state (take_session_id im)) = cs_workers (im_state im)"
  "cs_sessions (im_state (take_session_id im)) = cs_sessions (im_state im)"
  "cache_of (take_session_id im) = cache_of im"
  "env_of (take_session_id im) = env_of im"
  "cs_controls (im_state (take_session_id im)) = cs_controls (im_state im)"
  by (simp_all add: take_session_id_def table_defs view_defs)

lemma register_worker_frame [simp]:
  "ledger_of (snd (register_worker r im)) = ledger_of im"
  "env_of (snd (register_worker r im)) = env_of im"
  "cs_attempts (im_state (snd (register_worker r im))) = cs_attempts (im_state im)"
  "cs_compilations (im_state (snd (register_worker r im))) = cs_compilations (im_state im)"
  "cs_leases (im_state (snd (register_worker r im))) = cs_leases (im_state im)"
  "cache_of (snd (register_worker r im)) = cache_of im"
  "cs_controls (im_state (snd (register_worker r im))) = cs_controls (im_state im)"
  by (auto simp: register_worker_def take_session_id_frame Let_def case_prod_beta split: option.split sum.split)

lemma advertise_capabilities_frame [simp]:
  "ledger_of (snd (advertise_capabilities s c im)) = ledger_of im"
  "env_of (snd (advertise_capabilities s c im)) = env_of im"
  "cs_attempts (im_state (snd (advertise_capabilities s c im))) = cs_attempts (im_state im)"
  "cs_compilations (im_state (snd (advertise_capabilities s c im))) = cs_compilations (im_state im)"
  "cs_leases (im_state (snd (advertise_capabilities s c im))) = cs_leases (im_state im)"
  "cache_of (snd (advertise_capabilities s c im)) = cache_of im"
  "cs_controls (im_state (snd (advertise_capabilities s c im))) = cs_controls (im_state im)"
  by (auto simp: advertise_capabilities_def Let_def case_prod_beta split: option.split sum.split)

lemma mark_ready_frame [simp]:
  "ledger_of (snd (mark_ready s im)) = ledger_of im"
  "env_of (snd (mark_ready s im)) = env_of im"
  "cs_attempts (im_state (snd (mark_ready s im))) = cs_attempts (im_state im)"
  "cs_compilations (im_state (snd (mark_ready s im))) = cs_compilations (im_state im)"
  "cs_leases (im_state (snd (mark_ready s im))) = cs_leases (im_state im)"
  "cache_of (snd (mark_ready s im)) = cache_of im"
  "cs_controls (im_state (snd (mark_ready s im))) = cs_controls (im_state im)"
  by (auto simp: mark_ready_def Let_def case_prod_beta split: option.split sum.split)

lemma heartbeat_frame [simp]:
  "ledger_of (snd (heartbeat s im)) = ledger_of im"
  "env_of (snd (heartbeat s im)) = env_of im"
  "cs_attempts (im_state (snd (heartbeat s im))) = cs_attempts (im_state im)"
  "cs_compilations (im_state (snd (heartbeat s im))) = cs_compilations (im_state im)"
  "cs_leases (im_state (snd (heartbeat s im))) = cs_leases (im_state im)"
  "cache_of (snd (heartbeat s im)) = cache_of im"
  "cs_controls (im_state (snd (heartbeat s im))) = cs_controls (im_state im)"
  by (auto simp: heartbeat_def Let_def case_prod_beta split: option.split sum.split)

lemma handle_validate_response_frame [simp]:
  "ledger_of (snd (handle_validate_response s m e d t im)) = ledger_of im"
  "env_of (snd (handle_validate_response s m e d t im)) = env_of im"
  "cs_attempts (im_state (snd (handle_validate_response s m e d t im))) = cs_attempts (im_state im)"
  "cs_compilations (im_state (snd (handle_validate_response s m e d t im))) = cs_compilations (im_state im)"
  "cs_leases (im_state (snd (handle_validate_response s m e d t im))) = cs_leases (im_state im)"
  "cache_of (snd (handle_validate_response s m e d t im)) = cache_of im"
  "cs_controls (im_state (snd (handle_validate_response s m e d t im))) = cs_controls (im_state im)"
  by (auto simp: handle_validate_response_def Let_def case_prod_beta split: option.split sum.split)

lemma begin_compile_frame [simp]:
  "ledger_of (snd (begin_compile claim im)) = ledger_of im"
  "env_of (snd (begin_compile claim im)) = env_of im"
  "cs_leases (im_state (snd (begin_compile claim im))) = cs_leases (im_state im)"
  "cs_workers (im_state (snd (begin_compile claim im))) = cs_workers (im_state im)"
  "cache_of (snd (begin_compile claim im)) = cache_of im"
  "cs_controls (im_state (snd (begin_compile claim im))) = cs_controls (im_state im)"
  by (simp_all add: begin_compile_def Let_def case_prod_beta split: option.split)

lemma shutdown_sessions_frame [simp]:
  "ledger_of (snd (shutdown_sessions im)) = ledger_of im"
  "env_of (snd (shutdown_sessions im)) = env_of im"
  "cs_attempts (im_state (snd (shutdown_sessions im))) = cs_attempts (im_state im)"
  "cs_compilations (im_state (snd (shutdown_sessions im))) = cs_compilations (im_state im)"
  "cache_of (snd (shutdown_sessions im)) = cache_of im"
  by (simp_all add: shutdown_sessions_def table_defs view_defs)

end
