(* ===== verification/DC_Submit.thy ===== *)
theory DC_Submit
  imports DC_WorkerOps
begin

text \<open>
  Submission (\<^verbatim>\<open>src/coordinator_tx.cpp\<close>, lines 65 to 439): content checks, canonicalisation,
  registration of the declared identities, retention of the request, one compilation per
  unit, and the cache consultation that decides what is reused.
\<close>

section \<open>Early returns\<close>

text \<open>
  An operation with many early returns is an action: it stops with a status (or an
  exception of the canonical writer), or goes on with a value; the state reached so far is
  kept either way.
\<close>

type_synonym 'a action = "impl \<Rightarrow> 'a outcome \<times> impl"

definition give :: "'a \<Rightarrow> 'a action" where
  "give x im = (Inr x, im)"

definition fail_with :: "error_code \<Rightarrow> string \<Rightarrow> 'a action" where
  "fail_with c d im = (refuse c d, im)"

definition and_then :: "'a action \<Rightarrow> ('a \<Rightarrow> 'b action) \<Rightarrow> 'b action" where
  "and_then m f im = (case m im of (Inl s, im1) \<Rightarrow> (Inl s, im1) | (Inr x, im1) \<Rightarrow> f x im1)"

definition lift_outcome :: "'a outcome \<Rightarrow> 'a action" where
  "lift_outcome r im = (r, im)"

definition step_of :: "(impl \<Rightarrow> impl) \<Rightarrow> unit action" where
  "step_of f im = (Inr (), f im)"

text \<open>\<^verbatim>\<open>Status s = ...; if (!s.ok()) return s;\<close>\<close>

definition must :: "(impl \<Rightarrow> status \<times> impl) \<Rightarrow> unit action" where
  "must f im = (let (st, im1) = f im in (if st_ok st then Inr () else Inl (Returned st), im1))"

fun for_each :: "('x \<Rightarrow> 'a \<Rightarrow> 'a action) \<Rightarrow> 'x list \<Rightarrow> 'a \<Rightarrow> 'a action" where
  "for_each f [] a = give a"
| "for_each f (x # xs) a = and_then (f x a) (for_each f xs)"

section \<open>Bundles and results\<close>

record submission_bundle =
  sb_request :: compilation_request
  sb_blobs :: "blob list"
  sb_dry_run :: bool
  sb_force_rebuild :: bool
  sb_speculative :: bool

record unit_submission =
  uv_index :: u32
  uv_compilation :: compilation_id
  uv_unit :: unit_id
  uv_unit_generation :: unit_gen
  uv_unit_identity :: digest256
  uv_state :: compilation_state
  uv_cache :: cache_decision
  uv_committed :: bool
  uv_commit :: artifact_commit
  uv_scheduled :: bool
  uv_detail :: string

record submission_result =
  sv_request_id :: request_id
  sv_request_identity :: digest256
  sv_units :: "unit_submission list"
  sv_all_committed :: bool
  sv_served_from_cache :: bool
  sv_duplicate_request :: bool

section \<open>Declared generations\<close>

text \<open>
  A declared generation of 0 asks the coordinator to resolve it; any other must be the one
  the registry resolves.  The registry keeps what it resolved even when this fails.
\<close>

definition generation_check ::
    "error_code \<Rightarrow> string \<Rightarrow> 'g gen \<Rightarrow> 'g gen \<Rightarrow> status" where
  "generation_check code dimension declared actual =
     (if gen_value declared \<noteq> 0 \<and> gen_value actual \<noteq> gen_value declared
      then error code (dimension @ '' generation declared as '' @ to_dec (gen_value declared) @
             '' but the coordinator resolved '' @ to_dec (gen_value actual))
      else success)"

definition checked_generation ::
    "error_code \<Rightarrow> string \<Rightarrow> 'g gen \<Rightarrow> 'g gen \<Rightarrow> compilation_request \<Rightarrow> compilation_request outcome" where
  "checked_generation code dimension declared actual r =
     (let st = generation_check code dimension declared actual in
      if st_ok st then Inr r else Inl (Returned st))"

definition register_toolchain :: "compilation_request \<Rightarrow> compilation_request action" where
  "register_toolchain r im =
     (let t = rq_toolchain r;
          (g, _, reg) = resolve (cs_toolchains (im_state im)) (tc_id t) (tc_identity_digest t)
      in (checked_generation Err_StaleToolchain ''toolchain'' (tc_generation t) g
            (r\<lparr>rq_toolchain := t\<lparr>tc_generation := g\<rparr>\<rparr>),
          upd_state (\<lambda>s. s\<lparr>cs_toolchains := reg\<rparr>) im))"

definition register_target :: "compilation_request \<Rightarrow> compilation_request action" where
  "register_target r im =
     (let t = rq_target r;
          (g, _, reg) = resolve (cs_targets (im_state im)) (tg_id t) (tg_identity_digest t)
      in (checked_generation Err_StaleTarget ''target'' (tg_generation t) g
            (r\<lparr>rq_target := t\<lparr>tg_generation := g\<rparr>\<rparr>),
          upd_state (\<lambda>s. s\<lparr>cs_targets := reg\<rparr>) im))"

definition register_specialization :: "compilation_request \<Rightarrow> compilation_request action" where
  "register_specialization r im =
     (let t = rq_specialization r;
          (g, _, reg) = resolve (cs_specializations (im_state im)) (sp_id t) (sp_identity_digest t)
      in (checked_generation Err_StaleSpecialization ''specialization'' (sp_generation t) g
            (r\<lparr>rq_specialization := t\<lparr>sp_generation := g\<rparr>\<rparr>),
          upd_state (\<lambda>s. s\<lparr>cs_specializations := reg\<rparr>) im))"

definition register_policy :: "compilation_request \<Rightarrow> compilation_request action" where
  "register_policy r im =
     (let t = rq_policy r;
          (g, _, reg) = resolve (cs_policies (im_state im)) (po_id t) (po_identity_digest t)
      in (checked_generation Err_StalePolicy ''policy'' (po_generation t) g
            (r\<lparr>rq_policy := t\<lparr>po_generation := g\<rparr>\<rparr>),
          upd_state (\<lambda>s. s\<lparr>cs_policies := reg\<rparr>) im))"

definition register_dependencies :: "compilation_request \<Rightarrow> compilation_request action" where
  "register_dependencies r im =
     (let t = rq_dependencies r;
          (g, _, reg) = resolve (cs_dependencies (im_state im)) (ds_id t) (ds_identity_digest t)
      in (checked_generation Err_StaleDependencies ''dependency set'' (ds_generation t) g
            (r\<lparr>rq_dependencies := t\<lparr>ds_generation := g\<rparr>\<rparr>),
          upd_state (\<lambda>s. s\<lparr>cs_dependencies := reg\<rparr>) im))"

definition register_source :: "unit_source \<Rightarrow> unit \<Rightarrow> unit action" where
  "register_source s _ = and_then (lift_outcome (derive_source_id (us_logical_name s)))
     (\<lambda>i. step_of (\<lambda>im. let (_, _, reg) = resolve (cs_sources (im_state im)) i (rf_digest (us_content s))
        in upd_state (\<lambda>s. s\<lparr>cs_sources := reg\<rparr>) im))"

definition register_and_check :: "compilation_request \<Rightarrow> compilation_request action" where
  "register_and_check r =
     (if id_is_zero (tc_id (rq_toolchain r)) \<or> id_is_zero (tg_id (rq_target r))
         \<or> id_is_zero (sp_id (rq_specialization r)) \<or> id_is_zero (po_id (rq_policy r))
         \<or> id_is_zero (ds_id (rq_dependencies r))
      then fail_with Err_InvalidArgument ''every registered identity must have a non-zero logical id''
      else
        and_then (register_toolchain r) (\<lambda>r.
        and_then (register_target r) (\<lambda>r.
        and_then (register_specialization r) (\<lambda>r.
        and_then (register_policy r) (\<lambda>r.
        and_then (register_dependencies r) (\<lambda>r.
        and_then (for_each register_source (concat (map un_sources (rq_units r))) ()) (\<lambda>_.
        give r)))))))"

section \<open>Content\<close>

text \<open>The loop over the blobs before the lock is taken.\<close>

fun check_blobs :: "coordinator_config \<Rightarrow> u64 \<Rightarrow> blob list \<Rightarrow> status" where
  "check_blobs cfg sofar [] = success"
| "check_blobs cfg sofar (b # bs) =
     (let total1 = sofar + of_nat (length (bl_bytes b)) in
      if total1 > cg_max_bundle_bytes cfg then
        error Err_LimitExceeded ''submission bundle exceeds the configured bound''
      else if length (bl_bytes b) > unat (cg_max_blob_bytes cfg) then
        error Err_LimitExceeded ''submission blob exceeds the configured bound''
      else if \<not> digest_is_zero (bl_digest b) \<and> sha256 (bl_bytes b) \<noteq> bl_digest b then
        error Err_IntegrityFailure ''submission blob does not match its declared digest''
      else check_blobs cfg total1 bs)"

definition find_blob :: "submission_bundle \<Rightarrow> digest256 \<Rightarrow> blob option" where
  "find_blob bundle d = List.find (\<lambda>b. bl_digest b = d \<or> sha256 (bl_bytes b) = d) (sb_blobs bundle)"

definition check_unit_content :: "submission_bundle \<Rightarrow> compilation_unit_spec \<Rightarrow> status" where
  "check_unit_content bundle u =
     (case List.find (\<lambda>s. find_blob bundle (rf_digest (us_content s)) = None) (un_sources u) of
        Some s \<Rightarrow> error Err_InvalidArgument
          (''submission bundle is missing content for '' @ quoted (us_logical_name s))
      | None \<Rightarrow>
         (case List.find (\<lambda>d. find_blob bundle (rf_digest (de_content d)) = None) (un_dependencies u) of
            Some d \<Rightarrow> error Err_InvalidArgument
              (''submission bundle is missing dependency content for '' @ quoted (de_name d))
          | None \<Rightarrow> success))"

fun check_content :: "submission_bundle \<Rightarrow> compilation_unit_spec list \<Rightarrow> status" where
  "check_content bundle [] = success"
| "check_content bundle (u # us) =
     (let st = check_unit_content bundle u in if st_ok st then check_content bundle us else st)"

section \<open>Retention\<close>

text \<open>\<^verbatim>\<open>const std::size_t retention_bound = 8192\<close>; the loop stops at unfinished work.\<close>

definition retention_bound :: nat where "retention_bound = 8192"

fun retire_requests ::
    "nat \<Rightarrow> (digest256, job_record) omap \<Rightarrow> digest256 list \<Rightarrow> (digest256, compilation_request) omap
      \<Rightarrow> digest256 list \<times> (digest256, compilation_request) omap" where
  "retire_requests bound jobs [] requests = ([], requests)"
| "retire_requests bound jobs (victim # order) requests =
     (if length (victim # order) > bound then
        (case om_find jobs victim of
           Some job \<Rightarrow>
             if \<not> jr_committed job \<and> jr_failure job = Err_Ok then (victim # order, requests)
             else retire_requests bound jobs order (om_erase victim requests)
         | None \<Rightarrow> retire_requests bound jobs order (om_erase victim requests))
      else (victim # order, requests))"

definition retain_request :: "compilation_request \<Rightarrow> unit action" where
  "retain_request r im =
     (let i = rq_request_identity r; requests = cs_requests (im_state im) in
      if om_find requests i \<noteq> None then (Inr (), im)
      else
        (let (order, kept) = retire_requests retention_bound (cs_jobs (im_state im))
               (im_retained_order im @ [i]) (om_put i r requests)
         in must (persist (JP_Request r))
              (upd_state (\<lambda>s. s\<lparr>cs_requests := kept\<rparr>) (im\<lparr>im_retained_order := order\<rparr>))))"

section \<open>Compilations\<close>

definition unit_source_identity :: "compilation_unit_spec \<Rightarrow> digest256 outcome" where
  "unit_source_identity u = hash_of (w_seq
     [w_domain ''dc.unit-source-identity.v1'', w_digest (un_identity_digest u),
      w_list_of (\<lambda>s. w_seq [w_str (us_logical_name s), w_digest (rf_digest (us_content s))]) (un_sources u),
      w_list_of (\<lambda>d. w_seq [w_str (de_name d), w_digest (rf_digest (de_content d))]) (un_dependencies u)])"

definition new_compilation ::
    "unix_millis \<Rightarrow> compilation_request \<Rightarrow> compilation_unit_spec \<Rightarrow> compilation_id \<Rightarrow> unit_id
      \<Rightarrow> digest256 \<Rightarrow> digest256 \<Rightarrow> compilation_record" where
  "new_compilation now r u i handle environment source =
     \<lparr>cr_id = i, cr_generation = Gen 1, cr_unit = handle, cr_unit_generation = Gen 1,
      cr_unit_identity = un_identity_digest u, cr_request_id = rq_request_id r,
      cr_request_generation = rq_request_generation r, cr_request_identity = rq_request_identity r,
      cr_source_identity = source, cr_dependency_identity = ds_identity_digest (rq_dependencies r),
      cr_toolchain_identity = tc_identity_digest (rq_toolchain r),
      cr_target_identity = tg_identity_digest (rq_target r),
      cr_specialization_identity = sp_identity_digest (rq_specialization r),
      cr_policy_identity = po_identity_digest (rq_policy r), cr_environment_identity = environment,
      cr_source_generation = Gen 0, cr_ir_generation = Gen 0,
      cr_dependency_generation = ds_generation (rq_dependencies r),
      cr_toolchain_generation = tc_generation (rq_toolchain r),
      cr_target_generation = tg_generation (rq_target r),
      cr_specialization_generation = sp_generation (rq_specialization r),
      cr_policy_generation = po_generation (rq_policy r),
      cr_output_kind = un_output_kind u, cr_reproducibility = po_reproducibility (rq_policy r),
      cr_state = CS_Pending, cr_attempts = [], cr_current_attempt = Ident 0,
      cr_attempt_ordinal_counter = 0, cr_commit = None, cr_divergent_candidates = [],
      cr_reproducibility_violation = False, cr_failure_detail = [], cr_failure = Err_Ok,
      cr_cache_hit = False, cr_created_at = now, cr_updated_at = now,
      cr_unit_index = un_index u, cr_parent_unit_index = 0, cr_is_root = (un_index u = 0)\<rparr>"

definition create_compilation ::
    "compilation_request \<Rightarrow> compilation_unit_spec \<Rightarrow> compilation_id \<Rightarrow> unit action" where
  "create_compilation r u i =
     and_then (lift_outcome (derive_unit_handle (un_identity_digest u))) (\<lambda>handle.
     and_then (lift_outcome (compute_environment_identity (rq_environment r))) (\<lambda>environment.
     and_then (lift_outcome (unit_source_identity u)) (\<lambda>source im.
     let c = new_compilation (im_now im) r u i handle environment source in
     must (persist (JP_Compilation c)) (put_compilation i c im))))"

text \<open>
  A forced rebuild of a committed compilation: a new generation, the prior commit marked
  as superseded and taken out of authority, the record back to Pending.
\<close>

definition withdraw_authority :: "compilation_id \<Rightarrow> unit action" where
  "withdraw_authority i im =
     (case om_find (cs_authoritative (im_state im)) i of
        None \<Rightarrow> (Inr (), im)
      | Some m \<Rightarrow>
         (let erase = step_of (upd_state (\<lambda>s. s\<lparr>cs_authoritative := om_erase i (cs_authoritative s)\<rparr>)) in
          case om_find (cs_commits (im_state im)) m of
            None \<Rightarrow> erase im
          | Some k \<Rightarrow>
             (let k1 = k\<lparr>ac_superseded := True\<rparr> in
              and_then (must (persist (JP_Commit k1))) (\<lambda>_. erase) (put_commit m k1 im))))"

definition force_rebuild :: "compilation_id \<Rightarrow> compilation_record \<Rightarrow> unit action" where
  "force_rebuild i c im =
     (let c1 = c\<lparr>cr_generation := gen_next (cr_generation c)\<rparr> in
      and_then (withdraw_authority (cr_id c)) (\<lambda>_ im.
        let c2 = c1\<lparr>cr_state := CS_Pending, cr_cache_hit := False, cr_commit := None,
                   cr_reproducibility_violation := False, cr_divergent_candidates := [],
                   cr_updated_at := im_now im\<rparr>
        in must (persist (JP_Compilation c2)) (put_compilation i c2 im)) (put_compilation i c1 im))"

definition intern_unit ::
    "bool \<Rightarrow> compilation_request \<Rightarrow> compilation_unit_spec \<Rightarrow> job_record \<Rightarrow> job_record action" where
  "intern_unit force r u job =
     and_then (lift_outcome (derive_compilation_id (un_identity_digest u))) (\<lambda>i im.
     let job1 = job\<lparr>jr_units := (jr_units job)[unat (un_index u) := i],
                   jr_mandatory_units := jr_mandatory_units job @ (if un_mandatory u then [un_index u] else [])\<rparr>
     in and_then (case find_compilation i im of
          None \<Rightarrow> create_compilation r u i
        | Some c \<Rightarrow>
            if force \<and> cr_state c = CS_Committed then force_rebuild i c
            else if cr_unit_index c > un_index u then
              step_of (put_compilation i (c\<lparr>cr_unit_index := un_index u\<rparr>))
            else give ()) (\<lambda>_. give job1) im)"

text \<open>\<^verbatim>\<open>units.resize(n)\<close>: cut, or fill with the zero identity.\<close>

definition resize_units :: "nat \<Rightarrow> compilation_id list \<Rightarrow> compilation_id list" where
  "resize_units n us = take n us @ replicate (n - length us) (Ident 0)"

definition initial_job :: "impl \<Rightarrow> compilation_request \<Rightarrow> job_record" where
  "initial_job im r =
     (let job = (case om_find (cs_jobs (im_state im)) (rq_request_identity r) of
            Some job \<Rightarrow> job
          | None \<Rightarrow> \<lparr>jr_request_id = rq_request_id r, jr_request_generation = rq_request_generation r,
              jr_request_identity = rq_request_identity r, jr_units = [], jr_root_index = 0,
              jr_mandatory_units = [], jr_committed = False, jr_committed_unit = Ident 0,
              jr_failure = Err_Ok, jr_failure_detail = [], jr_created_at = im_now im\<rparr>)
      in job\<lparr>jr_units := resize_units (length (rq_units r)) (jr_units job),
             jr_mandatory_units := [], jr_root_index := 0\<rparr>)"

section \<open>Cache consultation\<close>

definition consult_cache :: "impl \<Rightarrow> compile_policy \<Rightarrow> compilation_record \<Rightarrow> cache_decision" where
  "consult_cache im policy c =
     (if po_cache policy = CP_Bypass then
        empty_cache_decision\<lparr>cd_outcome := CO_Miss, cd_reason := ''cache policy is BYPASS''\<rparr>
      else case om_find (cs_cache_index (im_state im)) (cr_unit_identity c) of
        None \<Rightarrow> empty_cache_decision\<lparr>cd_outcome := CO_Miss,
                  cd_reason := ''no cache entry for this unit identity''\<rparr>
      | Some n \<Rightarrow>
         (case om_find (cs_cache_entries (im_state im)) n of
            None \<Rightarrow> empty_cache_decision\<lparr>cd_outcome := CO_Corrupt,
                      cd_reason := ''cache index points at a missing entry''\<rparr>
          | Some e \<Rightarrow>
             (let decision = evaluate_cache_metadata c e in
              if reusable decision
              then evaluate_cache_blob c e (has_blob (rf_digest (ce_artifact e)) im)
              else decision)))"

definition blank_submission :: "u32 \<Rightarrow> compilation_record \<Rightarrow> cache_decision \<Rightarrow> unit_submission" where
  "blank_submission index c decision =
     \<lparr>uv_index = index, uv_compilation = cr_id c, uv_unit = cr_unit c,
      uv_unit_generation = cr_unit_generation c, uv_unit_identity = cr_unit_identity c,
      uv_state = cr_state c, uv_cache = decision, uv_committed = False, uv_commit = no_commit,
      uv_scheduled = False, uv_detail = []\<rparr>"

text \<open>The entry behind a reusable decision.\<close>

definition cached_entry :: "impl \<Rightarrow> compilation_record \<Rightarrow> (cache_entry_id \<times> cache_entry) option" where
  "cached_entry im c =
     (case om_find (cs_cache_index (im_state im)) (cr_unit_identity c) of
        None \<Rightarrow> None
      | Some n \<Rightarrow> map_option (\<lambda>e. (n, e)) (om_find (cs_cache_entries (im_state im)) n))"

definition serve_cached ::
    "compilation_id \<Rightarrow> compilation_record \<Rightarrow> cache_entry_id \<Rightarrow> cache_entry \<Rightarrow> unit_submission
      \<Rightarrow> unit_submission action" where
  "serve_cached i c n e sub im =
     (let c1 = c\<lparr>cr_state := (if om_find (cs_authoritative (im_state im)) (cr_id c) \<noteq> None
                             then CS_Committed else CS_CacheHit),
                cr_cache_hit := True, cr_updated_at := im_now im\<rparr>;
          sub1 = sub\<lparr>uv_state := cr_state c1, uv_committed := True,
            uv_commit := (case om_find (cs_commits (im_state im)) (ce_commit e) of
                            None \<Rightarrow> uv_commit sub | Some k \<Rightarrow> k),
            uv_detail := ''validated cache reuse: '' @ cd_reason (uv_cache sub)\<rparr>
      in and_then (must (persist (JP_Compilation c1))) (\<lambda>_. give sub1)
           (touch_cache_entry n e (put_compilation i c1 im)))"

definition serve_committed ::
    "compilation_record \<Rightarrow> unit_submission \<Rightarrow> unit_submission action" where
  "serve_committed c sub im =
     (Inr (sub\<lparr>uv_committed := True,
        uv_commit := (case om_find (cs_authoritative (im_state im)) (cr_id c) of
            None \<Rightarrow> uv_commit sub
          | Some m \<Rightarrow> (case om_find (cs_commits (im_state im)) m of None \<Rightarrow> uv_commit sub | Some k \<Rightarrow> k)),
        uv_detail := ''served from the authoritative commit record''\<rparr>), im)"

definition queue_unit ::
    "compilation_id \<Rightarrow> compilation_record \<Rightarrow> unit_submission \<Rightarrow> unit_submission action" where
  "queue_unit i c sub im =
     (Inr (sub\<lparr>uv_state := CS_Pending, uv_scheduled := True, uv_detail := ''queued for assignment''\<rparr>),
      put_compilation i (c\<lparr>cr_state := CS_Pending, cr_cache_hit := False\<rparr>) im)"

text \<open>
  One pass of the second loop.  The record is there: the first loop found or created it, so
  the \<^verbatim>\<open>operator[]\<close> of the code inserts nothing.
\<close>

definition submit_unit ::
    "bool \<Rightarrow> compilation_request \<Rightarrow> compilation_unit_spec \<Rightarrow> submission_result \<Rightarrow> submission_result action" where
  "submit_unit force r u result =
     and_then (lift_outcome (derive_compilation_id (un_identity_digest u))) (\<lambda>i im.
     case find_compilation i im of
       None \<Rightarrow> (Inr result, im)
     | Some c \<Rightarrow>
     let decision = consult_cache im (rq_policy r) c;
         sub = blank_submission (un_index u) c decision;
         push = (\<lambda>served s. give (result\<lparr>sv_units := sv_units result @ [s],
                    sv_served_from_cache := sv_served_from_cache result \<or> served\<rparr>)) in
     case (if reusable decision then cached_entry im c else None) of
       Some (n, e) \<Rightarrow> and_then (serve_cached i c n e sub) (push True) im
     | None \<Rightarrow>
         if cr_state c = CS_Committed \<and> \<not> force
         then and_then (serve_committed c sub) (push True) im
         else and_then (queue_unit i c sub) (push False) im)"

section \<open>The submission\<close>

definition finish_job :: "digest256 \<Rightarrow> submission_result \<Rightarrow> submission_result action" where
  "finish_job identity result im =
     (let all = list_all uv_committed (sv_units result);
          result1 = result\<lparr>sv_all_committed := all\<rparr> in
      case om_find (cs_jobs (im_state im)) identity of
        None \<Rightarrow> (Inr result1, im)
      | Some job \<Rightarrow>
         (let job1 = job\<lparr>jr_committed := all,
                jr_committed_unit := (if all
                  then (if jr_units job = [] then Ident 0 else jr_units job ! unat (jr_root_index job))
                  else jr_committed_unit job)\<rparr>
          in and_then (must (persist (JP_Job job1))) (\<lambda>_. give result1) (put_job identity job1 im)))"

definition submit_locked :: "submission_bundle \<Rightarrow> compilation_request \<Rightarrow> submission_result action" where
  "submit_locked bundle r im =
     (let identity = rq_request_identity r;
          result = \<lparr>sv_request_id = rq_request_id r, sv_request_identity = identity, sv_units = [],
            sv_all_committed = False, sv_served_from_cache = False,
            sv_duplicate_request = (case om_find (cs_jobs (im_state im)) identity of
               None \<Rightarrow> False | Some job \<Rightarrow> jr_request_id job \<noteq> rq_request_id r)\<rparr> in
      and_then (for_each (\<lambda>b _. must (store_blob (bl_bytes b))) (sb_blobs bundle) ()) (\<lambda>_.
      and_then (retain_request r) (\<lambda>_ im.
      and_then (for_each (intern_unit (sb_force_rebuild bundle) r) (rq_units r) (initial_job im r)) (\<lambda>job.
      let job1 = job\<lparr>jr_mandatory_units := std_unique (=) (sort (jr_mandatory_units job))\<rparr> in
      and_then (step_of (put_job identity job1)) (\<lambda>_.
      and_then (must (persist (JP_Job job1))) (\<lambda>_.
      and_then (for_each (submit_unit (sb_force_rebuild bundle) r) (rq_units r) result)
        (finish_job identity)))) im)) im)"

definition submit :: "submission_bundle \<Rightarrow> submission_result action" where
  "submit bundle im =
    (if length (rq_units (sb_request bundle)) > unat (cg_max_units (im_config im)) then
       (refuse Err_LimitExceeded ''compilation request exceeds the unit bound'', im)
     else let blobs = check_blobs (im_config im) 0 (sb_blobs bundle) in
     if \<not> st_ok blobs then (Inl (Returned blobs), im)
     else if \<not> st_ok (ensure_open im) then (Inl (Returned (ensure_open im)), im)
     else case canonicalize (sb_request bundle) of
       Inl stop \<Rightarrow> (Inl stop, im)
     | Inr r \<Rightarrow>
     let content = check_content bundle (rq_units r) in
     if \<not> st_ok content then (Inl (Returned content), im)
     else and_then (register_and_check r) (submit_locked bundle) im)"

end
