(* ===== verification/DC_Runs.thy ===== *)
theory DC_Runs
  imports DC_Submit
begin

text \<open>
  What every operation of the coordinator does to its authority and to its attempts.  The
  two are counted relations between coordinators: a run of ledger moves with a number of
  new commits, and an evolution of the attempts with a number of new attempts.  The locale
  states what the actions of the model need of such a relation; both relations interpret it,
  so that a composed operation is covered by covering its parts.
\<close>

section \<open>Counted relations\<close>

locale counted_run =
  fixes rel :: "nat \<Rightarrow> impl \<Rightarrow> impl \<Rightarrow> bool"
  assumes rel_refl: "rel 0 im im"
    and rel_trans: "rel m a b \<Longrightarrow> rel n b c \<Longrightarrow> rel (m + n) a c"
begin

text \<open>An action that adds nothing, whatever it returns and from wherever it starts.\<close>

definition quiet :: "(impl \<Rightarrow> 'r \<times> impl) \<Rightarrow> bool" where
  "quiet f \<longleftrightarrow> (\<forall>im. rel 0 im (snd (f im)))"

lemma quietI: "(\<And>im. rel 0 im (snd (f im))) \<Longrightarrow> quiet f"
  by (simp add: quiet_def)

lemma quietD: "quiet f \<Longrightarrow> rel 0 im (snd (f im))"
  by (simp add: quiet_def)

lemma rel_trans0: "rel 0 a b \<Longrightarrow> rel 0 b c \<Longrightarrow> rel 0 a c"
  using rel_trans [of 0 a b 0 c] by simp

lemma quiet_give: "quiet (give x)"
  by (simp add: quiet_def give_def rel_refl)

lemma quiet_fail: "quiet (fail_with c d)"
  by (simp add: quiet_def fail_with_def rel_refl)

lemma quiet_lift: "quiet (lift_outcome r)"
  by (simp add: quiet_def lift_outcome_def rel_refl)

lemma quiet_step_of: "(\<And>im. rel 0 im (f im)) \<Longrightarrow> quiet (step_of f)"
  by (simp add: quiet_def step_of_def)

lemma quiet_must: "quiet f \<Longrightarrow> quiet (must f)"
  by (simp add: quiet_def must_def case_prod_beta)

lemma quiet_and_then: "quiet m \<Longrightarrow> (\<And>x. quiet (f x)) \<Longrightarrow> quiet (and_then m f)"
  by (auto simp: quiet_def and_then_def case_prod_beta split: sum.split intro: rel_trans0)

lemma quiet_for_each: "(\<And>x a. quiet (f x a)) \<Longrightarrow> quiet (for_each f xs a)"
  by (induction xs arbitrary: a) (auto intro: quiet_give quiet_and_then)

lemma quiet_fold: "(\<And>x im. rel 0 im (g x im)) \<Longrightarrow> rel 0 im (fold g xs im)"
  by (induction xs arbitrary: im) (auto intro: rel_refl rel_trans0)

lemmas quiet_intros = quiet_give quiet_fail quiet_lift quiet_must quiet_and_then quiet_for_each

end

section \<open>Submissions\<close>

text \<open>
  What the actions of a submission do to the coordinator outside its authority and its
  attempts, and the one thing they do to authority: a relation that allows these steps
  allows a whole submission.
\<close>

definition side_update :: "(state \<Rightarrow> state) \<Rightarrow> bool" where
  "side_update f \<longleftrightarrow> (\<forall>s. cs_header (f s) = cs_header s \<and> cs_attempts (f s) = cs_attempts s
     \<and> cs_commits (f s) = cs_commits s \<and> cs_authoritative (f s) = cs_authoritative s
     \<and> cs_provenances (f s) = cs_provenances s \<and> cs_validations (f s) = cs_validations s
     \<and> cs_controls (f s) = cs_controls s)"

locale submission_run = counted_run +
  assumes rel_persist: "rel 0 im (snd (persist p im))"
    and rel_side: "side_update f \<Longrightarrow> rel 0 im (upd_state f im)"
    and rel_retain: "rel 0 im (im\<lparr>im_retained_order := order\<rparr>)"
    and rel_store_blob: "rel 0 im (snd (store_blob bs im))"
    and rel_touch: "rel 0 im (touch_cache_entry n e im)"
    and rel_withdraw: "rel 0 im (snd (withdraw_authority i im))"
begin

lemma quiet_persist: "quiet (persist p)"
  by (rule quietI) (rule rel_persist)

lemma rel_put_compilation: "rel 0 im (put_compilation k v im)"
  unfolding put_compilation_def by (rule rel_side) (simp add: side_update_def)

lemma rel_put_job: "rel 0 im (put_job k v im)"
  unfolding put_job_def by (rule rel_side) (simp add: side_update_def)

text \<open>An action run after a quiet change of the state.\<close>

lemma rel_after: "quiet f \<Longrightarrow> rel 0 im x \<Longrightarrow> rel 0 im (snd (f x))"
  using rel_trans0 quietD by blast

lemma rel_and_then: "quiet m \<Longrightarrow> (\<And>x. quiet (f x)) \<Longrightarrow> rel 0 im (snd (and_then m f im))"
  by (rule quietD [OF quiet_and_then])

lemma quiet_register:
  "quiet (register_toolchain r)" "quiet (register_target r)" "quiet (register_specialization r)"
  "quiet (register_policy r)" "quiet (register_dependencies r)"
  by (rule quietI, simp add: register_toolchain_def register_target_def register_specialization_def
      register_policy_def register_dependencies_def Let_def case_prod_beta rel_side side_update_def)+

lemma quiet_register_source: "quiet (register_source s u)"
  unfolding register_source_def
  by (intro quiet_intros quiet_step_of) (simp add: Let_def case_prod_beta rel_side side_update_def)

lemma quiet_register_and_check: "quiet (register_and_check r)"
proof (cases "id_is_zero (tc_id (rq_toolchain r)) \<or> id_is_zero (tg_id (rq_target r))
    \<or> id_is_zero (sp_id (rq_specialization r)) \<or> id_is_zero (po_id (rq_policy r))
    \<or> id_is_zero (ds_id (rq_dependencies r))")
  case True
  then show ?thesis unfolding register_and_check_def by (simp add: quiet_fail)
next
  case False
  then show ?thesis unfolding register_and_check_def
    by (simp only: if_False) (intro quiet_intros quiet_register quiet_register_source)
qed

lemma quiet_retain_request: "quiet (retain_request r)"
proof (rule quietI)
  fix im
  have "rel 0 im (upd_state (\<lambda>s. s\<lparr>cs_requests := kept\<rparr>) (im\<lparr>im_retained_order := order\<rparr>))" for kept order
    by (rule rel_trans0 [OF rel_retain rel_side]) (simp add: side_update_def)
  then have "rel 0 im (snd (must (persist p) (upd_state (\<lambda>s. s\<lparr>cs_requests := kept\<rparr>)
      (im\<lparr>im_retained_order := order\<rparr>))))" for p kept order
    by (rule rel_after [OF quiet_must [OF quiet_persist]])
  then show "rel 0 im (snd (retain_request r im))"
    by (simp add: retain_request_def Let_def case_prod_beta rel_refl)
qed

lemma quiet_put_persist: "quiet (\<lambda>im. must (persist (p im)) (put_compilation i (c im) im))"
  by (rule quietI) (rule rel_after [OF quiet_must [OF quiet_persist] rel_put_compilation])

lemma quiet_create_compilation: "quiet (create_compilation r u i)"
  unfolding create_compilation_def Let_def
  by (intro quiet_and_then quiet_lift quiet_put_persist)

lemma quiet_withdraw: "quiet (withdraw_authority i)"
  by (rule quietI) (rule rel_withdraw)

lemma quiet_force_rebuild: "quiet (force_rebuild i c)"
  unfolding force_rebuild_def Let_def
  by (rule quietI, rule rel_after [OF _ rel_put_compilation], rule quiet_and_then [OF quiet_withdraw])
    (rule quiet_put_persist)

lemma quiet_intern_unit: "quiet (intern_unit force r u job)"
proof -
  have put: "quiet (step_of (put_compilation i c))" for i c
    by (rule quiet_step_of) (rule rel_put_compilation)
  have found: "quiet (case find_compilation i im of None \<Rightarrow> create_compilation r u i
      | Some c \<Rightarrow> if force \<and> cr_state c = CS_Committed then force_rebuild i c
          else if cr_unit_index c > un_index u then
            step_of (put_compilation i (c\<lparr>cr_unit_index := un_index u\<rparr>))
          else give ())" for i im
    by (simp add: quiet_create_compilation quiet_force_rebuild put quiet_give split: option.split)
  show ?thesis
    unfolding intern_unit_def Let_def
    by (rule quiet_and_then [OF quiet_lift], rule quietI, rule rel_and_then [OF found quiet_give])
qed

lemma quiet_serve_cached: "quiet (serve_cached i c n e sub)"
  unfolding serve_cached_def Let_def
  by (rule quietI, rule rel_after [OF quiet_and_then [OF quiet_must [OF quiet_persist] quiet_give]])
    (rule rel_trans0 [OF rel_put_compilation rel_touch])

lemma quiet_serve_committed: "quiet (serve_committed c sub)"
  by (simp add: quiet_def serve_committed_def rel_refl)

lemma quiet_queue_unit: "quiet (queue_unit i c sub)"
  by (simp add: quiet_def queue_unit_def rel_put_compilation)

lemma quiet_submit_unit: "quiet (submit_unit force r u result)"
proof -
  note parts = rel_and_then [OF quiet_serve_cached quiet_give]
    rel_and_then [OF quiet_serve_committed quiet_give] rel_and_then [OF quiet_queue_unit quiet_give]
  show ?thesis
    unfolding submit_unit_def Let_def
    by (rule quiet_and_then [OF quiet_lift], rule quietI)
      (simp add: rel_refl case_prod_beta parts split: option.split)
qed

lemma quiet_finish_job: "quiet (finish_job i result)"
proof (rule quietI)
  fix im
  have done_job: "rel 0 im (snd (and_then (must (persist p)) (\<lambda>_. give x) (put_job i job im)))" for p x job
    by (rule rel_after [OF quiet_and_then [OF quiet_must [OF quiet_persist] quiet_give] rel_put_job])
  show "rel 0 im (snd (finish_job i result im))"
    unfolding finish_job_def Let_def
    by (cases "om_find (cs_jobs (im_state im)) i")
      (simp_all only: option.case snd_conv rel_refl done_job)
qed

lemma quiet_submit_locked: "quiet (submit_locked bundle r)"
proof -
  have blobs: "quiet (for_each (\<lambda>b _. must (store_blob (bl_bytes b))) bs ())" for bs
    by (intro quiet_for_each quiet_must quietI) (rule rel_store_blob)
  have job: "quiet (step_of (put_job i j))" for i j
    by (rule quiet_step_of) (rule rel_put_job)
  have rest: "quiet (\<lambda>im. and_then (for_each (intern_unit force r) us (start im)) (\<lambda>j.
      and_then (step_of (put_job i (tidy j))) (\<lambda>_. and_then (must (persist (JP_Job (tidy j)))) (\<lambda>_.
      and_then (for_each (submit_unit force r) us result) (finish_job i)))) im)"
    for force us start i tidy result
    by (rule quietI, rule rel_and_then)
      (intro quiet_intros quiet_intern_unit job quiet_persist quiet_submit_unit quiet_finish_job)+
  show ?thesis
    unfolding submit_locked_def Let_def
    by (rule quietI, rule rel_and_then [OF blobs], rule quiet_and_then [OF quiet_retain_request], rule rest)
qed

lemma quiet_submit: "quiet (submit bundle)"
proof (rule quietI)
  fix im
  have "rel 0 im (snd (and_then (register_and_check r) (submit_locked bundle) im))" for r
    by (rule rel_and_then [OF quiet_register_and_check quiet_submit_locked])
  then show "rel 0 im (snd (submit bundle im))"
    by (simp add: submit_def Let_def rel_refl split: sum.split)
qed

end

section \<open>Authority\<close>

definition authority_run :: "nat \<Rightarrow> impl \<Rightarrow> impl \<Rightarrow> bool" where
  "authority_run n a b \<longleftrightarrow> ledger_run n (ledger_of a) (ledger_of b)"

interpretation authority: counted_run authority_run
  by unfold_locales (auto simp: authority_run_def intro: ledger_run.stay ledger_run_trans)

lemma authority_same: "ledger_of b = ledger_of a \<Longrightarrow> authority_run 0 a b"
  by (simp add: authority_run_def ledger_run_same)

section \<open>Attempts\<close>

text \<open>An attempt that has reported: from Produced on its candidate is fixed.\<close>

definition reported :: "attempt_state \<Rightarrow> bool" where
  "reported s \<longleftrightarrow> attempt_rank s \<ge> 5"

text \<open>
  How one attempt may change over time: its identity, owner and lease never, its state by
  legal moves, its candidate not any more once it has reported.
\<close>

definition attempt_evolves :: "compilation_attempt \<Rightarrow> compilation_attempt \<Rightarrow> bool" where
  "attempt_evolves a b \<longleftrightarrow> is_legal_transition\<^sup>*\<^sup>* (ca_state a) (ca_state b)
     \<and> ca_id b = ca_id a \<and> ca_generation b = ca_generation a
     \<and> ca_compilation b = ca_compilation a
     \<and> ca_compilation_generation b = ca_compilation_generation a
     \<and> ca_worker b = ca_worker a \<and> ca_worker_boot b = ca_worker_boot a
     \<and> ca_worker_generation b = ca_worker_generation a
     \<and> ca_lease b = ca_lease a \<and> ca_lease_generation b = ca_lease_generation a
     \<and> ca_epoch b = ca_epoch a
     \<and> (reported (ca_state a) \<longrightarrow> ca_candidate b = ca_candidate a)"

lemma legal_star_rank: "is_legal_transition\<^sup>*\<^sup>* s t \<Longrightarrow> attempt_rank s \<le> attempt_rank t"
  by (induction rule: rtranclp_induct) (auto dest: legal_rank)

lemma attempt_evolves_refl [simp]: "attempt_evolves a a"
  by (simp add: attempt_evolves_def)

lemma attempt_evolves_trans: "attempt_evolves a b \<Longrightarrow> attempt_evolves b c \<Longrightarrow> attempt_evolves a c"
  unfolding attempt_evolves_def reported_def
  by (metis legal_star_rank le_trans rtranclp_trans)

definition next_attempt :: "impl \<Rightarrow> u64" where
  "next_attempt im = nv_next_attempt (env_of im)"

definition attempts_below :: "impl \<Rightarrow> bool" where
  "attempts_below im \<longleftrightarrow> ids_below (cs_attempts (im_state im)) (next_attempt im)"

definition attempts_evolve :: "impl \<Rightarrow> impl \<Rightarrow> bool" where
  "attempts_evolve x y \<longleftrightarrow> (\<forall>i a. find_attempt i x = Some a \<longrightarrow>
     (\<exists>b. find_attempt i y = Some b \<and> attempt_evolves a b))"

text \<open>
  The evolution with \<open>n\<close> new attempts.  As long as the counter of attempt identities does
  not wrap, a new attempt never takes the place of an old one.
\<close>

definition attempts_grow :: "nat \<Rightarrow> impl \<Rightarrow> impl \<Rightarrow> bool" where
  "attempts_grow n x y \<longleftrightarrow> next_attempt y = next_attempt x + of_nat n
     \<and> (unat (next_attempt x) + n < 2 ^ 64 \<longrightarrow> attempts_below x \<longrightarrow> attempts_below y \<and> attempts_evolve x y)"

lemma attempts_evolve_trans: "attempts_evolve a b \<Longrightarrow> attempts_evolve b c \<Longrightarrow> attempts_evolve a c"
  unfolding attempts_evolve_def by (metis attempt_evolves_trans)

lemma attempts_grow_trans:
  assumes "attempts_grow m a b" "attempts_grow n b c"
  shows "attempts_grow (m + n) a c"
proof -
  have "next_attempt c = next_attempt a + of_nat (m + n)"
    using assms by (simp add: attempts_grow_def)
  moreover have "attempts_below c \<and> attempts_evolve a c"
    if room: "unat (next_attempt a) + (m + n) < 2 ^ 64" and below: "attempts_below a"
  proof -
    have "unat (next_attempt b) = unat (next_attempt a) + m"
      using assms(1) room by (simp add: attempts_grow_def unat_word_ariths unat_of_nat)
    with assms room below show ?thesis
      unfolding attempts_grow_def using attempts_evolve_trans [of a b c] by simp
  qed
  ultimately show ?thesis by (simp add: attempts_grow_def)
qed

lemma attempts_evolve_refl [simp]: "attempts_evolve a a"
  by (simp add: attempts_evolve_def)

interpretation growing: counted_run attempts_grow
proof unfold_locales
  show "attempts_grow 0 im im" for im by (simp add: attempts_grow_def)
qed (rule attempts_grow_trans)

text \<open>What leaves the table of attempts alone, and what changes one attempt.\<close>

lemma attempts_same:
  assumes "cs_attempts (im_state b) = cs_attempts (im_state a)" "next_attempt b = next_attempt a"
  shows "attempts_grow 0 a b"
  using assms
  by (simp add: attempts_grow_def attempts_below_def attempts_evolve_def find_attempt_def)

lemma attempts_update:
  assumes "find_attempt i a = Some x" "attempt_evolves x y"
    "\<And>k. find_attempt k b = (if k = i then Some y else find_attempt k a)"
    "next_attempt b = next_attempt a"
  shows "attempts_grow 0 a b"
  unfolding attempts_grow_def
proof (intro conjI impI)
  show "next_attempt b = next_attempt a + of_nat 0" using assms(4) by simp
  show "attempts_below b" if "attempts_below a"
    using assms that unfolding attempts_below_def ids_below_def find_attempt_def by (metis option.distinct(1))
  show "attempts_evolve a b" using assms by (auto simp: attempts_evolve_def)
qed

lemma attempt_evolves_move:
  assumes "transition_attempt a s = (st, b)"
  shows "attempt_evolves a b"
  using transition_attempt_cases [OF assms] by (auto simp: attempt_evolves_def)

lemma transition_evolves: "attempt_evolves a (snd (transition_attempt a s))"
  by (rule attempt_evolves_move [where st = "fst (transition_attempt a s)"]) simp

text \<open>Fields that play no part in the evolution.\<close>

lemma attempt_evolves_notes [simp]:
  "attempt_evolves a (b\<lparr>ca_failure := c\<rparr>) = attempt_evolves a b"
  "attempt_evolves a (b\<lparr>ca_failure_detail := d\<rparr>) = attempt_evolves a b"
  "attempt_evolves a (b\<lparr>ca_finished_at := t\<rparr>) = attempt_evolves a b"
  "attempt_evolves a (b\<lparr>ca_started_at := t\<rparr>) = attempt_evolves a b"
  "attempt_evolves a (b\<lparr>ca_artifact := i\<rparr>) = attempt_evolves a b"
  by (simp_all add: attempt_evolves_def)

lemma failed_attempt_evolves: "attempt_evolves a (failed_attempt now code d a)"
  by (auto simp: failed_attempt_def Let_def) (auto simp: attempt_evolves_def)

section \<open>Failures\<close>

lemma find_attempt_put: "find_attempt k (put_attempt i v im) = (if k = i then Some v else find_attempt k im)"
  by (simp add: find_attempt_def)

lemma put_attempt_grows:
  "find_attempt i im = Some a \<Longrightarrow> attempt_evolves a b \<Longrightarrow> attempts_grow 0 im (put_attempt i b im)"
  by (rule attempts_update [where i = i]) (simp_all add: find_attempt_put next_attempt_def)

lemma fail_attempt_grows:
  assumes "find_attempt k im = Some a"
  shows "attempts_grow 0 im (snd (fail_attempt_locked k a code d im))"
  by (rule attempts_update [OF assms failed_attempt_evolves find_after_fail [OF assms]])
    (simp add: next_attempt_def)

text \<open>Steps that keep the environment and the table of attempts.\<close>

lemma attempts_frame:
  "env_of b = env_of a \<Longrightarrow> cs_attempts (im_state b) = cs_attempts (im_state a) \<Longrightarrow> attempts_grow 0 a b"
  by (rule attempts_same) (simp_all add: next_attempt_def)

lemma attempts_then_frame:
  "attempts_grow 0 a b \<Longrightarrow> env_of c = env_of b \<Longrightarrow> cs_attempts (im_state c) = cs_attempts (im_state b)
     \<Longrightarrow> attempts_grow 0 a c"
  using growing.rel_trans0 attempts_frame by blast

lemma cancel_attempt_grows: "attempts_grow 0 im (cancel_attempt c r k im)"
proof (cases "find_attempt k im")
  case None
  then show ?thesis by (simp add: cancel_attempt_def growing.rel_refl)
next
  case (Some a)
  show ?thesis
    by (rule attempts_update [where y = "if is_terminal_state (ca_state a) then a
            else failed_attempt (im_now im) Err_Cancelled r a", OF Some])
      (simp_all add: find_after_cancel Some failed_attempt_evolves next_attempt_def)
qed

lemma cancel_grows: "growing.quiet (cancel i r)"
proof (rule growing.quietI)
  fix im
  have leases: "attempts_grow 0 x (fold (cancel_lease c r) ks x)" for c ks x
    by (rule growing.quiet_fold) (simp add: attempts_frame)
  have run: "attempts_grow 0 im (fold (cancel_lease c r) ks (fold (cancel_attempt c r) is im))" for c ks "is"
    by (rule growing.rel_trans0 [OF growing.quiet_fold leases]) (rule cancel_attempt_grows)
  have after: "attempts_grow 0 im (snd (persist p (put_compilation k v
      (fold (cancel_lease c r) ks (fold (cancel_attempt c r) is im)))))" for c ks "is" p k v
    by (rule attempts_then_frame [OF run]) simp_all
  show "attempts_grow 0 im (snd (cancel i r im))"
    by (simp add: cancel_def Let_def growing.rel_refl after split: option.split)
qed

lemma disconnect_attempt_env [simp]: "env_of (disconnect_attempt s r k im) = env_of im"
  by (simp add: disconnect_attempt_def Let_def split: option.split)

lemma lost_attempt_evolves: "attempt_evolves a (lost_attempt s now r a)"
  by (simp add: lost_attempt_def failed_attempt_evolves)

lemma disconnect_attempt_grows: "attempts_grow 0 im (disconnect_attempt s r k im)"
proof (cases "find_attempt k im")
  case None
  then show ?thesis by (simp add: disconnect_attempt_def growing.rel_refl)
next
  case (Some a)
  show ?thesis
    by (rule attempts_update [where y = "lost_attempt s (im_now im) r a", OF Some lost_attempt_evolves])
      (simp_all add: find_after_disconnect Some next_attempt_def)
qed

lemma disconnect_session_grows: "growing.quiet (disconnect_session i r)"
proof (rule growing.quietI)
  fix im
  have put: "attempts_grow 0 im (put_session i v im)" for v by (simp add: attempts_frame)
  have run: "attempts_grow 0 im (fold (disconnect_attempt s r) ks (put_session i v im))" for s ks v
    by (rule growing.rel_trans0 [OF put growing.quiet_fold]) (rule disconnect_attempt_grows)
  have fence: "attempts_grow 0 im (persist_void p (snd (fence_worker k w d
      (fold (disconnect_attempt s r) ks (put_session i v im)))))" for p k w d s ks v
    by (rule attempts_then_frame [OF run]) simp_all
  show "attempts_grow 0 im (snd (disconnect_session i r im))"
    by (simp add: disconnect_session_def Let_def case_prod_beta growing.rel_refl put run fence
        split: option.split)
qed

lemma fail_attempt_op_grows: "growing.quiet (fail_attempt s f)"
proof (rule growing.quietI)
  fix im
  let ?k = "au_attempt (af_claim f)"
  have fail: "attempts_grow 0 im (snd (fail_attempt_locked ?k a code d im))"
    if "find_attempt ?k im = Some a" for a code d using that by (rule fail_attempt_grows)
  have after: "attempts_grow 0 im (snd (persist_compilation j (schedule_retry_or_fail j' c code' d'
      (snd (fail_attempt_locked ?k a code d im)))))"
    if "find_attempt ?k im = Some a" for a code d j j' c code' d'
    by (rule attempts_then_frame [OF fail [OF that]]) simp_all
  show "attempts_grow 0 im (snd (fail_attempt s f im))"
    by (simp add: fail_attempt_def Let_def case_prod_beta growing.rel_refl fail after attempts_frame
        split: option.split)
qed

section \<open>Operations of workers\<close>

lemma started_evolves: "attempt_evolves a (fst (snd (started im a c)))"
  by (simp add: started_def Let_def case_prod_beta transition_evolves)

lemma begin_compile_grows: "growing.quiet (begin_compile claim)"
proof (rule growing.quietI)
  fix im
  have run: "attempts_grow 0 im (put_attempt (au_attempt claim) (fst (snd (started im a c))) im)"
    if "find_attempt (au_attempt claim) im = Some a" for a c
    using that started_evolves by (rule put_attempt_grows)
  have after: "attempts_grow 0 im (put_compilation k v (put_attempt (au_attempt claim)
        (fst (snd (started im a c))) im))"
      "attempts_grow 0 im (snd (persist p (put_compilation k v (put_attempt (au_attempt claim)
        (fst (snd (started im a c))) im))))"
      "attempts_grow 0 im (snd (persist q (snd (persist p (put_compilation k v (put_attempt (au_attempt claim)
        (fst (snd (started im a c))) im))))))"
    if "find_attempt (au_attempt claim) im = Some a" for a c k v p q
    by (rule attempts_then_frame [OF run [OF that]], simp, simp)+
  show "attempts_grow 0 im (snd (begin_compile claim im))"
    by (simp add: begin_compile_def Let_def case_prod_beta growing.rel_refl after attempts_frame
        split: option.split)
qed

lemma worker_ops_grow:
  "growing.quiet (register_worker r)" "growing.quiet (advertise_capabilities s c)"
  "growing.quiet (mark_ready s)" "growing.quiet (heartbeat s)"
  "growing.quiet (handle_validate_response s m e d t)" "growing.quiet shutdown_sessions"
  by (rule growing.quietI, rule attempts_frame, simp, simp)+

section \<open>Reports\<close>

lemma candidate_evolves:
  assumes "\<not> reported (ca_state a)"
  shows "attempt_evolves a (snd (transition_attempt (with_candidate out a) AS_Produced))"
proof -
  obtain st b where move: "transition_attempt (with_candidate out a) AS_Produced = (st, b)" by fastforce
  from transition_attempt_cases [OF this] assms show ?thesis
    unfolding move by (auto simp: attempt_evolves_def with_candidate_def)
qed

lemma gate_open_unreported: "gate_open s out im a c \<Longrightarrow> \<not> reported (ca_state a)"
  by (auto simp: gate_open_def reported_def)

lemma reserve_attempt_grows:
  assumes "find_attempt (au_attempt (ro_claim out)) im = Some a" "\<not> reported (ca_state a)"
  shows "attempts_grow 0 im (snd (reserve_attempt out a c im))"
proof -
  let ?b = "snd (transition_attempt (with_candidate out a) AS_Produced)"
  let ?im1 = "put_attempt (au_attempt (ro_claim out)) ?b im"
  have run: "attempts_grow 0 im ?im1"
    using assms candidate_evolves by (blast intro: put_attempt_grows)
  have "attempts_grow 0 im (snd (persist p (put_compilation k v ?im1)))"
    "attempts_grow 0 im (persist_void q (snd (persist p (put_compilation k v ?im1))))" for p q k v
    by (rule attempts_then_frame [OF run], simp, simp)+
  with run show ?thesis by (simp add: reserve_attempt_def Let_def case_prod_beta)
qed

lemma report_reserve_grows: "growing.quiet (report_reserve s out)"
proof (rule growing.quietI)
  fix im
  show "attempts_grow 0 im (snd (report_reserve s out im))"
  proof (cases "report_gate s out im")
    case (Inl refusal)
    then have "only_violations im (snd refusal)"
      using report_gate_cases [where s = s and out = out and im = im] by auto
    then show ?thesis using only_violations_frame
      by (auto simp: report_reserve_def Inl case_prod_beta intro: attempts_frame)
  next
    case (Inr pair)
    then have gate: "gate_open s out im (fst pair) (snd pair)"
      using report_gate_cases [where s = s and out = out and im = im] by auto
    from gate have "find_attempt (au_attempt (ro_claim out)) im = Some (fst pair)"
      by (simp add: gate_open_def)
    from reserve_attempt_grows [OF this gate_open_unreported [OF gate]] show ?thesis
      by (simp add: report_reserve_def Inr case_prod_beta)
  qed
qed

section \<open>Commits\<close>

lemma walk_to_committed_evolves: "attempt_evolves a (snd (walk_to_committed a))"
proof -
  have "attempt_evolves a b \<Longrightarrow> attempt_evolves a (snd (transition_attempt b s))" for b s
    using attempt_evolves_trans transition_evolves by blast
  then show ?thesis by (simp add: walk_to_committed_def Let_def case_prod_beta)
qed

lemma committed_attempt_evolves:
  assumes "ca_state a = AS_Produced \<or> ca_state a = AS_Validating"
  shows "attempt_evolves a (committed_attempt im a)"
proof -
  have tail: "is_legal_transition AS_Validating AS_CommitReady" "is_legal_transition AS_CommitReady AS_Committed"
    "is_legal_transition AS_Produced AS_Validating"
    by (simp_all add: legal_to_Committed legal_to_CommitReady legal_to_Validating)
  then have "is_legal_transition\<^sup>*\<^sup>* AS_Validating AS_Committed"
    by (meson converse_rtranclp_into_rtranclp rtranclp.rtrancl_refl)
  with assms tail have "is_legal_transition\<^sup>*\<^sup>* (ca_state a) AS_Committed"
    by (metis converse_rtranclp_into_rtranclp)
  then show ?thesis by (simp add: attempt_evolves_def committed_attempt_def)
qed

lemma refuse_invalid_grows:
  assumes "find_attempt (au_attempt claim) im = Some a"
  shows "attempts_grow 0 im (snd (refuse_invalid claim a c v im))"
proof -
  have "attempts_grow 0 im (persist_void p (put_compilation k w
      (snd (fail_attempt_locked (au_attempt claim) a code d im))))" for p k w code d
    by (rule attempts_then_frame [OF fail_attempt_grows [OF assms]]) simp_all
  then show ?thesis by (simp add: refuse_invalid_def Let_def)
qed

lemma commit_divergent_grows:
  assumes "find_attempt (au_attempt claim) im = Some a"
  shows "attempts_grow 0 im (snd (commit_divergent claim a c im))"
proof -
  have "find_attempt (au_attempt claim) (put_compilation k w im) = Some a" for k w
    using assms by (simp add: find_attempt_def)
  then have "attempts_grow 0 im (snd (fail_attempt_locked (au_attempt claim) a code d (put_compilation k w im)))"
    for k w code d
    by (rule growing.rel_trans0 [OF attempts_frame fail_attempt_grows, rotated 2]) simp_all
  then have "attempts_grow 0 im (persist_void p (snd (fail_attempt_locked (au_attempt claim) a code d
      (put_compilation k w im))))" for p k w code d
    by (rule attempts_then_frame) simp_all
  then show ?thesis by (simp add: commit_divergent_def Let_def)
qed

lemma commit_duplicate_grows:
  assumes a: "find_attempt (au_attempt claim) im = Some a"
  shows "attempts_grow 0 im (snd (commit_duplicate claim a c k v im))"
proof -
  let ?b = "snd (walk_to_committed a)"
  have put: "attempts_grow 0 im (put_attempt (au_attempt claim) ?b im)"
    using a walk_to_committed_evolves by (rule put_attempt_grows)
  have failed: "attempts_grow 0 im (snd (fail_attempt_locked (au_attempt claim) ?b code d
      (put_attempt (au_attempt claim) ?b im)))" for code d
    by (rule growing.rel_trans0 [OF put fail_attempt_grows]) (simp add: find_attempt_put)
  have finished: "attempts_grow 0 im (put_attempt (au_attempt claim) (?b\<lparr>ca_failure := e, ca_failure_detail := d,
      ca_finished_at := t\<rparr>) (snd (finish_attempt_bookkeeping b' im)))" for e d t b'
  proof (rule growing.rel_trans0)
    show "attempts_grow 0 im (snd (finish_attempt_bookkeeping b' im))" by (simp add: attempts_frame)
    show "attempts_grow 0 (snd (finish_attempt_bookkeeping b' im)) (put_attempt (au_attempt claim)
        (?b\<lparr>ca_failure := e, ca_failure_detail := d, ca_finished_at := t\<rparr>) (snd (finish_attempt_bookkeeping b' im)))"
      by (rule put_attempt_grows [where a = a])
        (use a walk_to_committed_evolves in \<open>simp_all add: find_attempt_def\<close>)
  qed
  have persisted: "attempts_grow 0 im (persist_void p x)"
      "attempts_grow 0 im (persist_void q (put_compilation j w (persist_void p x)))"
    if "attempts_grow 0 im x" for x p q j w
    by (rule attempts_then_frame [OF that], simp, simp)+
  show ?thesis
    by (simp add: commit_duplicate_def Let_def case_prod_beta failed persisted finished)
qed

lemma commit_first_grows:
  assumes a: "find_attempt (au_attempt claim) im = Some a"
  shows "attempts_grow 0 im (snd (commit_first s w claim a c v im))"
proof (cases "ca_state a = AS_Produced \<or> ca_state a = AS_Validating")
  case True
  show ?thesis
    by (rule attempts_update [where y = "committed_attempt im a", OF a committed_attempt_evolves [OF True]])
      (simp_all add: commit_first_eq [OF True] find_attempt_def next_attempt_def)
next
  case False
  then show ?thesis by (simp add: commit_first_refused growing.rel_refl)
qed

lemma commit_locked_grows: "growing.quiet (commit_locked s out v)"
proof (rule growing.quietI)
  fix im
  obtain r im' where eq: "commit_locked s out v im = (r, im')" by fastforce
  then have "attempts_grow 0 im im'"
  proof (cases rule: commit_locked_cases)
    case (error st)
    then show ?thesis by (simp add: growing.rel_refl)
  next
    case (invalid a c)
    then show ?thesis using refuse_invalid_grows by (metis snd_conv)
  next
    case (duplicate a c k)
    then show ?thesis using commit_duplicate_grows by (metis snd_conv)
  next
    case (divergent a c k)
    then show ?thesis using commit_divergent_grows by (metis snd_conv)
  next
    case (first a c w)
    then show ?thesis using commit_first_grows by (metis snd_conv)
  qed
  with eq show "attempts_grow 0 im (snd (commit_locked s out v im))" by simp
qed

lemma report_commit_grows: "growing.quiet (report_commit s out v)"
proof (rule growing.quietI)
  fix im
  let ?k = "au_attempt (ro_claim out)"
  have fenced: "attempts_grow 0 im (persist_void p (put_attempt ?k
      (snd (transition_attempt a AS_Fenced)\<lparr>ca_finished_at := t\<rparr>)
      (snd (finish_attempt_bookkeeping b (record_violation op e s w d im)))))"
    if a: "find_attempt ?k im = Some a" for a b p op e w d t
  proof -
    let ?x = "snd (finish_attempt_bookkeeping b (record_violation op e s w d im))"
    have "attempts_grow 0 im ?x" by (rule attempts_frame) simp_all
    moreover have "attempts_grow 0 ?x (put_attempt ?k (snd (transition_attempt a AS_Fenced)\<lparr>ca_finished_at := t\<rparr>) ?x)"
      by (rule put_attempt_grows [where a = a])
        (use a in \<open>simp_all add: find_attempt_def transition_evolves\<close>)
    ultimately have "attempts_grow 0 im (put_attempt ?k (snd (transition_attempt a AS_Fenced)\<lparr>ca_finished_at := t\<rparr>) ?x)"
      by (rule growing.rel_trans0)
    then show ?thesis by (rule attempts_then_frame) simp_all
  qed
  have noted: "attempts_grow 0 im (record_violation op e s w d im)" for op e w d
    by (rule attempts_frame) simp_all
  show "attempts_grow 0 im (snd (report_commit s out v im))"
  proof (cases "find_attempt ?k im")
    case None
    then show ?thesis by (simp add: report_commit_def growing.rel_refl)
  next
    case a: (Some a)
    show ?thesis
    proof (cases "find_compilation (au_compilation (ro_claim out)) im")
      case None
      with a show ?thesis by (simp add: report_commit_def growing.rel_refl)
    next
      case c: (Some c)
      show ?thesis
      proof (cases "st_ok (validate_authority (ro_claim out) (expectation_for im c a))")
        case True
        with a c growing.quietD [OF commit_locked_grows] show ?thesis
          by (simp add: report_commit_def)
      next
        case stale: False
        show ?thesis
          by (cases "st_ok (fst (transition_attempt a AS_Fenced))")
            (simp_all add: report_commit_def a c stale Let_def case_prod_beta fenced [OF a] noted)
      qed
    qed
  qed
qed

section \<open>Assignments\<close>

text \<open>An assignment takes one attempt identity; everything else in scheduling takes none.\<close>

lemma take_attempt_ids [simp]:
  "next_attempt (upd_header (\<lambda>h. h\<lparr>hd_next_attempt_id := hd_next_attempt_id h + 1, hd_next_lease_id := g h\<rparr>) im) =
     next_attempt im + 1"
  "cs_attempts (im_state (upd_header f im)) = cs_attempts (im_state im)"
  by (simp_all add: next_attempt_def table_defs env_of_def)

lemma issue_attempt_grows: "attempts_grow 1 im (snd (issue_attempt w k c sp im))"
proof -
  define i :: attempt_id where "i = Ident (hd_next_attempt_id (header im))"
  obtain a where table: "cs_attempts (im_state (snd (issue_attempt w k c sp im))) = om_put i a (cs_attempts (im_state im))"
    by (simp add: issue_attempt_def Let_def i_def)
  have keep: "next_attempt b = next_attempt a" if "env_of b = env_of a" for a b
    using that by (simp add: next_attempt_def)
  have step: "next_attempt (snd (issue_attempt w k c sp im)) = next_attempt im + 1"
    unfolding issue_attempt_def Let_def snd_conv
    by (subst keep [where a = "upd_header (\<lambda>h. h\<lparr>hd_next_attempt_id := hd_next_attempt_id h + 1,
      hd_next_lease_id := hd_next_lease_id h + 1\<rparr>) im"]) simp_all
  show ?thesis
    unfolding attempts_grow_def
  proof (intro conjI impI)
    assume room: "unat (next_attempt im) + 1 < 2 ^ 64" and below: "attempts_below im"
    have i: "i = Ident (next_attempt im)" by (simp add: i_def next_attempt_def env_of_def)
    show "attempts_below (snd (issue_attempt w k c sp im))"
      using below room unfolding attempts_below_def table step i by (intro ids_below_put) simp_all
    have "find_attempt i im = None"
      using below ids_below_fresh by (auto simp: attempts_below_def find_attempt_def i)
    then show "attempts_evolve im (snd (issue_attempt w k c sp im))"
      by (auto simp: attempts_evolve_def find_attempt_def table)
  qed (simp add: step)
qed

lemma load_inputs_grow:
  "attempts_grow 0 im (snd (load_sources ss im))" "attempts_grow 0 im (snd (load_dependencies ds im))"
  "attempts_grow 0 im (snd (load_link_inputs c u im))"
  by (rule attempts_frame, simp, simp)+

text \<open>The number of attempts is the number of assignments handed out.\<close>

lemma build_assignment_grows:
  "attempts_grow (if fst (build_assignment w k c sp im) = None then 0 else 1) im
     (snd (build_assignment w k c sp im))"
proof -
  have "attempts_grow 1 a (snd (issue_attempt w k c sp b))" if "attempts_grow 0 a b" for a b
    using growing.rel_trans [OF that issue_attempt_grows] by simp
  moreover have "attempts_grow 0 a (snd (load_sources ss b))" "attempts_grow 0 a (snd (load_dependencies ds b))"
    "attempts_grow 0 a (snd (load_link_inputs c' u b))" if "attempts_grow 0 a b" for a b ss ds c' u
    using growing.rel_trans0 [OF that load_inputs_grow(1)] growing.rel_trans0 [OF that load_inputs_grow(2)]
      growing.rel_trans0 [OF that load_inputs_grow(3)] by blast+
  ultimately show ?thesis
    by (auto simp: build_assignment_def case_prod_beta growing.rel_refl split: option.split)
qed

lemma speculate_grows: "attempts_grow (length (fst (speculate k el ra im))) im (snd (speculate k el ra im))"
proof -
  have "attempts_grow 1 im (snd (build_assignment w k c True im))"
    if "fst (build_assignment w k c True im) = Some x" for w c x
    using build_assignment_grows [of w k c True im] that by simp
  moreover have "attempts_grow 0 im (snd (build_assignment w k c True im))"
    if "fst (build_assignment w k c True im) = None" for w c
    using build_assignment_grows [of w k c True im] that by simp
  ultimately show ?thesis
    by (auto simp: speculate_def case_prod_beta growing.rel_refl split: option.split)
qed

lemma pump_one_grows: "attempts_grow (length (fst (pump_one k im))) im (snd (pump_one k im))"
proof -
  have some: "attempts_grow (Suc (length (fst (speculate k el ra (snd (build_assignment w k c False im)))))) im
      (snd (speculate k el ra (snd (build_assignment w k c False im))))"
    if "fst (build_assignment w k c False im) = Some x" for w c x el ra
    using growing.rel_trans [OF build_assignment_grows [of w k c False im] speculate_grows] that by simp
  have none: "attempts_grow 0 im (snd (build_assignment w k c False im))"
    if "fst (build_assignment w k c False im) = None" for w c
    using build_assignment_grows [of w k c False im] that by simp
  have put: "attempts_grow 0 im (put_compilation k v im)" for v by (rule attempts_frame) simp_all
  show ?thesis
    by (simp add: pump_one_def Let_def case_prod_beta growing.rel_refl put some none split: option.split)
qed

lemma pump_keys_grows: "attempts_grow (length (fst (pump_keys ks im))) im (snd (pump_keys ks im))"
proof (induction ks arbitrary: im)
  case Nil
  then show ?case by (simp add: growing.rel_refl)
next
  case (Cons k ks)
  have "attempts_grow (length (fst (pump_one k im)) + length (fst (pump_keys ks (snd (pump_one k im))))) im
      (snd (pump_keys ks (snd (pump_one k im))))"
    by (rule growing.rel_trans [OF pump_one_grows Cons.IH])
  then show ?case by (simp add: Let_def case_prod_beta)
qed

lemma pump_grows: "attempts_grow (length (fst (pump im))) im (snd (pump im))"
  by (simp add: pump_def growing.rel_refl pump_keys_grows)

section \<open>Both relations allow a submission\<close>

lemma side_update_views:
  assumes "side_update f"
  shows "ledger_of (upd_state f im) = ledger_of im"
    "cs_attempts (im_state (upd_state f im)) = cs_attempts (im_state im)"
    "next_attempt (upd_state f im) = next_attempt im"
  using assms by (simp_all add: side_update_def upd_state_def ledger_of_def next_attempt_def env_of_def)

text \<open>Withdrawing authority marks the commit before it erases the binding.\<close>

lemma withdraw_authority_run: "authority_run 0 im (snd (withdraw_authority i im))"
proof (cases "om_find (cs_authoritative (im_state im)) i")
  case None
  then show ?thesis by (simp add: withdraw_authority_def authority.rel_refl)
next
  case bound: (Some m)
  have erase: "ledger_of (upd_state (\<lambda>s. s\<lparr>cs_authoritative := om_erase i (cs_authoritative s)\<rparr>) x) =
      withdraw i (ledger_of x)" for x
    by (simp add: withdraw_def ledger_of_def upd_state_def)
  show ?thesis
  proof (cases "om_find (cs_commits (im_state im)) m")
    case None
    have "ledger_run 0 (ledger_of im) (withdraw i (ledger_of im))"
      by (rule ledger_run.erase [OF ledger_run.stay]) (use bound None in auto)
    then show ?thesis
      by (simp add: withdraw_authority_def bound None authority_run_def step_of_def erase)
  next
    case (Some k)
    let ?x = "put_commit m (k\<lparr>ac_superseded := True\<rparr>) im"
    have marked: "ledger_of ?x = supersede m k (ledger_of im)"
      by (simp add: supersede_def put_commit_def ledger_of_def upd_state_def)
    have mark: "ledger_run 0 (ledger_of im) (ledger_of ?x)"
      unfolding marked by (rule ledger_run.mark [OF ledger_run.stay]) (use bound Some in simp_all)
    have erased: "ledger_run 0 (ledger_of im) (withdraw i (ledger_of ?x))"
      by (rule ledger_run.erase [OF mark])
        (use bound in \<open>auto simp: put_commit_def upd_state_def ledger_of_def\<close>)
    show ?thesis
      using mark erased
      by (simp add: withdraw_authority_def bound Some Let_def authority_run_def and_then_def must_def
          step_of_def case_prod_beta erase)
  qed
qed

interpretation submitting: submission_run authority_run
proof unfold_locales
  show "authority_run 0 im (im\<lparr>im_retained_order := order\<rparr>)" for im order
    by (rule authority_same) (simp add: ledger_of_def)
qed (simp_all add: authority_same side_update_views withdraw_authority_run)

lemma withdraw_authority_grows: "attempts_grow 0 im (snd (withdraw_authority i im))"
proof -
  have erase: "attempts_grow 0 im x \<Longrightarrow>
      attempts_grow 0 im (upd_state (\<lambda>s. s\<lparr>cs_authoritative := om_erase i (cs_authoritative s)\<rparr>) x)" for x
    by (erule growing.rel_trans0) (rule attempts_same, simp_all add: upd_state_def next_attempt_def env_of_def)
  have "attempts_grow 0 im (put_commit m k im)" for m k
    by (rule attempts_same) (simp_all add: put_commit_def upd_state_def next_attempt_def env_of_def)
  then have persisted: "attempts_grow 0 im (snd (persist p (put_commit m k im)))" for p m k
    by (rule attempts_then_frame) simp_all
  show ?thesis
    by (simp add: withdraw_authority_def Let_def and_then_def must_def step_of_def case_prod_beta
        growing.rel_refl erase persisted split: option.split)
qed

interpretation enlisting: submission_run attempts_grow
proof unfold_locales
  show "attempts_grow 0 im (im\<lparr>im_retained_order := order\<rparr>)" for im order
    by (rule attempts_same) (simp_all add: next_attempt_def env_of_def)
qed (simp_all add: attempts_frame attempts_same side_update_views withdraw_authority_grows)

end
