(* ===== verification/DC_Queries.thy ===== *)
theory DC_Queries
  imports DC_Commit
begin

text \<open>
  Inspection of the coordinator (\<^verbatim>\<open>src/coordinator.cpp\<close>): single records, whole tables, cache
  and eligibility previews, and the text that explains a compilation.  A query reads the state
  under the mutex and changes nothing but the blob cache.
\<close>

section \<open>Single records\<close>

definition found_or :: "error_code \<Rightarrow> string \<Rightarrow> 'a option \<Rightarrow> 'a res" where
  "found_or code detail x = (case x of None \<Rightarrow> Inl (error code detail) | Some y \<Rightarrow> Inr y)"

definition query_compilation :: "compilation_id \<Rightarrow> impl \<Rightarrow> compilation_record res" where
  "query_compilation i im = found_or Err_NotFound ''unknown compilation'' (find_compilation i im)"

definition query_commit :: "compilation_id \<Rightarrow> impl \<Rightarrow> artifact_commit res" where
  "query_commit i im =
     (case om_find (cs_authoritative (im_state im)) i of
        None \<Rightarrow> Inl (error Err_NotFound ''no authoritative commit'')
      | Some m \<Rightarrow> found_or Err_IntegrityFailure ''authoritative commit is missing''
          (om_find (cs_commits (im_state im)) m))"

definition authoritative_commit :: "compilation_id \<Rightarrow> impl \<Rightarrow> artifact_commit option" where
  "authoritative_commit i im =
     (case om_find (cs_authoritative (im_state im)) i of
        None \<Rightarrow> None | Some m \<Rightarrow> om_find (cs_commits (im_state im)) m)"

definition query_provenance :: "provenance_id \<Rightarrow> impl \<Rightarrow> provenance res" where
  "query_provenance i im = found_or Err_NotFound ''unknown provenance'' (om_find (cs_provenances (im_state im)) i)"

definition query_validation :: "validation_id \<Rightarrow> impl \<Rightarrow> validation_report res" where
  "query_validation i im =
     found_or Err_NotFound ''unknown validation report'' (om_find (cs_validations (im_state im)) i)"

definition query_job :: "digest256 \<Rightarrow> impl \<Rightarrow> job_record res" where
  "query_job i im = found_or Err_NotFound ''unknown job'' (om_find (cs_jobs (im_state im)) i)"

definition query_request :: "digest256 \<Rightarrow> impl \<Rightarrow> compilation_request res" where
  "query_request i im = found_or Err_NotFound ''request is not retained'' (find_request i im)"

definition query_attempt :: "attempt_id \<Rightarrow> impl \<Rightarrow> compilation_attempt res" where
  "query_attempt i im = found_or Err_NotFound ''unknown attempt'' (find_attempt i im)"

definition query_cache_entry :: "cache_entry_id \<Rightarrow> impl \<Rightarrow> cache_entry res" where
  "query_cache_entry i im =
     found_or Err_NotFound ''unknown cache entry'' (om_find (cs_cache_entries (im_state im)) i)"

text \<open>The bytes of the authoritative artifact; loading them may fill the blob cache.\<close>

definition artifact_bytes :: "compilation_id \<Rightarrow> impl \<Rightarrow> bytes res \<times> impl" where
  "artifact_bytes i im =
     (case om_find (cs_authoritative (im_state im)) i of
        None \<Rightarrow> (Inl (error Err_ArtifactMissing ''compilation has no authoritative artifact''), im)
      | Some m \<Rightarrow>
     case om_find (cs_commits (im_state im)) m of
        None \<Rightarrow> (Inl (error Err_IntegrityFailure ''authoritative commit record is missing''), im)
      | Some k \<Rightarrow> load_blob (ac_artifact_digest k) im)"

section \<open>Whole tables\<close>

definition all_workers :: "impl \<Rightarrow> worker_record list" where
  "all_workers im = map snd (cs_workers (im_state im))"

definition all_compilations :: "impl \<Rightarrow> compilation_record list" where
  "all_compilations im = map snd (cs_compilations (im_state im))"

definition all_attempts :: "impl \<Rightarrow> compilation_attempt list" where
  "all_attempts im = map snd (cs_attempts (im_state im))"

definition all_commits :: "impl \<Rightarrow> artifact_commit list" where
  "all_commits im = map snd (cs_commits (im_state im))"

definition all_provenances :: "impl \<Rightarrow> provenance list" where
  "all_provenances im = map snd (cs_provenances (im_state im))"

definition all_cache_entries :: "impl \<Rightarrow> cache_entry list" where
  "all_cache_entries im = map snd (cs_cache_entries (im_state im))"

definition all_intermediates :: "impl \<Rightarrow> intermediate_artifact list" where
  "all_intermediates im = map snd (cs_intermediates (im_state im))"

definition all_leases :: "impl \<Rightarrow> compile_lease list" where
  "all_leases im = map snd (cs_leases (im_state im))"

section \<open>Cache and eligibility previews\<close>

text \<open>A compilation record with the identities of the entry and defaults elsewhere.\<close>

definition cache_probe :: "cache_entry \<Rightarrow> compilation_record" where
  "cache_probe e = \<lparr>cr_id = Ident 0, cr_generation = Gen 0, cr_unit = Ident 0, cr_unit_generation = Gen 0,
     cr_unit_identity = ce_unit_identity e, cr_request_id = Ident 0, cr_request_generation = Gen 0,
     cr_request_identity = 0, cr_source_identity = ce_source_identity e,
     cr_dependency_identity = ce_dependency_identity e, cr_toolchain_identity = ce_toolchain_identity e,
     cr_target_identity = ce_target_identity e, cr_specialization_identity = ce_specialization_identity e,
     cr_policy_identity = ce_policy_identity e, cr_environment_identity = ce_environment_identity e,
     cr_source_generation = Gen 0, cr_ir_generation = Gen 0, cr_dependency_generation = Gen 0,
     cr_toolchain_generation = ce_toolchain_generation e, cr_target_generation = ce_target_generation e,
     cr_specialization_generation = Gen 0, cr_policy_generation = Gen 0, cr_output_kind = OK_Object,
     cr_reproducibility = RR_Preferred, cr_state = CS_Pending, cr_attempts = [],
     cr_current_attempt = Ident 0, cr_attempt_ordinal_counter = 0, cr_commit = None,
     cr_divergent_candidates = [], cr_reproducibility_violation = False, cr_failure_detail = [],
     cr_failure = Err_Ok, cr_cache_hit = False, cr_created_at = 0, cr_updated_at = 0,
     cr_unit_index = 0, cr_parent_unit_index = 0, cr_is_root = True\<rparr>"

definition cache_query :: "digest256 \<Rightarrow> impl \<Rightarrow> cache_decision" where
  "cache_query unit_identity im =
     (case om_find (cs_cache_index (im_state im)) unit_identity of
        None \<Rightarrow> empty_cache_decision\<lparr>cd_outcome := CO_Miss,
          cd_reason := ''no cache entry for this unit identity''\<rparr>
      | Some k \<Rightarrow>
     case om_find (cs_cache_entries (im_state im)) k of
        None \<Rightarrow> empty_cache_decision\<lparr>cd_outcome := CO_Corrupt,
          cd_reason := ''cache index points at a missing entry''\<rparr>
      | Some e \<Rightarrow>
          (let decision = evaluate_cache_metadata (cache_probe e) e;
               blob_ok = (reusable decision \<and> has_blob (rf_digest (ce_artifact e)) im)
           in evaluate_cache_blob (cache_probe e) e blob_ok))"

record eligibility_report =
  el_total_workers :: u32
  el_eligible_workers :: u32
  el_requirements :: hard_requirements
  el_ineligible :: "(worker_id \<times> string \<times> string) list"
  el_ranked :: "ranked_worker list"

definition eligibility :: "compilation_request \<Rightarrow> impl \<Rightarrow> eligibility_report" where
  "eligibility request im =
     (let req = (case rq_units request of [] \<Rightarrow> default_requirements
                 | u # _ \<Rightarrow> derive_requirements request u);
          workers = map snd (cs_workers (im_state im));
          eligible = filter (\<lambda>w. ed_eligible (evaluate_eligibility w req)) workers in
      \<lparr>el_total_workers = of_nat (length workers), el_eligible_workers = of_nat (length eligible),
       el_requirements = req,
       el_ineligible = map (\<lambda>w. (wk_id w, ineligibility_string (ed_reason (evaluate_eligibility w req)),
           ed_detail (evaluate_eligibility w req)))
         (filter (\<lambda>w. \<not> ed_eligible (evaluate_eligibility w req)) workers),
       el_ranked = rank_workers eligible req 0\<rparr>)"

section \<open>Explaining a compilation\<close>

definition dec_of :: "'t ident \<Rightarrow> string" where
  "dec_of i = to_dec (id_value i)"

definition dec_of_gen :: "'t gen \<Rightarrow> string" where
  "dec_of_gen g = to_dec (gen_value g)"

definition dec_of_u32 :: "u32 \<Rightarrow> string" where
  "dec_of_u32 n = to_dec (ucast n)"

definition dec_of_nat :: "nat \<Rightarrow> string" where
  "dec_of_nat n = to_dec (of_nat n)"

definition explain_record :: "compilation_record \<Rightarrow> string list" where
  "explain_record c =
    [''compilation: '' @ dec_of (cr_id c) @ '' generation '' @ dec_of_gen (cr_generation c),
     ''state: '' @ compilation_state_string (cr_state c),
     ''unit: '' @ dec_of (cr_unit c) @ '' index '' @ dec_of_u32 (cr_unit_index c)
       @ (if cr_is_root c then '' (root)'' else '' (child)''),
     ''unit identity: '' @ digest_hex (cr_unit_identity c),
     ''request identity: '' @ digest_hex (cr_request_identity c),
     ''output kind: '' @ output_kind_string (cr_output_kind c),
     ''reproducibility: '' @ reproducibility_requirement_string (cr_reproducibility c),
     ''identities:'',
     ''  source          '' @ digest_hex (cr_source_identity c),
     ''  dependencies    '' @ digest_hex (cr_dependency_identity c),
     ''  toolchain       '' @ digest_hex (cr_toolchain_identity c),
     ''  target          '' @ digest_hex (cr_target_identity c),
     ''  specialization  '' @ digest_hex (cr_specialization_identity c),
     ''  policy          '' @ digest_hex (cr_policy_identity c),
     ''  environment     '' @ digest_hex (cr_environment_identity c),
     ''generations: source='' @ dec_of_gen (cr_source_generation c)
       @ '' deps='' @ dec_of_gen (cr_dependency_generation c)
       @ '' toolchain='' @ dec_of_gen (cr_toolchain_generation c)
       @ '' target='' @ dec_of_gen (cr_target_generation c)
       @ '' spec='' @ dec_of_gen (cr_specialization_generation c)
       @ '' policy='' @ dec_of_gen (cr_policy_generation c)]"

definition explain_cache :: "compilation_record \<Rightarrow> state \<Rightarrow> string list" where
  "explain_cache c s =
     (case om_find (cs_cache_index s) (cr_unit_identity c) of
        None \<Rightarrow> [''cache: MISS (no entry for this unit identity)'']
      | Some k \<Rightarrow>
     case om_find (cs_cache_entries s) k of
        None \<Rightarrow> [''cache: CORRUPT (index points at a missing entry)'']
      | Some e \<Rightarrow>
          (let d = evaluate_cache_metadata c e in
           (''cache: '' @ cache_outcome_string (cd_outcome d) @ '' - '' @ cd_reason d)
           # map (\<lambda>m. ''  mismatch '' @ cm_dimension m @ '': expected '' @ cm_expected m
               @ '' actual '' @ cm_actual m) (cd_mismatches d)
           @ (if cd_generation_drift d
              then [''  generation drift observed (content identity still equal)''] else [])))"

definition explain_attempt :: "state \<Rightarrow> attempt_id \<Rightarrow> string list" where
  "explain_attempt s i =
     (case om_find (cs_attempts s) i of
        None \<Rightarrow> [''  '' @ dec_of i @ '': MISSING'']
      | Some a \<Rightarrow>
          (''  '' @ dec_of (ca_id a) @ '' ordinal '' @ dec_of_u32 (ca_ordinal a) @ '' state ''
             @ attempt_state_string (ca_state a) @ '' worker '' @ dec_of (ca_worker a)
             @ '' boot '' @ dec_of (ca_worker_boot a) @ '' lease '' @ dec_of (ca_lease a)
             @ (if ca_speculative a then '' (speculative)'' else []))
          # (if ca_failure a \<noteq> Err_Ok
             then [''    failure: '' @ error_code_string (ca_failure a) @ '' '' @ ca_failure_detail a]
             else [])
          @ (if \<not> digest_is_zero (rf_digest (ca_candidate a))
             then [''    candidate: '' @ digest_hex (rf_digest (ca_candidate a)) @ '' size ''
                     @ to_dec (rf_size (ca_candidate a))]
             else []))"

definition explain_commit :: "state \<Rightarrow> artifact_commit \<Rightarrow> string list" where
  "explain_commit s k =
     [''authoritative artifact: '' @ digest_hex (ac_artifact_digest k)
        @ (if ac_deduplicated k then '' (deduplicated)'' else []),
      ''commit: '' @ dec_of (ac_id k) @ '' at epoch '' @ dec_of_gen (ac_epoch k) @ '' worker ''
        @ dec_of (ac_worker k) @ '' boot '' @ dec_of (ac_worker_boot k)]
     @ (case om_find (cs_provenances s) (ac_provenance k) of
          None \<Rightarrow> [''provenance: MISSING (integrity failure)'']
        | Some p \<Rightarrow> [''provenance: '' @ dec_of (pv_id p) @ '' evidence ''
            @ evidence_class_string (pv_evidence p) @ '' compiler '' @ pv_compiler_version_string p])
     @ (case om_find (cs_validations s) (ac_validation k) of
          None \<Rightarrow> []
        | Some v \<Rightarrow>
            (''validation: '' @ validation_outcome_string (vp_aggregate v) @ '' ('' @ vp_summary v @ '')'')
            # map (\<lambda>c. ''  '' @ vc_check c @ '': '' @ validation_outcome_string (vc_outcome c) @ '' ''
                @ vc_detail c) (vp_checks v))"

definition explain :: "compilation_id \<Rightarrow> impl \<Rightarrow> string list" where
  "explain i im =
    (let s = im_state im in
     case om_find (cs_compilations s) i of
       None \<Rightarrow> [''compilation '' @ dec_of i @ '': NOT FOUND'']
     | Some c \<Rightarrow>
        explain_record c @ explain_cache c s
        @ (if cr_cache_hit c then [''served from cache: yes''] else [])
        @ [''attempts:''] @ concat (map (explain_attempt s) (cr_attempts c))
        @ (case om_find (cs_authoritative s) (cr_id c) of
             None \<Rightarrow> [''authoritative artifact: none'']
           | Some m \<Rightarrow>
               (case om_find (cs_commits s) m of
                  None \<Rightarrow> [''authoritative artifact: COMMIT RECORD MISSING (integrity failure)'']
                | Some k \<Rightarrow> explain_commit s k))
        @ (if cr_reproducibility_violation c
           then [''reproducibility violation: yes, divergent candidates retained: ''
                   @ dec_of_nat (length (cr_divergent_candidates c))]
           else []))"

definition newline :: string where
  "newline = [CHR 0x0A]"

definition render_explain :: "string list \<Rightarrow> string" where
  "render_explain ls = concat (map (\<lambda>l. l @ newline) ls)"

end
