(* ===== verification/DC_Coordinator.thy ===== *)
theory DC_Coordinator
  imports DC_Runs DC_Queries
begin

text \<open>
  The coordinator as a system.  Its public operations run one at a time under the mutex
  (\<^verbatim>\<open>std::lock_guard\<close> in each of them), in any order; \<^verbatim>\<open>report_output\<close> takes the mutex three
  times, so other operations run between its reservation, its validation, its storage of
  the artifact and its commit.  A system is the coordinator with the reports under way; an
  event is one locked section, the unlocked validation, a tick of the clock, or a change of
  what the disk will answer.
\<close>

section \<open>Events\<close>

datatype operation =
    Submit submission_bundle
  | Pump
  | DrainControls
  | RegisterWorker worker_registration
  | AdvertiseCapabilities session_id worker_capabilities
  | MarkReady session_id
  | Heartbeat session_id
  | BeginCompile authority_claim
  | ValidateResponse session_id u32 evidence_class digest256 string
  | FailAttempt session_id attempt_failure
  | DisconnectSession session_id string
  | Cancel compilation_id string
  | ShutdownSessions
  | Snapshot
  | ArtifactBytes compilation_id
  | Close

fun run_operation :: "operation \<Rightarrow> impl \<Rightarrow> impl" where
  "run_operation (Submit b) im = snd (submit b im)"
| "run_operation Pump im = snd (pump im)"
| "run_operation DrainControls im = snd (drain_controls im)"
| "run_operation (RegisterWorker r) im = snd (register_worker r im)"
| "run_operation (AdvertiseCapabilities s c) im = snd (advertise_capabilities s c im)"
| "run_operation (MarkReady s) im = snd (mark_ready s im)"
| "run_operation (Heartbeat s) im = snd (heartbeat s im)"
| "run_operation (BeginCompile claim) im = snd (begin_compile claim im)"
| "run_operation (ValidateResponse s m e d t) im = snd (handle_validate_response s m e d t im)"
| "run_operation (FailAttempt s f) im = snd (fail_attempt s f im)"
| "run_operation (DisconnectSession s r) im = snd (disconnect_session s r im)"
| "run_operation (Cancel i r) im = snd (cancel i r im)"
| "run_operation ShutdownSessions im = snd (shutdown_sessions im)"
| "run_operation Snapshot im = snd (coordinator_snapshot im)"
| "run_operation (ArtifactBytes i) im = snd (artifact_bytes i im)"
| "run_operation Close im = coordinator_close im"

text \<open>How far a report under way has come.\<close>

datatype report_phase = Reserved reservation | Validated validation_report | Stored validation_report

type_synonym pending = "session_id \<times> report \<times> report_phase"

record system =
  sy_impl :: impl
  sy_pending :: "pending list"

datatype event =
    Call operation
  | Reserve session_id report
  | Validate session_id report reservation smoke_answer
  | Store session_id report validation_report
  | Commit session_id report validation_report
  | Clock unix_millis
  | Disk "string option list"

text \<open>A report whose phase fails returns to its caller and is no longer under way.\<close>

fun perform :: "event \<Rightarrow> system \<Rightarrow> system" where
  "perform (Call op) s = s\<lparr>sy_impl := run_operation op (sy_impl s)\<rparr>"
| "perform (Reserve i r) s =
     (case report_reserve i r (sy_impl s) of
        (Inl st, im) \<Rightarrow> s\<lparr>sy_impl := im\<rparr>
      | (Inr rv, im) \<Rightarrow> \<lparr>sy_impl = im, sy_pending = (i, r, Reserved rv) # sy_pending s\<rparr>)"
| "perform (Validate i r rv answer) s =
     (if (i, r, Reserved rv) \<notin> set (sy_pending s) then s
      else
        (let rest = remove1 (i, r, Reserved rv) (sy_pending s) in
         case report_validate r rv answer of
           Inl st \<Rightarrow> s\<lparr>sy_pending := rest\<rparr>
         | Inr v \<Rightarrow> s\<lparr>sy_pending := (i, r, Validated v) # rest\<rparr>))"
| "perform (Store i r v) s =
     (if (i, r, Validated v) \<notin> set (sy_pending s) then s
      else
        (let rest = remove1 (i, r, Validated v) (sy_pending s);
             (stored, im) = store_blob (ro_bytes r) (sy_impl s) in
         \<lparr>sy_impl = im, sy_pending = (if st_ok stored then (i, r, Stored v) # rest else rest)\<rparr>))"
| "perform (Commit i r v) s =
     (if (i, r, Stored v) \<notin> set (sy_pending s) then s
      else \<lparr>sy_impl = snd (report_commit i r v (sy_impl s)),
             sy_pending = remove1 (i, r, Stored v) (sy_pending s)\<rparr>)"
| "perform (Clock t) s = s\<lparr>sy_impl := (sy_impl s)\<lparr>im_now := t\<rparr>\<rparr>"
| "perform (Disk fs) s = s\<lparr>sy_impl := (sy_impl s)\<lparr>im_store := (im_store (sy_impl s))\<lparr>ps_faults := fs\<rparr>\<rparr>\<rparr>"

text \<open>What an event can add: at most one commit, and the attempts that a pump hands out.\<close>

fun commits_of :: "event \<Rightarrow> nat" where
  "commits_of (Commit i r v) = 1"
| "commits_of _ = 0"

fun attempts_of :: "event \<Rightarrow> system \<Rightarrow> nat" where
  "attempts_of (Call Pump) s = length (fst (pump (sy_impl s)))"
| "attempts_of _ s = 0"

text \<open>Runs, with the number of commit events and of attempts handed out.\<close>

inductive reaches :: "system \<Rightarrow> nat \<Rightarrow> nat \<Rightarrow> system \<Rightarrow> bool" for s0 where
  start: "reaches s0 0 0 s0"
| go: "reaches s0 n m s \<Longrightarrow> reaches s0 (n + commits_of e) (m + attempts_of e s) (perform e s)"

text \<open>A coordinator that has just been opened on an empty store.\<close>

definition fresh_system :: "system \<Rightarrow> bool" where
  "fresh_system s \<longleftrightarrow> sy_pending s = []
     \<and> (\<exists>e r. im_state (sy_impl s) = initial_state\<lparr>cs_header := initial_header\<lparr>hd_epoch := e, hd_restarts := r\<rparr>\<rparr>)"

section \<open>Every event is covered by the relations\<close>

lemma artifact_bytes_frame [simp]:
  "ledger_of (snd (artifact_bytes i im)) = ledger_of im"
  "env_of (snd (artifact_bytes i im)) = env_of im"
  "cs_attempts (im_state (snd (artifact_bytes i im))) = cs_attempts (im_state im)"
  "cs_controls (im_state (snd (artifact_bytes i im))) = cs_controls (im_state im)"
  by (simp_all add: artifact_bytes_def split: option.split)

lemma storage_grows:
  "attempts_grow 0 im (snd (coordinator_snapshot im))" "attempts_grow 0 im (coordinator_close im)"
  "attempts_grow 0 im (snd (artifact_bytes i im))"
  by (rule attempts_same, simp_all add: next_attempt_def)+

lemma run_operation_authority: "authority_run 0 im (run_operation op im)"
  by (cases op) (simp_all add: authority_same submitting.quiet_submit [THEN authority.quietD])

lemma perform_reserve_impl:
  "sy_impl (perform (Reserve i r) s) = snd (report_reserve i r (sy_impl s))"
  by (simp add: case_prod_beta split: sum.split)

lemma perform_authority: "\<exists>k\<le>commits_of e. authority_run k (sy_impl s) (sy_impl (perform e s))"
proof (cases e)
  case (Commit i r v)
  then show ?thesis
    using report_commit_run [of "sy_impl s" i r v]
    by (auto simp: authority_run_def intro: ledger_run.stay)
next
  case (Call op)
  then show ?thesis using run_operation_authority by simp
next
  case (Reserve i r)
  show ?thesis unfolding Reserve perform_reserve_impl by (simp add: authority_same)
next
  case (Validate i r rv answer)
  then show ?thesis by (simp add: Let_def authority.rel_refl split: sum.split)
next
  case (Store i r v)
  then show ?thesis by (simp add: Let_def case_prod_beta authority_same)
next
  case (Clock t)
  then show ?thesis by (simp add: authority_same ledger_of_def)
next
  case (Disk fs)
  then show ?thesis by (simp add: authority_same ledger_of_def)
qed

lemma run_operation_grows: "attempts_grow (attempts_of (Call op) s) (sy_impl s) (run_operation op (sy_impl s))"
proof (cases op)
  case DrainControls
  then show ?thesis
    by (simp add: drain_controls_def attempts_same upd_state_def next_attempt_def env_of_def)
qed (simp_all add: storage_grows pump_grows enlisting.quiet_submit [THEN growing.quietD]
    worker_ops_grow [THEN growing.quietD] begin_compile_grows [THEN growing.quietD]
    fail_attempt_op_grows [THEN growing.quietD] disconnect_session_grows [THEN growing.quietD]
    cancel_grows [THEN growing.quietD])

lemma perform_grows: "attempts_grow (attempts_of e s) (sy_impl s) (sy_impl (perform e s))"
proof (cases e)
  case (Commit i r v)
  then show ?thesis by (simp add: growing.rel_refl report_commit_grows [THEN growing.quietD])
next
  case (Call op)
  then show ?thesis using run_operation_grows by simp
next
  case (Reserve i r)
  show ?thesis
    unfolding Reserve perform_reserve_impl by (simp add: report_reserve_grows [THEN growing.quietD])
next
  case (Validate i r rv answer)
  then show ?thesis by (simp add: Let_def growing.rel_refl split: sum.split)
next
  case (Store i r v)
  then show ?thesis by (simp add: Let_def case_prod_beta growing.rel_refl enlisting.rel_store_blob)
next
  case (Clock t)
  then show ?thesis by (simp add: attempts_same next_attempt_def env_of_def)
next
  case (Disk fs)
  then show ?thesis by (simp add: attempts_same next_attempt_def env_of_def)
qed

lemma reaches_authority: "reaches s0 n m s \<Longrightarrow> \<exists>k\<le>n. authority_run k (sy_impl s0) (sy_impl s)"
proof (induction rule: reaches.induct)
  case start
  then show ?case using authority.rel_refl by blast
next
  case (go n m s e)
  then obtain k l where "k \<le> n" "l \<le> commits_of e" "authority_run k (sy_impl s0) (sy_impl s)"
    "authority_run l (sy_impl s) (sy_impl (perform e s))" using perform_authority by blast
  then show ?case by (meson add_mono authority.rel_trans)
qed

lemma reaches_grows: "reaches s0 n m s \<Longrightarrow> attempts_grow m (sy_impl s0) (sy_impl s)"
  by (induction rule: reaches.induct) (auto intro: growing.rel_refl growing.rel_trans perform_grows)

section \<open>Authority over a whole run\<close>

text \<open>
  C5: The coordinator implements the ledger.  Whatever operations run in whatever order,
  with reports interleaved between their phases, with any clock and any pattern of failing
  writes, what happens to commits, authority, provenance and validations is a run of the
  ledger's moves, with at most one new commit for each commit event.
\<close>

theorem runs_refine_ledger:
  assumes "reaches s0 n m s"
  shows "\<exists>k\<le>n. ledger_run k (ledger_of (sy_impl s0)) (ledger_of (sy_impl s))"
  using reaches_authority [OF assms] by (simp add: authority_run_def)

text \<open>The sample candidate, reported, validated and stored, waiting for its commit.\<close>

definition sample_waiting :: system where
  "sample_waiting = \<lparr>sy_impl = sample_produced,
     sy_pending = [(Ident 1, sample_report, Stored passing)]\<rparr>"

definition sample_committed :: system where
  "sample_committed = perform (Commit (Ident 1) sample_report passing) sample_waiting"

lemma sample_waiting_reaches: "reaches sample_waiting 1 0 sample_committed"
  using reaches.go [OF reaches.start, of sample_waiting "Commit (Ident 1) sample_report passing"]
  by (simp add: sample_committed_def)

lemma sample_authorised:
  "report_commit (Ident 1) sample_report passing sample_produced =
     commit_locked (Ident 1) sample_report passing sample_produced"
proof -
  have "header sample_produced = header sample_impl"
    by (simp add: sample_produced_def sample_with_def table_defs)
  then have "validate_authority sample_claim
      (expectation_for sample_produced sample_compilation sample_produced_attempt) = success"
    by (simp add: validate_authority_def expectation_for_def sample_claim_def sample_attempt_def
        sample_produced_attempt_def new_claim_def new_attempt_def)
  then show ?thesis
    by (simp add: report_commit_def sample_report_def) (simp add: sample_produced_def)
qed

lemma sample_next_commit: "hd_next_commit_id (header sample_produced) = 1"
  by (simp add: sample_produced_def sample_with_def table_defs sample_impl_def initial_header_def)

lemma sample_takes_authority:
  "om_find (cs_authoritative (im_state (sy_impl sample_committed))) (Ident 7) =
     Some (Ident 1)"
proof -
  have seals: "ledger_of (snd (commit_locked (Ident 1) sample_report passing sample_produced)) =
    seal (sealed_validation sample_produced passing)
      (sealed_provenance sample_produced sample_compilation sample_produced_attempt)
      (sealed_commit sample_produced sample_compilation sample_produced_attempt) (ledger_of sample_produced)"
    by (simp add: commit_locked_def sample_report_def sample_produced_attempt_def digest_is_zero_def
        passing_def sample_produced_def commit_first_ledger)
  have "lg_authoritative (ledger_of (sy_impl sample_committed)) =
      om_put (Ident 7) (Ident 1) (lg_authoritative (ledger_of sample_produced))"
    by (simp add: sample_committed_def sample_waiting_def sample_authorised seals)
      (simp add: seal_def sample_next_commit, simp add: sample_compilation_def)
  then show ?thesis by simp
qed

theorem runs_refine_ledger_witness:
  "\<exists>k\<le>1. ledger_run k (ledger_of sample_produced) (ledger_of (sy_impl sample_committed))"
  using runs_refine_ledger [OF sample_waiting_reaches] by (simp add: sample_waiting_def)

text \<open>What a sound ledger means for the tables of the coordinator.\<close>

lemma ledger_ok_authority:
  assumes sound: "ledger_ok (ledger_of im)"
  shows "(\<forall>c i. om_find (cs_authoritative (im_state im)) c = Some i \<longrightarrow>
      (\<exists>k v p. om_find (cs_commits (im_state im)) i = Some k \<and> ac_compilation k = c
        \<and> om_find (cs_validations (im_state im)) (ac_validation k) = Some v
        \<and> om_find (cs_provenances (im_state im)) (ac_provenance k) = Some p
        \<and> backed_by k v p))
    \<and> (\<forall>i j k k'. om_find (cs_commits (im_state im)) i = Some k \<longrightarrow>
        om_find (cs_commits (im_state im)) j = Some k' \<longrightarrow>
        ac_compilation k = ac_compilation k' \<longrightarrow> \<not> ac_superseded k \<longrightarrow> \<not> ac_superseded k' \<longrightarrow> i = j)"
proof -
  have "\<exists>k v p. om_find (cs_commits (im_state im)) i = Some k \<and> ac_compilation k = c
      \<and> om_find (cs_validations (im_state im)) (ac_validation k) = Some v
      \<and> om_find (cs_provenances (im_state im)) (ac_provenance k) = Some p \<and> backed_by k v p"
    if "om_find (cs_authoritative (im_state im)) c = Some i" for c i
    using ledger_ok_bound [OF sound, of c i] ledger_ok_sealed [OF sound, of i] that
    by (fastforce simp: sealed_def)
  then show ?thesis using ledger_ok_unique [OF sound] by simp
qed

text \<open>
  C2: At most one artifact is authoritative, and it is a validated one.  After any run from
  a sound ledger with fewer than 2^64 - 1 commit events, the authority of a compilation is
  a commit in the table that belongs to that compilation and rests on a validation record
  that passed and on the provenance of the attempt it names; and two commits of one
  compilation that are not superseded are one commit.
\<close>

theorem one_validated_authority:
  assumes run: "reaches s0 n m s" and few: "j + n < 2 ^ 64 - 1"
    and ok: "ledger_ok (ledger_of (sy_impl s0))" "counters_within j (ledger_of (sy_impl s0))"
  shows "(\<forall>c i. om_find (cs_authoritative (im_state (sy_impl s))) c = Some i \<longrightarrow>
      (\<exists>k v p. om_find (cs_commits (im_state (sy_impl s))) i = Some k \<and> ac_compilation k = c
        \<and> om_find (cs_validations (im_state (sy_impl s))) (ac_validation k) = Some v
        \<and> om_find (cs_provenances (im_state (sy_impl s))) (ac_provenance k) = Some p
        \<and> backed_by k v p))
    \<and> (\<forall>i j k k'. om_find (cs_commits (im_state (sy_impl s))) i = Some k \<longrightarrow>
        om_find (cs_commits (im_state (sy_impl s))) j = Some k' \<longrightarrow>
        ac_compilation k = ac_compilation k' \<longrightarrow> \<not> ac_superseded k \<longrightarrow> \<not> ac_superseded k' \<longrightarrow> i = j)"
proof -
  obtain k where "k \<le> n" "ledger_run k (ledger_of (sy_impl s0)) (ledger_of (sy_impl s))"
    using reaches_authority [OF run] by (auto simp: authority_run_def)
  with ok few show ?thesis using ledger_run_ok [OF _ ok, of k] by (intro ledger_ok_authority) simp
qed

lemma sample_waiting_sound:
  "ledger_ok (ledger_of (sy_impl sample_waiting))" "counters_within 0 (ledger_of (sy_impl sample_waiting))"
proof -
  have "ledger_ok (ledger_of sample_impl) \<and> counters_within 0 (ledger_of sample_impl)"
    by (rule initial_ledger [where h = "initial_header\<lparr>hd_epoch := Gen 1, hd_restarts := 1\<rparr>"])
      (simp_all add: sample_impl_def initial_header_def)
  then show "ledger_ok (ledger_of (sy_impl sample_waiting))"
    "counters_within 0 (ledger_of (sy_impl sample_waiting))"
    by (simp_all add: sample_waiting_def sample_produced_def)
qed

theorem one_validated_authority_witness:
  "\<exists>k v p. om_find (cs_commits (im_state (sy_impl sample_committed))) (Ident 1) = Some k
     \<and> ac_compilation k = Ident 7 \<and> backed_by k v p"
  using one_validated_authority [OF sample_waiting_reaches _ sample_waiting_sound] sample_takes_authority
  by simp blast

text \<open>
  C24: A commit is permanent.  Once in the table it stays there through any run, and nothing
  about it ever changes but the mark that it has been superseded, which is never taken back.
\<close>

theorem commits_are_permanent:
  assumes "reaches s0 n m s" "j + n < 2 ^ 64 - 1" "ledger_ok (ledger_of (sy_impl s0))"
    "counters_within j (ledger_of (sy_impl s0))"
    "om_find (cs_commits (im_state (sy_impl s0))) i = Some k"
  shows "\<exists>b. om_find (cs_commits (im_state (sy_impl s))) i = Some (k\<lparr>ac_superseded := b\<rparr>)
    \<and> (ac_superseded k \<longrightarrow> b)"
proof -
  obtain l where "l \<le> n" "ledger_run l (ledger_of (sy_impl s0)) (ledger_of (sy_impl s))"
    using reaches_authority [OF assms(1)] by (auto simp: authority_run_def)
  from ledger_run_keeps_commits [OF this(2) assms(3,4)] this(1) assms(2,5) show ?thesis by simp
qed

lemma sample_committed_sound:
  "ledger_ok (ledger_of (sy_impl sample_committed))" "counters_within 1 (ledger_of (sy_impl sample_committed))"
proof -
  obtain k where k: "k \<le> 1" "ledger_run k (ledger_of (sy_impl sample_waiting)) (ledger_of (sy_impl sample_committed))"
    using reaches_authority [OF sample_waiting_reaches] by (auto simp: authority_run_def)
  have "ledger_ok (ledger_of (sy_impl sample_committed)) \<and> counters_within k (ledger_of (sy_impl sample_committed))"
    using ledger_run_ok [OF k(2) sample_waiting_sound] k(1) by simp
  with k(1) show "ledger_ok (ledger_of (sy_impl sample_committed))"
    "counters_within 1 (ledger_of (sy_impl sample_committed))"
    by (auto simp: counters_within_def)
qed

theorem commits_are_permanent_witness:
  "\<exists>k b. om_find (cs_commits (im_state (sy_impl sample_committed))) (Ident 1) = Some k
     \<and> om_find (cs_commits (im_state (sy_impl (perform (Call (Cancel (Ident 7) ''late'')) sample_committed))))
         (Ident 1) = Some (k\<lparr>ac_superseded := b\<rparr>)"
proof -
  obtain k where k: "om_find (cs_commits (im_state (sy_impl sample_committed))) (Ident 1) = Some k"
    using ledger_ok_bound [OF sample_committed_sound(1)] sample_takes_authority by fastforce
  have "reaches sample_committed 0 0 (perform (Call (Cancel (Ident 7) ''late'')) sample_committed)"
    using reaches.go [OF reaches.start, of sample_committed "Call (Cancel (Ident 7) ''late'')"] by simp
  from commits_are_permanent [OF this _ sample_committed_sound k] k show ?thesis by auto
qed

end
