(* ===== verification/DC_Evidence.thy ===== *)
theory DC_Evidence
  imports DC_Coordinator
begin

text \<open>
  What a run of the coordinator does to attempts, and what an authoritative digest rests
  on.  Reports are interleaved with every other operation between their phases, so the
  bytes that were validated and the digest that is committed are read at different times;
  the theory shows that they still agree.
\<close>

section \<open>Attempts over a whole run\<close>

lemma reported_evolves: "attempt_evolves a b \<Longrightarrow> reported (ca_state a) \<Longrightarrow> reported (ca_state b)"
  unfolding attempt_evolves_def reported_def using legal_star_rank le_trans by blast

text \<open>
  C23: Attempts only move forward.  Through any run that hands out fewer than 2^64 attempt
  identities, an attempt that is in the table stays there, keeps its identity, its
  compilation, its worker with boot and generation, its lease and its epoch, changes state
  only along legal transitions, and from the moment it has reported never changes its
  candidate.
\<close>

theorem attempts_live_forward:
  assumes "reaches s0 n m s" "unat (next_attempt (sy_impl s0)) + m < 2 ^ 64"
    "attempts_below (sy_impl s0)" "find_attempt i (sy_impl s0) = Some a"
  shows "\<exists>b. find_attempt i (sy_impl s) = Some b \<and> is_legal_transition\<^sup>*\<^sup>* (ca_state a) (ca_state b)
    \<and> ca_id b = ca_id a \<and> ca_compilation b = ca_compilation a
    \<and> ca_worker b = ca_worker a \<and> ca_worker_boot b = ca_worker_boot a
    \<and> ca_worker_generation b = ca_worker_generation a
    \<and> ca_lease b = ca_lease a \<and> ca_lease_generation b = ca_lease_generation a \<and> ca_epoch b = ca_epoch a
    \<and> (reported (ca_state a) \<longrightarrow> ca_candidate b = ca_candidate a)"
  using reaches_grows [OF assms(1)] assms(2-4)
  by (auto simp: attempts_grow_def attempts_evolve_def attempt_evolves_def)

text \<open>The sample, with the counter of attempts past the attempt in the table.\<close>

definition sample_counted :: system where
  "sample_counted = sample_waiting\<lparr>sy_impl := upd_header (\<lambda>h. h\<lparr>hd_next_attempt_id := 2\<rparr>) sample_produced\<rparr>"

lemma sample_counted_attempt:
  "find_attempt (Ident 1) (sy_impl sample_counted) = Some sample_produced_attempt"
  "attempts_below (sy_impl sample_counted)" "next_attempt (sy_impl sample_counted) = 2"
proof -
  show next2: "next_attempt (sy_impl sample_counted) = 2"
    by (simp add: sample_counted_def next_attempt_def env_of_def upd_header_def upd_state_def)
  have table: "cs_attempts (im_state sample_produced) = [(Ident 1, sample_produced_attempt)]"
    by (simp add: sample_produced_def sample_with_def upd_header_def upd_state_def table_defs
        sample_impl_def initial_state_def)
  show "find_attempt (Ident 1) (sy_impl sample_counted) = Some sample_produced_attempt"
    by (simp add: sample_counted_def find_attempt_def) (simp add: find_attempt_def [symmetric] sample_produced_def)
  show "attempts_below (sy_impl sample_counted)"
    unfolding attempts_below_def next2 by (simp add: sample_counted_def table ids_below_def)
qed

theorem attempts_live_forward_witness:
  "\<exists>b. find_attempt (Ident 1) (sy_impl (perform (Call (Cancel (Ident 7) ''late'')) sample_counted)) = Some b
     \<and> ca_candidate b = ca_candidate sample_produced_attempt"
proof -
  have "reaches sample_counted 0 0 (perform (Call (Cancel (Ident 7) ''late'')) sample_counted)"
    using reaches.go [OF reaches.start, of sample_counted "Call (Cancel (Ident 7) ''late'')"] by simp
  from attempts_live_forward [OF this _ sample_counted_attempt(2,1)] show ?thesis
    by (auto simp: sample_counted_attempt(3) sample_produced_attempt_def reported_def)
qed

section \<open>Where commits come from\<close>

text \<open>A run without new commits leaves every digest as it was.\<close>

lemma ledger_run_0_digests:
  assumes "ledger_run n l0 l" "n = 0" "om_find (lg_commits l) m = Some k"
  shows "\<exists>k0. om_find (lg_commits l0) m = Some k0 \<and> ac_artifact_digest k = ac_artifact_digest k0
    \<and> ac_attempt k = ac_attempt k0"
  using assms
proof (induction arbitrary: k rule: ledger_run.induct)
  case (mark n l0 l c m' k')
  then show ?case by (cases "m = m'") (auto simp: supersede_def)
qed (auto simp: withdraw_def)

lemma report_commit_ledger:
  obtains "ledger_of (snd (report_commit s r v im)) = ledger_of im"
  | a c where "find_attempt (au_attempt (ro_claim r)) im = Some a"
      "find_compilation (au_compilation (ro_claim r)) im = Some c"
      "vp_aggregate v = VO_Pass"
      "ledger_of (snd (report_commit s r v im)) = seal (sealed_validation im v)
         (sealed_provenance im c a) (sealed_commit im c a) (ledger_of im)"
proof -
  obtain q im' where eq: "commit_locked s r v im = (q, im')" by fastforce
  have locked: "ledger_of im' = ledger_of im \<or> (\<exists>a c. find_attempt (au_attempt (ro_claim r)) im = Some a
      \<and> find_compilation (au_compilation (ro_claim r)) im = Some c \<and> vp_aggregate v = VO_Pass
      \<and> ledger_of im' = seal (sealed_validation im v) (sealed_provenance im c a) (sealed_commit im c a) (ledger_of im))"
    using eq
  proof (cases rule: commit_locked_cases)
    case (first a c worker)
    then have "im' = snd (commit_first s worker (ro_claim r) a c v im)" by (metis snd_conv)
    with first show ?thesis by (auto simp: commit_first_ledger)
  next
    case (invalid a c)
    then show ?thesis by (metis refuse_invalid_frame(1) snd_conv)
  next
    case (duplicate a c k)
    then show ?thesis by (metis commit_duplicate_frame(1) snd_conv)
  next
    case (divergent a c k)
    then show ?thesis by (metis commit_divergent_frame(1) snd_conv)
  qed simp
  have "ledger_of (snd (report_commit s r v im)) = ledger_of im
      \<or> report_commit s r v im = commit_locked s r v im"
    by (auto simp: report_commit_def Let_def case_prod_beta split: option.split)
  with locked eq that show thesis by auto
qed

section \<open>The bytes behind a report under way\<close>

definition holds_candidate :: "report \<Rightarrow> impl \<Rightarrow> bool" where
  "holds_candidate r im \<longleftrightarrow> (\<exists>a. find_attempt (au_attempt (ro_claim r)) im = Some a
     \<and> reported (ca_state a) \<and> rf_digest (ca_candidate a) = sha256 (ro_bytes r))"

lemma holds_candidate_evolves: "attempts_evolve x y \<Longrightarrow> holds_candidate r x \<Longrightarrow> holds_candidate r y"
proof -
  assume evolve: "attempts_evolve x y" and "holds_candidate r x"
  then obtain a where a: "find_attempt (au_attempt (ro_claim r)) x = Some a" "reported (ca_state a)"
    "rf_digest (ca_candidate a) = sha256 (ro_bytes r)" by (auto simp: holds_candidate_def)
  with evolve obtain b where b: "find_attempt (au_attempt (ro_claim r)) y = Some b" "attempt_evolves a b"
    by (auto simp: attempts_evolve_def)
  then have "ca_candidate b = ca_candidate a" using a(2) by (simp add: attempt_evolves_def)
  with a b reported_evolves [OF b(2) a(2)] show ?thesis by (simp add: holds_candidate_def)
qed

lemma reserve_holds:
  assumes "fst (report_reserve i r im) = Inr rv"
  shows "holds_candidate r (snd (report_reserve i r im))"
proof (cases "report_gate i r im")
  case (Inl x)
  with assms show ?thesis by (cases x) (simp add: report_reserve_def)
next
  case (Inr ac)
  then obtain a c where "report_reserve i r im = reserve_attempt r a c im"
    by (cases ac) (simp add: report_reserve_def)
  with assms reserve_attempt_success [of r a c im rv] show ?thesis
    by (auto simp: holds_candidate_def reported_def)
qed

text \<open>What the phase a report has reached tells about the run so far.\<close>

definition reserved_in :: "system \<Rightarrow> report \<Rightarrow> reservation \<Rightarrow> bool" where
  "reserved_in s0 r rv \<longleftrightarrow> (\<exists>n m s i. reaches s0 n m s \<and> fst (report_reserve i r (sy_impl s)) = Inr rv)"

definition validated_in :: "system \<Rightarrow> report \<Rightarrow> validation_report \<Rightarrow> bool" where
  "validated_in s0 r v \<longleftrightarrow> (\<exists>rv answer. reserved_in s0 r rv \<and> report_validate r rv answer = Inr v)"

fun phase_grounded :: "system \<Rightarrow> report \<Rightarrow> report_phase \<Rightarrow> bool" where
  "phase_grounded s0 r (Reserved rv) = reserved_in s0 r rv"
| "phase_grounded s0 r (Validated v) = validated_in s0 r v"
| "phase_grounded s0 r (Stored v) = validated_in s0 r v"

definition commit_grounded :: "system \<Rightarrow> commit_id \<Rightarrow> artifact_commit \<Rightarrow> bool" where
  "commit_grounded s0 m k \<longleftrightarrow>
     (\<exists>k0. om_find (cs_commits (im_state (sy_impl s0))) m = Some k0 \<and> ac_artifact_digest k = ac_artifact_digest k0)
     \<or> (\<exists>r v. validated_in s0 r v \<and> vp_aggregate v = VO_Pass \<and> sha256 (ro_bytes r) = ac_artifact_digest k)"

definition grounded :: "system \<Rightarrow> system \<Rightarrow> bool" where
  "grounded s0 s \<longleftrightarrow>
     (\<forall>(i, r, ph) \<in> set (sy_pending s). holds_candidate r (sy_impl s) \<and> phase_grounded s0 r ph)
     \<and> (\<forall>m k. om_find (cs_commits (im_state (sy_impl s))) m = Some k \<longrightarrow> commit_grounded s0 m k)"

lemma groundedD:
  "grounded s0 s \<Longrightarrow> (i, r, ph) \<in> set (sy_pending s) \<Longrightarrow> holds_candidate r (sy_impl s) \<and> phase_grounded s0 r ph"
  "grounded s0 s \<Longrightarrow> om_find (cs_commits (im_state (sy_impl s))) m = Some k \<Longrightarrow> commit_grounded s0 m k"
  by (auto simp: grounded_def)

text \<open>The two halves of the invariant move separately: an event that seals nothing keeps the commits.\<close>

lemma commits_stay_grounded:
  assumes "grounded s0 s" "authority_run 0 (sy_impl s) im"
    "om_find (cs_commits (im_state im)) m = Some k"
  shows "commit_grounded s0 m k"
proof -
  obtain k0 where "om_find (cs_commits (im_state (sy_impl s))) m = Some k0"
    "ac_artifact_digest k = ac_artifact_digest k0"
    using ledger_run_0_digests [of 0 "ledger_of (sy_impl s)" "ledger_of im" m k] assms(2,3)
    by (auto simp: authority_run_def)
  with groundedD(2) [OF assms(1)] show ?thesis by (auto simp: commit_grounded_def)
qed

lemma perform_commit_grounded:
  assumes g: "grounded s0 s" and k: "om_find (cs_commits (im_state (sy_impl (perform e s)))) m = Some k"
  shows "commit_grounded s0 m k"
proof (cases "\<exists>i r v. e = Commit i r v \<and> (i, r, Stored v) \<in> set (sy_pending s)")
  case True
  then obtain i r v where e: "e = Commit i r v" "(i, r, Stored v) \<in> set (sy_pending s)" by blast
  then have cand: "holds_candidate r (sy_impl s)" and valid: "validated_in s0 r v"
    using groundedD(1) [OF g e(2)] by auto
  have impl: "sy_impl (perform e s) = snd (report_commit i r v (sy_impl s))" using e by simp
  show ?thesis
  proof (rule report_commit_ledger [of i r v "sy_impl s"])
    assume "ledger_of (snd (report_commit i r v (sy_impl s))) = ledger_of (sy_impl s)"
    then have "authority_run 0 (sy_impl s) (sy_impl (perform e s))" by (simp add: impl authority_same)
    from commits_stay_grounded [OF g this k] show ?thesis .
  next
    fix a c
    assume a: "find_attempt (au_attempt (ro_claim r)) (sy_impl s) = Some a" and pass: "vp_aggregate v = VO_Pass"
      and seal: "ledger_of (snd (report_commit i r v (sy_impl s))) = seal (sealed_validation (sy_impl s) v)
        (sealed_provenance (sy_impl s) c a) (sealed_commit (sy_impl s) c a) (ledger_of (sy_impl s))"
    have table: "cs_commits (im_state (sy_impl (perform e s))) =
        om_put (ac_id (sealed_commit (sy_impl s) c a)) (sealed_commit (sy_impl s) c a)
          (cs_commits (im_state (sy_impl s)))"
      using arg_cong [OF seal, of lg_commits] unfolding impl by (simp add: seal_def)
    have "k = sealed_commit (sy_impl s) c a \<or> om_find (cs_commits (im_state (sy_impl s))) m = Some k"
      using k unfolding table om_find_put by (simp split: if_splits)
    then consider "k = sealed_commit (sy_impl s) c a" | "om_find (cs_commits (im_state (sy_impl s))) m = Some k"
      by (elim disjE)
    then show ?thesis
    proof cases
      case 1
      then have "sha256 (ro_bytes r) = ac_artifact_digest k"
        using cand a by (simp add: holds_candidate_def)
      with valid pass show ?thesis unfolding commit_grounded_def by blast
    next
      case 2
      then show ?thesis by (rule groundedD(2) [OF g])
    qed
  qed
next
  case False
  then have silent: "commits_of e = 0 \<or> sy_impl (perform e s) = sy_impl s"
  proof (cases e)
    case (Commit i r v)
    with False show ?thesis by simp
  qed (rule disjI1, simp)+
  then have "authority_run 0 (sy_impl s) (sy_impl (perform e s))"
    using perform_authority [of e s] authority.rel_refl [of "sy_impl s"] by (elim disjE) (simp_all only: le_zero_eq simp_thms)
  then show ?thesis using commits_stay_grounded [OF g _ k] by simp
qed

lemma perform_pending_grounded:
  assumes g: "grounded s0 s" and reach: "reaches s0 n m s"
    and evolve: "attempts_evolve (sy_impl s) (sy_impl (perform e s))"
    and p: "(i, r, ph) \<in> set (sy_pending (perform e s))"
  shows "holds_candidate r (sy_impl (perform e s)) \<and> phase_grounded s0 r ph"
proof (cases "(i, r, ph) \<in> set (sy_pending s)")
  case True
  then show ?thesis using groundedD(1) [OF g] holds_candidate_evolves [OF evolve] by blast
next
  case new: False
  have old: "holds_candidate r (sy_impl (perform e s))" if "(j, r, ph') \<in> set (sy_pending s)" for j ph'
    using groundedD(1) [OF g that] holds_candidate_evolves [OF evolve] by blast
  show ?thesis
  proof (cases e)
    case (Reserve j q)
    then obtain rv im where q: "report_reserve j q (sy_impl s) = (Inr rv, im)" "i = j" "r = q" "ph = Reserved rv"
      using p new by (auto split: sum.splits prod.splits)
    then have "reserved_in s0 r rv" using reach unfolding reserved_in_def by (metis fst_conv)
    moreover have "holds_candidate r im" using reserve_holds [of j q "sy_impl s" rv] q by simp
    ultimately show ?thesis using q Reserve by simp
  next
    case (Validate j q rv answer)
    then obtain v where q: "(i, r, Reserved rv) \<in> set (sy_pending s)" "report_validate r rv answer = Inr v"
      "ph = Validated v"
      using p new by (auto simp: Let_def split: sum.splits if_splits dest: notin_set_remove1)
    have "reserved_in s0 r rv" using groundedD(1) [OF g q(1)] by simp
    with q have "validated_in s0 r v" unfolding validated_in_def by blast
    with q old show ?thesis by simp
  next
    case (Store j q v)
    then have q: "(i, r, Validated v) \<in> set (sy_pending s)" "ph = Stored v"
      using p new by (auto simp: Let_def case_prod_beta split: if_splits dest: notin_set_remove1)
    then show ?thesis using old groundedD(1) [OF g q(1)] by auto
  next
    case (Commit j q v)
    then show ?thesis using p new by (auto split: if_splits dest: notin_set_remove1)
  qed (use p new in auto)
qed

lemma reaches_grounded:
  assumes "reaches s0 n m s" "unat (next_attempt (sy_impl s0)) + m < 2 ^ 64"
    "attempts_below (sy_impl s0)" "sy_pending s0 = []"
  shows "grounded s0 s"
  using assms
proof (induction rule: reaches.induct)
  case start
  then show ?case by (auto simp: grounded_def commit_grounded_def)
next
  case (go n m s e)
  then have g: "grounded s0 s" by simp
  from reaches_grows [OF go.hyps] go.prems
  have "next_attempt (sy_impl s) = next_attempt (sy_impl s0) + of_nat m" "attempts_below (sy_impl s)"
    by (auto simp: attempts_grow_def)
  moreover from this go.prems have "unat (next_attempt (sy_impl s)) = unat (next_attempt (sy_impl s0)) + m"
    by (simp add: unat_word_ariths unat_of_nat)
  ultimately have "attempts_evolve (sy_impl s) (sy_impl (perform e s))"
    using perform_grows [of e s] go.prems by (auto simp: attempts_grow_def)
  then show ?case
    using perform_pending_grounded [OF g go.hyps] perform_commit_grounded [OF g]
    unfolding grounded_def by blast
qed

section \<open>Authority rests on validated bytes\<close>

text \<open>The smoke test can only take a pass away.\<close>

lemma report_validate_pass:
  assumes "report_validate r rv answer = Inr v" "vp_aggregate v = VO_Pass"
  shows "vp_aggregate (validate_artifact_bytes (ro_bytes r) (rv_output_kind rv) (rv_target rv)
    (rv_requirements rv) (rv_candidate_digest rv)) = VO_Pass"
  using assms by (auto simp: report_validate_def Let_def split: if_splits)

text \<open>
  C1: Every committed digest is the digest of validated bytes.  Take a run in which no
  report was under way at the start.  Each commit in the table at its end either was there
  at the start with that digest, or there is a report that was accepted by a reservation at
  a moment of the run, whose bytes have exactly the committed SHA-256 digest, and whose
  bytes passed validation against the output kind, the target and the requirements that
  this reservation took from the request.  No other operation in between - another report,
  a cancellation, a lost worker - can make the committed digest and the validated bytes
  come apart.
\<close>

theorem committed_bytes_were_validated:
  assumes "reaches s0 n m s" "unat (next_attempt (sy_impl s0)) + m < 2 ^ 64"
    "attempts_below (sy_impl s0)" "sy_pending s0 = []"
    "om_find (cs_commits (im_state (sy_impl s))) i = Some k"
  shows "(\<exists>k0. om_find (cs_commits (im_state (sy_impl s0))) i = Some k0
      \<and> ac_artifact_digest k = ac_artifact_digest k0)
    \<or> (\<exists>n1 m1 s1 sid r rv. reaches s0 n1 m1 s1 \<and> fst (report_reserve sid r (sy_impl s1)) = Inr rv
        \<and> sha256 (ro_bytes r) = ac_artifact_digest k
        \<and> vp_aggregate (validate_artifact_bytes (ro_bytes r) (rv_output_kind rv) (rv_target rv)
            (rv_requirements rv) (rv_candidate_digest rv)) = VO_Pass)"
proof -
  have "commit_grounded s0 i k" using groundedD(2) [OF reaches_grounded [OF assms(1-4)] assms(5)] .
  then show ?thesis
    unfolding commit_grounded_def validated_in_def reserved_in_def using report_validate_pass by blast
qed

text \<open>The sample with authority already settled, and the counter of attempts past its attempt.\<close>

definition sample_settled :: system where
  "sample_settled = \<lparr>sy_impl = upd_header (\<lambda>h. h\<lparr>hd_next_attempt_id := 2\<rparr>) (sample_decided 5 sample_produced_attempt),
     sy_pending = []\<rparr>"

theorem committed_bytes_were_validated_witness:
  "\<exists>k s. s = perform (Reserve (Ident 1) sample_report) sample_settled
    \<and> om_find (cs_commits (im_state (sy_impl s))) (Ident 1) = Some k
    \<and> ((\<exists>k0. om_find (cs_commits (im_state (sy_impl sample_settled))) (Ident 1) = Some k0
          \<and> ac_artifact_digest k = ac_artifact_digest k0)
      \<or> (\<exists>n1 m1 s1 sid r rv. reaches sample_settled n1 m1 s1 \<and> fst (report_reserve sid r (sy_impl s1)) = Inr rv
        \<and> sha256 (ro_bytes r) = ac_artifact_digest k
        \<and> vp_aggregate (validate_artifact_bytes (ro_bytes r) (rv_output_kind rv) (rv_target rv)
            (rv_requirements rv) (rv_candidate_digest rv)) = VO_Pass))"
proof -
  let ?s = "perform (Reserve (Ident 1) sample_report) sample_settled"
  have reach: "reaches sample_settled 0 0 ?s"
    using reaches.go [OF reaches.start, of sample_settled "Reserve (Ident 1) sample_report"] by simp
  have next2: "next_attempt (sy_impl sample_settled) = 2"
    by (simp add: sample_settled_def next_attempt_def env_of_def upd_header_def upd_state_def)
  have "cs_attempts (im_state (sy_impl sample_settled)) = [(Ident 1, sample_produced_attempt)]"
    by (simp add: sample_settled_def) (simp add: sample_decided_def sample_with_def upd_state_def table_defs
        sample_impl_def initial_state_def)
  then have below: "attempts_below (sy_impl sample_settled)"
    by (simp add: attempts_below_def next2 ids_below_def)
  have "cs_commits (im_state (sy_impl ?s)) = cs_commits (im_state (sy_impl sample_settled))"
    using arg_cong [OF report_reserve_ledger [of "Ident 1" sample_report "sy_impl sample_settled"], of lg_commits]
    unfolding perform_reserve_impl ledger_of_sel .
  moreover have "\<exists>k. om_find (cs_commits (im_state (sy_impl sample_settled))) (Ident 1) = Some k"
    by (simp add: sample_settled_def upd_header_def upd_state_def)
  ultimately obtain k where k: "om_find (cs_commits (im_state (sy_impl ?s))) (Ident 1) = Some k"
    by (auto simp del: perform.simps)
  from committed_bytes_were_validated [OF reach _ below _ k] k show ?thesis
    unfolding next2 by (intro exI [of _ k] exI [of _ ?s]) (simp add: sample_settled_def del: perform.simps)
qed

end
