(* ===== verification/DC_Journal.thy ===== *)
theory DC_Journal
  imports DC_Canonical
begin

text \<open>
  The bytes on disk (\<^verbatim>\<open>include/dc/persistence.hpp\<close>, \<^verbatim>\<open>src/persistence.cpp\<close>): the framing of
  journal records, the snapshot image, the scan that recovers a journal, and the store
  operations over them.  What the operating system answers is an argument: a write may stop
  short after any number of bytes, a flush may fail, a file may not open.
\<close>

section \<open>Records\<close>

datatype record_type =
    RT_SchemaInfo | RT_Header | RT_RegistryEntry | RT_Worker | RT_Compilation | RT_Attempt
  | RT_Commit | RT_Provenance | RT_Validation | RT_CacheEntry | RT_NegativeCache | RT_Job
  | RT_Lease | RT_Intermediate | RT_Artifact

fun record_type_string :: "record_type \<Rightarrow> string" where
  "record_type_string RT_SchemaInfo = ''SchemaInfo''"
| "record_type_string RT_Header = ''Header''"
| "record_type_string RT_RegistryEntry = ''RegistryEntry''"
| "record_type_string RT_Worker = ''Worker''"
| "record_type_string RT_Compilation = ''Compilation''"
| "record_type_string RT_Attempt = ''Attempt''"
| "record_type_string RT_Commit = ''Commit''"
| "record_type_string RT_Provenance = ''Provenance''"
| "record_type_string RT_Validation = ''Validation''"
| "record_type_string RT_CacheEntry = ''CacheEntry''"
| "record_type_string RT_NegativeCache = ''NegativeCache''"
| "record_type_string RT_Job = ''Job''"
| "record_type_string RT_Lease = ''Lease''"
| "record_type_string RT_Intermediate = ''Intermediate''"
| "record_type_string RT_Artifact = ''Artifact''"

text \<open>The value of the enumerator, and the cast back of a value in the domain.\<close>

definition record_types :: "record_type list" where
  "record_types = [RT_SchemaInfo, RT_Header, RT_RegistryEntry, RT_Worker, RT_Compilation, RT_Attempt,
     RT_Commit, RT_Provenance, RT_Validation, RT_CacheEntry, RT_NegativeCache, RT_Job,
     RT_Lease, RT_Intermediate, RT_Artifact]"

fun record_type_code :: "record_type \<Rightarrow> u16" where
  "record_type_code RT_SchemaInfo = 1"
| "record_type_code RT_Header = 2"
| "record_type_code RT_RegistryEntry = 3"
| "record_type_code RT_Worker = 4"
| "record_type_code RT_Compilation = 5"
| "record_type_code RT_Attempt = 6"
| "record_type_code RT_Commit = 7"
| "record_type_code RT_Provenance = 8"
| "record_type_code RT_Validation = 9"
| "record_type_code RT_CacheEntry = 10"
| "record_type_code RT_NegativeCache = 11"
| "record_type_code RT_Job = 12"
| "record_type_code RT_Lease = 13"
| "record_type_code RT_Intermediate = 14"
| "record_type_code RT_Artifact = 15"

definition record_type_of :: "u16 \<Rightarrow> record_type" where
  "record_type_of raw = record_types ! (unat raw - 1)"

record journal_record =
  jn_type :: record_type
  jn_seq :: u64
  jn_payload :: bytes

record store_options =
  so_fsync_records :: bool
  so_max_record_bytes :: u64
  so_max_snapshot_bytes :: u64
  so_max_replay_records :: u64

definition default_store_options :: store_options where
  "default_store_options = \<lparr>so_fsync_records = True, so_max_record_bytes = 67108864,
     so_max_snapshot_bytes = 536870912, so_max_replay_records = 4194304\<rparr>"

section \<open>Framing\<close>

definition kRecordMagic :: u32 where "kRecordMagic = 0x4443304A"
definition kSnapshotMagic :: u32 where "kSnapshotMagic = 0x44433053"
definition kRecordHeaderBytes :: nat where "kRecordHeaderBytes = 24"
definition kSnapshotHeaderBytes :: nat where "kSnapshotHeaderBytes = 56"
definition kMaxJournalBytes :: nat where "kMaxJournalBytes = 268435456"
definition kSchemaVersion :: u16 where "kSchemaVersion = 1"

definition get_u16 :: "bytes \<Rightarrow> nat \<Rightarrow> u16" where "get_u16 bs i = le_load (take 2 (drop i bs))"
definition get_u32 :: "bytes \<Rightarrow> nat \<Rightarrow> u32" where "get_u32 bs i = le_load (take 4 (drop i bs))"
definition get_u64 :: "bytes \<Rightarrow> nat \<Rightarrow> u64" where "get_u64 bs i = le_load (take 8 (drop i bs))"

text \<open>The bytes \<^verbatim>\<open>append_raw\<close> writes for a record: the header, then the payload.\<close>

definition frame_header :: "journal_record \<Rightarrow> bytes" where
  "frame_header r = le_bytes 4 kRecordMagic @ le_bytes 2 kSchemaVersion
     @ le_bytes 2 (record_type_code (jn_type r)) @ le_bytes 8 (jn_seq r)
     @ le_bytes 4 (of_nat (length (jn_payload r)) :: u32) @ le_bytes 4 (crc32 (jn_payload r) 0)"

definition frame :: "journal_record \<Rightarrow> bytes" where
  "frame r = frame_header r @ jn_payload r"

definition snapshot_image :: "u64 \<Rightarrow> bytes \<Rightarrow> bytes" where
  "snapshot_image seq payload = le_bytes 4 kSnapshotMagic @ le_bytes 2 kSchemaVersion
     @ le_bytes 2 (0 :: u16) @ le_bytes 8 seq @ le_bytes 8 (of_nat (length payload) :: u64)
     @ digest_bytes (sha256 payload) @ payload"

section \<open>Reading the snapshot\<close>

definition snapshot_corrupt :: "string \<Rightarrow> (u64 \<times> bytes) res" where
  "snapshot_corrupt detail = Inl (error Err_PersistenceCorrupt detail)"

definition parse_snapshot :: "store_options \<Rightarrow> bytes \<Rightarrow> (u64 \<times> bytes) res" where
  "parse_snapshot opt raw =
    (if length raw < kSnapshotHeaderBytes then snapshot_corrupt ''snapshot header is truncated''
     else if get_u32 raw 0 \<noteq> kSnapshotMagic then snapshot_corrupt ''snapshot magic mismatch''
     else if get_u16 raw 4 \<noteq> kSchemaVersion then
       Inl (error Err_SchemaMismatch (''snapshot schema '' @ to_dec (ucast (get_u16 raw 4)) @
         '' does not match runtime schema '' @ to_dec (ucast kSchemaVersion)))
     else
       (let payload_len = get_u64 raw 16; payload = drop kSnapshotHeaderBytes raw in
        if payload_len > so_max_snapshot_bytes opt \<or> payload_len \<noteq> of_nat (length raw - kSnapshotHeaderBytes)
        then snapshot_corrupt ''snapshot length field is inconsistent''
        else if sha256 payload \<noteq> digest_of_bytes (take 32 (drop 24 raw)) then
          Inl (error Err_IntegrityFailure ''snapshot digest mismatch'')
        else Inr (get_u64 raw 8, payload)))"

section \<open>Replaying the journal\<close>

text \<open>
  The loop runs over the bytes from the current offset on; \<^verbatim>\<open>rp_offset\<close> is the offset of
  the first byte not yet accepted (\<^verbatim>\<open>last_good_offset\<close>), \<^verbatim>\<open>rp_damage\<close> says why it
  stopped, and \<^verbatim>\<open>rp_over_budget\<close> that it returned because too many records were applied.
\<close>

record replay =
  rp_records :: "journal_record list"
  rp_seq :: u64
  rp_applied :: u64
  rp_skipped :: u64
  rp_offset :: nat
  rp_damage :: "string option"
  rp_over_budget :: bool

definition replay_start :: "u64 \<Rightarrow> replay" where
  "replay_start seq = \<lparr>rp_records = [], rp_seq = seq, rp_applied = 0, rp_skipped = 0, rp_offset = 0,
     rp_damage = None, rp_over_budget = False\<rparr>"

text \<open>Why the record at the front of the bytes is refused, in the order of the code.\<close>

definition record_damage :: "store_options \<Rightarrow> bytes \<Rightarrow> string option" where
  "record_damage opt bs =
     (if length bs < kRecordHeaderBytes then Some ''journal header truncated''
      else if get_u32 bs 0 \<noteq> kRecordMagic then Some ''journal record magic mismatch''
      else if get_u16 bs 4 \<noteq> kSchemaVersion then Some ''journal schema mismatch''
      else if get_u16 bs 6 = 0 \<or> get_u16 bs 6 > record_type_code RT_Artifact then
        Some ''journal record type out of domain''
      else if unat (get_u32 bs 16) > unat (so_max_record_bytes opt) then
        Some ''journal record exceeds bounded size''
      else if length bs < kRecordHeaderBytes + unat (get_u32 bs 16) then
        Some ''journal record payload truncated''
      else if crc32 (take (unat (get_u32 bs 16)) (drop kRecordHeaderBytes bs)) 0 \<noteq> get_u32 bs 20 then
        Some ''journal record checksum mismatch''
      else None)"

definition record_at :: "bytes \<Rightarrow> journal_record" where
  "record_at bs = \<lparr>jn_type = record_type_of (get_u16 bs 6), jn_seq = get_u64 bs 8,
     jn_payload = take (unat (get_u32 bs 16)) (drop kRecordHeaderBytes bs)\<rparr>"

text \<open>A record newer than the last one is applied, within the budget; an older one is skipped.\<close>

definition replay_record :: "store_options \<Rightarrow> journal_record \<Rightarrow> replay \<Rightarrow> replay" where
  "replay_record opt r rp =
     (let next = rp_offset rp + kRecordHeaderBytes + length (jn_payload r) in
      if jn_seq r > rp_seq rp then
        (if rp_applied rp \<ge> so_max_replay_records opt then rp\<lparr>rp_over_budget := True\<rparr>
         else rp\<lparr>rp_records := rp_records rp @ [r], rp_seq := jn_seq r,
                 rp_applied := rp_applied rp + 1, rp_offset := next\<rparr>)
      else rp\<lparr>rp_skipped := rp_skipped rp + 1, rp_offset := next\<rparr>)"

function replay_journal :: "store_options \<Rightarrow> bytes \<Rightarrow> replay \<Rightarrow> replay" where
  "replay_journal opt bs rp =
     (if bs = [] \<or> rp_over_budget rp then rp
      else case record_damage opt bs of
        Some detail \<Rightarrow> rp\<lparr>rp_damage := Some detail\<rparr>
      | None \<Rightarrow> replay_journal opt (drop (kRecordHeaderBytes + unat (get_u32 bs 16)) bs)
                  (replay_record opt (record_at bs) rp))"
  by pat_completeness auto
termination
  by (relation "measure (\<lambda>(opt, bs, rp). length bs)") (auto simp: kRecordHeaderBytes_def)

declare replay_journal.simps [simp del]

text \<open>
  Whether a record with a matching checksum starts at some later offset; the code does not
  look at its schema, type or sequence number.
\<close>

definition checksummed_here :: "store_options \<Rightarrow> bytes \<Rightarrow> bool" where
  "checksummed_here opt bs \<longleftrightarrow> kRecordHeaderBytes \<le> length bs \<and> get_u32 bs 0 = kRecordMagic
     \<and> unat (get_u32 bs 16) \<le> unat (so_max_record_bytes opt)
     \<and> kRecordHeaderBytes + unat (get_u32 bs 16) \<le> length bs
     \<and> crc32 (take (unat (get_u32 bs 16)) (drop kRecordHeaderBytes bs)) 0 = get_u32 bs 20"

fun checksummed_later :: "store_options \<Rightarrow> bytes \<Rightarrow> bool" where
  "checksummed_later opt [] = False"
| "checksummed_later opt (b # bs) = (checksummed_here opt (b # bs) \<or> checksummed_later opt bs)"

section \<open>The store\<close>

text \<open>
  The files of the state directory and the store over them.  A file is a sequence of bytes,
  an absent one is \<open>None\<close>.  \<^verbatim>\<open>bs_synced\<close> is how many bytes of the journal have reached
  stable storage: a crash of the machine may take any of the bytes after them.
\<close>

record disk =
  dk_snapshot :: "bytes option"
  dk_journal :: "bytes option"

record byte_store =
  bs_open :: bool
  bs_seq :: u64
  bs_options :: store_options
  bs_disk :: disk
  bs_synced :: nat

definition journal_bytes :: "byte_store \<Rightarrow> bytes" where
  "journal_bytes s = (case dk_journal (bs_disk s) of None \<Rightarrow> [] | Some j \<Rightarrow> j)"

text \<open>The disk after a crash that keeps \<^verbatim>\<open>n\<close> bytes of the journal, or more where they are synced.\<close>

definition crash :: "nat \<Rightarrow> byte_store \<Rightarrow> disk" where
  "crash n s = (bs_disk s)\<lparr>dk_journal := Some (take (max n (bs_synced s)) (journal_bytes s))\<rparr>"

record recovery_report =
  ry_opened :: bool
  ry_snapshot_loaded :: bool
  ry_torn_tail :: bool
  ry_truncated_in_place :: bool
  ry_snapshot_seq :: u64
  ry_records_applied :: u64
  ry_records_skipped :: u64
  ry_bytes_reclaimed :: u64
  ry_notes :: "string list"

definition empty_recovery :: recovery_report where
  "empty_recovery = \<lparr>ry_opened = False, ry_snapshot_loaded = False, ry_torn_tail = False,
     ry_truncated_in_place = False, ry_snapshot_seq = 0, ry_records_applied = 0,
     ry_records_skipped = 0, ry_bytes_reclaimed = 0, ry_notes = []\<rparr>"

text \<open>
  The answers of the operating system while a store is opened: the two directories, the
  size of the journal, reading the snapshot and the journal, reopening the journal, how many
  of its bytes can be rewritten, and the flush after a repair.  Paths are left out of the
  details.
\<close>

datatype read_answer = Stat_Failed string | Open_Failed | Short_Read | File_Read

record open_answers =
  oa_directories :: status
  oa_read_snapshot :: read_answer
  oa_stat_journal :: status
  oa_read_journal :: read_answer
  oa_reopen :: bool
  oa_rewrite_short :: "nat option"
  oa_sync :: status

definition all_well :: open_answers where
  "all_well = \<lparr>oa_directories = success, oa_read_snapshot = File_Read, oa_stat_journal = success,
     oa_read_journal = File_Read, oa_reopen = True, oa_rewrite_short = None, oa_sync = success\<rparr>"

text \<open>\<^verbatim>\<open>read_file_bounded\<close> on a file that exists.\<close>

definition read_bounded :: "read_answer \<Rightarrow> nat \<Rightarrow> bytes \<Rightarrow> bytes res" where
  "read_bounded answer limit content =
     (case answer of
        Stat_Failed detail \<Rightarrow> Inl (error Err_NotFound (''cannot stat file: '' @ detail))
      | _ \<Rightarrow>
         if length content > limit then
           Inl (error Err_LimitExceeded ''file exceeds bounded read limit'')
         else (case answer of
             Open_Failed \<Rightarrow> Inl (error Err_IoError ''cannot open file'')
           | Short_Read \<Rightarrow> Inl (error Err_IoError ''short read'')
           | _ \<Rightarrow> Inr content))"

text \<open>The snapshot part of \<^verbatim>\<open>open\<close>: sequence number, payload and report so far.\<close>

definition open_snapshot ::
    "store_options \<Rightarrow> open_answers \<Rightarrow> disk \<Rightarrow> (u64 \<times> bytes \<times> recovery_report) res" where
  "open_snapshot opt answers d =
     (case dk_snapshot d of
        None \<Rightarrow> Inr (0, [], empty_recovery)
      | Some content \<Rightarrow>
         (case read_bounded (oa_read_snapshot answers) (unat (so_max_snapshot_bytes opt)) content of
            Inl st \<Rightarrow> Inl st
          | Inr raw \<Rightarrow>
             (case parse_snapshot opt raw of
                Inl st \<Rightarrow> Inl st
              | Inr (seq, payload) \<Rightarrow>
                  Inr (seq, payload, empty_recovery\<lparr>ry_snapshot_loaded := True, ry_snapshot_seq := seq,
                    ry_notes := [''snapshot loaded at seq '' @ to_dec seq]\<rparr>))))"

text \<open>The bytes of the journal, if it has any.\<close>

definition read_journal :: "open_answers \<Rightarrow> disk \<Rightarrow> bytes res" where
  "read_journal answers d =
     (case dk_journal d of
        None \<Rightarrow> Inr []
      | Some content \<Rightarrow>
          if \<not> st_ok (oa_stat_journal answers) then Inl (oa_stat_journal answers)
          else if content = [] then Inr []
          else if length content > kMaxJournalBytes then
            Inl (error Err_LimitExceeded ''journal exceeds bounded replay limit'')
          else read_bounded (oa_read_journal answers) kMaxJournalBytes content)"

text \<open>A damaged journal is repaired when nothing that looks like a record follows the damage.\<close>

definition judge_damage :: "store_options \<Rightarrow> bytes \<Rightarrow> replay \<Rightarrow> recovery_report \<Rightarrow> recovery_report res" where
  "judge_damage opt journal rp report =
     (case rp_damage rp of
        None \<Rightarrow> Inr report
      | Some detail \<Rightarrow>
          if checksummed_later opt (drop (rp_offset rp + 1) journal) then
            Inl (error Err_PersistenceCorrupt
              (''journal is corrupt: '' @ detail @ '' with valid records after the damage''))
          else Inr (report\<lparr>ry_torn_tail := True,
                 ry_notes := ry_notes report @ [''torn journal tail recovered: '' @ detail],
                 ry_bytes_reclaimed := of_nat (length journal - rp_offset rp)\<rparr>))"

text \<open>
  The journal is opened with \<^verbatim>\<open>"w+b"\<close>, which empties the file, and its good bytes are
  written again; what reaches the disk when that fails stays there.
\<close>

definition reopen_journal ::
    "open_answers \<Rightarrow> bytes \<Rightarrow> recovery_report \<Rightarrow> disk \<Rightarrow> recovery_report res \<times> disk" where
  "reopen_journal answers good report d =
     (if \<not> oa_reopen answers then (Inl (error Err_IoError ''cannot open journal for append''), d)
      else
        (case oa_rewrite_short answers of
           Some n \<Rightarrow>
             if good \<noteq> [] \<and> n < length good then
               (Inl (error Err_IoError ''cannot rewrite recovered journal''), d\<lparr>dk_journal := Some (take n good)\<rparr>)
             else (Inr report, d\<lparr>dk_journal := Some good\<rparr>)
         | None \<Rightarrow> (Inr report, d\<lparr>dk_journal := Some good\<rparr>)))"

definition store_open ::
    "store_options \<Rightarrow> open_answers \<Rightarrow> disk
      \<Rightarrow> (recovery_report \<times> journal_record list \<times> bytes) res \<times> byte_store" where
  "store_open opt answers d =
    (let shut = (\<lambda>seq d. \<lparr>bs_open = False, bs_seq = seq, bs_options = opt, bs_disk = d, bs_synced = 0\<rparr>) in
     if \<not> st_ok (oa_directories answers) then (Inl (oa_directories answers), shut 0 d) else
     case open_snapshot opt answers d of
       Inl st \<Rightarrow> (Inl st, shut 0 d)
     | Inr (seq, snapshot, report) \<Rightarrow>
     case read_journal answers d of
       Inl st \<Rightarrow> (Inl st, shut seq d)
     | Inr journal \<Rightarrow>
     let rp = replay_journal opt journal (replay_start seq) in
     if rp_over_budget rp then
       (Inl (error Err_LimitExceeded ''journal replay record budget exceeded''), shut (rp_seq rp) d)
     else
     case judge_damage opt journal rp report of
       Inl st \<Rightarrow> (Inl st, shut (rp_seq rp) d)
     | Inr report1 \<Rightarrow>
     let report2 = report1\<lparr>ry_records_applied := rp_applied rp, ry_records_skipped := rp_skipped rp\<rparr>;
         good = take (rp_offset rp) journal in
     case reopen_journal answers good report2 d of
       (Inl st, d1) \<Rightarrow> (Inl st, shut (rp_seq rp) d1)
     | (Inr report3, d1) \<Rightarrow>
         if ry_torn_tail report3 \<and> \<not> st_ok (oa_sync answers) then (Inl (oa_sync answers), shut (rp_seq rp) d1)
         else
           (Inr (report3\<lparr>ry_truncated_in_place := ry_torn_tail report3, ry_opened := True\<rparr>,
                 rp_records rp, snapshot),
            \<lparr>bs_open = True, bs_seq = rp_seq rp, bs_options = opt, bs_disk = d1,
             bs_synced = (if ry_torn_tail report3 then length good else 0)\<rparr>))"

subsection \<open>Appending\<close>

text \<open>How far a write got: everything, only the first bytes, or everything but the flush.\<close>

datatype write_answer = Wrote_All | Wrote_Part nat | Flush_Failed string

definition append_raw :: "write_answer \<Rightarrow> journal_record \<Rightarrow> byte_store \<Rightarrow> status \<times> byte_store" where
  "append_raw answer r s =
     (if \<not> bs_open s then (error Err_PersistenceClosed ''persistent store is not open'', s)
      else if length (jn_payload r) > unat (so_max_record_bytes (bs_options s)) then
        (error Err_LimitExceeded ''journal record exceeds bounded size'', s)
      else
        (let wrote = (\<lambda>bs. s\<lparr>bs_disk := (bs_disk s)\<lparr>dk_journal := Some (journal_bytes s @ bs)\<rparr>\<rparr>) in
         case answer of
           Wrote_All \<Rightarrow>
             (success, (wrote (frame r))\<lparr>bs_synced :=
                (if so_fsync_records (bs_options s) then length (journal_bytes s @ frame r) else bs_synced s)\<rparr>)
         | Wrote_Part n \<Rightarrow>
             if n < kRecordHeaderBytes then
               (error Err_IoError ''journal header write failed'', wrote (take n (frame r)))
             else (error Err_IoError ''journal payload write failed'', wrote (take n (frame r)))
         | Flush_Failed detail \<Rightarrow> (error Err_IoError detail, wrote (frame r))))"

definition byte_append :: "write_answer \<Rightarrow> record_type \<Rightarrow> bytes \<Rightarrow> byte_store \<Rightarrow> status \<times> byte_store" where
  "byte_append answer ty payload s =
     (let r = \<lparr>jn_type = ty, jn_seq = bs_seq s + 1, jn_payload = payload\<rparr>;
          (st, s1) = append_raw answer r s in
      if \<not> st_ok st then (st, s1) else (success, s1\<lparr>bs_seq := jn_seq r\<rparr>))"

subsection \<open>Snapshots\<close>

definition truncate_journal :: "bool \<Rightarrow> byte_store \<Rightarrow> status \<times> byte_store" where
  "truncate_journal reopens s =
     (if \<not> bs_open s then (error Err_PersistenceClosed ''persistent store is not open'', s)
      else if \<not> reopens then (error Err_IoError ''cannot reopen journal'', s\<lparr>bs_open := False\<rparr>)
      else (success, s\<lparr>bs_disk := (bs_disk s)\<lparr>dk_journal := Some []\<rparr>, bs_synced := 0\<rparr>))"

text \<open>The image is written to a temporary file and renamed, so it replaces the old one or not at all.\<close>

definition byte_write_snapshot :: "status \<Rightarrow> bool \<Rightarrow> bytes \<Rightarrow> byte_store \<Rightarrow> status \<times> byte_store" where
  "byte_write_snapshot written reopens payload s =
     (if \<not> bs_open s then (error Err_PersistenceClosed ''persistent store is not open'', s)
      else if length payload > unat (so_max_snapshot_bytes (bs_options s)) then
        (error Err_LimitExceeded ''snapshot exceeds bounded size'', s)
      else if \<not> st_ok written then (written, s)
      else truncate_journal reopens
             (s\<lparr>bs_disk := (bs_disk s)\<lparr>dk_snapshot := Some (snapshot_image (bs_seq s) payload)\<rparr>\<rparr>))"

section \<open>Reading back a frame\<close>

lemma frame_header_length [simp]: "length (frame_header r) = 24"
  by (simp add: frame_header_def)

lemma frame_length [simp]: "length (frame r) = 24 + length (jn_payload r)"
  by (simp add: frame_def)

lemma drop_frame [simp]: "drop 24 (frame r) = jn_payload r"
  by (simp add: frame_def)

lemma frame_fields:
  "get_u32 (frame r @ bs) 0 = kRecordMagic" "get_u16 (frame r @ bs) 4 = kSchemaVersion"
  "get_u16 (frame r @ bs) 6 = record_type_code (jn_type r)" "get_u64 (frame r @ bs) 8 = jn_seq r"
  "get_u32 (frame r @ bs) 16 = of_nat (length (jn_payload r))"
  "get_u32 (frame r @ bs) 20 = crc32 (jn_payload r) 0"
  by (simp_all add: get_u16_def get_u32_def get_u64_def frame_def frame_header_def le_load_bytes)

lemma record_type_code_domain: "record_type_code t \<noteq> 0 \<and> record_type_code t \<le> record_type_code RT_Artifact"
  by (cases t) simp_all

lemma record_type_of_code [simp]: "record_type_of (record_type_code t) = t"
  by (cases t) (simp_all add: record_type_of_def record_types_def)

text \<open>A record the store would write: its payload is within the bounds.\<close>

definition writable :: "store_options \<Rightarrow> journal_record \<Rightarrow> bool" where
  "writable opt r \<longleftrightarrow> length (jn_payload r) \<le> unat (so_max_record_bytes opt) \<and> length (jn_payload r) < 2 ^ 32"

lemma writable_length: "writable opt r \<Longrightarrow> unat (of_nat (length (jn_payload r)) :: u32) = length (jn_payload r)"
  by (simp add: writable_def unat_of_nat)

lemma record_at_frame:
  assumes "writable opt r"
  shows "record_damage opt (frame r @ bs) = None" "record_at (frame r @ bs) = r"
    "drop (kRecordHeaderBytes + unat (get_u32 (frame r @ bs) 16)) (frame r @ bs) = bs"
    "checksummed_here opt (frame r @ bs)"
proof -
  note len = writable_length [OF assms]
  have payload: "take (length (jn_payload r)) (drop kRecordHeaderBytes (frame r @ bs)) = jn_payload r"
    by (simp add: kRecordHeaderBytes_def)
  show "record_damage opt (frame r @ bs) = None" "checksummed_here opt (frame r @ bs)"
    using assms record_type_code_domain [of "jn_type r"]
    by (simp_all add: record_damage_def checksummed_here_def frame_fields len kRecordHeaderBytes_def writable_def not_less)
  show "record_at (frame r @ bs) = r"
    by (simp add: record_at_def frame_fields len kRecordHeaderBytes_def)
  show "drop (kRecordHeaderBytes + unat (get_u32 (frame r @ bs) 16)) (frame r @ bs) = bs"
    by (simp add: frame_fields len kRecordHeaderBytes_def)
qed

text \<open>And conversely: bytes without damage start with the frame of the record that is read there.\<close>

lemma le_bytes_load:
  assumes "LENGTH('l::len) = 8 * n" "length bs = n"
  shows "le_bytes n (le_load bs :: 'l word) = bs"
proof (rule nth_equalityI)
  fix i assume "i < length (le_bytes n (le_load bs :: 'l word))"
  then have i: "i < n" by simp
  show "le_bytes n (le_load bs :: 'l word) ! i = bs ! i"
  proof (rule bit_word_eqI)
    fix m assume "m < LENGTH(8)"
    then have m: "m < 8" by simp
    have e: "(0xFF :: 'l word) = mask 8" by (simp add: mask_eq_exp_minus_1)
    have ff: "bit (0xFF :: 'l word) m" using m i assms(1) unfolding e bit_mask_iff by simp
    have "8 * i + m < 8 * n" "(8 * i + m) div 8 = i" "(8 * i + m) mod 8 = m" using m i by auto
    then show "bit (le_bytes n (le_load bs :: 'l word) ! i) m = bit (bs ! i) m"
      using i m assms ff by (simp add: le_bytes_def bit_simps bit_le_load)
  qed
qed (simp add: assms)

lemma record_type_code_of: "raw \<noteq> 0 \<Longrightarrow> raw \<le> record_type_code RT_Artifact \<Longrightarrow> record_type_code (record_type_of raw) = raw"
proof -
  assume "raw \<noteq> 0" "raw \<le> record_type_code RT_Artifact"
  then have n: "unat raw - 1 < length record_types" "1 \<le> unat raw"
    by (simp_all add: record_types_def word_le_nat_alt unat_gt_0 Suc_le_eq)
  have "map (\<lambda>t. unat (record_type_code t) - 1) record_types = [0..<15]"
    by (simp add: record_types_def upt_rec)
  then have "unat (record_type_code (record_types ! i)) - 1 = i" if "i < length record_types" for i
    using that nth_map [of i record_types "\<lambda>t. unat (record_type_code t) - 1"]
    by (simp add: record_types_def)
  with n(1) have "unat (record_type_code (record_type_of raw)) - 1 = unat raw - 1"
    unfolding record_type_of_def by blast
  moreover have "1 \<le> unat (record_type_code (record_type_of raw))"
    using record_type_code_domain by (simp add: unat_gt_0 Suc_le_eq)
  ultimately have "unat (record_type_code (record_type_of raw)) = unat raw" using n(2) by linarith
  then show ?thesis by (simp only: word_unat_eq_iff)
qed

lemma undamaged_frame:
  assumes "record_damage opt bs = None"
  shows "writable opt (record_at bs)"
    "bs = frame (record_at bs) @ drop (kRecordHeaderBytes + unat (get_u32 bs 16)) bs"
proof -
  have long: "24 \<le> length bs" and magic: "get_u32 bs 0 = kRecordMagic" and schema: "get_u16 bs 4 = kSchemaVersion"
    and ty: "get_u16 bs 6 \<noteq> 0" "get_u16 bs 6 \<le> record_type_code RT_Artifact"
    and max: "unat (get_u32 bs 16) \<le> unat (so_max_record_bytes opt)"
    and fits: "24 + unat (get_u32 bs 16) \<le> length bs"
    and crc: "crc32 (take (unat (get_u32 bs 16)) (drop 24 bs)) 0 = get_u32 bs 20"
    using assms by (auto simp: record_damage_def kRecordHeaderBytes_def not_less split: if_splits)
  have len: "length (jn_payload (record_at bs)) = unat (get_u32 bs 16)"
    using fits by (simp add: record_at_def kRecordHeaderBytes_def)
  show "writable opt (record_at bs)"
    using max len unsigned_less [of "get_u32 bs 16"] by (simp add: writable_def)
  have split: "take 24 bs = take 4 bs @ take 2 (drop 4 bs) @ take 2 (drop 6 bs) @ take 8 (drop 8 bs)
      @ take 4 (drop 16 bs) @ take 4 (drop 20 bs)"
    by (simp add: take_add [of 4 20 bs, simplified] take_add [of 2 18 "drop 4 bs", simplified]
        take_add [of 2 16 "drop 6 bs", simplified] take_add [of 8 8 "drop 8 bs", simplified]
        take_add [of 4 4 "drop 16 bs", simplified])
  have "frame_header (record_at bs) = take 24 bs"
    unfolding frame_header_def split magic [symmetric] schema [symmetric] len
    using crc long record_type_code_of [OF ty]
    by (simp add: record_at_def kRecordHeaderBytes_def get_u16_def get_u32_def get_u64_def le_bytes_load)
  then have "frame (record_at bs) = take (24 + unat (get_u32 bs 16)) bs"
    by (simp add: frame_def record_at_def kRecordHeaderBytes_def take_add)
  then show "bs = frame (record_at bs) @ drop (kRecordHeaderBytes + unat (get_u32 bs 16)) bs"
    by (simp add: kRecordHeaderBytes_def)
qed

section \<open>The replay as a function of the framed records\<close>

text \<open>
  The specification of the scan: the journal is a sequence of frames and a rest; the frames
  are replayed one by one, each applied only if it is newer than those before.
\<close>

definition frames :: "journal_record list \<Rightarrow> bytes" where
  "frames rs = concat (map frame rs)"

lemma frames_simps [simp]: "frames [] = []" "frames (r # rs) = frame r @ frames rs"
  "frames (rs @ qs) = frames rs @ frames qs"
  by (simp_all add: frames_def)

fun replay_frames :: "store_options \<Rightarrow> journal_record list \<Rightarrow> replay \<Rightarrow> replay" where
  "replay_frames opt [] rp = rp"
| "replay_frames opt (r # rs) rp =
     (if rp_over_budget rp then rp else replay_frames opt rs (replay_record opt r rp))"

lemma replay_stopped [simp]: "rp_over_budget rp \<Longrightarrow> replay_journal opt bs rp = rp"
  "replay_journal opt [] rp = rp" "rp_over_budget rp \<Longrightarrow> replay_frames opt rs rp = rp"
  by (simp_all add: replay_journal.simps) (cases rs; simp)

lemma replay_damaged:
  "bs \<noteq> [] \<Longrightarrow> \<not> rp_over_budget rp \<Longrightarrow> record_damage opt bs = Some detail \<Longrightarrow>
     replay_journal opt bs rp = rp\<lparr>rp_damage := Some detail\<rparr>"
  by (simp add: replay_journal.simps)

lemma frame_not_Nil [simp]: "frame r \<noteq> []"
  using frame_length [of r] by fastforce

lemma replay_over_frames:
  "\<forall>r\<in>set rs. writable opt r \<Longrightarrow>
     replay_journal opt (frames rs @ bs) rp = replay_journal opt bs (replay_frames opt rs rp)"
proof (induction rs arbitrary: rp)
  case Nil
  then show ?case by simp
next
  case (Cons r rs)
  show ?case
  proof (cases "rp_over_budget rp")
    case False
    have "replay_journal opt (frame r @ (frames rs @ bs)) rp = replay_journal opt (frames rs @ bs) (replay_record opt r rp)"
      using False record_at_frame [of opt r "frames rs @ bs"] Cons.prems
      by (subst replay_journal.simps) simp
    with Cons False show ?thesis by simp
  qed simp
qed

text \<open>Every journal splits that way.\<close>

lemma replay_splits:
  obtains rs rest where "bs = frames rs @ rest" "\<forall>r\<in>set rs. writable opt r"
    "rp_over_budget (replay_journal opt bs rp) \<or> rest = [] \<or> record_damage opt rest \<noteq> None"
    "replay_journal opt bs rp = replay_journal opt rest (replay_frames opt rs rp)"
proof -
  have "\<exists>rs rest. bs = frames rs @ rest \<and> (\<forall>r\<in>set rs. writable opt r)
      \<and> (rp_over_budget (replay_journal opt bs rp) \<or> rest = [] \<or> record_damage opt rest \<noteq> None)"
  proof (induction opt bs rp rule: replay_journal.induct)
    case (1 opt bs rp)
    show ?case
    proof (cases "bs = [] \<or> rp_over_budget rp \<or> record_damage opt bs \<noteq> None")
      case True
      then show ?thesis by (intro exI [of _ "[]"] exI [of _ bs]) (auto simp: replay_journal.simps)
    next
      case False
      let ?next = "drop (kRecordHeaderBytes + unat (get_u32 bs 16)) bs"
      from False have step: "replay_journal opt bs rp = replay_journal opt ?next (replay_record opt (record_at bs) rp)"
        by (subst replay_journal.simps) simp
      from False have none: "record_damage opt bs = None" by simp
      from False 1 obtain rs rest where ih: "?next = frames rs @ rest" "\<forall>r\<in>set rs. writable opt r"
        "rp_over_budget (replay_journal opt bs rp) \<or> rest = [] \<or> record_damage opt rest \<noteq> None"
        unfolding step by auto
      have "bs = frames (record_at bs # rs) @ rest"
        using undamaged_frame(2) [OF none] ih(1) by simp
      with ih undamaged_frame(1) [OF none] show ?thesis
        by (intro exI [of _ "record_at bs # rs"] exI [of _ rest]) auto
    qed
  qed
  with that show thesis using replay_over_frames by metis
qed

text \<open>Which records are applied, and the sequence number afterwards.\<close>

fun newer :: "u64 \<Rightarrow> journal_record list \<Rightarrow> journal_record list" where
  "newer s [] = []"
| "newer s (r # rs) = (if jn_seq r > s then r # newer (jn_seq r) rs else newer s rs)"

definition last_seq :: "u64 \<Rightarrow> journal_record list \<Rightarrow> u64" where
  "last_seq s rs = fold (\<lambda>r s. max s (jn_seq r)) rs s"

lemma last_seq_simps [simp]: "last_seq s [] = s" "last_seq s (r # rs) = last_seq (max s (jn_seq r)) rs"
  "last_seq s (rs @ qs) = last_seq (last_seq s rs) qs"
  by (simp_all add: last_seq_def)

lemma newer_append: "newer s (rs @ qs) = newer s rs @ newer (last_seq s rs) qs"
  by (induction rs arbitrary: s) (auto simp: max_def)

lemma newer_sorted: "sorted_wrt (\<lambda>a b. jn_seq a < jn_seq b) (newer s rs) \<and> (\<forall>r\<in>set (newer s rs). s < jn_seq r)"
proof (induction rs arbitrary: s)
  case (Cons r rs)
  then show ?case using order.strict_trans [of s "jn_seq r"] by auto
qed simp

lemma newer_subset: "set (newer s rs) \<subseteq> set rs"
  by (induction rs arbitrary: s) auto

lemma unat_step: "a < b \<Longrightarrow> unat (a + 1) = unat a + 1" for a b :: "'l::len word"
proof -
  assume "a < b"
  then have "unat a + 1 \<le> unat b" by (simp add: word_less_nat_alt)
  also have "unat b < 2 ^ LENGTH('l)" by (rule unsigned_less)
  finally show ?thesis by (simp add: unat_word_ariths)
qed

lemma replay_frames_within:
  assumes "\<not> rp_over_budget rp"
    "unat (rp_applied rp) + length (newer (rp_seq rp) rs) \<le> unat (so_max_replay_records opt)"
  shows "replay_frames opt rs rp = rp\<lparr>rp_records := rp_records rp @ newer (rp_seq rp) rs,
    rp_seq := last_seq (rp_seq rp) rs,
    rp_applied := rp_applied rp + of_nat (length (newer (rp_seq rp) rs)),
    rp_skipped := rp_skipped rp + of_nat (length rs - length (newer (rp_seq rp) rs)),
    rp_offset := rp_offset rp + length (frames rs)\<rparr>"
  using assms
proof (induction rs arbitrary: rp)
  case Nil
  then show ?case by simp
next
  case (Cons r rs)
  have le: "length (newer s rs) \<le> length rs" for s by (induction rs arbitrary: s) (auto intro: le_SucI)
  show ?case
  proof (cases "jn_seq r > rp_seq rp")
    case True
    then have room: "unat (rp_applied rp) < unat (so_max_replay_records opt)" using Cons.prems(2) by simp
    then have small: "so_max_replay_records opt \<le> rp_applied rp \<longleftrightarrow> False" by (simp add: word_le_nat_alt)
    have "unat (rp_applied rp + 1) = unat (rp_applied rp) + 1"
      by (rule unat_step [of _ "so_max_replay_records opt"]) (simp add: word_less_nat_alt room)
    with True Cons.prems show ?thesis
      by (subst replay_frames.simps, subst if_not_P, simp, subst Cons.IH)
        (simp_all add: small replay_record_def Let_def kRecordHeaderBytes_def max_def Suc_diff_le le)
  next
    case False
    with Cons.prems show ?thesis
      by (subst replay_frames.simps, subst if_not_P, simp, subst Cons.IH)
        (simp_all add: replay_record_def Let_def kRecordHeaderBytes_def max_def Suc_diff_le le algebra_simps)
  qed
qed

end
