(* ===== verification/DC_Durability.thy ===== *)
theory DC_Durability
  imports DC_Journal
begin

text \<open>
  The durability contract of \<^verbatim>\<open>persistence.hpp\<close>: what a reopened store recovers from the
  files an earlier one left, after a clean shutdown, a crash, a torn write or an interrupted
  snapshot.
\<close>

section \<open>A store and the records it holds\<close>

text \<open>The sequence number the snapshot on disk covers.\<close>

definition snapshot_base :: "store_options \<Rightarrow> disk \<Rightarrow> (u64 \<times> bytes) res" where
  "snapshot_base opt d =
     (case dk_snapshot d of
        None \<Rightarrow> Inr (0, [])
      | Some raw \<Rightarrow>
          if length raw > unat (so_max_snapshot_bytes opt) then Inl (error Err_LimitExceeded [])
          else parse_snapshot opt raw)"

definition disk_journal :: "disk \<Rightarrow> bytes" where
  "disk_journal d = (case dk_journal d of None \<Rightarrow> [] | Some j \<Rightarrow> j)"

text \<open>The files are readable: a snapshot that covers \<^verbatim>\<open>base\<close>, a journal within its bound.\<close>

definition readable :: "store_options \<Rightarrow> disk \<Rightarrow> u64 \<Rightarrow> bytes \<Rightarrow> bytes \<Rightarrow> bool" where
  "readable opt d base snapshot journal \<longleftrightarrow> snapshot_base opt d = Inr (base, snapshot)
     \<and> disk_journal d = journal \<and> length journal \<le> kMaxJournalBytes"

lemma open_snapshot_well:
  "snapshot_base opt d = Inr (base, snapshot) \<Longrightarrow>
     \<exists>report. open_snapshot opt all_well d = Inr (base, snapshot, report) \<and> \<not> ry_torn_tail report"
  by (auto simp: snapshot_base_def open_snapshot_def read_bounded_def all_well_def empty_recovery_def
      not_less split: option.splits if_splits)

lemma read_journal_well:
  "length (disk_journal d) \<le> kMaxJournalBytes \<Longrightarrow> read_journal all_well d = Inr (disk_journal d)"
  by (cases "dk_journal d") (simp_all add: read_journal_def disk_journal_def all_well_def read_bounded_def)

lemma open_snapshot_base:
  "open_snapshot opt answers d = Inr (base, snapshot, report) \<Longrightarrow>
     snapshot_base opt d = Inr (base, snapshot) \<and> \<not> ry_torn_tail report"
  by (auto simp: snapshot_base_def open_snapshot_def read_bounded_def empty_recovery_def
      split: option.splits sum.splits if_splits read_answer.splits)

lemma read_journal_disk: "read_journal answers d = Inr j \<Longrightarrow> j = disk_journal d \<and> length j \<le> kMaxJournalBytes"
  by (auto simp: read_journal_def disk_journal_def read_bounded_def split: option.splits if_splits read_answer.splits)

section \<open>Opening is exact\<close>

lemma replay_frames_budget:
  "\<not> rp_over_budget (replay_frames opt rs rp) \<Longrightarrow> unat (rp_applied rp) \<le> unat (so_max_replay_records opt) \<Longrightarrow>
     unat (rp_applied rp) + length (newer (rp_seq rp) rs) \<le> unat (so_max_replay_records opt)"
proof (induction rs arbitrary: rp)
  case (Cons r rs)
  then have over: "\<not> rp_over_budget rp" by (auto split: if_splits)
  let ?rp = "replay_record opt r rp"
  have rest: "\<not> rp_over_budget (replay_frames opt rs ?rp)" using Cons.prems over by simp
  then have "\<not> rp_over_budget ?rp" by (metis replay_stopped(3))
  show ?case
  proof (cases "jn_seq r > rp_seq rp")
    case True
    with \<open>\<not> rp_over_budget ?rp\<close> have small: "rp_applied rp < so_max_replay_records opt"
      by (auto simp: replay_record_def Let_def not_le split: if_splits)
    then have "unat (rp_applied rp + 1) = unat (rp_applied rp) + 1"
      by (rule unat_step)
    moreover have "unat (rp_applied rp) + 1 \<le> unat (so_max_replay_records opt)"
      using small by (simp add: word_less_nat_alt)
    moreover have "so_max_replay_records opt \<le> rp_applied rp \<longleftrightarrow> False" using small by simp
    ultimately show ?thesis
      using Cons.IH [OF rest] True by (simp add: replay_record_def Let_def)
  next
    case False
    then show ?thesis using Cons.IH [OF rest] Cons.prems(2) by (simp add: replay_record_def Let_def)
  qed
qed simp

lemma open_success [consumes 1, case_names opened]:
  assumes "store_open opt answers d = (Inr (report, recs, snapshot), s)"
  obtains base rp where "snapshot_base opt d = Inr (base, snapshot)"
    "rp = replay_journal opt (disk_journal d) (replay_start base)" "\<not> rp_over_budget rp"
    "rp_damage rp = None \<or> \<not> checksummed_later opt (drop (rp_offset rp + 1) (disk_journal d))"
    "recs = rp_records rp" "ry_torn_tail report = (rp_damage rp \<noteq> None)"
    "s = \<lparr>bs_open = True, bs_seq = rp_seq rp, bs_options = opt,
        bs_disk = d\<lparr>dk_journal := Some (take (rp_offset rp) (disk_journal d))\<rparr>,
        bs_synced = (if rp_damage rp = None then 0 else length (take (rp_offset rp) (disk_journal d)))\<rparr>"
proof -
  obtain base report0 where 1: "open_snapshot opt answers d = Inr (base, snapshot, report0)"
    and "\<exists>j. read_journal answers d = Inr j"
    using assms by (auto simp: store_open_def Let_def split: sum.splits if_splits prod.splits)
  then have j: "read_journal answers d = Inr (disk_journal d)" using read_journal_disk by blast
  let ?rp = "replay_journal opt (disk_journal d) (replay_start base)"
  obtain report1 where over: "\<not> rp_over_budget ?rp" and judged: "judge_damage opt (disk_journal d) ?rp report0 = Inr report1"
    using assms by (auto simp: store_open_def Let_def 1 j split: sum.splits if_splits)
  have torn: "ry_torn_tail report1 = (rp_damage ?rp \<noteq> None)"
    "rp_damage ?rp = None \<or> \<not> checksummed_later opt (drop (rp_offset ?rp + 1) (disk_journal d))"
    using judged open_snapshot_base [OF 1] by (auto simp: judge_damage_def split: option.splits if_splits)
  have reopened: "reopen_journal answers good r d = (Inr r', d') \<Longrightarrow> r' = r \<and> d' = d\<lparr>dk_journal := Some good\<rparr>" for good r r' d'
    by (auto simp: reopen_journal_def split: option.splits if_splits)
  have "recs = rp_records ?rp \<and> ry_torn_tail report = (rp_damage ?rp \<noteq> None)
      \<and> s = \<lparr>bs_open = True, bs_seq = rp_seq ?rp, bs_options = opt,
        bs_disk = d\<lparr>dk_journal := Some (take (rp_offset ?rp) (disk_journal d))\<rparr>,
        bs_synced = (if rp_damage ?rp = None then 0 else length (take (rp_offset ?rp) (disk_journal d)))\<rparr>"
    using assms torn(1) over judged
    by (auto simp: store_open_def Let_def 1 j dest!: reopened split: sum.splits if_splits prod.splits)
  with open_snapshot_base [OF 1] over torn(2) show thesis by (intro that [of base ?rp]) simp_all
qed

text \<open>The end of a replay over frames and a rest that is refused.\<close>

definition replayed :: "u64 \<Rightarrow> journal_record list \<Rightarrow> string option \<Rightarrow> replay" where
  "replayed base rs damage =
     \<lparr>rp_records = newer base rs, rp_seq = last_seq base rs, rp_applied = of_nat (length (newer base rs)),
      rp_skipped = of_nat (length rs - length (newer base rs)), rp_offset = length (frames rs),
      rp_damage = damage, rp_over_budget = False\<rparr>"

lemma replay_within:
  assumes "\<forall>r\<in>set rs. writable opt r" "length (newer base rs) \<le> unat (so_max_replay_records opt)"
    and "rest = [] \<or> record_damage opt rest = Some detail"
  shows "replay_journal opt (frames rs @ rest) (replay_start base) =
    replayed base rs (if rest = [] then None else Some detail)"
proof -
  have "replay_frames opt rs (replay_start base) = replayed base rs None"
    using assms(2) by (subst replay_frames_within) (simp_all add: replay_start_def replayed_def)
  moreover have "replay_journal opt rest (replayed base rs None) =
      replayed base rs (if rest = [] then None else Some detail)"
    using assms(3) replay_damaged [of rest "replayed base rs None" opt detail]
    by (auto simp: replayed_def)
  ultimately show ?thesis by (simp add: replay_over_frames [OF assms(1)])
qed

lemma replay_budget:
  assumes "\<forall>r\<in>set rs. writable opt r"
    and "\<not> rp_over_budget (replay_journal opt (frames rs @ rest) (replay_start base))"
  shows "length (newer base rs) \<le> unat (so_max_replay_records opt)"
proof -
  have "\<not> rp_over_budget (replay_frames opt rs (replay_start base))"
    using assms(2) unfolding replay_over_frames [OF assms(1)] by (metis replay_stopped(1))
  from replay_frames_budget [OF this] show ?thesis by (simp add: replay_start_def)
qed


section \<open>Opening succeeds\<close>

text \<open>The open store that recovery ends with.\<close>

definition recovered :: "store_options \<Rightarrow> disk \<Rightarrow> u64 \<Rightarrow> journal_record list \<Rightarrow> bool \<Rightarrow> byte_store" where
  "recovered opt d base rs torn = \<lparr>bs_open = True, bs_seq = last_seq base rs, bs_options = opt,
     bs_disk = d\<lparr>dk_journal := Some (frames rs)\<rparr>, bs_synced = (if torn then length (frames rs) else 0)\<rparr>"

lemma reopen_well: "reopen_journal all_well good r d = (Inr r, d\<lparr>dk_journal := Some good\<rparr>)"
  by (simp add: reopen_journal_def all_well_def)

lemma open_frames:
  assumes d: "readable opt d base snapshot (frames rs @ rest)"
    and rs: "\<forall>r\<in>set rs. writable opt r" "length (newer base rs) \<le> unat (so_max_replay_records opt)"
    and rest: "rest = [] \<or> record_damage opt rest = Some detail"
  shows "\<not> checksummed_later opt (drop 1 rest) \<Longrightarrow>
      \<exists>report. store_open opt all_well d = (Inr (report, newer base rs, snapshot), recovered opt d base rs (rest \<noteq> []))
        \<and> ry_torn_tail report = (rest \<noteq> [])"
    "checksummed_later opt (drop 1 rest) \<Longrightarrow>
      \<exists>st s. store_open opt all_well d = (Inl st, s) \<and> st_code st = Err_PersistenceCorrupt \<and> \<not> bs_open s
        \<and> bs_disk s = d"
proof -
  obtain report where snap: "open_snapshot opt all_well d = Inr (base, snapshot, report)" "\<not> ry_torn_tail report"
    using d open_snapshot_well unfolding readable_def by metis
  have journal: "read_journal all_well d = Inr (frames rs @ rest)"
    using d read_journal_well [of d] by (simp add: readable_def)
  note replay = replay_within [OF rs rest]
  have dirs: "st_ok (oa_directories all_well)" "st_ok (oa_sync all_well)" by (simp_all add: all_well_def)
  show "\<exists>report. store_open opt all_well d = (Inr (report, newer base rs, snapshot), recovered opt d base rs (rest \<noteq> []))
        \<and> ry_torn_tail report = (rest \<noteq> [])" if "\<not> checksummed_later opt (drop 1 rest)"
  proof (cases "rest = []")
    case True
    with replay journal have "replay_journal opt (frames rs) (replay_start base) = replayed base rs None"
      "read_journal all_well d = Inr (frames rs)" by simp_all
    with snap(2) True show ?thesis
      by (simp add: store_open_def dirs snap(1) replayed_def judge_damage_def Let_def reopen_well recovered_def)
  next
    case False
    with that replay show ?thesis
      by (simp add: store_open_def dirs snap(1) journal replayed_def judge_damage_def Let_def reopen_well recovered_def)
  qed
  show "\<exists>st s. store_open opt all_well d = (Inl st, s) \<and> st_code st = Err_PersistenceCorrupt \<and> \<not> bs_open s
        \<and> bs_disk s = d" if later: "checksummed_later opt (drop 1 rest)"
  proof -
    have "rest \<noteq> []" using later by auto
    with later show ?thesis
      by (simp add: store_open_def dirs snap(1) journal replay replayed_def judge_damage_def Let_def error_def)
  qed
qed

section \<open>The durability contract\<close>

text \<open>
  An open store that holds a snapshot and the records framed after it, none of them lost to
  the replay budget.  Opening establishes it and appending keeps it.
\<close>

definition store_holds :: "byte_store \<Rightarrow> u64 \<Rightarrow> bytes \<Rightarrow> journal_record list \<Rightarrow> bool" where
  "store_holds s base snapshot rs \<longleftrightarrow> bs_open s
     \<and> readable (bs_options s) (bs_disk s) base snapshot (frames rs)
     \<and> (\<forall>r\<in>set rs. writable (bs_options s) r)
     \<and> length (newer base rs) \<le> unat (so_max_replay_records (bs_options s))
     \<and> bs_seq s = last_seq base rs"

lemma readable_journal [simp]:
  "readable opt (d\<lparr>dk_journal := Some j\<rparr>) base snapshot j' \<longleftrightarrow>
     snapshot_base opt d = Inr (base, snapshot) \<and> j' = j \<and> length j \<le> kMaxJournalBytes"
  by (auto simp: readable_def snapshot_base_def disk_journal_def)

lemma journal_bytes_disk: "journal_bytes s = disk_journal (bs_disk s)"
  by (simp add: journal_bytes_def disk_journal_def)

definition next_record :: "record_type \<Rightarrow> bytes \<Rightarrow> byte_store \<Rightarrow> journal_record" where
  "next_record ty payload s = \<lparr>jn_type = ty, jn_seq = bs_seq s + 1, jn_payload = payload\<rparr>"

text \<open>There is room for one more record.\<close>

definition room_for :: "bytes \<Rightarrow> byte_store \<Rightarrow> u64 \<Rightarrow> journal_record list \<Rightarrow> bool" where
  "room_for payload s base rs \<longleftrightarrow> bs_seq s \<noteq> - 1 \<and> length payload < 2 ^ 32
     \<and> length (newer base rs) < unat (so_max_replay_records (bs_options s))
     \<and> length (frames rs) + 24 + length payload \<le> kMaxJournalBytes"

lemma append_wrote_all:
  assumes "byte_append answer ty payload s = (st, s')" "st_ok st"
  shows "bs_open s \<and> length payload \<le> unat (so_max_record_bytes (bs_options s)) \<and>
    s' = s\<lparr>bs_disk := (bs_disk s)\<lparr>dk_journal := Some (journal_bytes s @ frame (next_record ty payload s))\<rparr>,
      bs_synced := (if so_fsync_records (bs_options s)
        then length (journal_bytes s @ frame (next_record ty payload s)) else bs_synced s),
      bs_seq := bs_seq s + 1\<rparr>"
  using assms
  by (auto simp: byte_append_def append_raw_def Let_def next_record_def error_def st_ok_def
      split: if_splits write_answer.splits prod.splits)

lemma append_holds:
  assumes holds: "store_holds s base snapshot rs" and room: "room_for payload s base rs"
    and append: "byte_append answer ty payload s = (st, s')" "st_ok st"
  shows "store_holds s' base snapshot (rs @ [next_record ty payload s])"
    "so_fsync_records (bs_options s) \<Longrightarrow> bs_synced s' = length (frames (rs @ [next_record ty payload s]))"
    "newer base (rs @ [next_record ty payload s]) = newer base rs @ [next_record ty payload s]"
proof -
  let ?r = "next_record ty payload s"
  note wrote = append_wrote_all [OF append]
  have journal: "journal_bytes s = frames rs"
    using holds by (simp add: journal_bytes_disk store_holds_def readable_def)
  have seq: "last_seq base rs < jn_seq ?r"
    using holds room word_not_max_less_Suc by (simp add: store_holds_def room_for_def next_record_def)
  show newer: "newer base (rs @ [?r]) = newer base rs @ [?r]"
    using seq by (simp add: newer_append)
  have last: "last_seq base (rs @ [?r]) = bs_seq s + 1"
    using less_imp_le [OF seq] by (simp add: next_record_def max_def)
  have "writable (bs_options s) ?r"
    using wrote room by (simp add: writable_def room_for_def next_record_def)
  moreover have "length (frames (rs @ [?r])) \<le> kMaxJournalBytes"
    using room by (simp add: room_for_def next_record_def)
  moreover have "snapshot_base (bs_options s) (bs_disk s) = Inr (base, snapshot)"
    using holds by (simp add: store_holds_def readable_def)
  ultimately show "store_holds s' base snapshot (rs @ [?r])"
    using holds room wrote newer last journal unfolding store_holds_def
    by (simp add: room_for_def)
  show "bs_synced s' = length (frames (rs @ [?r]))" if "so_fsync_records (bs_options s)"
    using that wrote journal by simp
qed

lemma holds_reopens:
  assumes "store_holds s base snapshot rs"
  shows "\<exists>report. store_open (bs_options s) all_well (bs_disk s) =
    (Inr (report, newer base rs, snapshot), recovered (bs_options s) (bs_disk s) base rs False) \<and> \<not> ry_torn_tail report"
  using open_frames(1) [of "bs_options s" "bs_disk s" base snapshot rs "[]"] assms
  by (simp add: store_holds_def)

lemma crash_synced: "length (journal_bytes s) \<le> bs_synced s \<Longrightarrow> crash n s = (bs_disk s)\<lparr>dk_journal := Some (journal_bytes s)\<rparr>"
  by (simp add: crash_def)

lemma acknowledged_append_recovered:
  assumes "store_holds s base snapshot rs" "room_for payload s base rs" "so_fsync_records (bs_options s)"
    "byte_append answer ty payload s = (st, s')" "st_ok st"
  shows "\<exists>report s2. store_open (bs_options s) all_well (crash n s') =
      (Inr (report, newer base rs @ [\<lparr>jn_type = ty, jn_seq = bs_seq s + 1, jn_payload = payload\<rparr>], snapshot), s2)
    \<and> \<not> ry_torn_tail report \<and> bs_seq s2 = bs_seq s + 1"
proof -
  note after = append_holds [OF assms(1,2,4,5)]
  let ?rs = "rs @ [next_record ty payload s]"
  have journal: "journal_bytes s' = frames ?rs"
    using after(1) by (simp add: journal_bytes_disk store_holds_def readable_def)
  have same: "bs_options s' = bs_options s" "bs_seq s' = bs_seq s + 1"
    using append_wrote_all [OF assms(4,5)] by simp_all
  have "crash n s' = (bs_disk s')\<lparr>dk_journal := Some (journal_bytes s')\<rparr>"
    using after(2) [OF assms(3)] journal by (intro crash_synced) simp
  then have "store_holds (s'\<lparr>bs_disk := crash n s'\<rparr>) base snapshot ?rs"
    using after(1) journal by (simp add: store_holds_def) (simp add: readable_def)
  from holds_reopens [OF this] after(1) same after(3) show ?thesis
    by (auto simp: recovered_def store_holds_def next_record_def)
qed


text \<open>A store opened on an empty directory.\<close>

definition sample_store :: byte_store where
  "sample_store = snd (store_open default_store_options all_well \<lparr>dk_snapshot = None, dk_journal = None\<rparr>)"

lemma sample_store_eq:
  "store_open default_store_options all_well \<lparr>dk_snapshot = None, dk_journal = None\<rparr> =
     (Inr (empty_recovery\<lparr>ry_opened := True\<rparr>, [], []), sample_store)"
  "sample_store = \<lparr>bs_open = True, bs_seq = 0, bs_options = default_store_options,
     bs_disk = \<lparr>dk_snapshot = None, dk_journal = Some []\<rparr>, bs_synced = 0\<rparr>"
  by (simp_all add: sample_store_def store_open_def all_well_def open_snapshot_def read_journal_def
      judge_damage_def reopen_journal_def empty_recovery_def replay_start_def)

lemma sample_store_holds: "store_holds sample_store 0 [] []"
  by (simp add: store_holds_def sample_store_eq(2) readable_def snapshot_base_def disk_journal_def
      default_store_options_def)

lemma sample_store_room: "length payload \<le> 1000 \<Longrightarrow> room_for payload sample_store 0 []"
  by (simp add: room_for_def sample_store_eq(2) default_store_options_def kMaxJournalBytes_def)



section \<open>Torn writes\<close>

lemma get_take: "i + 2 \<le> n \<Longrightarrow> get_u16 (take n bs) i = get_u16 bs i"
  "i + 4 \<le> n \<Longrightarrow> get_u32 (take n bs) i = get_u32 bs i"
  by (simp_all add: get_u16_def get_u32_def drop_take min_absorb1 take_take)

lemma torn_frame_damage:
  assumes "writable opt r" "0 < n" "n < length (frame r)"
  shows "\<exists>detail. record_damage opt (take n (frame r)) = Some detail"
proof (cases "n < 24")
  case True
  with assms show ?thesis by (simp add: record_damage_def kRecordHeaderBytes_def)
next
  case False
  then show ?thesis
    using assms frame_fields [of r "[]"] writable_length [OF assms(1)]
    by (simp add: record_damage_def get_take kRecordHeaderBytes_def)
qed

text \<open>Nothing shorter than a header can hold a record.\<close>

lemma checksummed_later_long: "checksummed_later opt bs \<Longrightarrow> 24 \<le> length bs"
  by (induction bs) (auto simp: checksummed_here_def kRecordHeaderBytes_def)

text \<open>
  C10: A torn append costs only itself.  A store holds some records, and the machine stops
  while the next one is being written, so that any proper first part of its bytes is in
  the file.  Opening the store again then recovers every record it held, reports a torn tail
  and cuts the file back to them - unless the bytes that did arrive contain, at a later
  offset, something with the magic number and a matching checksum, in which case opening
  fails as corrupt and leaves the file alone.  While no more than the header has arrived,
  that cannot be.
\<close>

theorem torn_append_costs_itself:
  assumes holds: "store_holds s base snapshot rs" and r: "writable (bs_options s) r"
    and n: "0 < n" "n < length (frame r)" and room: "length (frames rs) + length (frame r) \<le> kMaxJournalBytes"
    and d: "d = bs_disk (snd (append_raw (Wrote_Part n) r s))"
  shows "(\<not> checksummed_later (bs_options s) (drop 1 (take n (frame r))) \<longrightarrow>
      (\<exists>report s2. store_open (bs_options s) all_well d = (Inr (report, newer base rs, snapshot), s2)
        \<and> ry_torn_tail report \<and> journal_bytes s2 = frames rs \<and> store_holds s2 base snapshot rs))
    \<and> (checksummed_later (bs_options s) (drop 1 (take n (frame r))) \<longrightarrow>
      24 < n \<and> (\<exists>st s2. store_open (bs_options s) all_well d = (Inl st, s2)
        \<and> st_code st = Err_PersistenceCorrupt \<and> bs_disk s2 = d))"
proof -
  let ?torn = "take n (frame r)"
  have d': "d = (bs_disk s)\<lparr>dk_journal := Some (frames rs @ ?torn)\<rparr>"
    using holds r by (simp add: d append_raw_def Let_def store_holds_def writable_def journal_bytes_disk readable_def)
  obtain detail where damage: "record_damage (bs_options s) ?torn = Some detail"
    using torn_frame_damage [OF r n] by blast
  have read: "readable (bs_options s) d base snapshot (frames rs @ ?torn)"
    using holds room n by (simp add: d' store_holds_def readable_def [of "bs_options s" "bs_disk s"])
  have ok: "\<forall>r\<in>set rs. writable (bs_options s) r" "length (newer base rs) \<le> unat (so_max_replay_records (bs_options s))"
    using holds by (simp_all add: store_holds_def)
  have torn: "?torn \<noteq> []" using n by (cases n) auto
  note opened = open_frames [OF read ok, of detail]
  have "store_holds (recovered (bs_options s) d base rs True) base snapshot rs"
    using holds by (simp add: store_holds_def recovered_def d' readable_def snapshot_base_def disk_journal_def)
  moreover have "24 < n" if "checksummed_later (bs_options s) (drop 1 ?torn)"
    using checksummed_later_long [OF that] n by simp
  ultimately show ?thesis
    using opened damage torn by (auto simp: recovered_def journal_bytes_def)
qed

theorem torn_append_costs_itself_witness:
  "\<exists>report s2. store_open default_store_options all_well
      (bs_disk (snd (append_raw (Wrote_Part 24) \<lparr>jn_type = RT_Lease, jn_seq = 1, jn_payload = [1, 2, 3]\<rparr> sample_store)))
      = (Inr (report, [], []), s2) \<and> ry_torn_tail report \<and> journal_bytes s2 = []"
proof -
  let ?r = "\<lparr>jn_type = RT_Lease, jn_seq = 1, jn_payload = [1, 2, 3]\<rparr>"
  have "writable (bs_options sample_store) ?r"
    by (simp add: writable_def sample_store_eq(2) default_store_options_def)
  from torn_append_costs_itself [OF sample_store_holds this _ _ _ refl, of 24]
    checksummed_later_long [of default_store_options "drop 1 (take 24 (frame ?r))"]
  show ?thesis by (auto simp: sample_store_eq(2) kMaxJournalBytes_def)
qed

lemma checksummed_later_append: "checksummed_here opt bs \<Longrightarrow> checksummed_later opt (xs @ bs)"
proof (induction xs)
  case Nil
  then show ?case by (cases bs) (auto simp: checksummed_here_def kRecordHeaderBytes_def)
qed simp

lemma frame_start: "\<exists>tl. frame r = [0x4A, 0x30, 0x43, 0x44, 1, 0] @ tl"
proof -
  have "le_bytes 4 kRecordMagic = [0x4A, 0x30, 0x43, 0x44]" "le_bytes 2 kSchemaVersion = [1, 0]"
    by code_simp+
  then show ?thesis by (simp add: frame_def frame_header_def)
qed

text \<open>Bytes that start with up to six bytes of a frame and go on with another frame.\<close>

lemma spliced_frames_damaged:
  assumes "0 < n" "n \<le> 6" "writable opt r2"
  shows "\<exists>detail. record_damage opt (take n (frame r1) @ frame r2) = Some detail"
    "checksummed_later opt (drop 1 (take n (frame r1) @ frame r2))"
proof -
  obtain t1 t2 where f: "frame r1 = [0x4A, 0x30, 0x43, 0x44, 1, 0] @ t1" "frame r2 = [0x4A, 0x30, 0x43, 0x44, 1, 0] @ t2"
    using frame_start by metis
  have n: "n = 1 \<or> n = 2 \<or> n = 3 \<or> n = 4 \<or> n = 5 \<or> n = 6" using assms(1,2) by arith
  have words: "le_load [0x4A, 0x4A, 0x30, 0x43] \<noteq> kRecordMagic" "le_load [0x4A, 0x30, 0x4A, 0x30] \<noteq> kRecordMagic"
    "le_load [0x4A, 0x30, 0x43, 0x4A] \<noteq> kRecordMagic" "le_load [0x4A, 0x30] \<noteq> kSchemaVersion"
    "le_load [1, 0x4A] \<noteq> kSchemaVersion" "(le_load [0x4A, 0x30] :: u16) > 15"
    by code_simp+
  have "24 \<le> length (take n (frame r1) @ frame r2)" by simp
  then show "\<exists>detail. record_damage opt (take n (frame r1) @ frame r2) = Some detail"
    using n words by (elim disjE) (auto simp: record_damage_def kRecordHeaderBytes_def get_u32_def get_u16_def f)
  have "drop 1 (take n (frame r1) @ frame r2) = drop 1 (take n (frame r1)) @ frame r2"
    using assms(1) by simp
  then show "checksummed_later opt (drop 1 (take n (frame r1) @ frame r2))"
    using checksummed_later_append [of opt "frame r2" "drop 1 (take n (frame r1))"]
      record_at_frame(4) [OF assms(3), of "[]"] by simp
qed



section \<open>Snapshots\<close>

lemma parse_snapshot_image:
  assumes "length payload \<le> unat (so_max_snapshot_bytes opt)"
  shows "parse_snapshot opt (snapshot_image seq payload) = Inr (seq, payload)"
proof -
  have small: "length payload < 2 ^ 64"
  proof -
    have "unat (so_max_snapshot_bytes opt) < 2 ^ 64" by (rule order.strict_trans2 [OF unsigned_less]) simp
    with assms show ?thesis by simp
  qed
  have fields: "get_u32 (snapshot_image seq payload) 0 = kSnapshotMagic"
    "get_u16 (snapshot_image seq payload) 4 = kSchemaVersion" "get_u64 (snapshot_image seq payload) 8 = seq"
    "get_u64 (snapshot_image seq payload) 16 = of_nat (length payload)"
    "take 32 (drop 24 (snapshot_image seq payload)) = digest_bytes (sha256 payload)"
    "drop 56 (snapshot_image seq payload) = payload" "length (snapshot_image seq payload) = 56 + length payload"
    by (simp_all add: get_u16_def get_u32_def get_u64_def snapshot_image_def le_load_bytes)
  have "\<not> (of_nat (length payload) :: u64) > so_max_snapshot_bytes opt"
    using assms small by (simp add: word_less_nat_alt unat_of_nat not_less)
  then show ?thesis
    by (simp add: parse_snapshot_def fields kSnapshotHeaderBytes_def Let_def)
qed

lemma newer_none: "\<forall>r\<in>set rs. jn_seq r \<le> s \<Longrightarrow> newer s rs = []"
  by (induction rs) (auto simp: not_less)

lemma last_seq_bound: "s \<le> last_seq s rs \<and> (\<forall>r\<in>set rs. jn_seq r \<le> last_seq s rs)"
proof (induction rs arbitrary: s)
  case (Cons r rs)
  from Cons.IH [of "max s (jn_seq r)"] show ?case by auto
qed simp

lemma last_seq_old: "\<forall>r\<in>set rs. jn_seq r \<le> s \<Longrightarrow> last_seq s rs = s"
  by (induction rs) (simp_all add: max_absorb1)

text \<open>
  C11: A snapshot replaces the journal, wherever a crash hits.  Once the snapshot image has
  replaced the old one, the store opens to exactly that snapshot and no records, with the
  sequence number the snapshot covers - whether the journal had been emptied or the machine
  stopped before that and all its records are still in the file.
\<close>

theorem snapshot_supersedes_journal:
  assumes holds: "store_holds s base old rs" and writes: "byte_write_snapshot written reopens payload s = (st, s')"
    and image: "st_ok written" "length payload + 56 \<le> unat (so_max_snapshot_bytes (bs_options s))"
  shows "\<exists>report s2. store_open (bs_options s) all_well (bs_disk s') = (Inr (report, [], payload), s2)
    \<and> bs_seq s2 = bs_seq s \<and> \<not> ry_torn_tail report"
proof -
  let ?opt = "bs_options s"
  have opened: "bs_open s" and rs: "\<forall>r\<in>set rs. writable ?opt r" and seq: "bs_seq s = last_seq base rs"
    and journal: "disk_journal (bs_disk s) = frames rs" "length (frames rs) \<le> kMaxJournalBytes"
    using holds by (simp_all add: store_holds_def readable_def)
  let ?d = "(bs_disk s)\<lparr>dk_snapshot := Some (snapshot_image (bs_seq s) payload)\<rparr>"
  have disk: "bs_disk s' = (if reopens then ?d\<lparr>dk_journal := Some []\<rparr> else ?d)"
    using writes image opened
    by (auto simp: byte_write_snapshot_def truncate_journal_def split: if_splits)
  have "length (snapshot_image (bs_seq s) payload) = 56 + length payload"
    by (simp add: snapshot_image_def)
  then have base: "snapshot_base ?opt ?d = Inr (bs_seq s, payload)"
    using image parse_snapshot_image [of payload ?opt] by (simp add: snapshot_base_def)
  have old: "\<forall>r\<in>set rs. jn_seq r \<le> bs_seq s"
    using last_seq_bound [of base rs] by (simp add: seq)
  show ?thesis
  proof (cases reopens)
    case True
    have "readable ?opt (bs_disk s') (bs_seq s) payload (frames [] @ [])"
      using True base by (simp add: disk)
    from open_frames(1) [OF this] show ?thesis by (auto simp: recovered_def)
  next
    case False
    have "readable ?opt (bs_disk s') (bs_seq s) payload (frames rs @ [])"
      using False base journal by (simp add: disk readable_def disk_journal_def)
    from open_frames(1) [OF this rs] newer_none [OF old] last_seq_old [OF old]
    show ?thesis by (auto simp: recovered_def)
  qed
qed

theorem snapshot_supersedes_journal_witness:
  "let s = snd (byte_append Wrote_All RT_Lease [1] sample_store);
       s' = snd (byte_write_snapshot success False [7, 8] s) in
   \<exists>report s2. store_open default_store_options all_well (bs_disk s') = (Inr (report, [], [7, 8]), s2)"
proof -
  have opts: "bs_options sample_store = default_store_options" by (simp add: sample_store_eq(2))
  obtain st s where append: "byte_append Wrote_All RT_Lease [1] sample_store = (st, s)" by fastforce
  then have ok: "st_ok st"
    by (auto simp: byte_append_def append_raw_def sample_store_eq(2) default_store_options_def Let_def)
  have holds: "store_holds s 0 [] ([] @ [next_record RT_Lease [1] sample_store])"
    by (rule append_holds(1) [OF sample_store_holds sample_store_room append ok]) simp
  have same: "bs_options s = default_store_options"
    using append_wrote_all [OF append ok] opts by simp
  obtain st' s' where "byte_write_snapshot success False [7, 8] s = (st', s')" by fastforce
  with snapshot_supersedes_journal [OF holds this] show ?thesis
    by (auto simp: append same) (auto simp: default_store_options_def)
qed

section \<open>Reopening is not durable\<close>

text \<open>
  Reopening a clean journal puts it at risk.  Opening empties the journal file and writes
  the recovered bytes again; only after a repair does it sync them.  So when the journal was
  not torn, a crash before the next append may leave an empty file, and the store then opens
  without any of the records that had been acknowledged and recovered before.
\<close>

theorem clean_reopen_risks_journal:
  assumes "store_open opt answers d = (Inr (report, recs, snapshot), s)" "\<not> ry_torn_tail report"
  shows "\<exists>report' s'. store_open opt all_well (crash 0 s) = (Inr (report', [], snapshot), s')"
  using assms(1)
proof (cases rule: open_success)
  case (opened base rp)
  then have "readable opt (crash 0 s) base snapshot (frames [] @ [])"
    using assms(2) by (simp add: crash_def)
  from open_frames(1) [OF this] show ?thesis by auto
qed

theorem clean_reopen_risks_journal_witness:
  "let s = snd (byte_append Wrote_All RT_Lease [1] sample_store);
       (opened, s2) = store_open default_store_options all_well (bs_disk s) in
   (\<exists>report. opened = Inr (report, [\<lparr>jn_type = RT_Lease, jn_seq = 1, jn_payload = [1]\<rparr>], []))
   \<and> (\<exists>report' s'. store_open default_store_options all_well (crash 0 s2) = (Inr (report', [], []), s'))"
proof -
  obtain st s where append: "byte_append Wrote_All RT_Lease [1] sample_store = (st, s)" by fastforce
  then have ok: "st_ok st"
    by (auto simp: byte_append_def append_raw_def sample_store_eq(2) default_store_options_def Let_def)
  have opts: "bs_options s = default_store_options"
    using append_wrote_all [OF append ok] by (simp add: sample_store_eq(2))
  have "store_holds s 0 [] ([] @ [next_record RT_Lease [1] sample_store])"
    by (rule append_holds(1) [OF sample_store_holds sample_store_room append ok]) simp
  from holds_reopens [OF this] obtain report s2 where open':
    "store_open default_store_options all_well (bs_disk s) =
       (Inr (report, [\<lparr>jn_type = RT_Lease, jn_seq = 1, jn_payload = [1]\<rparr>], []), s2)" "\<not> ry_torn_tail report"
    by (auto simp: opts next_record_def sample_store_eq(2))
  from clean_reopen_risks_journal [OF open'] open'(1) append show ?thesis by simp
qed

end
