(* ===== verification/DC_Fields.thy ===== *)
theory DC_Fields
  imports DC_State
begin

text \<open>
  The field codecs that the record codecs of \<^verbatim>\<open>src/codec.cpp\<close> are put together from:
  enumerations, failure codes, optional and repeated fields, and the checks that a decoder
  makes on a record it has read.  Each comes with its faithfulness, so that a record codec
  is faithful by walking its fields.
\<close>

named_theorems codec \<open>the faithful field codecs\<close>

declare faithful_u8 [codec] faithful_u16 [codec] faithful_u32 [codec] faithful_u64 [codec]
  faithful_bool [codec] faithful_str [codec] faithful_digest [codec] faithful_id [codec]
  faithful_optional_id [codec] faithful_gen [codec]

section \<open>Enumerations\<close>

text \<open>
  \<^verbatim>\<open>write_enum\<close> writes the value of the enumerator in one byte.  \<^verbatim>\<open>read_enum\<close> refuses a byte
  above the last enumerator; the enumerators are numbered from 0 without gaps, so they are
  given as the list in that order.
\<close>

definition r_enum :: "'e list \<Rightarrow> 'e reader" where
  "r_enum es = r_bind r_u8 (\<lambda>raw. if unat raw \<ge> length es
     then r_fail Err_Malformed ''enum value out of domain'' else r_return (es ! unat raw))"

lemma faithful_enum:
  "unat raw < length es \<Longrightarrow> es ! unat raw = x \<Longrightarrow> faithful (w_u8 raw) (r_enum es) x"
  unfolding w_u8_def r_enum_def
  using reads_bind [OF reads_u8, of _ raw "[]" x] by (intro faithful_bytes) auto

lemma reads_u16: "reads r_u16 (le_bytes 2 v) v"
  unfolding r_u16_def by (rule reads_map [OF reads_bytes]) (simp_all add: le_load_bytes)

primrec attempt_state_value :: "attempt_state \<Rightarrow> u8" where
  "attempt_state_value AS_Created = 0"
| "attempt_state_value AS_Eligible = 1"
| "attempt_state_value AS_Assigned = 2"
| "attempt_state_value AS_Preparing = 3"
| "attempt_state_value AS_Running = 4"
| "attempt_state_value AS_Produced = 5"
| "attempt_state_value AS_Validating = 6"
| "attempt_state_value AS_CommitReady = 7"
| "attempt_state_value AS_Committed = 8"
| "attempt_state_value AS_Failed = 9"
| "attempt_state_value AS_Cancelled = 10"
| "attempt_state_value AS_Fenced = 11"
| "attempt_state_value AS_Ambiguous = 12"
| "attempt_state_value AS_Retired = 13"

primrec compilation_state_value :: "compilation_state \<Rightarrow> u8" where
  "compilation_state_value CS_Pending = 0"
| "compilation_state_value CS_CacheHit = 1"
| "compilation_state_value CS_Eligible = 2"
| "compilation_state_value CS_Assigned = 3"
| "compilation_state_value CS_Running = 4"
| "compilation_state_value CS_Producing = 5"
| "compilation_state_value CS_Validating = 6"
| "compilation_state_value CS_CommitReady = 7"
| "compilation_state_value CS_Committed = 8"
| "compilation_state_value CS_Failed = 9"
| "compilation_state_value CS_Cancelled = 10"
| "compilation_state_value CS_Fenced = 11"
| "compilation_state_value CS_Ambiguous = 12"
| "compilation_state_value CS_Retired = 13"

primrec worker_health_value :: "worker_health \<Rightarrow> u8" where
  "worker_health_value WH_Unknown = 0"
| "worker_health_value WH_Healthy = 1"
| "worker_health_value WH_Suspect = 2"
| "worker_health_value WH_Dead = 3"
| "worker_health_value WH_Fenced = 4"
| "worker_health_value WH_Draining = 5"

definition abi_kinds :: "abi_kind list" where
  "abi_kinds =
     [Abi_Unknown, Abi_Msvc, Abi_Itanium, Abi_Gnu]"

definition accelerator_vendors :: "accelerator_vendor list" where
  "accelerator_vendors =
     [AV_None, AV_Nvidia, AV_Amd, AV_Intel, AV_Unknown]"

definition arch_kinds :: "arch_kind list" where
  "arch_kinds =
     [Arch_Unknown, Arch_X86_64, Arch_Aarch64, Arch_X86, Arch_Arm32, Arch_RiscV64]"

definition attempt_states :: "attempt_state list" where
  "attempt_states =
     [AS_Created, AS_Eligible, AS_Assigned, AS_Preparing, AS_Running, AS_Produced, AS_Validating,
     AS_CommitReady, AS_Committed, AS_Failed, AS_Cancelled, AS_Fenced, AS_Ambiguous, AS_Retired]"

definition binary_id_states :: "binary_id_state list" where
  "binary_id_states =
     [BI_Unknown, BI_Known, BI_Unavailable]"

definition cache_policies :: "cache_policy list" where
  "cache_policies =
     [CP_ReadWrite, CP_ReadOnly, CP_Bypass]"

definition compilation_states :: "compilation_state list" where
  "compilation_states =
     [CS_Pending, CS_CacheHit, CS_Eligible, CS_Assigned, CS_Running, CS_Producing, CS_Validating,
     CS_CommitReady, CS_Committed, CS_Failed, CS_Cancelled, CS_Fenced, CS_Ambiguous, CS_Retired]"

definition compiler_families :: "compiler_family list" where
  "compiler_families =
     [CF_Unknown, CF_Msvc, CF_Clang, CF_Gnu, CF_NvidiaNvcc, CF_SyntheticRocm,
     CF_SyntheticLevelZero, CF_SyntheticGeneric, CF_MsvcLinker]"

definition dependency_kinds :: "dependency_kind list" where
  "dependency_kinds =
     [DK_Header, DK_Module, DK_GeneratedCode, DK_Library, DK_DeviceLibrary, DK_RuntimeLibrary,
     DK_CompilerPlugin, DK_Configuration, DK_ModelMetadata, DK_ToolchainFile, DK_Other]"

definition evidence_classes :: "evidence_class list" where
  "evidence_classes =
     [EC_Unknown, EC_Real, EC_Synthetic, EC_Unsupported]"

definition input_formats :: "input_format list" where
  "input_formats =
     [IF_Unknown, IF_Source, IF_PreprocessedSource, IF_LlvmIr, IF_Ptx, IF_SpirV, IF_VendorIr,
     IF_Object, IF_Cubin, IF_Assembly, IF_Other]"

definition intermediate_kinds :: "intermediate_kind list" where
  "intermediate_kinds =
     [IK_PreprocessedSource, IK_GeneratedIr, IK_OptimizedIr, IK_DeviceCode, IK_ObjectFile,
     IK_LinkInput, IK_Metadata]"

definition negative_cache_reasons :: "negative_cache_reason list" where
  "negative_cache_reasons =
     [NR_UnsupportedTarget, NR_DeterministicCompilerRejection, NR_IncompatibleSourceToolchain,
     NR_PolicyRefusal]"

definition object_formats :: "object_format list" where
  "object_formats =
     [OF_Unknown, OF_Coff, OF_Elf, OF_MachO, OF_Ptx, OF_Cubin, OF_Fatbin]"

definition os_kinds :: "os_kind list" where
  "os_kinds =
     [Os_Unknown, Os_Windows, Os_Linux, Os_MacOs, Os_Bsd, Os_BareMetal]"

definition output_kinds :: "output_kind list" where
  "output_kinds =
     [OK_Executable, OK_Object, OK_StaticLibrary, OK_DynamicLibrary, OK_Cubin, OK_Ptx, OK_Assembly,
     OK_PreprocessedSource]"

definition reproducibility_requirements :: "reproducibility_requirement list" where
  "reproducibility_requirements =
     [RR_Required, RR_Preferred, RR_NotRequired]"

definition spec_value_kinds :: "spec_value_kind list" where
  "spec_value_kinds =
     [SV_Signed, SV_Unsigned, SV_Floating, SV_Text, SV_Boolean]"

definition stdlib_kinds :: "stdlib_kind list" where
  "stdlib_kinds =
     [SL_Unknown, SL_MsvcStl, SL_Libstdcxx, SL_Libcxx, SL_None]"

definition unit_kinds :: "unit_kind list" where
  "unit_kinds =
     [UK_Compile, UK_Link]"

definition validation_outcomes :: "validation_outcome list" where
  "validation_outcomes =
     [VO_Pass, VO_Fail, VO_Unknown]"

definition worker_healths :: "worker_health list" where
  "worker_healths =
     [WH_Unknown, WH_Healthy, WH_Suspect, WH_Dead, WH_Fenced, WH_Draining]"

lemma faithful_enums [codec]:
  "faithful (w_u8 (abi_kind_value x0)) (r_enum abi_kinds) x0"
  "faithful (w_u8 (accelerator_vendor_value x1)) (r_enum accelerator_vendors) x1"
  "faithful (w_u8 (arch_kind_value x2)) (r_enum arch_kinds) x2"
  "faithful (w_u8 (attempt_state_value x3)) (r_enum attempt_states) x3"
  "faithful (w_u8 (binary_id_state_value x4)) (r_enum binary_id_states) x4"
  "faithful (w_u8 (cache_policy_value x5)) (r_enum cache_policies) x5"
  "faithful (w_u8 (compilation_state_value x6)) (r_enum compilation_states) x6"
  "faithful (w_u8 (compiler_family_value x7)) (r_enum compiler_families) x7"
  "faithful (w_u8 (dependency_kind_value x8)) (r_enum dependency_kinds) x8"
  "faithful (w_u8 (evidence_class_value x9)) (r_enum evidence_classes) x9"
  "faithful (w_u8 (input_format_value x10)) (r_enum input_formats) x10"
  "faithful (w_u8 (intermediate_kind_value x11)) (r_enum intermediate_kinds) x11"
  "faithful (w_u8 (negative_cache_reason_value x12)) (r_enum negative_cache_reasons) x12"
  "faithful (w_u8 (object_format_value x13)) (r_enum object_formats) x13"
  "faithful (w_u8 (os_kind_value x14)) (r_enum os_kinds) x14"
  "faithful (w_u8 (output_kind_value x15)) (r_enum output_kinds) x15"
  "faithful (w_u8 (reproducibility_requirement_value x16)) (r_enum reproducibility_requirements) x16"
  "faithful (w_u8 (spec_value_kind_value x17)) (r_enum spec_value_kinds) x17"
  "faithful (w_u8 (stdlib_kind_value x18)) (r_enum stdlib_kinds) x18"
  "faithful (w_u8 (unit_kind_value x19)) (r_enum unit_kinds) x19"
  "faithful (w_u8 (validation_outcome_value x20)) (r_enum validation_outcomes) x20"
  "faithful (w_u8 (worker_health_value x21)) (r_enum worker_healths) x21"
  subgoal by (rule faithful_enum; cases x0; simp add: abi_kinds_def)
  subgoal by (rule faithful_enum; cases x1; simp add: accelerator_vendors_def)
  subgoal by (rule faithful_enum; cases x2; simp add: arch_kinds_def)
  subgoal by (rule faithful_enum; cases x3; simp add: attempt_states_def)
  subgoal by (rule faithful_enum; cases x4; simp add: binary_id_states_def)
  subgoal by (rule faithful_enum; cases x5; simp add: cache_policies_def)
  subgoal by (rule faithful_enum; cases x6; simp add: compilation_states_def)
  subgoal by (rule faithful_enum; cases x7; simp add: compiler_families_def)
  subgoal by (rule faithful_enum; cases x8; simp add: dependency_kinds_def)
  subgoal by (rule faithful_enum; cases x9; simp add: evidence_classes_def)
  subgoal by (rule faithful_enum; cases x10; simp add: input_formats_def)
  subgoal by (rule faithful_enum; cases x11; simp add: intermediate_kinds_def)
  subgoal by (rule faithful_enum; cases x12; simp add: negative_cache_reasons_def)
  subgoal by (rule faithful_enum; cases x13; simp add: object_formats_def)
  subgoal by (rule faithful_enum; cases x14; simp add: os_kinds_def)
  subgoal by (rule faithful_enum; cases x15; simp add: output_kinds_def)
  subgoal by (rule faithful_enum; cases x16; simp add: reproducibility_requirements_def)
  subgoal by (rule faithful_enum; cases x17; simp add: spec_value_kinds_def)
  subgoal by (rule faithful_enum; cases x18; simp add: stdlib_kinds_def)
  subgoal by (rule faithful_enum; cases x19; simp add: unit_kinds_def)
  subgoal by (rule faithful_enum; cases x20; simp add: validation_outcomes_def)
  subgoal by (rule faithful_enum; cases x21; simp add: worker_healths_def)
  done

section \<open>Failure codes\<close>

text \<open>The cast of a raw value; one without an enumerator stays an unnamed code.\<close>

definition named_error_codes :: "error_code list" where
  "named_error_codes =
     [Err_Ok, Err_InvalidArgument, Err_Malformed, Err_LimitExceeded, Err_Overflow, Err_Unsupported,
     Err_Unknown, Err_NotFound, Err_AlreadyExists, Err_Duplicate, Err_Internal, Err_IoError,
     Err_ProtocolViolation, Err_Unauthorized, Err_StaleEpoch, Err_StaleWorkerBoot,
     Err_StaleWorkerGeneration, Err_StaleLease, Err_StaleCompilation, Err_StaleAttempt,
     Err_StaleSource, Err_StaleIR, Err_StaleDependencies, Err_StaleToolchain, Err_StaleTarget,
     Err_StaleSpecialization, Err_StalePolicy, Err_StaleCache, Err_StaleRequest, Err_StaleSession,
     Err_NotEligible, Err_NoEligibleWorker, Err_NotAssigned, Err_ArtifactMismatch,
     Err_ArtifactAlreadyCommitted, Err_ArtifactMissing, Err_IntegrityFailure,
     Err_ValidationFailure, Err_ProvenanceMissing, Err_ReproducibilityViolation,
     Err_FanInIncomplete, Err_Cancelled, Err_Fenced, Err_Ambiguous, Err_IllegalTransition,
     Err_CacheMiss, Err_CacheStale, Err_CacheIncompatible, Err_CacheCorrupt, Err_CacheUnknown,
     Err_PersistenceCorrupt, Err_PersistenceTruncated, Err_SchemaMismatch, Err_PersistenceClosed,
     Err_TransportFailure, Err_ConnectionClosed, Err_Timeout, Err_FrameTooLarge, Err_Shutdown]"

definition error_code_of :: "u16 \<Rightarrow> error_code" where
  "error_code_of raw =
     (case find (\<lambda>c. error_code_value c = raw) named_error_codes of None \<Rightarrow> Err_Unnamed raw | Some c \<Rightarrow> c)"

definition w_error :: "error_code \<Rightarrow> writer" where
  "w_error c = w_u16 (error_code_value c)"

text \<open>A code above the last enumerator is refused; the record is named in the detail.\<close>

definition r_error :: "string \<Rightarrow> error_code reader" where
  "r_error what = r_bind r_u16 (\<lambda>raw. if raw > error_code_value Err_Shutdown
     then r_fail Err_Malformed (what @ '' failure code out of domain'') else r_return (error_code_of raw))"

definition error_in_domain :: "error_code \<Rightarrow> bool" where
  "error_in_domain c \<longleftrightarrow> error_code_of (error_code_value c) = c
     \<and> error_code_value c \<le> error_code_value Err_Shutdown"

lemma faithful_error [codec]:
  assumes "error_in_domain c"
  shows "faithful (w_error c) (r_error what) c"
proof -
  have "reads (r_error what) (le_bytes 2 (error_code_value c) @ []) c"
    unfolding r_error_def
    by (rule reads_bind [OF reads_u16]) (use assms in \<open>auto simp: error_in_domain_def dest: leD\<close>)
  then show ?thesis unfolding w_error_def w_u16_def by (intro faithful_bytes) simp
qed

text \<open>Every enumerator is in the domain.\<close>

lemma named_in_domain: "c \<in> set named_error_codes \<Longrightarrow> error_in_domain c"
  unfolding named_error_codes_def list.set
  by (elim insertE emptyE; hypsubst; code_simp)

section \<open>Repeated and optional fields\<close>

text \<open>A writer that never shortens the buffer and stays under the limit.\<close>

definition w_keeps :: "writer \<Rightarrow> bool" where
  "w_keeps w \<longleftrightarrow> (\<forall>buf out. w buf = Some out \<longrightarrow> length buf \<le> length out
     \<and> (length buf \<le> max_total_bytes \<longrightarrow> length out \<le> max_total_bytes))"

lemma w_grows_keeps [simp]: "w_grows w \<Longrightarrow> w_keeps w"
  by (fastforce simp: w_grows_def w_keeps_def)

lemma w_keeps_Some [simp]: "w_keeps Some"
  by (simp add: w_keeps_def)

lemma w_keeps_then: "w_keeps v \<Longrightarrow> w_keeps w \<Longrightarrow> w_keeps (w_then v w)"
  by (fastforce simp: w_keeps_def w_then_def split: option.splits)

lemma w_keeps_seq [simp]: "\<forall>w\<in>set ws. w_keeps w \<Longrightarrow> w_keeps (w_seq ws)"
  by (induction ws) (simp_all add: w_keeps_then)

lemma w_grows_then_keeps: "w_grows v \<Longrightarrow> w_keeps w \<Longrightarrow> w_grows (w_then v w)"
  by (fastforce simp: w_grows_def w_keeps_def w_then_def split: option.splits)

lemma w_grows_seq [simp]: "w_grows w \<Longrightarrow> \<forall>v\<in>set ws. w_keeps v \<Longrightarrow> w_grows (w_seq (w # ws))"
  by (simp add: w_grows_then_keeps)

lemma w_grows_prims [simp]:
  "w_grows (w_u8 r)" "w_grows (w_bool b)" "w_grows (w_u16 h)" "w_grows (w_error c)"
  "w_grows (w_i64 i)" "w_grows (w_f64 f)"
  by (simp_all add: w_i64_def w_f64_def)
    (auto simp: w_u8_def w_bool_def w_u16_def w_error_def w_grows_def w_bytes_def split: if_splits)

lemma w_grows_list [simp]: "w_grows (w_list n)"
  by (auto simp: w_grows_def w_list_def w_u32_def w_bytes_def split: if_splits)

lemma w_grows_list_of [simp]: "(\<And>x. w_keeps (wr x)) \<Longrightarrow> w_grows (w_list_of wr xs)"
  unfolding w_list_of_def by (rule w_grows_then_keeps) auto

lemma w_grows_strings [simp]: "w_grows (write_string_list xs)"
  unfolding write_string_list_def by (rule w_grows_then_keeps) auto

lemma faithful_strings [codec]: "faithful (write_string_list xs) read_string_list xs"
  using str_codec.list_faithful [of xs]
  by (simp add: write_string_list_def read_string_list_def w_list_of_def r_list_of_def)

lemma faithful_i64 [codec]: "faithful (w_i64 v) r_i64 v" "faithful (w_f64 v) r_f64 v"
  by (simp_all add: w_i64_def r_i64_def w_f64_def r_f64_def faithful_u64)

lemma faithful_ids [codec]: "\<forall>i\<in>set is. i \<noteq> Ident 0 \<Longrightarrow> faithful (w_list_of w_id is) (r_list_of r_id) is"
  using id_codec.list_faithful [of "is"] by simp

lemma faithful_u32s [codec]: "faithful (w_list_of w_u32 ns) (r_list_of r_u32) ns"
  using u32_codec.list_faithful [of ns] by simp

text \<open>A time, a signed 64-bit count of milliseconds, is an integer of the model.\<close>

definition is_i64 :: "int \<Rightarrow> bool" where
  "is_i64 t \<longleftrightarrow> - (2 ^ 63) \<le> t \<and> t < 2 ^ 63"

definition w_millis :: "unix_millis \<Rightarrow> writer" where
  "w_millis t = w_i64 (word_of_int t)"

definition r_millis :: "unix_millis reader" where
  "r_millis = r_bind r_i64 (\<lambda>raw. r_return (sint raw))"

lemma faithful_millis [codec]: "is_i64 t \<Longrightarrow> faithful (w_millis t) r_millis t"
proof -
  assume "is_i64 t"
  then have "sint (word_of_int t :: u64) = t"
    by (simp add: is_i64_def sint_sbintrunc' signed_take_bit_int_eq_self)
  then have "reads r_millis (le_bytes 8 (word_of_int t :: u64)) t"
    unfolding r_millis_def r_i64_def by (intro reads_map [OF reads_u64]) simp
  then show ?thesis
    unfolding w_millis_def w_i64_def w_u64_def by (rule faithful_bytes)
qed

lemma w_grows_millis [simp]: "w_grows (w_millis t)"
  by (simp add: w_millis_def)

text \<open>A pair of strings, as in an environment or a toolchain configuration.\<close>

definition encode_pair :: "string \<times> string \<Rightarrow> writer" where
  "encode_pair kv = w_seq [w_str (fst kv), w_str (snd kv)]"

definition decode_pair :: "(string \<times> string) reader" where
  "decode_pair = r_bind r_str (\<lambda>k. r_bind r_str (\<lambda>v. r_return (k, v)))"

interpretation pair_codec: element_codec encode_pair decode_pair id "\<lambda>_. True"
proof unfold_locales
  fix kv :: "string \<times> string"
  show "faithful (encode_pair kv) decode_pair (id kv)"
    unfolding encode_pair_def decode_pair_def
    by (rule faithful_seq_Cons [OF faithful_str], rule faithful_seq_Cons [OF faithful_str],
        rule faithful_seq_Nil) simp
  show "w_grows (encode_pair kv)" by (simp add: encode_pair_def)
qed

lemma faithful_pairs [codec]: "faithful (w_list_of encode_pair kvs) (r_list_of decode_pair) kvs"
  using pair_codec.list_faithful [of kvs] by simp

lemma w_grows_pair [simp]: "w_grows (encode_pair kv)"
  by (simp add: encode_pair_def)

interpretation format_codec: element_codec "\<lambda>f. w_u8 (input_format_value f)" "r_enum input_formats" id "\<lambda>_. True"
  by unfold_locales (simp_all add: faithful_enums)

lemma faithful_formats [codec]:
  "faithful (w_list_of (\<lambda>f. w_u8 (input_format_value f)) fs) (r_list_of (r_enum input_formats)) fs"
  using format_codec.list_faithful [of fs] by simp

text \<open>An optional record: a flag, then the record if there is one.\<close>

definition w_optional :: "('a \<Rightarrow> writer) \<Rightarrow> 'a option \<Rightarrow> writer" where
  "w_optional wr v = w_seq [w_bool (v \<noteq> None), (case v of None \<Rightarrow> Some | Some x \<Rightarrow> wr x)]"

definition r_optional :: "'a reader \<Rightarrow> 'a option reader" where
  "r_optional rd = r_bind r_bool (\<lambda>has. if has then r_bind rd (\<lambda>x. r_return (Some x)) else r_return None)"

lemma faithful_optional:
  assumes "\<And>x. v = Some x \<Longrightarrow> faithful (wr x) rd x"
  shows "faithful (w_optional wr v) (r_optional rd) v"
proof (cases v)
  case None
  then show ?thesis
    unfolding w_optional_def r_optional_def
    by (intro faithful_seq_Cons [OF faithful_bool]) (simp add: faithful_then [OF faithful_Nil] faithful_Nil w_then_def fun_eq_iff)
next
  case (Some x)
  then have "faithful (w_seq [wr x]) (r_bind rd (\<lambda>x. r_return (Some x))) v"
    using assms by (intro faithful_seq_Cons faithful_seq_Nil) auto
  with Some show ?thesis
    unfolding w_optional_def r_optional_def by (intro faithful_seq_Cons [OF faithful_bool]) simp
qed

lemma w_grows_optional [simp]: "(\<And>x. w_keeps (wr x)) \<Longrightarrow> w_grows (w_optional wr v)"
  unfolding w_optional_def by (rule w_grows_seq) (auto split: option.split)

text \<open>A list whose count is checked again against a smaller bound.\<close>

definition r_bounded_list :: "nat \<Rightarrow> string \<Rightarrow> 'a reader \<Rightarrow> 'a list reader" where
  "r_bounded_list bound detail rd = r_bind r_list (\<lambda>count. if unat count > bound
     then r_fail Err_LimitExceeded detail else r_repeat (unat count) rd)"

context element_codec begin

lemma bounded_list_faithful:
  assumes "\<forall>x\<in>set xs. dom_ok x" "length xs \<le> bound"
  shows "faithful (w_list_of wr xs) (r_bounded_list bound detail rd) (map view xs)"
  unfolding faithful_def
proof (intro allI impI)
  fix buf out assume "w_list_of wr xs buf = Some out"
  then obtain n bs where out: "out = buf @ (le_bytes 4 n @ bs)" "unat n = length xs"
    "reads r_list (le_bytes 4 n) n" "reads (r_repeat (length xs) rd) bs (map view xs)"
    by (rule list_written [OF assms(1)])
  then have "reads (r_bounded_list bound detail rd) (le_bytes 4 n @ bs) (map view xs)"
    unfolding r_bounded_list_def using assms(2) by (intro reads_bind) auto
  with out(1) show "\<exists>bs. out = buf @ bs \<and> reads (r_bounded_list bound detail rd) bs (map view xs)"
    by auto
qed

end

section \<open>Checks after the fields\<close>

lemma faithful_after: "faithful w p x \<Longrightarrow> f x = r_return y \<Longrightarrow> faithful w (r_bind p f) y"
proof -
  assume w: "faithful w p x" and f: "f x = r_return y"
  show "faithful w (r_bind p f) y"
    unfolding faithful_def
  proof (intro allI impI)
    fix buf out assume "w buf = Some out"
    with w obtain bs where bs: "out = buf @ bs" "reads p bs x" by (auto simp: faithful_def)
    have "reads (r_bind p f) (bs @ []) y" by (rule reads_bind [OF bs(2)]) (simp add: f)
    with bs(1) show "\<exists>bs. out = buf @ bs \<and> reads (r_bind p f) bs y" by auto
  qed
qed

text \<open>
  A decoder that recomputes an identity runs the canonicalisation of the record.  What that
  refuses is a malformed record; an exception of its writer (a record over 256 MiB) leaves the
  decoder, which at this level is a failure of its own.
\<close>

definition r_computed :: "string \<Rightarrow> 'a outcome \<Rightarrow> ('a \<Rightarrow> 'b reader) \<Rightarrow> 'b reader" where
  "r_computed rejected out f =
     (case out of
        Inr x \<Rightarrow> f x
      | Inl (Returned st) \<Rightarrow> r_fail Err_Malformed (rejected @ describe st)
      | Inl Thrown \<Rightarrow> r_fail Err_LimitExceeded ''std::length_error'')"

definition r_intact :: "bool \<Rightarrow> string \<Rightarrow> 'a reader \<Rightarrow> 'a reader" where
  "r_intact same detail p = (if same then p else r_fail Err_IntegrityFailure detail)"

lemma r_computed_Inr [simp]: "r_computed what (Inr x) f = f x"
  by (simp add: r_computed_def)

lemma r_intact_True [simp]: "r_intact True detail p = p"
  by (simp add: r_intact_def)

section \<open>What cannot be read back\<close>

text \<open>A writer whose bytes, wherever they end up, make a reader fail with an error.\<close>

definition refuses :: "writer \<Rightarrow> 'a reader \<Rightarrow> status \<Rightarrow> bool" where
  "refuses w p e \<longleftrightarrow> (\<forall>buf out. w buf = Some out
     \<longrightarrow> (\<exists>bs. out = buf @ bs \<and> (\<forall>rest. p (bs @ rest) = Inl e)))"

lemma refuses_start: "refuses w p e \<Longrightarrow> w [] = Some bs \<Longrightarrow> p bs = Inl e"
  unfolding refuses_def by (metis append_Nil append_Nil2)

definition appends :: "writer \<Rightarrow> bool" where
  "appends w \<longleftrightarrow> (\<forall>buf out. w buf = Some out \<longrightarrow> (\<exists>bs. out = buf @ bs))"

lemma appends_bytes: "appends (w_bytes bs)"
  by (simp add: appends_def w_bytes_def)

lemma appends_then: "appends v \<Longrightarrow> appends w \<Longrightarrow> appends (w_then v w)"
  by (fastforce simp: appends_def w_then_def split: option.splits)

lemma appends_seq: "list_all appends ws \<Longrightarrow> appends (w_seq ws)"
  by (induction ws) (simp_all add: appends_then, simp add: appends_def)

lemma refuses_then:
  assumes "faithful v p x" "refuses w (f x) e"
  shows "refuses (w_then v w) (r_bind p f) e"
  unfolding refuses_def
proof (intro allI impI)
  fix buf out assume "w_then v w buf = Some out"
  then obtain mid where "v buf = Some mid" "w mid = Some out"
    by (auto simp: w_then_def split: option.splits)
  with assms obtain b1 b2 where b: "mid = buf @ b1" "out = mid @ b2" "reads p b1 x"
    "\<forall>rest. f x (b2 @ rest) = Inl e"
    by (meson faithful_def refuses_def)
  have "r_bind p f ((b1 @ b2) @ rest) = Inl e" for rest
    using b(3,4) by (simp add: reads_def r_bind_def)
  with b(1,2) show "\<exists>bs. out = buf @ bs \<and> (\<forall>rest. r_bind p f (bs @ rest) = Inl e)" by auto
qed

lemma refuses_here:
  assumes "refuses v p e" "appends w"
  shows "refuses (w_then v w) (r_bind p f) e"
  unfolding refuses_def
proof (intro allI impI)
  fix buf out assume "w_then v w buf = Some out"
  then obtain mid where "v buf = Some mid" "w mid = Some out"
    by (auto simp: w_then_def split: option.splits)
  with assms obtain b1 b2 where b: "mid = buf @ b1" "\<forall>rest. p (b1 @ rest) = Inl e" "out = mid @ b2"
    by (meson appends_def refuses_def)
  then have "r_bind p f ((b1 @ b2) @ rest) = Inl e" for rest by (simp add: r_bind_def)
  with b show "\<exists>bs. out = buf @ bs \<and> (\<forall>rest. r_bind p f (bs @ rest) = Inl e)" by auto
qed

lemma refuses_seq:
  "faithful v p x \<Longrightarrow> refuses (w_seq ws) (f x) e \<Longrightarrow> refuses (w_seq (v # ws)) (r_bind p f) e"
  by (simp add: refuses_then)

lemma refuses_now:
  "refuses v p e \<Longrightarrow> list_all appends ws \<Longrightarrow> refuses (w_seq (v # ws)) (r_bind p f) e"
  by (simp add: refuses_here appends_seq)

text \<open>A handle of zero is written like any other and refused by the reader.\<close>

abbreviation zero_handle :: status where
  "zero_handle \<equiv> error Err_Malformed ''canonical identity handle is zero''"

lemma refuses_zero_id: "refuses (w_id (Ident 0)) r_id zero_handle"
proof -
  have "r_id (le_bytes 8 (0 :: u64) @ rest) = Inl zero_handle" for rest
    using reads_u64 [of 0] by (simp add: r_id_def r_bind_def reads_def id_decode_def r_fail_def)
  then show ?thesis
    by (auto simp: refuses_def w_id_def w_u64_def w_bytes_def split: if_splits)
qed

lemma faithful_appends: "faithful w p x \<Longrightarrow> appends w"
  by (fastforce simp: faithful_def appends_def)

lemma appends_prims:
  "appends (w_millis t)" "appends (w_str s)" "appends (w_error c)" "appends (w_id i)" "appends (w_gen g)"
  "appends (w_digest d)" "appends (w_u8 r)" "appends (w_u16 h)" "appends (w_u32 n)" "appends (w_u64 v)"
  "appends (w_bool b)"
  by (simp_all add: appends_bytes w_millis_def w_i64_def w_u64_def w_error_def w_u16_def w_u32_def w_id_def
      w_gen_def w_digest_def w_u8_def w_bool_def faithful_appends [OF faithful_str])

end
