(* ===== verification/DC_Codec.thy ===== *)
theory DC_Codec
  imports DC_Fields
begin

text \<open>
  The codecs of the request and worker records (\<^verbatim>\<open>src/codec.cpp\<close>): for each record its writer,
  the reader of its fields and, where the code recomputes an identity or checks a bound after the
  fields, the check.  \<^verbatim>\<open>X_encodable\<close> says when a record survives: its mandatory handles are set,
  its bounds hold, and it is its own canonical form.  \<^verbatim>\<open>X_fields\<close> is what the encoding keeps
  where it leaves something out: the root directory of an SDK component and the digest of a
  unit's source are not written.
\<close>

section \<open>Sdk component\<close>

definition encode_sdk :: "sdk_component \<Rightarrow> writer" where
  "encode_sdk v = w_seq
     [w_str (sc_name v), w_str (sc_version v)]"

definition decode_sdk :: "sdk_component reader" where
  "decode_sdk =
     r_bind r_str (\<lambda>name. r_bind r_str (\<lambda>version.
     r_return
       \<lparr>sc_name = name, sc_version = version, sc_root = []\<rparr>))"

text \<open>What the encoding keeps of the record.\<close>

definition sdk_fields :: "sdk_component \<Rightarrow> sdk_component" where
  "sdk_fields v = v\<lparr>sc_root := []\<rparr>"

lemma sdk_grows [simp]: "w_grows (encode_sdk v)"
  unfolding encode_sdk_def by (rule w_grows_seq) simp_all

lemma sdk_faithful [codec]:
  "faithful (encode_sdk v) decode_sdk (sdk_fields v)"
  unfolding encode_sdk_def decode_sdk_def
  by (rule faithful_seq_Cons faithful_seq_Nil codec | (simp add: sdk_fields_def; fail))+

interpretation sdk_codec: element_codec encode_sdk decode_sdk sdk_fields "\<lambda>_. True"
  by unfold_locales (simp_all add: sdk_faithful)

lemma sdks_faithful [codec]:
  "faithful (w_list_of encode_sdk xs) (r_list_of decode_sdk) (map sdk_fields xs)"
  using sdk_codec.list_faithful [of xs] by simp

section \<open>Plugin identity\<close>

definition encode_plugin :: "plugin_identity \<Rightarrow> writer" where
  "encode_plugin v = w_seq
     [w_str (pi_id v), w_str (pi_version v), w_digest (pi_digest v)]"

definition decode_plugin :: "plugin_identity reader" where
  "decode_plugin =
     r_bind r_str (\<lambda>id. r_bind r_str (\<lambda>version. r_bind r_digest (\<lambda>digest.
     r_return
       \<lparr>pi_id = id, pi_version = version, pi_digest = digest\<rparr>)))"

lemma plugin_grows [simp]: "w_grows (encode_plugin v)"
  unfolding encode_plugin_def by (rule w_grows_seq) simp_all

lemma plugin_faithful [codec]:
  "faithful (encode_plugin v) decode_plugin v"
  unfolding encode_plugin_def decode_plugin_def
  by (rule faithful_seq_Cons faithful_seq_Nil codec | (simp; fail))+

interpretation plugin_codec: element_codec encode_plugin decode_plugin id "\<lambda>_. True"
  by unfold_locales (simp_all add: plugin_faithful)

lemma plugins_faithful [codec]:
  "faithful (w_list_of encode_plugin xs) (r_list_of decode_plugin) xs"
  using plugin_codec.list_faithful [of xs] by simp

section \<open>Content ref\<close>

definition encode_content_ref :: "content_ref \<Rightarrow> writer" where
  "encode_content_ref v = w_seq
     [w_digest (rf_digest v), w_u64 (rf_size v)]"

definition decode_content_ref :: "content_ref reader" where
  "decode_content_ref =
     r_bind r_digest (\<lambda>digest. r_bind r_u64 (\<lambda>size.
     r_return
       \<lparr>rf_digest = digest, rf_size = size\<rparr>))"

lemma content_ref_grows [simp]: "w_grows (encode_content_ref v)"
  unfolding encode_content_ref_def by (rule w_grows_seq) simp_all

lemma content_ref_faithful [codec]:
  "faithful (encode_content_ref v) decode_content_ref v"
  unfolding encode_content_ref_def decode_content_ref_def
  by (rule faithful_seq_Cons faithful_seq_Nil codec | (simp; fail))+

interpretation content_ref_codec: element_codec encode_content_ref decode_content_ref id "\<lambda>_. True"
  by unfold_locales (simp_all add: content_ref_faithful)

lemma content_refs_faithful [codec]:
  "faithful (w_list_of encode_content_ref xs) (r_list_of decode_content_ref) xs"
  using content_ref_codec.list_faithful [of xs] by simp

section \<open>Binary identity\<close>

definition encode_binary_identity :: "binary_identity \<Rightarrow> writer" where
  "encode_binary_identity v = w_seq
     [w_u8 (binary_id_state_value (bi_state v)), w_digest (bi_digest v), w_u64 (bi_size v),
     w_str (bi_path v), w_str (bi_version_string v)]"

definition decode_binary_identity_fields :: "binary_identity reader" where
  "decode_binary_identity_fields =
     r_bind (r_enum binary_id_states) (\<lambda>state. r_bind r_digest (\<lambda>digest.
     r_bind r_u64 (\<lambda>size. r_bind r_str (\<lambda>path. r_bind r_str (\<lambda>version_string.
     r_return
       \<lparr>bi_state = state, bi_digest = digest, bi_size = size, bi_path = path,
       bi_version_string = version_string\<rparr>)))))"

definition accept_binary_identity :: "binary_identity \<Rightarrow> binary_identity reader" where
  "accept_binary_identity v =
    (if bi_state v = BI_Known \<and> digest_is_zero (bi_digest v)
     then r_fail Err_Malformed ''binary identity claims KNOWN with a zero digest'' else r_return v)"

definition decode_binary_identity :: "binary_identity reader" where
  "decode_binary_identity = r_bind decode_binary_identity_fields accept_binary_identity"

definition binary_identity_encodable :: "binary_identity \<Rightarrow> bool" where
  "binary_identity_encodable v \<longleftrightarrow>
     \<not> (bi_state v = BI_Known \<and> digest_is_zero (bi_digest v))"

lemma binary_identity_grows [simp]: "w_grows (encode_binary_identity v)"
  unfolding encode_binary_identity_def by (rule w_grows_seq) simp_all

lemma binary_identity_fields_faithful:
  "binary_identity_encodable v \<Longrightarrow> faithful (encode_binary_identity v) decode_binary_identity_fields v"
  unfolding encode_binary_identity_def decode_binary_identity_fields_def
  by (rule faithful_seq_Cons faithful_seq_Nil codec | (simp add: binary_identity_encodable_def; fail))+

lemma binary_identity_faithful [codec]:
  "binary_identity_encodable v \<Longrightarrow> faithful (encode_binary_identity v) decode_binary_identity v"
  unfolding decode_binary_identity_def
  by (rule faithful_after [OF binary_identity_fields_faithful]) 
    (auto simp: accept_binary_identity_def binary_identity_encodable_def dest: leD)

section \<open>Toolchain identity\<close>

definition encode_toolchain :: "toolchain_identity \<Rightarrow> writer" where
  "encode_toolchain v = w_seq
     [w_id (tc_id v), w_gen (tc_generation v), w_u8 (compiler_family_value (tc_family v)),
     w_str (tc_version_string v), w_u32 (tc_version_major v), w_u32 (tc_version_minor v),
     w_u32 (tc_version_patch v), encode_binary_identity (tc_compiler v),
     encode_binary_identity (tc_linker v), encode_binary_identity (tc_assembler v),
     encode_binary_identity (tc_runtime_library v), w_list_of encode_sdk (tc_sdk v),
     w_list_of encode_plugin (tc_plugins v), write_string_list (tc_target_libraries v),
     w_list_of encode_pair (tc_configuration v), w_u8 (evidence_class_value (tc_evidence v)),
     w_id (tc_evidence_id v), w_gen (tc_evidence_generation v), w_digest (tc_identity_digest v)]"

definition decode_toolchain_fields :: "toolchain_identity reader" where
  "decode_toolchain_fields =
     r_bind r_id (\<lambda>id. r_bind r_gen (\<lambda>generation.
     r_bind (r_enum compiler_families) (\<lambda>family. r_bind r_str (\<lambda>version_string.
     r_bind r_u32 (\<lambda>version_major. r_bind r_u32 (\<lambda>version_minor.
     r_bind r_u32 (\<lambda>version_patch. r_bind decode_binary_identity (\<lambda>compiler.
     r_bind decode_binary_identity (\<lambda>linker. r_bind decode_binary_identity (\<lambda>assembler.
     r_bind decode_binary_identity (\<lambda>runtime_library.
     r_bind (r_list_of decode_sdk) (\<lambda>sdk. r_bind (r_list_of decode_plugin) (\<lambda>plugins.
     r_bind read_string_list (\<lambda>target_libraries.
     r_bind (r_list_of decode_pair) (\<lambda>configuration.
     r_bind (r_enum evidence_classes) (\<lambda>evidence. r_bind r_optional_id (\<lambda>evidence_id.
     r_bind r_gen (\<lambda>evidence_generation. r_bind r_digest (\<lambda>identity_digest.
     r_return
       \<lparr>tc_id = id, tc_generation = generation, tc_family = family,
       tc_version_string = version_string, tc_version_major = version_major,
       tc_version_minor = version_minor, tc_version_patch = version_patch,
       tc_compiler = compiler, tc_linker = linker, tc_assembler = assembler,
       tc_runtime_library = runtime_library, tc_sdk = sdk, tc_plugins = plugins,
       tc_target_libraries = target_libraries, tc_configuration = configuration,
       tc_evidence = evidence, tc_evidence_id = evidence_id,
       tc_evidence_generation = evidence_generation, tc_identity_digest = identity_digest\<rparr>)))))))))))))))))))"

text \<open>What the encoding keeps of the record.\<close>

definition toolchain_fields :: "toolchain_identity \<Rightarrow> toolchain_identity" where
  "toolchain_fields v = v\<lparr>tc_sdk := map sdk_fields (tc_sdk v)\<rparr>"

definition accept_toolchain :: "toolchain_identity \<Rightarrow> toolchain_identity reader" where
  "accept_toolchain v =
    (r_computed [] (canonicalize_toolchain v) (\<lambda>w.
     r_intact (tc_identity_digest v = tc_identity_digest w)
       ''toolchain identity digest does not match its contents'' (r_return w)))"

definition decode_toolchain :: "toolchain_identity reader" where
  "decode_toolchain = r_bind decode_toolchain_fields accept_toolchain"

definition toolchain_encodable :: "toolchain_identity \<Rightarrow> bool" where
  "toolchain_encodable v \<longleftrightarrow>
     tc_id v \<noteq> Ident 0 \<and> binary_identity_encodable (tc_compiler v)
     \<and> binary_identity_encodable (tc_linker v) \<and> binary_identity_encodable (tc_assembler v)
     \<and> binary_identity_encodable (tc_runtime_library v)
     \<and> canonicalize_toolchain (toolchain_fields v) = Inr (toolchain_fields v)"

lemma toolchain_grows [simp]: "w_grows (encode_toolchain v)"
  unfolding encode_toolchain_def by (rule w_grows_seq) simp_all

lemma toolchain_fields_faithful:
  "toolchain_encodable v \<Longrightarrow> faithful (encode_toolchain v) decode_toolchain_fields (toolchain_fields v)"
  unfolding encode_toolchain_def decode_toolchain_fields_def
  by (rule faithful_seq_Cons faithful_seq_Nil codec | (simp add: toolchain_encodable_def toolchain_fields_def; fail))+

lemma toolchain_faithful [codec]:
  "toolchain_encodable v \<Longrightarrow> faithful (encode_toolchain v) decode_toolchain (toolchain_fields v)"
  unfolding decode_toolchain_def
  by (rule faithful_after [OF toolchain_fields_faithful]) 
    (auto simp: accept_toolchain_def toolchain_encodable_def toolchain_fields_def dest: leD)

interpretation toolchain_codec: element_codec encode_toolchain decode_toolchain toolchain_fields toolchain_encodable
  by unfold_locales (simp_all add: toolchain_faithful)

lemma toolchains_faithful [codec]:
  "\<forall>x\<in>set xs. toolchain_encodable x \<Longrightarrow> faithful (w_list_of encode_toolchain xs) (r_list_of decode_toolchain) (map toolchain_fields xs)"
  using toolchain_codec.list_faithful [of xs] by simp

section \<open>Accelerator target\<close>

definition encode_accelerator :: "accelerator_target \<Rightarrow> writer" where
  "encode_accelerator v = w_seq
     [w_u8 (accelerator_vendor_value (at_vendor v)), w_str (at_architecture v),
     w_u32 (at_compute_major v), w_u32 (at_compute_minor v), w_str (at_isa v),
     w_str (at_device_runtime v)]"

definition decode_accelerator :: "accelerator_target reader" where
  "decode_accelerator =
     r_bind (r_enum accelerator_vendors) (\<lambda>vendor. r_bind r_str (\<lambda>architecture.
     r_bind r_u32 (\<lambda>compute_major. r_bind r_u32 (\<lambda>compute_minor.
     r_bind r_str (\<lambda>isa. r_bind r_str (\<lambda>device_runtime.
     r_return
       \<lparr>at_vendor = vendor, at_architecture = architecture,
       at_compute_major = compute_major, at_compute_minor = compute_minor, at_isa = isa,
       at_device_runtime = device_runtime\<rparr>))))))"

lemma accelerator_grows [simp]: "w_grows (encode_accelerator v)"
  unfolding encode_accelerator_def by (rule w_grows_seq) simp_all

lemma accelerator_faithful [codec]:
  "faithful (encode_accelerator v) decode_accelerator v"
  unfolding encode_accelerator_def decode_accelerator_def
  by (rule faithful_seq_Cons faithful_seq_Nil codec | (simp; fail))+

section \<open>Target identity\<close>

definition encode_target :: "target_identity \<Rightarrow> writer" where
  "encode_target v = w_seq
     [w_id (tg_id v), w_gen (tg_generation v), w_u8 (os_kind_value (tg_os v)),
     w_u8 (arch_kind_value (tg_arch v)), w_u8 (abi_kind_value (tg_abi v)), w_str (tg_triple v),
     w_u8 (object_format_value (tg_object_format v)), w_u8 (stdlib_kind_value (tg_stdlib v)),
     w_str (tg_runtime_abi v), encode_accelerator (tg_accelerator v),
     w_u8 (evidence_class_value (tg_evidence v)), w_digest (tg_identity_digest v)]"

definition decode_target_fields :: "target_identity reader" where
  "decode_target_fields =
     r_bind r_id (\<lambda>id. r_bind r_gen (\<lambda>generation. r_bind (r_enum os_kinds) (\<lambda>os.
     r_bind (r_enum arch_kinds) (\<lambda>arch. r_bind (r_enum abi_kinds) (\<lambda>abi.
     r_bind r_str (\<lambda>triple. r_bind (r_enum object_formats) (\<lambda>object_format.
     r_bind (r_enum stdlib_kinds) (\<lambda>stdlib. r_bind r_str (\<lambda>runtime_abi.
     r_bind decode_accelerator (\<lambda>accelerator.
     r_bind (r_enum evidence_classes) (\<lambda>evidence. r_bind r_digest (\<lambda>identity_digest.
     r_return
       \<lparr>tg_id = id, tg_generation = generation, tg_os = os, tg_arch = arch, tg_abi = abi,
       tg_triple = triple, tg_object_format = object_format, tg_stdlib = stdlib,
       tg_runtime_abi = runtime_abi, tg_accelerator = accelerator, tg_evidence = evidence,
       tg_identity_digest = identity_digest\<rparr>))))))))))))"

definition accept_target :: "target_identity \<Rightarrow> target_identity reader" where
  "accept_target v =
    (r_computed [] (derive_target_id v) (\<lambda>i.
     r_computed [] (compute_target_identity (v\<lparr>tg_id := i\<rparr>)) (\<lambda>d.
     r_intact (tg_identity_digest v = d \<and> tg_id v = i)
       ''target identity does not match its contents''
       (r_return (v\<lparr>tg_id := i, tg_identity_digest := d\<rparr>)))))"

definition decode_target :: "target_identity reader" where
  "decode_target = r_bind decode_target_fields accept_target"

definition target_encodable :: "target_identity \<Rightarrow> bool" where
  "target_encodable v \<longleftrightarrow>
     tg_id v \<noteq> Ident 0 \<and> derive_target_id v = Inr (tg_id v)
     \<and> compute_target_identity v = Inr (tg_identity_digest v)"

lemma target_grows [simp]: "w_grows (encode_target v)"
  unfolding encode_target_def by (rule w_grows_seq) simp_all

lemma target_fields_faithful:
  "target_encodable v \<Longrightarrow> faithful (encode_target v) decode_target_fields v"
  unfolding encode_target_def decode_target_fields_def
  by (rule faithful_seq_Cons faithful_seq_Nil codec | (simp add: target_encodable_def; fail))+

lemma target_faithful [codec]:
  "target_encodable v \<Longrightarrow> faithful (encode_target v) decode_target v"
  unfolding decode_target_def
  by (rule faithful_after [OF target_fields_faithful]) 
    (auto simp: accept_target_def target_encodable_def dest: leD)

interpretation target_codec: element_codec encode_target decode_target id target_encodable
  by unfold_locales (simp_all add: target_faithful)

lemma targets_faithful [codec]:
  "\<forall>x\<in>set xs. target_encodable x \<Longrightarrow> faithful (w_list_of encode_target xs) (r_list_of decode_target) xs"
  using target_codec.list_faithful [of xs] by simp

section \<open>Spec field\<close>

definition encode_spec_field :: "spec_field \<Rightarrow> writer" where
  "encode_spec_field v = w_seq
     [w_str (sf_name v), w_u8 (spec_value_kind_value (sf_kind v)), w_i64 (sf_signed_value v),
     w_u64 (sf_unsigned_value v), w_f64 (sf_floating_value v), w_str (sf_text_value v),
     w_bool (sf_boolean_value v)]"

definition decode_spec_field :: "spec_field reader" where
  "decode_spec_field =
     r_bind r_str (\<lambda>name. r_bind (r_enum spec_value_kinds) (\<lambda>kind.
     r_bind r_i64 (\<lambda>signed_value. r_bind r_u64 (\<lambda>unsigned_value.
     r_bind r_f64 (\<lambda>floating_value. r_bind r_str (\<lambda>text_value.
     r_bind r_bool (\<lambda>boolean_value.
     r_return
       \<lparr>sf_name = name, sf_kind = kind, sf_signed_value = signed_value,
       sf_unsigned_value = unsigned_value, sf_floating_value = floating_value,
       sf_boolean_value = boolean_value, sf_text_value = text_value\<rparr>)))))))"

lemma spec_field_grows [simp]: "w_grows (encode_spec_field v)"
  unfolding encode_spec_field_def by (rule w_grows_seq) simp_all

lemma spec_field_faithful [codec]:
  "faithful (encode_spec_field v) decode_spec_field v"
  unfolding encode_spec_field_def decode_spec_field_def
  by (rule faithful_seq_Cons faithful_seq_Nil codec | (simp; fail))+

interpretation spec_field_codec: element_codec encode_spec_field decode_spec_field id "\<lambda>_. True"
  by unfold_locales (simp_all add: spec_field_faithful)

lemma spec_fields_faithful [codec]:
  "faithful (w_list_of encode_spec_field xs) (r_list_of decode_spec_field) xs"
  using spec_field_codec.list_faithful [of xs] by simp

section \<open>Specialization spec\<close>

definition encode_specialization :: "specialization_spec \<Rightarrow> writer" where
  "encode_specialization v = w_seq
     [w_id (sp_id v), w_gen (sp_generation v), w_list_of encode_spec_field (sp_fields v),
     w_digest (sp_identity_digest v)]"

definition decode_specialization_fields :: "specialization_spec reader" where
  "decode_specialization_fields =
     r_bind r_id (\<lambda>id. r_bind r_gen (\<lambda>generation.
     r_bind (r_list_of decode_spec_field) (\<lambda>fields. r_bind r_digest (\<lambda>identity_digest.
     r_return
       \<lparr>sp_id = id, sp_generation = generation, sp_fields = fields,
       sp_identity_digest = identity_digest\<rparr>))))"

definition accept_specialization :: "specialization_spec \<Rightarrow> specialization_spec reader" where
  "accept_specialization v =
    (r_computed ''specialization rejected: '' (canonicalize_specialization v) (\<lambda>w.
     r_intact (sp_identity_digest v = sp_identity_digest w)
       ''specialization identity digest does not match its contents'' (r_return w)))"

definition decode_specialization :: "specialization_spec reader" where
  "decode_specialization = r_bind decode_specialization_fields accept_specialization"

definition specialization_encodable :: "specialization_spec \<Rightarrow> bool" where
  "specialization_encodable v \<longleftrightarrow>
     sp_id v \<noteq> Ident 0 \<and> canonicalize_specialization v = Inr v"

lemma specialization_grows [simp]: "w_grows (encode_specialization v)"
  unfolding encode_specialization_def by (rule w_grows_seq) simp_all

lemma specialization_fields_faithful:
  "specialization_encodable v \<Longrightarrow> faithful (encode_specialization v) decode_specialization_fields v"
  unfolding encode_specialization_def decode_specialization_fields_def
  by (rule faithful_seq_Cons faithful_seq_Nil codec | (simp add: specialization_encodable_def; fail))+

lemma specialization_faithful [codec]:
  "specialization_encodable v \<Longrightarrow> faithful (encode_specialization v) decode_specialization v"
  unfolding decode_specialization_def
  by (rule faithful_after [OF specialization_fields_faithful]) 
    (auto simp: accept_specialization_def specialization_encodable_def dest: leD)

section \<open>Dependency entry\<close>

definition encode_dependency_entry :: "dependency_entry \<Rightarrow> writer" where
  "encode_dependency_entry v = w_seq
     [w_str (de_name v), w_u8 (dependency_kind_value (de_kind v)),
     encode_content_ref (de_content v), w_digest (de_identity_digest v)]"

definition decode_dependency_entry_fields :: "dependency_entry reader" where
  "decode_dependency_entry_fields =
     r_bind r_str (\<lambda>name. r_bind (r_enum dependency_kinds) (\<lambda>kind.
     r_bind decode_content_ref (\<lambda>content. r_bind r_digest (\<lambda>identity_digest.
     r_return
       \<lparr>de_name = name, de_kind = kind, de_content = content,
       de_identity_digest = identity_digest\<rparr>))))"

definition accept_dependency_entry :: "dependency_entry \<Rightarrow> dependency_entry reader" where
  "accept_dependency_entry v =
    (r_computed [] (compute_dependency_entry_identity v) (\<lambda>d.
     r_intact (d = de_identity_digest v) ''dependency entry identity digest mismatch'' (r_return v)))"

definition decode_dependency_entry :: "dependency_entry reader" where
  "decode_dependency_entry = r_bind decode_dependency_entry_fields accept_dependency_entry"

definition dependency_entry_encodable :: "dependency_entry \<Rightarrow> bool" where
  "dependency_entry_encodable v \<longleftrightarrow>
     compute_dependency_entry_identity v = Inr (de_identity_digest v)"

lemma dependency_entry_grows [simp]: "w_grows (encode_dependency_entry v)"
  unfolding encode_dependency_entry_def by (rule w_grows_seq) simp_all

lemma dependency_entry_fields_faithful:
  "dependency_entry_encodable v \<Longrightarrow> faithful (encode_dependency_entry v) decode_dependency_entry_fields v"
  unfolding encode_dependency_entry_def decode_dependency_entry_fields_def
  by (rule faithful_seq_Cons faithful_seq_Nil codec | (simp add: dependency_entry_encodable_def; fail))+

lemma dependency_entry_faithful [codec]:
  "dependency_entry_encodable v \<Longrightarrow> faithful (encode_dependency_entry v) decode_dependency_entry v"
  unfolding decode_dependency_entry_def
  by (rule faithful_after [OF dependency_entry_fields_faithful]) 
    (auto simp: accept_dependency_entry_def dependency_entry_encodable_def dest: leD)

interpretation dependency_entry_codec: element_codec encode_dependency_entry decode_dependency_entry id dependency_entry_encodable
  by unfold_locales (simp_all add: dependency_entry_faithful)

lemma dependency_entrys_faithful [codec]:
  "\<forall>x\<in>set xs. dependency_entry_encodable x \<Longrightarrow> faithful (w_list_of encode_dependency_entry xs) (r_list_of decode_dependency_entry) xs"
  using dependency_entry_codec.list_faithful [of xs] by simp

section \<open>Dependency set\<close>

definition encode_dependency_set :: "dependency_set \<Rightarrow> writer" where
  "encode_dependency_set v = w_seq
     [w_id (ds_id v), w_gen (ds_generation v), w_list_of encode_dependency_entry (ds_entries v),
     w_digest (ds_identity_digest v)]"

definition decode_dependency_set_fields :: "dependency_set reader" where
  "decode_dependency_set_fields =
     r_bind r_id (\<lambda>id. r_bind r_gen (\<lambda>generation.
     r_bind (r_list_of decode_dependency_entry) (\<lambda>entries.
     r_bind r_digest (\<lambda>identity_digest.
     r_return
       \<lparr>ds_id = id, ds_generation = generation, ds_entries = entries,
       ds_identity_digest = identity_digest\<rparr>))))"

definition accept_dependency_set :: "dependency_set \<Rightarrow> dependency_set reader" where
  "accept_dependency_set v =
    (r_computed [] (canonicalize_dependency_set v) (\<lambda>w.
     r_intact (ds_identity_digest v = ds_identity_digest w)
       ''dependency set identity digest mismatch'' (r_return w)))"

definition decode_dependency_set :: "dependency_set reader" where
  "decode_dependency_set = r_bind decode_dependency_set_fields accept_dependency_set"

definition dependency_set_encodable :: "dependency_set \<Rightarrow> bool" where
  "dependency_set_encodable v \<longleftrightarrow>
     ds_id v \<noteq> Ident 0 \<and> (\<forall>x\<in>set (ds_entries v). dependency_entry_encodable x)
     \<and> canonicalize_dependency_set v = Inr v"

lemma dependency_set_grows [simp]: "w_grows (encode_dependency_set v)"
  unfolding encode_dependency_set_def by (rule w_grows_seq) simp_all

lemma dependency_set_fields_faithful:
  "dependency_set_encodable v \<Longrightarrow> faithful (encode_dependency_set v) decode_dependency_set_fields v"
  unfolding encode_dependency_set_def decode_dependency_set_fields_def
  by (rule faithful_seq_Cons faithful_seq_Nil codec | (simp add: dependency_set_encodable_def; fail))+

lemma dependency_set_faithful [codec]:
  "dependency_set_encodable v \<Longrightarrow> faithful (encode_dependency_set v) decode_dependency_set v"
  unfolding decode_dependency_set_def
  by (rule faithful_after [OF dependency_set_fields_faithful]) 
    (auto simp: accept_dependency_set_def dependency_set_encodable_def dest: leD)

section \<open>Environment contract\<close>

definition encode_environment :: "environment_contract \<Rightarrow> writer" where
  "encode_environment v = w_seq
     [w_list_of encode_pair (en_variables v), w_bool (en_deterministic v),
     w_bool (en_inherit_process_environment v)]"

definition decode_environment_fields :: "environment_contract reader" where
  "decode_environment_fields =
     r_bind (r_list_of decode_pair) (\<lambda>variables. r_bind r_bool (\<lambda>deterministic.
     r_bind r_bool (\<lambda>inherit_process_environment.
     r_return
       \<lparr>en_variables = variables, en_deterministic = deterministic,
       en_inherit_process_environment = inherit_process_environment\<rparr>)))"

definition accept_environment :: "environment_contract \<Rightarrow> environment_contract reader" where
  "accept_environment v =
    (r_return (canonicalize_environment v))"

definition decode_environment :: "environment_contract reader" where
  "decode_environment = r_bind decode_environment_fields accept_environment"

definition environment_encodable :: "environment_contract \<Rightarrow> bool" where
  "environment_encodable v \<longleftrightarrow>
     canonicalize_environment v = v"

lemma environment_grows [simp]: "w_grows (encode_environment v)"
  unfolding encode_environment_def by (rule w_grows_seq) simp_all

lemma environment_fields_faithful:
  "environment_encodable v \<Longrightarrow> faithful (encode_environment v) decode_environment_fields v"
  unfolding encode_environment_def decode_environment_fields_def
  by (rule faithful_seq_Cons faithful_seq_Nil codec | (simp add: environment_encodable_def; fail))+

lemma environment_faithful [codec]:
  "environment_encodable v \<Longrightarrow> faithful (encode_environment v) decode_environment v"
  unfolding decode_environment_def
  by (rule faithful_after [OF environment_fields_faithful]) 
    (auto simp: accept_environment_def environment_encodable_def dest: leD)

section \<open>Validation requirements\<close>

definition encode_validation_requirements :: "validation_requirements \<Rightarrow> writer" where
  "encode_validation_requirements v = w_seq
     [w_bool (vr_require_format_check v), w_bool (vr_require_digest_check v),
     w_bool (vr_require_target_metadata v), w_bool (vr_require_dependency_metadata v),
     w_bool (vr_require_smoke_test v), w_str (vr_smoke_expected_stdout v),
     w_u32 (vr_smoke_timeout_ms v)]"

definition decode_validation_requirements_fields :: "validation_requirements reader" where
  "decode_validation_requirements_fields =
     r_bind r_bool (\<lambda>require_format_check. r_bind r_bool (\<lambda>require_digest_check.
     r_bind r_bool (\<lambda>require_target_metadata.
     r_bind r_bool (\<lambda>require_dependency_metadata. r_bind r_bool (\<lambda>require_smoke_test.
     r_bind r_str (\<lambda>smoke_expected_stdout. r_bind r_u32 (\<lambda>smoke_timeout_ms.
     r_return
       \<lparr>vr_require_format_check = require_format_check,
       vr_require_digest_check = require_digest_check,
       vr_require_target_metadata = require_target_metadata,
       vr_require_dependency_metadata = require_dependency_metadata,
       vr_require_smoke_test = require_smoke_test,
       vr_smoke_expected_stdout = smoke_expected_stdout, vr_smoke_timeout_ms = smoke_timeout_ms\<rparr>)))))))"

definition accept_validation_requirements :: "validation_requirements \<Rightarrow> validation_requirements reader" where
  "accept_validation_requirements v =
    (if vr_smoke_timeout_ms v = 0 \<or> vr_smoke_timeout_ms v > 3600000
     then r_fail Err_LimitExceeded ''smoke test timeout out of bounds'' else r_return v)"

definition decode_validation_requirements :: "validation_requirements reader" where
  "decode_validation_requirements = r_bind decode_validation_requirements_fields accept_validation_requirements"

definition validation_requirements_encodable :: "validation_requirements \<Rightarrow> bool" where
  "validation_requirements_encodable v \<longleftrightarrow>
     vr_smoke_timeout_ms v \<noteq> 0 \<and> vr_smoke_timeout_ms v \<le> 3600000"

lemma validation_requirements_grows [simp]: "w_grows (encode_validation_requirements v)"
  unfolding encode_validation_requirements_def by (rule w_grows_seq) simp_all

lemma validation_requirements_fields_faithful:
  "validation_requirements_encodable v \<Longrightarrow> faithful (encode_validation_requirements v) decode_validation_requirements_fields v"
  unfolding encode_validation_requirements_def decode_validation_requirements_fields_def
  by (rule faithful_seq_Cons faithful_seq_Nil codec | (simp add: validation_requirements_encodable_def; fail))+

lemma validation_requirements_faithful [codec]:
  "validation_requirements_encodable v \<Longrightarrow> faithful (encode_validation_requirements v) decode_validation_requirements v"
  unfolding decode_validation_requirements_def
  by (rule faithful_after [OF validation_requirements_fields_faithful]) 
    (auto simp: accept_validation_requirements_def validation_requirements_encodable_def dest: leD)

section \<open>Compile policy\<close>

definition encode_policy :: "compile_policy \<Rightarrow> writer" where
  "encode_policy v = w_seq
     [w_id (po_id v), w_gen (po_generation v), w_str (po_profile v),
     w_u8 (reproducibility_requirement_value (po_reproducibility v)),
     w_u8 (cache_policy_value (po_cache v)), w_bool (po_flag_order_significant v),
     w_bool (po_require_exact_generation v), w_bool (po_negative_cache_enabled v),
     w_u32 (po_negative_cache_max_entries v), w_bool (po_allow_speculative_duplication v),
     w_u32 (po_max_attempts_per_unit v), w_bool (po_require_trusted_workers v),
     w_bool (po_require_provable_toolchain v), w_digest (po_identity_digest v)]"

definition decode_policy_fields :: "compile_policy reader" where
  "decode_policy_fields =
     r_bind r_id (\<lambda>id. r_bind r_gen (\<lambda>generation. r_bind r_str (\<lambda>profile.
     r_bind (r_enum reproducibility_requirements) (\<lambda>reproducibility.
     r_bind (r_enum cache_policies) (\<lambda>cache. r_bind r_bool (\<lambda>flag_order_significant.
     r_bind r_bool (\<lambda>require_exact_generation. r_bind r_bool (\<lambda>negative_cache_enabled.
     r_bind r_u32 (\<lambda>negative_cache_max_entries.
     r_bind r_bool (\<lambda>allow_speculative_duplication. r_bind r_u32 (\<lambda>max_attempts_per_unit.
     r_bind r_bool (\<lambda>require_trusted_workers. r_bind r_bool (\<lambda>require_provable_toolchain.
     r_bind r_digest (\<lambda>identity_digest.
     r_return
       \<lparr>po_id = id, po_generation = generation, po_profile = profile,
       po_reproducibility = reproducibility, po_cache = cache,
       po_flag_order_significant = flag_order_significant,
       po_require_exact_generation = require_exact_generation,
       po_negative_cache_enabled = negative_cache_enabled,
       po_negative_cache_max_entries = negative_cache_max_entries,
       po_allow_speculative_duplication = allow_speculative_duplication,
       po_max_attempts_per_unit = max_attempts_per_unit,
       po_require_trusted_workers = require_trusted_workers,
       po_require_provable_toolchain = require_provable_toolchain,
       po_identity_digest = identity_digest\<rparr>))))))))))))))"

definition accept_policy :: "compile_policy \<Rightarrow> compile_policy reader" where
  "accept_policy v =
    (if po_max_attempts_per_unit v = 0 \<or> po_max_attempts_per_unit v > 64
     then r_fail Err_LimitExceeded ''max_attempts_per_unit out of bounds''
     else if po_negative_cache_max_entries v > 4096
     then r_fail Err_LimitExceeded ''negative cache bound out of range''
     else r_computed [] (derive_policy_id v) (\<lambda>i.
       r_computed [] (compute_policy_identity (v\<lparr>po_id := i\<rparr>)) (\<lambda>d.
       r_intact (po_identity_digest v = d) ''policy identity digest mismatch''
         (r_return (v\<lparr>po_id := i, po_identity_digest := d\<rparr>)))))"

definition decode_policy :: "compile_policy reader" where
  "decode_policy = r_bind decode_policy_fields accept_policy"

definition policy_encodable :: "compile_policy \<Rightarrow> bool" where
  "policy_encodable v \<longleftrightarrow>
     po_id v \<noteq> Ident 0 \<and> po_max_attempts_per_unit v \<noteq> 0
     \<and> po_max_attempts_per_unit v \<le> 64 \<and> po_negative_cache_max_entries v \<le> 4096
     \<and> derive_policy_id v = Inr (po_id v)
     \<and> compute_policy_identity v = Inr (po_identity_digest v)"

lemma policy_grows [simp]: "w_grows (encode_policy v)"
  unfolding encode_policy_def by (rule w_grows_seq) simp_all

lemma policy_fields_faithful:
  "policy_encodable v \<Longrightarrow> faithful (encode_policy v) decode_policy_fields v"
  unfolding encode_policy_def decode_policy_fields_def
  by (rule faithful_seq_Cons faithful_seq_Nil codec | (simp add: policy_encodable_def; fail))+

lemma policy_faithful [codec]:
  "policy_encodable v \<Longrightarrow> faithful (encode_policy v) decode_policy v"
  unfolding decode_policy_def
  by (rule faithful_after [OF policy_fields_faithful]) 
    (auto simp: accept_policy_def policy_encodable_def dest: leD)

section \<open>Unit source\<close>

definition encode_unit_source :: "unit_source \<Rightarrow> writer" where
  "encode_unit_source v = w_seq
     [w_str (us_logical_name v), w_u8 (input_format_value (us_format v)),
     w_str (us_language_mode v), encode_content_ref (us_content v)]"

definition decode_unit_source :: "unit_source reader" where
  "decode_unit_source =
     r_bind r_str (\<lambda>logical_name. r_bind (r_enum input_formats) (\<lambda>format.
     r_bind r_str (\<lambda>language_mode. r_bind decode_content_ref (\<lambda>content.
     r_return
       \<lparr>us_logical_name = logical_name, us_format = format,
       us_language_mode = language_mode, us_content = content, us_identity_digest = 0\<rparr>))))"

text \<open>What the encoding keeps of the record.\<close>

definition unit_source_fields :: "unit_source \<Rightarrow> unit_source" where
  "unit_source_fields v = v\<lparr>us_identity_digest := 0\<rparr>"

lemma unit_source_grows [simp]: "w_grows (encode_unit_source v)"
  unfolding encode_unit_source_def by (rule w_grows_seq) simp_all

lemma unit_source_faithful [codec]:
  "faithful (encode_unit_source v) decode_unit_source (unit_source_fields v)"
  unfolding encode_unit_source_def decode_unit_source_def
  by (rule faithful_seq_Cons faithful_seq_Nil codec | (simp add: unit_source_fields_def; fail))+

interpretation unit_source_codec: element_codec encode_unit_source decode_unit_source unit_source_fields "\<lambda>_. True"
  by unfold_locales (simp_all add: unit_source_faithful)

lemma unit_sources_faithful [codec]:
  "faithful (w_list_of encode_unit_source xs) (r_list_of decode_unit_source) (map unit_source_fields xs)"
  using unit_source_codec.list_faithful [of xs] by simp

section \<open>Compilation unit spec\<close>

definition encode_unit_spec :: "compilation_unit_spec \<Rightarrow> writer" where
  "encode_unit_spec v = w_seq
     [w_u32 (un_index v), w_str (un_logical_name v), w_u8 (unit_kind_value (un_kind v)),
     w_list_of encode_unit_source (un_sources v),
     w_list_of encode_dependency_entry (un_dependencies v), write_string_list (un_flags v),
     w_u8 (output_kind_value (un_output_kind v)), w_list_of w_u32 (un_child_units v),
     w_bool (un_mandatory v), w_digest (un_identity_digest v)]"

definition decode_unit_spec :: "compilation_unit_spec reader" where
  "decode_unit_spec =
     r_bind r_u32 (\<lambda>index. r_bind r_str (\<lambda>logical_name.
     r_bind (r_enum unit_kinds) (\<lambda>kind. r_bind (r_list_of decode_unit_source) (\<lambda>sources.
     r_bind (r_list_of decode_dependency_entry) (\<lambda>dependencies.
     r_bind read_string_list (\<lambda>flags. r_bind (r_enum output_kinds) (\<lambda>output_kind.
     r_bind (r_list_of r_u32) (\<lambda>child_units. r_bind r_bool (\<lambda>mandatory.
     r_bind r_digest (\<lambda>identity_digest.
     r_return
       \<lparr>un_index = index, un_logical_name = logical_name, un_kind = kind,
       un_sources = sources, un_dependencies = dependencies, un_flags = flags,
       un_output_kind = output_kind, un_child_units = child_units, un_mandatory = mandatory,
       un_identity_digest = identity_digest\<rparr>))))))))))"

text \<open>What the encoding keeps of the record.\<close>

definition unit_spec_fields :: "compilation_unit_spec \<Rightarrow> compilation_unit_spec" where
  "unit_spec_fields v = v\<lparr>un_sources := map unit_source_fields (un_sources v)\<rparr>"

definition unit_spec_encodable :: "compilation_unit_spec \<Rightarrow> bool" where
  "unit_spec_encodable v \<longleftrightarrow>
     (\<forall>x\<in>set (un_dependencies v). dependency_entry_encodable x)"

lemma unit_spec_grows [simp]: "w_grows (encode_unit_spec v)"
  unfolding encode_unit_spec_def by (rule w_grows_seq) simp_all

lemma unit_spec_faithful [codec]:
  "unit_spec_encodable v \<Longrightarrow> faithful (encode_unit_spec v) decode_unit_spec (unit_spec_fields v)"
  unfolding encode_unit_spec_def decode_unit_spec_def
  by (rule faithful_seq_Cons faithful_seq_Nil codec | (simp add: unit_spec_encodable_def unit_spec_fields_def; fail))+

interpretation unit_spec_codec: element_codec encode_unit_spec decode_unit_spec unit_spec_fields unit_spec_encodable
  by unfold_locales (simp_all add: unit_spec_faithful)

lemma unit_specs_faithful [codec]:
  "\<forall>x\<in>set xs. unit_spec_encodable x \<Longrightarrow> faithful (w_list_of encode_unit_spec xs) (r_list_of decode_unit_spec) (map unit_spec_fields xs)"
  using unit_spec_codec.list_faithful [of xs] by simp

section \<open>Compilation request\<close>

definition encode_request :: "compilation_request \<Rightarrow> writer" where
  "encode_request v = w_seq
     [w_id (rq_request_id v), w_gen (rq_request_generation v), encode_toolchain (rq_toolchain v),
     encode_target (rq_target v), encode_specialization (rq_specialization v),
     encode_policy (rq_policy v), encode_dependency_set (rq_dependencies v),
     encode_environment (rq_environment v), write_string_list (rq_flags v),
     encode_validation_requirements (rq_validation v), w_list_of encode_unit_spec (rq_units v),
     w_digest (rq_authority_generation v), w_digest (rq_request_identity v)]"

definition decode_request_fields :: "compilation_request reader" where
  "decode_request_fields =
     r_bind r_id (\<lambda>request_id. r_bind r_gen (\<lambda>request_generation.
     r_bind decode_toolchain (\<lambda>toolchain. r_bind decode_target (\<lambda>target.
     r_bind decode_specialization (\<lambda>specialization. r_bind decode_policy (\<lambda>policy.
     r_bind decode_dependency_set (\<lambda>dependencies.
     r_bind decode_environment (\<lambda>environment. r_bind read_string_list (\<lambda>flags.
     r_bind decode_validation_requirements (\<lambda>validation.
     r_bind (r_list_of decode_unit_spec) (\<lambda>units. r_bind r_digest (\<lambda>authority_generation.
     r_bind r_digest (\<lambda>request_identity.
     r_return
       \<lparr>rq_request_id = request_id, rq_request_generation = request_generation,
       rq_toolchain = toolchain, rq_target = target, rq_specialization = specialization,
       rq_policy = policy, rq_dependencies = dependencies, rq_environment = environment,
       rq_flags = flags, rq_validation = validation, rq_units = units,
       rq_authority_generation = authority_generation, rq_request_identity = request_identity\<rparr>)))))))))))))"

text \<open>What the encoding keeps of the record.\<close>

definition request_fields :: "compilation_request \<Rightarrow> compilation_request" where
  "request_fields v = v\<lparr>rq_toolchain := toolchain_fields (rq_toolchain v),
     rq_units := map unit_spec_fields (rq_units v)\<rparr>"

definition accept_request :: "compilation_request \<Rightarrow> compilation_request reader" where
  "accept_request v =
    (r_computed ''request rejected during canonicalization: '' (canonicalize v) (\<lambda>w.
     r_intact (rq_request_identity v = rq_request_identity w)
       ''request identity digest does not match its contents''
     (r_intact (map un_identity_digest (rq_units v) = map un_identity_digest (rq_units w))
       ''unit identity digest does not match its contents'' (r_return w))))"

definition decode_request :: "compilation_request reader" where
  "decode_request = r_bind decode_request_fields accept_request"

definition request_view :: "compilation_request \<Rightarrow> compilation_request" where
  "request_view v = v\<lparr>rq_toolchain := toolchain_fields (rq_toolchain v)\<rparr>"

definition request_encodable :: "compilation_request \<Rightarrow> bool" where
  "request_encodable v \<longleftrightarrow>
     rq_request_id v \<noteq> Ident 0 \<and> toolchain_encodable (rq_toolchain v)
     \<and> target_encodable (rq_target v) \<and> specialization_encodable (rq_specialization v)
     \<and> policy_encodable (rq_policy v) \<and> dependency_set_encodable (rq_dependencies v)
     \<and> environment_encodable (rq_environment v)
     \<and> validation_requirements_encodable (rq_validation v)
     \<and> (\<forall>x\<in>set (rq_units v). unit_spec_encodable x)
     \<and> canonicalize (request_fields v) = Inr (request_view v)"

lemma request_grows [simp]: "w_grows (encode_request v)"
  unfolding encode_request_def by (rule w_grows_seq) simp_all

lemma request_fields_faithful:
  "request_encodable v \<Longrightarrow> faithful (encode_request v) decode_request_fields (request_fields v)"
  unfolding encode_request_def decode_request_fields_def
  by (rule faithful_seq_Cons faithful_seq_Nil codec | (simp add: request_encodable_def request_fields_def; fail))+

lemma request_faithful [codec]:
  "request_encodable v \<Longrightarrow> faithful (encode_request v) decode_request (request_view v)"
  unfolding decode_request_def
  by (rule faithful_after [OF request_fields_faithful]) 
    (auto simp: accept_request_def request_encodable_def request_fields_def request_view_def unit_spec_fields_def comp_def dest: leD)

section \<open>Worker capabilities\<close>

definition encode_capabilities :: "worker_capabilities \<Rightarrow> writer" where
  "encode_capabilities v = w_seq
     [w_list_of encode_toolchain (wc_toolchains v), w_list_of encode_target (wc_targets v),
     w_list_of (\<lambda>f. w_u8 (input_format_value f)) (wc_input_formats v),
     w_list_of encode_plugin (wc_plugins v), w_list_of encode_sdk (wc_sdks v),
     w_u32 (wc_logical_cores v), w_u64 (wc_memory_bytes v), w_u64 (wc_scratch_bytes v),
     w_u64 (wc_max_artifact_bytes v), w_bool (wc_filesystem_isolation v), w_bool (wc_sandbox v),
     w_bool (wc_deterministic_build v), w_bool (wc_remote_cache_access v),
     w_bool (wc_artifact_store_access v), w_bool (wc_trusted v),
     w_u8 (evidence_class_value (wc_evidence v)), w_str (wc_host v), w_digest (wc_digest v)]"

definition decode_capabilities_fields :: "worker_capabilities reader" where
  "decode_capabilities_fields =
     r_bind (r_list_of decode_toolchain) (\<lambda>toolchains.
     r_bind (r_list_of decode_target) (\<lambda>targets.
     r_bind (r_list_of (r_enum input_formats)) (\<lambda>input_formats.
     r_bind (r_list_of decode_plugin) (\<lambda>plugins. r_bind (r_list_of decode_sdk) (\<lambda>sdks.
     r_bind r_u32 (\<lambda>logical_cores. r_bind r_u64 (\<lambda>memory_bytes.
     r_bind r_u64 (\<lambda>scratch_bytes. r_bind r_u64 (\<lambda>max_artifact_bytes.
     r_bind r_bool (\<lambda>filesystem_isolation. r_bind r_bool (\<lambda>sandbox.
     r_bind r_bool (\<lambda>deterministic_build. r_bind r_bool (\<lambda>remote_cache_access.
     r_bind r_bool (\<lambda>artifact_store_access. r_bind r_bool (\<lambda>trusted.
     r_bind (r_enum evidence_classes) (\<lambda>evidence. r_bind r_str (\<lambda>host.
     r_bind r_digest (\<lambda>digest.
     r_return
       \<lparr>wc_toolchains = toolchains, wc_targets = targets,
       wc_input_formats = input_formats, wc_plugins = plugins, wc_sdks = sdks,
       wc_logical_cores = logical_cores, wc_memory_bytes = memory_bytes,
       wc_scratch_bytes = scratch_bytes, wc_max_artifact_bytes = max_artifact_bytes,
       wc_filesystem_isolation = filesystem_isolation, wc_sandbox = sandbox,
       wc_deterministic_build = deterministic_build,
       wc_remote_cache_access = remote_cache_access,
       wc_artifact_store_access = artifact_store_access, wc_trusted = trusted,
       wc_evidence = evidence, wc_host = host, wc_digest = digest\<rparr>))))))))))))))))))"

text \<open>What the encoding keeps of the record.\<close>

definition capabilities_fields :: "worker_capabilities \<Rightarrow> worker_capabilities" where
  "capabilities_fields v = v\<lparr>wc_toolchains := map toolchain_fields (wc_toolchains v),
     wc_sdks := map sdk_fields (wc_sdks v)\<rparr>"

definition accept_capabilities :: "worker_capabilities \<Rightarrow> worker_capabilities reader" where
  "accept_capabilities v =
    (r_computed [] (canonicalize_capabilities v) (\<lambda>w.
     r_intact (wc_digest v = wc_digest w)
       ''capability digest does not match its contents'' (r_return w)))"

definition decode_capabilities :: "worker_capabilities reader" where
  "decode_capabilities = r_bind decode_capabilities_fields accept_capabilities"

definition capabilities_encodable :: "worker_capabilities \<Rightarrow> bool" where
  "capabilities_encodable v \<longleftrightarrow>
     (\<forall>x\<in>set (wc_toolchains v). toolchain_encodable x)
     \<and> (\<forall>x\<in>set (wc_targets v). target_encodable x)
     \<and> canonicalize_capabilities (capabilities_fields v) = Inr (capabilities_fields v)"

lemma capabilities_grows [simp]: "w_grows (encode_capabilities v)"
  unfolding encode_capabilities_def by (rule w_grows_seq) simp_all

lemma capabilities_fields_faithful:
  "capabilities_encodable v \<Longrightarrow> faithful (encode_capabilities v) decode_capabilities_fields (capabilities_fields v)"
  unfolding encode_capabilities_def decode_capabilities_fields_def
  by (rule faithful_seq_Cons faithful_seq_Nil codec | (simp add: capabilities_encodable_def capabilities_fields_def; fail))+

lemma capabilities_faithful [codec]:
  "capabilities_encodable v \<Longrightarrow> faithful (encode_capabilities v) decode_capabilities (capabilities_fields v)"
  unfolding decode_capabilities_def
  by (rule faithful_after [OF capabilities_fields_faithful]) 
    (auto simp: accept_capabilities_def capabilities_encodable_def capabilities_fields_def dest: leD)

section \<open>Worker record\<close>

definition encode_worker :: "worker_record \<Rightarrow> writer" where
  "encode_worker v = w_seq
     [w_id (wk_id v), w_id (wk_boot v), w_gen (wk_generation v), w_id (wk_session v),
     w_str (wk_endpoint v), w_str (wk_host v), encode_capabilities (wk_capabilities v),
     w_u8 (worker_health_value (wk_health v)), w_bool (wk_ready v), w_bool (wk_fenced v),
     w_bool (wk_trusted_evidence_fresh v), w_u32 (wk_queue_depth v), w_u32 (wk_in_flight v),
     w_u64 (wk_completed_units v), w_u64 (wk_failed_units v), w_u64 (wk_total_compile_millis v),
     w_u64 (wk_cache_affinity_hits v), w_millis (wk_registered_at v), w_millis (wk_last_seen v),
     w_list_of w_id (wk_active_leases v)]"

definition decode_worker :: "worker_record reader" where
  "decode_worker =
     r_bind r_id (\<lambda>id. r_bind r_id (\<lambda>boot. r_bind r_gen (\<lambda>generation.
     r_bind r_optional_id (\<lambda>session. r_bind r_str (\<lambda>endpoint.
     r_bind r_str (\<lambda>host. r_bind decode_capabilities (\<lambda>capabilities.
     r_bind (r_enum worker_healths) (\<lambda>health. r_bind r_bool (\<lambda>ready.
     r_bind r_bool (\<lambda>fenced. r_bind r_bool (\<lambda>trusted_evidence_fresh.
     r_bind r_u32 (\<lambda>queue_depth. r_bind r_u32 (\<lambda>in_flight.
     r_bind r_u64 (\<lambda>completed_units. r_bind r_u64 (\<lambda>failed_units.
     r_bind r_u64 (\<lambda>total_compile_millis. r_bind r_u64 (\<lambda>cache_affinity_hits.
     r_bind r_millis (\<lambda>registered_at. r_bind r_millis (\<lambda>last_seen.
     r_bind (r_list_of r_id) (\<lambda>active_leases.
     r_return
       \<lparr>wk_id = id, wk_boot = boot, wk_generation = generation, wk_session = session,
       wk_endpoint = endpoint, wk_host = host, wk_capabilities = capabilities,
       wk_health = health, wk_ready = ready, wk_fenced = fenced,
       wk_trusted_evidence_fresh = trusted_evidence_fresh, wk_queue_depth = queue_depth,
       wk_in_flight = in_flight, wk_completed_units = completed_units,
       wk_failed_units = failed_units, wk_total_compile_millis = total_compile_millis,
       wk_cache_affinity_hits = cache_affinity_hits, wk_registered_at = registered_at,
       wk_last_seen = last_seen, wk_active_leases = active_leases\<rparr>))))))))))))))))))))"

text \<open>What the encoding keeps of the record.\<close>

definition worker_fields :: "worker_record \<Rightarrow> worker_record" where
  "worker_fields v = v\<lparr>wk_capabilities := capabilities_fields (wk_capabilities v)\<rparr>"

definition worker_encodable :: "worker_record \<Rightarrow> bool" where
  "worker_encodable v \<longleftrightarrow>
     wk_id v \<noteq> Ident 0 \<and> wk_boot v \<noteq> Ident 0
     \<and> capabilities_encodable (wk_capabilities v) \<and> is_i64 (wk_registered_at v)
     \<and> is_i64 (wk_last_seen v) \<and> (\<forall>i\<in>set (wk_active_leases v). i \<noteq> Ident 0)"

lemma worker_grows [simp]: "w_grows (encode_worker v)"
  unfolding encode_worker_def by (rule w_grows_seq) simp_all

lemma worker_faithful [codec]:
  "worker_encodable v \<Longrightarrow> faithful (encode_worker v) decode_worker (worker_fields v)"
  unfolding encode_worker_def decode_worker_def
  by (rule faithful_seq_Cons faithful_seq_Nil codec | (simp add: worker_encodable_def worker_fields_def; fail))+

end
