(* ===== verification/DC_RecordCodec.thy ===== *)
theory DC_RecordCodec
  imports DC_Codec
begin

text \<open>
  The codecs of the records a coordinator keeps (\<^verbatim>\<open>src/codec.cpp\<close>): leases, validation reports,
  attempts, provenance, commits, artifacts, cache entries, intermediates, compilations and jobs.
\<close>

section \<open>Compile lease\<close>

definition encode_lease :: "compile_lease \<Rightarrow> writer" where
  "encode_lease v = w_seq
     [w_id (cl_id v), w_gen (cl_generation v), w_id (cl_compilation v),
     w_gen (cl_compilation_generation v), w_id (cl_unit v), w_id (cl_attempt v),
     w_id (cl_worker v), w_id (cl_worker_boot v), w_gen (cl_worker_generation v),
     w_gen (cl_epoch v), w_millis (cl_issued_at v), w_bool (cl_revoked v),
     w_str (cl_revocation_reason v)]"

definition decode_lease :: "compile_lease reader" where
  "decode_lease =
     r_bind r_id (\<lambda>id. r_bind r_gen (\<lambda>generation. r_bind r_id (\<lambda>compilation.
     r_bind r_gen (\<lambda>compilation_generation. r_bind r_id (\<lambda>unit.
     r_bind r_id (\<lambda>attempt. r_bind r_id (\<lambda>worker. r_bind r_id (\<lambda>worker_boot.
     r_bind r_gen (\<lambda>worker_generation. r_bind r_gen (\<lambda>epoch.
     r_bind r_millis (\<lambda>issued_at. r_bind r_bool (\<lambda>revoked.
     r_bind r_str (\<lambda>revocation_reason.
     r_return
       \<lparr>cl_id = id, cl_generation = generation, cl_compilation = compilation,
       cl_compilation_generation = compilation_generation, cl_unit = unit, cl_attempt = attempt,
       cl_worker = worker, cl_worker_boot = worker_boot,
       cl_worker_generation = worker_generation, cl_epoch = epoch, cl_issued_at = issued_at,
       cl_revoked = revoked, cl_revocation_reason = revocation_reason\<rparr>)))))))))))))"

definition lease_encodable :: "compile_lease \<Rightarrow> bool" where
  "lease_encodable v \<longleftrightarrow>
     cl_id v \<noteq> Ident 0 \<and> cl_compilation v \<noteq> Ident 0 \<and> cl_unit v \<noteq> Ident 0
     \<and> cl_attempt v \<noteq> Ident 0 \<and> cl_worker v \<noteq> Ident 0
     \<and> cl_worker_boot v \<noteq> Ident 0 \<and> is_i64 (cl_issued_at v)"

lemma lease_grows [simp]: "w_grows (encode_lease v)"
  unfolding encode_lease_def by (rule w_grows_seq) simp_all

lemma lease_faithful [codec]:
  "lease_encodable v \<Longrightarrow> faithful (encode_lease v) decode_lease v"
  unfolding encode_lease_def decode_lease_def
  by (rule faithful_seq_Cons faithful_seq_Nil codec | (simp add: lease_encodable_def; fail))+

section \<open>Validation check\<close>

definition encode_validation_check :: "validation_check \<Rightarrow> writer" where
  "encode_validation_check v = w_seq
     [w_str (vc_check v), w_u8 (validation_outcome_value (vc_outcome v)), w_str (vc_detail v)]"

definition decode_validation_check :: "validation_check reader" where
  "decode_validation_check =
     r_bind r_str (\<lambda>check. r_bind (r_enum validation_outcomes) (\<lambda>outcome.
     r_bind r_str (\<lambda>detail.
     r_return
       \<lparr>vc_check = check, vc_outcome = outcome, vc_detail = detail\<rparr>)))"

lemma validation_check_grows [simp]: "w_grows (encode_validation_check v)"
  unfolding encode_validation_check_def by (rule w_grows_seq) simp_all

lemma validation_check_faithful [codec]:
  "faithful (encode_validation_check v) decode_validation_check v"
  unfolding encode_validation_check_def decode_validation_check_def
  by (rule faithful_seq_Cons faithful_seq_Nil codec | (simp; fail))+

interpretation validation_check_codec: element_codec encode_validation_check decode_validation_check id "\<lambda>_. True"
  by unfold_locales (simp_all add: validation_check_faithful)

lemma validation_checks_faithful [codec]:
  "length xs \<le> n \<Longrightarrow> faithful (w_list_of encode_validation_check xs) (r_bounded_list n d decode_validation_check) xs"
  using validation_check_codec.bounded_list_faithful [of xs] by simp

section \<open>Validation report\<close>

definition encode_validation_report :: "validation_report \<Rightarrow> writer" where
  "encode_validation_report v = w_seq
     [w_id (vp_id v), w_list_of encode_validation_check (vp_checks v),
     w_u8 (validation_outcome_value (vp_aggregate v)), w_str (vp_summary v)]"

definition decode_validation_report :: "validation_report reader" where
  "decode_validation_report =
     r_bind r_optional_id (\<lambda>id.
     r_bind (r_bounded_list 4096 ''validation check count out of range'' decode_validation_check) (\<lambda>checks.
     r_bind (r_enum validation_outcomes) (\<lambda>aggregate. r_bind r_str (\<lambda>summary.
     r_return
       \<lparr>vp_id = id, vp_checks = checks, vp_aggregate = aggregate, vp_summary = summary\<rparr>))))"

definition validation_report_encodable :: "validation_report \<Rightarrow> bool" where
  "validation_report_encodable v \<longleftrightarrow>
     length (vp_checks v) \<le> 4096"

lemma validation_report_grows [simp]: "w_grows (encode_validation_report v)"
  unfolding encode_validation_report_def by (rule w_grows_seq) simp_all

lemma validation_report_faithful [codec]:
  "validation_report_encodable v \<Longrightarrow> faithful (encode_validation_report v) decode_validation_report v"
  unfolding encode_validation_report_def decode_validation_report_def
  by (rule faithful_seq_Cons faithful_seq_Nil codec | (simp add: validation_report_encodable_def; fail))+

section \<open>Compilation attempt\<close>

definition encode_attempt :: "compilation_attempt \<Rightarrow> writer" where
  "encode_attempt v = w_seq
     [w_id (ca_id v), w_gen (ca_generation v), w_id (ca_compilation v),
     w_gen (ca_compilation_generation v), w_id (ca_unit v), w_id (ca_worker v),
     w_id (ca_worker_boot v), w_gen (ca_worker_generation v), w_id (ca_lease v),
     w_gen (ca_lease_generation v), w_gen (ca_epoch v), w_u8 (attempt_state_value (ca_state v)),
     w_u32 (ca_ordinal v), w_bool (ca_speculative v), w_millis (ca_created_at v),
     w_millis (ca_started_at v), w_millis (ca_finished_at v), w_error (ca_failure v),
     w_str (ca_failure_detail v), encode_validation_report (ca_validation v),
     encode_content_ref (ca_candidate v), w_digest (ca_candidate_digest v), w_id (ca_artifact v),
     w_u64 (ca_compiler_wall_millis v), w_str (ca_compiler_invocation v),
     w_str (ca_compiler_version_string v)]"

definition decode_attempt :: "compilation_attempt reader" where
  "decode_attempt =
     r_bind r_id (\<lambda>id. r_bind r_gen (\<lambda>generation. r_bind r_id (\<lambda>compilation.
     r_bind r_gen (\<lambda>compilation_generation. r_bind r_id (\<lambda>unit.
     r_bind r_id (\<lambda>worker. r_bind r_id (\<lambda>worker_boot.
     r_bind r_gen (\<lambda>worker_generation. r_bind r_id (\<lambda>lease.
     r_bind r_gen (\<lambda>lease_generation. r_bind r_gen (\<lambda>epoch.
     r_bind (r_enum attempt_states) (\<lambda>state. r_bind r_u32 (\<lambda>ordinal.
     r_bind r_bool (\<lambda>speculative. r_bind r_millis (\<lambda>created_at.
     r_bind r_millis (\<lambda>started_at. r_bind r_millis (\<lambda>finished_at.
     r_bind (r_error ''attempt'') (\<lambda>failure. r_bind r_str (\<lambda>failure_detail.
     r_bind decode_validation_report (\<lambda>validation. r_bind decode_content_ref (\<lambda>candidate.
     r_bind r_digest (\<lambda>candidate_digest. r_bind r_optional_id (\<lambda>artifact.
     r_bind r_u64 (\<lambda>compiler_wall_millis. r_bind r_str (\<lambda>compiler_invocation.
     r_bind r_str (\<lambda>compiler_version_string.
     r_return
       \<lparr>ca_id = id, ca_generation = generation, ca_compilation = compilation,
       ca_compilation_generation = compilation_generation, ca_unit = unit, ca_worker = worker,
       ca_worker_boot = worker_boot, ca_worker_generation = worker_generation, ca_lease = lease,
       ca_lease_generation = lease_generation, ca_epoch = epoch, ca_state = state,
       ca_ordinal = ordinal, ca_speculative = speculative, ca_created_at = created_at,
       ca_started_at = started_at, ca_finished_at = finished_at, ca_failure = failure,
       ca_failure_detail = failure_detail, ca_validation = validation, ca_candidate = candidate,
       ca_candidate_digest = candidate_digest, ca_artifact = artifact,
       ca_compiler_wall_millis = compiler_wall_millis,
       ca_compiler_invocation = compiler_invocation,
       ca_compiler_version_string = compiler_version_string\<rparr>))))))))))))))))))))))))))"

definition attempt_encodable :: "compilation_attempt \<Rightarrow> bool" where
  "attempt_encodable v \<longleftrightarrow>
     ca_id v \<noteq> Ident 0 \<and> ca_compilation v \<noteq> Ident 0 \<and> ca_unit v \<noteq> Ident 0
     \<and> ca_worker v \<noteq> Ident 0 \<and> ca_worker_boot v \<noteq> Ident 0
     \<and> ca_lease v \<noteq> Ident 0 \<and> is_i64 (ca_created_at v)
     \<and> is_i64 (ca_started_at v) \<and> is_i64 (ca_finished_at v)
     \<and> error_in_domain (ca_failure v) \<and> validation_report_encodable (ca_validation v)"

lemma attempt_grows [simp]: "w_grows (encode_attempt v)"
  unfolding encode_attempt_def by (rule w_grows_seq) simp_all

lemma attempt_faithful [codec]:
  "attempt_encodable v \<Longrightarrow> faithful (encode_attempt v) decode_attempt v"
  unfolding encode_attempt_def decode_attempt_def
  by (rule faithful_seq_Cons faithful_seq_Nil codec | (simp add: attempt_encodable_def; fail))+

section \<open>Provenance\<close>

definition encode_provenance :: "provenance \<Rightarrow> writer" where
  "encode_provenance v = w_seq
     [w_id (pv_id v), w_gen (pv_generation v), w_id (pv_compilation v),
     w_gen (pv_compilation_generation v), w_id (pv_unit v), w_id (pv_attempt v),
     w_gen (pv_attempt_generation v), w_gen (pv_epoch v), w_id (pv_worker v),
     w_id (pv_worker_boot v), w_gen (pv_worker_generation v), w_id (pv_lease v),
     w_gen (pv_lease_generation v), w_id (pv_request_id v), w_digest (pv_request_identity v),
     w_digest (pv_unit_identity v), encode_content_ref (pv_artifact v),
     w_digest (pv_source_identity v), w_digest (pv_ir_identity v),
     w_digest (pv_dependency_identity v), w_digest (pv_toolchain_identity v),
     w_digest (pv_target_identity v), w_digest (pv_specialization_identity v),
     w_digest (pv_policy_identity v), w_id (pv_validation v),
     w_u8 (evidence_class_value (pv_evidence v)), w_str (pv_compiler_invocation v),
     w_str (pv_compiler_version_string v), w_u64 (pv_compiler_wall_millis v),
     w_millis (pv_produced_at v)]"

definition decode_provenance :: "provenance reader" where
  "decode_provenance =
     r_bind r_id (\<lambda>id. r_bind r_gen (\<lambda>generation. r_bind r_id (\<lambda>compilation.
     r_bind r_gen (\<lambda>compilation_generation. r_bind r_id (\<lambda>unit.
     r_bind r_id (\<lambda>attempt. r_bind r_gen (\<lambda>attempt_generation.
     r_bind r_gen (\<lambda>epoch. r_bind r_id (\<lambda>worker. r_bind r_id (\<lambda>worker_boot.
     r_bind r_gen (\<lambda>worker_generation. r_bind r_id (\<lambda>lease.
     r_bind r_gen (\<lambda>lease_generation. r_bind r_id (\<lambda>request_id.
     r_bind r_digest (\<lambda>request_identity. r_bind r_digest (\<lambda>unit_identity.
     r_bind decode_content_ref (\<lambda>artifact. r_bind r_digest (\<lambda>source_identity.
     r_bind r_digest (\<lambda>ir_identity. r_bind r_digest (\<lambda>dependency_identity.
     r_bind r_digest (\<lambda>toolchain_identity. r_bind r_digest (\<lambda>target_identity.
     r_bind r_digest (\<lambda>specialization_identity. r_bind r_digest (\<lambda>policy_identity.
     r_bind r_id (\<lambda>validation. r_bind (r_enum evidence_classes) (\<lambda>evidence.
     r_bind r_str (\<lambda>compiler_invocation. r_bind r_str (\<lambda>compiler_version_string.
     r_bind r_u64 (\<lambda>compiler_wall_millis. r_bind r_millis (\<lambda>produced_at.
     r_return
       \<lparr>pv_id = id, pv_generation = generation, pv_compilation = compilation,
       pv_compilation_generation = compilation_generation, pv_unit = unit, pv_attempt = attempt,
       pv_attempt_generation = attempt_generation, pv_epoch = epoch, pv_worker = worker,
       pv_worker_boot = worker_boot, pv_worker_generation = worker_generation, pv_lease = lease,
       pv_lease_generation = lease_generation, pv_request_id = request_id,
       pv_request_identity = request_identity, pv_unit_identity = unit_identity,
       pv_artifact = artifact, pv_source_identity = source_identity,
       pv_ir_identity = ir_identity, pv_dependency_identity = dependency_identity,
       pv_toolchain_identity = toolchain_identity, pv_target_identity = target_identity,
       pv_specialization_identity = specialization_identity,
       pv_policy_identity = policy_identity, pv_validation = validation, pv_evidence = evidence,
       pv_compiler_invocation = compiler_invocation,
       pv_compiler_version_string = compiler_version_string,
       pv_compiler_wall_millis = compiler_wall_millis, pv_produced_at = produced_at\<rparr>))))))))))))))))))))))))))))))"

definition provenance_encodable :: "provenance \<Rightarrow> bool" where
  "provenance_encodable v \<longleftrightarrow>
     pv_id v \<noteq> Ident 0 \<and> pv_compilation v \<noteq> Ident 0 \<and> pv_unit v \<noteq> Ident 0
     \<and> pv_attempt v \<noteq> Ident 0 \<and> pv_worker v \<noteq> Ident 0
     \<and> pv_worker_boot v \<noteq> Ident 0 \<and> pv_lease v \<noteq> Ident 0
     \<and> pv_request_id v \<noteq> Ident 0 \<and> pv_validation v \<noteq> Ident 0
     \<and> is_i64 (pv_produced_at v)"

lemma provenance_grows [simp]: "w_grows (encode_provenance v)"
  unfolding encode_provenance_def by (rule w_grows_seq) simp_all

lemma provenance_faithful [codec]:
  "provenance_encodable v \<Longrightarrow> faithful (encode_provenance v) decode_provenance v"
  unfolding encode_provenance_def decode_provenance_def
  by (rule faithful_seq_Cons faithful_seq_Nil codec | (simp add: provenance_encodable_def; fail))+

section \<open>Artifact commit\<close>

definition encode_commit :: "artifact_commit \<Rightarrow> writer" where
  "encode_commit v = w_seq
     [w_id (ac_id v), w_gen (ac_generation v), w_id (ac_compilation v),
     w_gen (ac_compilation_generation v), w_id (ac_unit v), w_id (ac_artifact v),
     w_gen (ac_artifact_generation v), w_digest (ac_artifact_digest v), w_id (ac_provenance v),
     w_id (ac_validation v), w_gen (ac_epoch v), w_id (ac_worker v), w_id (ac_worker_boot v),
     w_id (ac_attempt v), w_millis (ac_committed_at v), w_bool (ac_deduplicated v),
     w_bool (ac_superseded v)]"

definition decode_commit :: "artifact_commit reader" where
  "decode_commit =
     r_bind r_id (\<lambda>id. r_bind r_gen (\<lambda>generation. r_bind r_id (\<lambda>compilation.
     r_bind r_gen (\<lambda>compilation_generation. r_bind r_id (\<lambda>unit.
     r_bind r_id (\<lambda>artifact. r_bind r_gen (\<lambda>artifact_generation.
     r_bind r_digest (\<lambda>artifact_digest. r_bind r_id (\<lambda>provenance.
     r_bind r_id (\<lambda>validation. r_bind r_gen (\<lambda>epoch. r_bind r_id (\<lambda>worker.
     r_bind r_id (\<lambda>worker_boot. r_bind r_id (\<lambda>attempt.
     r_bind r_millis (\<lambda>committed_at. r_bind r_bool (\<lambda>deduplicated.
     r_bind r_bool (\<lambda>superseded.
     r_return
       \<lparr>ac_id = id, ac_generation = generation, ac_compilation = compilation,
       ac_compilation_generation = compilation_generation, ac_unit = unit,
       ac_artifact = artifact, ac_artifact_generation = artifact_generation,
       ac_artifact_digest = artifact_digest, ac_provenance = provenance,
       ac_validation = validation, ac_epoch = epoch, ac_worker = worker,
       ac_worker_boot = worker_boot, ac_attempt = attempt, ac_committed_at = committed_at,
       ac_deduplicated = deduplicated, ac_superseded = superseded\<rparr>)))))))))))))))))"

definition commit_encodable :: "artifact_commit \<Rightarrow> bool" where
  "commit_encodable v \<longleftrightarrow>
     ac_id v \<noteq> Ident 0 \<and> ac_compilation v \<noteq> Ident 0 \<and> ac_unit v \<noteq> Ident 0
     \<and> ac_artifact v \<noteq> Ident 0 \<and> ac_provenance v \<noteq> Ident 0
     \<and> ac_validation v \<noteq> Ident 0 \<and> ac_worker v \<noteq> Ident 0
     \<and> ac_worker_boot v \<noteq> Ident 0 \<and> ac_attempt v \<noteq> Ident 0
     \<and> is_i64 (ac_committed_at v)"

lemma commit_grows [simp]: "w_grows (encode_commit v)"
  unfolding encode_commit_def by (rule w_grows_seq) simp_all

lemma commit_faithful [codec]:
  "commit_encodable v \<Longrightarrow> faithful (encode_commit v) decode_commit v"
  unfolding encode_commit_def decode_commit_def
  by (rule faithful_seq_Cons faithful_seq_Nil codec | (simp add: commit_encodable_def; fail))+

lemma commit_option_faithful [codec]:
  "\<forall>x. v = Some x \<longrightarrow> commit_encodable x \<Longrightarrow>
     faithful (w_optional encode_commit v) (r_optional decode_commit) v"
  by (rule faithful_optional) (simp add: commit_faithful)

section \<open>Artifact descriptor\<close>

definition encode_artifact :: "artifact_descriptor \<Rightarrow> writer" where
  "encode_artifact v = w_seq
     [w_id (ad_id v), w_gen (ad_generation v), w_id (ad_compilation v),
     w_gen (ad_compilation_generation v), w_id (ad_unit v), w_u8 (output_kind_value (ad_kind v)),
     encode_content_ref (ad_content v), w_str (ad_logical_name v),
     w_digest (ad_target_identity v), w_digest (ad_toolchain_identity v),
     w_digest (ad_dependency_identity v), w_digest (ad_specialization_identity v)]"

definition decode_artifact :: "artifact_descriptor reader" where
  "decode_artifact =
     r_bind r_id (\<lambda>id. r_bind r_gen (\<lambda>generation. r_bind r_id (\<lambda>compilation.
     r_bind r_gen (\<lambda>compilation_generation. r_bind r_id (\<lambda>unit.
     r_bind (r_enum output_kinds) (\<lambda>kind. r_bind decode_content_ref (\<lambda>content.
     r_bind r_str (\<lambda>logical_name. r_bind r_digest (\<lambda>target_identity.
     r_bind r_digest (\<lambda>toolchain_identity. r_bind r_digest (\<lambda>dependency_identity.
     r_bind r_digest (\<lambda>specialization_identity.
     r_return
       \<lparr>ad_id = id, ad_generation = generation, ad_compilation = compilation,
       ad_compilation_generation = compilation_generation, ad_unit = unit, ad_kind = kind,
       ad_content = content, ad_logical_name = logical_name,
       ad_target_identity = target_identity, ad_toolchain_identity = toolchain_identity,
       ad_dependency_identity = dependency_identity,
       ad_specialization_identity = specialization_identity\<rparr>))))))))))))"

definition artifact_encodable :: "artifact_descriptor \<Rightarrow> bool" where
  "artifact_encodable v \<longleftrightarrow>
     ad_id v \<noteq> Ident 0 \<and> ad_compilation v \<noteq> Ident 0 \<and> ad_unit v \<noteq> Ident 0"

lemma artifact_grows [simp]: "w_grows (encode_artifact v)"
  unfolding encode_artifact_def by (rule w_grows_seq) simp_all

lemma artifact_faithful [codec]:
  "artifact_encodable v \<Longrightarrow> faithful (encode_artifact v) decode_artifact v"
  unfolding encode_artifact_def decode_artifact_def
  by (rule faithful_seq_Cons faithful_seq_Nil codec | (simp add: artifact_encodable_def; fail))+

section \<open>Cache entry\<close>

definition encode_cache_entry :: "cache_entry \<Rightarrow> writer" where
  "encode_cache_entry v = w_seq
     [w_id (ce_id v), w_gen (ce_generation v), w_digest (ce_unit_identity v),
     w_id (ce_compilation v), w_gen (ce_compilation_generation v),
     encode_content_ref (ce_artifact v), w_id (ce_artifact_id v), w_id (ce_provenance v),
     w_id (ce_validation v), w_digest (ce_source_identity v),
     w_digest (ce_dependency_identity v), w_digest (ce_toolchain_identity v),
     w_gen (ce_toolchain_generation v), w_digest (ce_target_identity v),
     w_gen (ce_target_generation v), w_digest (ce_specialization_identity v),
     w_digest (ce_policy_identity v), w_digest (ce_environment_identity v), w_id (ce_commit v),
     w_millis (ce_created_at v), w_bool (ce_invalidated v), w_str (ce_invalidation_reason v),
     w_u32 (ce_hit_count v)]"

definition decode_cache_entry :: "cache_entry reader" where
  "decode_cache_entry =
     r_bind r_id (\<lambda>id. r_bind r_gen (\<lambda>generation.
     r_bind r_digest (\<lambda>unit_identity. r_bind r_id (\<lambda>compilation.
     r_bind r_gen (\<lambda>compilation_generation. r_bind decode_content_ref (\<lambda>artifact.
     r_bind r_id (\<lambda>artifact_id. r_bind r_id (\<lambda>provenance.
     r_bind r_id (\<lambda>validation. r_bind r_digest (\<lambda>source_identity.
     r_bind r_digest (\<lambda>dependency_identity. r_bind r_digest (\<lambda>toolchain_identity.
     r_bind r_gen (\<lambda>toolchain_generation. r_bind r_digest (\<lambda>target_identity.
     r_bind r_gen (\<lambda>target_generation. r_bind r_digest (\<lambda>specialization_identity.
     r_bind r_digest (\<lambda>policy_identity. r_bind r_digest (\<lambda>environment_identity.
     r_bind r_id (\<lambda>commit. r_bind r_millis (\<lambda>created_at.
     r_bind r_bool (\<lambda>invalidated. r_bind r_str (\<lambda>invalidation_reason.
     r_bind r_u32 (\<lambda>hit_count.
     r_return
       \<lparr>ce_id = id, ce_generation = generation, ce_unit_identity = unit_identity,
       ce_compilation = compilation, ce_compilation_generation = compilation_generation,
       ce_artifact = artifact, ce_artifact_id = artifact_id, ce_provenance = provenance,
       ce_validation = validation, ce_source_identity = source_identity,
       ce_dependency_identity = dependency_identity, ce_toolchain_identity = toolchain_identity,
       ce_toolchain_generation = toolchain_generation, ce_target_identity = target_identity,
       ce_target_generation = target_generation,
       ce_specialization_identity = specialization_identity,
       ce_policy_identity = policy_identity, ce_environment_identity = environment_identity,
       ce_commit = commit, ce_created_at = created_at, ce_invalidated = invalidated,
       ce_invalidation_reason = invalidation_reason, ce_hit_count = hit_count\<rparr>)))))))))))))))))))))))"

definition cache_entry_encodable :: "cache_entry \<Rightarrow> bool" where
  "cache_entry_encodable v \<longleftrightarrow>
     ce_id v \<noteq> Ident 0 \<and> ce_compilation v \<noteq> Ident 0
     \<and> ce_artifact_id v \<noteq> Ident 0 \<and> ce_provenance v \<noteq> Ident 0
     \<and> ce_validation v \<noteq> Ident 0 \<and> ce_commit v \<noteq> Ident 0
     \<and> is_i64 (ce_created_at v)"

lemma cache_entry_grows [simp]: "w_grows (encode_cache_entry v)"
  unfolding encode_cache_entry_def by (rule w_grows_seq) simp_all

lemma cache_entry_faithful [codec]:
  "cache_entry_encodable v \<Longrightarrow> faithful (encode_cache_entry v) decode_cache_entry v"
  unfolding encode_cache_entry_def decode_cache_entry_def
  by (rule faithful_seq_Cons faithful_seq_Nil codec | (simp add: cache_entry_encodable_def; fail))+

section \<open>Negative cache entry\<close>

definition encode_negative_cache :: "negative_cache_entry \<Rightarrow> writer" where
  "encode_negative_cache v = w_seq
     [w_id (ne_id v), w_digest (ne_unit_identity v),
     w_u8 (negative_cache_reason_value (ne_reason v)), w_error (ne_failure v),
     w_str (ne_diagnostic v), w_digest (ne_toolchain_identity v),
     w_gen (ne_toolchain_generation v), w_digest (ne_target_identity v),
     w_gen (ne_target_generation v), w_digest (ne_specialization_identity v),
     w_digest (ne_policy_identity v), w_millis (ne_created_at v)]"

definition decode_negative_cache :: "negative_cache_entry reader" where
  "decode_negative_cache =
     r_bind r_id (\<lambda>id. r_bind r_digest (\<lambda>unit_identity.
     r_bind (r_enum negative_cache_reasons) (\<lambda>reason.
     r_bind (r_error ''negative cache'') (\<lambda>failure. r_bind r_str (\<lambda>diagnostic.
     r_bind r_digest (\<lambda>toolchain_identity. r_bind r_gen (\<lambda>toolchain_generation.
     r_bind r_digest (\<lambda>target_identity. r_bind r_gen (\<lambda>target_generation.
     r_bind r_digest (\<lambda>specialization_identity. r_bind r_digest (\<lambda>policy_identity.
     r_bind r_millis (\<lambda>created_at.
     r_return
       \<lparr>ne_id = id, ne_unit_identity = unit_identity, ne_reason = reason,
       ne_failure = failure, ne_diagnostic = diagnostic,
       ne_toolchain_identity = toolchain_identity,
       ne_toolchain_generation = toolchain_generation, ne_target_identity = target_identity,
       ne_target_generation = target_generation,
       ne_specialization_identity = specialization_identity,
       ne_policy_identity = policy_identity, ne_created_at = created_at\<rparr>))))))))))))"

definition negative_cache_encodable :: "negative_cache_entry \<Rightarrow> bool" where
  "negative_cache_encodable v \<longleftrightarrow>
     ne_id v \<noteq> Ident 0 \<and> error_in_domain (ne_failure v) \<and> is_i64 (ne_created_at v)"

lemma negative_cache_grows [simp]: "w_grows (encode_negative_cache v)"
  unfolding encode_negative_cache_def by (rule w_grows_seq) simp_all

lemma negative_cache_faithful [codec]:
  "negative_cache_encodable v \<Longrightarrow> faithful (encode_negative_cache v) decode_negative_cache v"
  unfolding encode_negative_cache_def decode_negative_cache_def
  by (rule faithful_seq_Cons faithful_seq_Nil codec | (simp add: negative_cache_encodable_def; fail))+

section \<open>Intermediate artifact\<close>

definition encode_intermediate :: "intermediate_artifact \<Rightarrow> writer" where
  "encode_intermediate v = w_seq
     [w_id (ia_id v), w_gen (ia_generation v), w_u8 (intermediate_kind_value (ia_kind v)),
     encode_content_ref (ia_content v), w_digest (ia_provenance_identity v),
     w_digest (ia_toolchain_identity v), w_digest (ia_target_identity v),
     w_digest (ia_dependency_identity v), w_id (ia_compilation v),
     w_gen (ia_compilation_generation v), w_bool (ia_authoritative v)]"

definition decode_intermediate :: "intermediate_artifact reader" where
  "decode_intermediate =
     r_bind r_id (\<lambda>id. r_bind r_gen (\<lambda>generation.
     r_bind (r_enum intermediate_kinds) (\<lambda>kind. r_bind decode_content_ref (\<lambda>content.
     r_bind r_digest (\<lambda>provenance_identity. r_bind r_digest (\<lambda>toolchain_identity.
     r_bind r_digest (\<lambda>target_identity. r_bind r_digest (\<lambda>dependency_identity.
     r_bind r_id (\<lambda>compilation. r_bind r_gen (\<lambda>compilation_generation.
     r_bind r_bool (\<lambda>authoritative.
     r_return
       \<lparr>ia_id = id, ia_generation = generation, ia_kind = kind, ia_content = content,
       ia_provenance_identity = provenance_identity, ia_toolchain_identity = toolchain_identity,
       ia_target_identity = target_identity, ia_dependency_identity = dependency_identity,
       ia_compilation = compilation, ia_compilation_generation = compilation_generation,
       ia_authoritative = authoritative\<rparr>)))))))))))"

definition intermediate_encodable :: "intermediate_artifact \<Rightarrow> bool" where
  "intermediate_encodable v \<longleftrightarrow>
     ia_id v \<noteq> Ident 0 \<and> ia_compilation v \<noteq> Ident 0"

lemma intermediate_grows [simp]: "w_grows (encode_intermediate v)"
  unfolding encode_intermediate_def by (rule w_grows_seq) simp_all

lemma intermediate_faithful [codec]:
  "intermediate_encodable v \<Longrightarrow> faithful (encode_intermediate v) decode_intermediate v"
  unfolding encode_intermediate_def decode_intermediate_def
  by (rule faithful_seq_Cons faithful_seq_Nil codec | (simp add: intermediate_encodable_def; fail))+

section \<open>Compilation record\<close>

definition encode_compilation :: "compilation_record \<Rightarrow> writer" where
  "encode_compilation v = w_seq
     [w_id (cr_id v), w_gen (cr_generation v), w_id (cr_unit v), w_gen (cr_unit_generation v),
     w_digest (cr_unit_identity v), w_id (cr_request_id v), w_gen (cr_request_generation v),
     w_digest (cr_request_identity v), w_digest (cr_source_identity v),
     w_digest (cr_dependency_identity v), w_digest (cr_toolchain_identity v),
     w_digest (cr_target_identity v), w_digest (cr_specialization_identity v),
     w_digest (cr_policy_identity v), w_digest (cr_environment_identity v),
     w_gen (cr_source_generation v), w_gen (cr_ir_generation v),
     w_gen (cr_dependency_generation v), w_gen (cr_toolchain_generation v),
     w_gen (cr_target_generation v), w_gen (cr_specialization_generation v),
     w_gen (cr_policy_generation v), w_u8 (output_kind_value (cr_output_kind v)),
     w_u8 (reproducibility_requirement_value (cr_reproducibility v)),
     w_u8 (compilation_state_value (cr_state v)), w_list_of w_id (cr_attempts v),
     w_id (cr_current_attempt v), w_u32 (cr_attempt_ordinal_counter v),
     w_optional encode_commit (cr_commit v),
     w_list_of encode_content_ref (cr_divergent_candidates v),
     w_bool (cr_reproducibility_violation v), w_str (cr_failure_detail v),
     w_error (cr_failure v), w_bool (cr_cache_hit v), w_millis (cr_created_at v),
     w_millis (cr_updated_at v), w_u32 (cr_unit_index v), w_u32 (cr_parent_unit_index v),
     w_bool (cr_is_root v)]"

definition decode_compilation :: "compilation_record reader" where
  "decode_compilation =
     r_bind r_id (\<lambda>id. r_bind r_gen (\<lambda>generation. r_bind r_id (\<lambda>unit.
     r_bind r_gen (\<lambda>unit_generation. r_bind r_digest (\<lambda>unit_identity.
     r_bind r_id (\<lambda>request_id. r_bind r_gen (\<lambda>request_generation.
     r_bind r_digest (\<lambda>request_identity. r_bind r_digest (\<lambda>source_identity.
     r_bind r_digest (\<lambda>dependency_identity. r_bind r_digest (\<lambda>toolchain_identity.
     r_bind r_digest (\<lambda>target_identity. r_bind r_digest (\<lambda>specialization_identity.
     r_bind r_digest (\<lambda>policy_identity. r_bind r_digest (\<lambda>environment_identity.
     r_bind r_gen (\<lambda>source_generation. r_bind r_gen (\<lambda>ir_generation.
     r_bind r_gen (\<lambda>dependency_generation. r_bind r_gen (\<lambda>toolchain_generation.
     r_bind r_gen (\<lambda>target_generation. r_bind r_gen (\<lambda>specialization_generation.
     r_bind r_gen (\<lambda>policy_generation. r_bind (r_enum output_kinds) (\<lambda>output_kind.
     r_bind (r_enum reproducibility_requirements) (\<lambda>reproducibility.
     r_bind (r_enum compilation_states) (\<lambda>state. r_bind (r_list_of r_id) (\<lambda>attempts.
     r_bind r_optional_id (\<lambda>current_attempt. r_bind r_u32 (\<lambda>attempt_ordinal_counter.
     r_bind (r_optional decode_commit) (\<lambda>commit.
     r_bind (r_list_of decode_content_ref) (\<lambda>divergent_candidates.
     r_bind r_bool (\<lambda>reproducibility_violation. r_bind r_str (\<lambda>failure_detail.
     r_bind (r_error ''compilation'') (\<lambda>failure. r_bind r_bool (\<lambda>cache_hit.
     r_bind r_millis (\<lambda>created_at. r_bind r_millis (\<lambda>updated_at.
     r_bind r_u32 (\<lambda>unit_index. r_bind r_u32 (\<lambda>parent_unit_index.
     r_bind r_bool (\<lambda>is_root.
     r_return
       \<lparr>cr_id = id, cr_generation = generation, cr_unit = unit,
       cr_unit_generation = unit_generation, cr_unit_identity = unit_identity,
       cr_request_id = request_id, cr_request_generation = request_generation,
       cr_request_identity = request_identity, cr_source_identity = source_identity,
       cr_dependency_identity = dependency_identity, cr_toolchain_identity = toolchain_identity,
       cr_target_identity = target_identity,
       cr_specialization_identity = specialization_identity,
       cr_policy_identity = policy_identity, cr_environment_identity = environment_identity,
       cr_source_generation = source_generation, cr_ir_generation = ir_generation,
       cr_dependency_generation = dependency_generation,
       cr_toolchain_generation = toolchain_generation, cr_target_generation = target_generation,
       cr_specialization_generation = specialization_generation,
       cr_policy_generation = policy_generation, cr_output_kind = output_kind,
       cr_reproducibility = reproducibility, cr_state = state, cr_attempts = attempts,
       cr_current_attempt = current_attempt,
       cr_attempt_ordinal_counter = attempt_ordinal_counter, cr_commit = commit,
       cr_divergent_candidates = divergent_candidates,
       cr_reproducibility_violation = reproducibility_violation,
       cr_failure_detail = failure_detail, cr_failure = failure, cr_cache_hit = cache_hit,
       cr_created_at = created_at, cr_updated_at = updated_at, cr_unit_index = unit_index,
       cr_parent_unit_index = parent_unit_index, cr_is_root = is_root\<rparr>)))))))))))))))))))))))))))))))))))))))"

definition compilation_encodable :: "compilation_record \<Rightarrow> bool" where
  "compilation_encodable v \<longleftrightarrow>
     cr_id v \<noteq> Ident 0 \<and> cr_unit v \<noteq> Ident 0 \<and> cr_request_id v \<noteq> Ident 0
     \<and> (\<forall>i\<in>set (cr_attempts v). i \<noteq> Ident 0)
     \<and> (\<forall>x. cr_commit v = Some x \<longrightarrow> commit_encodable x)
     \<and> error_in_domain (cr_failure v) \<and> is_i64 (cr_created_at v)
     \<and> is_i64 (cr_updated_at v)"

lemma compilation_grows [simp]: "w_grows (encode_compilation v)"
  unfolding encode_compilation_def by (rule w_grows_seq) simp_all

lemma compilation_faithful [codec]:
  "compilation_encodable v \<Longrightarrow> faithful (encode_compilation v) decode_compilation v"
  unfolding encode_compilation_def decode_compilation_def
  by (rule faithful_seq_Cons faithful_seq_Nil codec | (simp add: compilation_encodable_def; fail))+

section \<open>Job record\<close>

definition encode_job :: "job_record \<Rightarrow> writer" where
  "encode_job v = w_seq
     [w_id (jr_request_id v), w_gen (jr_request_generation v), w_digest (jr_request_identity v),
     w_list_of w_id (jr_units v), w_u32 (jr_root_index v),
     w_list_of w_u32 (jr_mandatory_units v), w_bool (jr_committed v), w_id (jr_committed_unit v),
     w_error (jr_failure v), w_str (jr_failure_detail v), w_millis (jr_created_at v)]"

definition decode_job :: "job_record reader" where
  "decode_job =
     r_bind r_id (\<lambda>request_id. r_bind r_gen (\<lambda>request_generation.
     r_bind r_digest (\<lambda>request_identity. r_bind (r_list_of r_id) (\<lambda>units.
     r_bind r_u32 (\<lambda>root_index. r_bind (r_list_of r_u32) (\<lambda>mandatory_units.
     r_bind r_bool (\<lambda>committed. r_bind r_optional_id (\<lambda>committed_unit.
     r_bind (r_error ''job'') (\<lambda>failure. r_bind r_str (\<lambda>failure_detail.
     r_bind r_millis (\<lambda>created_at.
     r_return
       \<lparr>jr_request_id = request_id, jr_request_generation = request_generation,
       jr_request_identity = request_identity, jr_units = units, jr_root_index = root_index,
       jr_mandatory_units = mandatory_units, jr_committed = committed,
       jr_committed_unit = committed_unit, jr_failure = failure,
       jr_failure_detail = failure_detail, jr_created_at = created_at\<rparr>)))))))))))"

definition job_encodable :: "job_record \<Rightarrow> bool" where
  "job_encodable v \<longleftrightarrow>
     jr_request_id v \<noteq> Ident 0 \<and> (\<forall>i\<in>set (jr_units v). i \<noteq> Ident 0)
     \<and> error_in_domain (jr_failure v) \<and> is_i64 (jr_created_at v)"

lemma job_grows [simp]: "w_grows (encode_job v)"
  unfolding encode_job_def by (rule w_grows_seq) simp_all

lemma job_faithful [codec]:
  "job_encodable v \<Longrightarrow> faithful (encode_job v) decode_job v"
  unfolding encode_job_def decode_job_def
  by (rule faithful_seq_Cons faithful_seq_Nil codec | (simp add: job_encodable_def; fail))+

end
