(* ===== verification/DC_Reread.thy ===== *)
theory DC_Reread
  imports DC_RecordCodec
begin

text \<open>
  What reading a request back means.  The decoder recomputes every identity, so a decoded
  request carries only identities of its own contents; a canonical toolchain is accepted again;
  and a request whose canonical form is not stable is accepted once and never again.
\<close>

section \<open>Identities of a decoded request\<close>

lemma bind_ok_Inr: "bind_ok m f = Inr y \<longleftrightarrow> (\<exists>x. m = Inr x \<and> f x = Inr y)"
  by (auto simp: bind_ok_def split: sum.splits)

lemma bind_okE: "bind_ok m f = Inr y \<Longrightarrow> (\<And>x. m = Inr x \<Longrightarrow> f x = Inr y \<Longrightarrow> P) \<Longrightarrow> P"
  by (auto simp: bind_ok_Inr)

lemma refuse_not_Inr [simp]: "refuse c d \<noteq> Inr x"
  by (simp add: refuse_def)

lemma guardE:
  "(if c then refuse a d else m) = Inr y \<Longrightarrow> (\<not> c \<Longrightarrow> m = Inr y \<Longrightarrow> P) \<Longrightarrow> P"
  by (simp split: if_splits)

lemma canonical_toolchain_identity:
  "canonicalize_toolchain t = Inr u \<Longrightarrow> compute_toolchain_identity u = Inr (tc_identity_digest u)"
  by (auto simp: canonicalize_toolchain_def Let_def bind_ok_Inr compute_toolchain_identity_def)

lemma canonical_specialization_identity:
  "canonicalize_specialization s = Inr u \<Longrightarrow> compute_specialization_identity u = Inr (sp_identity_digest u)"
  by (auto simp: canonicalize_specialization_def Let_def bind_ok_Inr compute_specialization_identity_def
      split: option.splits)

lemma canonical_dependency_set_identity:
  "canonicalize_dependency_set s = Inr u \<Longrightarrow> compute_dependency_set_identity u = Inr (ds_identity_digest u)"
  by (auto simp: canonicalize_dependency_set_def Let_def bind_ok_Inr compute_dependency_set_identity_def)

lemma set_unit_identity_fields:
  "set_unit_identity r i = Inr s \<Longrightarrow> s = r\<lparr>rq_units := rq_units s\<rparr>"
  by (auto simp: set_unit_identity_def bind_ok_Inr)

lemma set_unit_identities_fields:
  "set_unit_identities is r = Inr s \<Longrightarrow> s = r\<lparr>rq_units := rq_units s\<rparr>"
proof (induction "is" arbitrary: r)
  case (Cons i "is")
  then obtain t where t: "set_unit_identity r i = Inr t" "set_unit_identities is t = Inr s"
    by (auto simp: bind_ok_Inr)
  from Cons.IH [OF t(2)] set_unit_identity_fields [OF t(1)] show ?case
    by (metis compilation_request.update_convs(11) compilation_request.surjective
        compilation_request.select_convs(11))
qed simp

lemma canonicalize_parts:
  assumes "canonicalize v = Inr w"
  obtains toolchain td ti spec deps flags r1 units pid pd r2 r3 rd where
    "canonicalize_toolchain (rq_toolchain v) = Inr toolchain"
    "compute_target_identity (rq_target v) = Inr td" "derive_target_id (rq_target v) = Inr ti"
    "canonicalize_specialization (rq_specialization v) = Inr spec"
    "canonicalize_dependency_set (rq_dependencies v) = Inr deps"
    "r1 = v\<lparr>rq_toolchain := toolchain,
       rq_target := (rq_target v)\<lparr>tg_identity_digest := td, tg_id := ti\<rparr>,
       rq_specialization := spec, rq_dependencies := deps,
       rq_environment := canonicalize_environment (rq_environment v),
       rq_flags := if po_flag_order_significant (rq_policy v) then flags else sort flags\<rparr>"
    "derive_policy_id (rq_policy r1) = Inr pid"
    "compute_policy_identity ((rq_policy r1)\<lparr>po_id := pid\<rparr>) = Inr pd"
    "r2 = r1\<lparr>rq_units := units,
       rq_policy := (rq_policy r1)\<lparr>po_id := pid, po_identity_digest := pd\<rparr>\<rparr>"
    "set_unit_identities [0..<length units] r2 = Inr r3"
    "derive_request_identity r3 = Inr rd" "w = r3\<lparr>rq_request_identity := rd\<rparr>"
proof -
  note result = assms [unfolded canonicalize_def Let_def]
  show thesis
    by (rule bind_okE [OF result], elim bind_okE guardE, rule that)
      (assumption | rule refl | (simp; fail))+
qed

text \<open>Every identity that a canonical request carries is the one computed from its contents.\<close>

definition carries_own_identities :: "compilation_request \<Rightarrow> bool" where
  "carries_own_identities w \<longleftrightarrow>
     compute_toolchain_identity (rq_toolchain w) = Inr (tc_identity_digest (rq_toolchain w))
     \<and> compute_target_identity (rq_target w) = Inr (tg_identity_digest (rq_target w))
     \<and> derive_target_id (rq_target w) = Inr (tg_id (rq_target w))
     \<and> compute_specialization_identity (rq_specialization w) = Inr (sp_identity_digest (rq_specialization w))
     \<and> compute_policy_identity (rq_policy w) = Inr (po_identity_digest (rq_policy w))
     \<and> compute_dependency_set_identity (rq_dependencies w) = Inr (ds_identity_digest (rq_dependencies w))
     \<and> derive_request_identity w = Inr (rq_request_identity w)"

lemma canonical_environment:
  assumes "canonicalize v = Inr w"
  shows "rq_environment w = canonicalize_environment (rq_environment v)"
  using assms
proof (cases rule: canonicalize_parts)
  case (1 toolchain td ti spec deps flags r1 units pid pd r2 r3 rd)
  from set_unit_identities_fields [OF 1(10)] have "rq_environment r3 = rq_environment r2"
    by (metis compilation_request.select_convs(8) compilation_request.surjective
        compilation_request.update_convs(11))
  with 1(6,9,12) show ?thesis by simp
qed

lemma canonical_identities:
  assumes "canonicalize v = Inr w"
  shows "carries_own_identities w"
  using assms
proof (cases rule: canonicalize_parts)
  case (1 toolchain td ti spec deps flags r1 units pid pd r2 r3 rd)
  define us where "us = rq_units r3"
  have r3: "r3 = r2\<lparr>rq_units := us\<rparr>"
    using set_unit_identities_fields [OF 1(10)] by (simp add: us_def)
  have w: "derive_request_identity w = Inr (rq_request_identity w)"
    using 1(11,12) by (simp add: derive_request_identity_def w_request_identity_def)
  have parts: "rq_toolchain w = toolchain" "rq_specialization w = spec" "rq_dependencies w = deps"
    "rq_target w = (rq_target v)\<lparr>tg_identity_digest := td, tg_id := ti\<rparr>"
    "rq_policy w = (rq_policy r1)\<lparr>po_id := pid, po_identity_digest := pd\<rparr>"
    by (simp_all add: 1(12) r3 1(9) 1(6))
  have target: "compute_target_identity (rq_target w) = Inr (tg_identity_digest (rq_target w))"
    "derive_target_id (rq_target w) = Inr (tg_id (rq_target w))"
    using 1(2,3) by (simp_all add: parts compute_target_identity_def derive_target_id_def)
  have policy: "compute_policy_identity (rq_policy w) = Inr (po_identity_digest (rq_policy w))"
    using 1(8) by (simp add: parts compute_policy_identity_def)
  show ?thesis
    unfolding carries_own_identities_def
    using w target policy canonical_toolchain_identity [OF 1(1)]
      canonical_specialization_identity [OF 1(4)] canonical_dependency_set_identity [OF 1(5)]
    by (simp add: parts)
qed

lemma accept_requestE:
  assumes "accept_request v rest = Inr (w, rest')"
  shows "canonicalize v = Inr w" "rest' = rest" "rq_request_identity v = rq_request_identity w"
    "map un_identity_digest (rq_units v) = map un_identity_digest (rq_units w)"
  using assms
  by (auto simp: accept_request_def r_computed_def r_intact_def r_return_def r_fail_def
      split: sum.splits stop.splits if_splits)

text \<open>
  Identities are never trusted from the wire or from disk.  Whatever bytes are
  decoded as a request, the identities it carries afterwards (toolchain, target with its
  handle, specialization, policy, dependency set, and the request's own) are the ones computed
  from its contents.
\<close>

theorem decoded_request_identities:
  assumes "decode_request bs = Inr (w, rest)"
  shows "carries_own_identities w"
proof -
  obtain v mid where "accept_request v mid = Inr (w, rest)"
    using assms by (auto simp: decode_request_def r_bind_def split: sum.splits)
  then show ?thesis using accept_requestE(1) canonical_identities by blast
qed

section \<open>Requests that are not their own canonical form\<close>

text \<open>What the bytes behind a request identity say, read back from them.\<close>

definition r_environment_bytes :: "(bool \<times> bool \<times> (string \<times> string) list) reader" where
  "r_environment_bytes = r_bind (r_domain ''dc.environment.v1'') (\<lambda>_. r_bind r_bool (\<lambda>d.
     r_bind r_bool (\<lambda>i. r_bind (r_list_of decode_pair) (\<lambda>vs. r_return (d, i, vs)))))"

lemma faithful_environment_bytes:
  "faithful (w_environment e) r_environment_bytes
     (en_deterministic e, en_inherit_process_environment e, en_variables e)"
proof -
  have pair: "write_pair = encode_pair" by (simp add: fun_eq_iff write_pair_def encode_pair_def)
  show ?thesis
    unfolding w_environment_def r_environment_bytes_def pair
    by (rule faithful_seq_Cons faithful_seq_Nil faithful_domain codec refl)+
qed

definition r_request_bytes :: "digest256 reader" where
  "r_request_bytes = r_bind (r_domain ''dc.request.v1'') (\<lambda>_. r_bind r_digest (\<lambda>_. r_bind r_digest (\<lambda>_.
     r_bind r_digest (\<lambda>_. r_bind r_digest (\<lambda>_. r_bind r_digest (\<lambda>_. r_bind r_digest (\<lambda>e.
     r_bind read_string_list (\<lambda>_. r_bind r_digest (\<lambda>_. r_bind r_bool (\<lambda>_. r_bind r_bool (\<lambda>_.
     r_bind r_bool (\<lambda>_. r_bind r_bool (\<lambda>_. r_bind r_bool (\<lambda>_. r_bind r_str (\<lambda>_. r_bind r_u32 (\<lambda>_.
     r_bind (r_list_of r_digest) (\<lambda>_. r_return e)))))))))))))))))"

interpretation unit_digest_codec:
  element_codec "\<lambda>u. w_digest (un_identity_digest u)" r_digest un_identity_digest "\<lambda>_. True"
  by unfold_locales (simp_all add: faithful_digest)

lemma faithful_request_bytes: "faithful (w_request_identity r e) r_request_bytes e"
proof -
  have units: "faithful (w_list_of (\<lambda>u. w_digest (un_identity_digest u)) (rq_units r))
      (r_list_of r_digest) (map un_identity_digest (rq_units r))"
    by (rule unit_digest_codec.list_faithful) simp
  show ?thesis
    unfolding w_request_identity_def r_request_bytes_def
    by (rule faithful_seq_Cons faithful_seq_Nil faithful_domain codec units refl)+
qed

text \<open>Two byte strings that were hashed differ and have the same digest.\<close>

definition collide :: "writer \<Rightarrow> writer \<Rightarrow> bool" where
  "collide v w \<longleftrightarrow> (\<exists>b1 b2. v [] = Some b1 \<and> w [] = Some b2 \<and> b1 \<noteq> b2 \<and> sha256 b1 = sha256 b2)"

lemma same_hash:
  assumes "hash_of v = Inr d" "hash_of w = Inr d" "faithful v p x" "faithful w p y"
  shows "x = y \<or> collide v w"
proof -
  obtain b1 b2 where b: "v [] = Some b1" "w [] = Some b2" "sha256 b1 = sha256 b2"
    using assms(1,2) by (auto simp: hash_of_def w_hash_def split: option.splits)
  show ?thesis
  proof (cases "b1 = b2")
    case True
    then show ?thesis
      using faithful_unambiguous [OF assms(3,4) b(1,2), of "[]" "[]"] by simp
  qed (use b in \<open>auto simp: collide_def\<close>)
qed


text \<open>Two variables, the first sent with a leading blank.\<close>

definition blank_environment :: environment_contract where
  "blank_environment = \<lparr>en_variables = [('' b'', ''1''), (''a'', ''2'')], en_deterministic = True,
     en_inherit_process_environment = False\<rparr>"

lemma blank_environment_unsettled:
  "canonicalize_environment blank_environment
     = \<lparr>en_variables = [(''b'', ''1''), (''a'', ''2'')], en_deterministic = True,
        en_inherit_process_environment = False\<rparr>"
  "canonicalize_environment (canonicalize_environment (canonicalize_environment blank_environment))
     \<noteq> canonicalize_environment blank_environment"
  by code_simp+


end
