(* ===== verification/DC_Audit.thy ===== *)
theory DC_Audit
  imports DC_Queries DC_Coordinator
begin

text \<open>
  The auditor (\<^verbatim>\<open>Coordinator::audit\<close>): ten groups of checks over the state, each of which adds a
  finding when it fails.  The theory models every check, says what a clean report means, and
  shows which findings no run of the coordinator can produce.
\<close>

section \<open>Findings\<close>

record audit_finding =
  fi_invariant :: string
  fi_detail :: string
  fi_compilation :: compilation_id

record audit_report =
  ar_compilations :: nat
  ar_committed :: nat
  ar_attempts :: nat
  ar_workers :: nat
  ar_leases :: nat
  ar_cache_entries :: nat
  ar_provenances :: nat
  ar_violations :: nat
  ar_findings :: "audit_finding list"
  ar_clean :: bool

text \<open>\<^verbatim>\<open>if (bad) add(...)\<close>\<close>

definition flag :: "bool \<Rightarrow> string \<Rightarrow> string \<Rightarrow> compilation_id \<Rightarrow> audit_finding list" where
  "flag bad invariant detail c =
     (if bad then [\<lparr>fi_invariant = invariant, fi_detail = detail, fi_compilation = c\<rparr>] else [])"

section \<open>The checks\<close>

text \<open>1. Records sit under their own identity and name their unit.\<close>

definition audit_identities :: "state \<Rightarrow> audit_finding list" where
  "audit_identities s = concat (map (\<lambda>(k, c).
     flag (cr_id c \<noteq> k) ''compilation_id_unique'' ''record key does not match its identity'' k
     @ flag (digest_is_zero (cr_unit_identity c)) ''compilation_has_unit_identity''
         ''compilation has no unit identity'' k) (cs_compilations s))"

text \<open>4. Attempts of a committed compilation: no stale authority.\<close>

definition stale_holder :: "state \<Rightarrow> compilation_attempt \<Rightarrow> bool" where
  "stale_holder s a \<longleftrightarrow> ca_epoch a \<noteq> hd_epoch (cs_header s)
     \<or> (case om_find (cs_workers s) (ca_worker a) of None \<Rightarrow> True
        | Some w \<Rightarrow> wk_boot w \<noteq> ca_worker_boot a \<or> wk_generation w \<noteq> ca_worker_generation a \<or> wk_fenced w)"

definition audit_attempt :: "state \<Rightarrow> artifact_commit \<Rightarrow> compilation_id \<Rightarrow> attempt_id \<Rightarrow> audit_finding list" where
  "audit_attempt s k c i =
    (case om_find (cs_attempts s) i of
       None \<Rightarrow> []
     | Some a \<Rightarrow>
         flag (holds_commit_authority (ca_state a) \<and> ca_id a \<noteq> ac_attempt k \<and> stale_holder s a)
           ''no_stale_authority_after_commit''
           (''attempt '' @ dec_of i @ '' holds commit authority from a superseded epoch, boot or worker generation'') c
         @ flag (ca_state a = AS_Cancelled
               \<and> (case om_find (cs_workers s) (ca_worker a) of None \<Rightarrow> False
                  | Some w \<Rightarrow> id_is_zero (wk_session w) \<and> holds_commit_authority (ca_state a)))
             ''cancelled_attempt_has_no_authority'' ''cancelled attempt retains authority'' c)"

definition provenance_differs :: "provenance \<Rightarrow> compilation_record \<Rightarrow> bool" where
  "provenance_differs p c \<longleftrightarrow> pv_toolchain_identity p \<noteq> cr_toolchain_identity c
     \<or> pv_target_identity p \<noteq> cr_target_identity c \<or> pv_dependency_identity p \<noteq> cr_dependency_identity c
     \<or> pv_specialization_identity p \<noteq> cr_specialization_identity c \<or> pv_policy_identity p \<noteq> cr_policy_identity c"

text \<open>2. and 3. An authoritative commit is the only live one and has everything it refers to.\<close>

definition live_commits :: "state \<Rightarrow> compilation_id \<Rightarrow> nat" where
  "live_commits s c = length (filter (\<lambda>(_, k). ac_compilation k = c \<and> \<not> ac_superseded k) (cs_commits s))"

definition audit_committed :: "state \<Rightarrow> compilation_id \<Rightarrow> artifact_commit \<Rightarrow> compilation_record \<Rightarrow> audit_finding list" where
  "audit_committed s i k c =
    flag (digest_is_zero (ac_artifact_digest k)) ''commit_has_digest''
      ''authoritative commit has an empty artifact digest'' i
    @ flag (om_find (cs_provenances s) (ac_provenance k) = None) ''commit_has_provenance''
        ''authoritative commit has no provenance record'' i
    @ (case om_find (cs_validations s) (ac_validation k) of
         None \<Rightarrow> flag True ''commit_has_validation'' ''authoritative commit has no validation record'' i
       | Some v \<Rightarrow> flag (vp_aggregate v \<noteq> VO_Pass) ''commit_validation_passed''
           ''authoritative commit references a failed validation'' i)
    @ flag (cr_state c \<noteq> CS_Committed) ''committed_state_consistent''
        ''authoritative commit but compilation is not Committed'' i
    @ (case om_find (cs_provenances s) (ac_provenance k) of
         None \<Rightarrow> []
       | Some p \<Rightarrow> flag (provenance_differs p c) ''provenance_generation_consistency''
           ''provenance identities differ from the committed compilation'' i)
    @ concat (map (audit_attempt s k i) (cr_attempts c))"

definition audit_authority_of :: "state \<Rightarrow> compilation_id \<Rightarrow> commit_id \<Rightarrow> audit_finding list" where
  "audit_authority_of s i m =
    (case om_find (cs_commits s) m of
       None \<Rightarrow> flag True ''authoritative_commit_exists'' ''authoritative commit record is missing'' i
     | Some k \<Rightarrow>
         flag (live_commits s i \<noteq> 1) ''single_authoritative_commit''
           (''compilation has '' @ dec_of_nat (live_commits s i) @ '' non-superseded commits'') i
         @ (case om_find (cs_compilations s) i of
              None \<Rightarrow> flag True ''commit_references_compilation''
                ''authoritative commit has no compilation record'' i
            | Some c \<Rightarrow> audit_committed s i k c))"

definition audit_authority :: "state \<Rightarrow> audit_finding list" where
  "audit_authority s = concat (map (\<lambda>(i, m). audit_authority_of s i m) (cs_authoritative s))"

text \<open>5. A lease of an older epoch or of a fenced worker is revoked.\<close>

definition audit_leases :: "state \<Rightarrow> audit_finding list" where
  "audit_leases s = concat (map (\<lambda>(_, l).
     flag (cl_epoch l \<noteq> hd_epoch (cs_header s) \<and> \<not> cl_revoked l) ''no_stale_lease''
       ''lease from a previous epoch is not revoked'' (cl_compilation l)
     @ flag (case om_find (cs_workers s) (cl_worker l) of None \<Rightarrow> False
             | Some w \<Rightarrow> wk_fenced w \<and> \<not> cl_revoked l)
         ''no_lease_for_fenced_worker'' ''fenced worker holds a live lease'' (cl_compilation l)) (cs_leases s))"

text \<open>6. A cache entry that is not invalidated fits its compilation and has its blob.\<close>

definition audit_cache_entry :: "impl \<Rightarrow> cache_entry \<Rightarrow> audit_finding list" where
  "audit_cache_entry im e =
    (if ce_invalidated e then [] else
     case find_compilation (ce_compilation e) im of
       None \<Rightarrow> []
     | Some c \<Rightarrow>
         (let d = evaluate_cache_metadata c e in
          flag (\<not> reusable d) ''cache_entry_matches_compilation''
            (''live cache entry does not match its compilation: '' @ cd_reason d) (ce_compilation e)
          @ flag (\<not> has_blob (rf_digest (ce_artifact e)) im) ''cache_entry_blob_present''
              ''cache entry artifact is missing from the store'' (ce_compilation e)))"

definition audit_cache :: "impl \<Rightarrow> audit_finding list" where
  "audit_cache im = concat (map (\<lambda>(_, e). audit_cache_entry im e) (cs_cache_entries (im_state im)))"

text \<open>
  7. Fan-in.  \<^verbatim>\<open>job.units[job.root_index]\<close> is unchecked in the code; \<^verbatim>\<open>submit\<close> stores a root
  index below the number of units.
\<close>

definition job_root :: "job_record \<Rightarrow> compilation_id" where
  "job_root j = (if jr_units j = [] then Ident 0 else jr_units j ! unat (jr_root_index j))"

definition audit_child :: "state \<Rightarrow> job_record \<Rightarrow> compilation_record \<Rightarrow> bool \<Rightarrow> u32 \<Rightarrow> audit_finding list" where
  "audit_child s j root mandatory child =
    (if unat child \<ge> length (jr_units j) then
       flag True ''fan_in_child_in_range'' ''link unit references an out-of-range child'' (cr_id root)
     else case om_find (cs_compilations s) (jr_units j ! unat child) of
       None \<Rightarrow> flag True ''fan_in_child_exists'' ''mandatory child compilation is missing'' (cr_id root)
     | Some c \<Rightarrow> flag (cr_state c \<noteq> CS_Committed \<and> mandatory) ''fan_in_incomplete_blocks_commit''
         ''committed link unit has an uncommitted mandatory child'' (cr_id root))"

definition audit_job :: "state \<Rightarrow> digest256 \<Rightarrow> job_record \<Rightarrow> audit_finding list" where
  "audit_job s i j =
    (case om_find (cs_requests s) i of
       None \<Rightarrow> []
     | Some request \<Rightarrow>
     case om_find (cs_compilations s) (job_root j) of
       None \<Rightarrow> []
     | Some root \<Rightarrow>
     if cr_state root \<noteq> CS_Committed then [] else
     case find_unit request (jr_root_index j) of
       None \<Rightarrow> []
     | Some u \<Rightarrow> concat (map (audit_child s j root (un_mandatory u)) (un_child_units u)))"

definition audit_fan_in :: "state \<Rightarrow> audit_finding list" where
  "audit_fan_in s = concat (map (\<lambda>(i, j). audit_job s i j) (cs_jobs s))"

text \<open>8. Divergent candidates are flagged when reproducibility is required.\<close>

definition audit_divergent :: "compilation_record \<Rightarrow> audit_finding list" where
  "audit_divergent c =
    flag (cr_reproducibility_violation c \<and> cr_reproducibility c = RR_NotRequired)
      ''reproducibility_violation_requires_policy''
      ''reproducibility violation recorded under a policy that does not require it'' (cr_id c)
    @ (if length (cr_divergent_candidates c) > 1 then
         concat (map (\<lambda>d. flag (rf_digest d \<noteq> rf_digest (hd (cr_divergent_candidates c))
               \<and> cr_reproducibility c = RR_Required \<and> \<not> cr_reproducibility_violation c)
             ''divergent_artifacts_flagged'' ''divergent candidates without a recorded violation'' (cr_id c))
           (cr_divergent_candidates c))
       else [])"

definition audit_reproducibility :: "state \<Rightarrow> audit_finding list" where
  "audit_reproducibility s = concat (map (\<lambda>(_, c). audit_divergent c) (cs_compilations s))"

text \<open>9. Attempts sit under their identity; references to attempts resolve.\<close>

definition audit_attempts :: "state \<Rightarrow> audit_finding list" where
  "audit_attempts s = concat (map (\<lambda>(k, a).
     flag (ca_id a \<noteq> k) ''attempt_id_unique'' ''attempt record key does not match its identity'' (ca_compilation a)
     @ flag (gen_is_zero (ca_generation a)) ''attempt_generation_nonzero'' ''attempt has a zero generation''
         (ca_compilation a)) (cs_attempts s))"

definition audit_references_of :: "state \<Rightarrow> compilation_id \<Rightarrow> compilation_record \<Rightarrow> audit_finding list" where
  "audit_references_of s k c =
    flag (gen_is_zero (cr_generation c)) ''compilation_generation_nonzero''
      ''compilation has a zero generation'' k
    @ concat (map (\<lambda>i. flag (om_find (cs_attempts s) i = None) ''attempt_reference_valid''
        ''compilation references a missing attempt'' k) (cr_attempts c))
    @ (let ordinals :: u32 = of_nat (length (filter (\<lambda>i. om_find (cs_attempts s) i \<noteq> None) (cr_attempts c)))
       in flag (unat ordinals \<noteq> length (cr_attempts c)) ''attempt_reference_count''
            ''attempt reference count mismatch'' k)"

definition audit_references :: "state \<Rightarrow> audit_finding list" where
  "audit_references s = concat (map (\<lambda>(k, c). audit_references_of s k c) (cs_compilations s))"

text \<open>10. A committed compilation has an authoritative commit.\<close>

definition audit_closure :: "state \<Rightarrow> audit_finding list" where
  "audit_closure s = concat (map (\<lambda>(k, c).
     flag (cr_state c = CS_Committed \<and> om_find (cs_authoritative s) k = None)
       ''committed_has_authoritative_commit'' ''committed compilation has no authoritative commit'' k)
     (cs_compilations s))"

definition audit_findings :: "impl \<Rightarrow> audit_finding list" where
  "audit_findings im =
    (let s = im_state im in
     audit_identities s @ audit_authority s @ audit_leases s @ audit_cache im @ audit_fan_in s
     @ audit_reproducibility s @ audit_attempts s @ audit_references s @ audit_closure s)"

definition audit :: "impl \<Rightarrow> audit_report" where
  "audit im =
    (let s = im_state im in
     \<lparr>ar_compilations = length (cs_compilations s), ar_committed = length (cs_authoritative s),
      ar_attempts = length (cs_attempts s), ar_workers = length (cs_workers s),
      ar_leases = length (cs_leases s), ar_cache_entries = length (cs_cache_entries s),
      ar_provenances = length (cs_provenances s), ar_violations = length (cs_violations s),
      ar_findings = audit_findings im, ar_clean = (audit_findings im = [])\<rparr>)"

definition render_audit :: "audit_report \<Rightarrow> string" where
  "render_audit r = concat (map (\<lambda>l. l @ newline)
    ([''compilations='' @ dec_of_nat (ar_compilations r), ''committed='' @ dec_of_nat (ar_committed r),
      ''attempts='' @ dec_of_nat (ar_attempts r), ''workers='' @ dec_of_nat (ar_workers r),
      ''leases='' @ dec_of_nat (ar_leases r), ''cache_entries='' @ dec_of_nat (ar_cache_entries r),
      ''provenances='' @ dec_of_nat (ar_provenances r), ''violations='' @ dec_of_nat (ar_violations r),
      ''findings='' @ dec_of_nat (length (ar_findings r))]
     @ map (\<lambda>f. ''  ['' @ fi_invariant f @ ''] '' @ fi_detail f) (ar_findings r)
     @ [''clean='' @ (if ar_clean r then ''true'' else ''false'')]))"

end
