(* ===== verification/DC_StateCodec.thy ===== *)
theory DC_StateCodec
  imports DC_RecordCodec DC_Journal
begin

text \<open>
  The snapshot codec of the coordinator's state (\<^verbatim>\<open>src/state_codec.cpp\<close>): the header, the
  generation registries, every table, and the two diagnostic lists.  A decoder fails with the
  name of the stage it was in.  Sessions and control messages are not written.
\<close>

section \<open>Counted tables\<close>

definition kMaxStateRecords :: nat where
  "kMaxStateRecords = 4194304"

text \<open>
  A count over the bound is refused without setting the reader's own status, so the detail
  that the caller then quotes is empty.
\<close>

definition r_count :: "nat reader" where
  "r_count = r_bind r_u64 (\<lambda>count. if unat count > kMaxStateRecords then r_fail Err_Ok []
     else r_return (unat count))"

fun r_fold :: "nat \<Rightarrow> 'v reader \<Rightarrow> ('v \<Rightarrow> 't \<Rightarrow> 't) \<Rightarrow> 't \<Rightarrow> 't reader" where
  "r_fold 0 rd put t = r_return t"
| "r_fold (Suc n) rd put t = r_bind rd (\<lambda>v. r_fold n rd put (put v t))"

definition w_table :: "('v \<Rightarrow> writer) \<Rightarrow> 'v list \<Rightarrow> writer" where
  "w_table wr xs = w_then (w_u64 (of_nat (length xs))) (w_seq (map wr xs))"

definition r_table :: "'v reader \<Rightarrow> ('v \<Rightarrow> 't \<Rightarrow> 't) \<Rightarrow> 't \<Rightarrow> 't reader" where
  "r_table rd put t = r_bind r_count (\<lambda>count. r_fold count rd put t)"

text \<open>\<^verbatim>\<open>reject()\<close>: whatever went wrong, the stage is named and the snapshot is corrupt.\<close>

definition staged :: "string \<Rightarrow> 'a reader \<Rightarrow> 'a reader" where
  "staged stage p bs = (case p bs of
     Inl e \<Rightarrow> Inl (error Err_PersistenceCorrupt
       (''state decode failed in '' @ stage @ '': '' @ st_detail e))
   | Inr r \<Rightarrow> Inr r)"

definition labelled :: "string \<Rightarrow> 'a reader \<Rightarrow> 'a reader" where
  "labelled what p bs = (case p bs of
     Inl e \<Rightarrow> Inl (error Err_PersistenceCorrupt what) | Inr r \<Rightarrow> Inr r)"

section \<open>Registries\<close>

text \<open>The entries of a slot are written in insertion order; one that was forgotten is skipped.\<close>

definition slot_entries :: "'g slot \<Rightarrow> (digest256 \<times> 'g gen) list" where
  "slot_entries slot = concat (map (\<lambda>content. case om_find (sl_by_content slot) content of
     None \<Rightarrow> [] | Some g \<Rightarrow> [(content, g)]) (sl_order slot))"

definition encode_slot :: "'i ident \<times> 'g slot \<Rightarrow> writer" where
  "encode_slot kv = w_seq
     ([w_u64 (id_value (fst kv)), w_gen (sl_current (snd kv)),
       w_u64 (of_nat (length (sl_by_content (snd kv))))]
      @ map (\<lambda>(content, g). w_seq [w_digest content, w_gen g]) (slot_entries (snd kv)))"

definition encode_registry :: "('i, 'g) registry \<Rightarrow> writer" where
  "encode_registry reg = w_seq
     ([w_u64 (of_nat (length (gr_slots reg))),
       w_u64 (of_nat (\<Sum>kv\<leftarrow>gr_slots reg. length (sl_by_content (snd kv))))]
      @ map encode_slot (gr_slots reg))"

definition r_entry :: "(digest256 \<times> 'g gen) reader" where
  "r_entry = r_bind r_digest (\<lambda>content. r_bind r_gen (\<lambda>g. r_return (content, g)))"

text \<open>
  A slot read back: the identity must not be zero (the message gives the byte offset behind
  it, counted from the start of a snapshot of \<^verbatim>\<open>whole\<close> bytes), the recorded current
  generation is read and dropped, and every pair is restored.
\<close>

definition r_slot ::
    "nat \<Rightarrow> string \<Rightarrow> nat \<Rightarrow> ('i, 'g) registry \<Rightarrow> ('i, 'g) registry reader" where
  "r_slot whole name i reg =
     r_bind r_u64 (\<lambda>raw. case id_decode raw of
       None \<Rightarrow> (\<lambda>rest. r_fail Err_Malformed (''registry '' @ quoted name @ '' entry '' @
         to_dec (of_nat i) @ '' has a zero id at offset '' @
         to_dec (of_nat (whole - length rest))) rest)
     | Some ident \<Rightarrow>
       r_bind r_gen (\<lambda>current :: 'g gen. r_bind r_u64 (\<lambda>count.
       if unat count > kMaxStateRecords
       then r_fail Err_LimitExceeded ''registry entry count exceeds bounded limit''
       else r_fold (unat count) r_entry (\<lambda>(content, g). restore ident content g) reg)))"

fun r_slots ::
    "nat \<Rightarrow> string \<Rightarrow> nat \<Rightarrow> nat \<Rightarrow> ('i, 'g) registry \<Rightarrow> ('i, 'g) registry reader" where
  "r_slots whole name i 0 reg = r_return reg"
| "r_slots whole name i (Suc n) reg =
     r_bind (r_slot whole name i reg) (r_slots whole name (Suc i) n)"

definition decode_registry :: "nat \<Rightarrow> string \<Rightarrow> ('i, 'g) registry reader" where
  "decode_registry whole name = r_bind r_u64 (\<lambda>slots. r_bind r_u64 (\<lambda>entries.
     if unat slots > kMaxStateRecords \<or> unat entries > kMaxStateRecords
     then r_fail Err_LimitExceeded ''registry record count exceeds bounded limit''
     else r_slots whole name 0 (unat slots) empty_registry))"

section \<open>Header and diagnostics\<close>

definition encode_header :: "state_header \<Rightarrow> writer" where
  "encode_header h = w_seq
     [w_gen (hd_epoch h), w_u64 (hd_seq h), w_u64 (hd_next_compilation_id h),
      w_u64 (hd_next_unit_id h), w_u64 (hd_next_attempt_id h), w_u64 (hd_next_lease_id h),
      w_u64 (hd_next_artifact_id h), w_u64 (hd_next_commit_id h), w_u64 (hd_next_provenance_id h),
      w_u64 (hd_next_validation_id h), w_u64 (hd_next_cache_entry_id h),
      w_u64 (hd_next_worker_id h), w_u64 (hd_next_boot_id h), w_u64 (hd_next_session_id h),
      w_u64 (hd_next_intermediate_id h), w_gen (hd_cache_generation h),
      w_millis (hd_opened_at h), w_u64 (hd_records_since_snapshot h), w_u64 (hd_restarts h)]"

definition decode_header :: "state_header reader" where
  "decode_header =
     r_bind (labelled ''epoch'' r_gen) (\<lambda>epoch. r_bind (labelled ''seq'' r_u64) (\<lambda>seq.
     r_bind (labelled ''ids'' r_u64) (\<lambda>compilation. r_bind (labelled ''ids'' r_u64) (\<lambda>unit.
     r_bind (labelled ''ids'' r_u64) (\<lambda>attempt. r_bind (labelled ''ids'' r_u64) (\<lambda>lease.
     r_bind (labelled ''ids'' r_u64) (\<lambda>artifact. r_bind (labelled ''ids'' r_u64) (\<lambda>commit.
     r_bind (labelled ''ids'' r_u64) (\<lambda>provenance. r_bind (labelled ''ids'' r_u64) (\<lambda>validation.
     r_bind (labelled ''ids'' r_u64) (\<lambda>cache_entry. r_bind (labelled ''ids'' r_u64) (\<lambda>worker.
     r_bind (labelled ''ids'' r_u64) (\<lambda>boot. r_bind (labelled ''ids'' r_u64) (\<lambda>session.
     r_bind (labelled ''ids'' r_u64) (\<lambda>intermediate.
     r_bind (labelled ''cache gen'' r_gen) (\<lambda>cache_generation.
     r_bind (labelled ''opened_at'' r_millis) (\<lambda>opened_at.
     r_bind (labelled ''records_since_snapshot'' r_u64) (\<lambda>records.
     r_bind (labelled ''restarts'' r_u64) (\<lambda>restarts.
     r_return \<lparr>hd_epoch = epoch, hd_seq = seq, hd_next_compilation_id = compilation,
       hd_next_unit_id = unit, hd_next_attempt_id = attempt, hd_next_lease_id = lease,
       hd_next_artifact_id = artifact, hd_next_commit_id = commit,
       hd_next_provenance_id = provenance, hd_next_validation_id = validation,
       hd_next_cache_entry_id = cache_entry, hd_next_worker_id = worker, hd_next_boot_id = boot,
       hd_next_session_id = session, hd_next_intermediate_id = intermediate,
       hd_cache_generation = cache_generation, hd_opened_at = opened_at,
       hd_records_since_snapshot = records, hd_restarts = restarts\<rparr>)))))))))))))))))))"

definition encode_violation :: "authority_violation \<Rightarrow> writer" where
  "encode_violation v = w_seq
     [w_millis (av_at v), w_str (av_operation v), w_error (av_code v), w_id (av_session v),
      w_id (av_worker v), w_str (av_detail v)]"

text \<open>A code out of the domain is refused without setting the reader's status.\<close>

definition decode_violation :: "authority_violation reader" where
  "decode_violation =
     r_bind r_millis (\<lambda>at. r_bind r_str (\<lambda>operation. r_bind r_u16 (\<lambda>code.
     if code > error_code_value Err_Shutdown then r_fail Err_Ok [] else
     r_bind r_id (\<lambda>session. r_bind r_id (\<lambda>worker. r_bind r_str (\<lambda>detail.
     r_return \<lparr>av_at = at, av_operation = operation, av_code = error_code_of code,
       av_session = session, av_worker = worker, av_detail = detail\<rparr>))))))"

definition encode_authoritative :: "compilation_id \<times> commit_id \<Rightarrow> writer" where
  "encode_authoritative kv = w_seq [w_id (fst kv), w_id (snd kv)]"

definition decode_authoritative :: "(compilation_id \<times> commit_id) reader" where
  "decode_authoritative = r_bind r_id (\<lambda>compilation. r_bind r_id (\<lambda>commit.
     r_return (compilation, commit)))"

text \<open>
  A cache entry takes over the index of its unit identity when it is newer than the entry
  indexed so far.
\<close>

definition index_newer ::
    "cache_entry \<Rightarrow> (digest256, cache_entry_id) omap \<times> (cache_entry_id, cache_entry) omap
      \<Rightarrow> (digest256, cache_entry_id) omap \<times> (cache_entry_id, cache_entry) omap" where
  "index_newer e t = (case t of (index, entries) \<Rightarrow>
     ((case om_find index (ce_unit_identity e) of
         None \<Rightarrow> om_put (ce_unit_identity e) (ce_id e) index
       | Some k \<Rightarrow>
           if (case om_find entries k of None \<Rightarrow> Gen 0 | Some old \<Rightarrow> ce_generation old)
               < ce_generation e
           then om_put (ce_unit_identity e) (ce_id e) index else index),
      om_put (ce_id e) e entries))"

section \<open>The state\<close>

definition encode_schema :: writer where
  "encode_schema = w_seq [w_domain ''dc.state.v1'', w_u16 kSchemaVersion]"

definition encode_state :: "state \<Rightarrow> writer" where
  "encode_state s = w_seq
     [encode_schema, encode_header (cs_header s),
      encode_registry (cs_sources s), encode_registry (cs_irs s),
      encode_registry (cs_dependencies s), encode_registry (cs_toolchains s),
      encode_registry (cs_targets s), encode_registry (cs_specializations s),
      encode_registry (cs_policies s),
      w_table encode_worker (map snd (cs_workers s)),
      w_table encode_request (map snd (cs_requests s)),
      w_table encode_job (map snd (cs_jobs s)),
      w_table encode_compilation (map snd (cs_compilations s)),
      w_table encode_attempt (map snd (cs_attempts s)),
      w_table encode_commit (map snd (cs_commits s)),
      w_table encode_authoritative (cs_authoritative s),
      w_table encode_provenance (map snd (cs_provenances s)),
      w_table encode_validation_report (map snd (cs_validations s)),
      w_table encode_cache_entry (map snd (cs_cache_entries s)),
      w_table encode_intermediate (map snd (cs_intermediates s)),
      w_table encode_lease (map snd (cs_leases s)),
      w_table encode_negative_cache (cs_negative_cache s),
      w_table encode_violation (cs_violations s)]"

text \<open>A read that fails is reported as corruption with the reader's own detail.\<close>

definition corrupt :: "'a reader \<Rightarrow> 'a reader" where
  "corrupt p bs = (case p bs of
     Inl e \<Rightarrow> Inl (error Err_PersistenceCorrupt (st_detail e)) | Inr r \<Rightarrow> Inr r)"

definition decode_schema :: "unit reader" where
  "decode_schema =
     r_bind (labelled ''state domain tag mismatch'' (r_domain ''dc.state.v1'')) (\<lambda>_.
     r_bind (corrupt r_u16) (\<lambda>schema.
     if schema \<noteq> kSchemaVersion then r_fail Err_SchemaMismatch ''state schema mismatch''
     else r_return ()))"

definition by_key :: "('v \<Rightarrow> 'k::linorder) \<Rightarrow> 'v reader \<Rightarrow> ('k, 'v) omap reader" where
  "by_key key rd = r_table rd (\<lambda>v. om_put (key v) v) []"

definition r_state :: "nat \<Rightarrow> state reader" where
  "r_state whole =
     r_bind decode_schema (\<lambda>_. r_bind decode_header (\<lambda>header.
     r_bind (staged ''sources'' (decode_registry whole ''sources'')) (\<lambda>sources.
     r_bind (staged ''irs'' (decode_registry whole ''irs'')) (\<lambda>irs.
     r_bind (staged ''dependencies'' (decode_registry whole ''dependencies'')) (\<lambda>dependencies.
     r_bind (staged ''toolchains'' (decode_registry whole ''toolchains'')) (\<lambda>toolchains.
     r_bind (staged ''targets'' (decode_registry whole ''targets'')) (\<lambda>targets.
     r_bind (staged ''specializations'' (decode_registry whole ''specializations'')) (\<lambda>specs.
     r_bind (staged ''policies'' (decode_registry whole ''policies'')) (\<lambda>policies.
     r_bind (staged ''workers'' (by_key wk_id decode_worker)) (\<lambda>workers.
     r_bind (staged ''requests'' (by_key rq_request_identity decode_request)) (\<lambda>requests.
     r_bind (staged ''jobs'' (by_key jr_request_identity decode_job)) (\<lambda>jobs.
     r_bind (staged ''compilations'' (by_key cr_id decode_compilation)) (\<lambda>compilations.
     r_bind (staged ''attempts'' (by_key ca_id decode_attempt)) (\<lambda>attempts.
     r_bind (staged ''commits'' (by_key ac_id decode_commit)) (\<lambda>commits.
     r_bind (staged ''authoritative'' (r_table decode_authoritative
       (\<lambda>(compilation, commit). om_put compilation commit) [])) (\<lambda>authoritative.
     r_bind (staged ''provenances'' (by_key pv_id decode_provenance)) (\<lambda>provenances.
     r_bind (staged ''validations'' (by_key vp_id decode_validation_report)) (\<lambda>validations.
     r_bind (staged ''cache'' (r_table decode_cache_entry index_newer ([], []))) (\<lambda>cache.
     r_bind (staged ''intermediates'' (by_key ia_id decode_intermediate)) (\<lambda>intermediates.
     r_bind (staged ''leases'' (by_key cl_id decode_lease)) (\<lambda>leases.
     r_bind (staged ''leases'' (r_table decode_negative_cache (\<lambda>e es. es @ [e]) [])) (\<lambda>negative.
     r_bind (staged ''leases'' (r_table decode_violation (\<lambda>v vs. vs @ [v]) [])) (\<lambda>violations.
     r_return \<lparr>cs_header = header, cs_sources = sources, cs_irs = irs,
       cs_dependencies = dependencies, cs_toolchains = toolchains, cs_targets = targets,
       cs_specializations = specs, cs_policies = policies, cs_workers = workers,
       cs_sessions = [], cs_compilations = compilations, cs_attempts = attempts,
       cs_commits = commits, cs_authoritative = authoritative, cs_provenances = provenances,
       cs_validations = validations, cs_cache_entries = snd cache, cs_cache_index = fst cache,
       cs_intermediates = intermediates, cs_leases = leases, cs_jobs = jobs,
       cs_requests = requests, cs_negative_cache = negative, cs_violations = violations,
       cs_controls = []\<rparr>)))))))))))))))))))))))"

definition decode_state :: "bytes \<Rightarrow> status + state" where
  "decode_state bs = (case r_state (length bs) bs of
     Inl e \<Rightarrow> Inl e
   | Inr (s, rest) \<Rightarrow>
       if rest \<noteq> [] then Inl (error Err_PersistenceCorrupt ''state has trailing bytes'')
       else Inr s)"

section \<open>Records that must end with their bytes\<close>

definition decode_job_record :: "bytes \<Rightarrow> job_record option" where
  "decode_job_record bs = (case decode_job bs of Inr (job, []) \<Rightarrow> Some job | _ \<Rightarrow> None)"

definition decode_request_record :: "bytes \<Rightarrow> compilation_request option" where
  "decode_request_record bs =
     (case decode_request bs of Inr (request, []) \<Rightarrow> Some request | _ \<Rightarrow> None)"

definition encode_registry_record :: "digest256 \<Rightarrow> u64 \<Rightarrow> u64 \<Rightarrow> writer" where
  "encode_registry_record content generation registry_id = w_seq
     [w_domain ''dc.registry-record.v1'', w_u64 registry_id, w_digest content, w_u64 generation]"

end
