(* ===== verification/DC_Snapshots.thy ===== *)
theory DC_Snapshots
  imports DC_StateCodec
begin

text \<open>
  What a snapshot keeps: the round trip of the whole state, and the states that can be written
  but not read back.
\<close>

section \<open>Stages and tables\<close>

lemma reads_staged: "reads p bs x \<Longrightarrow> reads (staged stage p) bs x"
  unfolding reads_def staged_def by fastforce

lemma reads_labelled: "reads p bs x \<Longrightarrow> reads (labelled what p) bs x"
  unfolding reads_def labelled_def by fastforce

lemma faithful_staged [codec]: "faithful w p x \<Longrightarrow> faithful w (staged stage p) x"
  unfolding faithful_def by (blast intro: reads_staged)

lemma faithful_labelled [codec]: "faithful w p x \<Longrightarrow> faithful w (labelled what p) x"
  unfolding faithful_def by (blast intro: reads_labelled)

lemma reads_count: "n \<le> kMaxStateRecords \<Longrightarrow> reads r_count (le_bytes 8 (of_nat n :: u64)) n"
  unfolding r_count_def
  using reads_bind [OF reads_u64, of _ "of_nat n" "[]" n]
  by (simp add: unat_of_nat kMaxStateRecords_def)

lemma faithful_count: "n \<le> kMaxStateRecords \<Longrightarrow> faithful (w_u64 (of_nat n)) r_count n"
  unfolding w_u64_def by (rule faithful_bytes [OF reads_count])

lemma fold_faithful:
  "\<forall>x\<in>set xs. faithful (wr x) rd (view x) \<Longrightarrow>
     faithful (w_seq (map wr xs)) (r_fold (length xs) rd put t) (fold put (map view xs) t)"
proof (induction xs arbitrary: t)
  case (Cons x xs)
  then show ?case by (auto intro: faithful_then)
qed (simp add: faithful_Nil)

lemma table_faithful:
  assumes "\<forall>x\<in>set xs. faithful (wr x) rd (view x)" "length xs \<le> kMaxStateRecords"
  shows "faithful (w_table wr xs) (r_table rd put t) (fold put (map view xs) t)"
  unfolding w_table_def r_table_def
  by (rule faithful_then [where f = "\<lambda>count. r_fold count rd put t"])
    (rule faithful_count [OF assms(2)], rule fold_faithful [OF assms(1)])

section \<open>Ordered tables\<close>

lemma om_put_last: "\<forall>e\<in>set m. fst e < k \<Longrightarrow> om_put k v m = m @ [(k, v)]"
  by (induction m) auto

lemma om_ordered_snoc:
  "om_ordered (m @ [(k, v)]) \<longleftrightarrow> om_ordered m \<and> (\<forall>e\<in>set m. fst e < k)"
  by (auto simp: om_ordered_def om_keys_def sorted_append image_iff less_le)

lemma om_ordered_append1: "om_ordered (m @ n) \<Longrightarrow> om_ordered m"
  by (auto simp: om_ordered_def om_keys_def sorted_append)

lemma fold_om_put:
  "om_ordered m \<Longrightarrow> fold (\<lambda>(k, v). om_put k v) m [] = m"
proof (induction m rule: rev_induct)
  case (snoc e m)
  obtain k v where e: "e = (k, v)" by force
  with snoc.prems have "om_ordered m" "\<forall>e\<in>set m. fst e < k" by (simp_all add: om_ordered_snoc)
  with snoc.IH e show ?case by (simp add: om_put_last)
qed simp

lemma om_ext:
  assumes "om_ordered m" "om_ordered n" "\<And>k. om_find m k = om_find n k"
  shows "m = n"
proof -
  have d: "distinct (map fst m)" "distinct (map fst n)" "sorted (map fst m)" "sorted (map fst n)"
    using assms(1,2) by (simp_all add: om_ordered_def om_keys_def)
  have "set m = set n" using assms(3) map_of_inject_set [OF d(1,2)] by (metis ext)
  then show ?thesis
    using d by (intro map_sorted_distinct_set_unique [of fst m n]) (auto simp: distinct_map)
qed

text \<open>A table of self-keyed records that the snapshot can carry.\<close>

definition table_ok :: "('v \<Rightarrow> 'k::linorder) \<Rightarrow> ('v \<Rightarrow> bool) \<Rightarrow> ('k, 'v) omap \<Rightarrow> bool" where
  "table_ok key ok m \<longleftrightarrow> om_ordered m \<and> length m \<le> kMaxStateRecords
     \<and> list_all (\<lambda>(k, v). key v = k \<and> ok v) m"

lemma fold_by_key:
  assumes "\<forall>(k, v)\<in>set m. key (view v) = k"
  shows "fold (\<lambda>v. om_put (key v) v) (map view (map snd m)) t
    = fold (\<lambda>(k, v). om_put k v) (om_map_values view m) t"
  using assms by (induction m arbitrary: t) (auto simp: om_map_values_def)

lemma by_key_faithful:
  assumes "table_ok key ok m" "\<And>v. ok v \<Longrightarrow> faithful (wr v) rd (view v)" "\<And>v. key (view v) = key v"
  shows "faithful (w_table wr (map snd m)) (by_key key rd) (om_map_values view m)"
proof -
  have m: "om_ordered m" "length m \<le> kMaxStateRecords" "\<forall>(k, v)\<in>set m. key v = k \<and> ok v"
    using assms(1) by (auto simp: table_ok_def list_all_iff)
  have "faithful (w_table wr (map snd m)) (by_key key rd)
      (fold (\<lambda>v. om_put (key v) v) (map view (map snd m)) [])"
    unfolding by_key_def by (rule table_faithful) (use m assms(2) in auto)
  also have "fold (\<lambda>v. om_put (key v) v) (map view (map snd m)) [] = om_map_values view m"
    using m assms(3) by (subst fold_by_key) (auto simp: fold_om_put)
  finally show ?thesis .
qed

lemma om_map_values_id [simp]: "om_map_values (\<lambda>v. v) m = m"
  by (induction m) (auto simp: om_map_values_def)

section \<open>Registries\<close>

definition restored_slot :: "(digest256 \<times> 'g gen) list \<Rightarrow> 'g slot \<Rightarrow> 'g slot" where
  "restored_slot es s = fold (\<lambda>(c, g) slot.
     \<lparr>sl_by_content = om_put c g (sl_by_content slot),
      sl_current = (if sl_current slot < g then g else sl_current slot),
      sl_order = (if om_find (sl_by_content slot) c = None then sl_order slot @ [c] else sl_order slot)\<rparr>) es s"

lemma om_put_put [simp]: "om_put k v (om_put k w m) = om_put k v m"
  by (induction m) auto

lemma slot_of_put [simp]: "slot_of (put_slot i s reg) i = s"
  by (simp add: slot_of_def put_slot_def)

lemma restore_fold:
  "es \<noteq> [] \<Longrightarrow> fold (\<lambda>(c, g). restore i c g) es reg
     = put_slot i (restored_slot es (slot_of reg i)) reg"
proof (induction es arbitrary: reg)
  case (Cons e es)
  obtain c g where e: "e = (c, g)" by force
  define s' where "s' = \<lparr>sl_by_content = om_put c g (sl_by_content (slot_of reg i)),
      sl_current = (if sl_current (slot_of reg i) < g then g else sl_current (slot_of reg i)),
      sl_order = (if om_find (sl_by_content (slot_of reg i)) c = None
        then sl_order (slot_of reg i) @ [c] else sl_order (slot_of reg i))\<rparr>"
  have r: "restore i c g reg = put_slot i s' reg" by (simp add: restore_def s'_def Let_def)
  have s: "restored_slot (e # es) (slot_of reg i) = restored_slot es s'"
    by (simp add: restored_slot_def e s'_def)
  show ?case
  proof (cases "es = []")
    case True
    then show ?thesis by (simp add: e r s restored_slot_def) (simp add: s'_def restored_slot_def)
  next
    case False
    have "fold (\<lambda>(c, g). restore i c g) es (put_slot i s' reg)
        = put_slot i (restored_slot es s') (put_slot i s' reg)"
      using Cons.IH [OF False, of "put_slot i s' reg"] by simp
    moreover have "put_slot i x (put_slot i s' reg) = put_slot i x reg" for x
      by (simp add: put_slot_def)
    ultimately show ?thesis using s by (simp add: e r)
  qed
qed simp

text \<open>What a slot is after its entries were restored into an empty one.\<close>

definition newest :: "(digest256 \<times> 'g gen) list \<Rightarrow> 'g gen" where
  "newest es = fold (\<lambda>(c, g) current. if current < g then g else current) es (Gen 0)"

lemma restored_empty:
  "distinct (map fst es) \<Longrightarrow> restored_slot es empty_slot
     = \<lparr>sl_by_content = fold (\<lambda>(c, g). om_put c g) es [], sl_current = newest es, sl_order = map fst es\<rparr>
     \<and> (\<forall>c. om_find (fold (\<lambda>(c, g). om_put c g) es []) c = map_of es c)
     \<and> om_ordered (fold (\<lambda>(c, g). om_put c g) es [])"
proof (induction es rule: rev_induct)
  case Nil
  then show ?case by (simp add: restored_slot_def newest_def empty_slot_def)
next
  case (snoc e es)
  obtain c g where e: "e = (c, g)" by force
  from snoc have IH: "restored_slot es empty_slot
     = \<lparr>sl_by_content = fold (\<lambda>(c, g). om_put c g) es [], sl_current = newest es, sl_order = map fst es\<rparr>"
     "\<forall>c. om_find (fold (\<lambda>(c, g). om_put c g) es []) c = map_of es c"
     "om_ordered (fold (\<lambda>(c, g). om_put c g) es [])" by auto
  have new: "map_of es c = None" using snoc.prems by (simp add: e map_of_eq_None_iff)
  have "restored_slot (es @ [e]) empty_slot
     = \<lparr>sl_by_content = om_put c g (fold (\<lambda>(c, g). om_put c g) es []),
        sl_current = newest (es @ [e]), sl_order = map fst (es @ [e])\<rparr>"
    using IH(1,2) new by (simp add: restored_slot_def e newest_def)
  moreover have "map_of (es @ [e]) k = (if k = c then Some g else map_of es k)" for k
    using new by (simp add: e map_add_def split: option.split)
  ultimately show ?case using IH(2,3) by (simp add: e)
qed

definition slot_ok :: "'g slot \<Rightarrow> bool" where
  "slot_ok s \<longleftrightarrow> om_ordered (sl_by_content s) \<and> distinct (sl_order s) \<and> sl_order s \<noteq> []
     \<and> set (sl_order s) = set (om_keys (sl_by_content s))
     \<and> length (sl_by_content s) \<le> kMaxStateRecords"

definition slot_view :: "'g slot \<Rightarrow> 'g slot" where
  "slot_view s = s\<lparr>sl_current := newest (slot_entries s)\<rparr>"

lemma slot_entries_eq:
  assumes "slot_ok s"
  shows "slot_entries s = map (\<lambda>c. (c, the (om_find (sl_by_content s) c))) (sl_order s)"
proof -
  have "\<forall>c\<in>set (sl_order s). om_find (sl_by_content s) c \<noteq> None"
    using assms by (auto simp: slot_ok_def om_find_keys simp del: not_None_eq)
  moreover have "\<forall>c\<in>set cs. om_find m c \<noteq> None \<Longrightarrow>
      concat (map (\<lambda>c. case om_find m c of None \<Rightarrow> [] | Some g \<Rightarrow> [(c, g)]) cs)
        = map (\<lambda>c. (c, the (om_find m c))) cs" for cs and m :: "(digest256, 'g gen) omap"
    by (induction cs) auto
  ultimately show ?thesis by (simp add: slot_entries_def)
qed

lemma slot_restored:
  assumes "slot_ok s"
  shows "restored_slot (slot_entries s) empty_slot = slot_view s"
proof -
  have d: "distinct (map fst (slot_entries s))" and order: "map fst (slot_entries s) = sl_order s"
    using assms by (simp_all add: slot_entries_eq o_def slot_ok_def)
  have content: "map_of (slot_entries s) c = om_find (sl_by_content s) c" for c
  proof (cases "c \<in> set (sl_order s)")
    case True
    then obtain g where "om_find (sl_by_content s) c = Some g"
      using assms om_find_keys [of "sl_by_content s" c] by (auto simp: slot_ok_def)
    with True show ?thesis by (simp add: slot_entries_eq [OF assms] map_of_map_restrict)
  next
    case False
    then have "om_find (sl_by_content s) c = None" "map_of (slot_entries s) c = None"
      using assms om_find_keys [of "sl_by_content s" c] order
      by (auto simp: slot_ok_def map_of_eq_None_iff simp flip: set_map)
    then show ?thesis by simp
  qed
  have "fold (\<lambda>(c, g). om_put c g) (slot_entries s) [] = sl_by_content s"
    by (rule om_ext) (use restored_empty [OF d] content assms in \<open>auto simp: slot_ok_def\<close>)
  then show ?thesis
    using restored_empty [OF d] order by (simp add: slot_view_def)
qed

lemma entry_faithful [codec]:
  "faithful (w_seq [w_digest c, w_gen g]) r_entry (c, g)"
  unfolding r_entry_def by (rule faithful_seq_Cons faithful_seq_Nil codec refl)+

lemma entries_length: "slot_ok s \<Longrightarrow> length (slot_entries s) = length (sl_by_content s)"
proof -
  assume s: "slot_ok s"
  then have "length (sl_order s) = card (set (om_keys (sl_by_content s)))"
    by (metis distinct_card slot_ok_def)
  also have "\<dots> = length (sl_by_content s)"
    using s by (simp add: slot_ok_def om_ordered_def distinct_card) (simp add: om_keys_def)
  finally show ?thesis using s by (simp add: slot_entries_eq)
qed

lemma slot_faithful:
  assumes "slot_ok s" "i \<noteq> Ident 0" "om_find (gr_slots reg) i = None"
  shows "faithful (encode_slot (i, s)) (r_slot whole name j reg) (put_slot i (slot_view s) reg)"
proof -
  let ?n = "of_nat (length (sl_by_content s)) :: u64"
  have n: "unat ?n = length (slot_entries s)" "\<not> unat ?n > kMaxStateRecords"
    using assms(1) by (simp_all add: entries_length slot_ok_def unat_of_nat kMaxStateRecords_def)
  have "faithful (w_seq (map (\<lambda>(c, g). w_seq [w_digest c, w_gen g]) (slot_entries s)))
      (r_fold (length (slot_entries s)) r_entry (\<lambda>(c, g). restore i c g) reg)
      (fold (\<lambda>(c, g). restore i c g) (map (\<lambda>e. e) (slot_entries s)) reg)"
    by (rule fold_faithful) (clarify, rule entry_faithful)
  moreover have "fold (\<lambda>(c, g). restore i c g) (slot_entries s) reg = put_slot i (slot_view s) reg"
  proof -
    have "slot_entries s \<noteq> []" using assms(1) by (simp add: slot_entries_eq) (simp add: slot_ok_def)
    then show ?thesis
      by (simp add: restore_fold slot_of_def assms(3) slot_restored [OF assms(1)])
  qed
  ultimately have entries: "faithful (w_seq (map (\<lambda>(c, g). w_seq [w_digest c, w_gen g]) (slot_entries s)))
      (r_fold (unat ?n) r_entry (\<lambda>(c, g). restore i c g) reg) (put_slot i (slot_view s) reg)"
    using n by simp
  obtain v where i: "i = Ident v" by (cases i)
  with assms(2) have v: "id_decode v = Some i" by (simp add: id_decode_def)
  show ?thesis
    unfolding encode_slot_def r_slot_def append_Cons append_Nil fst_conv snd_conv
    by (rule faithful_seq_Cons [OF faithful_u64], unfold i ident.sel v [unfolded i] option.case,
        rule faithful_seq_Cons [OF faithful_gen], rule faithful_seq_Cons [OF faithful_u64])
      (use entries n in \<open>simp add: i\<close>)
qed

section \<open>The round trip\<close>

definition registry_ok :: "('i, 'g) registry \<Rightarrow> bool" where
  "registry_ok reg \<longleftrightarrow> gr_history_limit reg = 64 \<and> om_ordered (gr_slots reg)
     \<and> length (gr_slots reg) \<le> kMaxStateRecords
     \<and> (\<Sum>kv\<leftarrow>gr_slots reg. length (sl_by_content (snd kv))) \<le> kMaxStateRecords
     \<and> list_all (\<lambda>(i, s). i \<noteq> Ident 0 \<and> slot_ok s) (gr_slots reg)"

definition registry_view :: "('i, 'g) registry \<Rightarrow> ('i, 'g) registry" where
  "registry_view reg = reg\<lparr>gr_slots := om_map_values slot_view (gr_slots reg)\<rparr>"

lemma slots_faithful:
  assumes "om_ordered (ds @ ms)" "list_all (\<lambda>(i, s). i \<noteq> Ident 0 \<and> slot_ok s) ms"
  shows "faithful (w_seq (map encode_slot ms))
    (r_slots whole name j (length ms) (reg\<lparr>gr_slots := om_map_values slot_view ds\<rparr>))
    (reg\<lparr>gr_slots := om_map_values slot_view (ds @ ms)\<rparr>)"
  using assms
proof (induction ms arbitrary: ds j)
  case (Cons e ms)
  obtain i s where e: "e = (i, s)" by force
  let ?reg = "reg\<lparr>gr_slots := om_map_values slot_view ds\<rparr>"
  have "om_ordered (ds @ [(i, s)])" using Cons.prems(1) om_ordered_append1 [of "ds @ [e]" ms] by (simp add: e)
  then have below: "\<forall>d\<in>set (om_map_values slot_view ds). fst d < i"
    by (auto simp: om_ordered_snoc om_map_values_def)
  then have none: "om_find (gr_slots ?reg) i = None" 
    by (auto simp: map_of_eq_None_iff om_map_values_def)
  have "put_slot i (slot_view s) ?reg = reg\<lparr>gr_slots := om_map_values slot_view (ds @ [e])\<rparr>"
    using below by (simp add: put_slot_def om_put_last e) (simp add: om_map_values_def)
  then have first: "faithful (encode_slot e) (r_slot whole name j ?reg)
      (reg\<lparr>gr_slots := om_map_values slot_view (ds @ [e])\<rparr>)"
    using slot_faithful [OF _ _ none, of s whole name j] Cons.prems(2) by (simp add: e)
  have "faithful (w_seq (map encode_slot ms))
      (r_slots whole name (Suc j) (length ms) (reg\<lparr>gr_slots := om_map_values slot_view (ds @ [e])\<rparr>))
      (reg\<lparr>gr_slots := om_map_values slot_view ((ds @ [e]) @ ms)\<rparr>)"
    by (rule Cons.IH) (use Cons.prems in simp_all)
  with first show ?case by (simp add: faithful_then)
qed (simp add: faithful_Nil)

lemma registry_faithful [codec]:
  assumes "registry_ok reg"
  shows "faithful (encode_registry reg) (decode_registry whole name) (registry_view reg)"
proof -
  have ok: "gr_history_limit reg = 64" "om_ordered (gr_slots reg)"
    "length (gr_slots reg) \<le> kMaxStateRecords"
    "(\<Sum>kv\<leftarrow>gr_slots reg. length (sl_by_content (snd kv))) \<le> kMaxStateRecords"
    "list_all (\<lambda>(i, s). i \<noteq> Ident 0 \<and> slot_ok s) (gr_slots reg)"
    using assms by (simp_all add: registry_ok_def)
  have n: "unat (of_nat k :: u64) = k" if "k \<le> kMaxStateRecords" for k
    using that by (simp add: unat_of_nat kMaxStateRecords_def)
  have "faithful (w_seq (map encode_slot (gr_slots reg)))
      (r_slots whole name 0 (length (gr_slots reg)) empty_registry) (registry_view reg)"
    using slots_faithful [of "[]" "gr_slots reg" whole name 0 empty_registry] ok
    by (cases reg) (simp add: empty_registry_def registry_view_def om_map_values_def)
  then show ?thesis
    unfolding encode_registry_def decode_registry_def append_Cons append_Nil
    by (intro faithful_seq_Cons [OF faithful_u64]) (use ok n in simp)
qed

text \<open>The header, the diagnostics and the authority table.\<close>

lemma reads_corrupt: "reads p bs x \<Longrightarrow> reads (corrupt p) bs x"
  unfolding reads_def corrupt_def by fastforce

lemma schema_faithful [codec]: "faithful encode_schema decode_schema ()"
  unfolding encode_schema_def decode_schema_def
proof (rule faithful_seq_Cons [OF faithful_labelled [OF faithful_domain]], rule faithful_seq_Cons)
  show "faithful (w_u16 kSchemaVersion) (corrupt r_u16) kSchemaVersion"
    using faithful_u16 [of kSchemaVersion] unfolding faithful_def by (blast intro: reads_corrupt)
qed (simp add: faithful_Nil)

lemma header_faithful [codec]:
  "is_i64 (hd_opened_at h) \<Longrightarrow> faithful (encode_header h) decode_header h"
  unfolding encode_header_def decode_header_def
  by (rule faithful_seq_Cons faithful_seq_Nil codec | (simp; fail))+

definition violation_encodable :: "authority_violation \<Rightarrow> bool" where
  "violation_encodable v \<longleftrightarrow> is_i64 (av_at v) \<and> error_in_domain (av_code v)
     \<and> av_session v \<noteq> Ident 0 \<and> av_worker v \<noteq> Ident 0"

lemma faithful_code: "faithful (w_error c) r_u16 (error_code_value c)"
  unfolding w_error_def by (rule faithful_u16)

lemma code_in_domain:
  "error_in_domain c \<Longrightarrow> \<not> error_code_value c > error_code_value Err_Shutdown
     \<and> error_code_of (error_code_value c) = c"
  by (auto simp: error_in_domain_def dest: leD)

lemma violation_faithful:
  "violation_encodable v \<Longrightarrow> faithful (encode_violation v) decode_violation v"
  unfolding encode_violation_def decode_violation_def violation_encodable_def
  by (elim conjE, rule faithful_seq_Cons [OF faithful_millis], assumption,
      rule faithful_seq_Cons [OF faithful_str], rule faithful_seq_Cons [OF faithful_code],
      simp only: code_in_domain if_False,
      (rule faithful_seq_Cons faithful_seq_Nil codec | (simp; fail))+)

lemma authoritative_faithful:
  "fst kv \<noteq> Ident 0 \<Longrightarrow> snd kv \<noteq> Ident 0
     \<Longrightarrow> faithful (encode_authoritative kv) decode_authoritative kv"
  unfolding encode_authoritative_def decode_authoritative_def
  by (rule faithful_seq_Cons faithful_seq_Nil codec | (simp; fail))+

lemma fold_snoc: "fold (\<lambda>e es. es @ [e]) xs ys = ys @ xs"
  by (induction xs arbitrary: ys) simp_all

lemma index_newer_entries:
  "snd (fold index_newer xs t) = fold (\<lambda>e. om_put (ce_id e) e) xs (snd t)"
  by (induction xs arbitrary: t) (simp_all add: index_newer_def split: prod.split)

text \<open>
  The states that a snapshot carries.  Every table is ordered and keyed by its records, within
  the bound on counts; every record can be encoded; a violation names a session and a worker.
\<close>

definition state_encodable :: "state \<Rightarrow> bool" where
  "state_encodable s \<longleftrightarrow> is_i64 (hd_opened_at (cs_header s))
     \<and> registry_ok (cs_sources s) \<and> registry_ok (cs_irs s) \<and> registry_ok (cs_dependencies s)
     \<and> registry_ok (cs_toolchains s) \<and> registry_ok (cs_targets s)
     \<and> registry_ok (cs_specializations s) \<and> registry_ok (cs_policies s)
     \<and> table_ok wk_id worker_encodable (cs_workers s)
     \<and> table_ok rq_request_identity request_encodable (cs_requests s)
     \<and> table_ok jr_request_identity job_encodable (cs_jobs s)
     \<and> table_ok cr_id compilation_encodable (cs_compilations s)
     \<and> table_ok ca_id attempt_encodable (cs_attempts s)
     \<and> table_ok ac_id commit_encodable (cs_commits s)
     \<and> om_ordered (cs_authoritative s) \<and> length (cs_authoritative s) \<le> kMaxStateRecords
     \<and> list_all (\<lambda>kv. fst kv \<noteq> Ident 0 \<and> snd kv \<noteq> Ident 0) (cs_authoritative s)
     \<and> table_ok pv_id provenance_encodable (cs_provenances s)
     \<and> table_ok vp_id validation_report_encodable (cs_validations s)
     \<and> table_ok ce_id cache_entry_encodable (cs_cache_entries s)
     \<and> table_ok ia_id intermediate_encodable (cs_intermediates s)
     \<and> table_ok cl_id lease_encodable (cs_leases s)
     \<and> length (cs_negative_cache s) \<le> kMaxStateRecords
     \<and> list_all negative_cache_encodable (cs_negative_cache s)
     \<and> length (cs_violations s) \<le> kMaxStateRecords
     \<and> list_all violation_encodable (cs_violations s)"

text \<open>What comes back: no sessions or messages, and an index rebuilt from the cache entries.\<close>

definition state_view :: "state \<Rightarrow> state" where
  "state_view s = s\<lparr>cs_sources := registry_view (cs_sources s), cs_irs := registry_view (cs_irs s),
     cs_dependencies := registry_view (cs_dependencies s),
     cs_toolchains := registry_view (cs_toolchains s), cs_targets := registry_view (cs_targets s),
     cs_specializations := registry_view (cs_specializations s),
     cs_policies := registry_view (cs_policies s),
     cs_workers := om_map_values worker_fields (cs_workers s), cs_sessions := [],
     cs_requests := om_map_values request_view (cs_requests s),
     cs_cache_index := fst (fold index_newer (map snd (cs_cache_entries s)) ([], [])),
     cs_controls := []\<rparr>"

lemma cache_faithful:
  assumes "table_ok ce_id cache_entry_encodable m"
  shows "faithful (w_table encode_cache_entry (map snd m)) (r_table decode_cache_entry index_newer ([], []))
    (fst (fold index_newer (map snd m) ([], [])), m)"
proof -
  have m: "om_ordered m" "length m \<le> kMaxStateRecords" "\<forall>(k, v)\<in>set m. ce_id v = k \<and> cache_entry_encodable v"
    using assms by (auto simp: table_ok_def list_all_iff)
  have "faithful (w_table encode_cache_entry (map snd m)) (r_table decode_cache_entry index_newer ([], []))
      (fold index_newer (map (\<lambda>v. v) (map snd m)) ([], []))"
    by (rule table_faithful) (use m cache_entry_faithful in auto)
  moreover have "snd (fold index_newer (map snd m) ([], [])) = m"
  proof -
    have "\<forall>(k, v)\<in>set m. ce_id v = k" using m(3) by auto
    then show ?thesis
      using fold_by_key [of m ce_id "\<lambda>v. v" "[]"] m(1) by (simp add: index_newer_entries fold_om_put)
  qed
  ultimately show ?thesis by (metis list.map_ident prod.collapse)
qed

lemma authority_table_faithful:
  assumes "om_ordered m" "length m \<le> kMaxStateRecords"
    "list_all (\<lambda>kv. fst kv \<noteq> Ident 0 \<and> snd kv \<noteq> Ident 0) m"
  shows "faithful (w_table encode_authoritative m)
    (r_table decode_authoritative (\<lambda>(compilation, commit). om_put compilation commit) []) m"
  using table_faithful [of m encode_authoritative decode_authoritative "\<lambda>kv. kv"
      "\<lambda>(c, k). om_put c k" "[]"] assms authoritative_faithful
  by (auto simp: fold_om_put list_all_iff)

lemma list_table_faithful:
  assumes "length xs \<le> kMaxStateRecords" "list_all ok xs" "\<And>x. ok x \<Longrightarrow> faithful (wr x) rd x"
  shows "faithful (w_table wr xs) (r_table rd (\<lambda>e es. es @ [e]) []) xs"
  using table_faithful [of xs wr rd "\<lambda>x. x" "\<lambda>e es. es @ [e]" "[]"] assms
  by (auto simp: fold_snoc list_all_iff)

lemma by_key_same:
  "table_ok key ok m \<Longrightarrow> (\<And>v. ok v \<Longrightarrow> faithful (wr v) rd v) \<Longrightarrow>
     faithful (w_table wr (map snd m)) (by_key key rd) m"
  using by_key_faithful [of key ok m wr rd "\<lambda>v. v"] by simp

lemma view_keys [simp]:
  "wk_id (worker_fields v) = wk_id v" "rq_request_identity (request_view r) = rq_request_identity r"
  by (simp_all add: worker_fields_def request_view_def)

lemmas table_rules =
  by_key_faithful [where key = wk_id and ok = worker_encodable and view = worker_fields, OF _ worker_faithful view_keys(1)]
  by_key_faithful [where key = rq_request_identity and ok = request_encodable and view = request_view, OF _ request_faithful view_keys(2)]
  by_key_same [where key = jr_request_identity and ok = job_encodable, OF _ job_faithful]
  by_key_same [where key = cr_id and ok = compilation_encodable, OF _ compilation_faithful]
  by_key_same [where key = ca_id and ok = attempt_encodable, OF _ attempt_faithful]
  by_key_same [where key = ac_id and ok = commit_encodable, OF _ commit_faithful]
  by_key_same [where key = pv_id and ok = provenance_encodable, OF _ provenance_faithful]
  by_key_same [where key = vp_id and ok = validation_report_encodable, OF _ validation_report_faithful]
  by_key_same [where key = ia_id and ok = intermediate_encodable, OF _ intermediate_faithful]
  by_key_same [where key = cl_id and ok = lease_encodable, OF _ lease_faithful]
  authority_table_faithful cache_faithful
  list_table_faithful [where ok = negative_cache_encodable, OF _ _ negative_cache_faithful]
  list_table_faithful [where ok = violation_encodable, OF _ _ violation_faithful]

lemma state_faithful:
  assumes "state_encodable s"
  shows "faithful (encode_state s) (r_state whole) (state_view s)"
  unfolding encode_state_def r_state_def
  by (rule faithful_seq_Cons faithful_seq_Nil schema_faithful header_faithful faithful_staged
      registry_faithful table_rules
    | (use assms in \<open>simp add: state_encodable_def state_view_def; fail\<close>))+

lemma snapshot_read:
  assumes "state_encodable s" and "encode_state s [] = Some bs"
  shows "decode_state bs = Inr (state_view s)"
proof -
  have "reads (r_state (length bs)) bs (state_view s)"
    by (rule faithful_start [OF state_faithful [OF assms(1)] assms(2)])
  then have "r_state (length bs) (bs @ []) = Inr (state_view s, [])" unfolding reads_def by blast
  then show ?thesis by (simp add: decode_state_def)
qed

text \<open>
  C15: The snapshot of an encodable state decodes to that state, without its sessions
  and messages, with registries whose current generations are the newest remembered ones, and
  with the cache index rebuilt from the entries.
\<close>

theorem snapshot_roundtrip:
  assumes "state_encodable s" and "encode_state s [] = Some bs"
  shows "decode_state bs = Inr (state_view s)"
  by (rule snapshot_read [OF assms])

text \<open>A state with a lease, an authority entry, a registry slot and a violation.\<close>

definition snapshot_lease :: compile_lease where
  "snapshot_lease = \<lparr>cl_id = Ident 3, cl_generation = Gen 1, cl_compilation = Ident 1,
     cl_compilation_generation = Gen 1, cl_unit = Ident 2, cl_attempt = Ident 5, cl_worker = Ident 4,
     cl_worker_boot = Ident 6, cl_worker_generation = Gen 1, cl_epoch = Gen 1, cl_issued_at = 9,
     cl_revoked = False, cl_revocation_reason = []\<rparr>"

definition snapshot_violation :: "worker_id \<Rightarrow> authority_violation" where
  "snapshot_violation worker = \<lparr>av_at = 5, av_operation = ''op'', av_code = Err_StaleAttempt,
     av_session = Ident 7, av_worker = worker, av_detail = []\<rparr>"

definition sample_snapshot :: "worker_id \<Rightarrow> state" where
  "sample_snapshot worker = initial_state\<lparr>cs_leases := [(Ident 3, snapshot_lease)],
     cs_authoritative := [(Ident 1, Ident 8)],
     cs_sources := snd (snd (resolve empty_registry (Ident 2) 77)),
     cs_violations := [snapshot_violation worker]\<rparr>"

lemma sample_registry: "snd (snd (resolve empty_registry (Ident 2) 77)) = \<lparr>gr_history_limit = 64,
   gr_slots = [(Ident 2, \<lparr>sl_by_content = [(77, Gen 1)], sl_current = Gen 1, sl_order = [77]\<rparr>)]\<rparr>"
  by (simp add: resolve_def empty_registry_def slot_of_def put_slot_def next_generation_def
      empty_slot_def gen_is_zero_def Let_def)

lemma sample_snapshot_tables: "state_encodable ((sample_snapshot w)\<lparr>cs_violations := []\<rparr>)"
  by (simp add: state_encodable_def sample_snapshot_def initial_state_def initial_header_def
      empty_registry_def table_ok_def om_ordered_def om_keys_def lease_encodable_def snapshot_lease_def
      is_i64_def kMaxStateRecords_def registry_ok_def slot_ok_def
      sample_registry [unfolded empty_registry_def])

lemma stale_in_domain: "error_in_domain Err_StaleAttempt"
  by (rule named_in_domain) (simp add: named_error_codes_def)

lemma sample_snapshot_written: "\<exists>bs. encode_state (sample_snapshot w) [] = Some bs"
  by (simp add: encode_state_def sample_snapshot_def initial_state_def initial_header_def
      encode_schema_def encode_header_def encode_registry_def empty_registry_def w_table_def
      encode_lease_def encode_authoritative_def encode_violation_def snapshot_lease_def
      snapshot_violation_def w_millis_def w_i64_def w_u16_def w_error_def w_id_def w_gen_def write_defs
      sample_registry [unfolded empty_registry_def] encode_slot_def slot_entries_def)

lemma snapshot_roundtrip_witness:
  "\<exists>bs. encode_state (sample_snapshot (Ident 4)) [] = Some bs
     \<and> decode_state bs = Inr (state_view (sample_snapshot (Ident 4)))"
proof -
  have "state_encodable (sample_snapshot (Ident 4))"
    using sample_snapshot_tables [of "Ident 4"] stale_in_domain
    by (simp add: state_encodable_def sample_snapshot_def violation_encodable_def snapshot_violation_def
        is_i64_def kMaxStateRecords_def)
  moreover obtain bs where "encode_state (sample_snapshot (Ident 4)) [] = Some bs"
    using sample_snapshot_written by blast
  ultimately show ?thesis using snapshot_roundtrip by blast
qed

section \<open>What cannot be read back\<close>

lemma refuses_staged: "refuses w p e \<Longrightarrow> refuses w (staged stage p)
   (error Err_PersistenceCorrupt (''state decode failed in '' @ stage @ '': '' @ st_detail e))"
  unfolding refuses_def staged_def by fastforce

lemma refuses_table:
  assumes "length xs \<le> kMaxStateRecords" "x \<in> set xs" "refuses (wr x) rd e"
    and "\<forall>x\<in>set xs. appends (wr x) \<and> (faithful (wr x) rd x \<or> refuses (wr x) rd e)"
  shows "refuses (w_table wr xs) (r_table rd put t) e"
proof -
  have "refuses (w_seq (map wr xs)) (r_fold (length xs) rd put t) e"
    using assms(2-)
  proof (induction xs arbitrary: t)
    case (Cons y ys)
    have rest: "list_all appends (map wr ys)" using Cons.prems(3) by (simp add: list_all_iff)
    show ?case
    proof (cases "refuses (wr y) rd e")
      case True
      then show ?thesis using refuses_now [OF True rest] by simp
    next
      case False
      with Cons.prems have "faithful (wr y) rd y" "x \<in> set ys" by auto
      then show ?thesis using Cons.IH Cons.prems by (auto intro: refuses_then)
    qed
  qed simp
  then show ?thesis
    unfolding w_table_def r_table_def
    by (rule refuses_then [where f = "\<lambda>n. r_fold n rd put t", OF faithful_count [OF assms(1)]])
qed

lemma violation_appends: "appends (encode_violation v)"
  unfolding encode_violation_def by (rule appends_seq) (simp add: appends_prims)

definition unnamed_violation :: "authority_violation \<Rightarrow> bool" where
  "unnamed_violation v \<longleftrightarrow> av_session v = Ident 0 \<or> av_worker v = Ident 0"

definition dated_violation :: "authority_violation \<Rightarrow> bool" where
  "dated_violation v \<longleftrightarrow> is_i64 (av_at v) \<and> error_in_domain (av_code v)"

lemma violation_refused:
  assumes "dated_violation v" "unnamed_violation v"
  shows "refuses (encode_violation v) decode_violation zero_handle"
proof -
  have code: "\<not> error_code_value (av_code v) > error_code_value Err_Shutdown"
    using assms(1) code_in_domain by (auto simp: dated_violation_def)
  have tail: "refuses (w_seq [w_id (av_session v), w_id (av_worker v), w_str (av_detail v)])
      (r_bind r_id (\<lambda>session. r_bind r_id (\<lambda>worker. r_bind r_str (\<lambda>detail. g session worker detail))))
      zero_handle" for g :: "session_id \<Rightarrow> worker_id \<Rightarrow> string \<Rightarrow> authority_violation reader"
  proof (cases "av_session v = Ident 0")
    case True
    show ?thesis unfolding True by (rule refuses_now [OF refuses_zero_id]) (simp add: appends_prims)
  next
    case False
    with assms(2) have "av_worker v = Ident 0" by (simp add: unnamed_violation_def)
    then show ?thesis
      by (intro refuses_seq [OF faithful_id [OF False]])
        (simp only:, rule refuses_now [OF refuses_zero_id], simp add: appends_prims)
  qed
  show ?thesis
    unfolding encode_violation_def decode_violation_def
    by (rule refuses_seq [OF faithful_millis], use assms(1) in \<open>simp add: dated_violation_def\<close>,
        rule refuses_seq [OF faithful_str], rule refuses_seq [OF faithful_code])
      (use code tail in \<open>simp del: w_seq.simps\<close>)
qed

text \<open>
  A state whose violation list names no session or no worker in one of its entries
  is written as a snapshot without an error, and that snapshot cannot be decoded: the reader of
  the entry rejects the zero handle.  The coordinator itself records such entries, for a report
  on an unknown attempt and for a start refused without a session.
\<close>

lemma unnamed_violation_refused:
  assumes "state_encodable (s\<lparr>cs_violations := []\<rparr>)" "encode_state s [] = Some bs"
    and "length (cs_violations s) \<le> kMaxStateRecords" "list_all dated_violation (cs_violations s)"
    and "v \<in> set (cs_violations s)" "unnamed_violation v"
  shows "decode_state bs = Inl (error Err_PersistenceCorrupt
    ''state decode failed in leases: canonical identity handle is zero'')"
proof -
  have each: "faithful (encode_violation x) decode_violation x
      \<or> refuses (encode_violation x) decode_violation zero_handle" if "x \<in> set (cs_violations s)" for x
    using that assms(4) violation_faithful [of x] violation_refused [of x]
    by (cases "unnamed_violation x")
      (auto simp: violation_encodable_def dated_violation_def unnamed_violation_def list_all_iff)
  have bad: "refuses (encode_violation v) decode_violation zero_handle"
    using assms(4-) by (auto intro: violation_refused simp: list_all_iff)
  have table: "refuses (w_table encode_violation (cs_violations s)) (r_table decode_violation put t) zero_handle"
    for put :: "authority_violation \<Rightarrow> authority_violation list \<Rightarrow> authority_violation list" and t
    by (rule refuses_table [where wr = encode_violation and x = v, OF assms(3,5) bad]) (use each violation_appends in auto)
  have "refuses (encode_state s) (r_state (length bs)) (error Err_PersistenceCorrupt
      (''state decode failed in '' @ ''leases'' @ '': '' @ st_detail zero_handle))"
    unfolding encode_state_def r_state_def
    by ((rule refuses_now [OF refuses_staged [OF table]], simp)
      | rule refuses_seq
      | rule schema_faithful header_faithful faithful_staged registry_faithful table_rules
      | (use assms(1) in \<open>simp add: state_encodable_def; fail\<close>))+
  from refuses_start [OF this assms(2)] show ?thesis by (simp add: decode_state_def error_def)
qed

end
