(* ===== verification/DC_Recovery.thy ===== *)
theory DC_Recovery
  imports DC_Snapshots DC_Failure
begin

text \<open>
  Opening and closing a coordinator (\<^verbatim>\<open>Coordinator::open\<close>, \<^verbatim>\<open>close\<close> and \<^verbatim>\<open>snapshot\<close> in
  \<^verbatim>\<open>src/coordinator.cpp\<close>): the snapshot is decoded, the journal is replayed record by record,
  and the restart invalidates what the last incarnation had handed out.  The store's answer
  (\<^verbatim>\<open>DC_Journal.store_open\<close>) is an argument.
\<close>

section \<open>Replay\<close>

text \<open>A journal record and the type it is filed under; the writer is the record's own codec.\<close>

fun payload_type :: "journal_payload \<Rightarrow> record_type" where
  "payload_type (JP_Header _ _ _) = RT_Header"
| "payload_type (JP_Worker _) = RT_Worker"
| "payload_type (JP_Compilation _) = RT_Compilation"
| "payload_type (JP_Attempt _) = RT_Attempt"
| "payload_type (JP_Commit _) = RT_Commit"
| "payload_type (JP_Provenance _) = RT_Provenance"
| "payload_type (JP_Validation _) = RT_Validation"
| "payload_type (JP_CacheEntry _) = RT_CacheEntry"
| "payload_type (JP_NegativeCache _) = RT_NegativeCache"
| "payload_type (JP_Job _) = RT_Job"
| "payload_type (JP_Lease _) = RT_Lease"
| "payload_type (JP_Intermediate _) = RT_Intermediate"
| "payload_type (JP_Request _) = RT_Artifact"

fun payload_writer :: "journal_payload \<Rightarrow> writer" where
  "payload_writer (JP_Header epoch restarts at) =
     w_seq [w_domain ''dc.header-record.v1'', w_gen epoch, w_u64 restarts, w_millis at]"
| "payload_writer (JP_Worker w) = encode_worker w"
| "payload_writer (JP_Compilation c) = encode_compilation c"
| "payload_writer (JP_Attempt a) = encode_attempt a"
| "payload_writer (JP_Commit c) = encode_commit c"
| "payload_writer (JP_Provenance p) = encode_provenance p"
| "payload_writer (JP_Validation v) = encode_validation_report v"
| "payload_writer (JP_CacheEntry e) = encode_cache_entry e"
| "payload_writer (JP_NegativeCache e) = encode_negative_cache e"
| "payload_writer (JP_Job j) = encode_job j"
| "payload_writer (JP_Lease l) = encode_lease l"
| "payload_writer (JP_Intermediate a) = encode_intermediate a"
| "payload_writer (JP_Request r) = encode_request r"

text \<open>\<^verbatim>\<open>cache_index\<close> during replay: the record is stored first, and an equal generation takes over.\<close>

definition replay_cache_entry :: "cache_entry \<Rightarrow> state \<Rightarrow> state" where
  "replay_cache_entry e s =
     (let entries = om_put (ce_id e) e (cs_cache_entries s);
          index = (case om_find (cs_cache_index s) (ce_unit_identity e) of
             None \<Rightarrow> om_put (ce_unit_identity e) (ce_id e) (cs_cache_index s)
           | Some k \<Rightarrow>
               if (case om_find entries k of None \<Rightarrow> Gen 0 | Some old \<Rightarrow> ce_generation old)
                    \<le> ce_generation e
               then om_put (ce_unit_identity e) (ce_id e) (cs_cache_index s) else cs_cache_index s)
      in s\<lparr>cs_cache_entries := entries, cs_cache_index := index\<rparr>)"

definition replay_commit :: "artifact_commit \<Rightarrow> state \<Rightarrow> state" where
  "replay_commit c s = s\<lparr>cs_commits := om_put (ac_id c) c (cs_commits s),
     cs_authoritative := om_put (ac_compilation c) (ac_id c) (cs_authoritative s)\<rparr>"

text \<open>What a record does to the recovered state: the last write of an entity wins.\<close>

fun apply_payload :: "journal_payload \<Rightarrow> state \<Rightarrow> state" where
  "apply_payload (JP_Header _ _ _) s = s"
| "apply_payload (JP_Worker w) s = s\<lparr>cs_workers := om_put (wk_id w) w (cs_workers s)\<rparr>"
| "apply_payload (JP_Compilation c) s = s\<lparr>cs_compilations := om_put (cr_id c) c (cs_compilations s)\<rparr>"
| "apply_payload (JP_Attempt a) s = s\<lparr>cs_attempts := om_put (ca_id a) a (cs_attempts s)\<rparr>"
| "apply_payload (JP_Commit c) s = replay_commit c s"
| "apply_payload (JP_Provenance p) s = s\<lparr>cs_provenances := om_put (pv_id p) p (cs_provenances s)\<rparr>"
| "apply_payload (JP_Validation v) s = s\<lparr>cs_validations := om_put (vp_id v) v (cs_validations s)\<rparr>"
| "apply_payload (JP_CacheEntry e) s = replay_cache_entry e s"
| "apply_payload (JP_NegativeCache e) s = s\<lparr>cs_negative_cache := cs_negative_cache s @ [e]\<rparr>"
| "apply_payload (JP_Job j) s = s\<lparr>cs_jobs := om_put (jr_request_identity j) j (cs_jobs s)\<rparr>"
| "apply_payload (JP_Lease l) s = s\<lparr>cs_leases := om_put (cl_id l) l (cs_leases s)\<rparr>"
| "apply_payload (JP_Intermediate a) s = s\<lparr>cs_intermediates := om_put (ia_id a) a (cs_intermediates s)\<rparr>"
| "apply_payload (JP_Request r) s = s\<lparr>cs_requests := om_put (rq_request_identity r) r (cs_requests s)\<rparr>"

definition corrupt_record :: "string \<Rightarrow> status + 'a" where
  "corrupt_record what = Inl (error Err_PersistenceCorrupt (''journal '' @ what))"

text \<open>Decode a payload, ignoring what follows it, or report the record as corrupt.\<close>

definition decoded :: "string \<Rightarrow> 'a reader \<Rightarrow> bytes \<Rightarrow> ('a \<Rightarrow> journal_payload) \<Rightarrow> status + journal_payload" where
  "decoded what rd bs f = (case rd bs of Inl _ \<Rightarrow> corrupt_record what | Inr (x, _) \<Rightarrow> Inr (f x))"

text \<open>Jobs and requests must end with their bytes; three record types carry nothing to replay.\<close>

definition parse_record :: "record_type \<Rightarrow> bytes \<Rightarrow> (status + journal_payload) option" where
  "parse_record ty bs = (case ty of
     RT_Worker \<Rightarrow> Some (decoded ''worker'' decode_worker bs JP_Worker)
   | RT_Compilation \<Rightarrow> Some (decoded ''compilation'' decode_compilation bs JP_Compilation)
   | RT_Attempt \<Rightarrow> Some (decoded ''attempt'' decode_attempt bs JP_Attempt)
   | RT_Commit \<Rightarrow> Some (decoded ''commit'' decode_commit bs JP_Commit)
   | RT_Provenance \<Rightarrow> Some (decoded ''provenance'' decode_provenance bs JP_Provenance)
   | RT_Validation \<Rightarrow> Some (decoded ''validation'' decode_validation_report bs JP_Validation)
   | RT_CacheEntry \<Rightarrow> Some (decoded ''cache'' decode_cache_entry bs JP_CacheEntry)
   | RT_NegativeCache \<Rightarrow> Some (decoded ''negative cache'' decode_negative_cache bs JP_NegativeCache)
   | RT_Job \<Rightarrow> Some (case decode_job_record bs of
       None \<Rightarrow> corrupt_record ''job'' | Some j \<Rightarrow> Inr (JP_Job j))
   | RT_Lease \<Rightarrow> Some (decoded ''lease'' decode_lease bs JP_Lease)
   | RT_Intermediate \<Rightarrow> Some (decoded ''intermediate'' decode_intermediate bs JP_Intermediate)
   | RT_Artifact \<Rightarrow> Some (case decode_request_record bs of
       None \<Rightarrow> corrupt_record ''request'' | Some r \<Rightarrow> Inr (JP_Request r))
   | RT_Header \<Rightarrow> None | RT_RegistryEntry \<Rightarrow> None | RT_SchemaInfo \<Rightarrow> None)"

fun replay_records :: "journal_record list \<Rightarrow> state \<Rightarrow> status + state" where
  "replay_records [] s = Inr s"
| "replay_records (r # rs) s = (case parse_record (jn_type r) (jn_payload r) of
     None \<Rightarrow> replay_records rs s
   | Some (Inl st) \<Rightarrow> Inl st
   | Some (Inr p) \<Rightarrow> replay_records rs (apply_payload p s))"

definition recover :: "journal_record list \<Rightarrow> bytes \<Rightarrow> status + state" where
  "recover records snapshot =
     (case (if snapshot = [] then Inr initial_state else decode_state snapshot) of
        Inl st \<Rightarrow> Inl (error Err_PersistenceCorrupt (''snapshot could not be decoded: '' @ st_detail st))
      | Inr s \<Rightarrow> replay_records records s)"

section \<open>Restart\<close>

definition restart_worker :: "worker_record \<Rightarrow> worker_record" where
  "restart_worker w =
     (if id_is_zero (wk_boot w) then w
      else mark_capabilities_unknown
        (w\<lparr>wk_fenced := True, wk_ready := False, wk_health := WH_Fenced, wk_in_flight := 0,
           wk_session := Ident 0, wk_active_leases := [], wk_trusted_evidence_fresh := False\<rparr>))"

definition restart_lease :: "compile_lease \<Rightarrow> compile_lease" where
  "restart_lease l = l\<lparr>cl_revoked := True,
     cl_revocation_reason := (if cl_revocation_reason l = []
        then ''coordinator restart advanced the epoch'' else cl_revocation_reason l)\<rparr>"

definition in_flight :: "compilation_attempt \<Rightarrow> bool" where
  "in_flight a \<longleftrightarrow> \<not> is_terminal_state (ca_state a)
     \<and> ca_state a \<in> {AS_Assigned, AS_Preparing, AS_Running, AS_Produced, AS_Validating, AS_CommitReady}"

definition restart_attempt :: "unix_millis \<Rightarrow> compilation_attempt \<Rightarrow> compilation_attempt" where
  "restart_attempt now a =
     (if in_flight a
      then a\<lparr>ca_state := AS_Ambiguous, ca_finished_at := now, ca_failure := Err_Ambiguous,
             ca_failure_detail := ''coordinator restarted while the attempt was in flight''\<rparr>
      else a)"

definition settled :: "compilation_record \<Rightarrow> bool" where
  "settled c \<longleftrightarrow> cr_state c \<in> {CS_Committed, CS_Cancelled, CS_Failed, CS_Retired}"

definition restart_compilation :: "(compilation_id, commit_id) omap \<Rightarrow> compilation_record \<Rightarrow> compilation_record" where
  "restart_compilation authoritative c =
     (if settled c then c
      else if om_find authoritative (cr_id c) \<noteq> None then c\<lparr>cr_state := CS_Committed\<rparr>
      else c\<lparr>cr_state := CS_Pending, cr_cache_hit := False\<rparr>)"

definition requeued :: "(compilation_id, commit_id) omap \<Rightarrow> compilation_record \<Rightarrow> bool" where
  "requeued authoritative c \<longleftrightarrow> \<not> settled c \<and> om_find authoritative (cr_id c) = None"

definition restart_header :: "unix_millis \<Rightarrow> state_header \<Rightarrow> state_header" where
  "restart_header now h = h\<lparr>hd_epoch := (if gen_is_zero (hd_epoch h) then Gen 1 else gen_next (hd_epoch h)),
     hd_opened_at := now, hd_restarts := hd_restarts h + 1\<rparr>"

definition restart :: "unix_millis \<Rightarrow> state \<Rightarrow> state" where
  "restart now s = s\<lparr>cs_header := restart_header now (cs_header s), cs_sessions := [], cs_controls := [],
     cs_violations := [], cs_workers := om_map_values restart_worker (cs_workers s),
     cs_leases := om_map_values restart_lease (cs_leases s),
     cs_attempts := om_map_values (restart_attempt now) (cs_attempts s),
     cs_compilations := om_map_values (restart_compilation (cs_authoritative s)) (cs_compilations s)\<rparr>"

text \<open>The counts that the recovery report ends with.\<close>

definition restart_notes :: "unix_millis \<Rightarrow> state \<Rightarrow> string list" where
  "restart_notes now s =
     [''epoch advanced to '' @ to_dec (gen_value (hd_epoch (restart_header now (cs_header s)))),
      ''in-flight attempts classified AMBIGUOUS: '' @
        to_dec (of_nat (length (filter (\<lambda>kv. in_flight (snd kv)) (cs_attempts s)))),
      ''unfinished compilations requeued: '' @
        to_dec (of_nat (length (filter (\<lambda>kv. requeued (cs_authoritative s) (snd kv)) (cs_compilations s))))]"

section \<open>Open, close, snapshot\<close>

text \<open>
  \<^verbatim>\<open>opened\<close> is what the store answered; \<^verbatim>\<open>ps\<close> is the coordinator's view of the store that
  was opened.  The coordinator counts as open before the first record of the new incarnation
  is written, and stays so when that write fails.
\<close>

definition coordinator_open ::
    "coordinator_config \<Rightarrow> status + recovery_report \<times> journal_record list \<times> bytes \<Rightarrow> store \<Rightarrow> impl
      \<Rightarrow> status \<times> recovery_report option \<times> impl" where
  "coordinator_open cfg opened ps im =
    (if im_opened im then (success, None, im) else
     let im1 = im\<lparr>im_config := cfg\<rparr>;
         now = im_now im;
         incarnate = (\<lambda>s im. im\<lparr>im_state := restart now s, im_opened := True\<rparr>) in
     if \<not> cg_enable_persistence cfg then
       (success, Some (empty_recovery\<lparr>ry_notes := restart_notes now initial_state\<rparr>),
        incarnate initial_state im1)
     else
     case opened of
       Inl st \<Rightarrow> (st, None, im1)
     | Inr (report, records, snapshot) \<Rightarrow>
     case recover records snapshot of
       Inl st \<Rightarrow> (st, Some report, im1\<lparr>im_store := ps\<rparr>)
     | Inr s \<Rightarrow>
     let im2 = incarnate s (im1\<lparr>im_store := ps\<rparr>);
         h = header im2;
         (st, im3) = persist (JP_Header (hd_epoch h) (hd_restarts h) (hd_opened_at h)) im2 in
     if \<not> st_ok st then (st, Some report, im3) else
     let (st', ps') = store_write_snapshot (im_state im3) (im_store im3);
         im4 = im3\<lparr>im_store := ps'\<rparr> in
     if \<not> st_ok st' then (st', Some report, im4) else
     (success, Some (report\<lparr>ry_notes := ry_notes report @ restart_notes now s\<rparr>),
      upd_header (\<lambda>h. h\<lparr>hd_records_since_snapshot := 0\<rparr>) im4))"

end
