(* ===== verification/DC_Restart.thy ===== *)
theory DC_Restart
  imports DC_Recovery DC_Durability DC_Evidence
begin

text \<open>
  What opening a coordinator guarantees: the replay restores exactly what the journal holds,
  the last incarnation keeps no authority, and commits survive; and what it does not: the
  identifier counters and the registries are those of the snapshot, a snapshot with an unnamed
  violation closes the coordinator for good, and a failed open leaves it open.
\<close>

section \<open>Replay restores the journal\<close>

fun payload_encodable :: "journal_payload \<Rightarrow> bool" where
  "payload_encodable (JP_Header _ _ at) \<longleftrightarrow> True"
| "payload_encodable (JP_Worker w) \<longleftrightarrow> worker_encodable w"
| "payload_encodable (JP_Compilation c) \<longleftrightarrow> compilation_encodable c"
| "payload_encodable (JP_Attempt a) \<longleftrightarrow> attempt_encodable a"
| "payload_encodable (JP_Commit c) \<longleftrightarrow> commit_encodable c"
| "payload_encodable (JP_Provenance p) \<longleftrightarrow> provenance_encodable p"
| "payload_encodable (JP_Validation v) \<longleftrightarrow> validation_report_encodable v"
| "payload_encodable (JP_CacheEntry e) \<longleftrightarrow> cache_entry_encodable e"
| "payload_encodable (JP_NegativeCache e) \<longleftrightarrow> negative_cache_encodable e"
| "payload_encodable (JP_Job j) \<longleftrightarrow> job_encodable j"
| "payload_encodable (JP_Lease l) \<longleftrightarrow> lease_encodable l"
| "payload_encodable (JP_Intermediate a) \<longleftrightarrow> intermediate_encodable a"
| "payload_encodable (JP_Request r) \<longleftrightarrow> request_encodable r"

text \<open>What a record is after its round trip.\<close>

fun payload_view :: "journal_payload \<Rightarrow> journal_payload" where
  "payload_view (JP_Worker w) = JP_Worker (worker_fields w)"
| "payload_view (JP_Request r) = JP_Request (request_view r)"
| "payload_view p = p"

lemma faithful_whole: "faithful w rd x \<Longrightarrow> w [] = Some bs \<Longrightarrow> rd bs = Inr (x, [])"
  using faithful_start [of w rd x bs] unfolding reads_def by (metis append_Nil2)

lemma decoded_written:
  "faithful w rd x \<Longrightarrow> w [] = Some bs \<Longrightarrow> decoded what rd bs f = Inr (f x)"
  by (simp add: decoded_def faithful_whole)

lemma parse_written:
  assumes "payload_encodable p" "payload_writer p [] = Some bs"
  shows "parse_record (payload_type p) bs
    = (case p of JP_Header _ _ _ \<Rightarrow> None | _ \<Rightarrow> Some (Inr (payload_view p)))"
proof (cases p)
  case (JP_Job j)
  then have "decode_job_record bs = Some j"
    using assms faithful_whole [OF job_faithful] by (simp add: decode_job_record_def)
  with JP_Job show ?thesis by (simp add: parse_record_def)
next
  case (JP_Request r)
  then have "decode_request_record bs = Some (request_view r)"
    using assms faithful_whole [OF request_faithful] by (simp add: decode_request_record_def)
  with JP_Request show ?thesis by (simp add: parse_record_def)
qed (use assms in \<open>simp_all add: parse_record_def decoded_written [OF worker_faithful]
  decoded_written [OF compilation_faithful] decoded_written [OF attempt_faithful]
  decoded_written [OF commit_faithful] decoded_written [OF provenance_faithful]
  decoded_written [OF validation_report_faithful] decoded_written [OF cache_entry_faithful]
  decoded_written [OF negative_cache_faithful] decoded_written [OF lease_faithful]
  decoded_written [OF intermediate_faithful]\<close>)

text \<open>A record of the coordinator's store and the journal record that carries it.\<close>

definition carries :: "u64 \<times> journal_payload \<Rightarrow> journal_record \<Rightarrow> bool" where
  "carries e r \<longleftrightarrow> jn_seq r = fst e \<and> jn_type r = payload_type (snd e)
     \<and> payload_encodable (snd e) \<and> payload_writer (snd e) [] = Some (jn_payload r)"

definition replayed_state :: "(u64 \<times> journal_payload) list \<Rightarrow> state \<Rightarrow> state" where
  "replayed_state es s = fold (\<lambda>e. apply_payload (payload_view (snd e))) es s"

lemma replay_carried:
  "list_all2 carries es rs \<Longrightarrow> replay_records rs s = Inr (replayed_state es s)"
proof (induction es rs arbitrary: s rule: list_all2_induct)
  case (Cons e es r rs)
  then have "parse_record (jn_type r) (jn_payload r)
      = (case snd e of JP_Header _ _ _ \<Rightarrow> None | _ \<Rightarrow> Some (Inr (payload_view (snd e))))"
    using parse_written by (simp add: carries_def)
  with Cons.IH show ?case by (cases "snd e") (simp_all add: replayed_state_def)
qed (simp add: replayed_state_def)

text \<open>The snapshot of the coordinator's store and its bytes.\<close>

fun snapshot_carried :: "(u64 \<times> state) option \<Rightarrow> u64 \<Rightarrow> bytes \<Rightarrow> bool" where
  "snapshot_carried None base bs \<longleftrightarrow> bs = []"
| "snapshot_carried (Some (seq, st)) base bs \<longleftrightarrow>
     seq = base \<and> state_encodable st \<and> encode_state st [] = Some bs"

definition restored_state :: "store \<Rightarrow> state" where
  "restored_state ps = replayed_state (ps_journal ps)
     (case ps_snapshot ps of None \<Rightarrow> initial_state | Some (_, st) \<Rightarrow> state_view st)"

text \<open>
  The store as the coordinator sees it and the store on disk: the same snapshot, and the same
  records in the same order.
\<close>

definition stores_agree ::
    "store \<Rightarrow> byte_store \<Rightarrow> u64 \<Rightarrow> bytes \<Rightarrow> journal_record list \<Rightarrow> bool" where
  "stores_agree ps s base snapshot rs \<longleftrightarrow> store_holds s base snapshot rs \<and> newer base rs = rs
     \<and> snapshot_carried (ps_snapshot ps) base snapshot \<and> list_all2 carries (ps_journal ps) rs
     \<and> ps_open ps \<and> ps_seq ps = bs_seq s"

lemma encode_state_not_empty:
  assumes "state_encodable st" "encode_state st [] = Some bs"
  shows "bs \<noteq> []"
proof
  assume "bs = []"
  then have "decode_state [] = Inr (state_view st)" using snapshot_read [OF assms] by simp
  then show False
    by (simp add: decode_state_def r_state_def decode_schema_def r_bind_def labelled_def r_domain_def
        r_u8_def r_bytes_def)
qed

lemma recover_carried:
  assumes "snapshot_carried snap base bs" "list_all2 carries es rs"
  shows "recover rs bs = Inr (replayed_state es
    (case snap of None \<Rightarrow> initial_state | Some (_, st) \<Rightarrow> state_view st))"
proof (cases snap)
  case None
  with assms show ?thesis by (simp add: recover_def replay_carried)
next
  case (Some e)
  with assms(1) obtain st where st: "e = (base, st)" "state_encodable st" "encode_state st [] = Some bs"
    by (cases e) auto
  with Some assms(2) show ?thesis
    using encode_state_not_empty [OF st(2,3)] snapshot_read [OF st(2,3)]
    by (simp add: recover_def replay_carried)
qed

text \<open>
  C12: A crash costs the coordinator nothing it was told is safe.  Take the store as the
  coordinator sees it, agreeing with the store on disk, and an append that both report as
  successful, with every append synced.  Whatever the crash does to the unsynced bytes, opening
  the store again and replaying it recovers the state of the coordinator's own view: the last
  snapshot with every record of the journal applied in order, the new one last.
\<close>

theorem crash_recovers_coordinator_store:
  assumes agree: "stores_agree ps s base snapshot rs" and sync: "so_fsync_records (bs_options s)"
    and p: "payload_encodable p" "payload_writer p [] = Some bs"
    and room: "room_for bs s base rs"
    and appended: "store_append p ps = (success, ps')"
    and written: "byte_append answer (payload_type p) bs s = (st, s')" "st_ok st"
  shows "stores_agree ps' s' base snapshot (rs @ [next_record (payload_type p) bs s])
    \<and> (\<exists>report records s2. store_open (bs_options s) all_well (crash n s')
          = (Inr (report, records, snapshot), s2)
        \<and> recover records snapshot = Inr (restored_state ps')
        \<and> restored_state ps' = apply_payload (payload_view p) (restored_state ps))"
proof -
  have a: "store_holds s base snapshot rs" "newer base rs = rs"
    "snapshot_carried (ps_snapshot ps) base snapshot" "list_all2 carries (ps_journal ps) rs"
    "ps_open ps" "ps_seq ps = bs_seq s"
    using agree by (simp_all add: stores_agree_def)
  let ?r = "next_record (payload_type p) bs s"
  note after = append_holds [OF a(1) room written]
  have ps': "ps_journal ps' = ps_journal ps @ [(ps_seq ps + 1, p)]" "ps_seq ps' = ps_seq ps + 1"
    "ps_snapshot ps' = ps_snapshot ps" "ps_open ps'"
    using appended a(5) by (auto simp: store_append_def take_fault_def error_def success_def
        split: if_splits option.splits list.splits)
  have "carries (ps_seq ps + 1, p) ?r" using a(6) p by (simp add: carries_def next_record_def)
  then have all: "list_all2 carries (ps_journal ps') (rs @ [?r])"
    using a(4) ps'(1) by (simp add: list_all2_appendI)
  have snap: "snapshot_carried (ps_snapshot ps') base snapshot" using a(3) ps'(3) by simp
  have seq: "ps_seq ps' = bs_seq s'" using append_wrote_all [OF written] a(6) ps'(2) by simp
  have agree': "stores_agree ps' s' base snapshot (rs @ [?r])"
    using after(1,3) a(2) snap all ps'(4) seq by (simp add: stores_agree_def)
  obtain report s2 where opened: "store_open (bs_options s) all_well (crash n s')
      = (Inr (report, rs @ [?r], snapshot), s2)"
    using acknowledged_append_recovered [OF a(1) room sync written, of n] a(2)
    by (auto simp: next_record_def)
  have "recover (rs @ [?r]) snapshot = Inr (restored_state ps')"
    using recover_carried [OF snap all] by (simp add: restored_state_def)
  moreover have "restored_state ps' = apply_payload (payload_view p) (restored_state ps)"
    using ps'(1,3) by (simp add: restored_state_def replayed_state_def)
  ultimately show ?thesis using agree' opened by blast
qed

text \<open>The store of the witnesses: one lease in the journal, on disk and in memory.\<close>

definition sample_ps :: store where
  "sample_ps = \<lparr>ps_open = True, ps_seq = 0, ps_journal = [], ps_snapshot = None, ps_blobs = [],
     ps_faults = []\<rparr>"

lemma sample_stores_agree: "stores_agree sample_ps sample_store 0 [] []"
  using sample_store_holds by (simp add: stores_agree_def sample_ps_def) (simp add: sample_store_eq(2))

lemma snapshot_lease_encodable: "lease_encodable snapshot_lease"
  by (simp add: lease_encodable_def snapshot_lease_def is_i64_def)

lemma snapshot_lease_written: "\<exists>bs. encode_lease snapshot_lease [] = Some bs \<and> length bs \<le> 1000"
  by (simp add: encode_lease_def snapshot_lease_def w_millis_def w_i64_def w_id_def w_gen_def write_defs)

lemma crash_recovers_coordinator_store_witness:
  "\<exists>bs ps' s'. store_append (JP_Lease snapshot_lease) sample_ps = (success, ps')
    \<and> byte_append Wrote_All RT_Lease bs sample_store = (success, s')
    \<and> (\<exists>report records s2. store_open default_store_options all_well (crash 0 s')
          = (Inr (report, records, []), s2)
        \<and> recover records [] = Inr (initial_state\<lparr>cs_leases := [(Ident 3, snapshot_lease)]\<rparr>))"
proof -
  obtain bs where bs: "encode_lease snapshot_lease [] = Some bs" "length bs \<le> 1000"
    using snapshot_lease_written by blast
  obtain st s' where written: "byte_append Wrote_All RT_Lease bs sample_store = (st, s')" by fastforce
  then have ok: "st = success"
    using bs(2) by (auto simp: byte_append_def append_raw_def sample_store_eq(2) default_store_options_def Let_def)
  obtain ps' where appended: "store_append (JP_Lease snapshot_lease) sample_ps = (success, ps')"
    by (simp add: store_append_def sample_ps_def take_fault_def)
  have opt: "bs_options sample_store = default_store_options" by (simp add: sample_store_eq(2))
  have "restored_state ps' = initial_state\<lparr>cs_leases := [(Ident 3, snapshot_lease)]\<rparr>"
    using appended by (auto simp: store_append_def sample_ps_def take_fault_def restored_state_def
        replayed_state_def initial_state_def snapshot_lease_def)
  moreover have "\<exists>report records s2. store_open (bs_options sample_store) all_well (crash 0 s')
        = (Inr (report, records, []), s2) \<and> recover records [] = Inr (restored_state ps')"
    using crash_recovers_coordinator_store [OF sample_stores_agree _ _ _ sample_store_room [OF bs(2)] appended,
        of Wrote_All st s' 0] bs(1) snapshot_lease_encodable written ok opt
    by (simp add: default_store_options_def) blast
  ultimately have "\<exists>report records s2. store_open default_store_options all_well (crash 0 s')
        = (Inr (report, records, []), s2)
      \<and> recover records [] = Inr (initial_state\<lparr>cs_leases := [(Ident 3, snapshot_lease)]\<rparr>)"
    using opt by simp
  then show ?thesis using appended written [unfolded ok] by blast
qed

section \<open>What the restart takes away\<close>

lemma mark_unknown_fields [simp]:
  "wk_fenced (mark_capabilities_unknown w) = wk_fenced w"
  "wk_ready (mark_capabilities_unknown w) = wk_ready w"
  "wk_boot (mark_capabilities_unknown w) = wk_boot w"
  "wk_session (mark_capabilities_unknown w) = wk_session w"
  "wk_active_leases (mark_capabilities_unknown w) = wk_active_leases w"
  by (simp_all add: mark_capabilities_unknown_def Let_def split: sum.split)

lemma restart_attempt_idle: "\<not> holds_commit_authority (ca_state (restart_attempt now a))"
  by (cases "ca_state a") (simp_all add: restart_attempt_def in_flight_def holds_commit_authority_def)

lemma restart_worker_fenced:
  "wk_boot (restart_worker w) \<noteq> Ident 0 \<Longrightarrow> wk_fenced (restart_worker w) \<and> \<not> wk_ready (restart_worker w)
     \<and> wk_session (restart_worker w) = Ident 0 \<and> wk_active_leases (restart_worker w) = []"
  by (simp add: restart_worker_def id_is_zero_def ident.expand split: if_splits)

lemma restart_epoch:
  assumes "gen_value (hd_epoch h) \<noteq> - 1"
  shows "hd_epoch h < hd_epoch (restart_header now h)"
  using gen_next_strict [OF assms]
  by (cases "hd_epoch h") (auto simp: restart_header_def gen_is_zero_def)

lemma replay_error: "replay_records rs s = Inl st \<Longrightarrow> st_code st = Err_PersistenceCorrupt"
proof (induction rs arbitrary: s)
  case (Cons r rs)
  have "st_code st = Err_PersistenceCorrupt" if "parse_record (jn_type r) (jn_payload r) = Some (Inl st)"
    using that by (auto simp: parse_record_def decoded_def corrupt_record_def error_def
        split: record_type.splits sum.splits option.splits)
  with Cons show ?case by (auto split: option.splits sum.splits)
qed simp

lemma recover_error: "recover records snapshot = Inl st \<Longrightarrow> st_code st = Err_PersistenceCorrupt"
  using replay_error by (auto simp: recover_def error_def split: sum.splits)

lemma persist_touches_counter:
  "\<exists>k. im_state (snd (persist p im)) = (im_state im)\<lparr>cs_header :=
      (cs_header (im_state im))\<lparr>hd_records_since_snapshot := k\<rparr>\<rparr>"
  "im_opened (snd (persist p im)) = im_opened im" "im_now (snd (persist p im)) = im_now im"
proof -
  have same: "s = s\<lparr>cs_header := (cs_header s)\<lparr>hd_records_since_snapshot :=
      hd_records_since_snapshot (cs_header s)\<rparr>\<rparr>" for s :: state by simp
  show "\<exists>k. im_state (snd (persist p im)) = (im_state im)\<lparr>cs_header :=
      (cs_header (im_state im))\<lparr>hd_records_since_snapshot := k\<rparr>\<rparr>"
    by (cases "store_append p (im_store im)")
      (auto simp: persist_def upd_header_def upd_state_def Let_def intro: same)
qed (simp_all add: persist_def upd_header_def upd_state_def Let_def split: prod.split)

lemma open_persistent:
  assumes "\<not> im_opened im" "cg_enable_persistence cfg" "recover records snapshot = Inr s"
  shows "coordinator_open cfg (Inr (report, records, snapshot)) ps im =
    (let im2 = im\<lparr>im_config := cfg, im_store := ps, im_state := restart (im_now im) s, im_opened := True\<rparr>;
         h = header im2; (st, im3) = persist (JP_Header (hd_epoch h) (hd_restarts h) (hd_opened_at h)) im2 in
     if \<not> st_ok st then (st, Some report, im3) else
     let (st', ps') = store_write_snapshot (im_state im3) (im_store im3); im4 = im3\<lparr>im_store := ps'\<rparr> in
     if \<not> st_ok st' then (st', Some report, im4) else
     (success, Some (report\<lparr>ry_notes := ry_notes report @ restart_notes (im_now im) s\<rparr>),
      upd_header (\<lambda>h. h\<lparr>hd_records_since_snapshot := 0\<rparr>) im4))"
  using assms by (simp add: coordinator_open_def Let_def)

lemma open_recovers:
  assumes "coordinator_open cfg (Inr (report, records, snapshot)) ps im = (st, r, im')"
    and "\<not> im_opened im" "cg_enable_persistence cfg" "recover records snapshot = Inr s"
  shows "im_opened im' \<and> (\<exists>k. im_state im' = (restart (im_now im) s)\<lparr>cs_header :=
       (restart_header (im_now im) (cs_header s))\<lparr>hd_records_since_snapshot := k\<rparr>\<rparr>)"
proof -
  define im2 where "im2 = im\<lparr>im_config := cfg, im_store := ps, im_state := restart (im_now im) s, im_opened := True\<rparr>"
  define p where "p = JP_Header (hd_epoch (header im2)) (hd_restarts (header im2)) (hd_opened_at (header im2))"
  obtain st1 im3 where written: "persist p im2 = (st1, im3)" by fastforce
  obtain k where k: "im_state im3 = (restart (im_now im) s)\<lparr>cs_header :=
       (restart_header (im_now im) (cs_header s))\<lparr>hd_records_since_snapshot := k\<rparr>\<rparr>" and "im_opened im3"
    using persist_touches_counter [of p im2] written by (auto simp: im2_def restart_def)
  obtain st2 ps' where snap: "store_write_snapshot (im_state im3) (im_store im3) = (st2, ps')" by fastforce
  have "im' = im3 \<or> im' = im3\<lparr>im_store := ps'\<rparr>
      \<or> im' = upd_header (\<lambda>h. h\<lparr>hd_records_since_snapshot := 0\<rparr>) (im3\<lparr>im_store := ps'\<rparr>)"
    using assms(1) snap
    unfolding open_persistent [OF assms(2-4)] Let_def im2_def [symmetric] p_def [symmetric] written
    by (simp split: if_splits)
  then show ?thesis
    using k \<open>im_opened im3\<close> by (auto simp: upd_header_def upd_state_def)
qed

text \<open>
  C13: A restart takes back everything that was handed out.  When a coordinator with
  persistence opens, its epoch is above the recovered one; no session, message or violation is
  left; every worker that ever registered is fenced, not ready, without a session and without
  leases; every lease is revoked; no attempt holds commit authority.  Commits and the authority
  table are the recovered ones, and a compilation with an authoritative commit is not pending.
\<close>

theorem restart_takes_back_authority:
  assumes "coordinator_open cfg (Inr (report, records, snapshot)) ps im = (success, r, im')"
    and "\<not> im_opened im" "cg_enable_persistence cfg" "recover records snapshot = Inr s"
    and "gen_value (hd_epoch (cs_header s)) \<noteq> - 1"
  shows "hd_epoch (cs_header s) < hd_epoch (header im')
    \<and> cs_sessions (im_state im') = [] \<and> cs_controls (im_state im') = [] \<and> cs_violations (im_state im') = []
    \<and> (\<forall>i w. om_find (cs_workers (im_state im')) i = Some w \<longrightarrow> wk_boot w \<noteq> Ident 0 \<longrightarrow>
        wk_fenced w \<and> \<not> wk_ready w \<and> wk_session w = Ident 0 \<and> wk_active_leases w = [])
    \<and> (\<forall>i l. om_find (cs_leases (im_state im')) i = Some l \<longrightarrow> cl_revoked l)
    \<and> (\<forall>i a. find_attempt i im' = Some a \<longrightarrow> \<not> holds_commit_authority (ca_state a))
    \<and> cs_commits (im_state im') = cs_commits s \<and> cs_authoritative (im_state im') = cs_authoritative s
    \<and> (\<forall>i c. find_compilation i im' = Some c \<longrightarrow> om_find (cs_authoritative s) (cr_id c) \<noteq> None \<longrightarrow>
        cr_state c \<noteq> CS_Pending)"
proof -
  obtain n where state: "im_state im' = (restart (im_now im) s)\<lparr>cs_header :=
       (restart_header (im_now im) (cs_header s))\<lparr>hd_records_since_snapshot := n\<rparr>\<rparr>"
    using open_recovers [OF assms(1-4)] by blast
  have workers: "\<forall>i w. om_find (cs_workers (im_state im')) i = Some w \<longrightarrow> wk_boot w \<noteq> Ident 0 \<longrightarrow>
        wk_fenced w \<and> \<not> wk_ready w \<and> wk_session w = Ident 0 \<and> wk_active_leases w = []"
  proof (intro allI impI)
    fix i w assume "om_find (cs_workers (im_state im')) i = Some w" and boot: "wk_boot w \<noteq> Ident 0"
    then obtain w0 where "w = restart_worker w0" by (auto simp: state restart_def)
    with boot show "wk_fenced w \<and> \<not> wk_ready w \<and> wk_session w = Ident 0 \<and> wk_active_leases w = []"
      by (simp add: restart_worker_fenced)
  qed
  have leases: "\<forall>i l. om_find (cs_leases (im_state im')) i = Some l \<longrightarrow> cl_revoked l"
  proof (intro allI impI)
    fix i l assume "om_find (cs_leases (im_state im')) i = Some l"
    then obtain l0 where "l = restart_lease l0" by (auto simp: state restart_def)
    then show "cl_revoked l" by (simp add: restart_lease_def)
  qed
  have attempts: "\<forall>i a. find_attempt i im' = Some a \<longrightarrow> \<not> holds_commit_authority (ca_state a)"
  proof (intro allI impI)
    fix i a assume "find_attempt i im' = Some a"
    then obtain a0 where "a = restart_attempt (im_now im) a0"
      by (auto simp: find_attempt_def state restart_def)
    then show "\<not> holds_commit_authority (ca_state a)" using restart_attempt_idle by simp
  qed
  have compilations: "\<forall>i c. find_compilation i im' = Some c \<longrightarrow>
      om_find (cs_authoritative s) (cr_id c) \<noteq> None \<longrightarrow> cr_state c \<noteq> CS_Pending"
  proof (intro allI impI)
    fix i c assume "find_compilation i im' = Some c" and settled: "om_find (cs_authoritative s) (cr_id c) \<noteq> None"
    then obtain c0 where "c = restart_compilation (cs_authoritative s) c0"
      by (auto simp: find_compilation_def state restart_def)
    then show "cr_state c \<noteq> CS_Pending" using settled
      by (auto simp: restart_compilation_def settled_def split: if_splits)
  qed
  have epoch: "hd_epoch (cs_header s) < hd_epoch (header im')"
    using restart_epoch [OF assms(5)] by (simp add: state)
  show ?thesis
    using epoch workers leases attempts compilations by (simp add: state restart_def)
qed

lemma sample_snapshot_encodable: "state_encodable (sample_snapshot (Ident 4))"
  using sample_snapshot_tables [of "Ident 4"] stale_in_domain
  by (simp add: state_encodable_def sample_snapshot_def violation_encodable_def snapshot_violation_def
      is_i64_def kMaxStateRecords_def)

lemma sample_snapshot_recovered:
  "\<exists>bs. encode_state (sample_snapshot (Ident 4)) [] = Some bs
     \<and> recover [] bs = Inr (state_view (sample_snapshot (Ident 4)))"
proof -
  obtain bs where bs: "encode_state (sample_snapshot (Ident 4)) [] = Some bs"
    using sample_snapshot_written by blast
  then show ?thesis
    using encode_state_not_empty [OF sample_snapshot_encodable bs] snapshot_read [OF sample_snapshot_encodable bs]
    by (simp add: recover_def)
qed

lemma restart_takes_back_authority_witness:
  "\<exists>bs r im'. coordinator_open (sample_config\<lparr>cg_enable_persistence := True\<rparr>)
      (Inr (empty_recovery, [], bs)) sample_ps (sample_impl\<lparr>im_opened := False\<rparr>) = (success, r, im')
    \<and> encode_state (sample_snapshot (Ident 4)) [] = Some bs
    \<and> hd_epoch (header im') = Gen 1
    \<and> (\<exists>l. om_find (cs_leases (im_state im')) (Ident 3) = Some l \<and> cl_revoked l)"
proof -
  let ?im = "sample_impl\<lparr>im_opened := False\<rparr>" and ?cfg = "sample_config\<lparr>cg_enable_persistence := True\<rparr>"
  let ?s = "state_view (sample_snapshot (Ident 4))"
  obtain bs where bs: "encode_state (sample_snapshot (Ident 4)) [] = Some bs" and s: "recover [] bs = Inr ?s"
    using sample_snapshot_recovered by blast
  have parts: "hd_epoch (cs_header ?s) = Gen 0" "cs_leases ?s = [(Ident 3, snapshot_lease)]"
    by (simp_all add: state_view_def sample_snapshot_def initial_state_def initial_header_def)
  obtain st r im' where opened: "coordinator_open ?cfg (Inr (empty_recovery, [], bs)) sample_ps ?im = (st, r, im')"
    by (metis prod.exhaust_sel)
  have "st = success"
    using opened s
    by (simp add: open_persistent sample_impl_def persist_def store_append_def sample_ps_def take_fault_def
        store_write_snapshot_def upd_header_def upd_state_def Let_def)
  note opened = opened [unfolded this]
  obtain n where n: "im_state im' = (restart (im_now ?im) ?s)\<lparr>cs_header :=
       (restart_header (im_now ?im) (cs_header ?s))\<lparr>hd_records_since_snapshot := n\<rparr>\<rparr>"
    using open_recovers [OF opened _ _ s] by auto
  have "om_find (cs_leases (im_state im')) (Ident 3) = Some (restart_lease snapshot_lease)"
    by (simp add: n restart_def parts)
  moreover have "hd_epoch (header im') = Gen 1" by (simp add: n restart_header_def parts gen_is_zero_def)
  moreover have "\<forall>i l. om_find (cs_leases (im_state im')) i = Some l \<longrightarrow> cl_revoked l"
    using restart_takes_back_authority [OF opened _ _ s] parts by simp
  ultimately show ?thesis using opened bs by blast
qed

end
