(* ===== verification/DC_Reopen.thy ===== *)
theory DC_Reopen
  imports DC_Restart
begin

text \<open>
  What reopening a store does to work that was under way: no claim of the last incarnation is
  accepted again.  And what reopening does not restore: the counters that name new records are
  those of the snapshot, so a commit that is only in the journal shares its identifier with the
  next one; a report on an unknown attempt leaves a snapshot that never opens again; an open
  that fails leaves the coordinator open.
\<close>

section \<open>Claims of the last incarnation\<close>

lemma open_epoch:
  assumes "coordinator_open cfg (Inr (report, records, snapshot)) ps im = (st, r, im')"
    and "\<not> im_opened im" "cg_enable_persistence cfg" "recover records snapshot = Inr s"
    and "gen_value (hd_epoch (cs_header s)) \<noteq> - 1"
  shows "hd_epoch (cs_header s) < hd_epoch (header im') \<and> cs_sessions (im_state im') = []"
proof -
  obtain k where "im_state im' = (restart (im_now im) s)\<lparr>cs_header :=
       (restart_header (im_now im) (cs_header s))\<lparr>hd_records_since_snapshot := k\<rparr>\<rparr>"
    using open_recovers [OF assms(1-4)] by blast
  then show ?thesis using restart_epoch [OF assms(5)] by (simp add: restart_def)
qed

lemma stale_epoch: "au_epoch claim \<noteq> ax_epoch e \<Longrightarrow> st_code (validate_authority claim e) = Err_StaleEpoch"
  by (simp add: validate_authority_def)

text \<open>
  C14: Nothing that was handed out before a restart is accepted after it.  A claim whose epoch
  is not above the recovered one is refused as a stale epoch against every compilation and
  attempt of the reopened coordinator, and of every later state of it whose epoch has not
  gone back.
\<close>

theorem old_claims_refused_after_restart:
  assumes "coordinator_open cfg (Inr (report, records, snapshot)) ps im = (st, r, im')"
    and "\<not> im_opened im" "cg_enable_persistence cfg" "recover records snapshot = Inr s"
    and "gen_value (hd_epoch (cs_header s)) \<noteq> - 1"
    and "au_epoch claim \<le> hd_epoch (cs_header s)" "hd_epoch (header im') \<le> hd_epoch (header im2)"
  shows "st_code (validate_authority claim (expectation_for im2 c a)) = Err_StaleEpoch"
proof -
  have "au_epoch claim < hd_epoch (header im2)"
    using open_epoch [OF assms(1-5)] assms(6,7) by (meson order.strict_trans1 order.strict_trans2)
  then show ?thesis by (intro stale_epoch) (auto simp: expectation_for_def)
qed

lemma old_claims_refused_after_restart_witness:
  "\<exists>st r im'. coordinator_open (sample_config\<lparr>cg_enable_persistence := True\<rparr>)
      (Inr (empty_recovery, [], [])) sample_ps (sample_impl\<lparr>im_opened := False\<rparr>) = (st, r, im')
    \<and> st_code (validate_authority (sample_claim\<lparr>au_epoch := Gen 0\<rparr>)
        (expectation_for im' sample_compilation sample_attempt)) = Err_StaleEpoch"
proof -
  obtain st r im' where opened: "coordinator_open (sample_config\<lparr>cg_enable_persistence := True\<rparr>)
      (Inr (empty_recovery, [], [])) sample_ps (sample_impl\<lparr>im_opened := False\<rparr>) = (st, r, im')"
    by (metis prod.exhaust_sel)
  have "recover [] [] = Inr initial_state" by (simp add: recover_def)
  from old_claims_refused_after_restart [OF opened _ _ this, of "sample_claim\<lparr>au_epoch := Gen 0\<rparr>" im']
  show ?thesis using opened by (simp add: initial_state_def initial_header_def)
qed

section \<open>The counters of the snapshot\<close>

text \<open>What names new records and remembers generations.\<close>

definition naming :: "state \<Rightarrow> state_header \<times> (source_tag, source_tag) registry \<times> (ir_tag, ir_tag) registry
    \<times> (dependency_set_tag, dependency_set_tag) registry \<times> (toolchain_tag, toolchain_tag) registry
    \<times> (target_tag, target_tag) registry \<times> (specialization_tag, specialization_tag) registry
    \<times> (policy_tag, policy_tag) registry" where
  "naming s = (cs_header s, cs_sources s, cs_irs s, cs_dependencies s, cs_toolchains s, cs_targets s,
     cs_specializations s, cs_policies s)"

lemma apply_payload_naming [simp]: "naming (apply_payload p s) = naming s"
  by (cases p) (simp_all add: naming_def replay_commit_def replay_cache_entry_def Let_def)

lemma replay_naming: "replay_records rs s = Inr s' \<Longrightarrow> naming s' = naming s"
  by (induction rs arbitrary: s) (auto split: option.splits sum.splits)

definition snapshot_state :: "bytes \<Rightarrow> status + state" where
  "snapshot_state snapshot = (if snapshot = [] then Inr initial_state else decode_state snapshot)"

lemma recover_naming:
  assumes "recover records snapshot = Inr s" "snapshot_state snapshot = Inr s0"
  shows "naming s = naming s0"
  using assms replay_naming [of records s0 s] by (simp add: recover_def snapshot_state_def)

lemma committed_seals:
  assumes "find_attempt (au_attempt (ro_claim out)) im = Some a"
    and "find_compilation (au_compilation (ro_claim out)) im = Some c"
    and "ca_state a = AS_Produced \<or> ca_state a = AS_Validating" "vp_aggregate v = VO_Pass"
    and "\<not> digest_is_zero (rf_digest (ca_candidate a))"
    and "om_find (cs_authoritative (im_state im)) (cr_id c) = None"
  shows "ledger_of (snd (commit_locked session out v im)) =
    seal (sealed_validation im v) (sealed_provenance im c a) (sealed_commit im c a) (ledger_of im)"
  using assms commit_first_ledger by (simp add: commit_locked_def)

text \<open>
  C17: A restart can hand out the identifier of a commit again.  Replay restores commits but
  not the counters, which stay those of the snapshot.  If a commit that was recovered has the
  identifier the counter of the snapshot stands at, as the first commit since the snapshot
  has, then the next commit of the reopened coordinator, of another compilation,
  replaces it: the first compilation is still bound to the identifier, which now holds the other
  compilation's artifact, and the first commit is gone.
\<close>

theorem restart_reissues_commit_id:
  assumes opened: "coordinator_open cfg (Inr (report, records, snapshot)) ps im = (st, r, im1)"
      "\<not> im_opened im" "cg_enable_persistence cfg" "recover records snapshot = Inr s"
    and counter: "snapshot_state snapshot = Inr s0" "m = Ident (hd_next_commit_id (cs_header s0))"
    and first: "om_find (cs_commits s) m = Some k" "om_find (cs_authoritative s) (ac_compilation k) = Some m"
    and later: "ledger_of im2 = ledger_of im1"
      "find_attempt (au_attempt (ro_claim out)) im2 = Some a"
      "find_compilation (au_compilation (ro_claim out)) im2 = Some c"
      "ca_state a = AS_Produced \<or> ca_state a = AS_Validating" "vp_aggregate v = VO_Pass"
      "\<not> digest_is_zero (rf_digest (ca_candidate a))"
      "om_find (cs_authoritative (im_state im2)) (cr_id c) = None"
  shows "let s3 = im_state (snd (commit_locked session out v im2)); k' = sealed_commit im2 c a in
    ac_compilation k \<noteq> cr_id c
    \<and> om_find (cs_authoritative s3) (ac_compilation k) = Some m
    \<and> om_find (cs_authoritative s3) (cr_id c) = Some m
    \<and> om_find (cs_commits s3) m = Some k' \<and> ac_compilation k' = cr_id c
    \<and> ac_artifact_digest k' = rf_digest (ca_candidate a)"
proof -
  obtain n where im1: "im_state im1 = (restart (im_now im) s)\<lparr>cs_header :=
       (restart_header (im_now im) (cs_header s))\<lparr>hd_records_since_snapshot := n\<rparr>\<rparr>"
    using open_recovers [OF opened] by blast
  have "cs_header s = cs_header s0" using recover_naming [OF opened(4) counter(1)] by (simp add: naming_def)
  then have "hd_next_commit_id (header im1) = hd_next_commit_id (cs_header s0)"
    by (simp add: im1 restart_header_def)
  moreover have "hd_next_commit_id (header im2) = hd_next_commit_id (header im1)"
    "cs_authoritative (im_state im2) = cs_authoritative (im_state im1)"
    using later(1) by (metis ledger_of_sel(5), metis ledger_of_sel(2))
  ultimately have m: "ac_id (sealed_commit im2 c a) = m" and
    auth: "cs_authoritative (im_state im2) = cs_authoritative s"
    using counter(2) by (simp_all add: im1 restart_def)
  let ?l = "ledger_of (snd (commit_locked session out v im2))"
  have tables: "lg_commits ?l = om_put m (sealed_commit im2 c a) (cs_commits (im_state im2))"
    "lg_authoritative ?l = om_put (cr_id c) m (cs_authoritative s)"
    unfolding committed_seals [OF later(2-7)] seal_def using m auth by simp_all
  have other: "ac_compilation k \<noteq> cr_id c" using first(2) later(7) auth by auto
  then show ?thesis using tables first(2) by (simp add: Let_def)
qed

text \<open>A journal with one commit, replayed without a snapshot, and a second compilation ready to commit.\<close>

definition first_commit :: artifact_commit where
  "first_commit = no_commit\<lparr>ac_id := Ident 1, ac_compilation := Ident 9, ac_unit := Ident 1,
     ac_artifact := Ident 1, ac_artifact_digest := 4, ac_provenance := Ident 1, ac_validation := Ident 1,
     ac_worker := Ident 1, ac_worker_boot := Ident 1, ac_attempt := Ident 9\<rparr>"

lemma first_commit_written:
  "\<exists>bs. carries (1, JP_Commit first_commit) \<lparr>jn_type = RT_Commit, jn_seq = 1, jn_payload = bs\<rparr>"
  by (simp add: carries_def commit_encodable_def encode_commit_def first_commit_def no_commit_def
      is_i64_def w_millis_def w_i64_def w_id_def w_gen_def write_defs)

lemma restart_reissues_commit_id_witness:
  "\<exists>bs st r im1. let im2 = upd_state (\<lambda>s. s\<lparr>cs_attempts := cs_attempts (im_state sample_produced),
        cs_compilations := cs_compilations (im_state sample_produced)\<rparr>) im1 in
    coordinator_open (sample_config\<lparr>cg_enable_persistence := True\<rparr>)
        (Inr (empty_recovery, [\<lparr>jn_type = RT_Commit, jn_seq = 1, jn_payload = bs\<rparr>], []))
        sample_ps (sample_impl\<lparr>im_opened := False\<rparr>) = (st, r, im1)
    \<and> om_find (cs_commits (im_state im1)) (Ident 1) = Some first_commit
    \<and> om_find (cs_authoritative (im_state (snd (commit_locked (Ident 1) sample_report passing im2)))) (Ident 9)
        = Some (Ident 1)
    \<and> map_option ac_compilation
        (om_find (cs_commits (im_state (snd (commit_locked (Ident 1) sample_report passing im2)))) (Ident 1))
        = Some (Ident 7)"
proof -
  let ?im = "sample_impl\<lparr>im_opened := False\<rparr>"
  obtain bs where bs: "carries (1, JP_Commit first_commit) \<lparr>jn_type = RT_Commit, jn_seq = 1, jn_payload = bs\<rparr>"
    using first_commit_written by blast
  let ?r = "\<lparr>jn_type = RT_Commit, jn_seq = 1, jn_payload = bs\<rparr>"
  let ?s = "replay_commit first_commit initial_state"
  have s: "recover [?r] [] = Inr ?s"
    using recover_carried [of None 0 "[]" "[(1, JP_Commit first_commit)]" "[?r]"] bs
    by (simp add: replayed_state_def)
  obtain st r im1 where opened: "coordinator_open (sample_config\<lparr>cg_enable_persistence := True\<rparr>)
      (Inr (empty_recovery, [?r], [])) sample_ps ?im = (st, r, im1)"
    by (metis prod.exhaust_sel)
  define im2 where "im2 = upd_state (\<lambda>s. s\<lparr>cs_attempts := cs_attempts (im_state sample_produced),
        cs_compilations := cs_compilations (im_state sample_produced)\<rparr>) im1"
  obtain k where k: "im_state im1 = (restart (im_now ?im) ?s)\<lparr>cs_header :=
       (restart_header (im_now ?im) (cs_header ?s))\<lparr>hd_records_since_snapshot := k\<rparr>\<rparr>"
    using open_recovers [OF opened _ _ s] by auto
  have found: "find_attempt (Ident 1) im2 = Some sample_produced_attempt"
    "find_compilation (Ident 7) im2 = Some sample_compilation"
    using sample_with_simps(1,2) [of "sample_worker 1" sample_lease sample_produced_attempt]
    by (simp_all add: im2_def find_attempt_def find_compilation_def upd_state_def sample_produced_def)
  have claim: "au_attempt (ro_claim sample_report) = Ident 1" "au_compilation (ro_claim sample_report) = Ident 7"
    by (simp_all add: sample_report_def)
  have "ledger_of im2 = ledger_of im1" by (simp add: im2_def upd_state_def ledger_of_def)
  from restart_reissues_commit_id [OF opened _ _ s, of initial_state "Ident 1" first_commit im2 sample_report
      sample_produced_attempt sample_compilation passing "Ident 1"] this found claim
  have "let s3 = im_state (snd (commit_locked (Ident 1) sample_report passing im2)) in
      om_find (cs_authoritative s3) (Ident 9) = Some (Ident 1)
    \<and> map_option ac_compilation (om_find (cs_commits s3) (Ident 1)) = Some (Ident 7)"
    by (simp add: snapshot_state_def initial_state_def initial_header_def replay_commit_def first_commit_def
        no_commit_def sample_produced_attempt_def passing_def digest_is_zero_def im2_def upd_state_def k
        restart_def Let_def) (simp add: sample_compilation_def)
  moreover have "om_find (cs_commits (im_state im1)) (Ident 1) = Some first_commit"
    by (simp add: k restart_def replay_commit_def first_commit_def)
  ultimately show ?thesis using opened unfolding im2_def Let_def by blast
qed

section \<open>A report on an unknown attempt\<close>

abbreviation unreadable_snapshot :: status where
  "unreadable_snapshot \<equiv> error Err_PersistenceCorrupt
     (''snapshot could not be decoded: state decode failed in leases: canonical identity handle is zero'')"

lemma decode_nothing: "decode_state [] = Inl (error Err_PersistenceCorrupt
    ''state domain tag mismatch'')"
  by (simp add: decode_state_def r_state_def decode_schema_def r_bind_def labelled_def r_domain_def
        r_u8_def r_bytes_def)

text \<open>
  C16: One message closes the coordinator for good.  A failure report on an attempt the
  coordinator does not know is refused, and leaves a violation that names no worker.  A snapshot
  written after it, by a close or when enough records have been journalled, cannot be decoded:
  every later open of the store answers that the persisted state is corrupt, whatever the
  journal holds, and the coordinator stays closed.
\<close>

theorem stray_report_blocks_reopening:
  assumes "im_opened im" "find_attempt (au_attempt (af_claim f)) im = None" "is_i64 (im_now im)"
    and "state_encodable ((im_state im)\<lparr>cs_violations := []\<rparr>)"
    and "list_all dated_violation (cs_violations (im_state im))" "length (cs_violations (im_state im)) \<le> 4096"
    and "fail_attempt session f im = (st, im1)" "encode_state (im_state im1) [] = Some bs"
    and "\<not> im_opened im2" "cg_enable_persistence cfg"
  shows "st_code st = Err_StaleAttempt
    \<and> coordinator_open cfg (Inr (report, records, bs)) ps im2
        = (unreadable_snapshot, Some report, im2\<lparr>im_config := cfg, im_store := ps\<rparr>)"
proof -
  let ?v = "\<lparr>av_at = im_now im, av_operation = ''fail_attempt'', av_code = Err_StaleAttempt,
    av_session = session, av_worker = Ident 0, av_detail = ''failure report for an unknown attempt''\<rparr>"
  have st: "st = error Err_StaleAttempt ''unknown attempt''"
    and s1: "im_state im1 = (im_state im)\<lparr>cs_violations := cs_violations (im_state im) @ [?v]\<rparr>"
    using assms(1,2,6,7) by (auto simp: fail_attempt_def ensure_open_def record_violation_def upd_state_def)
  have "decode_state bs = Inl (error Err_PersistenceCorrupt
      ''state decode failed in leases: canonical identity handle is zero'')"
    by (rule unnamed_violation_refused [OF _ assms(8), of ?v])
      (use assms(3-6) stale_in_domain in \<open>simp_all add: s1 kMaxStateRecords_def dated_violation_def
         unnamed_violation_def\<close>)
  moreover from this have "bs \<noteq> []" using decode_nothing by (auto simp: error_def)
  ultimately have "recover records bs = Inl unreadable_snapshot" by (simp add: recover_def error_def)
  then show ?thesis using assms(9,10) by (simp add: coordinator_open_def st error_def)
qed

lemma stray_report_blocks_reopening_witness:
  "\<exists>im1 bs. snd (fail_attempt (Ident 1) \<lparr>af_claim = sample_claim, af_code = Err_Internal,
        af_detail = [], af_produced_candidate = False\<rparr> sample_impl) = im1
    \<and> encode_state (im_state im1) [] = Some bs
    \<and> fst (coordinator_open (sample_config\<lparr>cg_enable_persistence := True\<rparr>)
        (Inr (empty_recovery, [], bs)) sample_ps (sample_impl\<lparr>im_opened := False\<rparr>)) = unreadable_snapshot"
proof -
  let ?f = "\<lparr>af_claim = sample_claim, af_code = Err_Internal, af_detail = [], af_produced_candidate = False\<rparr>"
  obtain st im1 where failed: "fail_attempt (Ident 1) ?f sample_impl = (st, im1)" by fastforce
  have s: "im_state sample_impl = initial_state\<lparr>cs_header := initial_header\<lparr>hd_epoch := Gen 1, hd_restarts := 1\<rparr>\<rparr>"
    "im_opened sample_impl" "im_now sample_impl = 1700000000000"
    by (simp_all add: sample_impl_def)
  have none: "find_attempt (au_attempt (af_claim ?f)) sample_impl = None"
    by (simp add: find_attempt_def s initial_state_def)
  have "im_state im1 = (im_state sample_impl)\<lparr>cs_violations := [\<lparr>av_at = 1700000000000,
      av_operation = ''fail_attempt'', av_code = Err_StaleAttempt, av_session = Ident 1,
      av_worker = Ident 0, av_detail = ''failure report for an unknown attempt''\<rparr>]\<rparr>"
    using failed none s by (auto simp: fail_attempt_def ensure_open_def record_violation_def upd_state_def
        initial_state_def)
  then obtain bs where bs: "encode_state (im_state im1) [] = Some bs"
    by (simp add: s encode_state_def initial_state_def initial_header_def
      encode_schema_def encode_header_def encode_registry_def empty_registry_def w_table_def
      encode_authoritative_def encode_violation_def w_millis_def w_i64_def w_u16_def w_error_def w_id_def
      w_gen_def write_defs)
  have "state_encodable ((im_state sample_impl)\<lparr>cs_violations := []\<rparr>)"
    by (simp add: s state_encodable_def initial_state_def initial_header_def empty_registry_def
        table_ok_def om_ordered_def om_keys_def is_i64_def kMaxStateRecords_def registry_ok_def)
  then have "fst (coordinator_open (sample_config\<lparr>cg_enable_persistence := True\<rparr>)
        (Inr (empty_recovery, [], bs)) sample_ps (sample_impl\<lparr>im_opened := False\<rparr>)) = unreadable_snapshot"
    using stray_report_blocks_reopening [OF s(2) none _ _ _ _ failed bs,
        of "sample_impl\<lparr>im_opened := False\<rparr>" "sample_config\<lparr>cg_enable_persistence := True\<rparr>"
           empty_recovery "[]" sample_ps]
    by (simp add: s(1,3) is_i64_def initial_state_def)
  then show ?thesis using failed bs by (metis snd_conv)
qed

section \<open>An open that fails\<close>

text \<open>
  An open whose first journal record cannot be written answers with the I/O error and leaves
  the coordinator open, with the epoch advanced in memory only; opening it again
  succeeds without doing anything, and every operation goes through.
\<close>

theorem failed_open_leaves_open:
  assumes "\<not> im_opened im" "cg_enable_persistence cfg" "recover records snapshot = Inr s"
    and "ps_open ps" "ps_faults ps = Some detail # faults"
  shows "\<exists>im'. coordinator_open cfg (Inr (report, records, snapshot)) ps im =
      (error Err_IoError detail, Some report, im')
    \<and> im_opened im' \<and> ensure_open im' = success \<and> header im' = restart_header (im_now im) (cs_header s)
    \<and> ps_journal (im_store im') = ps_journal ps
    \<and> (\<forall>cfg2 opened2 ps2. coordinator_open cfg2 opened2 ps2 im' = (success, None, im'))"
  unfolding open_persistent [OF assms(1-3)]
  using assms(2,4,5) by (simp add: persist_def store_append_def take_fault_def Let_def ensure_open_def
      coordinator_open_def restart_def)

lemma failed_open_leaves_open_witness:
  "\<exists>im'. coordinator_open (sample_config\<lparr>cg_enable_persistence := True\<rparr>) (Inr (empty_recovery, [], []))
      (sample_ps\<lparr>ps_faults := [Some ''disk full'']\<rparr>) (sample_impl\<lparr>im_opened := False\<rparr>)
      = (error Err_IoError ''disk full'', Some empty_recovery, im') \<and> im_opened im'"
  using failed_open_leaves_open [of "sample_impl\<lparr>im_opened := False\<rparr>"
      "sample_config\<lparr>cg_enable_persistence := True\<rparr>" "[]" "[]" initial_state
      "sample_ps\<lparr>ps_faults := [Some ''disk full'']\<rparr>" "''disk full''" "[]" empty_recovery]
  by (auto simp: recover_def sample_ps_def)

end
