(* ===== verification/DC_Audited.thy ===== *)
theory DC_Audited
  imports DC_Audit DC_Reopen
begin

text \<open>
  What the auditor's verdict is worth: what a clean report means, which findings no run of the
  coordinator can produce, what it reports after a restart, and a failing write that it reports.
\<close>

section \<open>Reading findings\<close>

lemma flag_mem [simp]:
  "f \<in> set (flag b i d c) \<longleftrightarrow> b \<and> f = \<lparr>fi_invariant = i, fi_detail = d, fi_compilation = c\<rparr>"
  by (auto simp: flag_def)

lemma flag_Nil [simp]: "flag b i d c = [] \<longleftrightarrow> \<not> b"
  by (simp add: flag_def)

definition findings_named :: "string set \<Rightarrow> audit_finding list \<Rightarrow> bool" where
  "findings_named names fs \<longleftrightarrow> (\<forall>f\<in>set fs. fi_invariant f \<in> names)"

lemma findings_named_intros [simp]:
  "findings_named ns []"
  "findings_named ns (xs @ ys) \<longleftrightarrow> findings_named ns xs \<and> findings_named ns ys"
  "findings_named ns (concat xss) \<longleftrightarrow> (\<forall>xs\<in>set xss. findings_named ns xs)"
  "findings_named ns (flag b i d c) \<longleftrightarrow> (b \<longrightarrow> i \<in> ns)"
  by (auto simp: findings_named_def)

section \<open>A clean report\<close>

text \<open>What holds of a compilation with an authoritative commit in a clean state.\<close>

definition authority_in_order :: "impl \<Rightarrow> compilation_id \<Rightarrow> commit_id \<Rightarrow> bool" where
  "authority_in_order im i m \<longleftrightarrow> (\<exists>k c v p. om_find (cs_commits (im_state im)) m = Some k
     \<and> find_compilation i im = Some c \<and> cr_state c = CS_Committed
     \<and> live_commits (im_state im) i = 1 \<and> \<not> digest_is_zero (ac_artifact_digest k)
     \<and> om_find (cs_validations (im_state im)) (ac_validation k) = Some v \<and> vp_aggregate v = VO_Pass
     \<and> om_find (cs_provenances (im_state im)) (ac_provenance k) = Some p \<and> \<not> provenance_differs p c
     \<and> (\<forall>j a. j \<in> set (cr_attempts c) \<longrightarrow> find_attempt j im = Some a \<longrightarrow> holds_commit_authority (ca_state a)
          \<longrightarrow> ca_id a = ac_attempt k \<or> \<not> stale_holder (im_state im) a))"

lemma clean_authority:
  assumes "audit_authority_of (im_state im) i m = []"
  shows "authority_in_order im i m"
proof -
  obtain k where k: "om_find (cs_commits (im_state im)) m = Some k" "live_commits (im_state im) i = 1"
    and rest: "(case om_find (cs_compilations (im_state im)) i of
              None \<Rightarrow> flag True ''commit_references_compilation''
                ''authoritative commit has no compilation record'' i
            | Some c \<Rightarrow> audit_committed (im_state im) i k c) = []"
    using assms by (simp add: audit_authority_of_def split: option.splits)
  from rest obtain c where c: "find_compilation i im = Some c" and good: "audit_committed (im_state im) i k c = []"
    by (simp add: find_compilation_def split: option.splits)
  have attempts: "audit_attempt (im_state im) k i j = []" if "j \<in> set (cr_attempts c)" for j
    using good that by (simp add: audit_committed_def)
  then have "\<forall>j a. j \<in> set (cr_attempts c) \<longrightarrow> find_attempt j im = Some a \<longrightarrow> holds_commit_authority (ca_state a)
      \<longrightarrow> ca_id a = ac_attempt k \<or> \<not> stale_holder (im_state im) a"
    by (fastforce simp: audit_attempt_def find_attempt_def)
  with k c good show ?thesis
    by (auto simp: authority_in_order_def audit_committed_def split: option.splits)
qed


text \<open>A committed compilation with its commit, validation and provenance.\<close>

definition sample_settled :: impl where
  "sample_settled = upd_state (\<lambda>s. s\<lparr>
     cs_compilations := [(Ident 7, sample_compilation\<lparr>cr_state := CS_Committed, cr_attempts := []\<rparr>)],
     cs_authoritative := [(Ident 7, Ident 1)],
     cs_commits := [(Ident 1, no_commit\<lparr>ac_id := Ident 1, ac_compilation := Ident 7, ac_artifact_digest := 5,
        ac_provenance := Ident 1, ac_validation := Ident 1\<rparr>)],
     cs_validations := [(Ident 1, passing)],
     cs_provenances := [(Ident 1, provenance_for sample_impl sample_compilation sample_attempt (Ident 1) (Ident 1))],
     cs_leases := [(Ident 1, sample_lease)]\<rparr>) sample_impl"


section \<open>What no run can break\<close>

lemma ledger_run_ordered:
  "ledger_run n l0 l \<Longrightarrow> om_ordered (lg_commits l0) \<Longrightarrow> om_ordered (lg_commits l)"
  "ledger_run n l0 l \<Longrightarrow> om_ordered (lg_authoritative l0) \<Longrightarrow> om_ordered (lg_authoritative l)"
  by (induction rule: ledger_run.induct) (simp_all add: seal_def supersede_def withdraw_def)

lemma one_live_commit:
  assumes "ledger_ok (ledger_of im)" "om_ordered (cs_commits (im_state im))"
  shows "live_commits (im_state im) c \<le> 1"
proof (rule ccontr)
  let ?live = "filter (\<lambda>(_, k). ac_compilation k = c \<and> \<not> ac_superseded k) (cs_commits (im_state im))"
  assume "\<not> live_commits (im_state im) c \<le> 1"
  then have "2 \<le> length ?live" by (simp add: live_commits_def)
  then obtain a b rest where live: "?live = a # b # rest"
    by (cases ?live; cases "tl ?live") auto
  have distinct: "distinct (map fst ?live)"
    using assms(2) by (simp add: om_ordered_def om_keys_def distinct_map_filter)
  have "a \<in> set ?live" "b \<in> set ?live" unfolding live by simp_all
  then have "om_find (cs_commits (im_state im)) (fst a) = Some (snd a)" "ac_compilation (snd a) = c"
    "\<not> ac_superseded (snd a)" "om_find (cs_commits (im_state im)) (fst b) = Some (snd b)"
    "ac_compilation (snd b) = c" "\<not> ac_superseded (snd b)"
    using om_mem_find [OF assms(2)] by auto
  then have "fst a = fst b" using ledger_ok_unique [OF assms(1)] by simp
  then show False using distinct unfolding live by simp
qed

definition broken_authority :: "string set" where
  "broken_authority = {''authoritative_commit_exists'', ''commit_has_digest'', ''commit_has_provenance'',
     ''commit_has_validation'', ''commit_validation_passed'', ''cancelled_attempt_has_no_authority''}"

text \<open>Every group of checks but the one on authority reports under other names.\<close>

lemma other_groups:
  "findings_named (- broken_authority) (audit_identities s)"
  "findings_named (- broken_authority) (audit_leases s)"
  "findings_named (- broken_authority) (audit_cache im)"
  "findings_named (- broken_authority) (audit_fan_in s)"
  "findings_named (- broken_authority) (audit_reproducibility s)"
  "findings_named (- broken_authority) (audit_attempts s)"
  "findings_named (- broken_authority) (audit_references s)"
  "findings_named (- broken_authority) (audit_closure s)"
  by (auto simp: audit_identities_def audit_leases_def audit_cache_def audit_cache_entry_def audit_fan_in_def
      audit_job_def audit_child_def audit_reproducibility_def audit_divergent_def audit_attempts_def
      audit_references_def audit_references_of_def audit_closure_def broken_authority_def Let_def
      split: option.splits if_splits)

lemma audit_attempt_names: "findings_named (- broken_authority) (audit_attempt s k c i)"
  by (auto simp: audit_attempt_def holds_commit_authority_def broken_authority_def split: option.split)

lemma benign_names:
  "''single_authoritative_commit'' \<notin> broken_authority" "''commit_references_compilation'' \<notin> broken_authority"
  "''committed_state_consistent'' \<notin> broken_authority" "''provenance_generation_consistency'' \<notin> broken_authority"
  by (simp_all add: broken_authority_def)

lemma sound_authority_names:
  assumes ok: "ledger_ok (ledger_of im)" and m: "om_find (cs_authoritative (im_state im)) i = Some m"
  shows "findings_named (- broken_authority) (audit_authority_of (im_state im) i m)"
proof -
  obtain k where k: "om_find (cs_commits (im_state im)) m = Some k"
    using ledger_ok_bound [OF ok, of i m] m by auto
  from ledger_ok_sealed [OF ok, of m k] k obtain v p where
    "om_find (cs_validations (im_state im)) (ac_validation k) = Some v"
    "om_find (cs_provenances (im_state im)) (ac_provenance k) = Some p" "backed_by k v p"
    by (auto simp: sealed_def)
  then show ?thesis
    using k by (simp add: audit_authority_of_def audit_committed_def backed_by_def audit_attempt_names
        benign_names split: option.split)
qed

lemma sound_audit_names:
  assumes "ledger_ok (ledger_of im)" "om_ordered (cs_authoritative (im_state im))"
  shows "findings_named (- broken_authority) (ar_findings (audit im))"
proof -
  have "findings_named (- broken_authority) (audit_authority (im_state im))"
    using sound_authority_names [OF assms(1)] om_mem_find [OF assms(2)] by (auto simp: audit_authority_def)
  then show ?thesis by (simp add: audit_def audit_findings_def Let_def other_groups)
qed

text \<open>
  C19: What the auditor can never report.  After any run from a sound ledger with fewer than
  2^64 - 1 commit events, no authoritative commit is missing or lacks its digest, its provenance
  or its passing validation, and no compilation has two live commits; and the check for
  cancelled attempts with authority never fires.
\<close>

theorem runs_pass_authority_audit:
  assumes run: "reaches s0 n m s" and few: "j + n < 2 ^ 64 - 1"
    and ok: "ledger_ok (ledger_of (sy_impl s0))" "counters_within j (ledger_of (sy_impl s0))"
    and ordered: "om_ordered (cs_commits (im_state (sy_impl s0)))" "om_ordered (cs_authoritative (im_state (sy_impl s0)))"
  shows "(\<forall>f\<in>set (ar_findings (audit (sy_impl s))). fi_invariant f \<notin> broken_authority)
    \<and> (\<forall>c. live_commits (im_state (sy_impl s)) c \<le> 1)"
proof -
  obtain k where "k \<le> n" and ledger: "ledger_run k (ledger_of (sy_impl s0)) (ledger_of (sy_impl s))"
    using reaches_authority [OF run] by (auto simp: authority_run_def)
  with ok few have sound: "ledger_ok (ledger_of (sy_impl s))"
    using ledger_run_ok [OF ledger ok] by simp
  have tables: "om_ordered (cs_commits (im_state (sy_impl s)))" "om_ordered (cs_authoritative (im_state (sy_impl s)))"
    using ledger_run_ordered [OF ledger] ordered by simp_all
  have "findings_named (- broken_authority) (ar_findings (audit (sy_impl s)))"
    by (rule sound_audit_names [OF sound tables(2)])
  then show ?thesis
    using one_live_commit [OF sound tables(1)] by (auto simp: findings_named_def)
qed

lemma sample_waiting_ordered:
  "om_ordered (cs_commits (im_state (sy_impl sample_waiting)))"
  "om_ordered (cs_authoritative (im_state (sy_impl sample_waiting)))"
  by (simp_all add: sample_waiting_def sample_produced_def sample_with_def table_defs sample_impl_def
      initial_state_def)

lemma runs_pass_authority_audit_witness:
  "filter (\<lambda>f. fi_invariant f \<in> broken_authority) (ar_findings (audit (sy_impl sample_committed))) = []
    \<and> live_commits (im_state (sy_impl sample_committed)) (Ident 7) \<le> 1"
  using runs_pass_authority_audit [OF sample_waiting_reaches _ sample_waiting_sound sample_waiting_ordered]
  by (simp add: filter_empty_conv)

section \<open>After a restart\<close>

text \<open>
  A restart satisfies the auditor on stale authority.  Right after an open the checks for
  leases of an old epoch or of a fenced worker, and for attempts with stale authority, find
  nothing, whatever was recovered.
\<close>

theorem reopened_passes_stale_audit:
  assumes "coordinator_open cfg (Inr (report, records, snapshot)) ps im = (st, r, im')"
    and "\<not> im_opened im" "cg_enable_persistence cfg" "recover records snapshot = Inr s"
  shows "audit_leases (im_state im') = [] \<and> (\<forall>k c j. audit_attempt (im_state im') k c j = [])"
proof -
  obtain n where state: "im_state im' = (restart (im_now im) s)\<lparr>cs_header :=
       (restart_header (im_now im) (cs_header s))\<lparr>hd_records_since_snapshot := n\<rparr>\<rparr>"
    using open_recovers [OF assms] by blast
  have "cl_revoked l" if "(i, l) \<in> set (cs_leases (im_state im'))" for i l
    using that by (auto simp: state restart_def om_map_values_def restart_lease_def)
  then have leases: "audit_leases (im_state im') = []"
    by (auto simp: audit_leases_def split: option.split)
  have "\<not> holds_commit_authority (ca_state a)" if found: "om_find (cs_attempts (im_state im')) j = Some a" for j a
  proof -
    obtain a0 where "a = restart_attempt (im_now im) a0" using found by (auto simp: state restart_def)
    then show ?thesis using restart_attempt_idle by simp
  qed
  then have "audit_attempt (im_state im') k c j = []" for k c j
    by (auto simp: audit_attempt_def holds_commit_authority_def split: option.split)
  with leases show ?thesis by blast
qed

lemma reopened_passes_stale_audit_witness:
  "\<exists>bs st r im'. encode_state (sample_snapshot (Ident 4)) [] = Some bs
    \<and> coordinator_open (sample_config\<lparr>cg_enable_persistence := True\<rparr>)
        (Inr (empty_recovery, [], bs)) sample_ps (sample_impl\<lparr>im_opened := False\<rparr>) = (st, r, im')
    \<and> audit_leases (im_state im') = [] \<and> cs_leases (im_state im') \<noteq> []"
proof -
  obtain bs where bs: "encode_state (sample_snapshot (Ident 4)) [] = Some bs"
    and s: "recover [] bs = Inr (state_view (sample_snapshot (Ident 4)))"
    using sample_snapshot_recovered by blast
  let ?im = "sample_impl\<lparr>im_opened := False\<rparr>"
  obtain st r im' where opened: "coordinator_open (sample_config\<lparr>cg_enable_persistence := True\<rparr>)
      (Inr (empty_recovery, [], bs)) sample_ps ?im = (st, r, im')"
    by (metis prod.exhaust_sel)
  obtain n where "im_state im' = (restart (im_now ?im) (state_view (sample_snapshot (Ident 4))))\<lparr>cs_header :=
       (restart_header (im_now ?im) (cs_header (state_view (sample_snapshot (Ident 4)))))\<lparr>hd_records_since_snapshot := n\<rparr>\<rparr>"
    using open_recovers [OF opened _ _ s] by auto
  then have "cs_leases (im_state im') \<noteq> []"
    by (simp add: restart_def state_view_def sample_snapshot_def om_map_values_def)
  with reopened_passes_stale_audit [OF opened _ _ s] opened bs show ?thesis by auto
qed

text \<open>
  C20: A clean restart continues the ledger.  The coordinator runs from any state, is closed with
  its snapshot written, is opened from that snapshot, and runs again: what happened
  to commits, authority, provenance and validations over both incarnations is one run of the
  ledger's moves, so everything that holds of one run holds across the restart.
\<close>

theorem clean_restart_continues_ledger:
  assumes first: "reaches s0 n m s1" and encodable: "state_encodable (im_state (sy_impl s1))"
    and snapshot: "encode_state (im_state (sy_impl s1)) [] = Some bs"
    and opened: "coordinator_open cfg (Inr (report, [], bs)) ps im = (st, r, im')" "\<not> im_opened im"
      "cg_enable_persistence cfg"
    and second: "sy_impl s2 = im'" "reaches s2 n' m' s3"
  shows "\<exists>k\<le>n + n'. ledger_run k (ledger_of (sy_impl s0)) (ledger_of (sy_impl s3))"
proof -
  let ?s = "im_state (sy_impl s1)"
  have recovered: "recover [] bs = Inr (state_view ?s)"
    using encode_state_not_empty [OF encodable snapshot] snapshot_read [OF encodable snapshot]
    by (simp add: recover_def)
  obtain j where state: "im_state im' = (restart (im_now im) (state_view ?s))\<lparr>cs_header :=
       (restart_header (im_now im) (cs_header (state_view ?s)))\<lparr>hd_records_since_snapshot := j\<rparr>\<rparr>"
    using open_recovers [OF opened recovered] by blast
  have same: "ledger_of im' = ledger_of (sy_impl s1)"
    by (simp add: ledger_of_def state restart_def state_view_def restart_header_def)
  obtain k where k: "k \<le> n" "ledger_run k (ledger_of (sy_impl s0)) (ledger_of (sy_impl s1))"
    using reaches_authority [OF first] by (auto simp: authority_run_def)
  obtain l where l: "l \<le> n'" "ledger_run l (ledger_of im') (ledger_of (sy_impl s3))"
    using reaches_authority [OF second(2)] second(1) by (auto simp: authority_run_def)
  from ledger_run_trans [OF l(2) k(2) [folded same]] k(1) l(1) show ?thesis
    by (meson add_mono)
qed

lemma clean_restart_continues_ledger_witness:
  "\<exists>bs st r im'. encode_state (sample_snapshot (Ident 4)) [] = Some bs
    \<and> coordinator_open (sample_config\<lparr>cg_enable_persistence := True\<rparr>)
        (Inr (empty_recovery, [], bs)) sample_ps (sample_impl\<lparr>im_opened := False\<rparr>) = (st, r, im')
    \<and> (\<exists>k\<le>0. ledger_run k (ledger_of (sample_impl\<lparr>im_state := sample_snapshot (Ident 4)\<rparr>)) (ledger_of im'))"
proof -
  obtain bs where bs: "encode_state (sample_snapshot (Ident 4)) [] = Some bs"
    using sample_snapshot_written by blast
  obtain st r im' where opened: "coordinator_open (sample_config\<lparr>cg_enable_persistence := True\<rparr>)
      (Inr (empty_recovery, [], bs)) sample_ps (sample_impl\<lparr>im_opened := False\<rparr>) = (st, r, im')"
    by (metis prod.exhaust_sel)
  let ?s1 = "\<lparr>sy_impl = sample_impl\<lparr>im_state := sample_snapshot (Ident 4)\<rparr>, sy_pending = []\<rparr>"
  let ?s2 = "\<lparr>sy_impl = im', sy_pending = []\<rparr>"
  have "\<exists>k\<le>0 + 0. ledger_run k (ledger_of (sy_impl ?s1)) (ledger_of (sy_impl ?s2))"
    by (rule clean_restart_continues_ledger [OF reaches.start _ _ opened _ _ _ reaches.start])
      (simp_all add: bs sample_snapshot_encodable)
  then show ?thesis using bs opened by auto
qed

section \<open>A write that fails\<close>

text \<open>
  C22: A failing write leaves a withdrawn artifact in authority.  When a forced rebuild marks the
  commit as superseded and cannot write that to the journal, it stops before it erases the
  binding: the compilation keeps a superseded commit as its authority, queries still serve
  it, and the auditor reports the compilation.
\<close>

theorem failed_rebuild_keeps_superseded_authority:
  assumes ok: "ledger_ok (ledger_of im)" "om_ordered (cs_commits (im_state im))"
    and bound: "om_find (cs_authoritative (im_state im)) i = Some m" "om_find (cs_commits (im_state im)) m = Some k"
    and fault: "cg_enable_persistence (im_config im)" "ps_open (im_store im)" "ps_faults (im_store im) = Some d # ds"
  shows "\<exists>im'. withdraw_authority i im = (Inl (Returned (error Err_IoError d)), im')
    \<and> om_find (cs_authoritative (im_state im')) i = Some m
    \<and> query_commit i im' = Inr (k\<lparr>ac_superseded := True\<rparr>)
    \<and> (\<exists>f\<in>set (ar_findings (audit im')). fi_invariant f = ''single_authoritative_commit'' \<and> fi_compilation f = i)"
proof -
  let ?k = "k\<lparr>ac_superseded := True\<rparr>"
  define im' where "im' = (put_commit m ?k im)\<lparr>im_store := (im_store im)\<lparr>ps_faults := ds\<rparr>\<rparr>"
  have result: "withdraw_authority i im = (Inl (Returned (error Err_IoError d)), im')"
    using fault by (simp add: withdraw_authority_def bound Let_def and_then_def must_def persist_def
        store_append_def take_fault_def put_commit_def upd_state_def im'_def error_def st_ok_def)
  have state: "cs_authoritative (im_state im') = cs_authoritative (im_state im)"
    "cs_commits (im_state im') = om_put m ?k (cs_commits (im_state im))"
    by (simp_all add: im'_def put_commit_def upd_state_def)
  have none: "live_commits (im_state im') i = 0"
  proof -
    have dead: "ac_superseded x \<or> ac_compilation x \<noteq> i" if x: "om_find (cs_commits (im_state im)) j = Some x" "j \<noteq> m" for j x
      using ledger_ok_live [OF ok(1), of j x] x bound(1) by auto
    have "om_ordered (cs_commits (im_state im'))" using ok(2) by (simp add: state)
    note found = om_mem_find [OF this, unfolded state om_find_put]
    have "ac_superseded x \<or> ac_compilation x \<noteq> i" if "(j, x) \<in> set (cs_commits (im_state im'))" for j x
      using found [OF that [unfolded state]] dead [of j x] by (cases "j = m") auto
    then show ?thesis by (auto simp: live_commits_def filter_empty_conv)
  qed
  have "query_commit i im' = Inr ?k" by (simp add: query_commit_def state bound found_or_def)
  moreover have "\<exists>f\<in>set (audit_authority_of (im_state im') i m). fi_invariant f = ''single_authoritative_commit'' \<and> fi_compilation f = i"
    by (auto simp: audit_authority_of_def state none bex_Un)
  then have "\<exists>f\<in>set (ar_findings (audit im')). fi_invariant f = ''single_authoritative_commit'' \<and> fi_compilation f = i"
    using om_find_mem [OF bound(1)]
    by (fastforce simp: audit_def audit_findings_def audit_authority_def Let_def state)
  ultimately show ?thesis using result state(1) bound(1) by simp
qed

lemma failed_rebuild_keeps_superseded_authority_witness:
  "let im = (sy_impl sample_committed)\<lparr>im_config := sample_config\<lparr>cg_enable_persistence := True\<rparr>,
      im_store := sample_ps\<lparr>ps_faults := [Some ''disk full'']\<rparr>\<rparr> in
    \<exists>im'. withdraw_authority (Ident 7) im = (Inl (Returned (error Err_IoError ''disk full'')), im')
      \<and> om_find (cs_authoritative (im_state im')) (Ident 7) = Some (Ident 1)"
proof -
  let ?im = "(sy_impl sample_committed)\<lparr>im_config := sample_config\<lparr>cg_enable_persistence := True\<rparr>,
      im_store := sample_ps\<lparr>ps_faults := [Some ''disk full'']\<rparr>\<rparr>"
  obtain k where run: "k \<le> 1" "ledger_run k (ledger_of (sy_impl sample_waiting)) (ledger_of (sy_impl sample_committed))"
    using reaches_authority [OF sample_waiting_reaches] by (auto simp: authority_run_def)
  have same: "ledger_of ?im = ledger_of (sy_impl sample_committed)" by (simp add: ledger_of_def)
  have sound: "ledger_ok (ledger_of ?im)"
    unfolding same using ledger_run_ok [OF run(2) sample_waiting_sound] run(1) by simp
  have "om_ordered (lg_commits (ledger_of ?im))"
    unfolding same by (rule ledger_run_ordered(1) [OF run(2)]) (rule sample_waiting_ordered(1) [folded ledger_of_sel])
  then have ordered: "om_ordered (cs_commits (im_state ?im))" by simp
  have bound: "om_find (cs_authoritative (im_state ?im)) (Ident 7) = Some (Ident 1)"
    using sample_takes_authority by simp
  then obtain c where "om_find (cs_commits (im_state ?im)) (Ident 1) = Some c"
    using ledger_ok_bound [OF sound, of "Ident 7" "Ident 1"] by auto
  from failed_rebuild_keeps_superseded_authority [OF sound ordered bound this, of "''disk full''" "[]"]
  show ?thesis by (auto simp: Let_def sample_ps_def)
qed

end
