(* ===== verification/DC_Frames.thy ===== *)
theory DC_Frames
  imports DC_Journal
begin

text \<open>
  The framing of the wire protocol (\<^verbatim>\<open>include/dc/wire.hpp\<close>, \<^verbatim>\<open>src/wire.cpp\<close>) and the reader that
  cuts a byte stream into frames (\<^verbatim>\<open>FrameReader\<close> of \<^verbatim>\<open>src/net.cpp\<close>).  The main facts: a
  decoded frame is the one encoded frame it came from, and the frames a reader yields do not
  depend on how the stream is cut into reads.
\<close>

section \<open>Operation codes\<close>

datatype op =
    Op_Invalid | Op_Hello | Op_RegisterWorker | Op_AdvertiseToolchain | Op_SubmitCompilation
  | Op_Query | Op_Assign | Op_BeginCompile | Op_ReportOutput | Op_ValidateOutput
  | Op_CommitArtifact | Op_FailAttempt | Op_CancelAttempt | Op_CacheQuery | Op_CacheReport
  | Op_Snapshot | Op_Audit | Op_Shutdown | Op_Response | Op_Error | Op_Heartbeat
  | Op_WorkerReady | Op_ValidateResponse

fun op_value :: "op \<Rightarrow> u16" where
  "op_value Op_Invalid = 0"
| "op_value Op_Hello = 1"
| "op_value Op_RegisterWorker = 2"
| "op_value Op_AdvertiseToolchain = 3"
| "op_value Op_SubmitCompilation = 4"
| "op_value Op_Query = 5"
| "op_value Op_Assign = 6"
| "op_value Op_BeginCompile = 7"
| "op_value Op_ReportOutput = 8"
| "op_value Op_ValidateOutput = 9"
| "op_value Op_CommitArtifact = 10"
| "op_value Op_FailAttempt = 11"
| "op_value Op_CancelAttempt = 12"
| "op_value Op_CacheQuery = 13"
| "op_value Op_CacheReport = 14"
| "op_value Op_Snapshot = 15"
| "op_value Op_Audit = 16"
| "op_value Op_Shutdown = 17"
| "op_value Op_Response = 18"
| "op_value Op_Error = 19"
| "op_value Op_Heartbeat = 20"
| "op_value Op_WorkerReady = 21"
| "op_value Op_ValidateResponse = 22"

fun op_string :: "op \<Rightarrow> string" where
  "op_string Op_Invalid = ''INVALID''"
| "op_string Op_Hello = ''HELLO''"
| "op_string Op_RegisterWorker = ''REGISTER_WORKER''"
| "op_string Op_AdvertiseToolchain = ''ADVERTISE_TOOLCHAIN''"
| "op_string Op_SubmitCompilation = ''SUBMIT_COMPILATION''"
| "op_string Op_Query = ''QUERY''"
| "op_string Op_Assign = ''ASSIGN''"
| "op_string Op_BeginCompile = ''BEGIN_COMPILE''"
| "op_string Op_ReportOutput = ''REPORT_OUTPUT''"
| "op_string Op_ValidateOutput = ''VALIDATE_OUTPUT''"
| "op_string Op_CommitArtifact = ''COMMIT_ARTIFACT''"
| "op_string Op_FailAttempt = ''FAIL_ATTEMPT''"
| "op_string Op_CancelAttempt = ''CANCEL_ATTEMPT''"
| "op_string Op_CacheQuery = ''CACHE_QUERY''"
| "op_string Op_CacheReport = ''CACHE_REPORT''"
| "op_string Op_Snapshot = ''SNAPSHOT''"
| "op_string Op_Audit = ''AUDIT''"
| "op_string Op_Shutdown = ''SHUTDOWN''"
| "op_string Op_Response = ''RESPONSE''"
| "op_string Op_Error = ''ERROR''"
| "op_string Op_Heartbeat = ''HEARTBEAT''"
| "op_string Op_WorkerReady = ''WORKER_READY''"
| "op_string Op_ValidateResponse = ''VALIDATE_RESPONSE''"

text \<open>The enumerators in the order of their values, and the cast of a value in the domain.\<close>

definition ops :: "op list" where
  "ops = [Op_Invalid, Op_Hello, Op_RegisterWorker, Op_AdvertiseToolchain, Op_SubmitCompilation,
     Op_Query, Op_Assign, Op_BeginCompile, Op_ReportOutput, Op_ValidateOutput, Op_CommitArtifact,
     Op_FailAttempt, Op_CancelAttempt, Op_CacheQuery, Op_CacheReport, Op_Snapshot, Op_Audit,
     Op_Shutdown, Op_Response, Op_Error, Op_Heartbeat, Op_WorkerReady, Op_ValidateResponse]"

definition op_of :: "u16 \<Rightarrow> op" where
  "op_of raw = ops ! unat raw"

text \<open>The search starts behind \<^verbatim>\<open>Invalid\<close>.\<close>

definition parse_op :: "string \<Rightarrow> op option" where
  "parse_op text = find (\<lambda>candidate. op_string candidate = text) (tl ops)"

lemma op_of_value [simp]: "op_of (op_value x) = x"
  by (cases x) (simp_all add: op_of_def ops_def)

lemma op_value_domain [simp]: "op_value x \<le> op_value Op_ValidateResponse"
  by (cases x) simp_all

lemma op_value_zero [simp]: "op_value x = 0 \<longleftrightarrow> x = Op_Invalid"
  by (cases x) simp_all

lemma op_value_of:
  assumes "raw \<le> op_value Op_ValidateResponse"
  shows "op_value (op_of raw) = raw"
proof -
  from assms have "unat raw < length ops" by (simp add: ops_def word_le_nat_alt)
  moreover have "map op_value ops = map of_nat [0..<length ops]"
    by (simp add: ops_def upt_rec)
  ultimately have "op_value (ops ! unat raw) = of_nat (unat raw)"
    by (metis add_0 length_map nth_map nth_upt length_upt minus_nat.diff_0)
  then show ?thesis by (simp add: op_of_def)
qed

lemma parse_op_string: "x \<noteq> Op_Invalid \<Longrightarrow> parse_op (op_string x) = Some x"
  by (cases x) (simp_all add: parse_op_def ops_def)

section \<open>Frames\<close>

definition kWireMagic :: u32 where "kWireMagic = 0x31435044"
definition kWireHeaderBytes :: nat where "kWireHeaderBytes = 28"
definition kMaxFrameBytes :: u32 where "kMaxFrameBytes = 16 * 1024 * 1024"
definition DC_PROTOCOL_VERSION :: u32 where "DC_PROTOCOL_VERSION = 1"

record wire_frame =
  fr_op :: op
  fr_request_id :: u64
  fr_payload :: bytes

definition encode_frame :: "wire_frame \<Rightarrow> status + bytes" where
  "encode_frame f =
     (if length (fr_payload f) > unat kMaxFrameBytes
      then Inl (error Err_FrameTooLarge ''frame payload exceeds the protocol bound'')
      else Inr (le_bytes 4 (of_nat (kWireHeaderBytes - 4 + length (fr_payload f)) :: u32)
        @ le_bytes 4 kWireMagic
        @ le_bytes 2 (ucast DC_PROTOCOL_VERSION :: u16)
        @ le_bytes 2 (op_value (fr_op f))
        @ le_bytes 8 (fr_request_id f)
        @ le_bytes 4 (of_nat (length (fr_payload f)) :: u32)
        @ le_bytes 4 (0 :: u32)
        @ fr_payload f))"

definition decode_frame :: "bytes \<Rightarrow> status + wire_frame" where
  "decode_frame bs =
     (if length bs < kWireHeaderBytes then Inl (error Err_Malformed ''frame is shorter than the header'')
      else
      let total_length = get_u32 bs 0; version = get_u16 bs 8; raw_op = get_u16 bs 10;
          payload_length = get_u32 bs 20 in
      if get_u32 bs 4 \<noteq> kWireMagic then Inl (error Err_ProtocolViolation ''frame magic mismatch'')
      else if ucast version \<noteq> DC_PROTOCOL_VERSION then
        Inl (error Err_Unsupported (''protocol version '' @ to_dec (ucast version) @ '' is not supported''))
      else if raw_op = 0 \<or> raw_op > op_value Op_ValidateResponse then
        Inl (error Err_ProtocolViolation ''op code out of domain'')
      else if get_u32 bs 24 \<noteq> 0 then
        Inl (error Err_ProtocolViolation ''reserved frame flags must be zero'')
      else if unat total_length \<noteq> kWireHeaderBytes - 4 + unat payload_length then
        Inl (error Err_ProtocolViolation ''frame length fields disagree'')
      else if length bs \<noteq> kWireHeaderBytes + unat payload_length then
        Inl (error Err_Malformed ''frame body length mismatch'')
      else Inr \<lparr>fr_op = op_of raw_op, fr_request_id = get_u64 bs 12,
        fr_payload = drop kWireHeaderBytes bs\<rparr>)"

text \<open>The fields of a header, read back from where they were written.\<close>

definition frame_image :: "u32 \<Rightarrow> u32 \<Rightarrow> u16 \<Rightarrow> u16 \<Rightarrow> u64 \<Rightarrow> u32 \<Rightarrow> u32 \<Rightarrow> bytes \<Rightarrow> bytes" where
  "frame_image tot magic version raw_op request len flags payload =
     le_bytes 4 tot @ le_bytes 4 magic @ le_bytes 2 version @ le_bytes 2 raw_op
     @ le_bytes 8 request @ le_bytes 4 len @ le_bytes 4 flags @ payload"

lemma frame_image_fields [simp]:
  "get_u32 (frame_image t m v o' r l f p) 0 = t"
  "get_u32 (frame_image t m v o' r l f p) 4 = m"
  "get_u16 (frame_image t m v o' r l f p) 8 = v"
  "get_u16 (frame_image t m v o' r l f p) 10 = o'"
  "get_u64 (frame_image t m v o' r l f p) 12 = r"
  "get_u32 (frame_image t m v o' r l f p) 20 = l"
  "get_u32 (frame_image t m v o' r l f p) 24 = f"
  "drop 28 (frame_image t m v o' r l f p) = p"
  "length (frame_image t m v o' r l f p) = 28 + length p"
  by (simp_all add: frame_image_def get_u16_def get_u32_def get_u64_def le_load_bytes)

lemma frame_image_append: "frame_image t m v o' r l f p @ q = frame_image t m v o' r l f (p @ q)"
  by (simp add: frame_image_def)

text \<open>Every string of at least 28 bytes is the image of its fields.\<close>

lemma frame_image_of:
  assumes "28 \<le> length bs"
  shows "bs = frame_image (get_u32 bs 0) (get_u32 bs 4) (get_u16 bs 8) (get_u16 bs 10)
    (get_u64 bs 12) (get_u32 bs 20) (get_u32 bs 24) (drop 28 bs)"
proof -
  have parts: "take n xs @ drop n xs = xs" for n and xs :: bytes by simp
  have "frame_image (get_u32 bs 0) (get_u32 bs 4) (get_u16 bs 8) (get_u16 bs 10)
      (get_u64 bs 12) (get_u32 bs 20) (get_u32 bs 24) (drop 28 bs) =
    take 4 bs @ take 4 (drop 4 bs) @ take 2 (drop 8 bs) @ take 2 (drop 10 bs) @ take 8 (drop 12 bs)
      @ take 4 (drop 20 bs) @ take 4 (drop 24 bs) @ drop 28 bs"
    using assms by (simp add: frame_image_def get_u16_def get_u32_def get_u64_def le_bytes_load)
  also have "\<dots> = bs"
    using parts [of 4 bs] parts [of 4 "drop 4 bs"] parts [of 2 "drop 8 bs"] parts [of 2 "drop 10 bs"]
      parts [of 8 "drop 12 bs"] parts [of 4 "drop 20 bs"] parts [of 4 "drop 24 bs"]
    by (simp del: append_take_drop_id)
  finally show ?thesis by simp
qed

lemma encode_frame_image:
  "length (fr_payload f) \<le> 16777216 \<Longrightarrow> encode_frame f = Inr (frame_image
     (of_nat (24 + length (fr_payload f))) kWireMagic 1 (op_value (fr_op f)) (fr_request_id f)
     (of_nat (length (fr_payload f))) 0 (fr_payload f))"
  by (simp add: encode_frame_def frame_image_def kMaxFrameBytes_def kWireHeaderBytes_def DC_PROTOCOL_VERSION_def)

lemma encode_frame_bounded: "encode_frame f = Inr bs \<Longrightarrow> length (fr_payload f) \<le> 16777216"
  by (simp add: encode_frame_def kMaxFrameBytes_def split: if_splits)

lemma unat_small: "n < 2 ^ 32 \<Longrightarrow> unat (of_nat n :: u32) = n"
  by (simp add: unat_of_nat)

lemma frame_decoded:
  assumes "fr_op f \<noteq> Op_Invalid" "length (fr_payload f) \<le> 16777216" "encode_frame f = Inr bs"
  shows "decode_frame bs = Inr f"
proof -
  from assms(3) have bs: "bs = frame_image (of_nat (24 + length (fr_payload f))) kWireMagic 1 (op_value (fr_op f))
      (fr_request_id f) (of_nat (length (fr_payload f))) 0 (fr_payload f)"
    using assms(2) by (simp add: encode_frame_image)
  have "unat (of_nat (24 + length (fr_payload f)) :: u32) = 24 + length (fr_payload f)"
    "unat (of_nat (length (fr_payload f)) :: u32) = length (fr_payload f)"
    by (rule unat_small, use assms(2) in simp)+
  moreover have "\<not> op_value (fr_op f) > op_value Op_ValidateResponse" by (simp only: not_less op_value_domain)
  moreover have "op_value (fr_op f) \<noteq> 0" using assms(1) by simp
  ultimately show ?thesis
    by (simp del: of_nat_add op_value.simps add: bs decode_frame_def kWireHeaderBytes_def
        DC_PROTOCOL_VERSION_def Let_def)
qed

text \<open>
  C33: A frame is decoded from exactly one byte string, the one it is encoded to.  For every
  byte string and every frame with an operation and a payload within the bound, the decoder
  returns the frame if and only if the encoder produces that string; so nothing but a complete
  frame with the right magic, version and lengths and with zero flags is accepted.
\<close>

theorem frame_decodes_exactly:
  assumes "fr_op f \<noteq> Op_Invalid" "length (fr_payload f) \<le> 16777216"
  shows "decode_frame bs = Inr f \<longleftrightarrow> encode_frame f = Inr bs"
proof
  assume "encode_frame f = Inr bs"
  with assms show "decode_frame bs = Inr f" by (rule frame_decoded)
next
  assume decoded: "decode_frame bs = Inr f"
  then have len: "28 \<le> length bs" by (auto simp: decode_frame_def kWireHeaderBytes_def split: if_splits)
  then obtain t m v o' r l fl p where bs: "bs = frame_image t m v o' r l fl p"
    using frame_image_of by blast
  from decoded have fields: "m = kWireMagic" "ucast v = (1 :: u32)" "o' \<noteq> 0" "o' \<le> 22" "fl = 0"
    "unat t = 24 + unat l" "length p = unat l"
    "f = \<lparr>fr_op = op_of o', fr_request_id = r, fr_payload = p\<rparr>"
    by (auto simp: bs decode_frame_def kWireHeaderBytes_def DC_PROTOCOL_VERSION_def Let_def split: if_splits)
  have v: "v = 1"
  proof -
    have "unat v < 2 ^ 32" using unsigned_less [of v, where 'a = nat] by simp
    then have "unat v = unat (ucast v :: u32)" by (simp add: unsigned_ucast_eq take_bit_nat_eq_self)
    with fields(2) have "unat v = 1" by simp
    then show ?thesis by (simp add: word_unat_eq_iff)
  qed
  have "t = of_nat (24 + length p)" 
    using arg_cong [OF fields(6), of "of_nat :: nat \<Rightarrow> u32"] fields(7) by simp
  moreover have "l = of_nat (length p)" using fields(7) by simp
  ultimately show "encode_frame f = Inr bs"
    using assms(2) v fields(1,4,5,8) by (simp add: encode_frame_image bs op_value_of)
qed

definition sample_frame :: wire_frame where
  "sample_frame = \<lparr>fr_op = Op_Heartbeat, fr_request_id = 7, fr_payload = [1, 2, 3]\<rparr>"

theorem frame_decodes_exactly_witness:
  "decode_frame [27, 0, 0, 0, 0x44, 0x50, 0x43, 0x31, 1, 0, 20, 0, 7, 0, 0, 0, 0, 0, 0, 0, 3, 0, 0, 0,
     0, 0, 0, 0, 1, 2, 3] = Inr sample_frame"
proof -
  have "encode_frame sample_frame = Inr [27, 0, 0, 0, 0x44, 0x50, 0x43, 0x31, 1, 0, 20, 0, 7, 0, 0, 0,
      0, 0, 0, 0, 3, 0, 0, 0, 0, 0, 0, 0, 1, 2, 3]"
    by (simp add: sample_frame_def encode_frame_def le_bytes_def upt_rec kMaxFrameBytes_def
        kWireHeaderBytes_def kWireMagic_def DC_PROTOCOL_VERSION_def)
  then show ?thesis using frame_decodes_exactly [of sample_frame] by (simp add: sample_frame_def)
qed

section \<open>Cutting a stream into frames\<close>

record frame_reader =
  rd_limit :: nat
  rd_frames :: nat
  rd_buffer :: bytes

definition new_reader :: "nat \<Rightarrow> frame_reader" where
  "new_reader limit = \<lparr>rd_limit = limit, rd_frames = 0, rd_buffer = []\<rparr>"

text \<open>The loop of \<^verbatim>\<open>feed\<close>: the status, the frames cut off, and what stays in the buffer.\<close>

function feed_loop :: "nat \<Rightarrow> bytes \<Rightarrow> status \<times> bytes list \<times> bytes" where
  "feed_loop limit buffer =
     (if length buffer < kWireHeaderBytes then (success, [], buffer)
      else if get_u32 buffer 4 \<noteq> kWireMagic then
        (error Err_ProtocolViolation ''frame magic mismatch'', [], [])
      else if unat (get_u32 buffer 0) < kWireHeaderBytes - 4 \<or> unat (get_u32 buffer 0) > limit then
        (error Err_FrameTooLarge ''frame length out of bounds'', [], [])
      else if length buffer < unat (get_u32 buffer 0) + 4 then (success, [], buffer)
      else (case feed_loop limit (drop (unat (get_u32 buffer 0) + 4) buffer) of
        (st, imgs, rest) \<Rightarrow> (st, take (unat (get_u32 buffer 0) + 4) buffer # imgs, rest)))"
  by pat_completeness auto

termination
  by (relation "measure (\<lambda>(limit, buffer). length buffer)") (auto simp: kWireHeaderBytes_def)

declare feed_loop.simps [simp del]

definition feed :: "bytes \<Rightarrow> frame_reader \<Rightarrow> status \<times> bytes list \<times> frame_reader" where
  "feed bs r = (case feed_loop (rd_limit r) (rd_buffer r @ bs) of
     (st, imgs, rest) \<Rightarrow> (st, imgs, r\<lparr>rd_buffer := rest, rd_frames := rd_frames r + length imgs\<rparr>))"

text \<open>A connection feeds what each read returns, and is given up at the first failure.\<close>

fun feed_all :: "bytes list \<Rightarrow> frame_reader \<Rightarrow> status \<times> bytes list \<times> frame_reader" where
  "feed_all [] r = (success, [], r)"
| "feed_all (chunk # chunks) r =
     (case feed chunk r of (st, imgs, r1) \<Rightarrow>
        if \<not> st_ok st then (st, imgs, r1)
        else (case feed_all chunks r1 of (st2, imgs2, r2) \<Rightarrow> (st2, imgs @ imgs2, r2)))"

lemma get_u32_append: "i + 4 \<le> length a \<Longrightarrow> get_u32 (a @ b) i = get_u32 a i"
  by (simp add: get_u32_def)

text \<open>More bytes behind a buffer change nothing about what it already yields.\<close>

lemma feed_loop_append:
  "feed_loop limit (a @ b) = (case feed_loop limit a of (st, imgs, rest) \<Rightarrow>
     if \<not> st_ok st then (st, imgs, rest)
     else (case feed_loop limit (rest @ b) of (st2, imgs2, rest2) \<Rightarrow> (st2, imgs @ imgs2, rest2)))"
proof (induction limit a rule: feed_loop.induct)
  case (1 limit a)
  show ?case
  proof (cases "length a < kWireHeaderBytes")
    case True
    then show ?thesis by (simp add: feed_loop.simps [of limit a])
  next
    case False
    then have header: "get_u32 (a @ b) 0 = get_u32 a 0" "get_u32 (a @ b) 4 = get_u32 a 4"
      "\<not> length (a @ b) < kWireHeaderBytes"
      by (simp_all add: get_u32_append kWireHeaderBytes_def)
    consider "get_u32 a 4 \<noteq> kWireMagic"
      | "unat (get_u32 a 0) < kWireHeaderBytes - 4 \<or> unat (get_u32 a 0) > limit"
      | "length a < unat (get_u32 a 0) + 4"
      | "get_u32 a 4 = kWireMagic" "\<not> (unat (get_u32 a 0) < kWireHeaderBytes - 4 \<or> unat (get_u32 a 0) > limit)"
        "\<not> length a < unat (get_u32 a 0) + 4" by blast
    then show ?thesis
    proof cases
      case 4
      with 1 [OF False] have "feed_loop limit (drop (unat (get_u32 a 0) + 4) a @ b) =
          (case feed_loop limit (drop (unat (get_u32 a 0) + 4) a) of (st, imgs, rest) \<Rightarrow>
             if \<not> st_ok st then (st, imgs, rest)
             else (case feed_loop limit (rest @ b) of (st2, imgs2, rest2) \<Rightarrow> (st2, imgs @ imgs2, rest2)))"
        by simp
      with 4 False show ?thesis
        using header
        by (cases "feed_loop limit (drop (unat (get_u32 a 0) + 4) a)")
          (simp add: feed_loop.simps [of limit a] feed_loop.simps [of limit "a @ b"] split: prod.split)
    qed (use False header in \<open>simp_all add: feed_loop.simps [of limit a] feed_loop.simps [of limit "a @ b"]\<close>)
  qed
qed

lemma feed_append:
  "feed (a @ b) r = (case feed a r of (st, imgs, r1) \<Rightarrow>
     if \<not> st_ok st then (st, imgs, r1)
     else (case feed b r1 of (st2, imgs2, r2) \<Rightarrow> (st2, imgs @ imgs2, r2)))"
  using feed_loop_append [of "rd_limit r" "rd_buffer r @ a" b]
  by (auto simp: feed_def split: prod.split)

text \<open>What a successful feed leaves in the buffer holds no complete frame.\<close>

definition reader_settled :: "frame_reader \<Rightarrow> bool" where
  "reader_settled r \<longleftrightarrow> feed [] r = (success, [], r)"

lemma feed_loop_settles: "feed_loop limit a = (st, imgs, rest) \<Longrightarrow> st_ok st \<Longrightarrow> feed_loop limit rest = (success, [], rest)"
proof (induction limit a arbitrary: imgs st rule: feed_loop.induct)
  case (1 limit a)
  from "1.prems" show ?case
    by (subst (asm) feed_loop.simps [of limit a])
      (auto split: if_splits prod.splits intro: "1.IH", simp_all add: feed_loop.simps [of limit rest])
qed

lemma feed_settles: "feed a r = (st, imgs, r1) \<Longrightarrow> st_ok st \<Longrightarrow> reader_settled r1"
  using feed_loop_settles [of "rd_limit r" "rd_buffer r @ a" st imgs "rd_buffer r1"]
  by (auto simp: feed_def reader_settled_def split: prod.splits)

lemma new_reader_is_settled: "reader_settled (new_reader limit)"
  by (simp add: reader_settled_def new_reader_def feed_def feed_loop.simps kWireHeaderBytes_def)

lemma feed_all_concat: "reader_settled r \<Longrightarrow> feed_all chunks r = feed (concat chunks) r"
proof (induction chunks arbitrary: r)
  case Nil
  then show ?case by (simp add: reader_settled_def)
next
  case (Cons chunk chunks)
  then show ?case
    using feed_settles [of chunk r]
    by (auto simp: feed_append split: prod.split)
qed

text \<open>A stream of encoded frames that respect the limit of the reader.\<close>

definition frame_fits :: "nat \<Rightarrow> wire_frame \<Rightarrow> bool" where
  "frame_fits limit f \<longleftrightarrow> fr_op f \<noteq> Op_Invalid \<and> length (fr_payload f) \<le> 16777216
     \<and> kWireHeaderBytes - 4 + length (fr_payload f) \<le> limit"

lemma feed_loop_frame:
  assumes "frame_fits limit f" "encode_frame f = Inr img"
  shows "feed_loop limit (img @ rest) =
    (case feed_loop limit rest of (st, imgs, left) \<Rightarrow> (st, img # imgs, left))"
proof -
  have img: "img = frame_image (of_nat (24 + length (fr_payload f))) kWireMagic 1 (op_value (fr_op f))
      (fr_request_id f) (of_nat (length (fr_payload f))) 0 (fr_payload f)"
    using assms by (simp add: encode_frame_image frame_fits_def)
  have len: "unat (of_nat (24 + length (fr_payload f)) :: u32) = 24 + length (fr_payload f)"
    by (rule unat_small) (use assms(1) in \<open>simp add: frame_fits_def\<close>)
  have cut: "length img = 28 + length (fr_payload f)" by (simp add: img)
  have fields: "get_u32 (img @ rest) 0 = of_nat (24 + length (fr_payload f))"
    "get_u32 (img @ rest) 4 = kWireMagic"
    by (simp_all add: get_u32_append cut, simp_all add: img)
  show ?thesis
    using assms(1) cut
    by (subst feed_loop.simps)
      (simp del: of_nat_add add: fields len frame_fits_def kWireHeaderBytes_def)
qed

lemma feed_loop_frames:
  "\<forall>f\<in>set fs. frame_fits limit f \<Longrightarrow> list_all2 (\<lambda>f img. encode_frame f = Inr img) fs images \<Longrightarrow>
     feed_loop limit (concat images) = (success, images, [])"
proof (induction fs arbitrary: images)
  case Nil
  then show ?case by (simp add: feed_loop.simps kWireHeaderBytes_def)
next
  case (Cons f fs)
  then show ?case by (auto simp: list_all2_Cons1 feed_loop_frame)
qed

text \<open>
  C34: Frames arrive whatever way the stream is cut.  If the bytes of a list of encoded frames,
  each within the limit of the reader, come in any sequence of reads - split inside a header,
  many frames in one read, empty reads - the reader yields exactly the images of those frames in
  their order, without a failure and with nothing left over, and each image decodes to its frame.
\<close>

theorem frames_reassembled:
  assumes "\<forall>f\<in>set fs. frame_fits limit f"
    "list_all2 (\<lambda>f img. encode_frame f = Inr img) fs images" "concat chunks = concat images"
  shows "feed_all chunks (new_reader limit) =
      (success, images, (new_reader limit)\<lparr>rd_frames := length fs\<rparr>)
    \<and> map decode_frame images = map Inr fs"
proof
  have "feed_all chunks (new_reader limit) = feed (concat images) (new_reader limit)"
    using feed_all_concat [OF new_reader_is_settled] assms(3) by simp
  then show "feed_all chunks (new_reader limit) =
      (success, images, (new_reader limit)\<lparr>rd_frames := length fs\<rparr>)"
    using feed_loop_frames [OF assms(1,2)] list_all2_lengthD [OF assms(2)]
    by (simp add: feed_def new_reader_def)
  have "decode_frame img = Inr f" if "frame_fits limit f" "encode_frame f = Inr img" for f img
    using that frame_decoded by (simp add: frame_fits_def)
  with assms(1) show "map decode_frame images = map Inr fs"
    using assms(2) by (induction fs arbitrary: images) (auto simp: list_all2_Cons1)
qed

theorem frames_reassembled_witness:
  "\<exists>img. encode_frame sample_frame = Inr img
    \<and> feed_all [take 10 img, [], drop 10 img @ take 3 img, drop 3 img] (new_reader 16777216) =
        (success, [img, img], (new_reader 16777216)\<lparr>rd_frames := 2\<rparr>)"
proof -
  obtain img where img: "encode_frame sample_frame = Inr img"
    by (simp add: encode_frame_def sample_frame_def kMaxFrameBytes_def)
  have "frame_fits 16777216 sample_frame"
    by (simp add: frame_fits_def sample_frame_def kWireHeaderBytes_def)
  with img frames_reassembled [of "[sample_frame, sample_frame]" 16777216 "[img, img]"
      "[take 10 img, [], drop 10 img @ take 3 img, drop 3 img]"]
  show ?thesis by simp
qed

text \<open>
  C35: The two bounds on a frame disagree.  The encoder bounds the payload by 16 MiB, the reader
  bounds payload and header together by the same number: a frame whose payload is within the
  last 24 bytes of the bound is encoded, and the reader of the peer refuses it as too large and
  drops all it had buffered, which closes the connection.
\<close>

theorem frame_at_bound_refused:
  assumes "encode_frame f = Inr img" "16777216 - 24 < length (fr_payload f)"
  shows "feed img (new_reader (unat kMaxFrameBytes)) =
    (error Err_FrameTooLarge ''frame length out of bounds'', [], new_reader (unat kMaxFrameBytes))"
proof -
  note bound = encode_frame_bounded [OF assms(1)]
  have img: "img = frame_image (of_nat (24 + length (fr_payload f))) kWireMagic 1 (op_value (fr_op f))
      (fr_request_id f) (of_nat (length (fr_payload f))) 0 (fr_payload f)"
    using assms(1) bound by (simp add: encode_frame_image)
  have len: "unat (of_nat (24 + length (fr_payload f)) :: u32) = 24 + length (fr_payload f)"
    by (rule unat_small) (use bound in simp)
  have "feed_loop 16777216 img = (error Err_FrameTooLarge ''frame length out of bounds'', [], [])"
    using assms(2) by (subst feed_loop.simps)
      (simp del: of_nat_add add: img len kWireHeaderBytes_def)
  then show ?thesis by (simp add: feed_def new_reader_def kMaxFrameBytes_def)
qed

theorem frame_at_bound_refused_witness:
  "\<exists>img. encode_frame \<lparr>fr_op = Op_ReportOutput, fr_request_id = 1, fr_payload = replicate 16777216 0\<rparr> = Inr img
    \<and> fst (feed img (new_reader (unat kMaxFrameBytes))) = error Err_FrameTooLarge ''frame length out of bounds''"
proof -
  let ?f = "\<lparr>fr_op = Op_ReportOutput, fr_request_id = 1, fr_payload = replicate 16777216 0\<rparr>"
  obtain img where img: "encode_frame ?f = Inr img"
    using encode_frame_image [of ?f] by simp
  with frame_at_bound_refused [OF img] show ?thesis by simp
qed

end
