(* ===== verification/DC_Messages.thy ===== *)
theory DC_Messages
  imports DC_Frames DC_RecordCodec DC_Submit
begin

text \<open>
  The payloads of the wire protocol (\<^verbatim>\<open>include/dc/wire.hpp\<close>, \<^verbatim>\<open>src/wire.cpp\<close>): for each message
  its writer and its reader.  A message whose structure repeats one of the coordinator's is that
  record here.  \<^verbatim>\<open>X_encodable\<close> says which messages survive: handles that the reader refuses to
  be zero are set, bounds hold, nested records are in canonical form.

  A decoder answers only whether it succeeded; which failure of the reader stopped it is not
  observable, so \<^verbatim>\<open>decode_payload\<close> keeps the value alone, and only if no byte is left over.
\<close>

section \<open>Messages as payloads\<close>

definition decode_payload :: "'a reader \<Rightarrow> bytes \<Rightarrow> 'a option" where
  "decode_payload p payload = (case p payload of Inl _ \<Rightarrow> None | Inr (x, rest) \<Rightarrow> if rest = [] then Some x else None)"

text \<open>\<^verbatim>\<open>finish\<close>: a writer run on an empty buffer; \<^term>\<open>None\<close> is the exception of the writer.\<close>

definition written :: "writer \<Rightarrow> bytes option" where
  "written w = w []"

text \<open>What faithfulness gives for payloads: the message itself, and no proper prefix or extension.\<close>

lemma payload_written: "faithful w p x \<Longrightarrow> written w = Some payload \<Longrightarrow> decode_payload p payload = Some x"
proof -
  assume "faithful w p x" "written w = Some payload"
  then have "reads p payload x" unfolding written_def by (rule faithful_start)
  then have "p (payload @ []) = Inr (x, [])" by (simp only: reads_def)
  then show ?thesis by (simp add: decode_payload_def)
qed

lemma payload_extended: "faithful w p x \<Longrightarrow> written w = Some payload \<Longrightarrow> extra \<noteq> [] \<Longrightarrow> decode_payload p (payload @ extra) = None"
proof -
  assume "faithful w p x" "written w = Some payload" "extra \<noteq> []"
  then have "reads p payload x" unfolding written_def by (metis faithful_start)
  then have "p (payload @ extra) = Inr (x, extra)" by (simp only: reads_def)
  with \<open>extra \<noteq> []\<close> show ?thesis by (simp add: decode_payload_def)
qed

lemma payload_truncated: "faithful w p x \<Longrightarrow> written w = Some payload \<Longrightarrow> strict_prefix part payload \<Longrightarrow> decode_payload p part = None"
proof -
  assume "faithful w p x" "written w = Some payload" "strict_prefix part payload"
  then have "reads p payload x" unfolding written_def by (metis faithful_start)
  with \<open>strict_prefix part payload\<close> obtain e where "p part = Inl e" unfolding reads_def by blast
  then show ?thesis by (simp add: decode_payload_def)
qed

section \<open>Fields of messages\<close>

text \<open>A value that is refused after it has been read.\<close>

definition r_guard :: "('a \<Rightarrow> bool) \<Rightarrow> error_code \<Rightarrow> string \<Rightarrow> 'a reader \<Rightarrow> 'a reader" where
  "r_guard refused code detail rd = r_bind rd (\<lambda>x. if refused x then r_fail code detail else r_return x)"

lemma faithful_guard [codec]: "faithful w rd x \<Longrightarrow> \<not> refused x \<Longrightarrow> faithful w (r_guard refused code detail rd) x"
  unfolding r_guard_def by (rule faithful_after [where x = x]) auto

datatype session_role = SR_Client | SR_Worker | SR_Admin

primrec session_role_value :: "session_role \<Rightarrow> u8" where
  "session_role_value SR_Client = 0"
| "session_role_value SR_Worker = 1"
| "session_role_value SR_Admin = 2"

primrec control_kind_value :: "control_kind \<Rightarrow> u8" where
  "control_kind_value CK_CancelAttempt = 0"
| "control_kind_value CK_CommitNotification = 1"
| "control_kind_value CK_Shutdown = 2"

primrec commit_outcome_value :: "commit_outcome \<Rightarrow> u8" where
  "commit_outcome_value CO_Committed = 0"
| "commit_outcome_value CO_Deduplicated = 1"
| "commit_outcome_value CO_Refused = 2"
| "commit_outcome_value CO_ReproducibilityViolation = 3"

definition session_roles :: "session_role list" where
  "session_roles = [SR_Client, SR_Worker, SR_Admin]"

definition control_kinds :: "control_kind list" where
  "control_kinds = [CK_CancelAttempt, CK_CommitNotification, CK_Shutdown]"

definition cache_outcomes :: "cache_outcome list" where
  "cache_outcomes = [CO_Reusable, CO_Stale, CO_Incompatible, CO_Corrupt, CO_Unknown, CO_Miss]"

definition commit_outcomes :: "commit_outcome list" where
  "commit_outcomes = [CO_Committed, CO_Deduplicated, CO_Refused, CO_ReproducibilityViolation]"

lemma faithful_wire_enums [codec]:
  "faithful (w_u8 (session_role_value x0)) (r_enum session_roles) x0"
  "faithful (w_u8 (control_kind_value x1)) (r_enum control_kinds) x1"
  "faithful (w_u8 (cache_outcome_value x2)) (r_enum cache_outcomes) x2"
  "faithful (w_u8 (commit_outcome_value x3)) (r_enum commit_outcomes) x3"
  subgoal by (rule faithful_enum; cases x0; simp add: session_roles_def)
  subgoal by (rule faithful_enum; cases x1; simp add: control_kinds_def)
  subgoal by (rule faithful_enum; cases x2; simp add: cache_outcomes_def)
  subgoal by (rule faithful_enum; cases x3; simp add: commit_outcomes_def)
  done

text \<open>The operation that a response answers: any value in the domain, \<^verbatim>\<open>Invalid\<close> too.\<close>

definition w_op :: "op \<Rightarrow> writer" where
  "w_op x = w_u16 (op_value x)"

definition r_op :: "op reader" where
  "r_op = r_bind r_u16 (\<lambda>raw. if raw > op_value Op_ValidateResponse
     then r_fail Err_Malformed ''response header out of domain'' else r_return (op_of raw))"

lemma w_grows_op [simp]: "w_grows (w_op x)"
  by (simp add: w_op_def)

lemma faithful_op [codec]: "faithful (w_op x) r_op x"
  unfolding w_op_def r_op_def
proof (rule faithful_after [OF faithful_u16])
  have "\<not> op_value x > op_value Op_ValidateResponse" by (simp only: not_less op_value_domain)
  then show "(if op_value x > op_value Op_ValidateResponse then r_fail Err_Malformed ''response header out of domain''
      else r_return (op_of (op_value x))) = r_return x"
    by (simp only: if_False op_of_value)
qed

lemma w_grows_claim [simp]: "w_grows (write_authority_claim c)"
  unfolding write_authority_claim_def by (rule w_grows_seq) simp_all

declare claim_faithful [codec] faithful_blob [codec]

lemma faithful_domains [codec]: "faithful (w_domain tag) (r_domain tag) ()"
  by (rule faithful_domain)

lemma w_grows_blob [simp]: "w_grows (w_blob bs)"
  by (auto simp: w_grows_def w_blob_def w_then_def w_u32_def w_bytes_def split: if_splits option.splits)

text \<open>A nested record that is written only when it has an identity.\<close>

definition w_if :: "bool \<Rightarrow> writer \<Rightarrow> writer" where
  "w_if present w = w_seq [w_bool present, (if present then w else Some)]"

definition r_if :: "'a reader \<Rightarrow> 'a \<Rightarrow> 'a reader" where
  "r_if rd absent = r_bind r_bool (\<lambda>has. if has then rd else r_return absent)"

lemma faithful_if:
  assumes "present \<Longrightarrow> faithful w rd x" "\<not> present \<Longrightarrow> x = absent"
  shows "faithful (w_if present w) (r_if rd absent) x"
proof (cases present)
  case True
  have "w_then w (w_seq []) = w" by (rule ext) (simp add: w_then_def split: option.splits)
  with True assms(1) show ?thesis
    unfolding w_if_def r_if_def by (simp add: faithful_then [OF faithful_bool])
next
  case False
  have "w_if present w = w_bool False"
    using False by (simp add: w_if_def fun_eq_iff w_then_def split: option.splits)
  with assms(2) False show ?thesis
    unfolding r_if_def by (simp add: faithful_after [OF faithful_bool])
qed

lemma w_grows_if [simp]: "w_keeps w \<Longrightarrow> w_grows (w_if present w)"
  unfolding w_if_def by (rule w_grows_seq) simp_all

definition w_commit_if :: "artifact_commit \<Rightarrow> writer" where
  "w_commit_if v = w_if (\<not> id_is_zero (ac_id v)) (encode_commit v)"

definition r_commit_if :: "artifact_commit reader" where
  "r_commit_if = r_if decode_commit no_commit"

definition commit_if_encodable :: "artifact_commit \<Rightarrow> bool" where
  "commit_if_encodable v \<longleftrightarrow> (if id_is_zero (ac_id v) then v = no_commit else commit_encodable v)"

lemma faithful_commit_if [codec]: "commit_if_encodable v \<Longrightarrow> faithful (w_commit_if v) r_commit_if v"
  unfolding w_commit_if_def r_commit_if_def
  by (rule faithful_if) (simp_all add: commit_if_encodable_def commit_faithful)

text \<open>A cache entry is written only when its unit identity is set.\<close>

definition no_entry :: cache_entry where
  "no_entry = \<lparr>ce_id = Ident 0, ce_generation = Gen 0, ce_unit_identity = 0, ce_compilation = Ident 0,
     ce_compilation_generation = Gen 0, ce_artifact = \<lparr>rf_digest = 0, rf_size = 0\<rparr>,
     ce_artifact_id = Ident 0, ce_provenance = Ident 0, ce_validation = Ident 0, ce_source_identity = 0,
     ce_dependency_identity = 0, ce_toolchain_identity = 0, ce_toolchain_generation = Gen 0,
     ce_target_identity = 0, ce_target_generation = Gen 0, ce_specialization_identity = 0,
     ce_policy_identity = 0, ce_environment_identity = 0, ce_commit = Ident 0, ce_created_at = 0,
     ce_invalidated = False, ce_invalidation_reason = [], ce_hit_count = 0\<rparr>"

definition w_entry_if :: "cache_entry \<Rightarrow> writer" where
  "w_entry_if v = w_if (\<not> digest_is_zero (ce_unit_identity v)) (encode_cache_entry v)"

definition r_entry_if :: "cache_entry reader" where
  "r_entry_if = r_if decode_cache_entry no_entry"

definition entry_if_encodable :: "cache_entry \<Rightarrow> bool" where
  "entry_if_encodable v \<longleftrightarrow> (if digest_is_zero (ce_unit_identity v) then v = no_entry else cache_entry_encodable v)"

lemma faithful_entry_if [codec]: "entry_if_encodable v \<Longrightarrow> faithful (w_entry_if v) r_entry_if v"
  unfolding w_entry_if_def r_entry_if_def
  by (rule faithful_if) (simp_all add: entry_if_encodable_def cache_entry_faithful)

lemma w_grows_ifs [simp]: "w_grows (w_commit_if c)" "w_grows (w_entry_if e)"
  by (simp_all add: w_commit_if_def w_entry_if_def)

text \<open>The exit code travels as its 32 bits.\<close>

definition is_i32 :: "int \<Rightarrow> bool" where
  "is_i32 i \<longleftrightarrow> - (2 ^ 31) \<le> i \<and> i < 2 ^ 31"

lemma is_i32_sint [simp]: "is_i32 i \<Longrightarrow> sint (word_of_int i :: u32) = i"
  by (simp add: is_i32_def sint_sbintrunc' signed_take_bit_int_eq_self)

section \<open>Session messages\<close>

record hello_message =
  he_role :: session_role
  he_name :: string
  he_protocol_version :: u32

definition encode_hello :: "hello_message \<Rightarrow> writer" where
  "encode_hello v = w_seq
     [w_domain ''dc.msg.hello.v1'', w_u8 (session_role_value (he_role v)), w_str (he_name v),
     w_u32 (he_protocol_version v)]"

definition read_hello :: "hello_message reader" where
  "read_hello =
     r_bind (r_domain ''dc.msg.hello.v1'') (\<lambda>_. r_bind (r_enum session_roles) (\<lambda>role.
     r_bind r_str (\<lambda>name.
     r_bind (r_guard (\<lambda>x. x \<noteq> DC_PROTOCOL_VERSION) Err_Unsupported ''hello protocol version mismatch'' r_u32) (\<lambda>protocol_version.
     r_return
       \<lparr>he_role = role, he_name = name, he_protocol_version = protocol_version\<rparr>))))"

definition hello_encodable :: "hello_message \<Rightarrow> bool" where
  "hello_encodable v \<longleftrightarrow>
     \<not> (he_protocol_version v \<noteq> DC_PROTOCOL_VERSION)"

lemma hello_payload_grows [simp]: "w_grows (encode_hello v)"
  unfolding encode_hello_def by (rule w_grows_seq) simp_all

lemma hello_faithful [codec]:
  "hello_encodable v \<Longrightarrow> faithful (encode_hello v) read_hello v"
  unfolding encode_hello_def read_hello_def
  by (rule faithful_seq_Cons faithful_seq_Nil codec | (simp add: hello_encodable_def; fail))+

text \<open>The registration message and the answer to it carry the coordinator's records.\<close>

definition encode_register_worker :: "worker_registration \<Rightarrow> writer" where
  "encode_register_worker v = w_seq
     [w_domain ''dc.msg.register-worker.v1'', w_str (wr_endpoint v), w_str (wr_host v),
     w_id (wr_worker_id v), w_id (wr_boot_id v), w_u32 (wr_max_inflight v),
     encode_capabilities (wr_capabilities v)]"

definition read_register_worker :: "worker_registration reader" where
  "read_register_worker =
     r_bind (r_domain ''dc.msg.register-worker.v1'') (\<lambda>_. r_bind r_str (\<lambda>endpoint.
     r_bind r_str (\<lambda>host. r_bind r_id (\<lambda>worker_id. r_bind r_id (\<lambda>boot_id.
     r_bind (r_guard (\<lambda>x. x = 0 \<or> x > 64) Err_LimitExceeded ''max_inflight out of bounds'' r_u32) (\<lambda>max_inflight.
     r_bind decode_capabilities (\<lambda>capabilities.
     r_return
       \<lparr>wr_endpoint = endpoint, wr_host = host, wr_worker_id = worker_id, wr_boot_id = boot_id,
       wr_capabilities = capabilities, wr_max_inflight = max_inflight\<rparr>)))))))"

definition register_worker_encodable :: "worker_registration \<Rightarrow> bool" where
  "register_worker_encodable v \<longleftrightarrow>
     wr_worker_id v \<noteq> Ident 0 \<and> wr_boot_id v \<noteq> Ident 0
     \<and> \<not> (wr_max_inflight v = 0 \<or> wr_max_inflight v > 64)
     \<and> capabilities_encodable (wr_capabilities v)"

text \<open>What the encoding keeps of the record.\<close>

definition register_worker_view :: "worker_registration \<Rightarrow> worker_registration" where
  "register_worker_view v = v\<lparr>wr_capabilities := capabilities_fields (wr_capabilities v)\<rparr>"

lemma register_worker_payload_grows [simp]: "w_grows (encode_register_worker v)"
  unfolding encode_register_worker_def by (rule w_grows_seq) simp_all

lemma register_worker_faithful [codec]:
  "register_worker_encodable v \<Longrightarrow> faithful (encode_register_worker v) read_register_worker (register_worker_view v)"
  unfolding encode_register_worker_def read_register_worker_def
  by (rule faithful_seq_Cons faithful_seq_Nil codec | (simp add: register_worker_encodable_def register_worker_view_def; fail))+

definition encode_ready :: "registered_worker \<Rightarrow> writer" where
  "encode_ready v = w_seq
     [w_domain ''dc.msg.ready.v1'', w_id (rw_session v), w_id (rw_worker v), w_id (rw_boot v),
     w_gen (rw_generation v), w_gen (rw_epoch v), w_str (rw_detail v)]"

definition read_ready :: "registered_worker reader" where
  "read_ready =
     r_bind (r_domain ''dc.msg.ready.v1'') (\<lambda>_. r_bind r_id (\<lambda>session. r_bind r_id (\<lambda>worker.
     r_bind r_id (\<lambda>boot. r_bind r_gen (\<lambda>generation. r_bind r_gen (\<lambda>epoch. r_bind r_str (\<lambda>detail.
     r_return
       \<lparr>rw_session = session, rw_worker = worker, rw_boot = boot, rw_generation = generation,
       rw_epoch = epoch, rw_detail = detail\<rparr>)))))))"

definition ready_encodable :: "registered_worker \<Rightarrow> bool" where
  "ready_encodable v \<longleftrightarrow>
     rw_session v \<noteq> Ident 0 \<and> rw_worker v \<noteq> Ident 0 \<and> rw_boot v \<noteq> Ident 0"

lemma ready_payload_grows [simp]: "w_grows (encode_ready v)"
  unfolding encode_ready_def by (rule w_grows_seq) simp_all

lemma ready_faithful [codec]:
  "ready_encodable v \<Longrightarrow> faithful (encode_ready v) read_ready v"
  unfolding encode_ready_def read_ready_def
  by (rule faithful_seq_Cons faithful_seq_Nil codec | (simp add: ready_encodable_def; fail))+

section \<open>Submissions\<close>

text \<open>A blob is read only if its bytes have the digest it declares.\<close>

definition encode_blob :: "blob \<Rightarrow> writer" where
  "encode_blob v = w_seq [w_digest (bl_digest v), w_blob (bl_bytes v)]"

definition decode_blob :: "blob reader" where
  "decode_blob = r_bind r_digest (\<lambda>digest. r_bind r_blob (\<lambda>bs. if sha256 bs \<noteq> digest
     then r_fail Err_IntegrityFailure ''submitted blob does not match its declared digest''
     else r_return \<lparr>bl_digest = digest, bl_bytes = bs\<rparr>))"

definition blob_encodable :: "blob \<Rightarrow> bool" where
  "blob_encodable v \<longleftrightarrow> sha256 (bl_bytes v) = bl_digest v"

lemma blob_grows [simp]: "w_grows (encode_blob v)"
  unfolding encode_blob_def by (rule w_grows_seq) simp_all

lemma blob_faithful: "blob_encodable v \<Longrightarrow> faithful (encode_blob v) decode_blob v"
  unfolding encode_blob_def decode_blob_def
  by (rule faithful_seq_Cons [OF faithful_digest], rule faithful_seq_Cons [OF faithful_blob])
    (simp del: w_seq.simps add: blob_encodable_def faithful_seq_Nil)

interpretation blob_codec: element_codec encode_blob decode_blob id blob_encodable
  by unfold_locales (simp_all add: blob_faithful)

lemma blobs_faithful [codec]:
  "\<forall>x\<in>set xs. blob_encodable x \<Longrightarrow> length xs \<le> n \<Longrightarrow> faithful (w_list_of encode_blob xs) (r_bounded_list n d decode_blob) xs"
  using blob_codec.bounded_list_faithful [of xs] by simp

text \<open>The speculative mark of a submission is not part of the message; the service leaves it off.\<close>

definition encode_submit :: "submission_bundle \<Rightarrow> writer" where
  "encode_submit v = w_seq
     [w_domain ''dc.msg.submit.v1'', encode_request (sb_request v), w_bool (sb_dry_run v),
     w_bool (sb_force_rebuild v), w_list_of encode_blob (sb_blobs v)]"

definition read_submit :: "submission_bundle reader" where
  "read_submit =
     r_bind (r_domain ''dc.msg.submit.v1'') (\<lambda>_. r_bind decode_request (\<lambda>request.
     r_bind r_bool (\<lambda>dry_run. r_bind r_bool (\<lambda>force_rebuild.
     r_bind (r_bounded_list 65536 ''submission blob count out of bounds'' decode_blob) (\<lambda>blobs.
     r_return
       \<lparr>sb_request = request, sb_blobs = blobs, sb_dry_run = dry_run,
       sb_force_rebuild = force_rebuild, sb_speculative = False\<rparr>)))))"

definition submit_encodable :: "submission_bundle \<Rightarrow> bool" where
  "submit_encodable v \<longleftrightarrow>
     request_encodable (sb_request v) \<and> (\<forall>x\<in>set (sb_blobs v). blob_encodable x)
     \<and> length (sb_blobs v) \<le> 65536"

text \<open>What the encoding keeps of the record.\<close>

definition submit_view :: "submission_bundle \<Rightarrow> submission_bundle" where
  "submit_view v = v\<lparr>sb_request := request_view (sb_request v), sb_speculative := False\<rparr>"

lemma submit_payload_grows [simp]: "w_grows (encode_submit v)"
  unfolding encode_submit_def by (rule w_grows_seq) simp_all

lemma submit_faithful [codec]:
  "submit_encodable v \<Longrightarrow> faithful (encode_submit v) read_submit (submit_view v)"
  unfolding encode_submit_def read_submit_def
  by (rule faithful_seq_Cons faithful_seq_Nil codec | (simp add: submit_encodable_def submit_view_def; fail))+

definition encode_unit_submission :: "unit_submission \<Rightarrow> writer" where
  "encode_unit_submission v = w_seq
     [w_u32 (uv_index v), w_id (uv_compilation v), w_id (uv_unit v),
     w_gen (uv_unit_generation v), w_digest (uv_unit_identity v),
     w_u8 (compilation_state_value (uv_state v)),
     w_u8 (cache_outcome_value (cd_outcome (uv_cache v))), w_str (cd_reason (uv_cache v)),
     w_bool (uv_committed v), w_bool (uv_scheduled v), w_str (uv_detail v),
     w_commit_if (uv_commit v)]"

definition decode_unit_submission :: "unit_submission reader" where
  "decode_unit_submission =
     r_bind r_u32 (\<lambda>index. r_bind r_id (\<lambda>compilation. r_bind r_id (\<lambda>unit.
     r_bind r_gen (\<lambda>unit_generation. r_bind r_digest (\<lambda>unit_identity.
     r_bind (r_enum compilation_states) (\<lambda>state. r_bind (r_enum cache_outcomes) (\<lambda>outcome.
     r_bind r_str (\<lambda>reason. r_bind r_bool (\<lambda>committed. r_bind r_bool (\<lambda>scheduled.
     r_bind r_str (\<lambda>detail. r_bind r_commit_if (\<lambda>commit.
     r_return
       \<lparr>uv_index = index, uv_compilation = compilation, uv_unit = unit,
       uv_unit_generation = unit_generation, uv_unit_identity = unit_identity, uv_state = state,
       uv_cache = empty_cache_decision\<lparr>cd_outcome := outcome, cd_reason := reason\<rparr>,
       uv_committed = committed, uv_commit = commit, uv_scheduled = scheduled, uv_detail = detail\<rparr>))))))))))))"

definition unit_submission_encodable :: "unit_submission \<Rightarrow> bool" where
  "unit_submission_encodable v \<longleftrightarrow>
     uv_compilation v \<noteq> Ident 0 \<and> uv_unit v \<noteq> Ident 0 \<and> commit_if_encodable (uv_commit v)"

text \<open>What the encoding keeps of the record.\<close>

definition unit_submission_view :: "unit_submission \<Rightarrow> unit_submission" where
  "unit_submission_view v = v\<lparr>uv_cache := empty_cache_decision
     \<lparr>cd_outcome := cd_outcome (uv_cache v), cd_reason := cd_reason (uv_cache v)\<rparr>\<rparr>"

lemma unit_submission_payload_grows [simp]: "w_grows (encode_unit_submission v)"
  unfolding encode_unit_submission_def by (rule w_grows_seq) simp_all

lemma unit_submission_faithful [codec]:
  "unit_submission_encodable v \<Longrightarrow> faithful (encode_unit_submission v) decode_unit_submission (unit_submission_view v)"
  unfolding encode_unit_submission_def decode_unit_submission_def
  by (rule faithful_seq_Cons faithful_seq_Nil codec | (simp add: unit_submission_encodable_def unit_submission_view_def; fail))+

interpretation unit_submission_codec: element_codec encode_unit_submission decode_unit_submission unit_submission_view unit_submission_encodable
  by unfold_locales (simp_all add: unit_submission_faithful)

lemma unit_submissions_faithful [codec]:
  "\<forall>x\<in>set xs. unit_submission_encodable x \<Longrightarrow> length xs \<le> n \<Longrightarrow> faithful (w_list_of encode_unit_submission xs) (r_bounded_list n d decode_unit_submission) (map unit_submission_view xs)"
  using unit_submission_codec.bounded_list_faithful [of xs] by simp

definition encode_submission_response :: "submission_result \<Rightarrow> writer" where
  "encode_submission_response v = w_seq
     [w_domain ''dc.msg.submission-response.v1'', w_id (sv_request_id v),
     w_digest (sv_request_identity v), w_bool (sv_all_committed v),
     w_bool (sv_served_from_cache v), w_bool (sv_duplicate_request v),
     w_list_of encode_unit_submission (sv_units v)]"

definition read_submission_response :: "submission_result reader" where
  "read_submission_response =
     r_bind (r_domain ''dc.msg.submission-response.v1'') (\<lambda>_. r_bind r_id (\<lambda>request_id.
     r_bind r_digest (\<lambda>request_identity. r_bind r_bool (\<lambda>all_committed.
     r_bind r_bool (\<lambda>served_from_cache. r_bind r_bool (\<lambda>duplicate_request.
     r_bind (r_bounded_list 65536 ''submission response unit count out of bounds'' decode_unit_submission) (\<lambda>units.
     r_return
       \<lparr>sv_request_id = request_id, sv_request_identity = request_identity, sv_units = units,
       sv_all_committed = all_committed, sv_served_from_cache = served_from_cache,
       sv_duplicate_request = duplicate_request\<rparr>)))))))"

definition submission_response_encodable :: "submission_result \<Rightarrow> bool" where
  "submission_response_encodable v \<longleftrightarrow>
     sv_request_id v \<noteq> Ident 0 \<and> (\<forall>x\<in>set (sv_units v). unit_submission_encodable x)
     \<and> length (sv_units v) \<le> 65536"

text \<open>What the encoding keeps of the record.\<close>

definition submission_response_view :: "submission_result \<Rightarrow> submission_result" where
  "submission_response_view v = v\<lparr>sv_units := map unit_submission_view (sv_units v)\<rparr>"

lemma submission_response_payload_grows [simp]: "w_grows (encode_submission_response v)"
  unfolding encode_submission_response_def by (rule w_grows_seq) simp_all

lemma submission_response_faithful [codec]:
  "submission_response_encodable v \<Longrightarrow> faithful (encode_submission_response v) read_submission_response (submission_response_view v)"
  unfolding encode_submission_response_def read_submission_response_def
  by (rule faithful_seq_Cons faithful_seq_Nil codec | (simp add: submission_response_encodable_def submission_response_view_def; fail))+

section \<open>Assignments\<close>

definition encode_assignment_source :: "assignment_source \<Rightarrow> writer" where
  "encode_assignment_source v = w_seq
     [w_str (sr_logical_name v), w_u8 (input_format_value (sr_format v)),
     w_str (sr_language_mode v), w_blob (sr_bytes v)]"

definition decode_assignment_source :: "assignment_source reader" where
  "decode_assignment_source =
     r_bind r_str (\<lambda>logical_name. r_bind (r_enum input_formats) (\<lambda>format.
     r_bind r_str (\<lambda>language_mode. r_bind r_blob (\<lambda>bytes.
     r_return
       \<lparr>sr_logical_name = logical_name, sr_format = format, sr_language_mode = language_mode,
       sr_bytes = bytes\<rparr>))))"

lemma assignment_source_payload_grows [simp]: "w_grows (encode_assignment_source v)"
  unfolding encode_assignment_source_def by (rule w_grows_seq) simp_all

lemma assignment_source_faithful [codec]:
  "faithful (encode_assignment_source v) decode_assignment_source v"
  unfolding encode_assignment_source_def decode_assignment_source_def
  by (rule faithful_seq_Cons faithful_seq_Nil codec | (simp; fail))+

interpretation assignment_source_codec: element_codec encode_assignment_source decode_assignment_source id "\<lambda>_. True"
  by unfold_locales (simp_all add: assignment_source_faithful)

lemma assignment_sources_faithful [codec]:
  "length xs \<le> n \<Longrightarrow> faithful (w_list_of encode_assignment_source xs) (r_bounded_list n d decode_assignment_source) xs"
  using assignment_source_codec.bounded_list_faithful [of xs] by simp

definition encode_assignment_dependency :: "assignment_dependency \<Rightarrow> writer" where
  "encode_assignment_dependency v = w_seq
     [w_str (dp_name v), w_u8 (dependency_kind_value (dp_kind v)), w_blob (dp_bytes v)]"

definition decode_assignment_dependency :: "assignment_dependency reader" where
  "decode_assignment_dependency =
     r_bind r_str (\<lambda>name. r_bind (r_enum dependency_kinds) (\<lambda>kind. r_bind r_blob (\<lambda>bytes.
     r_return
       \<lparr>dp_name = name, dp_kind = kind, dp_bytes = bytes\<rparr>)))"

lemma assignment_dependency_payload_grows [simp]: "w_grows (encode_assignment_dependency v)"
  unfolding encode_assignment_dependency_def by (rule w_grows_seq) simp_all

lemma assignment_dependency_faithful [codec]:
  "faithful (encode_assignment_dependency v) decode_assignment_dependency v"
  unfolding encode_assignment_dependency_def decode_assignment_dependency_def
  by (rule faithful_seq_Cons faithful_seq_Nil codec | (simp; fail))+

interpretation assignment_dependency_codec: element_codec encode_assignment_dependency decode_assignment_dependency id "\<lambda>_. True"
  by unfold_locales (simp_all add: assignment_dependency_faithful)

lemma assignment_dependencys_faithful [codec]:
  "length xs \<le> n \<Longrightarrow> faithful (w_list_of encode_assignment_dependency xs) (r_bounded_list n d decode_assignment_dependency) xs"
  using assignment_dependency_codec.bounded_list_faithful [of xs] by simp

definition encode_assignment_child :: "assignment_child \<Rightarrow> writer" where
  "encode_assignment_child v = w_seq
     [w_str (ch_logical_name v), w_u8 (output_kind_value (ch_kind v)), w_blob (ch_bytes v)]"

definition decode_assignment_child :: "assignment_child reader" where
  "decode_assignment_child =
     r_bind r_str (\<lambda>logical_name. r_bind (r_enum output_kinds) (\<lambda>kind. r_bind r_blob (\<lambda>bytes.
     r_return
       \<lparr>ch_logical_name = logical_name, ch_kind = kind, ch_bytes = bytes\<rparr>)))"

lemma assignment_child_payload_grows [simp]: "w_grows (encode_assignment_child v)"
  unfolding encode_assignment_child_def by (rule w_grows_seq) simp_all

lemma assignment_child_faithful [codec]:
  "faithful (encode_assignment_child v) decode_assignment_child v"
  unfolding encode_assignment_child_def decode_assignment_child_def
  by (rule faithful_seq_Cons faithful_seq_Nil codec | (simp; fail))+

interpretation assignment_child_codec: element_codec encode_assignment_child decode_assignment_child id "\<lambda>_. True"
  by unfold_locales (simp_all add: assignment_child_faithful)

lemma assignment_childs_faithful [codec]:
  "length xs \<le> n \<Longrightarrow> faithful (w_list_of encode_assignment_child xs) (r_bounded_list n d decode_assignment_child) xs"
  using assignment_child_codec.bounded_list_faithful [of xs] by simp

definition encode_assignment :: "assignment \<Rightarrow> writer" where
  "encode_assignment v = w_seq
     [w_domain ''dc.msg.assign.v1'', w_id (as_session v), w_id (as_worker v),
     w_id (as_worker_boot v), w_gen (as_worker_generation v), write_authority_claim (as_claim v),
     w_id (as_compilation v), w_gen (as_compilation_generation v), w_id (as_unit v),
     w_gen (as_unit_generation v), w_id (as_attempt v), w_gen (as_attempt_generation v),
     w_u32 (as_unit_index v), w_u8 (unit_kind_value (as_kind v)),
     w_u8 (output_kind_value (as_output_kind v)), w_str (as_logical_name v),
     w_list_of encode_assignment_source (as_sources v),
     w_list_of encode_assignment_dependency (as_dependencies v), write_string_list (as_flags v),
     w_list_of encode_assignment_child (as_children v), encode_toolchain (as_toolchain v),
     encode_target (as_target v), encode_specialization (as_specialization v),
     encode_policy (as_policy v), encode_environment (as_environment v),
     encode_validation_requirements (as_validation v), w_u64 (as_max_compile_millis v),
     w_bool (as_speculative v), encode_lease (as_lease v)]"

definition read_assignment :: "assignment reader" where
  "read_assignment =
     r_bind (r_domain ''dc.msg.assign.v1'') (\<lambda>_. r_bind r_id (\<lambda>session. r_bind r_id (\<lambda>worker.
     r_bind r_id (\<lambda>worker_boot. r_bind r_gen (\<lambda>worker_generation.
     r_bind read_authority_claim (\<lambda>claim. r_bind r_id (\<lambda>compilation.
     r_bind r_gen (\<lambda>compilation_generation. r_bind r_id (\<lambda>unit. r_bind r_gen (\<lambda>unit_generation.
     r_bind r_id (\<lambda>attempt. r_bind r_gen (\<lambda>attempt_generation. r_bind r_u32 (\<lambda>unit_index.
     r_bind (r_enum unit_kinds) (\<lambda>kind. r_bind (r_enum output_kinds) (\<lambda>output_kind.
     r_bind r_str (\<lambda>logical_name.
     r_bind (r_bounded_list 4096 ''assignment source count out of bounds'' decode_assignment_source) (\<lambda>sources.
     r_bind (r_bounded_list 65536 ''assignment dependency count out of bounds'' decode_assignment_dependency) (\<lambda>dependencies.
     r_bind read_string_list (\<lambda>flags.
     r_bind (r_bounded_list 4096 ''assignment child count out of bounds'' decode_assignment_child) (\<lambda>children.
     r_bind decode_toolchain (\<lambda>toolchain. r_bind decode_target (\<lambda>target.
     r_bind decode_specialization (\<lambda>specialization. r_bind decode_policy (\<lambda>policy.
     r_bind decode_environment (\<lambda>environment. r_bind decode_validation_requirements (\<lambda>validation.
     r_bind r_u64 (\<lambda>max_compile_millis. r_bind r_bool (\<lambda>speculative. r_bind decode_lease (\<lambda>lease.
     r_return
       \<lparr>as_session = session, as_worker = worker, as_worker_boot = worker_boot,
       as_worker_generation = worker_generation, as_lease = lease, as_claim = claim,
       as_compilation = compilation, as_compilation_generation = compilation_generation,
       as_unit = unit, as_unit_generation = unit_generation, as_attempt = attempt,
       as_attempt_generation = attempt_generation, as_unit_index = unit_index, as_kind = kind,
       as_output_kind = output_kind, as_logical_name = logical_name, as_sources = sources,
       as_dependencies = dependencies, as_flags = flags, as_children = children,
       as_toolchain = toolchain, as_target = target, as_specialization = specialization,
       as_policy = policy, as_environment = environment, as_validation = validation,
       as_max_compile_millis = max_compile_millis, as_speculative = speculative\<rparr>)))))))))))))))))))))))))))))"

definition assignment_encodable :: "assignment \<Rightarrow> bool" where
  "assignment_encodable v \<longleftrightarrow>
     as_session v \<noteq> Ident 0 \<and> as_worker v \<noteq> Ident 0 \<and> as_worker_boot v \<noteq> Ident 0
     \<and> claim_handles_present (as_claim v) \<and> as_compilation v \<noteq> Ident 0 \<and> as_unit v \<noteq> Ident 0
     \<and> as_attempt v \<noteq> Ident 0 \<and> length (as_sources v) \<le> 4096 \<and> length (as_dependencies v) \<le> 65536
     \<and> length (as_children v) \<le> 4096 \<and> toolchain_encodable (as_toolchain v)
     \<and> target_encodable (as_target v) \<and> specialization_encodable (as_specialization v)
     \<and> policy_encodable (as_policy v) \<and> environment_encodable (as_environment v)
     \<and> validation_requirements_encodable (as_validation v) \<and> lease_encodable (as_lease v)"

text \<open>What the encoding keeps of the record.\<close>

definition assignment_view :: "assignment \<Rightarrow> assignment" where
  "assignment_view v = v\<lparr>as_toolchain := toolchain_fields (as_toolchain v)\<rparr>"

lemma assignment_payload_grows [simp]: "w_grows (encode_assignment v)"
  unfolding encode_assignment_def by (rule w_grows_seq) simp_all

lemma assignment_faithful [codec]:
  "assignment_encodable v \<Longrightarrow> faithful (encode_assignment v) read_assignment (assignment_view v)"
  unfolding encode_assignment_def read_assignment_def
  by (rule faithful_seq_Cons faithful_seq_Nil codec | (simp add: assignment_encodable_def assignment_view_def; fail))+

section \<open>Reports\<close>

definition encode_report_output :: "report \<Rightarrow> writer" where
  "encode_report_output v = w_seq
     [w_domain ''dc.msg.report-output.v1'', write_authority_claim (ro_claim v),
     w_u8 (output_kind_value (ro_kind v)), w_str (ro_logical_name v),
     w_digest (ro_declared_digest v), w_blob (ro_bytes v),
     encode_validation_report (ro_worker_validation v), w_str (ro_compiler_invocation v),
     w_str (ro_compiler_version_string v), w_u64 (ro_compiler_wall_millis v),
     w_u32 (word_of_int (ro_exit_code v))]"

definition read_report_output :: "report reader" where
  "read_report_output =
     r_bind (r_domain ''dc.msg.report-output.v1'') (\<lambda>_. r_bind read_authority_claim (\<lambda>claim.
     r_bind (r_enum output_kinds) (\<lambda>kind. r_bind r_str (\<lambda>logical_name.
     r_bind r_digest (\<lambda>declared_digest. r_bind r_blob (\<lambda>bytes.
     r_bind decode_validation_report (\<lambda>worker_validation. r_bind r_str (\<lambda>compiler_invocation.
     r_bind r_str (\<lambda>compiler_version_string. r_bind r_u64 (\<lambda>compiler_wall_millis.
     r_bind r_u32 (\<lambda>exit_code.
     r_return
       \<lparr>ro_claim = claim, ro_kind = kind, ro_logical_name = logical_name, ro_bytes = bytes,
       ro_declared_digest = declared_digest, ro_worker_validation = worker_validation,
       ro_compiler_invocation = compiler_invocation,
       ro_compiler_version_string = compiler_version_string,
       ro_compiler_wall_millis = compiler_wall_millis, ro_exit_code = sint exit_code\<rparr>)))))))))))"

definition report_output_encodable :: "report \<Rightarrow> bool" where
  "report_output_encodable v \<longleftrightarrow>
     claim_handles_present (ro_claim v) \<and> validation_report_encodable (ro_worker_validation v)
     \<and> is_i32 (ro_exit_code v)"

lemma report_output_payload_grows [simp]: "w_grows (encode_report_output v)"
  unfolding encode_report_output_def by (rule w_grows_seq) simp_all

lemma report_output_faithful [codec]:
  "report_output_encodable v \<Longrightarrow> faithful (encode_report_output v) read_report_output v"
  unfolding encode_report_output_def read_report_output_def
  by (rule faithful_seq_Cons faithful_seq_Nil codec | (simp add: report_output_encodable_def; fail))+

definition encode_fail_attempt :: "attempt_failure \<Rightarrow> writer" where
  "encode_fail_attempt v = w_seq
     [w_domain ''dc.msg.fail-attempt.v1'', write_authority_claim (af_claim v),
     w_error (af_code v), w_str (af_detail v), w_bool (af_produced_candidate v)]"

definition read_fail_attempt :: "attempt_failure reader" where
  "read_fail_attempt =
     r_bind (r_domain ''dc.msg.fail-attempt.v1'') (\<lambda>_. r_bind read_authority_claim (\<lambda>claim.
     r_bind (r_error ''failure'') (\<lambda>code. r_bind r_str (\<lambda>detail.
     r_bind r_bool (\<lambda>produced_candidate.
     r_return
       \<lparr>af_claim = claim, af_code = code, af_detail = detail,
       af_produced_candidate = produced_candidate\<rparr>)))))"

definition fail_attempt_encodable :: "attempt_failure \<Rightarrow> bool" where
  "fail_attempt_encodable v \<longleftrightarrow>
     claim_handles_present (af_claim v) \<and> error_in_domain (af_code v)"

lemma fail_attempt_payload_grows [simp]: "w_grows (encode_fail_attempt v)"
  unfolding encode_fail_attempt_def by (rule w_grows_seq) simp_all

lemma fail_attempt_faithful [codec]:
  "fail_attempt_encodable v \<Longrightarrow> faithful (encode_fail_attempt v) read_fail_attempt v"
  unfolding encode_fail_attempt_def read_fail_attempt_def
  by (rule faithful_seq_Cons faithful_seq_Nil codec | (simp add: fail_attempt_encodable_def; fail))+

definition encode_commit_response :: "commit_decision \<Rightarrow> writer" where
  "encode_commit_response v = w_seq
     [w_domain ''dc.msg.commit-response.v1'', w_u8 (commit_outcome_value (dn_outcome v)),
     w_error (dn_error v), w_str (dn_detail v), w_bool (dn_artifact_authoritative v),
     w_commit_if (dn_commit v), encode_validation_report (dn_validation v)]"

definition read_commit_response :: "commit_decision reader" where
  "read_commit_response =
     r_bind (r_domain ''dc.msg.commit-response.v1'') (\<lambda>_.
     r_bind (r_enum commit_outcomes) (\<lambda>outcome. r_bind (r_error ''commit'') (\<lambda>err.
     r_bind r_str (\<lambda>detail. r_bind r_bool (\<lambda>artifact_authoritative. r_bind r_commit_if (\<lambda>commit.
     r_bind decode_validation_report (\<lambda>validation.
     r_return
       \<lparr>dn_outcome = outcome, dn_error = err, dn_detail = detail, dn_commit = commit,
       dn_validation = validation, dn_artifact_authoritative = artifact_authoritative\<rparr>)))))))"

definition commit_response_encodable :: "commit_decision \<Rightarrow> bool" where
  "commit_response_encodable v \<longleftrightarrow>
     error_in_domain (dn_error v) \<and> commit_if_encodable (dn_commit v)
     \<and> validation_report_encodable (dn_validation v)"

lemma commit_response_payload_grows [simp]: "w_grows (encode_commit_response v)"
  unfolding encode_commit_response_def by (rule w_grows_seq) simp_all

lemma commit_response_faithful [codec]:
  "commit_response_encodable v \<Longrightarrow> faithful (encode_commit_response v) read_commit_response v"
  unfolding encode_commit_response_def read_commit_response_def
  by (rule faithful_seq_Cons faithful_seq_Nil codec | (simp add: commit_response_encodable_def; fail))+

section \<open>Control messages\<close>

definition encode_control_record :: "control_message \<Rightarrow> writer" where
  "encode_control_record v = w_seq
     [w_domain ''dc.msg.control.v1'', w_id (cx_session v), w_u8 (control_kind_value (cx_kind v)),
     w_id (cx_compilation v), w_gen (cx_compilation_generation v), w_id (cx_attempt v),
     w_gen (cx_attempt_generation v), w_id (cx_lease v), w_gen (cx_lease_generation v),
     w_id (cx_commit v), w_digest (cx_artifact_digest v), w_str (cx_reason v)]"

definition decode_control_record :: "control_message reader" where
  "decode_control_record =
     r_bind (r_domain ''dc.msg.control.v1'') (\<lambda>_. r_bind r_id (\<lambda>session.
     r_bind (r_enum control_kinds) (\<lambda>kind. r_bind r_id (\<lambda>compilation.
     r_bind r_gen (\<lambda>compilation_generation. r_bind r_id (\<lambda>attempt.
     r_bind r_gen (\<lambda>attempt_generation. r_bind r_id (\<lambda>lease. r_bind r_gen (\<lambda>lease_generation.
     r_bind r_id (\<lambda>commit. r_bind r_digest (\<lambda>artifact_digest. r_bind r_str (\<lambda>reason.
     r_return
       \<lparr>cx_session = session, cx_kind = kind, cx_compilation = compilation,
       cx_compilation_generation = compilation_generation, cx_attempt = attempt,
       cx_attempt_generation = attempt_generation, cx_lease = lease,
       cx_lease_generation = lease_generation, cx_commit = commit,
       cx_artifact_digest = artifact_digest, cx_reason = reason\<rparr>))))))))))))"

definition control_record_encodable :: "control_message \<Rightarrow> bool" where
  "control_record_encodable v \<longleftrightarrow>
     cx_session v \<noteq> Ident 0 \<and> cx_compilation v \<noteq> Ident 0 \<and> cx_attempt v \<noteq> Ident 0
     \<and> cx_lease v \<noteq> Ident 0 \<and> cx_commit v \<noteq> Ident 0"

lemma control_record_payload_grows [simp]: "w_grows (encode_control_record v)"
  unfolding encode_control_record_def by (rule w_grows_seq) simp_all

lemma control_record_faithful [codec]:
  "control_record_encodable v \<Longrightarrow> faithful (encode_control_record v) decode_control_record v"
  unfolding encode_control_record_def decode_control_record_def
  by (rule faithful_seq_Cons faithful_seq_Nil codec | (simp add: control_record_encodable_def; fail))+

record commit_message =
  mg_control :: control_message
  mg_commit :: artifact_commit

definition encode_commit_message :: "commit_message \<Rightarrow> writer" where
  "encode_commit_message v = w_seq
     [w_domain ''dc.msg.commit.v1'', encode_control_record (mg_control v),
     encode_commit (mg_commit v)]"

definition read_commit_message :: "commit_message reader" where
  "read_commit_message =
     r_bind (r_domain ''dc.msg.commit.v1'') (\<lambda>_. r_bind decode_control_record (\<lambda>control.
     r_bind decode_commit (\<lambda>commit.
     r_return
       \<lparr>mg_control = control, mg_commit = commit\<rparr>)))"

definition commit_message_encodable :: "commit_message \<Rightarrow> bool" where
  "commit_message_encodable v \<longleftrightarrow>
     control_record_encodable (mg_control v) \<and> commit_encodable (mg_commit v)"

lemma commit_message_payload_grows [simp]: "w_grows (encode_commit_message v)"
  unfolding encode_commit_message_def by (rule w_grows_seq) simp_all

lemma commit_message_faithful [codec]:
  "commit_message_encodable v \<Longrightarrow> faithful (encode_commit_message v) read_commit_message v"
  unfolding encode_commit_message_def read_commit_message_def
  by (rule faithful_seq_Cons faithful_seq_Nil codec | (simp add: commit_message_encodable_def; fail))+

section \<open>Cache messages\<close>

definition encode_cache_mismatch :: "cache_mismatch \<Rightarrow> writer" where
  "encode_cache_mismatch v = w_seq
     [w_str (cm_dimension v), w_str (cm_expected v), w_str (cm_actual v)]"

definition decode_cache_mismatch :: "cache_mismatch reader" where
  "decode_cache_mismatch =
     r_bind r_str (\<lambda>dimension. r_bind r_str (\<lambda>expected. r_bind r_str (\<lambda>actual.
     r_return
       \<lparr>cm_dimension = dimension, cm_expected = expected, cm_actual = actual\<rparr>)))"

lemma cache_mismatch_payload_grows [simp]: "w_grows (encode_cache_mismatch v)"
  unfolding encode_cache_mismatch_def by (rule w_grows_seq) simp_all

lemma cache_mismatch_faithful [codec]:
  "faithful (encode_cache_mismatch v) decode_cache_mismatch v"
  unfolding encode_cache_mismatch_def decode_cache_mismatch_def
  by (rule faithful_seq_Cons faithful_seq_Nil codec | (simp; fail))+

interpretation cache_mismatch_codec: element_codec encode_cache_mismatch decode_cache_mismatch id "\<lambda>_. True"
  by unfold_locales (simp_all add: cache_mismatch_faithful)

lemma cache_mismatchs_faithful [codec]:
  "length xs \<le> n \<Longrightarrow> faithful (w_list_of encode_cache_mismatch xs) (r_bounded_list n d decode_cache_mismatch) xs"
  using cache_mismatch_codec.bounded_list_faithful [of xs] by simp

record cache_report =
  kr_decision :: cache_decision
  kr_entry :: cache_entry

definition encode_cache_query :: "digest256 \<Rightarrow> writer" where
  "encode_cache_query identity = w_seq [w_domain ''dc.msg.cache-query.v1'', w_digest identity]"

definition read_cache_query :: "digest256 reader" where
  "read_cache_query = r_bind (r_domain ''dc.msg.cache-query.v1'') (\<lambda>_. r_bind r_digest (\<lambda>identity. r_return identity))"

lemma cache_query_faithful [codec]: "faithful (encode_cache_query v) read_cache_query v"
  unfolding encode_cache_query_def read_cache_query_def
  by (rule faithful_seq_Cons faithful_seq_Nil codec | (simp; fail))+

definition encode_cache_report :: "cache_report \<Rightarrow> writer" where
  "encode_cache_report v = w_seq
     [w_domain ''dc.msg.cache-report.v1'', w_u8 (cache_outcome_value (cd_outcome (kr_decision v))),
     w_str (cd_reason (kr_decision v)), w_bool (cd_generation_drift (kr_decision v)),
     w_id (cd_entry (kr_decision v)), w_list_of encode_cache_mismatch (cd_mismatches (kr_decision v)),
     w_entry_if (kr_entry v)]"

definition read_cache_report :: "cache_report reader" where
  "read_cache_report =
     r_bind (r_domain ''dc.msg.cache-report.v1'') (\<lambda>_. r_bind (r_enum cache_outcomes) (\<lambda>outcome.
     r_bind r_str (\<lambda>reason. r_bind r_bool (\<lambda>generation_drift. r_bind r_id (\<lambda>entry.
     r_bind (r_bounded_list 1024 ''cache mismatch count out of bounds'' decode_cache_mismatch) (\<lambda>mismatches.
     r_bind r_entry_if (\<lambda>kept.
     r_return
       \<lparr>kr_decision = \<lparr>cd_outcome = outcome, cd_reason = reason, cd_mismatches = mismatches,
         cd_entry = entry, cd_generation_drift = generation_drift\<rparr>, kr_entry = kept\<rparr>)))))))"

definition cache_report_encodable :: "cache_report \<Rightarrow> bool" where
  "cache_report_encodable v \<longleftrightarrow> cd_entry (kr_decision v) \<noteq> Ident 0
     \<and> length (cd_mismatches (kr_decision v)) \<le> 1024 \<and> entry_if_encodable (kr_entry v)"

lemma cache_report_faithful [codec]:
  "cache_report_encodable v \<Longrightarrow> faithful (encode_cache_report v) read_cache_report v"
  unfolding encode_cache_report_def read_cache_report_def
  by (rule faithful_seq_Cons faithful_seq_Nil codec | (simp add: cache_report_encodable_def; fail))+

section \<open>Evidence, responses and queries\<close>

record validate_message =
  vm_mode :: u32
  vm_subject :: digest256
  vm_nonce :: string

record validate_response =
  ve_mode :: u32
  ve_evidence :: evidence_class
  ve_capabilities_digest :: digest256
  ve_subject :: digest256
  ve_detail :: string

record response =
  rp_op :: op
  rp_code :: error_code
  rp_detail :: string
  rp_payload :: bytes

record query_message =
  qm_kind :: u32
  qm_id :: u64
  qm_identity :: digest256

definition encode_validate :: "validate_message \<Rightarrow> writer" where
  "encode_validate v = w_seq
     [w_domain ''dc.msg.validate.v1'', w_u32 (vm_mode v), w_digest (vm_subject v),
     w_str (vm_nonce v)]"

definition read_validate :: "validate_message reader" where
  "read_validate =
     r_bind (r_domain ''dc.msg.validate.v1'') (\<lambda>_.
     r_bind (r_guard (\<lambda>x. x > 1) Err_Malformed ''validate mode out of domain'' r_u32) (\<lambda>mode.
     r_bind r_digest (\<lambda>subject. r_bind r_str (\<lambda>nonce.
     r_return
       \<lparr>vm_mode = mode, vm_subject = subject, vm_nonce = nonce\<rparr>))))"

definition validate_encodable :: "validate_message \<Rightarrow> bool" where
  "validate_encodable v \<longleftrightarrow>
     \<not> (vm_mode v > 1)"

lemma validate_payload_grows [simp]: "w_grows (encode_validate v)"
  unfolding encode_validate_def by (rule w_grows_seq) simp_all

lemma validate_faithful [codec]:
  "validate_encodable v \<Longrightarrow> faithful (encode_validate v) read_validate v"
  unfolding encode_validate_def read_validate_def
  by (rule faithful_seq_Cons faithful_seq_Nil codec | (simp add: validate_encodable_def; fail))+

definition encode_validate_response :: "validate_response \<Rightarrow> writer" where
  "encode_validate_response v = w_seq
     [w_domain ''dc.msg.validate-response.v1'', w_u32 (ve_mode v),
     w_u8 (evidence_class_value (ve_evidence v)), w_digest (ve_capabilities_digest v),
     w_digest (ve_subject v), w_str (ve_detail v)]"

definition read_validate_response :: "validate_response reader" where
  "read_validate_response =
     r_bind (r_domain ''dc.msg.validate-response.v1'') (\<lambda>_.
     r_bind (r_guard (\<lambda>x. x > 1) Err_Malformed ''validate mode out of domain'' r_u32) (\<lambda>mode.
     r_bind (r_enum evidence_classes) (\<lambda>evidence. r_bind r_digest (\<lambda>capabilities_digest.
     r_bind r_digest (\<lambda>subject. r_bind r_str (\<lambda>detail.
     r_return
       \<lparr>ve_mode = mode, ve_evidence = evidence, ve_capabilities_digest = capabilities_digest,
       ve_subject = subject, ve_detail = detail\<rparr>))))))"

definition validate_response_encodable :: "validate_response \<Rightarrow> bool" where
  "validate_response_encodable v \<longleftrightarrow>
     \<not> (ve_mode v > 1)"

lemma validate_response_payload_grows [simp]: "w_grows (encode_validate_response v)"
  unfolding encode_validate_response_def by (rule w_grows_seq) simp_all

lemma validate_response_faithful [codec]:
  "validate_response_encodable v \<Longrightarrow> faithful (encode_validate_response v) read_validate_response v"
  unfolding encode_validate_response_def read_validate_response_def
  by (rule faithful_seq_Cons faithful_seq_Nil codec | (simp add: validate_response_encodable_def; fail))+

definition encode_response :: "response \<Rightarrow> writer" where
  "encode_response v = w_seq
     [w_domain ''dc.msg.response.v1'', w_op (rp_op v), w_error (rp_code v), w_str (rp_detail v),
     w_blob (rp_payload v)]"

definition read_response :: "response reader" where
  "read_response =
     r_bind (r_domain ''dc.msg.response.v1'') (\<lambda>_. r_bind r_op (\<lambda>op.
     r_bind (r_error ''response'') (\<lambda>code. r_bind r_str (\<lambda>detail. r_bind r_blob (\<lambda>payload.
     r_return
       \<lparr>rp_op = op, rp_code = code, rp_detail = detail, rp_payload = payload\<rparr>)))))"

definition response_encodable :: "response \<Rightarrow> bool" where
  "response_encodable v \<longleftrightarrow>
     error_in_domain (rp_code v)"

lemma response_payload_grows [simp]: "w_grows (encode_response v)"
  unfolding encode_response_def by (rule w_grows_seq) simp_all

lemma response_faithful [codec]:
  "response_encodable v \<Longrightarrow> faithful (encode_response v) read_response v"
  unfolding encode_response_def read_response_def
  by (rule faithful_seq_Cons faithful_seq_Nil codec | (simp add: response_encodable_def; fail))+

definition encode_query :: "query_message \<Rightarrow> writer" where
  "encode_query v = w_seq
     [w_domain ''dc.msg.query.v1'', w_u32 (qm_kind v), w_u64 (qm_id v), w_digest (qm_identity v)]"

definition read_query :: "query_message reader" where
  "read_query =
     r_bind (r_domain ''dc.msg.query.v1'') (\<lambda>_.
     r_bind (r_guard (\<lambda>x. x > 9) Err_Malformed ''query kind out of domain'' r_u32) (\<lambda>kind.
     r_bind r_u64 (\<lambda>id. r_bind r_digest (\<lambda>identity.
     r_return
       \<lparr>qm_kind = kind, qm_id = id, qm_identity = identity\<rparr>))))"

definition query_encodable :: "query_message \<Rightarrow> bool" where
  "query_encodable v \<longleftrightarrow>
     \<not> (qm_kind v > 9)"

lemma query_payload_grows [simp]: "w_grows (encode_query v)"
  unfolding encode_query_def by (rule w_grows_seq) simp_all

lemma query_faithful [codec]:
  "query_encodable v \<Longrightarrow> faithful (encode_query v) read_query v"
  unfolding encode_query_def read_query_def
  by (rule faithful_seq_Cons faithful_seq_Nil codec | (simp add: query_encodable_def; fail))+

end
