(* ===== verification/DC_Render.thy ===== *)
theory DC_Render
  imports DC_Audit
begin

text \<open>
  The text that the service sends for single records (\<^verbatim>\<open>src/wire.cpp\<close>, the rendering helpers):
  a line for each fact, in a fixed order.
\<close>

definition yes_no :: "bool \<Rightarrow> string" where
  "yes_no b = (if b then ''yes'' else ''no'')"

definition render_compilation :: "compilation_record \<Rightarrow> string" where
  "render_compilation c =
     ''compilation '' @ dec_of (cr_id c) @ newline
     @ ''  generation '' @ dec_of_gen (cr_generation c) @ newline
     @ ''  state '' @ compilation_state_string (cr_state c) @ newline
     @ ''  unit '' @ dec_of (cr_unit c) @ '' index '' @ dec_of_u32 (cr_unit_index c) @ newline
     @ ''  output '' @ output_kind_string (cr_output_kind c) @ newline
     @ ''  reproducibility '' @ reproducibility_requirement_string (cr_reproducibility c) @ newline
     @ ''  unit identity '' @ digest_hex (cr_unit_identity c) @ newline
     @ ''  request identity '' @ digest_hex (cr_request_identity c) @ newline
     @ ''  source identity '' @ digest_hex (cr_source_identity c) @ newline
     @ ''  dependency identity '' @ digest_hex (cr_dependency_identity c) @ newline
     @ ''  toolchain identity '' @ digest_hex (cr_toolchain_identity c) @ newline
     @ ''  target identity '' @ digest_hex (cr_target_identity c) @ newline
     @ ''  specialization identity '' @ digest_hex (cr_specialization_identity c) @ newline
     @ ''  policy identity '' @ digest_hex (cr_policy_identity c) @ newline
     @ ''  attempts '' @ dec_of_nat (length (cr_attempts c))
       @ concat (map (\<lambda>i. '' '' @ dec_of i) (cr_attempts c)) @ newline
     @ ''  cache hit '' @ yes_no (cr_cache_hit c) @ newline
     @ (if cr_reproducibility_violation c then ''  reproducibility violation yes'' @ newline else [])
     @ (if cr_failure c \<noteq> Err_Ok then ''  failure '' @ error_code_string (cr_failure c) @ newline else [])"

definition render_check :: "validation_check \<Rightarrow> string" where
  "render_check k = ''    '' @ vc_check k @ '': '' @ validation_outcome_string (vc_outcome k) @ '' ''
     @ vc_detail k @ newline"

definition render_attempt :: "compilation_attempt \<Rightarrow> string" where
  "render_attempt a =
     ''attempt '' @ dec_of (ca_id a) @ newline
     @ ''  generation '' @ dec_of_gen (ca_generation a) @ newline
     @ ''  compilation '' @ dec_of (ca_compilation a) @ newline
     @ ''  state '' @ attempt_state_string (ca_state a) @ newline
     @ ''  ordinal '' @ dec_of_u32 (ca_ordinal a) @ newline
     @ ''  worker '' @ dec_of (ca_worker a) @ '' boot '' @ dec_of (ca_worker_boot a) @ newline
     @ ''  lease '' @ dec_of (ca_lease a) @ '' generation '' @ dec_of_gen (ca_lease_generation a) @ newline
     @ ''  epoch '' @ dec_of_gen (ca_epoch a) @ newline
     @ (if digest_is_zero (rf_digest (ca_candidate a)) then []
        else ''  candidate '' @ digest_hex (rf_digest (ca_candidate a)) @ '' size ''
          @ to_dec (rf_size (ca_candidate a)) @ newline)
     @ (if ca_failure a = Err_Ok then []
        else ''  failure '' @ error_code_string (ca_failure a) @ '' '' @ ca_failure_detail a @ newline)
     @ (if vp_checks (ca_validation a) = [] then []
        else ''  validation '' @ validation_outcome_string (vp_aggregate (ca_validation a)) @ newline
          @ concat (map render_check (vp_checks (ca_validation a))))"

definition render_toolchain :: "toolchain_identity \<Rightarrow> string" where
  "render_toolchain t = ''    toolchain '' @ compiler_family_string (tc_family t) @ '' ''
     @ tc_version_string t @ '' identity '' @ take 16 (digest_hex (tc_identity_digest t)) @ '' evidence ''
     @ evidence_class_string (tc_evidence t) @ newline"

definition render_target :: "target_identity \<Rightarrow> string" where
  "render_target t = ''    target '' @ tg_triple t @ '' identity ''
     @ take 16 (digest_hex (tg_identity_digest t)) @ newline"

definition render_worker :: "worker_record \<Rightarrow> string" where
  "render_worker w =
     ''worker '' @ dec_of (wk_id w) @ newline
     @ ''  boot '' @ dec_of (wk_boot w) @ '' generation '' @ dec_of_gen (wk_generation w) @ newline
     @ ''  endpoint '' @ wk_endpoint w @ '' host '' @ wk_host w @ newline
     @ ''  health '' @ worker_health_string (wk_health w)
       @ (if wk_ready w then '' ready'' else '' not-ready'') @ newline
     @ ''  fenced '' @ yes_no (wk_fenced w) @ newline
     @ ''  evidence '' @ evidence_class_string (wc_evidence (wk_capabilities w)) @ newline
     @ ''  toolchains '' @ dec_of_nat (length (wc_toolchains (wk_capabilities w))) @ '' targets ''
       @ dec_of_nat (length (wc_targets (wk_capabilities w))) @ newline
     @ concat (map render_toolchain (wc_toolchains (wk_capabilities w)))
     @ concat (map render_target (wc_targets (wk_capabilities w)))
     @ ''  in-flight '' @ dec_of_u32 (wk_in_flight w) @ '' completed '' @ to_dec (wk_completed_units w)
       @ '' failed '' @ to_dec (wk_failed_units w) @ newline"

definition render_mismatch :: "cache_mismatch \<Rightarrow> string" where
  "render_mismatch m = ''  mismatch '' @ cm_dimension m @ '': expected '' @ cm_expected m @ '' actual ''
     @ cm_actual m @ newline"

definition render_cache_decision :: "cache_decision \<Rightarrow> string" where
  "render_cache_decision d =
     ''cache outcome '' @ cache_outcome_string (cd_outcome d) @ newline
     @ ''  entry '' @ dec_of (cd_entry d) @ newline
     @ ''  reason '' @ cd_reason d @ newline
     @ (if cd_generation_drift d then ''  generation drift observed'' @ newline else [])
     @ concat (map render_mismatch (cd_mismatches d))"

definition render_commit :: "artifact_commit \<Rightarrow> string" where
  "render_commit k =
     ''commit '' @ dec_of (ac_id k) @ newline
     @ ''  compilation '' @ dec_of (ac_compilation k) @ '' generation ''
       @ dec_of_gen (ac_compilation_generation k) @ newline
     @ ''  artifact digest '' @ digest_hex (ac_artifact_digest k) @ newline
     @ ''  epoch '' @ dec_of_gen (ac_epoch k) @ newline
     @ ''  worker '' @ dec_of (ac_worker k) @ '' boot '' @ dec_of (ac_worker_boot k) @ newline
     @ ''  attempt '' @ dec_of (ac_attempt k) @ newline
     @ ''  provenance '' @ dec_of (ac_provenance k) @ '' validation '' @ dec_of (ac_validation k) @ newline
     @ (if ac_deduplicated k then ''  deduplicated yes'' @ newline else [])
     @ (if ac_superseded k then ''  superseded yes'' @ newline else [])"

definition render_provenance :: "provenance \<Rightarrow> string" where
  "render_provenance p =
     ''provenance '' @ dec_of (pv_id p) @ newline
     @ ''  evidence '' @ evidence_class_string (pv_evidence p) @ newline
     @ ''  compilation '' @ dec_of (pv_compilation p) @ '' attempt '' @ dec_of (pv_attempt p) @ newline
     @ ''  worker '' @ dec_of (pv_worker p) @ '' boot '' @ dec_of (pv_worker_boot p) @ newline
     @ ''  epoch '' @ dec_of_gen (pv_epoch p) @ newline
     @ ''  artifact '' @ digest_hex (rf_digest (pv_artifact p)) @ '' size ''
       @ to_dec (rf_size (pv_artifact p)) @ newline
     @ ''  toolchain '' @ digest_hex (pv_toolchain_identity p) @ newline
     @ ''  target '' @ digest_hex (pv_target_identity p) @ newline
     @ ''  dependencies '' @ digest_hex (pv_dependency_identity p) @ newline
     @ ''  source '' @ digest_hex (pv_source_identity p) @ newline
     @ ''  compiler '' @ pv_compiler_version_string p @ newline
     @ ''  invocation '' @ pv_compiler_invocation p @ newline"

definition render_job :: "job_record \<Rightarrow> string" where
  "render_job j = ''job '' @ digest_hex (jr_request_identity j) @ '' units ''
     @ dec_of_nat (length (jr_units j)) @ '' committed '' @ yes_no (jr_committed j) @ newline"

end
