(* ===== verification/DC_Service.thy ===== *)
theory DC_Service
  imports DC_Messages DC_Render
begin

text \<open>
  The coordinator service (\<^verbatim>\<open>apps/dc_coordinator.cpp\<close>): connections, the dispatch of a frame to
  the operation of the coordinator it asks for, and one pass of the reactor loop.  What the
  sockets answer in a pass, and what the operating system answers to a smoke test, are
  arguments.  An exception of the canonical writer leaves \<^verbatim>\<open>main\<close>, so it ends a pass with
  \<^term>\<open>Thrown\<close>.
\<close>

section \<open>Connections\<close>

definition kMaxOutboundBytes :: nat where "kMaxOutboundBytes = 64 * 1024 * 1024"

record connection =
  cn_reader :: frame_reader
  cn_outgoing :: bytes
  cn_sent :: nat
  cn_session :: session_id
  cn_role :: session_role
  cn_handshaked :: bool
  cn_closing :: bool

definition new_connection :: connection where
  "new_connection = \<lparr>cn_reader = new_reader (unat kMaxFrameBytes), cn_outgoing = [], cn_sent = 0,
     cn_session = Ident 0, cn_role = SR_Client, cn_handshaked = False, cn_closing = False\<rparr>"

text \<open>A frame that the encoder refuses is not queued, and nobody is told.\<close>

definition queue_frame :: "op \<Rightarrow> u64 \<Rightarrow> bytes \<Rightarrow> connection \<Rightarrow> connection" where
  "queue_frame x request payload c =
     (case encode_frame \<lparr>fr_op = x, fr_request_id = request, fr_payload = payload\<rparr> of
        Inl _ \<Rightarrow> c
      | Inr img \<Rightarrow> c\<lparr>cn_outgoing := cn_outgoing c @ img\<rparr>)"

definition send_response :: "u64 \<Rightarrow> op \<Rightarrow> status \<Rightarrow> bytes \<Rightarrow> connection \<Rightarrow> connection outcome" where
  "send_response request x st payload c =
     (case written (encode_response \<lparr>rp_op = x, rp_code = st_code st, rp_detail = st_detail st,
         rp_payload = payload\<rparr>) of
        None \<Rightarrow> Inl Thrown
      | Some encoded \<Rightarrow> Inr (queue_frame Op_Response request encoded c))"

section \<open>Dispatch\<close>

text \<open>
  What a frame is answered with: a response, or the report of a cache query, which is queued
  as a frame of its own.
\<close>

datatype answer = Respond status bytes | Report_Cache bytes

type_synonym served = "answer outcome \<times> connection \<times> impl"

definition reply :: "status \<Rightarrow> connection \<Rightarrow> impl \<Rightarrow> served" where
  "reply st c im = (Inr (Respond st []), c, im)"

definition malformed :: "string \<Rightarrow> connection \<Rightarrow> impl \<Rightarrow> served" where
  "malformed what = reply (error Err_Malformed (''malformed '' @ what))"

definition reply_written :: "writer \<Rightarrow> connection \<Rightarrow> impl \<Rightarrow> served" where
  "reply_written w c im =
     (case written w of None \<Rightarrow> (Inl Thrown, c, im) | Some payload \<Rightarrow> (Inr (Respond success payload), c, im))"

definition reply_stop :: "stop \<Rightarrow> connection \<Rightarrow> impl \<Rightarrow> served" where
  "reply_stop s c im = (case s of Returned st \<Rightarrow> reply st c im | Thrown \<Rightarrow> (Inl Thrown, c, im))"

definition reply_to :: "(impl \<Rightarrow> status \<times> impl) \<Rightarrow> connection \<Rightarrow> impl \<Rightarrow> served" where
  "reply_to f c im = (case f im of (st, im1) \<Rightarrow> reply st c im1)"

definition text_bytes :: "string \<Rightarrow> bytes" where
  "text_bytes = map char_byte"

definition serve_hello :: "bytes \<Rightarrow> connection \<Rightarrow> impl \<Rightarrow> served" where
  "serve_hello payload c im =
     (case decode_payload read_hello payload of
        None \<Rightarrow> malformed ''HELLO'' c im
      | Some m \<Rightarrow> reply success (c\<lparr>cn_role := he_role m, cn_handshaked := True\<rparr>) im)"

definition serve_register :: "bytes \<Rightarrow> connection \<Rightarrow> impl \<Rightarrow> served" where
  "serve_register payload c im =
     (case decode_payload read_register_worker payload of
        None \<Rightarrow> malformed ''REGISTER_WORKER'' c im
      | Some r \<Rightarrow>
         (case register_worker r im of
            (Inl s, im1) \<Rightarrow> reply_stop s c im1
          | (Inr rw, im1) \<Rightarrow> reply_written (encode_ready rw) (c\<lparr>cn_session := rw_session rw\<rparr>) im1))"

text \<open>The capabilities are read without a check for bytes behind them.\<close>

definition serve_advertise :: "bytes \<Rightarrow> connection \<Rightarrow> impl \<Rightarrow> served" where
  "serve_advertise payload c im =
     (if id_is_zero (cn_session c) then
        reply (error Err_Unauthorized ''ADVERTISE_TOOLCHAIN before registration'') c im
      else case decode_capabilities payload of
        Inl _ \<Rightarrow> malformed ''capabilities'' c im
      | Inr (caps, _) \<Rightarrow>
         (case advertise_capabilities (cn_session c) caps im of
            (Inl s, im1) \<Rightarrow> reply_stop s c im1
          | (Inr _, im1) \<Rightarrow> reply success c im1))"

definition serve_ready :: "connection \<Rightarrow> impl \<Rightarrow> served" where
  "serve_ready c im =
     (if id_is_zero (cn_session c) then
        reply (error Err_Unauthorized ''WORKER_READY before registration'') c im
      else reply_to (mark_ready (cn_session c)) c im)"

definition serve_heartbeat :: "connection \<Rightarrow> impl \<Rightarrow> served" where
  "serve_heartbeat c im =
     reply success c (if id_is_zero (cn_session c) then im else snd (heartbeat (cn_session c) im))"

definition serve_begin :: "bytes \<Rightarrow> connection \<Rightarrow> impl \<Rightarrow> served" where
  "serve_begin payload c im =
     (case decode_payload read_authority_claim payload of
        None \<Rightarrow> malformed ''BEGIN_COMPILE'' c im
      | Some claim \<Rightarrow> reply_to (begin_compile claim) c im)"

text \<open>A decision without a commit is given commit identity 1 before it is encoded.\<close>

definition stamp_commit :: "commit_decision \<Rightarrow> commit_decision" where
  "stamp_commit d =
     (if id_is_zero (ac_id (dn_commit d)) then d\<lparr>dn_commit := (dn_commit d)\<lparr>ac_id := Ident 1\<rparr>\<rparr> else d)"

definition serve_report :: "smoke_answer \<Rightarrow> bytes \<Rightarrow> connection \<Rightarrow> impl \<Rightarrow> served" where
  "serve_report smoke payload c im =
     (case decode_payload read_report_output payload of
        None \<Rightarrow> malformed ''REPORT_OUTPUT'' c im
      | Some r \<Rightarrow>
         (case report_output (cn_session c) r smoke im of
            (Inl st, im1) \<Rightarrow> reply st c im1
          | (Inr d, im1) \<Rightarrow> reply_written (encode_commit_response (stamp_commit d)) c im1))"

definition serve_failure :: "bytes \<Rightarrow> connection \<Rightarrow> impl \<Rightarrow> served" where
  "serve_failure payload c im =
     (case decode_payload read_fail_attempt payload of
        None \<Rightarrow> malformed ''FAIL_ATTEMPT'' c im
      | Some f \<Rightarrow> reply_to (fail_attempt (cn_session c) f) c im)"

definition serve_evidence :: "bytes \<Rightarrow> connection \<Rightarrow> impl \<Rightarrow> served" where
  "serve_evidence payload c im =
     (case decode_payload read_validate_response payload of
        None \<Rightarrow> malformed ''VALIDATE_RESPONSE'' c im
      | Some m \<Rightarrow> reply_to (handle_validate_response (cn_session c) (ve_mode m) (ve_evidence m)
          (ve_capabilities_digest m) (ve_detail m)) c im)"

definition serve_submit :: "bytes \<Rightarrow> connection \<Rightarrow> impl \<Rightarrow> served" where
  "serve_submit payload c im =
     (case decode_payload read_submit payload of
        None \<Rightarrow> malformed ''SUBMIT_COMPILATION'' c im
      | Some bundle \<Rightarrow>
         if length (rq_units (sb_request bundle)) > unat (cg_max_units (im_config im)) then
           reply (error Err_LimitExceeded ''unit count exceeds the configured bound'') c im
         else (case submit bundle im of
            (Inl s, im1) \<Rightarrow> reply_stop s c im1
          | (Inr r, im1) \<Rightarrow> reply_written (encode_submission_response r) c im1))"

definition cache_report_for :: "digest256 \<Rightarrow> impl \<Rightarrow> cache_report" where
  "cache_report_for d im =
     (let decision = cache_query d im in
      \<lparr>kr_decision = decision,
       kr_entry = (case query_cache_entry (cd_entry decision) im of Inl _ \<Rightarrow> no_entry | Inr e \<Rightarrow> e)\<rparr>)"

definition serve_cache_query :: "bytes \<Rightarrow> connection \<Rightarrow> impl \<Rightarrow> served" where
  "serve_cache_query payload c im =
     (case decode_payload read_cache_query payload of
        None \<Rightarrow> malformed ''CACHE_QUERY'' c im
      | Some d \<Rightarrow>
         (case written (encode_cache_report (cache_report_for d im)) of
            None \<Rightarrow> (Inl Thrown, c, im)
          | Some inner \<Rightarrow> (Inr (Report_Cache inner), c, im)))"

definition serve_audit :: "connection \<Rightarrow> impl \<Rightarrow> served" where
  "serve_audit c im =
     (let r = audit im in
      (Inr (Respond (if ar_clean r then success else error Err_ValidationFailure ''audit findings present'')
        (text_bytes (render_audit r))), c, im))"

definition serve_cancel :: "bytes \<Rightarrow> connection \<Rightarrow> impl \<Rightarrow> served" where
  "serve_cancel payload c im =
     (case decode_payload decode_control_record payload of
        None \<Rightarrow> malformed ''CANCEL_ATTEMPT'' c im
      | Some ctl \<Rightarrow> reply_to (cancel (cx_compilation ctl) (cx_reason ctl)) c im)"

section \<open>Queries\<close>

text \<open>The text a query asks for; kind 8, the bytes of an artifact, is answered apart.\<close>

definition query_text :: "query_message \<Rightarrow> impl \<Rightarrow> string res" where
  "query_text q im =
     (if qm_kind q = 0 then map_sum id render_compilation (query_compilation (Ident (qm_id q)) im)
      else if qm_kind q = 1 then map_sum id render_attempt (query_attempt (Ident (qm_id q)) im)
      else if qm_kind q = 2 then Inr (render_audit (audit im))
      else if qm_kind q = 3 then Inr (concat (map render_worker (all_workers im)))
      else if qm_kind q = 4 then Inr (render_cache_decision (cache_query (qm_identity q) im))
      else if qm_kind q = 5 then map_sum id render_job (query_job (qm_identity q) im)
      else if qm_kind q = 6 then Inr (concat (map render_provenance (all_provenances im)))
      else if qm_kind q = 7 then Inr (concat (map render_commit (all_commits im)))
      else if qm_kind q = 9 then Inr (render_explain (explain (Ident (qm_id q)) im))
      else Inl (error Err_Unsupported ''unsupported query kind''))"

definition serve_query :: "bytes \<Rightarrow> connection \<Rightarrow> impl \<Rightarrow> served" where
  "serve_query payload c im =
     (case decode_payload read_query payload of
        None \<Rightarrow> malformed ''QUERY'' c im
      | Some q \<Rightarrow>
         if qm_kind q = 8 then
           (case artifact_bytes (Ident (qm_id q)) im of
              (Inl st, im1) \<Rightarrow> reply st c im1
            | (Inr bs, im1) \<Rightarrow> (Inr (Respond success bs), c, im1))
         else (case query_text q im of
              Inl st \<Rightarrow> reply st c im
            | Inr t \<Rightarrow> (Inr (Respond success (text_bytes t)), c, im)))"

definition serve :: "smoke_answer \<Rightarrow> wire_frame \<Rightarrow> connection \<Rightarrow> impl \<Rightarrow> served" where
  "serve smoke f c im =
     (case fr_op f of
        Op_Hello \<Rightarrow> serve_hello (fr_payload f) c im
      | Op_RegisterWorker \<Rightarrow> serve_register (fr_payload f) c im
      | Op_AdvertiseToolchain \<Rightarrow> serve_advertise (fr_payload f) c im
      | Op_WorkerReady \<Rightarrow> serve_ready c im
      | Op_Heartbeat \<Rightarrow> serve_heartbeat c im
      | Op_BeginCompile \<Rightarrow> serve_begin (fr_payload f) c im
      | Op_ReportOutput \<Rightarrow> serve_report smoke (fr_payload f) c im
      | Op_FailAttempt \<Rightarrow> serve_failure (fr_payload f) c im
      | Op_ValidateResponse \<Rightarrow> serve_evidence (fr_payload f) c im
      | Op_SubmitCompilation \<Rightarrow> serve_submit (fr_payload f) c im
      | Op_CacheQuery \<Rightarrow> serve_cache_query (fr_payload f) c im
      | Op_Audit \<Rightarrow> serve_audit c im
      | Op_Snapshot \<Rightarrow> reply_to coordinator_snapshot c im
      | Op_CancelAttempt \<Rightarrow> serve_cancel (fr_payload f) c im
      | Op_Shutdown \<Rightarrow> reply success c (snd (shutdown_sessions im))
      | Op_Query \<Rightarrow> serve_query (fr_payload f) c im
      | _ \<Rightarrow> reply (error Err_ProtocolViolation
          (''op '' @ op_string (fr_op f) @ '' is not accepted by the coordinator'')) c im)"

section \<open>Frames of one connection\<close>

text \<open>
  One frame of the stream, and whether it asked the service to stop.  A frame that does not
  decode is answered with its error under request 0.
\<close>

definition serve_raw :: "smoke_answer \<Rightarrow> bytes \<Rightarrow> connection \<Rightarrow> impl \<Rightarrow> (bool \<times> connection \<times> impl) outcome" where
  "serve_raw smoke raw c im =
     (case decode_frame raw of
        Inl st \<Rightarrow> map_sum id (\<lambda>c1. (False, c1, im)) (send_response 0 Op_Error st [] c)
      | Inr f \<Rightarrow>
         (case serve smoke f c im of
            (Inl s, c1, im1) \<Rightarrow> Inl s
          | (Inr (Respond st payload), c1, im1) \<Rightarrow>
              map_sum id (\<lambda>c2. (fr_op f = Op_Shutdown, c2, im1))
                (send_response (fr_request_id f) (fr_op f) st payload c1)
          | (Inr (Report_Cache inner), c1, im1) \<Rightarrow>
              Inr (False, queue_frame Op_CacheReport (fr_request_id f) inner c1, im1)))"

text \<open>The frames of one read, with the answer to the smoke test that each may ask for.\<close>

fun serve_frames ::
    "(nat \<Rightarrow> smoke_answer) \<Rightarrow> bytes list \<Rightarrow> connection \<Rightarrow> impl \<Rightarrow> (bool \<times> connection \<times> impl) outcome" where
  "serve_frames smokes [] c im = Inr (False, c, im)"
| "serve_frames smokes (raw # raws) c im =
     (case serve_raw (smokes 0) raw c im of
        Inl s \<Rightarrow> Inl s
      | Inr (stop_now, c1, im1) \<Rightarrow>
          if stop_now then Inr (True, c1, im1) else serve_frames (\<lambda>i. smokes (Suc i)) raws c1 im1)"

section \<open>One pass of the loop\<close>

datatype send_answer = Send_Idle | Send_Failed | Sent nat
datatype recv_answer = Recv_Idle | Recv_Gone | Recv_Blocked | Recv_Data bytes

record io =
  io_send :: send_answer
  io_recv :: recv_answer
  io_smoke :: "nat \<Rightarrow> smoke_answer"

definition after_send :: "connection \<Rightarrow> connection" where
  "after_send c =
     (if cn_sent c \<ge> length (cn_outgoing c) then c\<lparr>cn_outgoing := [], cn_sent := 0\<rparr>
      else if length (cn_outgoing c) > kMaxOutboundBytes then c\<lparr>cn_closing := True\<rparr> else c)"

fun flush_outgoing :: "send_answer \<Rightarrow> connection \<Rightarrow> connection" where
  "flush_outgoing Send_Idle c = c"
| "flush_outgoing Send_Failed c = after_send (c\<lparr>cn_closing := True\<rparr>)"
| "flush_outgoing (Sent n) c = after_send (c\<lparr>cn_sent := cn_sent c + n\<rparr>)"

text \<open>
  The bytes of a read.  A protocol violation closes the connection, and with it go the
  complete frames that the same read had already yielded.
\<close>

definition take_data :: "(nat \<Rightarrow> smoke_answer) \<Rightarrow> bytes \<Rightarrow> connection \<Rightarrow> impl \<Rightarrow> (bool \<times> connection \<times> impl) outcome" where
  "take_data smokes bs c im =
     (case feed bs (cn_reader c) of (st, raws, r) \<Rightarrow>
        if \<not> st_ok st then Inr (False, c\<lparr>cn_reader := r, cn_closing := True\<rparr>, im)
        else serve_frames smokes raws (c\<lparr>cn_reader := r\<rparr>) im)"

definition attend :: "io \<Rightarrow> connection \<Rightarrow> impl \<Rightarrow> (bool \<times> connection \<times> impl) outcome" where
  "attend x c im =
     (let c1 = flush_outgoing (io_send x) c in
      if cn_closing c1 then Inr (False, c1, im)
      else case io_recv x of
        Recv_Data bs \<Rightarrow> take_data (io_smoke x) bs c1 im
      | Recv_Gone \<Rightarrow> Inr (False, c1\<lparr>cn_closing := True\<rparr>, im)
      | _ \<Rightarrow> Inr (False, c1, im))"

fun attend_all :: "(nat \<Rightarrow> io) \<Rightarrow> connection list \<Rightarrow> impl \<Rightarrow> (bool \<times> connection list \<times> impl) outcome" where
  "attend_all ios [] im = Inr (False, [], im)"
| "attend_all ios (c # cs) im =
     (case attend (ios 0) c im of
        Inl s \<Rightarrow> Inl s
      | Inr (stop_now, c1, im1) \<Rightarrow>
         (case attend_all (\<lambda>i. ios (Suc i)) cs im1 of
            Inl s \<Rightarrow> Inl s
          | Inr (stop_later, cs1, im2) \<Rightarrow> Inr (stop_now \<or> stop_later, c1 # cs1, im2)))"

text \<open>The first connection of a session.\<close>

fun to_session :: "session_id \<Rightarrow> (connection \<Rightarrow> connection outcome) \<Rightarrow> connection list \<Rightarrow> connection list outcome" where
  "to_session i f [] = Inr []"
| "to_session i f (c # cs) =
     (if cn_session c \<noteq> i then map_sum id (\<lambda>cs1. c # cs1) (to_session i f cs)
      else map_sum id (\<lambda>c1. c1 # cs) (f c))"

definition deliver_assignment :: "assignment \<Rightarrow> connection list \<Rightarrow> connection list outcome" where
  "deliver_assignment a = to_session (as_session a) (\<lambda>c.
     case written (encode_assignment a) of
       None \<Rightarrow> Inl Thrown
     | Some payload \<Rightarrow> Inr (queue_frame Op_Assign 0 payload c))"

definition control_frame :: "impl \<Rightarrow> control_message \<Rightarrow> op \<times> writer" where
  "control_frame im ctl =
     (case cx_kind ctl of
        CK_Shutdown \<Rightarrow> (Op_Shutdown, encode_control_record ctl)
      | CK_CommitNotification \<Rightarrow> (Op_CommitArtifact, encode_commit_message
          \<lparr>mg_control = ctl, mg_commit = (case query_commit (cx_compilation ctl) im of
             Inl _ \<Rightarrow> no_commit | Inr k \<Rightarrow> k)\<rparr>)
      | CK_CancelAttempt \<Rightarrow> (Op_CancelAttempt, encode_control_record ctl))"

definition deliver_control :: "impl \<Rightarrow> control_message \<Rightarrow> connection list \<Rightarrow> connection list outcome" where
  "deliver_control im ctl cs =
     (case control_frame im ctl of (x, w) \<Rightarrow>
      case written w of
        None \<Rightarrow> Inl Thrown
      | Some payload \<Rightarrow> to_session (cx_session ctl) (\<lambda>c. Inr (queue_frame x 0 payload c)) cs)"

fun deliver_all :: "('m \<Rightarrow> connection list \<Rightarrow> connection list outcome) \<Rightarrow> 'm list \<Rightarrow> connection list \<Rightarrow> connection list outcome" where
  "deliver_all f [] cs = Inr cs"
| "deliver_all f (m # ms) cs = (case f m cs of Inl s \<Rightarrow> Inl s | Inr cs1 \<Rightarrow> deliver_all f ms cs1)"

definition release_session :: "string \<Rightarrow> connection \<Rightarrow> impl \<Rightarrow> impl" where
  "release_session reason c im = (if id_is_zero (cn_session c) then im else snd (disconnect_session (cn_session c) reason im))"

fun reap :: "connection list \<Rightarrow> impl \<Rightarrow> connection list \<times> impl" where
  "reap [] im = ([], im)"
| "reap (c # cs) im =
     (if cn_closing c then reap cs (release_session ''connection closed'' c im)
      else (case reap cs im of (cs1, im1) \<Rightarrow> (c # cs1, im1)))"

text \<open>
  A connection accepted in a pass was not in the set that the pass selected on, so it has
  nothing to read or to send yet.
\<close>

record service =
  se_connections :: "connection list"
  se_impl :: impl
  se_running :: bool

definition service_pass :: "bool \<Rightarrow> (nat \<Rightarrow> io) \<Rightarrow> service \<Rightarrow> service outcome" where
  "service_pass accepted ios s =
     (case attend_all ios (se_connections s) (se_impl s) of
        Inl e \<Rightarrow> Inl e
      | Inr (stop_now, cs0, im1) \<Rightarrow>
      let cs1 = cs0 @ (if accepted then [new_connection] else []) in
      case pump im1 of (assignments, im2) \<Rightarrow>
      case deliver_all deliver_assignment assignments cs1 of
        Inl e \<Rightarrow> Inl e
      | Inr cs2 \<Rightarrow>
      case drain_controls im2 of (controls, im3) \<Rightarrow>
      case deliver_all (deliver_control im3) controls cs2 of
        Inl e \<Rightarrow> Inl e
      | Inr cs3 \<Rightarrow>
      case reap cs3 im3 of (cs4, im4) \<Rightarrow>
        Inr \<lparr>se_connections = cs4, se_impl = im4, se_running = \<not> stop_now\<rparr>)"

text \<open>What follows the loop.\<close>

definition service_stop :: "service \<Rightarrow> impl" where
  "service_stop s =
     coordinator_close (snd (coordinator_snapshot
       (fold (release_session ''coordinator shutdown'') (se_connections s) (se_impl s))))"

end
