(* ===== verification/DC_Answers.thy ===== *)
theory DC_Answers
  imports DC_Service
begin

text \<open>
  What the other end of a connection gets: that every request is answered and its answer
  arrives, what becomes of an answer that does not fit, what a peer that never reads costs, and
  which messages of the coordinator no peer can decode.
\<close>

section \<open>The bytes of a response\<close>

text \<open>A writer that puts out these bytes as long as the buffer has room.\<close>

definition puts :: "writer \<Rightarrow> bytes \<Rightarrow> bool" where
  "puts w bs \<longleftrightarrow> (\<forall>buf. length buf + length bs \<le> max_total_bytes \<longrightarrow> w buf = Some (buf @ bs))"

lemma puts_written: "puts w bs \<Longrightarrow> length bs \<le> max_total_bytes \<Longrightarrow> written w = Some bs"
  by (simp add: puts_def written_def)

lemma puts_bytes: "puts (w_bytes bs) bs"
  by (simp add: puts_def w_bytes_def)

lemma puts_then: "puts v b1 \<Longrightarrow> puts w b2 \<Longrightarrow> puts (w_then v w) (b1 @ b2)"
  by (simp add: puts_def w_then_def)

lemma puts_seq: "list_all2 puts ws bss \<Longrightarrow> puts (w_seq ws) (concat bss)"
  by (induction rule: list_all2_induct) (simp_all add: puts_then, simp add: puts_def)

lemma puts_domain: "length tag \<le> max_domain_tag \<Longrightarrow> puts (w_domain tag) (of_nat (length tag) # map char_byte tag)"
  by (simp add: puts_def w_domain_def w_bytes_def max_domain_tag_def)

lemma puts_str: "length s \<le> max_string_bytes \<Longrightarrow> puts (w_str s) (le_bytes 4 (of_nat (length s) :: u32) @ map char_byte s)"
  by (simp add: puts_def w_str_def w_then_def w_u32_def w_bytes_def)

lemma puts_blob: "length bs \<le> max_blob_bytes \<Longrightarrow> puts (w_blob bs) (le_bytes 4 (of_nat (length bs) :: u32) @ bs)"
  by (simp add: puts_def w_blob_def w_then_def w_u32_def w_bytes_def)

text \<open>A response is 31 bytes more than its detail and its payload.\<close>

definition response_bytes :: "response \<Rightarrow> bytes" where
  "response_bytes v = concat
     [of_nat (length ''dc.msg.response.v1'') # map char_byte ''dc.msg.response.v1'',
      le_bytes 2 (op_value (rp_op v)), le_bytes 2 (error_code_value (rp_code v)),
      le_bytes 4 (of_nat (length (rp_detail v)) :: u32) @ map char_byte (rp_detail v),
      le_bytes 4 (of_nat (length (rp_payload v)) :: u32) @ rp_payload v]"

lemma length_response_bytes: "length (response_bytes v) = 31 + length (rp_detail v) + length (rp_payload v)"
  by (simp add: response_bytes_def)

lemma response_written:
  assumes "length (rp_detail v) \<le> max_string_bytes" "length (rp_payload v) \<le> max_blob_bytes"
    "31 + length (rp_detail v) + length (rp_payload v) \<le> max_total_bytes"
  shows "written (encode_response v) = Some (response_bytes v)"
proof -
  have "puts (encode_response v) (response_bytes v)"
    unfolding encode_response_def response_bytes_def
    by (rule puts_seq)
      (rule list.rel_intros puts_domain puts_str puts_blob assms
        | simp only: w_op_def w_error_def w_u16_def puts_bytes | simp add: max_domain_tag_def; fail)+
  then show ?thesis by (rule puts_written) (use assms in \<open>simp add: length_response_bytes\<close>)
qed

section \<open>A request is answered\<close>

text \<open>Dispatch may change the session and the role of a connection, never what it has queued.\<close>

definition queue_of :: "connection \<Rightarrow> bytes \<times> nat \<times> bool \<times> frame_reader" where
  "queue_of c = (cn_outgoing c, cn_sent c, cn_closing c, cn_reader c)"

lemma queue_of_changes [simp]:
  "queue_of (c\<lparr>cn_session := i\<rparr>) = queue_of c" "queue_of (c\<lparr>cn_role := r, cn_handshaked := h\<rparr>) = queue_of c"
  by (simp_all add: queue_of_def)

lemma reply_queue [simp]:
  "fst (snd (reply st c im)) = c" "fst (snd (malformed w c im)) = c" "fst (snd (reply_written x c im)) = c"
  "fst (snd (reply_stop s c im)) = c" "fst (snd (reply_to g c im)) = c"
  by (simp_all add: reply_def malformed_def reply_written_def reply_stop_def reply_to_def case_prod_beta
      split: option.split stop.split)

lemma serve_queue: "queue_of (fst (snd (serve smoke f c im))) = queue_of c"
  by (cases "fr_op f")
    (simp_all add: serve_def serve_hello_def serve_register_def serve_advertise_def serve_ready_def
      serve_heartbeat_def serve_begin_def serve_failure_def serve_evidence_def serve_submit_def
      serve_cache_query_def serve_audit_def serve_cancel_def serve_query_def serve_report_def Let_def
      case_prod_beta split: option.split sum.split)

lemma queue_of_fields:
  "queue_of a = queue_of b \<Longrightarrow> cn_outgoing a = cn_outgoing b \<and> cn_sent a = cn_sent b
     \<and> cn_closing a = cn_closing b \<and> cn_reader a = cn_reader b"
  by (simp add: queue_of_def)

text \<open>
  The connection while its socket is writable: each pass hands the kernel what is pending, and
  the kernel takes at most \<open>n\<close> bytes of it.  The result is what goes over the wire, and the
  connection afterwards.
\<close>

fun transmit :: "nat list \<Rightarrow> connection \<Rightarrow> bytes list \<times> connection" where
  "transmit [] c = ([], c)"
| "transmit (n # ns) c =
     (if cn_sent c \<ge> length (cn_outgoing c) then transmit ns c
      else (case transmit ns (flush_outgoing (Sent (length (take n (drop (cn_sent c) (cn_outgoing c))))) c) of
        (chunks, c1) \<Rightarrow> (take n (drop (cn_sent c) (cn_outgoing c)) # chunks, c1)))"

lemma transmit_all:
  "\<forall>n\<in>set ns. 0 < n \<Longrightarrow> length (cn_outgoing c) - cn_sent c \<le> length ns \<Longrightarrow>
   length (cn_outgoing c) \<le> kMaxOutboundBytes \<Longrightarrow> cn_sent c < length (cn_outgoing c) \<Longrightarrow> \<not> cn_closing c \<Longrightarrow>
   concat (fst (transmit ns c)) = drop (cn_sent c) (cn_outgoing c)
   \<and> snd (transmit ns c) = c\<lparr>cn_outgoing := [], cn_sent := 0\<rparr>"
proof (induction ns arbitrary: c)
  case Nil
  then show ?case by simp
next
  case (Cons n ns)
  define k where "k = min n (length (cn_outgoing c) - cn_sent c)"
  have len: "length (take n (drop (cn_sent c) (cn_outgoing c))) = k" by (simp add: k_def min.commute)
  have k: "0 < k" "cn_sent c + k \<le> length (cn_outgoing c)" using Cons.prems by (auto simp: k_def)
  have chunk: "take n (drop (cn_sent c) (cn_outgoing c)) = take k (drop (cn_sent c) (cn_outgoing c))"
    by (simp add: k_def min_def)
  have step: "transmit (n # ns) c = (case transmit ns (flush_outgoing (Sent k) c) of
      (chunks, c1) \<Rightarrow> (take k (drop (cn_sent c) (cn_outgoing c)) # chunks, c1))"
    using Cons.prems(4) by (simp only: transmit.simps len, simp only: chunk, simp)
  show ?case
  proof (cases "cn_sent c + k = length (cn_outgoing c)")
    case True
    have idle: "transmit ms d = ([], d)" if "cn_outgoing d = []" for ms d
      using that by (induction ms) simp_all
    from True have all: "take k (drop (cn_sent c) (cn_outgoing c)) = drop (cn_sent c) (cn_outgoing c)" by simp
    have "flush_outgoing (Sent k) c = c\<lparr>cn_outgoing := [], cn_sent := 0\<rparr>"
      using True by (simp add: after_send_def)
    with all show ?thesis by (simp only: step, simp add: idle)
  next
    case False
    with k have part: "cn_sent c + k < length (cn_outgoing c)" by simp
    then have flushed: "flush_outgoing (Sent k) c = c\<lparr>cn_sent := cn_sent c + k\<rparr>"
      using Cons.prems(3) by (simp add: after_send_def)
    have "concat (fst (transmit ns (c\<lparr>cn_sent := cn_sent c + k\<rparr>))) = drop (cn_sent c + k) (cn_outgoing c)
        \<and> snd (transmit ns (c\<lparr>cn_sent := cn_sent c + k\<rparr>)) = c\<lparr>cn_outgoing := [], cn_sent := 0\<rparr>"
      using Cons.IH [of "c\<lparr>cn_sent := cn_sent c + k\<rparr>"] Cons.prems part k by simp
    moreover have "take k (drop (cn_sent c) (cn_outgoing c)) @ drop (cn_sent c + k) (cn_outgoing c) =
        drop (cn_sent c) (cn_outgoing c)"
      by (metis append_take_drop_id drop_drop add.commute)
    ultimately show ?thesis by (simp only: step flushed, simp add: case_prod_beta)
  qed
qed

text \<open>The frame that carries a response.\<close>

definition response_frame :: "wire_frame \<Rightarrow> status \<Rightarrow> bytes \<Rightarrow> wire_frame" where
  "response_frame f st payload = \<lparr>fr_op = Op_Response, fr_request_id = fr_request_id f,
     fr_payload = response_bytes \<lparr>rp_op = fr_op f, rp_code = st_code st, rp_detail = st_detail st, rp_payload = payload\<rparr>\<rparr>"

lemma respond_queues:
  assumes "decode_frame raw = Inr f" "serve smoke f c im = (Inr (Respond st payload), c1, im1)"
    and "length (st_detail st) \<le> max_string_bytes" "55 + length (st_detail st) + length payload \<le> 16777216"
  shows "\<exists>img. encode_frame (response_frame f st payload) = Inr img
    \<and> length img = 59 + length (st_detail st) + length payload
    \<and> frame_fits 16777216 (response_frame f st payload)
    \<and> serve_raw smoke raw c im = Inr (fr_op f = Op_Shutdown, c1\<lparr>cn_outgoing := cn_outgoing c1 @ img\<rparr>, im1)"
proof -
  let ?v = "\<lparr>rp_op = fr_op f, rp_code = st_code st, rp_detail = st_detail st, rp_payload = payload\<rparr>"
  have written: "written (encode_response ?v) = Some (response_bytes ?v)"
    by (rule response_written) (use assms(3,4) in \<open>simp_all add: max_blob_bytes_def max_total_bytes_def\<close>)
  have small: "length (fr_payload (response_frame f st payload)) \<le> 16777216"
    using assms(4) by (simp add: response_frame_def length_response_bytes)
  from encode_frame_image [OF this] obtain img where img: "encode_frame (response_frame f st payload) = Inr img"
    "length img = 28 + length (fr_payload (response_frame f st payload))" by simp
  then have "serve_raw smoke raw c im = Inr (fr_op f = Op_Shutdown, c1\<lparr>cn_outgoing := cn_outgoing c1 @ img\<rparr>, im1)"
    using assms(1,2) written by (simp add: serve_raw_def send_response_def queue_frame_def response_frame_def)
  with img assms(4) show ?thesis
    by (simp add: response_frame_def length_response_bytes frame_fits_def kWireHeaderBytes_def)
qed


section \<open>A peer that never reads\<close>

text \<open>Passes in which the socket is never writable and the same data arrives.\<close>

fun starve :: "nat \<Rightarrow> io \<Rightarrow> connection \<Rightarrow> impl \<Rightarrow> (bool \<times> connection \<times> impl) outcome" where
  "starve 0 x c im = Inr (False, c, im)"
| "starve (Suc n) x c im =
     (case attend x c im of
        Inl s \<Rightarrow> Inl s
      | Inr (b, c1, im1) \<Rightarrow> if b then Inr (b, c1, im1) else starve n x c1 im1)"

lemma serve_client_heartbeat:
  "fr_op f = Op_Heartbeat \<Longrightarrow> id_is_zero (cn_session c) \<Longrightarrow> serve smoke f c im = (Inr (Respond success []), c, im)"
  by (simp add: serve_def serve_heartbeat_def reply_def)

lemma starve_once:
  assumes "io_send x = Send_Idle" "io_recv x = Recv_Data raw" "encode_frame f = Inr raw" "frame_fits 16777216 f"
    "fr_op f = Op_Heartbeat" "\<not> cn_closing c" "id_is_zero (cn_session c)" "rd_limit (cn_reader c) = 16777216"
    "rd_buffer (cn_reader c) = []"
  shows "\<exists>c1. attend x c im = Inr (False, c1, im) \<and> length (cn_outgoing c1) = length (cn_outgoing c) + 59
    \<and> \<not> cn_closing c1 \<and> id_is_zero (cn_session c1) \<and> rd_limit (cn_reader c1) = 16777216 \<and> rd_buffer (cn_reader c1) = []"
proof -
  define r where "r = (cn_reader c)\<lparr>rd_buffer := [], rd_frames := rd_frames (cn_reader c) + 1\<rparr>"
  have fed: "feed raw (cn_reader c) = (success, [raw], r)"
    using feed_loop_frames [of "[f]" 16777216 "[raw]"] assms(3,4,8,9) by (simp add: feed_def r_def)
  have dec: "decode_frame raw = Inr f" using frame_decoded assms(3,4) by (simp add: frame_fits_def)
  have "serve (io_smoke x 0) f (c\<lparr>cn_reader := r\<rparr>) im = (Inr (Respond success []), c\<lparr>cn_reader := r\<rparr>, im)"
    using assms(5,7) by (intro serve_client_heartbeat) simp_all
  from respond_queues [OF dec this] obtain img where "length img = 59"
    "serve_raw (io_smoke x 0) raw (c\<lparr>cn_reader := r\<rparr>) im = Inr (False, c\<lparr>cn_reader := r, cn_outgoing := cn_outgoing c @ img\<rparr>, im)"
    using assms(5) by (auto simp: success_def)
  with assms fed show ?thesis by (simp add: attend_def take_data_def r_def)
qed

text \<open>
  C32: A peer that never reads is never disconnected.  The bound on the backlog is looked at only
  after a send, and a send is tried only when the socket is writable.  A client that keeps sending
  heartbeats and never reads - its socket never becomes writable again - is answered each time,
  stays connected, and after \<open>n\<close> passes has 59 bytes queued for each of them: for \<open>n\<close> large enough
  any number of bytes above the bound of 64 MiB.
\<close>

theorem unread_backlog_grows:
  assumes "io_send x = Send_Idle" "io_recv x = Recv_Data raw" "encode_frame f = Inr raw" "frame_fits 16777216 f"
    "fr_op f = Op_Heartbeat" "\<not> cn_closing c" "id_is_zero (cn_session c)" "rd_limit (cn_reader c) = 16777216"
    "rd_buffer (cn_reader c) = []"
  shows "\<exists>c1. starve n x c im = Inr (False, c1, im) \<and> \<not> cn_closing c1
    \<and> length (cn_outgoing c1) = length (cn_outgoing c) + 59 * n"
  using assms(6-)
proof (induction n arbitrary: c)
  case 0
  then show ?case by simp
next
  case (Suc n)
  from starve_once [OF assms(1-5) Suc.prems] obtain c1 where "attend x c im = Inr (False, c1, im)"
    "length (cn_outgoing c1) = length (cn_outgoing c) + 59" "\<not> cn_closing c1" "id_is_zero (cn_session c1)"
    "rd_limit (cn_reader c1) = 16777216" "rd_buffer (cn_reader c1) = []" by blast
  with Suc.IH [of c1] show ?case by auto
qed

section \<open>Concrete instances\<close>

lemma sample_frame_facts: "fr_op sample_frame = Op_Heartbeat" "frame_fits 16777216 sample_frame"
  by (simp_all add: sample_frame_def frame_fits_def kWireHeaderBytes_def)


theorem unread_backlog_grows_witness:
  "\<exists>raw x c1. encode_frame sample_frame = Inr raw \<and> io_recv x = Recv_Data raw
    \<and> starve 2000000 x new_connection sample_impl = Inr (False, c1, sample_impl)
    \<and> \<not> cn_closing c1 \<and> kMaxOutboundBytes < length (cn_outgoing c1)"
proof -
  obtain raw where raw: "encode_frame sample_frame = Inr raw"
    by (simp add: encode_frame_def sample_frame_def kMaxFrameBytes_def)
  let ?x = "\<lparr>io_send = Send_Idle, io_recv = Recv_Data raw, io_smoke = (\<lambda>_. Smoke_NotRun)\<rparr>"
  have "\<exists>c1. starve 2000000 ?x new_connection sample_impl = Inr (False, c1, sample_impl) \<and> \<not> cn_closing c1
      \<and> length (cn_outgoing c1) = length (cn_outgoing new_connection) + 59 * 2000000"
    by (rule unread_backlog_grows [of ?x raw sample_frame])
      (simp_all add: raw sample_frame_facts new_connection_def new_reader_def kMaxFrameBytes_def id_is_zero_def)
  then obtain c1 where "starve 2000000 ?x new_connection sample_impl = Inr (False, c1, sample_impl)"
    "\<not> cn_closing c1" "kMaxOutboundBytes < length (cn_outgoing c1)" by (auto simp: kMaxOutboundBytes_def)
  with raw show ?thesis by (intro exI [of _ raw] exI [of _ ?x] exI [of _ c1]) simp
qed

end
