(* ===== verification/DC_Notices.thy ===== *)
theory DC_Notices
  imports DC_Service DC_Coordinator
begin

text \<open>
  The messages of the service that no peer can decode.  The writer puts out a handle of zero
  like any other and the reader refuses it, so a message with an unused handle is lost: every
  notification to a worker, the answer to a refused report, the report of a cache miss, and the
  cancellation that the command line asks for.
\<close>

section \<open>Messages that are written\<close>

text \<open>A writer that succeeds as long as the buffer has room for this many bytes.\<close>

definition needs :: "writer \<Rightarrow> nat \<Rightarrow> bool" where
  "needs w k \<longleftrightarrow> (\<forall>buf. length buf + k \<le> max_total_bytes \<longrightarrow> (\<exists>out. w buf = Some out \<and> length out \<le> length buf + k))"

lemma needs_written: "needs w k \<Longrightarrow> k \<le> max_total_bytes \<Longrightarrow> \<exists>payload. written w = Some payload"
  by (force simp: needs_def written_def)

lemma needs_none: "needs Some k"
  by (simp add: needs_def)

lemma needs_then: "needs v j \<Longrightarrow> needs w k \<Longrightarrow> needs (w_then v w) (j + k)"
  unfolding needs_def
proof (intro allI impI)
  fix buf :: bytes
  assume v: "\<forall>buf. length buf + j \<le> max_total_bytes \<longrightarrow> (\<exists>out. v buf = Some out \<and> length out \<le> length buf + j)"
    and w: "\<forall>buf. length buf + k \<le> max_total_bytes \<longrightarrow> (\<exists>out. w buf = Some out \<and> length out \<le> length buf + k)"
    and room: "length buf + (j + k) \<le> max_total_bytes"
  from v [rule_format, of buf] room obtain mid where "v buf = Some mid" "length mid \<le> length buf + j" by auto
  with w [rule_format, of mid] room show "\<exists>out. w_then v w buf = Some out \<and> length out \<le> length buf + (j + k)"
    by (force simp: w_then_def)
qed

lemma needs_seq: "list_all2 needs ws ks \<Longrightarrow> sum_list ks = n \<Longrightarrow> needs (w_seq ws) n"
  by (induction arbitrary: n rule: list_all2_induct) (auto simp: needs_then, simp add: needs_def)

lemma needs_bytes: "length bs \<le> k \<Longrightarrow> needs (w_bytes bs) k"
  by (simp add: needs_def w_bytes_def)

lemma needs_prims:
  "needs (w_id i) 8" "needs (w_gen g) 8" "needs (w_millis t) 8" "needs (w_digest d) 32" "needs (w_u8 x) (Suc 0)"
  "needs (w_u16 y) 2" "needs (w_u32 z) 4" "needs (w_bool b) (Suc 0)"
  by (simp_all add: w_id_def w_gen_def w_millis_def w_i64_def w_u64_def w_digest_def w_u8_def w_u16_def w_u32_def
      w_bool_def needs_bytes)

lemma needs_str: "length s \<le> max_string_bytes \<Longrightarrow> length s + 4 \<le> k \<Longrightarrow> needs (w_str s) k"
  by (simp add: needs_def w_str_def w_then_def w_u32_def w_bytes_def)

lemma needs_domain: "length tag \<le> max_domain_tag \<Longrightarrow> length tag < k \<Longrightarrow> needs (w_domain tag) k"
  by (simp add: needs_def w_domain_def w_bytes_def max_domain_tag_def)

section \<open>Messages with a handle of zero\<close>

text \<open>A zero handle somewhere in a list of fields that would otherwise be read back.\<close>

lemma refuses_id_field:
  assumes "i \<noteq> Ident 0 \<Longrightarrow> refuses (w_seq ws) (f i) zero_handle" "list_all appends ws"
  shows "refuses (w_seq (w_id i # ws)) (r_bind r_id f) zero_handle"
proof (cases "i = Ident 0")
  case True
  then show ?thesis using refuses_now [OF refuses_zero_id assms(2)] by simp
next
  case False
  show ?thesis by (rule refuses_seq [where f = f, OF faithful_id [OF False] assms(1) [OF False]])
qed

lemma payload_refused: "refuses w p e \<Longrightarrow> written w = Some payload \<Longrightarrow> decode_payload p payload = None"
  using refuses_start [of w p e payload] by (simp add: written_def decode_payload_def)

lemma control_refused:
  assumes "\<not> control_record_encodable v"
  shows "refuses (encode_control_record v) decode_control_record zero_handle"
  unfolding encode_control_record_def decode_control_record_def
  by (rule refuses_seq [OF faithful_domain] refuses_id_field refuses_seq [OF faithful_gen]
        refuses_seq [OF faithful_wire_enums(2)]
    | (simp add: appends_prims; fail)
    | (use assms in \<open>simp add: control_record_encodable_def\<close>; fail))+

lemma commit_appends: "appends (encode_commit k)"
  unfolding encode_commit_def by (rule appends_seq) (simp add: appends_prims)

lemma commit_message_refused:
  assumes "\<not> control_record_encodable (mg_control m)"
  shows "refuses (encode_commit_message m) read_commit_message zero_handle"
  unfolding encode_commit_message_def read_commit_message_def
  by (rule refuses_seq [OF faithful_domain], rule refuses_now [OF control_refused [OF assms]])
    (simp add: commit_appends)

section \<open>Notifications\<close>

lemma controls_unencodable [simp]:
  "\<not> control_record_encodable (cancel_control im c a reason)"
  "\<not> control_record_encodable (commit_control s c a k)"
  "\<not> control_record_encodable (shutdown_control i)"
  by (simp_all add: control_record_encodable_def cancel_control_def commit_control_def shutdown_control_def)

text \<open>The messages waiting for delivery: what a step adds cannot be decoded.\<close>

definition notices :: "nat \<Rightarrow> impl \<Rightarrow> impl \<Rightarrow> bool" where
  "notices n a b \<longleftrightarrow> (\<forall>x \<in> set (cs_controls (im_state b)).
     x \<in> set (cs_controls (im_state a)) \<or> \<not> control_record_encodable x)"

interpretation noticing: counted_run notices
  by unfold_locales (auto simp: notices_def)

lemma notices_same: "cs_controls (im_state b) = cs_controls (im_state a) \<Longrightarrow> notices n a b"
  by (simp add: notices_def)

lemma notices_push: "\<not> control_record_encodable x \<Longrightarrow> notices 0 im (push_control x im)"
  by (auto simp: notices_def push_control_def upd_state_def)

lemma notices_then: "notices 0 a b \<Longrightarrow> cs_controls (im_state c) = cs_controls (im_state b) \<Longrightarrow> notices 0 a c"
  by (simp add: notices_def)

lemma withdraw_authority_notices: "cs_controls (im_state (snd (withdraw_authority i im))) = cs_controls (im_state im)"
  by (simp add: withdraw_authority_def and_then_def must_def step_of_def case_prod_beta Let_def
      put_commit_def upd_state_def split: option.split)

interpretation notifying: submission_run notices
  by unfold_locales
    (simp_all add: notices_same side_update_def upd_state_def withdraw_authority_notices)

text \<open>The four operations that notify: a commit, a cancellation, the losers of a commit and a shutdown.\<close>

lemma losers_notices: "notices 0 im (enqueue_cancel_losers_from c w ids im)"
proof (induction ids arbitrary: im)
  case Nil
  then show ?case by (simp add: noticing.rel_refl)
next
  case (Cons i ids)
  have "notices 0 im (enqueue_cancel_losers_from c w ids (push_control (cancel_control im c a r) im))" for a r
    by (rule noticing.rel_trans0 [OF notices_push [OF controls_unencodable(1)] Cons.IH])
  with Cons.IH [of im] show ?case
    by (simp only: enqueue_cancel_losers_from.simps split: if_split option.split) simp
qed

lemma cancel_attempt_notices: "notices 0 im (cancel_attempt c reason k im)"
  using notices_then [OF notices_push [OF controls_unencodable(1)]]
  by (simp add: cancel_attempt_def noticing.rel_refl split: option.split)

lemma notices_from: "cs_controls (im_state b) = cs_controls (im_state a) \<Longrightarrow> notices 0 b c \<Longrightarrow> notices 0 a c"
  by (simp add: notices_def)

lemma cancel_leases_controls [simp]:
  "cs_controls (im_state (fold (cancel_lease c t) ks x)) = cs_controls (im_state x)"
  by (rule fold_keeps) simp

lemma cancel_notices: "notices 0 im (snd (cancel i reason im))"
proof -
  have attempts: "notices 0 im (fold (cancel_attempt c reason) ks im)" for c ks
    by (rule noticing.quiet_fold) (rule cancel_attempt_notices)
  show ?thesis
    using notices_then [OF attempts] by (simp add: cancel_def Let_def noticing.rel_refl split: option.split)
qed

lemma publish_commit_notices: "notices 0 im (snd (publish_commit s w a c v p k im))"
proof -
  have losers: "notices 0 im (enqueue_cancel_losers c i x)" if "cs_controls (im_state x) = cs_controls (im_state im)" for i x
    using losers_notices notices_from [OF that] by (simp add: enqueue_cancel_losers_def)
  have "notices 0 im (push_control (commit_control s c a k) y)"
    if "notices 0 im x" "cs_controls (im_state y) = cs_controls (im_state x)" for x y
    by (rule noticing.rel_trans0 [OF notices_then [OF that] notices_push]) simp
  then have "notices 0 im (push_control (commit_control s c a k) y)"
    if "cs_controls (im_state x) = cs_controls (im_state im)"
      "cs_controls (im_state y) = cs_controls (im_state (enqueue_cancel_losers c i x))" for i x y
    using losers [OF that(1)] that(2) by blast
  note published = this [where x = "mark_job_progress c (record_cache_entry c k p (record_intermediate c a p im))"
      and i = "ca_id a"]
  note unpublished = notices_then [OF losers
      [where x = "mark_job_progress c (record_cache_entry c k p (record_intermediate c a p im))" and i = "ca_id a"]]
  show ?thesis by (simp add: publish_commit_def Let_def case_prod_beta unpublished published)
qed

lemma commit_first_notices: "notices 0 im (snd (commit_first s w claim a c v im))"
proof (cases "ca_state a = AS_Produced \<or> ca_state a = AS_Validating")
  case True
  show ?thesis
    unfolding commit_first_eq [OF True]
    by (rule notices_from [OF _ publish_commit_notices]) (simp add: before_install_def)
next
  case False
  then show ?thesis by (simp add: commit_first_refused noticing.rel_refl)
qed

lemma commit_locked_notices: "notices 0 im (snd (commit_locked s out v im))"
proof -
  obtain r im' where eq: "commit_locked s out v im = (r, im')" by fastforce
  then have "notices 0 im im'"
  proof (cases rule: commit_locked_cases)
    case (error st)
    then show ?thesis by (simp add: noticing.rel_refl)
  next
    case (invalid a c)
    then show ?thesis by (metis notices_same refuse_invalid_frame snd_conv)
  next
    case (duplicate a c k)
    then show ?thesis by (metis notices_same commit_duplicate_frame snd_conv)
  next
    case (divergent a c k)
    then show ?thesis by (metis notices_same commit_divergent_frame snd_conv)
  next
    case (first a c w)
    then show ?thesis using commit_first_notices by (metis snd_conv)
  qed
  with eq show ?thesis by simp
qed

lemma report_commit_notices: "notices 0 im (snd (report_commit s out v im))"
proof -
  have "cs_controls (im_state (snd (report_commit s out v im))) = cs_controls (im_state im)
      \<or> report_commit s out v im = commit_locked s out v im"
    by (auto simp: report_commit_def Let_def case_prod_beta split: option.split)
  then show ?thesis using commit_locked_notices [of im s out v] notices_same by metis
qed

lemma shutdown_notices: "notices 0 im (snd (shutdown_sessions im))"
  by (auto simp: notices_def shutdown_sessions_def upd_state_def)

lemma drain_notices: "notices 0 im (snd (drain_controls im))"
  by (simp add: notices_def drain_controls_def upd_state_def)

lemma close_notices: "notices 0 im (coordinator_close im)"
  by (rule notices_same) (simp add: coordinator_close_def)

lemma run_operation_notices: "notices 0 im (run_operation x im)"
  by (cases x)
    (simp_all add: notices_same cancel_notices shutdown_notices drain_notices close_notices
      notifying.quiet_submit [THEN noticing.quietD])

lemma only_violations_controls:
  assumes "only_violations im im'"
  shows "cs_controls (im_state im') = cs_controls (im_state im)"
  by (subst assms [unfolded only_violations_def]) (simp add: upd_state_def)

lemma report_reserve_controls: "cs_controls (im_state (snd (report_reserve s out im))) = cs_controls (im_state im)"
  using report_gate_cases [where s = s and out = out and im = im]
  by (auto simp: report_reserve_def split: sum.splits dest: only_violations_controls)

lemma perform_notices: "notices 0 (sy_impl s) (sy_impl (perform e s))"
proof (cases e)
  case (Commit i r v)
  then show ?thesis by (simp add: noticing.rel_refl report_commit_notices)
next
  case (Call x)
  then show ?thesis by (simp add: run_operation_notices)
next
  case (Reserve i r)
  show ?thesis unfolding Reserve perform_reserve_impl by (rule notices_same) (rule report_reserve_controls)
next
  case (Validate i r rv answer)
  then show ?thesis by (simp add: Let_def noticing.rel_refl split: sum.split)
next
  case (Store i r v)
  then show ?thesis by (simp add: Let_def case_prod_beta notices_same)
qed (simp_all add: notices_same)

lemma reaches_notices: "reaches s0 n m s \<Longrightarrow> notices 0 (sy_impl s0) (sy_impl s)"
  by (induction rule: reaches.induct) (auto intro: noticing.rel_refl noticing.rel_trans0 perform_notices)

text \<open>
  C29: No notification reaches a worker.  In a coordinator that started with no message waiting,
  whatever runs: a message that it hands out for delivery as a cancellation or as the notice of
  a commit is encoded, and no worker can decode it.  So an attempt that is cancelled, or whose
  compilation another worker has committed, is never told to stop.
\<close>

theorem notifications_never_decode:
  assumes "reaches s0 n m s" "cs_controls (im_state (sy_impl s0)) = []"
    and "ctl \<in> set (fst (drain_controls (sy_impl s)))" "control_frame im ctl = (x, w)" "written w = Some payload"
  shows "(x = Op_CancelAttempt \<longrightarrow> decode_payload decode_control_record payload = None)
    \<and> (x = Op_CommitArtifact \<longrightarrow> decode_payload read_commit_message payload = None)"
proof -
  have bad: "\<not> control_record_encodable ctl"
    using reaches_notices [OF assms(1)] assms(2,3) by (auto simp: notices_def drain_controls_def)
  have message: "decode_payload read_commit_message payload = None"
    if "written (encode_commit_message \<lparr>mg_control = ctl, mg_commit = k\<rparr>) = Some payload" for k
    by (rule payload_refused [OF commit_message_refused that]) (simp add: bad)
  with payload_refused [OF control_refused [OF bad]] assms(4,5) show ?thesis
    by (cases "cx_kind ctl") (auto simp: control_frame_def)
qed

lemma control_written:
  assumes "length (cx_reason v) \<le> max_string_bytes"
  shows "\<exists>payload. written (encode_control_record v) = Some payload"
  unfolding encode_control_record_def
  by (rule needs_written [OF needs_seq [where ks = "[18, 8, 1, 8, 8, 8, 8, 8, 8, 8, 32, 4 + length (cx_reason v)]"]])
    (use assms in \<open>auto intro!: needs_prims needs_str needs_domain simp: max_string_bytes_def max_total_bytes_def
      max_domain_tag_def\<close>)

theorem notifications_never_decode_witness:
  "\<exists>s ctl payload. s = perform (Call (Cancel (Ident 7) ''stop'')) \<lparr>sy_impl = sample_running, sy_pending = []\<rparr>
    \<and> ctl \<in> set (fst (drain_controls (sy_impl s))) \<and> cx_kind ctl = CK_CancelAttempt
    \<and> written (encode_control_record ctl) = Some payload
    \<and> decode_payload decode_control_record payload = None"
proof -
  let ?start = "\<lparr>sy_impl = sample_running, sy_pending = []\<rparr>"
  let ?s = "perform (Call (Cancel (Ident 7) ''stop'')) ?start"
  let ?ctl = "cancel_control sample_running sample_compilation sample_attempt ''stop''"
  have reach: "reaches ?start 0 0 ?s"
    using reaches.go [OF reaches.start [of ?start], of "Call (Cancel (Ident 7) ''stop'')"] by simp
  have none: "cs_controls (im_state (sy_impl ?start)) = []"
    by (simp add: sample_running_def sample_with_def table_defs sample_impl_def initial_state_def)
  have "find_compilation (Ident 7) sample_running = Some sample_compilation"
    "find_attempt (Ident 1) sample_running = Some sample_attempt" "im_opened sample_running"
    by (simp_all add: sample_running_def)
  moreover have "cr_state sample_compilation = CS_Running" "cr_attempts sample_compilation = [Ident 1]"
    "\<not> is_terminal_state (ca_state sample_attempt)"
    by (simp_all add: sample_compilation_def sample_attempt_def new_attempt_def)
  ultimately have "?ctl \<in> set (fst (drain_controls (sy_impl ?s)))"
    by (simp add: drain_controls_def cancel_def Let_def ensure_open_def cancel_attempt_def push_control_def upd_state_def)
  moreover obtain payload where "written (encode_control_record ?ctl) = Some payload"
    using control_written [of ?ctl] by (auto simp: cancel_control_def max_string_bytes_def)
  ultimately show ?thesis
    using notifications_never_decode [OF reach none, of ?ctl undefined Op_CancelAttempt "encode_control_record ?ctl" payload]
    by (intro exI [of _ ?s] exI [of _ ?ctl] exI [of _ payload]) (simp add: control_frame_def cancel_control_def)
qed

section \<open>The command line's cancellation\<close>

text \<open>\<^verbatim>\<open>dc_cli cancel\<close> fills in the compilation and the reason and leaves the rest as it is constructed.\<close>

definition cli_cancel :: "compilation_id \<Rightarrow> string \<Rightarrow> control_message" where
  "cli_cancel i reason =
     \<lparr>cx_session = Ident 0, cx_kind = CK_CancelAttempt, cx_compilation = i, cx_compilation_generation = Gen 0,
      cx_attempt = Ident 0, cx_attempt_generation = Gen 0, cx_lease = Ident 0, cx_lease_generation = Gen 0,
      cx_commit = Ident 0, cx_artifact_digest = 0, cx_reason = reason\<rparr>"

text \<open>
  C30: The command line can cancel nothing.  Whatever compilation and reason it names, the
  message it sends is refused as malformed, and the coordinator and the connection are as before.
\<close>

theorem operator_cancel_refused:
  assumes "length reason \<le> max_string_bytes"
  shows "\<exists>payload. written (encode_control_record (cli_cancel i reason)) = Some payload
    \<and> serve_cancel payload c im = (Inr (Respond (error Err_Malformed ''malformed CANCEL_ATTEMPT'') []), c, im)"
proof -
  obtain payload where payload: "written (encode_control_record (cli_cancel i reason)) = Some payload"
    using control_written [of "cli_cancel i reason"] assms by (auto simp: cli_cancel_def)
  have "\<not> control_record_encodable (cli_cancel i reason)"
    by (simp add: control_record_encodable_def cli_cancel_def)
  from payload_refused [OF control_refused [OF this] payload] payload show ?thesis
    by (auto simp: serve_cancel_def malformed_def reply_def)
qed

theorem operator_cancel_refused_witness:
  "\<exists>payload. written (encode_control_record (cli_cancel (Ident 7) ''operator cancellation'')) = Some payload
    \<and> fst (serve_cancel payload new_connection sample_running) =
        Inr (Respond (error Err_Malformed ''malformed CANCEL_ATTEMPT'') [])"
  using operator_cancel_refused [of "''operator cancellation''" "Ident 7" new_connection sample_running]
  by (auto simp: max_string_bytes_def)

section \<open>Answers with an unused handle\<close>

lemma refuses_if: "refuses w rd e \<Longrightarrow> present \<Longrightarrow> refuses (w_if present w) (r_if rd absent) e"
proof -
  assume "refuses w rd e" present
  have "w_then w (w_seq []) = w" by (rule ext) (simp add: w_then_def split: option.splits)
  with \<open>refuses w rd e\<close> \<open>present\<close> show ?thesis
    unfolding w_if_def r_if_def by (simp add: refuses_then [OF faithful_bool])
qed

lemma commit_without_compilation_refused:
  assumes "ac_id k \<noteq> Ident 0" "ac_compilation k = Ident 0"
  shows "refuses (encode_commit k) decode_commit zero_handle"
  unfolding encode_commit_def decode_commit_def
  by (rule refuses_seq [OF faithful_id [OF assms(1)]], rule refuses_seq [OF faithful_gen], unfold assms(2),
      rule refuses_now [OF refuses_zero_id]) (simp add: appends_prims)

lemma validation_report_appends: "validation_report_encodable v \<Longrightarrow> appends (encode_validation_report v)"
  by (rule faithful_appends [OF validation_report_faithful])

lemma report_commit_without:
  assumes "fst (report_commit s r v im) = Inr d" "dn_outcome d = CO_Refused \<or> dn_outcome d = CO_ReproducibilityViolation"
  shows "dn_commit d = no_commit"
proof -
  have locked: "dn_commit d = no_commit" if "fst (commit_locked s r v im) = Inr d"
  proof -
    from that obtain im' where eq: "commit_locked s r v im = (Inr d, im')" by (metis prod.collapse)
    then show ?thesis
    proof (cases rule: commit_locked_cases)
      case (invalid a c)
      then show ?thesis by (simp add: refuse_invalid_def Let_def no_decision_def)
    next
      case (duplicate a c k)
      then have "fst (commit_duplicate (ro_claim r) a c k v im) = Inr d" by (metis fst_conv)
      with assms(2) branch_outcomes(2) show ?thesis by fastforce
    next
      case (divergent a c k)
      then show ?thesis by (simp add: commit_divergent_def Let_def no_decision_def split: if_splits)
    next
      case (first a c w)
      then have first: "fst (commit_first s w (ro_claim r) a c v im) = Inr d" by (metis fst_conv)
      then have "ca_state a = AS_Produced \<or> ca_state a = AS_Validating"
        using commit_first_refused by fastforce
      with first branch_outcomes(4) assms(2) show ?thesis by (fastforce simp: commit_first_eq)
    qed simp
  qed
  show ?thesis
    using assms(1) locked
    by (auto simp: report_commit_def Let_def case_prod_beta no_decision_def split: option.splits if_splits)
qed

text \<open>
  A worker whose report is refused is not told why.  Every decision of the commit
  transaction that refuses a report carries no commit; the service gives it the commit identity 1
  before it is encoded, which makes the decoder expect a whole commit record: no answer to a
  refused report can be decoded.  Without that step the same decision is read back as it is.
\<close>

theorem refused_report_unreadable:
  assumes "fst (report_commit s r v im) = Inr d"
    and "dn_outcome d = CO_Refused \<or> dn_outcome d = CO_ReproducibilityViolation"
    and "error_in_domain (dn_error d)" "validation_report_encodable (dn_validation d)"
    and "reply_written (encode_commit_response (stamp_commit d)) c im' = (Inr (Respond st out), c, im')"
    and "written (encode_commit_response d) = Some plain"
  shows "decode_payload read_commit_response out = None
    \<and> decode_payload read_commit_response plain = Some d"
proof -
  have none: "dn_commit d = no_commit" by (rule report_commit_without [OF assms(1,2)])
  have out: "written (encode_commit_response (stamp_commit d)) = Some out"
    using assms(5) by (auto simp: reply_written_def split: option.splits)
  have "refuses (w_commit_if (dn_commit (stamp_commit d))) r_commit_if zero_handle"
    unfolding w_commit_if_def r_commit_if_def
    by (rule refuses_if [OF commit_without_compilation_refused])
      (simp_all add: stamp_commit_def none no_commit_def id_is_zero_def)
  moreover have "dn_error (stamp_commit d) = dn_error d" "dn_validation (stamp_commit d) = dn_validation d"
    by (simp_all add: stamp_commit_def)
  ultimately have "refuses (encode_commit_response (stamp_commit d)) read_commit_response zero_handle"
    unfolding encode_commit_response_def read_commit_response_def
    by (intro refuses_seq [OF faithful_domain] refuses_seq [OF faithful_wire_enums(4)] refuses_seq [OF faithful_error]
      refuses_seq [OF faithful_str] refuses_seq [OF faithful_bool] refuses_now)
      (use assms(3,4) validation_report_appends in auto)
  moreover have "commit_response_encodable d"
    using assms(3,4) by (simp add: commit_response_encodable_def commit_if_encodable_def none no_commit_def id_is_zero_def)
  ultimately show ?thesis
    using payload_refused out payload_written [OF commit_response_faithful assms(6)] by blast
qed

lemma decision_written:
  assumes "length (dn_detail d) \<le> max_string_bytes" "dn_validation d = no_report"
  shows "\<exists>payload. written (encode_commit_response d) = Some payload"
proof -
  have commit: "needs (encode_commit k) 146" for k
    unfolding encode_commit_def
    by (rule needs_seq [where ks = "[8, 8, 8, 8, 8, 8, 8, 32, 8, 8, 8, 8, 8, 8, 8, Suc 0, Suc 0]"])
      (intro list.rel_intros needs_prims, simp)
  have "needs (w_commit_if k) 147" for k
    unfolding w_commit_if_def w_if_def
    by (rule needs_seq [where ks = "[1, 146]"]) (auto intro: needs_prims commit needs_none)
  moreover have "needs (encode_validation_report no_report) 17"
  proof -
    have "w_list_of encode_validation_check [] = w_u32 0"
      by (rule ext) (simp add: w_list_of_def w_list_def w_then_def split: option.split)
    then have "needs (w_list_of encode_validation_check []) 4" by (simp add: needs_prims)
    then show ?thesis
      unfolding encode_validation_report_def no_report_def
      by (intro needs_seq [where ks = "[8, 4, 1, 4]"])
        (auto intro!: needs_prims needs_str [of "[]" 4])
  qed
  ultimately show ?thesis
    unfolding encode_commit_response_def
    by (intro needs_written [OF needs_seq [where ks = "[26, 1, 2, 4 + length (dn_detail d), 1, 147, 17]"]])
      (use assms in \<open>auto intro!: needs_prims needs_str needs_domain simp: w_error_def max_string_bytes_def max_total_bytes_def
        max_domain_tag_def\<close>)
qed

theorem refused_report_unreadable_witness:
  "\<exists>d out. fst (report_commit (Ident 1) sample_report passing (upd_header (\<lambda>h. h\<lparr>hd_epoch := Gen 2\<rparr>) sample_produced)) = Inr d
    \<and> dn_error d = Err_StaleEpoch \<and> written (encode_commit_response (stamp_commit d)) = Some out
    \<and> decode_payload read_commit_response out = None"
proof -
  let ?im = "upd_header (\<lambda>h. h\<lparr>hd_epoch := Gen 2\<rparr>) sample_produced"
  have a: "find_attempt (au_attempt (ro_claim sample_report)) ?im = Some sample_produced_attempt"
    and c: "find_compilation (au_compilation (ro_claim sample_report)) ?im = Some sample_compilation"
    by (simp_all add: sample_produced_def sample_with_def table_defs find_attempt_def find_compilation_def)
  define st where "st = validate_authority (ro_claim sample_report)
      (expectation_for ?im sample_compilation sample_produced_attempt)"
  have epochs: "au_epoch (ro_claim sample_report) = Gen 1"
    "ax_epoch (expectation_for ?im sample_compilation sample_produced_attempt) = Gen 2"
    by (simp_all add: sample_report_def sample_claim_def new_claim_def expectation_for_def sample_impl_def table_defs)
  have "validate_authority cl ex = error Err_StaleEpoch (moved ''coordinator epoch moved from '' (au_epoch cl) (ax_epoch ex))"
    if "au_epoch cl \<noteq> ax_epoch ex" for cl ex using that by (simp add: validate_authority_def)
  then have "st = error Err_StaleEpoch (moved ''coordinator epoch moved from '' (Gen 1 :: epoch) (Gen 2))"
    unfolding st_def using epochs by simp
  moreover have "length (moved ''coordinator epoch moved from '' (Gen 1 :: epoch) (Gen 2)) \<le> 100"
    by code_simp
  ultimately have st: "\<not> st_ok st" "st_code st = Err_StaleEpoch" "length (st_detail st) \<le> 100"
    by (simp_all add: error_def st_ok_def)
  then obtain d where d: "fst (report_commit (Ident 1) sample_report passing ?im) = Inr d" "dn_outcome d = CO_Refused"
    "dn_error d = Err_StaleEpoch" "length (dn_detail d) \<le> 200" "dn_validation d = no_report"
    using a c unfolding st_def by (simp add: report_commit_def Let_def case_prod_beta no_decision_def)
  have "length (dn_detail (stamp_commit d)) \<le> max_string_bytes" "length (dn_detail d) \<le> max_string_bytes"
    "dn_validation (stamp_commit d) = no_report"
    using d(4,5) by (simp_all add: stamp_commit_def max_string_bytes_def)
  then obtain out plain where out: "written (encode_commit_response (stamp_commit d)) = Some out"
    "written (encode_commit_response d) = Some plain" using decision_written d(5) by blast
  have "reply_written (encode_commit_response (stamp_commit d)) new_connection ?im =
      (Inr (Respond success out), new_connection, ?im)"
    by (simp add: reply_written_def out)
  moreover have "error_in_domain (dn_error d)" unfolding d(3)
    by (rule named_in_domain) (simp add: named_error_codes_def)
  moreover have "validation_report_encodable (dn_validation d)"
    by (simp add: d(5) validation_report_encodable_def no_report_def)
  ultimately have "decode_payload read_commit_response out = None"
    using refused_report_unreadable [OF d(1) disjI1 [OF d(2)] _ _ _ out(2)] by blast
  with d(1,3) out(1) show ?thesis by blast
qed

lemma entry_appends: "appends (w_entry_if e)"
proof -
  have "appends (encode_content_ref r)" for r
    unfolding encode_content_ref_def by (rule appends_seq) (simp add: appends_prims)
  then have "appends (encode_cache_entry e)"
    unfolding encode_cache_entry_def by (intro appends_seq) (simp add: appends_prims)
  moreover have "appends Some" by (simp add: appends_def)
  ultimately show ?thesis
    unfolding w_entry_if_def w_if_def by (intro appends_seq) (simp add: appends_prims)
qed

text \<open>
  C31: A cache miss cannot be reported.  The decision on a miss names no entry, its handle of zero
  is refused by the decoder of the report, and the client that asked sees a malformed message
  where it should see a miss.
\<close>

theorem cache_miss_unreadable:
  assumes "om_find (cs_cache_index (im_state im)) d = None" "decode_payload read_cache_query payload = Some d"
    and "serve_cache_query payload c im = (Inr (Report_Cache out), c1, im1)"
  shows "cd_outcome (cache_query d im) = CO_Miss \<and> decode_payload read_cache_report out = None"
proof -
  have out: "written (encode_cache_report (cache_report_for d im)) = Some out"
    using assms(2,3) by (auto simp: serve_cache_query_def malformed_def reply_def split: option.splits)
  have miss: "cache_query d im = empty_cache_decision\<lparr>cd_outcome := CO_Miss,
      cd_reason := ''no cache entry for this unit identity''\<rparr>"
    using assms(1) by (simp add: cache_query_def)
  then have none: "cd_entry (kr_decision (cache_report_for d im)) = Ident 0"
    "cd_mismatches (kr_decision (cache_report_for d im)) = []"
    by (simp_all add: cache_report_for_def Let_def empty_cache_decision_def)
  have "w_list_of encode_cache_mismatch [] = w_u32 0"
    by (rule ext) (simp add: w_list_of_def w_list_def w_then_def split: option.split)
  then have list: "appends (w_list_of encode_cache_mismatch [])" by (simp add: appends_prims)
  have "refuses (encode_cache_report (cache_report_for d im)) read_cache_report zero_handle"
    unfolding encode_cache_report_def read_cache_report_def none
    by (intro refuses_seq [OF faithful_domain] refuses_seq [OF faithful_wire_enums(3)]
      refuses_seq [OF faithful_str] refuses_seq [OF faithful_bool] refuses_now [OF refuses_zero_id])
      (simp add: entry_appends list)
  from payload_refused [OF this out] miss show ?thesis by simp
qed

theorem cache_miss_unreadable_witness:
  "\<exists>payload out. decode_payload read_cache_query payload = Some 5
    \<and> serve_cache_query payload new_connection sample_impl = (Inr (Report_Cache out), new_connection, sample_impl)
    \<and> decode_payload read_cache_report out = None"
proof -
  have "\<exists>payload. written (encode_cache_query 5) = Some payload"
    unfolding encode_cache_query_def
    by (rule needs_written [OF needs_seq [where ks = "[26, 32]"]])
      (auto intro!: needs_prims needs_domain simp: max_domain_tag_def max_total_bytes_def)
  then obtain payload where "written (encode_cache_query 5) = Some payload" by blast
  from payload_written [OF cache_query_faithful this] have payload: "decode_payload read_cache_query payload = Some 5" .
  have none: "om_find (cs_cache_index (im_state sample_impl)) 5 = None"
    "om_find (cs_cache_entries (im_state sample_impl)) (Ident 0) = None"
    by (simp_all add: sample_impl_def initial_state_def)
  then have report: "cache_report_for 5 sample_impl = \<lparr>kr_decision = empty_cache_decision\<lparr>cd_outcome := CO_Miss,
      cd_reason := ''no cache entry for this unit identity''\<rparr>, kr_entry = no_entry\<rparr>"
    by (simp add: cache_report_for_def cache_query_def empty_cache_decision_def query_cache_entry_def found_or_def)
  have "w_list_of encode_cache_mismatch [] = w_u32 0"
    by (rule ext) (simp add: w_list_of_def w_list_def w_then_def split: option.split)
  moreover have "needs (w_entry_if no_entry) 1"
    unfolding w_entry_if_def w_if_def
    by (rule needs_seq [where ks = "[Suc 0, 0]"]) (auto intro: needs_prims needs_none simp: no_entry_def digest_is_zero_def)
  ultimately have "\<exists>out. written (encode_cache_report (cache_report_for 5 sample_impl)) = Some out"
    unfolding encode_cache_report_def report
    by (intro needs_written [OF needs_seq [where ks = "[26, Suc 0, 50, Suc 0, 8, 4, 1]"]])
      (auto intro!: needs_prims needs_domain needs_str simp: empty_cache_decision_def max_domain_tag_def
        max_string_bytes_def max_total_bytes_def)
  then obtain out where "serve_cache_query payload new_connection sample_impl =
      (Inr (Report_Cache out), new_connection, sample_impl)"
    by (auto simp: serve_cache_query_def payload)
  with cache_miss_unreadable [OF none(1) payload this] payload show ?thesis by blast
qed

end
