(* ===== verification/DC_Serving.thy ===== *)
theory DC_Serving
  imports DC_Answers DC_Evidence
begin

text \<open>
  The service as a client of the coordinator: whatever bytes its connections deliver, in
  whatever pieces and passes, what it does to the coordinator is a run of the coordinator's
  operations.  So the properties of runs hold of a service on the network.
\<close>

section \<open>What one frame does\<close>

definition idle :: "impl \<Rightarrow> system" where
  "idle im = \<lparr>sy_impl = im, sy_pending = []\<rparr>"

lemma idle_impl [simp]: "sy_impl (idle im) = im" "sy_pending (idle im) = []"
  by (simp_all add: idle_def)

text \<open>Between two coordinators with no report under way, a run with at most that many commit events.\<close>

definition covers :: "nat \<Rightarrow> impl \<Rightarrow> impl \<Rightarrow> bool" where
  "covers n a b \<longleftrightarrow> (\<exists>k\<le>n. \<exists>m. reaches (idle a) k m (idle b))"

lemma reaches_trans: "reaches b k l c \<Longrightarrow> reaches a n m b \<Longrightarrow> \<exists>l. reaches a (n + k) l c"
proof (induction rule: reaches.induct)
  case start
  then show ?case by auto
next
  case (go k l s e)
  then obtain l' where "reaches a (n + k) l' s" by blast
  from reaches.go [OF this] show ?case by (metis add.assoc)
qed

lemma covers_one: "perform e (idle a) = idle b \<Longrightarrow> commits_of e = 0 \<Longrightarrow> covers 0 a b"
  using reaches.go [OF reaches.start, of "idle a" e] by (auto simp: covers_def)

interpretation covering: counted_run covers
proof
  show "covers 0 im im" for im
    unfolding covers_def by (rule exI [where x = 0]) (auto intro: reaches.start)
next
  fix m n a b c assume "covers m a b" "covers n b c"
  then obtain k l i j where "k \<le> m" "l \<le> n" "reaches (idle a) k i (idle b)" "reaches (idle b) l j (idle c)"
    by (auto simp: covers_def)
  with reaches_trans show "covers (m + n) a c" unfolding covers_def by (metis add_mono)
qed

lemma covers_more: "covers n a b \<Longrightarrow> n \<le> m \<Longrightarrow> covers m a b"
  unfolding covers_def using le_trans by blast

lemma covers_Suc: "covers 0 a b \<Longrightarrow> covers (Suc 0) a b"
  by (erule covers_more) simp

lemma covers_operation: "covers 0 im (run_operation x im)"
  by (rule covers_one [where e = "Call x"]) (simp_all add: idle_def)

lemma covers_clock: "covers 0 im (im\<lparr>im_now := t\<rparr>)"
  by (rule covers_one [where e = "Clock t"]) (simp_all add: idle_def)

lemma covers_disk: "covers 0 im (im\<lparr>im_store := (im_store im)\<lparr>ps_faults := fs\<rparr>\<rparr>)"
  by (rule covers_one [where e = "Disk fs"]) (simp_all add: idle_def)

lemma covers_named:
  "covers 0 im (snd (submit b im))" "covers 0 im (snd (pump im))" "covers 0 im (snd (drain_controls im))"
  "covers 0 im (snd (register_worker r im))" "covers 0 im (snd (advertise_capabilities s c im))"
  "covers 0 im (snd (mark_ready s im))" "covers 0 im (snd (heartbeat s im))"
  "covers 0 im (snd (begin_compile claim im))" "covers 0 im (snd (handle_validate_response s m e d t im))"
  "covers 0 im (snd (fail_attempt s f im))" "covers 0 im (snd (disconnect_session s w im))"
  "covers 0 im (snd (cancel i w im))" "covers 0 im (snd (shutdown_sessions im))"
  "covers 0 im (snd (coordinator_snapshot im))" "covers 0 im (snd (artifact_bytes i im))"
  "covers 0 im (coordinator_close im)"
  using covers_operation [of im "Submit b"] covers_operation [of im Pump] covers_operation [of im DrainControls]
    covers_operation [of im "RegisterWorker r"] covers_operation [of im "AdvertiseCapabilities s c"]
    covers_operation [of im "MarkReady s"] covers_operation [of im "Heartbeat s"]
    covers_operation [of im "BeginCompile claim"] covers_operation [of im "ValidateResponse s m e d t"]
    covers_operation [of im "FailAttempt s f"] covers_operation [of im "DisconnectSession s w"]
    covers_operation [of im "Cancel i w"] covers_operation [of im ShutdownSessions]
    covers_operation [of im Snapshot] covers_operation [of im "ArtifactBytes i"] covers_operation [of im Close]
  by simp_all

text \<open>A report runs through its phases with nothing in between.\<close>

lemma covers_report: "covers (Suc 0) im (snd (report_output s r answer im))"
proof (cases "report_reserve s r im")
  case (Pair v1 im1)
  show ?thesis
  proof (cases v1)
    case (Inl st)
    then have "perform (Reserve s r) (idle im) = idle im1" using Pair by (simp add: idle_def)
    then have "covers 0 im im1" by (rule covers_one) simp
    then show ?thesis using Pair Inl by (simp add: report_output_def covers_Suc)
  next
    case (Inr rv)
    have s1: "reaches (idle im) 0 0 \<lparr>sy_impl = im1, sy_pending = [(s, r, Reserved rv)]\<rparr>"
      using reaches.go [OF reaches.start, of "idle im" "Reserve s r"] Pair Inr by (simp add: idle_def)
    note s2 = reaches.go [OF s1, of "Validate s r rv answer"]
    show ?thesis
    proof (cases "report_validate r rv answer")
      case bad: (Inl st)
      with s2 have "reaches (idle im) 0 0 (idle im1)" by (simp add: idle_def)
      then have "covers 0 im im1" by (auto simp: covers_def)
      then show ?thesis using Pair Inr bad by (simp add: report_output_def covers_Suc)
    next
      case good: (Inr v)
      with s2 have s2: "reaches (idle im) 0 0 \<lparr>sy_impl = im1, sy_pending = [(s, r, Validated v)]\<rparr>"
        by simp
      obtain st im2 where blob: "store_blob (ro_bytes r) im1 = (st, im2)" by fastforce
      note s3 = reaches.go [OF s2, of "Store s r v"]
      show ?thesis
      proof (cases "st_ok st")
        case False
        with s3 blob have "reaches (idle im) 0 0 (idle im2)" by (simp add: idle_def)
        then have "covers 0 im im2" by (auto simp: covers_def)
        then show ?thesis using Pair Inr good blob False by (simp add: report_output_def covers_Suc)
      next
        case True
        with s3 blob have "reaches (idle im) 0 0 \<lparr>sy_impl = im2, sy_pending = [(s, r, Stored v)]\<rparr>" by simp
        from reaches.go [OF this, of "Commit s r v"]
        have "reaches (idle im) 1 0 (idle (snd (report_commit s r v im2)))" by (simp add: idle_def)
        then have "covers (Suc 0) im (snd (report_commit s r v im2))" by (auto simp: covers_def)
        then show ?thesis using Pair Inr good blob True by (simp add: report_output_def)
      qed
    qed
  qed
qed

section \<open>Where commits come from\<close>

text \<open>
  A received frame stands behind a digest: it is a report whose bytes have the digest, the
  coordinator accepted it at a moment after \<open>a\<close>, and the bytes passed the validation.
\<close>

definition stands_behind :: "impl \<Rightarrow> digest256 \<Rightarrow> bytes \<Rightarrow> bool" where
  "stands_behind a d raw \<longleftrightarrow> (\<exists>f r n im sid rv. decode_frame raw = Inr f \<and> fr_op f = Op_ReportOutput
     \<and> decode_payload read_report_output (fr_payload f) = Some r \<and> sha256 (ro_bytes r) = d
     \<and> covers n a im \<and> fst (report_reserve sid r im) = Inr rv
     \<and> vp_aggregate (validate_artifact_bytes (ro_bytes r) (rv_output_kind rv) (rv_target rv)
         (rv_requirements rv) (rv_candidate_digest rv)) = VO_Pass)"

text \<open>
  Reading these frames leads from one coordinator to another: a run with at most one commit
  event for each frame, and every digest committed on the way has one of them behind it.
\<close>

definition run_of :: "bytes list \<Rightarrow> impl \<Rightarrow> impl \<Rightarrow> bool" where
  "run_of raws a b \<longleftrightarrow> covers (length raws) a b
     \<and> (\<forall>i k. om_find (cs_commits (im_state b)) i = Some k \<longrightarrow>
         (\<exists>k0. om_find (cs_commits (im_state a)) i = Some k0 \<and> ac_artifact_digest k = ac_artifact_digest k0)
         \<or> (\<exists>raw\<in>set raws. stands_behind a (ac_artifact_digest k) raw))"

lemma quiet_digests:
  assumes "authority_run 0 a b" "om_find (cs_commits (im_state b)) i = Some k"
  shows "\<exists>k0. om_find (cs_commits (im_state a)) i = Some k0 \<and> ac_artifact_digest k = ac_artifact_digest k0"
  using ledger_run_0_digests [of 0 "ledger_of a" "ledger_of b" i k] assms by (auto simp: authority_run_def)

lemma same_commits: "ledger_of b = ledger_of a \<Longrightarrow> cs_commits (im_state b) = cs_commits (im_state a)"
  by (drule arg_cong [where f = lg_commits]) simp

lemma covers_authority: "covers n a b \<Longrightarrow> \<exists>k\<le>n. authority_run k a b"
  unfolding covers_def using reaches_authority by (metis idle_impl(1) le_trans)

lemma run_of_quiet: "covers 0 a b \<Longrightarrow> run_of [] a b"
  using covers_authority quiet_digests by (fastforce simp: run_of_def)

lemma run_of_trans:
  assumes "run_of xs a b" "run_of ys b c"
  shows "run_of (xs @ ys) a c"
proof -
  have ab: "covers (length xs) a b" and bc: "covers (length ys) b c"
    using assms by (simp_all add: run_of_def)
  have later: "stands_behind a d raw" if "stands_behind b d raw" for d raw
    using that covering.rel_trans [OF ab] unfolding stands_behind_def by blast
  have "(\<exists>k0. om_find (cs_commits (im_state a)) i = Some k0 \<and> ac_artifact_digest k = ac_artifact_digest k0)
      \<or> (\<exists>raw\<in>set (xs @ ys). stands_behind a (ac_artifact_digest k) raw)"
    if k: "om_find (cs_commits (im_state c)) i = Some k" for i k
  proof -
    have "(\<exists>k0. om_find (cs_commits (im_state b)) i = Some k0 \<and> ac_artifact_digest k = ac_artifact_digest k0)
        \<or> (\<exists>raw\<in>set ys. stands_behind b (ac_artifact_digest k) raw)"
      using assms(2) k by (simp add: run_of_def)
    then show ?thesis
    proof
      assume "\<exists>raw\<in>set ys. stands_behind b (ac_artifact_digest k) raw"
      then show ?thesis using later by auto
    next
      assume "\<exists>k0. om_find (cs_commits (im_state b)) i = Some k0 \<and> ac_artifact_digest k = ac_artifact_digest k0"
      then obtain k0 where k0: "om_find (cs_commits (im_state b)) i = Some k0"
        and same: "ac_artifact_digest k = ac_artifact_digest k0" by blast
      from assms(1) k0 show ?thesis unfolding run_of_def same by auto
    qed
  qed
  with covering.rel_trans [OF ab bc] show ?thesis by (simp add: run_of_def)
qed

lemma run_of_refl: "run_of xs a a"
  by (auto simp: run_of_def intro: covers_more [OF covering.rel_refl])

lemma run_of_more: "run_of xs a b \<Longrightarrow> run_of (xs @ ys) a b"
  by (rule run_of_trans [OF _ run_of_refl])

lemma run_of_after: "run_of xs a b \<Longrightarrow> covers 0 b c \<Longrightarrow> run_of xs a c"
  using run_of_trans [OF _ run_of_quiet] by fastforce

lemma report_commit_digests:
  assumes "om_find (cs_commits (im_state (snd (report_commit s r v im)))) i = Some k"
    and holds: "holds_candidate r im"
  shows "(\<exists>k0. om_find (cs_commits (im_state im)) i = Some k0 \<and> ac_artifact_digest k = ac_artifact_digest k0)
    \<or> sha256 (ro_bytes r) = ac_artifact_digest k \<and> vp_aggregate v = VO_Pass"
proof (rule report_commit_ledger [of s r v im])
  assume "ledger_of (snd (report_commit s r v im)) = ledger_of im"
  from quiet_digests [OF authority_same [OF this]] assms show ?thesis by simp
next
  fix a c
  assume a: "find_attempt (au_attempt (ro_claim r)) im = Some a" and pass: "vp_aggregate v = VO_Pass"
    and seal: "ledger_of (snd (report_commit s r v im)) = seal (sealed_validation im v)
      (sealed_provenance im c a) (sealed_commit im c a) (ledger_of im)"
  have table: "cs_commits (im_state (snd (report_commit s r v im))) =
      om_put (ac_id (sealed_commit im c a)) (sealed_commit im c a) (cs_commits (im_state im))"
    using arg_cong [OF seal, of lg_commits] by (simp add: seal_def)
  from assms(1) have "k = sealed_commit im c a \<or> om_find (cs_commits (im_state im)) i = Some k"
    unfolding table om_find_put by (simp split: if_splits)
  then show ?thesis using holds a pass by (auto simp: holds_candidate_def)
qed

lemma run_of_report:
  assumes "decode_frame raw = Inr f" "fr_op f = Op_ReportOutput"
    "decode_payload read_report_output (fr_payload f) = Some r"
  shows "run_of [raw] im (snd (report_output s r answer im))"
proof -
  have "(\<exists>k0. om_find (cs_commits (im_state im)) i = Some k0 \<and> ac_artifact_digest k = ac_artifact_digest k0)
      \<or> stands_behind im (ac_artifact_digest k) raw"
    if k: "om_find (cs_commits (im_state (snd (report_output s r answer im)))) i = Some k" for i k
  proof -
    obtain q im1 where reserve: "report_reserve s r im = (q, im1)" by fastforce
    have commits1: "cs_commits (im_state im1) = cs_commits (im_state im)"
      using same_commits [OF report_reserve_ledger [of s r im]] by (simp add: reserve)
    note blob = same_commits [OF store_blob_frame(1)]
    show ?thesis
    proof (cases "\<exists>rv v. q = Inr rv \<and> report_validate r rv answer = Inr v \<and> st_ok (fst (store_blob (ro_bytes r) im1))")
      case False
      then have "cs_commits (im_state (snd (report_output s r answer im))) = cs_commits (im_state im)"
        by (auto simp: report_output_def reserve case_prod_beta commits1 blob split: sum.split)
      with k show ?thesis by simp
    next
      case True
      then obtain rv v where q: "q = Inr rv" "report_validate r rv answer = Inr v"
        "st_ok (fst (store_blob (ro_bytes r) im1))" by blast
      have out: "snd (report_output s r answer im) = snd (report_commit s r v (snd (store_blob (ro_bytes r) im1)))"
        using q by (simp add: report_output_def reserve case_prod_beta)
      have "holds_candidate r (snd (store_blob (ro_bytes r) im1))"
        using reserve_holds [of s r im rv] reserve q by (simp add: holds_candidate_def find_attempt_def)
      from report_commit_digests [OF k [unfolded out] this]
      have "(\<exists>k0. om_find (cs_commits (im_state im)) i = Some k0 \<and> ac_artifact_digest k = ac_artifact_digest k0)
          \<or> sha256 (ro_bytes r) = ac_artifact_digest k \<and> vp_aggregate v = VO_Pass"
        unfolding blob commits1 .
      with assms reserve q(1) report_validate_pass [OF q(2)] covering.rel_refl show ?thesis
        unfolding stands_behind_def by (metis fst_conv)
    qed
  qed
  with covers_report [of im s r answer] show ?thesis by (simp add: run_of_def)
qed

text \<open>What each frame does to the coordinator, whatever it is answered with.\<close>

definition left_by :: "served \<Rightarrow> impl" where
  "left_by x = snd (snd x)"

lemma left_by_simps [simp]:
  "left_by (r, c, im) = im" "left_by (reply st c im) = im" "left_by (malformed w c im) = im"
  "left_by (reply_written w' c im) = im" "left_by (reply_stop x c im) = im"
  "left_by (reply_to f c im) = snd (f im)"
  by (simp_all add: left_by_def reply_def malformed_def reply_written_def reply_stop_def reply_to_def
      case_prod_beta split: option.split stop.split)

lemma covers_handlers:
  "covers 0 im (left_by (serve_hello p c im))" "covers 0 im (left_by (serve_register p c im))"
  "covers 0 im (left_by (serve_advertise p c im))" "covers 0 im (left_by (serve_ready c im))"
  "covers 0 im (left_by (serve_heartbeat c im))" "covers 0 im (left_by (serve_begin p c im))"
  "covers 0 im (left_by (serve_failure p c im))" "covers 0 im (left_by (serve_evidence p c im))"
  "covers 0 im (left_by (serve_submit p c im))" "covers 0 im (left_by (serve_cache_query p c im))"
  "covers 0 im (left_by (serve_audit c im))" "covers 0 im (left_by (serve_cancel p c im))"
  "covers 0 im (left_by (serve_query p c im))"
  by (simp_all add: serve_hello_def serve_register_def serve_advertise_def serve_ready_def
      serve_heartbeat_def serve_begin_def serve_failure_def serve_evidence_def serve_submit_def
      serve_cache_query_def serve_audit_def serve_cancel_def serve_query_def Let_def
      case_prod_beta covers_named covering.rel_refl split: option.split sum.split)

lemma run_of_one: "covers 0 a b \<Longrightarrow> run_of [raw] a b"
  by (rule run_of_after [OF run_of_refl])

lemma run_of_serve:
  assumes "decode_frame raw = Inr f"
  shows "run_of [raw] im (left_by (serve smoke f c im))"
proof (cases "fr_op f = Op_ReportOutput")
  case True
  show ?thesis
    using run_of_report [OF assms True, where im = im] True
    by (simp add: serve_def serve_report_def case_prod_beta run_of_refl split: option.split sum.split)
next
  case False
  then have "covers 0 im (left_by (serve smoke f c im))"
    by (cases "fr_op f") (simp_all add: serve_def covers_handlers covers_named covering.rel_refl)
  then show ?thesis by (rule run_of_one)
qed

lemma run_of_raw: "serve_raw smoke raw c im = Inr (b, c1, im1) \<Longrightarrow> run_of [raw] im im1"
proof (cases "decode_frame raw")
  case (Inl st)
  assume "serve_raw smoke raw c im = Inr (b, c1, im1)"
  with Inl have "im1 = im"
    by (cases "send_response 0 Op_Error st [] c") (simp_all add: serve_raw_def)
  then show ?thesis by (simp add: run_of_refl)
next
  case (Inr f)
  assume ended: "serve_raw smoke raw c im = Inr (b, c1, im1)"
  obtain a c2 im2 where served: "serve smoke f c im = (a, c2, im2)" by (cases "serve smoke f c im") auto
  have "im1 = im2"
  proof (cases a)
    case (Inr x)
    then show ?thesis
      using ended served \<open>decode_frame raw = Inr f\<close>
      by (cases x) (auto simp: serve_raw_def map_sum_def split: sum.splits)
  qed (use ended served \<open>decode_frame raw = Inr f\<close> in \<open>simp add: serve_raw_def\<close>)
  with run_of_serve [OF Inr, of im smoke c] served show ?thesis by simp
qed

lemma run_of_frames: "serve_frames smokes raws c im = Inr (b, c1, im1) \<Longrightarrow> run_of raws im im1"
proof (induction smokes raws c im rule: serve_frames.induct)
  case (1 smokes c im)
  then show ?case by (simp add: run_of_refl)
next
  case (2 smokes raw raws c im)
  then obtain b2 c2 im2 where raw: "serve_raw (smokes 0) raw c im = Inr (b2, c2, im2)"
    by (auto split: sum.splits)
  note first = run_of_raw [OF raw]
  show ?case
  proof (cases b2)
    case True
    with 2 raw run_of_more [OF first, of raws] show ?thesis by simp
  next
    case False
    with 2 raw have "run_of raws im2 im1" by simp
    from run_of_trans [OF first this] show ?thesis by simp
  qed
qed

section \<open>What a pass does\<close>

text \<open>The frames that the reads of a pass complete.\<close>

definition frames_cut :: "io \<Rightarrow> connection \<Rightarrow> bytes list" where
  "frames_cut x c = (case io_recv x of Recv_Data bs \<Rightarrow> fst (snd (feed bs (cn_reader c))) | _ \<Rightarrow> [])"

fun pass_frames :: "(nat \<Rightarrow> io) \<Rightarrow> connection list \<Rightarrow> bytes list" where
  "pass_frames ios [] = []"
| "pass_frames ios (c # cs) = frames_cut (ios 0) c @ pass_frames (\<lambda>i. ios (Suc i)) cs"

lemma flush_reader [simp]: "cn_reader (flush_outgoing a c) = cn_reader c"
  by (cases a) (simp_all add: after_send_def)

lemma run_of_attend:
  assumes "attend x c im = Inr (b, c1, im1)"
  shows "run_of (frames_cut x c) im im1"
proof (cases "\<not> cn_closing (flush_outgoing (io_send x) c) \<and> (\<exists>bs. io_recv x = Recv_Data bs)")
  case True
  then obtain bs where bs: "io_recv x = Recv_Data bs" by blast
  obtain st raws r where fed: "feed bs (cn_reader c) = (st, raws, r)" by (cases "feed bs (cn_reader c)") auto
  show ?thesis
  proof (cases "st_ok st")
    case ok: True
    with True bs fed assms have
      "serve_frames (io_smoke x) raws (flush_outgoing (io_send x) c\<lparr>cn_reader := r\<rparr>) im = Inr (b, c1, im1)"
      by (simp add: attend_def take_data_def)
    from run_of_frames [OF this] bs fed show ?thesis by (simp add: frames_cut_def)
  next
    case False
    with True bs fed assms show ?thesis by (simp add: attend_def take_data_def run_of_refl)
  qed
next
  case False
  with assms have "im1 = im" by (auto simp: attend_def Let_def split: if_splits recv_answer.splits)
  then show ?thesis by (simp add: run_of_refl)
qed

lemma run_of_attend_all:
  "attend_all ios cs im = Inr (b, cs1, im1) \<Longrightarrow> run_of (pass_frames ios cs) im im1"
proof (induction cs arbitrary: ios im b cs1)
  case Nil
  then show ?case by (simp add: run_of_refl)
next
  case (Cons c cs)
  then obtain b2 c2 im2 where first: "attend (ios 0) c im = Inr (b2, c2, im2)"
    by (auto split: sum.splits)
  with Cons.prems obtain b3 cs3 where "attend_all (\<lambda>i. ios (Suc i)) cs im2 = Inr (b3, cs3, im1)"
    by (fastforce split: sum.splits prod.splits)
  from run_of_trans [OF run_of_attend [OF first] Cons.IH [OF this]] show ?case by simp
qed

lemma covers_release: "covers 0 im (release_session reason c im)"
  by (simp add: release_session_def covers_named covering.rel_refl)

lemma covers_reap: "covers 0 im (snd (reap cs im))"
proof (induction cs arbitrary: im)
  case Nil
  then show ?case by (simp add: covering.rel_refl)
next
  case (Cons c cs)
  then show ?case
    using covering.rel_trans0 [OF covers_release Cons.IH] by (simp add: case_prod_beta)
qed

lemma run_of_pass:
  assumes "service_pass accepted ios s = Inr t"
  shows "run_of (pass_frames ios (se_connections s)) (se_impl s) (se_impl t)"
proof -
  obtain b cs0 im1 where all: "attend_all ios (se_connections s) (se_impl s) = Inr (b, cs0, im1)"
    using assms by (auto simp: service_pass_def split: sum.splits)
  have "covers 0 im1 (snd (reap cs (snd (drain_controls (snd (pump im1))))))" for cs
    by (rule covering.rel_trans0 [OF covering.rel_trans0 [OF covers_named(2) covers_named(3)] covers_reap])
  then have "covers 0 im1 (se_impl t)"
    using assms all by (auto simp: service_pass_def Let_def case_prod_beta split: sum.splits)
  with run_of_attend_all [OF all] show ?thesis by (rule run_of_after)
qed

section \<open>Runs of the service\<close>

text \<open>
  The service from a start, with the frames it has read: passes of the loop, and between them
  the clock and a change of what the disk will answer.
\<close>

inductive service_runs :: "service \<Rightarrow> bytes list \<Rightarrow> service \<Rightarrow> bool" for s0 where
  boot: "service_runs s0 [] s0"
| turn: "service_runs s0 raws s \<Longrightarrow> se_running s \<Longrightarrow> service_pass accepted ios s = Inr t
    \<Longrightarrow> service_runs s0 (raws @ pass_frames ios (se_connections s)) t"
| tick: "service_runs s0 raws s \<Longrightarrow> service_runs s0 raws (s\<lparr>se_impl := (se_impl s)\<lparr>im_now := t\<rparr>\<rparr>)"
| disk: "service_runs s0 raws s \<Longrightarrow> service_runs s0 raws
    (s\<lparr>se_impl := (se_impl s)\<lparr>im_store := (im_store (se_impl s))\<lparr>ps_faults := fs\<rparr>\<rparr>\<rparr>)"

lemma service_run_of: "service_runs s0 raws s \<Longrightarrow> run_of raws (se_impl s0) (se_impl s)"
proof (induction rule: service_runs.induct)
  case boot
  then show ?case by (rule run_of_refl)
next
  case (turn raws s accepted ios t)
  then show ?case using run_of_trans run_of_pass by blast
next
  case (tick raws s t)
  from run_of_after [OF tick.IH covers_clock] show ?case by simp
next
  case (disk raws s fs)
  from run_of_after [OF disk.IH covers_disk] show ?case by simp
qed

text \<open>After the orderly stop too.\<close>

lemma covers_stop: "covers 0 (se_impl s) (service_stop s)"
proof -
  have "covers 0 im (fold (release_session reason) cs im)" for im reason cs
    by (rule covering.quiet_fold) (rule covers_release)
  then show ?thesis
    unfolding service_stop_def
    by (rule covering.rel_trans0 [OF covering.rel_trans0 [OF _ covers_named(14)] covers_named(16)])
qed

section \<open>What holds of a service on the network\<close>

lemma service_end_run_of:
  assumes "service_runs s0 raws s" "im = se_impl s \<or> im = service_stop s"
  shows "run_of raws (se_impl s0) im"
  using service_run_of [OF assms(1)] assms(2) run_of_after covers_stop by blast

text \<open>
  C3: Commits come from report frames alone.  Let a service read any frames over any number of
  connections and passes, and perhaps stop.  Each commit that its coordinator then holds either
  was there at the start with that digest, or one of the frames read is a decodable
  \<^verbatim>\<open>REPORT_OUTPUT\<close> whose bytes have the committed SHA-256 digest, which the coordinator accepted
  for an attempt at a moment of the run, and whose bytes passed validation against what the
  attempt had to produce.
\<close>

theorem served_commits_come_from_reports:
  assumes "service_runs s0 raws s" "im = se_impl s \<or> im = service_stop s"
    "om_find (cs_commits (im_state im)) i = Some k"
  shows "(\<exists>k0. om_find (cs_commits (im_state (se_impl s0))) i = Some k0
      \<and> ac_artifact_digest k = ac_artifact_digest k0)
    \<or> (\<exists>raw f r n im1 sid rv. raw \<in> set raws \<and> decode_frame raw = Inr f \<and> fr_op f = Op_ReportOutput
        \<and> decode_payload read_report_output (fr_payload f) = Some r
        \<and> sha256 (ro_bytes r) = ac_artifact_digest k
        \<and> covers n (se_impl s0) im1 \<and> fst (report_reserve sid r im1) = Inr rv
        \<and> vp_aggregate (validate_artifact_bytes (ro_bytes r) (rv_output_kind rv) (rv_target rv)
            (rv_requirements rv) (rv_candidate_digest rv)) = VO_Pass)"
  using service_end_run_of [OF assms(1,2)] assms(3) unfolding run_of_def stands_behind_def by blast


text \<open>
  A service that closed its coordinator with the sample's commit in it, and one client whose
  heartbeat arrives in a read of its own.
\<close>

definition sample_heartbeat :: bytes where
  "sample_heartbeat = [27, 0, 0, 0, 0x44, 0x50, 0x43, 0x31, 1, 0, 20, 0, 7, 0, 0, 0, 0, 0, 0, 0, 3, 0, 0, 0,
     0, 0, 0, 0, 1, 2, 3]"

definition sample_served :: impl where
  "sample_served = upd_state (\<lambda>s. s\<lparr>cs_controls := []\<rparr>) ((sy_impl sample_committed)\<lparr>im_opened := False\<rparr>)"

definition sample_service :: service where
  "sample_service = \<lparr>se_connections = [new_connection], se_impl = sample_served, se_running = True\<rparr>"

definition sample_io :: "nat \<Rightarrow> io" where
  "sample_io i = \<lparr>io_send = Send_Idle, io_recv = Recv_Data sample_heartbeat, io_smoke = (\<lambda>_. Smoke_NotRun)\<rparr>"

lemma sample_heartbeat_frame: "encode_frame sample_frame = Inr sample_heartbeat"
  by (simp add: sample_frame_def sample_heartbeat_def encode_frame_def le_bytes_def upt_rec
      kMaxFrameBytes_def kWireHeaderBytes_def kWireMagic_def DC_PROTOCOL_VERSION_def)

lemma sample_heartbeat_fed:
  "feed sample_heartbeat (new_reader 16777216) =
     (success, [sample_heartbeat], (new_reader 16777216)\<lparr>rd_frames := 1\<rparr>)"
proof -
  have "frame_fits 16777216 sample_frame"
    by (simp add: frame_fits_def sample_frame_def kWireHeaderBytes_def)
  from feed_loop_frames [of "[sample_frame]" 16777216 "[sample_heartbeat]"] this sample_heartbeat_frame
  show ?thesis by (simp add: feed_def new_reader_def)
qed

lemma sample_heartbeat_served:
  "\<exists>img. serve_raw q sample_heartbeat (new_connection\<lparr>cn_reader := r\<rparr>) im =
     Inr (False, new_connection\<lparr>cn_reader := r, cn_outgoing := img\<rparr>, im)"
proof -
  have "decode_frame sample_heartbeat = Inr sample_frame"
    using frame_decoded [of sample_frame] sample_heartbeat_frame by (simp add: sample_frame_def)
  from respond_queues [OF this serve_client_heartbeat [OF sample_frame_facts(1)],
      where c = "new_connection\<lparr>cn_reader := r\<rparr>" and smoke = q and im = im]
  show ?thesis by (auto simp: new_connection_def id_is_zero_def success_def sample_frame_facts)
qed

lemma sample_pass:
  "\<exists>t. service_pass False sample_io sample_service = Inr t \<and> se_impl t = sample_served"
proof -
  let ?r = "(new_reader 16777216)\<lparr>rd_frames := 1\<rparr>"
  obtain img where "serve_raw Smoke_NotRun sample_heartbeat (new_connection\<lparr>cn_reader := ?r\<rparr>) sample_served =
      Inr (False, new_connection\<lparr>cn_reader := ?r, cn_outgoing := img\<rparr>, sample_served)"
    using sample_heartbeat_served by blast
  then have att: "attend (sample_io 0) new_connection sample_served =
      Inr (False, new_connection\<lparr>cn_reader := ?r, cn_outgoing := img\<rparr>, sample_served)"
    by (simp add: attend_def take_data_def sample_io_def)
      (simp add: new_connection_def kMaxFrameBytes_def sample_heartbeat_fed)
  have "pump sample_served = ([], sample_served)" "drain_controls sample_served = ([], sample_served)"
    by (simp_all add: pump_def drain_controls_def sample_served_def upd_state_def)
  with att show ?thesis
    by (simp add: service_pass_def sample_service_def) (simp add: new_connection_def)
qed

lemma sample_service_run:
  "\<exists>t. service_runs sample_service [sample_heartbeat] t \<and> se_impl t = sample_served"
proof -
  obtain t where t: "service_pass False sample_io sample_service = Inr t" "se_impl t = sample_served"
    using sample_pass by blast
  have "se_running sample_service" by (simp add: sample_service_def)
  from service_runs.turn [OF service_runs.boot this t(1)]
  have "service_runs sample_service (pass_frames sample_io (se_connections sample_service)) t" by simp
  moreover have "pass_frames sample_io (se_connections sample_service) = [sample_heartbeat]"
    by (simp add: sample_service_def sample_io_def frames_cut_def)
      (simp add: new_connection_def kMaxFrameBytes_def sample_heartbeat_fed)
  ultimately show ?thesis using t(2) by auto
qed

lemma service_stop_ledger: "ledger_of (service_stop s) = ledger_of (se_impl s)"
proof -
  have "ledger_of (release_session reason c im) = ledger_of im" for reason c im
    by (simp add: release_session_def)
  then have "ledger_of (fold (release_session reason) cs im) = ledger_of im" for reason cs im
    by (rule fold_keeps)
  then show ?thesis by (simp add: service_stop_def)
qed

lemma sample_served_ledger: "ledger_of sample_served = ledger_of (sy_impl sample_committed)"
  by (simp add: sample_served_def upd_state_def ledger_of_def)

lemma sample_served_commit:
  "\<exists>k. om_find (cs_commits (im_state sample_served)) (Ident 1) = Some k
    \<and> om_find (cs_authoritative (im_state sample_served)) (Ident 7) = Some (Ident 1)"
  using ledger_ok_bound [OF sample_committed_sound(1)] sample_takes_authority
  by (fastforce simp: sample_served_def upd_state_def)

theorem served_commits_come_from_reports_witness:
  "\<exists>t k. service_runs sample_service [sample_heartbeat] t
    \<and> om_find (cs_commits (im_state (service_stop t))) (Ident 1) = Some k
    \<and> (\<exists>k0. om_find (cs_commits (im_state sample_served)) (Ident 1) = Some k0
        \<and> ac_artifact_digest k = ac_artifact_digest k0)"
proof -
  obtain t where t: "service_runs sample_service [sample_heartbeat] t" "se_impl t = sample_served"
    using sample_service_run by blast
  have "cs_commits (im_state (service_stop t)) = cs_commits (im_state (se_impl t))"
    by (rule same_commits [OF service_stop_ledger])
  then obtain k where k: "om_find (cs_commits (im_state (service_stop t))) (Ident 1) = Some k"
    using sample_served_commit t(2) by auto
  have "decode_frame sample_heartbeat = Inr sample_frame"
    using frame_decoded [of sample_frame] sample_heartbeat_frame by (simp add: sample_frame_def)
  with served_commits_come_from_reports [OF t(1) disjI2 [OF refl] k] k t(1) show ?thesis
    by (auto simp: sample_service_def sample_frame_facts)
qed


end
