(* ===== verification/Spec2Isabelle.thy ===== *)
theory Spec2Isabelle
  imports DC_Digest DC_Enums DC_Registry DC_Lifecycle DC_Canonical DC_Identity DC_Authority
    DC_Worker DC_Ledger DC_Submit DC_Evidence DC_Durability DC_Reread DC_Audited DC_Answers DC_Notices DC_Serving
begin

text \<open>
  A distributed compilation coordinator (\<^verbatim>\<open>include/dc\<close>, \<^verbatim>\<open>src\<close>): clients submit requests,
  the coordinator splits them into content-addressed compilations, hands each to an
  eligible worker under a lease, and lets at most one reported artifact become
  authoritative per compilation.

  The theories follow the code's layers; each one imports those it calls.

  \<^item> \<open>DC_Prelude\<close>: fixed-width integers, the ordered map that stands for
    \<^verbatim>\<open>std::map\<close>, tables of self-keyed records, decimal text.
  \<^item> \<open>DC_Types\<close>: \<^verbatim>\<open>types.hpp\<close>, \<^verbatim>\<open>identity.hpp\<close>; statuses and typed handles.
  \<^item> \<open>DC_Digest\<close>: \<^verbatim>\<open>digest.cpp\<close>; SHA-256 and CRC-32 against their definitions.
  \<^item> \<open>DC_Model\<close>, \<open>DC_Enums\<close>: \<^verbatim>\<open>model.hpp\<close>; records and enumerations.
  \<^item> \<open>DC_Registry\<close>, \<open>DC_Lifecycle\<close>, \<open>DC_Authority\<close>, \<open>DC_Worker\<close>: \<^verbatim>\<open>runtime.hpp\<close>,
    \<^verbatim>\<open>runtime.cpp\<close>; generations, the attempt state machine, authority claims, eligibility
    and ranking.
  \<^item> \<open>DC_Canonical\<close>: \<^verbatim>\<open>canonical.cpp\<close>; the byte encoding, with a locale of element codecs
    that the list round trip is proved in.
  \<^item> \<open>DC_Identity\<close>: \<^verbatim>\<open>model.cpp\<close>; canonicalisation and derived identities.
  \<^item> \<open>DC_State\<close>, \<open>DC_Impl\<close>: \<^verbatim>\<open>coordinator_state.hpp\<close> and the helpers of \<^verbatim>\<open>coordinator.cpp\<close>;
    the tables, the store, the blob cache, cache validation, fencing.
  \<^item> \<open>DC_Schedule\<close>, \<open>DC_Failure\<close>, \<open>DC_Validate\<close>, \<open>DC_Commit\<close>, \<open>DC_WorkerOps\<close>, \<open>DC_Submit\<close>:
    \<^verbatim>\<open>coordinator_tx.cpp\<close> and \<^verbatim>\<open>validate.cpp\<close>; one definition per public operation.
  \<^item> \<open>DC_Ledger\<close>: the abstract specification, a ledger of commits with the moves commit,
    mark and erase, and what every run of moves keeps.
  \<^item> \<open>DC_Runs\<close>: relations between coordinators that compose (a locale), with two
    interpretations: what operations do to the ledger and what they do to attempts.
  \<^item> \<open>DC_Coordinator\<close>, \<open>DC_Evidence\<close>: the coordinator as a system of interleaved
    operations and reports; refinement of the ledger, permanence of commits, attempts over
    whole runs, and that every committed digest is the digest of validated bytes.

  \<^item> \<open>DC_Journal\<close>, \<open>DC_Durability\<close>: \<^verbatim>\<open>persistence.cpp\<close>; the bytes of the journal and of the
    snapshot, the recovery scan, and what a reopened store recovers after a crash, a torn
    or a short write.
  \<^item> \<open>DC_Fields\<close>, \<open>DC_Codec\<close>, \<open>DC_RecordCodec\<close>: \<^verbatim>\<open>codec.cpp\<close>; one writer and one reader
    for each persisted record.  What an encodable record is read back as is proved once in
    the locale of element codecs and interpreted for every record.
  \<^item> \<open>DC_StateCodec\<close>, \<open>DC_Snapshots\<close>: \<^verbatim>\<open>state_codec.cpp\<close>; the snapshot of the whole state, its
    round trip, and what makes a snapshot unreadable.
  \<^item> \<open>DC_Reread\<close>: what the decoder's recomputed identities guarantee, and the requests it
    refuses although they were accepted before.
  \<^item> \<open>DC_Recovery\<close>, \<open>DC_Restart\<close>, \<open>DC_Reopen\<close>: \<^verbatim>\<open>Coordinator::open\<close>, \<^verbatim>\<open>close\<close> and \<^verbatim>\<open>snapshot\<close>; the
    replay of the journal, the restart, the agreement of the store on disk with the store as
    the coordinator sees it across a crash, and what a restart loses.
  \<^item> \<open>DC_Queries\<close>, \<open>DC_Audit\<close>, \<open>DC_Audited\<close>: inspection and the auditor of \<^verbatim>\<open>coordinator.cpp\<close>;
    what a clean audit means, which findings no run can produce, and how the ledger continues
    across a clean restart.

  \<^item> \<open>DC_Frames\<close>: the frame codec of \<^verbatim>\<open>wire.cpp\<close> and the \<^verbatim>\<open>FrameReader\<close> of \<^verbatim>\<open>net.cpp\<close>; a frame
    has one encoding, and a stream yields its frames however it is cut into reads.
  \<^item> \<open>DC_Messages\<close>, \<open>DC_Render\<close>: the rest of \<^verbatim>\<open>wire.cpp\<close>; the payload of every message with
    what its decoder returns, and the texts of the queries.
  \<^item> \<open>DC_Service\<close>: \<^verbatim>\<open>dc_coordinator.cpp\<close>; connections, the dispatch of a frame to an operation,
    one pass of the reactor loop and the orderly stop.
  \<^item> \<open>DC_Answers\<close>, \<open>DC_Notices\<close>: what the peers get; requests are answered, a peer that never
    reads is kept, and messages with an unused handle - every notification of a worker, the
    report of a cache miss, the cancellation of the command line - cannot be decoded.
  \<^item> \<open>DC_Serving\<close>: the service as a client of the coordinator; every run of the service, whatever
    bytes it reads, is a run of coordinator operations, so its guarantees hold on the network.

  State and effects.  A coordinator operation is a function from the coordinator
  (\<^verbatim>\<open>Coordinator::Impl\<close>, the record \<open>impl\<close>) to a result and the new coordinator; the mutex
  makes each operation atomic, so an operation is one step.  A C++ reference into a table
  becomes a value that is written back at its key.  A status is a value; an exception of
  the canonical writer is the outcome \<open>Thrown\<close>.  Counters are 64-bit words and wrap; the
  lemmas about fresh identities bound the number of commits by the counter's range.  The
  clock is a field that is constant during an operation.  What the operating system answers
  to a write is read from a list of faults in the store, so every theorem about an operation
  holds for every pattern of failing writes.

  Not modelled: the socket calls of \<^verbatim>\<open>net.cpp\<close> (what they answer in a pass of the loop is an
  argument), processes and workspaces (\<^verbatim>\<open>process.cpp\<close>), threads inside an operation, the
  compilers themselves (\<^verbatim>\<open>compiler.cpp\<close>), and the worker and command line programs.  The smoke test of a report takes its answer as an
  argument.  In \<open>DC_Impl\<close> a payload appended to the journal is kept as a value; \<open>DC_Journal\<close>
  has the bytes.
\<close>

end
